(* ===== verification/Prelude.thy ===== *)
theory Prelude
  imports Complex_Main "HOL-Library.Char_ord" "HOL-Library.List_Lexorder"
    "HOL-Library.Product_Lexorder"
begin

text \<open>
  Shared vocabulary of the development: the controller's errors as values, one
  SQLite transaction as a function on an explicit state, SQL's three-valued
  logic, tables as lists of rows in rowid order, Python's integer formatting,
  and the generic contracts (invariants of a step relation, version counters,
  absorbing states, backoff schedules) that the component theories interpret.
\<close>

named_theorems table_simps
named_theorems op_defs

section \<open>Errors\<close>

text \<open>
  The exceptions of errors.py and the built-in exceptions the controller
  raises. \<open>DatabaseError\<close> is sqlite3's error as it leaves a statement; it never
  leaves a store method, because \<open>connect\<close> translates it.
\<close>

record error_context =
  ec_dependency :: string
  ec_endpoint :: "string option"
  ec_status_code :: "int option"
  ec_retry_after_seconds :: "int option"
  ec_error_code :: "string option"

record merge_blocker =
  mb_kind :: string
  mb_message :: string
  mb_url :: "string option"
  mb_owner :: "string option"
  mb_updated_at :: "string option"
  mb_immediate_exception :: bool

datatype ctl_error =
    ValueError string
  | PyTypeError string
  | PyKeyError string
  | PyAttributeError string
  | PyOverflowError string
  | PyAssertionError string
  | PyRuntimeError string
  | PyPermissionError string
  | ControllerFatalError string
  | RunPolicyError string
  | ReconcileSuperseded string
  | CheckedHeadConflict string
  | UncertainOperation string
  | MergeBlocked merge_blocker
  | DependencyTransientError string error_context
  | DependencyRateLimitedError string error_context
  | DependencyAuthError string error_context
  | DependencyContractError string error_context
  | DatabaseError string
  | OsError int string
  | SupervisorRequestError string

text \<open>\<open>isinstance(exc, DependencyError)\<close> and the class attribute \<open>error_class\<close>.\<close>

fun is_dependency_error :: "ctl_error \<Rightarrow> bool" where
  "is_dependency_error (DependencyTransientError _ _) = True"
| "is_dependency_error (DependencyRateLimitedError _ _) = True"
| "is_dependency_error (DependencyAuthError _ _) = True"
| "is_dependency_error (DependencyContractError _ _) = True"
| "is_dependency_error _ = False"

fun error_class :: "ctl_error \<Rightarrow> string option" where
  "error_class (DependencyTransientError _ _) = Some ''dependency_transient''"
| "error_class (DependencyRateLimitedError _ _) = Some ''dependency_rate_limited''"
| "error_class (DependencyAuthError _ _) = Some ''dependency_auth''"
| "error_class (DependencyContractError _ _) = Some ''dependency_contract''"
| "error_class _ = None"

fun error_context_of :: "ctl_error \<Rightarrow> error_context option" where
  "error_context_of (DependencyTransientError _ c) = Some c"
| "error_context_of (DependencyRateLimitedError _ c) = Some c"
| "error_context_of (DependencyAuthError _ c) = Some c"
| "error_context_of (DependencyContractError _ c) = Some c"
| "error_context_of _ = None"

text \<open>\<open>isinstance(exc, RunPolicyError)\<close>: MergeBlocked is a subclass.\<close>

fun is_run_policy_error :: "ctl_error \<Rightarrow> bool" where
  "is_run_policy_error (RunPolicyError _) = True"
| "is_run_policy_error (MergeBlocked _) = True"
| "is_run_policy_error _ = False"

text \<open>\<open>str(exc)\<close>.\<close>

fun error_message :: "ctl_error \<Rightarrow> string" where
  "error_message (ValueError m) = m"
| "error_message (PyTypeError m) = m"
| "error_message (PyKeyError m) = m"
| "error_message (PyAttributeError m) = m"
| "error_message (PyOverflowError m) = m"
| "error_message (PyAssertionError m) = m"
| "error_message (PyRuntimeError m) = m"
| "error_message (PyPermissionError m) = m"
| "error_message (ControllerFatalError m) = m"
| "error_message (RunPolicyError m) = m"
| "error_message (ReconcileSuperseded m) = m"
| "error_message (CheckedHeadConflict m) = m"
| "error_message (UncertainOperation m) = m"
| "error_message (MergeBlocked b) = mb_message b"
| "error_message (DependencyTransientError m _) = m"
| "error_message (DependencyRateLimitedError m _) = m"
| "error_message (DependencyAuthError m _) = m"
| "error_message (DependencyContractError m _) = m"
| "error_message (DatabaseError m) = m"
| "error_message (OsError _ m) = m"
| "error_message (SupervisorRequestError code) = code"

section \<open>Python values used by the source\<close>

text \<open>\<open>str(n)\<close> of an integer.\<close>

function nat_str :: "nat \<Rightarrow> string" where
  "nat_str n = (if n < 10 then [char_of (48 + n)]
                else nat_str (n div 10) @ [char_of (48 + n mod 10)])"
  by pat_completeness auto
termination by (relation "measure id") auto

declare nat_str.simps [simp del]

definition int_str :: "int \<Rightarrow> string" where
  "int_str i = (if i < 0 then ''-'' @ nat_str (nat (- i)) else nat_str (nat i))"

text \<open>Truthiness of an optional string: \<open>None\<close> and the empty string are false.\<close>

definition truthy_str :: "string option \<Rightarrow> bool" where
  "truthy_str s \<longleftrightarrow> (case s of None \<Rightarrow> False | Some t \<Rightarrow> t \<noteq> [])"

text \<open>An optional string in an f-string.\<close>

definition the_text :: "string option \<Rightarrow> string" where
  "the_text s = (case s of None \<Rightarrow> ''None'' | Some t \<Rightarrow> t)"

text \<open>\<open>x or None\<close> on an optional string.\<close>

definition or_text :: "string option \<Rightarrow> string option" where
  "or_text s = (if truthy_str s then s else None)"

definition starts_with :: "string \<Rightarrow> string \<Rightarrow> bool" where
  "starts_with p s \<longleftrightarrow> take (length p) s = p"

fun contains_str :: "string \<Rightarrow> string \<Rightarrow> bool" where
  "contains_str p [] = (p = [])"
| "contains_str p (c # s) = (starts_with p (c # s) \<or> contains_str p s)"

text \<open>\<open>str.strip()\<close> with Python's whitespace among the code points below 256.\<close>

definition is_space :: "char \<Rightarrow> bool" where
  "is_space c \<longleftrightarrow> c \<in> set [CHR '' '', CHR 0x09, CHR 0x0A, CHR 0x0B, CHR 0x0C, CHR 0x0D,
     CHR 0x1C, CHR 0x1D, CHR 0x1E, CHR 0x1F, CHR 0x85, CHR 0xA0]"

definition strip :: "string \<Rightarrow> string" where
  "strip s = rev (dropWhile is_space (rev (dropWhile is_space s)))"

definition is_lower_hex :: "char \<Rightarrow> bool" where
  "is_lower_hex c \<longleftrightarrow> c \<in> set ''0123456789abcdef''"

text \<open>A 40 character lower-case hexadecimal commit SHA, as models.py's \<open>SHA_PATTERN\<close>
  and the store's \<open>len(..) != 40 or any(character not in ...)\<close> test describe it.\<close>

definition valid_sha :: "string \<Rightarrow> bool" where
  "valid_sha s \<longleftrightarrow> length s = 40 \<and> list_all is_lower_hex s"

section \<open>One SQLite transaction\<close>

text \<open>
  A store operation takes the state and returns a result with the state after
  it. \<open>connect\<close> is store.py's context manager: a body that ends normally is
  committed, a body that raises is rolled back, and sqlite3's own errors leave
  as \<open>ControllerFatalError\<close>.
\<close>

type_synonym 'a res = "ctl_error + 'a"
type_synonym ('s, 'a) op = "'s \<Rightarrow> 'a res \<times> 's"

fun translate_error :: "ctl_error \<Rightarrow> ctl_error" where
  "translate_error (DatabaseError _) = ControllerFatalError ''controller_store_database_error''"
| "translate_error e = e"

definition connect :: "('s, 'a) op \<Rightarrow> ('s, 'a) op" where
  "connect body s = (case body s of
      (Inl e, _) \<Rightarrow> (Inl (translate_error e), s)
    | (Inr v, s') \<Rightarrow> (Inr v, s'))"

lemma connect_error_state: "fst (connect body s) = Inl e \<Longrightarrow> snd (connect body s) = s"
  by (auto simp: connect_def split: prod.splits sum.splits)

lemma connect_ok [simp]: "body s = (Inr v, s') \<Longrightarrow> connect body s = (Inr v, s')"
  by (simp add: connect_def)

lemma connect_raise [simp]:
  "body s = (Inl e, s') \<Longrightarrow> connect body s = (Inl (translate_error e), s)"
  by (simp add: connect_def)

lemma connect_cases:
  assumes "connect body s = (r, t)"
  obtains (commit) v where "r = Inr v" "body s = (Inr v, t)"
    | (rollback) e u where "r = Inl (translate_error e)" "t = s" "body s = (Inl e, u)"
  using assms by (auto simp: connect_def split: prod.splits sum.splits)

text \<open>A state predicate that every committing body keeps is kept by the transaction.\<close>

lemma connect_keeps:
  assumes "P s" and "\<And>v t. body s = (Inr v, t) \<Longrightarrow> P t"
  shows "P (snd (connect body s))"
  using assms by (auto simp: connect_def split: prod.splits sum.splits)

text \<open>
  Operations in sequence: an exception leaves with what was committed before it.
  \<open>on_part\<close> runs an operation of one component inside a larger state.
\<close>

definition then_do :: "('s, 'a) op \<Rightarrow> ('a \<Rightarrow> ('s, 'b) op) \<Rightarrow> ('s, 'b) op" where
  "then_do m f s = (case m s of (Inl e, t) \<Rightarrow> (Inl e, t) | (Inr v, t) \<Rightarrow> f v t)"

definition give :: "'a \<Rightarrow> ('s, 'a) op" where
  "give v s = (Inr v, s)"

definition read_state :: "('s \<Rightarrow> 'a) \<Rightarrow> ('s, 'a) op" where
  "read_state f s = (Inr (f s), s)"

primrec for_each :: "('a \<Rightarrow> ('s, unit) op) \<Rightarrow> 'a list \<Rightarrow> ('s, unit) op" where
  "for_each f [] = give ()"
| "for_each f (x # xs) = then_do (f x) (\<lambda>_. for_each f xs)"

text \<open>\<open>try: m except: handle\<close>, then \<open>f\<close>; a handler raises again what it does not catch.\<close>

definition try_do :: "('s, 'a) op \<Rightarrow> (ctl_error \<Rightarrow> ('s, 'b) op) \<Rightarrow> ('a \<Rightarrow> ('s, 'b) op) \<Rightarrow> ('s, 'b) op" where
  "try_do m handle f s = (case m s of (Inl e, t) \<Rightarrow> handle e t | (Inr v, t) \<Rightarrow> f v t)"

primrec fold_do :: "('a \<Rightarrow> 'b \<Rightarrow> ('s, 'b) op) \<Rightarrow> 'a list \<Rightarrow> 'b \<Rightarrow> ('s, 'b) op" where
  "fold_do f [] acc = give acc"
| "fold_do f (x # xs) acc = then_do (f x acc) (fold_do f xs)"

definition on_part :: "('t \<Rightarrow> 's) \<Rightarrow> ('s \<Rightarrow> 't \<Rightarrow> 't) \<Rightarrow> ('s, 'a) op \<Rightarrow> ('t, 'a) op" where
  "on_part get put m t = (case m (get t) of (r, s) \<Rightarrow> (r, put s t))"

lemma then_do_simps [simp]:
  "m s = (Inl e, t) \<Longrightarrow> then_do m f s = (Inl e, t)"
  "m s = (Inr v, t) \<Longrightarrow> then_do m f s = f v t"
  by (simp_all add: then_do_def)

lemma give_apply [simp]: "give v s = (Inr v, s)"
  by (simp add: give_def)

lemma read_state_apply [simp]: "read_state f s = (Inr (f s), s)"
  by (simp add: read_state_def)

text \<open>A relation that every part keeps and that composes is kept by the sequence.\<close>

definition keeps :: "('s \<Rightarrow> 's \<Rightarrow> bool) \<Rightarrow> ('s, 'a) op \<Rightarrow> bool" where
  "keeps R m \<longleftrightarrow> (\<forall>s. R s (snd (m s)))"

lemma keeps_then_do:
  assumes "\<And>s t u. R s t \<Longrightarrow> R t u \<Longrightarrow> R s u" "keeps R m" "\<And>v. keeps R (f v)"
  shows "keeps R (then_do m f)"
  unfolding keeps_def
proof
  fix s
  obtain r t where m: "m s = (r, t)" by fastforce
  have st: "R s t" using assms(2) m unfolding keeps_def by (metis snd_conv)
  show "R s (snd (then_do m f s))"
  proof (cases r)
    case (Inl e)
    with m st show ?thesis by simp
  next
    case (Inr v)
    have "R t (snd (f v t))" using assms(3) [of v] unfolding keeps_def by blast
    with Inr m assms(1) [OF st] show ?thesis by simp
  qed
qed

lemma keeps_for_each:
  assumes "\<And>s. R s s" "\<And>s t u. R s t \<Longrightarrow> R t u \<Longrightarrow> R s u" "\<And>x. x \<in> set xs \<Longrightarrow> keeps R (f x)"
  shows "keeps R (for_each f xs)"
  using assms(3)
proof (induction xs)
  case Nil with assms(1) show ?case by (simp add: keeps_def)
next
  case (Cons x xs)
  have rest: "keeps R (for_each f xs)" using Cons by simp
  have "keeps R (f x)" using Cons.prems by simp
  with rest show ?case unfolding for_each.simps
    by (intro keeps_then_do [where R = R]) (erule assms(2))
qed

text \<open>A guard that raises is passed exactly when it is false.\<close>

lemma raise_if_iff [op_defs]:
  "(if b then (Inl e, x) else y) = (Inr v, t) \<longleftrightarrow> \<not> b \<and> y = (Inr v, t)"
  by auto

text \<open>Checks run in order; the first one that holds raises its message.\<close>

fun first_error :: "(bool \<times> string) list \<Rightarrow> unit res" where
  "first_error [] = Inr ()"
| "first_error ((bad, msg) # cs) = (if bad then Inl (ValueError msg) else first_error cs)"

lemma first_error_ok: "first_error cs = Inr () \<longleftrightarrow> (\<forall>c \<in> set cs. \<not> fst c)"
  by (induction cs rule: first_error.induct) simp_all

section \<open>SQL's three-valued logic\<close>

text \<open>\<open>None\<close> is SQL's unknown; a WHERE clause selects a row when it is \<open>Some True\<close>.\<close>

type_synonym tvl = "bool option"

definition sql_true :: "tvl \<Rightarrow> bool" where
  "sql_true t \<longleftrightarrow> t = Some True"

definition sql_not :: "tvl \<Rightarrow> tvl" where
  "sql_not t = map_option Not t"

fun sql_and :: "tvl \<Rightarrow> tvl \<Rightarrow> tvl" where
  "sql_and (Some False) _ = Some False"
| "sql_and _ (Some False) = Some False"
| "sql_and (Some True) (Some True) = Some True"
| "sql_and _ _ = None"

fun sql_or :: "tvl \<Rightarrow> tvl \<Rightarrow> tvl" where
  "sql_or (Some True) _ = Some True"
| "sql_or _ (Some True) = Some True"
| "sql_or (Some False) (Some False) = Some False"
| "sql_or _ _ = None"

definition sql_eq :: "'a option \<Rightarrow> 'a option \<Rightarrow> tvl" where
  "sql_eq a b = (case (a, b) of (Some x, Some y) \<Rightarrow> Some (x = y) | _ \<Rightarrow> None)"

definition sql_lt :: "int option \<Rightarrow> int option \<Rightarrow> tvl" where
  "sql_lt a b = (case (a, b) of (Some x, Some y) \<Rightarrow> Some (x < y) | _ \<Rightarrow> None)"

definition sql_le :: "int option \<Rightarrow> int option \<Rightarrow> tvl" where
  "sql_le a b = (case (a, b) of (Some x, Some y) \<Rightarrow> Some (x \<le> y) | _ \<Rightarrow> None)"

definition sql_in :: "'a option \<Rightarrow> 'a list \<Rightarrow> tvl" where
  "sql_in a xs = (case a of None \<Rightarrow> None | Some x \<Rightarrow> Some (x \<in> set xs))"

definition sql_is_null :: "'a option \<Rightarrow> tvl" where
  "sql_is_null a = Some (a = None)"

definition coalesce :: "'a option \<Rightarrow> 'a option \<Rightarrow> 'a option" where
  "coalesce a b = (case a of None \<Rightarrow> b | Some _ \<Rightarrow> a)"

lemma coalesce_simps [simp]:
  "coalesce None b = b" "coalesce (Some x) b = Some x" "coalesce a None = a"
  by (auto simp: coalesce_def split: option.splits)

lemma coalesce_eq_None [simp]: "coalesce a b = None \<longleftrightarrow> a = None \<and> b = None"
  by (auto simp: coalesce_def split: option.splits)

lemma coalesce_ex [simp]: "(\<exists>y. coalesce a b = Some y) \<longleftrightarrow> a \<noteq> None \<or> b \<noteq> None"
  by (auto simp: coalesce_def split: option.splits)

lemmas sql_defs = sql_true_def sql_not_def sql_eq_def sql_lt_def sql_le_def sql_in_def
  sql_is_null_def

lemma sql_true_and [simp]: "sql_true (sql_and a b) \<longleftrightarrow> sql_true a \<and> sql_true b"
  by (cases "(a, b)" rule: sql_and.cases) (auto simp: sql_true_def)

lemma sql_true_or [simp]: "sql_true (sql_or a b) \<longleftrightarrow> sql_true a \<or> sql_true b"
  by (cases "(a, b)" rule: sql_or.cases) (auto simp: sql_true_def)

lemma sql_true_Some [simp]: "sql_true (Some b) \<longleftrightarrow> b"
  by (simp add: sql_true_def)

lemma sql_true_atoms [simp]:
  "sql_true (sql_is_null a) \<longleftrightarrow> a = None"
  "sql_true (sql_not (sql_is_null a)) \<longleftrightarrow> a \<noteq> None"
  "sql_true (sql_in a xs) \<longleftrightarrow> (\<exists>x. a = Some x \<and> x \<in> set xs)"
  "sql_true (sql_not (sql_in a xs)) \<longleftrightarrow> (\<exists>x. a = Some x \<and> x \<notin> set xs)"
  "sql_true (sql_eq a b) \<longleftrightarrow> (\<exists>x. a = Some x \<and> b = Some x)"
  "sql_true (sql_not (sql_eq a b)) \<longleftrightarrow> (\<exists>x y. a = Some x \<and> b = Some y \<and> x \<noteq> y)"
  "sql_true (sql_lt c d) \<longleftrightarrow> (\<exists>x y. c = Some x \<and> d = Some y \<and> x < y)"
  "sql_true (sql_le c d) \<longleftrightarrow> (\<exists>x y. c = Some x \<and> d = Some y \<and> x \<le> y)"
  by (auto simp: sql_defs split: option.splits)

lemma sql_true_map_option [simp]:
  "sql_true (map_option p a) \<longleftrightarrow> (\<exists>x. a = Some x \<and> p x)"
  by (cases a) (auto simp: sql_true_def)

section \<open>Tables\<close>

text \<open>
  A table is the list of its rows in rowid order. A lookup is \<open>find\<close>
  (\<open>fetchone\<close>), UPDATE ... WHERE rewrites the rows it selects, its \<open>rowcount\<close> is
  their number, INSERT appends, ORDER BY is the stable \<open>sort_key\<close>.
\<close>

definition update_where :: "('r \<Rightarrow> bool) \<Rightarrow> ('r \<Rightarrow> 'r) \<Rightarrow> 'r list \<Rightarrow> 'r list" where
  "update_where p f t = map (\<lambda>r. if p r then f r else r) t"

definition delete_where :: "('r \<Rightarrow> bool) \<Rightarrow> 'r list \<Rightarrow> 'r list" where
  "delete_where p t = filter (\<lambda>r. \<not> p r) t"

definition rowcount :: "('r \<Rightarrow> bool) \<Rightarrow> 'r list \<Rightarrow> nat" where
  "rowcount p t = length (filter p t)"

definition order_by :: "('r \<Rightarrow> 'k::linorder) \<Rightarrow> 'r list \<Rightarrow> 'r list" where
  "order_by k t = sort_key k t"

definition first_row :: "'r list \<Rightarrow> 'r option" where
  "first_row t = (case t of [] \<Rightarrow> None | r # _ \<Rightarrow> Some r)"

text \<open>A keyed table holds one row for each key (PRIMARY KEY or UNIQUE column).\<close>

definition unique_on :: "('r \<Rightarrow> 'k) \<Rightarrow> 'r list \<Rightarrow> bool" where
  "unique_on k t \<longleftrightarrow> distinct (map k t)"

lemma set_update_where [table_simps]:
  "r \<in> set (update_where p f t) \<longleftrightarrow>
     (\<exists>q \<in> set t. r = (if p q then f q else q))"
  by (auto simp: update_where_def)

lemma update_where_Nil [simp]: "update_where p f [] = []"
  by (simp add: update_where_def)

lemma update_where_Cons [simp]:
  "update_where p f (r # t) = (if p r then f r else r) # update_where p f t"
  by (simp add: update_where_def)

lemma length_update_where [simp]: "length (update_where p f t) = length t"
  by (simp add: update_where_def)

lemma update_where_append [simp]:
  "update_where p f (a @ b) = update_where p f a @ update_where p f b"
  by (simp add: update_where_def)

lemma map_update_where [table_simps]:
  "(\<And>r. k (f r) = k r) \<Longrightarrow> map k (update_where p f t) = map k t"
  by (simp add: update_where_def)

lemma map_update_where_on:
  "(\<And>r. p r \<Longrightarrow> k (f r) = k r) \<Longrightarrow> map k (update_where p f t) = map k t"
  by (simp add: update_where_def)

lemma find_update_where [table_simps]:
  "(\<And>r. q (f r) = q r) \<Longrightarrow>
     find q (update_where p f t) = map_option (\<lambda>r. if p r then f r else r) (find q t)"
  by (induction t) auto

lemma find_update_where_on:
  "(\<And>r. p r \<Longrightarrow> q (f r) = q r) \<Longrightarrow>
     find q (update_where p f t) = map_option (\<lambda>r. if p r then f r else r) (find q t)"
  by (induction t) auto

lemma find_append [table_simps]:
  "find p (a @ b) = (case find p a of None \<Rightarrow> find p b | Some r \<Rightarrow> Some r)"
  by (induction a) auto

lemma find_SomeD: "find p t = Some r \<Longrightarrow> r \<in> set t \<and> p r"
  by (auto simp: find_Some_iff)

lemma find_None_all: "find p t = None \<longleftrightarrow> (\<forall>r \<in> set t. \<not> p r)"
  by (auto simp: find_None_iff)

lemma unique_on_update_where:
  "unique_on k t \<Longrightarrow> (\<And>r. p r \<Longrightarrow> k (f r) = k r) \<Longrightarrow> unique_on k (update_where p f t)"
  by (simp add: unique_on_def map_update_where_on)

lemma unique_on_insert [table_simps]:
  "unique_on k (t @ [r]) \<longleftrightarrow> unique_on k t \<and> (\<forall>q \<in> set t. k q \<noteq> k r)"
  by (auto simp: unique_on_def image_iff eq_commute)

lemma unique_on_delete: "unique_on k t \<Longrightarrow> unique_on k (delete_where p t)"
  by (induction t) (auto simp: unique_on_def delete_where_def)

lemma unique_on_find:
  "unique_on k t \<Longrightarrow> r \<in> set t \<Longrightarrow> find (\<lambda>q. k q = k r) t = Some r"
  by (induction t) (auto simp: unique_on_def)

lemma unique_on_eq:
  "unique_on k t \<Longrightarrow> r \<in> set t \<Longrightarrow> q \<in> set t \<Longrightarrow> k r = k q \<Longrightarrow> r = q"
  by (auto simp: unique_on_def distinct_map inj_on_def)

lemma rowcount_pos: "rowcount p t \<noteq> 0 \<longleftrightarrow> (\<exists>r \<in> set t. p r)"
  by (auto simp: rowcount_def filter_empty_conv)

lemma rowcount_one:
  assumes "unique_on k t" and "r \<in> set t" and "p r" and "\<And>q. p q \<Longrightarrow> k q = k r"
  shows "rowcount p t = 1"
proof -
  have "p q = (q = r)" if "q \<in> set t" for q
    using assms(3,4) unique_on_eq [OF assms(1,2) that] by metis
  then have "filter p t = filter (\<lambda>q. q = r) t"
    by (intro filter_cong) simp_all
  moreover from assms(1,2) have "length (filter (\<lambda>q. q = r) t) = 1"
    by (induction t) (auto simp: unique_on_def filter_empty_conv)
  ultimately show ?thesis by (simp add: rowcount_def)
qed

section \<open>Contracts shared by the components\<close>

subsection \<open>Reachable states and inductive invariants\<close>

inductive reachable :: "('s \<Rightarrow> bool) \<Rightarrow> ('s \<Rightarrow> 's \<Rightarrow> bool) \<Rightarrow> 's \<Rightarrow> bool"
  for init :: "'s \<Rightarrow> bool" and step :: "'s \<Rightarrow> 's \<Rightarrow> bool" where
  reach_init: "init s \<Longrightarrow> reachable init step s"
| reach_step: "reachable init step s \<Longrightarrow> step s t \<Longrightarrow> reachable init step t"

locale inductive_invariant =
  fixes init :: "'s \<Rightarrow> bool"
    and step :: "'s \<Rightarrow> 's \<Rightarrow> bool"
    and inv :: "'s \<Rightarrow> bool"
  assumes inv_init: "init s \<Longrightarrow> inv s"
    and inv_step: "step s t \<Longrightarrow> inv s \<Longrightarrow> inv t"
begin

lemma reachable_inv: "reachable init step s \<Longrightarrow> inv s"
  by (induction rule: reachable.induct) (auto intro: inv_init inv_step)

lemma steps_inv: "step\<^sup>*\<^sup>* s t \<Longrightarrow> inv s \<Longrightarrow> inv t"
  by (induction rule: rtranclp_induct) (auto intro: inv_step)

end

subsection \<open>Version counters\<close>

text \<open>
  A row guarded by an optimistic version counter: a step that changes what the
  version protects advances the counter. A reader that saw version \<open>n\<close> and finds
  \<open>n\<close> again has seen no change in between.
\<close>

locale versioned =
  fixes step :: "'s \<Rightarrow> 's \<Rightarrow> bool"
    and version :: "'s \<Rightarrow> int option"
    and content :: "'s \<Rightarrow> 'c"
  assumes keeps_or_bumps: "step s t \<Longrightarrow> version s = Some n \<Longrightarrow>
      (version t = Some n \<and> content t = content s) \<or> (\<exists>m > n. version t = Some m)"
begin

lemma version_mono:
  "step\<^sup>*\<^sup>* s t \<Longrightarrow> version s = Some n \<Longrightarrow> \<exists>m \<ge> n. version t = Some m"
proof (induction rule: rtranclp_induct)
  case base then show ?case by auto
next
  case (step t u)
  then obtain m where m: "m \<ge> n" "version t = Some m" by auto
  from keeps_or_bumps [OF step.hyps(2) m(2)] m(1) show ?case by fastforce
qed

lemma same_version_same_content:
  "step\<^sup>*\<^sup>* s t \<Longrightarrow> version s = Some n \<Longrightarrow> version t = Some n \<Longrightarrow> content t = content s"
proof (induction rule: rtranclp_induct)
  case base then show ?case by simp
next
  case (step t u)
  obtain m where m: "m \<ge> n" "version t = Some m"
    using version_mono [OF step.hyps(1) step.prems(1)] by auto
  from keeps_or_bumps [OF step.hyps(2) m(2)] step.prems(2) m(1)
  have "m = n \<and> content u = content t" by fastforce
  with m step show ?case by simp
qed

end

subsection \<open>Absorbing states\<close>

locale absorbing =
  fixes step :: "'s \<Rightarrow> 's \<Rightarrow> bool"
    and final :: "'s \<Rightarrow> bool"
    and obs :: "'s \<Rightarrow> 'o"
  assumes final_step: "step s t \<Longrightarrow> final s \<Longrightarrow> final t \<and> obs t = obs s"
begin

lemma final_forever: "step\<^sup>*\<^sup>* s t \<Longrightarrow> final s \<Longrightarrow> final t \<and> obs t = obs s"
  by (induction rule: rtranclp_induct) (auto dest: final_step)

end

subsection \<open>Exponential backoff\<close>

text \<open>
  A retry schedule: the delay after the first failure, doubled by every further
  one up to a cap. The laws are stated for the schedules the configuration
  admits (a positive first delay within the cap).
\<close>

locale backoff =
  fixes delay :: "'a::linordered_idom \<Rightarrow> 'a \<Rightarrow> nat \<Rightarrow> 'a"
  assumes delay_first: "0 < initial \<Longrightarrow> initial \<le> cap \<Longrightarrow> delay initial cap 0 = initial"
    and delay_next: "0 < initial \<Longrightarrow> initial \<le> cap \<Longrightarrow>
      delay initial cap (Suc k) = min cap (2 * delay initial cap k)"
begin

lemma delay_range:
  assumes "0 < initial" "initial \<le> cap"
  shows "initial \<le> delay initial cap k \<and> delay initial cap k \<le> cap"
proof (induction k)
  case 0 with delay_first [OF assms] assms show ?case by simp
next
  case (Suc k)
  from Suc.IH assms have "initial \<le> 2 * delay initial cap k" by linarith
  with delay_next [OF assms, of k] assms show ?case by simp
qed

lemma delay_grows:
  assumes "0 < initial" "initial \<le> cap"
  shows "delay initial cap k \<le> delay initial cap (Suc k)"
  using delay_range [OF assms, of k] delay_next [OF assms, of k] assms by simp

lemma delay_mono:
  assumes "0 < initial" "initial \<le> cap" "j \<le> k"
  shows "delay initial cap j \<le> delay initial cap k"
  using lift_Suc_mono_le [of "delay initial cap", OF delay_grows [OF assms(1,2)] assms(3)] .

lemma delay_exact:
  assumes "0 < initial" "initial \<le> cap"
  shows "delay initial cap k = min cap (initial * 2 ^ k)"
proof (induction k)
  case 0 with delay_first [OF assms] assms show ?case by simp
next
  case (Suc k)
  from assms have "0 < cap" by linarith
  with Suc.IH delay_next [OF assms, of k] show ?case by (auto simp: min_def mult_ac)
qed

lemma delay_capped:
  assumes "0 < initial" "initial \<le> cap" "cap \<le> initial * 2 ^ k"
  shows "delay initial cap k = cap"
  using delay_exact [OF assms(1,2), of k] assms(3) by simp

end

end
