(* ===== verification/Run_Control.thy ===== *)
theory Run_Control
  imports Prelude
begin

text \<open>
  The run state machine of store.py: the tables run_control, abort_requests and
  merge_wait, and every operation that reads or writes them
  (\<open>ensure_run_control\<close>, \<open>transition_run\<close>, \<open>mark_completed\<close>,
  \<open>mark_flow_completed\<close>, \<open>set_run_exception\<close>, \<open>create_abort_request\<close>,
  \<open>confirm_abort_request\<close>, \<open>mark_aborting\<close>, \<open>finish_abort\<close>, the merge-wait
  operations and the run queries). \<open>now\<close> is the value of \<open>int(time.time())\<close>.
\<close>

section \<open>State\<close>

record rc_row =
  rc_run_key :: string
  rc_state :: string
  rc_state_version :: int
  rc_terminal_at :: "int option"
  rc_last_transition_reason :: "string option"
  rc_next_retry_at :: "int option"
  rc_compliance :: "string option"
  rc_completion_source :: "string option"
  rc_checked_head :: "string option"
  rc_merge_commit_sha :: "string option"
  rc_abort_requested_by :: "string option"
  rc_abort_reason :: "string option"
  rc_abort_requested_at :: "int option"
  rc_aborted_at :: "int option"
  rc_updated_at :: int

record ab_row =
  ab_request_id :: string
  ab_run_key :: string
  ab_token_hash :: string
  ab_sender :: string
  ab_chat_id :: string
  ab_thread_id :: "string option"
  ab_reason :: string
  ab_expires_at :: int
  ab_status :: string
  ab_confirm_message_id :: "string option"
  ab_created_at :: int
  ab_updated_at :: int

record mw_row =
  mw_run_key :: string
  mw_mr_iid :: "int option"
  mw_head_sha :: "string option"
  mw_blocker_kind :: string
  mw_blocker :: string
  mw_blocker_url :: "string option"
  mw_blocker_owner :: "string option"
  mw_blocker_updated_at :: "string option"
  mw_first_seen_at :: int
  mw_last_checked_at :: int
  mw_next_retry_at :: int

record control_db =
  run_control_tbl :: "rc_row list"
  abort_requests_tbl :: "ab_row list"
  merge_wait_tbl :: "mw_row list"

definition TERMINAL_RUN_STATES :: "string list" where
  "TERMINAL_RUN_STATES =
     [''completed'', ''completed_ready'', ''completed_with_findings'',
      ''completed_test_failed'', ''aborted'', ''completed_before_abort'']"

definition RUN_STATES :: "string list" where
  "RUN_STATES =
     [''active'', ''transition_pending'', ''human_blocked'', ''retry_wait'',
      ''dependency_degraded'', ''merge_wait'', ''abort_requested'', ''aborting'',
      ''exception''] @ TERMINAL_RUN_STATES"

definition abort_states :: "string list" where
  "abort_states = [''abort_requested'', ''aborting'']"

definition retry_states :: "string list" where
  "retry_states = [''dependency_degraded'', ''merge_wait'', ''retry_wait'']"

definition flow_states :: "string list" where
  "flow_states = [''completed_ready'', ''completed_with_findings'', ''completed_test_failed'']"

section \<open>Operations\<close>

definition ensure_run_control :: "int \<Rightarrow> string \<Rightarrow> (control_db, unit) op" where
  "ensure_run_control now k = connect (\<lambda>db.
     (Inr (), if (\<exists>r \<in> set (run_control_tbl db). rc_run_key r = k) then db
      else db\<lparr>run_control_tbl := run_control_tbl db @
        [\<lparr>rc_run_key = k, rc_state = ''active'', rc_state_version = 1, rc_terminal_at = None,
          rc_last_transition_reason = None, rc_next_retry_at = None, rc_compliance = None,
          rc_completion_source = None, rc_checked_head = None, rc_merge_commit_sha = None,
          rc_abort_requested_by = None, rc_abort_reason = None, rc_abort_requested_at = None,
          rc_aborted_at = None, rc_updated_at = now\<rparr>]\<rparr>))"

definition run_control :: "control_db \<Rightarrow> string \<Rightarrow> rc_row option" where
  "run_control db k = find (\<lambda>r. rc_run_key r = k) (run_control_tbl db)"

text \<open>The keyword arguments of \<open>transition_run\<close>.\<close>

record transition_args =
  ta_expected_states :: "string list"
  ta_new_state :: string
  ta_reason :: string
  ta_expected_version :: "int option"
  ta_next_retry_at :: "int option"
  ta_compliance :: "string option"
  ta_completion_source :: "string option"
  ta_checked_head :: "string option"
  ta_merge_commit_sha :: "string option"

definition apply_transition :: "int \<Rightarrow> transition_args \<Rightarrow> rc_row \<Rightarrow> rc_row" where
  "apply_transition now a r = r\<lparr>
     rc_state := ta_new_state a,
     rc_state_version := rc_state_version r + 1,
     rc_terminal_at :=
       (if ta_new_state a \<in> set TERMINAL_RUN_STATES then Some now else None),
     rc_last_transition_reason := Some (take 1000 (ta_reason a)),
     rc_next_retry_at := ta_next_retry_at a,
     rc_compliance := coalesce (ta_compliance a) (rc_compliance r),
     rc_completion_source := coalesce (ta_completion_source a) (rc_completion_source r),
     rc_checked_head := coalesce (ta_checked_head a) (rc_checked_head r),
     rc_merge_commit_sha := coalesce (ta_merge_commit_sha a) (rc_merge_commit_sha r),
     rc_updated_at := now\<rparr>"


definition transition_write ::
  "int \<Rightarrow> string \<Rightarrow> transition_args \<Rightarrow> int \<Rightarrow> (control_db, rc_row) op" where
  "transition_write now k a version db =
     (let sel = (\<lambda>r. rc_run_key r = k \<and> rc_state_version r = version);
          db' = db\<lparr>run_control_tbl :=
                  update_where sel (apply_transition now a) (run_control_tbl db)\<rparr>
      in if rowcount sel (run_control_tbl db) \<noteq> 1
         then (Inl (ValueError (''stale_run_version:'' @ k)), db')
         else case run_control db' k of
                None \<Rightarrow> (Inl (PyTypeError ''dict(None)''), db')
              | Some r \<Rightarrow> (Inr r, db'))"

definition transition_body :: "int \<Rightarrow> string \<Rightarrow> transition_args \<Rightarrow> (control_db, rc_row) op" where
  "transition_body now k a db =
     (case run_control db k of
        None \<Rightarrow> (Inl (ValueError (''unknown_run:'' @ k)), db)
      | Some row \<Rightarrow>
          if rc_state row \<notin> set (ta_expected_states a)
          then (Inl (ValueError (''invalid_run_transition:'' @ rc_state row @ ''->'' @
                  ta_new_state a)), db)
          else case ta_expected_version a of
            Some v \<Rightarrow>
              if rc_state_version row \<noteq> v
              then (Inl (ValueError (''stale_run_version:'' @ int_str v @ ''!='' @
                      int_str (rc_state_version row))), db)
              else transition_write now k a (rc_state_version row) db
          | None \<Rightarrow> transition_write now k a (rc_state_version row) db)"

definition transition_run :: "int \<Rightarrow> string \<Rightarrow> transition_args \<Rightarrow> (control_db, rc_row) op" where
  "transition_run now k a db =
     (if ta_new_state a \<notin> set RUN_STATES
      then (Inl (ValueError (''invalid_run_state:'' @ ta_new_state a)), db)
      else connect (transition_body now k a) db)"

definition completed_args ::
  "bool \<Rightarrow> string \<Rightarrow> string \<Rightarrow> string option \<Rightarrow> string \<Rightarrow> transition_args" where
  "completed_args external compliance checked_head merge_commit_sha reason =
     \<lparr>ta_expected_states = [''active'', ''transition_pending'', ''human_blocked'',
        ''retry_wait'', ''dependency_degraded'', ''merge_wait'', ''exception''],
      ta_new_state = ''completed'', ta_reason = reason, ta_expected_version = None,
      ta_next_retry_at = None, ta_compliance = Some compliance,
      ta_completion_source = Some (if external then ''external'' else ''controller''),
      ta_checked_head = Some checked_head, ta_merge_commit_sha = merge_commit_sha\<rparr>"

definition mark_completed ::
  "int \<Rightarrow> string \<Rightarrow> bool \<Rightarrow> string \<Rightarrow> string \<Rightarrow> string option \<Rightarrow> string \<Rightarrow> (control_db, rc_row) op" where
  "mark_completed now k external compliance checked_head merge_commit_sha reason db =
     (if \<not> valid_sha checked_head
      then (Inl (ValueError ''completed run requires a valid checked head SHA''), db)
      else if (case merge_commit_sha of None \<Rightarrow> False | Some m \<Rightarrow> \<not> valid_sha m)
      then (Inl (ValueError ''completed run has an invalid merge commit SHA''), db)
      else case run_control db k of
        None \<Rightarrow> (Inl (ValueError (''unknown_run:'' @ k)), db)
      | Some current \<Rightarrow>
          if rc_state current \<in> set TERMINAL_RUN_STATES then (Inr current, db)
          else transition_run now k (completed_args external compliance checked_head merge_commit_sha reason) db)"

definition flow_compliance :: "string \<Rightarrow> string option" where
  "flow_compliance = map_of [(''completed_ready'', ''verified''),
     (''completed_with_findings'', ''unverified''), (''completed_test_failed'', ''unverified'')]"

definition flow_args :: "string \<Rightarrow> string \<Rightarrow> string \<Rightarrow> string \<Rightarrow> transition_args" where
  "flow_args state compliance checked_head reason =
     \<lparr>ta_expected_states = [''active'', ''transition_pending'', ''human_blocked'',
        ''retry_wait'', ''dependency_degraded'', ''merge_wait''],
      ta_new_state = state, ta_reason = reason, ta_expected_version = None,
      ta_next_retry_at = None, ta_compliance = Some compliance,
      ta_completion_source = Some ''controller'',
      ta_checked_head = Some checked_head, ta_merge_commit_sha = None\<rparr>"

definition mark_flow_completed ::
  "int \<Rightarrow> string \<Rightarrow> string \<Rightarrow> string \<Rightarrow> string \<Rightarrow> (control_db, rc_row) op" where
  "mark_flow_completed now k state checked_head reason db =
     (case flow_compliance state of
        None \<Rightarrow> (Inl (ValueError (''invalid flow terminal state '' @ state)), db)
      | Some compliance \<Rightarrow>
          if \<not> valid_sha checked_head
          then (Inl (ValueError ''flow completion requires a valid checked head SHA''), db)
          else case run_control db k of
            None \<Rightarrow> (Inl (ValueError (''unknown_run:'' @ k)), db)
          | Some current \<Rightarrow>
              if rc_state current \<in> set TERMINAL_RUN_STATES then (Inr current, db)
              else transition_run now k (flow_args state compliance checked_head reason) db)"

definition exception_args :: "string \<Rightarrow> transition_args" where
  "exception_args reason =
     \<lparr>ta_expected_states = [''active'', ''transition_pending'', ''human_blocked'',
        ''retry_wait'', ''dependency_degraded'', ''merge_wait''],
      ta_new_state = ''exception'', ta_reason = reason, ta_expected_version = None,
      ta_next_retry_at = None, ta_compliance = None, ta_completion_source = None,
      ta_checked_head = None, ta_merge_commit_sha = None\<rparr>"

definition set_run_exception :: "int \<Rightarrow> string \<Rightarrow> string \<Rightarrow> (control_db, rc_row) op" where
  "set_run_exception now k reason db =
     (case run_control db k of
        None \<Rightarrow> (Inl (ValueError (''unknown_run:'' @ k)), db)
      | Some current \<Rightarrow>
          if rc_state current = ''exception'' then (Inr current, db)
          else transition_run now k (exception_args reason) db)"

text \<open>\<open>next_retry_at IS NULL OR next_retry_at <= now\<close>.\<close>

definition retry_due :: "int \<Rightarrow> rc_row \<Rightarrow> bool" where
  "retry_due now r \<longleftrightarrow> sql_true (sql_or (sql_is_null (rc_next_retry_at r))
                                        (sql_le (rc_next_retry_at r) (Some now)))"

definition active_reconcile_run_keys :: "int \<Rightarrow> control_db \<Rightarrow> string list" where
  "active_reconcile_run_keys now db =
     map rc_run_key (order_by (\<lambda>r. (rc_updated_at r, rc_run_key r))
       (filter (\<lambda>r. rc_state r \<in> set [''active'', ''transition_pending'', ''retry_wait'',
                    ''dependency_degraded'', ''merge_wait''] \<and> retry_due now r)
         (run_control_tbl db)))"

definition active_abort_run_keys :: "int \<Rightarrow> control_db \<Rightarrow> string list" where
  "active_abort_run_keys now db =
     map rc_run_key (order_by rc_updated_at
       (filter (\<lambda>r. rc_state r \<in> set abort_states \<and> retry_due now r) (run_control_tbl db)))"

section \<open>Human abort\<close>

definition abort_entry_states :: "string list" where
  "abort_entry_states = [''active'', ''dependency_degraded'', ''merge_wait'', ''exception'']"

text \<open>The second transaction of \<open>create_abort_request\<close>; the first is
  \<open>ensure_run_control\<close>. A duplicate request id breaks the primary key.\<close>

definition create_abort_body ::
  "int \<Rightarrow> string \<Rightarrow> string \<Rightarrow> string \<Rightarrow> string \<Rightarrow> string \<Rightarrow> string option \<Rightarrow> string \<Rightarrow> int \<Rightarrow>
   (control_db, ab_row) op" where
  "create_abort_body now request_id k token_hash sender chat_id thread_id reason expires_at db =
     (case run_control db k of
        None \<Rightarrow> (Inl (ValueError (''unknown run '' @ k)), db)
      | Some control \<Rightarrow>
          if rc_state control \<notin> set abort_entry_states
          then (Inl (ValueError (''run '' @ k @ '' cannot request abort from '' @
                  rc_state control)), db)
          else
            let pend = update_where (\<lambda>r. ab_run_key r = k \<and> ab_status r = ''pending'')
                  (\<lambda>r. r\<lparr>ab_status := ''expired'', ab_updated_at := now\<rparr>) (abort_requests_tbl db);
                row = \<lparr>ab_request_id = request_id, ab_run_key = k, ab_token_hash = token_hash,
                  ab_sender = sender, ab_chat_id = chat_id, ab_thread_id = thread_id,
                  ab_reason = reason, ab_expires_at = expires_at, ab_status = ''pending'',
                  ab_confirm_message_id = None, ab_created_at = now, ab_updated_at = now\<rparr>
            in if \<exists>r \<in> set pend. ab_request_id r = request_id
               then (Inl (DatabaseError ''UNIQUE constraint failed''), db\<lparr>abort_requests_tbl := pend\<rparr>)
               else (Inr row, db\<lparr>abort_requests_tbl := pend @ [row]\<rparr>))"

definition create_abort_request ::
  "int \<Rightarrow> string \<Rightarrow> string \<Rightarrow> string \<Rightarrow> string \<Rightarrow> string \<Rightarrow> string option \<Rightarrow> string \<Rightarrow> int \<Rightarrow>
   (control_db, ab_row) op" where
  "create_abort_request now request_id k token_hash sender chat_id thread_id reason expires_at db =
     connect (create_abort_body now request_id k token_hash sender chat_id thread_id reason expires_at)
       (snd (ensure_run_control now k db))"

text \<open>\<open>SELECT ... ORDER BY created_at DESC LIMIT 1\<close> over the pending rows of a run.\<close>

definition latest_pending :: "string \<Rightarrow> ab_row list \<Rightarrow> ab_row option" where
  "latest_pending k t = first_row (order_by (\<lambda>r. - ab_created_at r)
     (filter (\<lambda>r. ab_run_key r = k \<and> ab_status r = ''pending'') t))"

definition request_abort :: "int \<Rightarrow> string \<Rightarrow> string \<Rightarrow> rc_row \<Rightarrow> rc_row" where
  "request_abort now sender reason r = r\<lparr>
     rc_state := ''abort_requested'', rc_abort_requested_by := Some sender,
     rc_abort_reason := Some reason, rc_abort_requested_at := Some now,
     rc_state_version := rc_state_version r + 1,
     rc_last_transition_reason := Some ''human_abort_confirmed'',
     rc_terminal_at := None, rc_next_retry_at := None, rc_updated_at := now\<rparr>"

text \<open>
  The transaction of \<open>confirm_abort_request\<close>: the control row it read last is the
  result; the check of that row happens after the commit.
\<close>

definition confirm_abort_body ::
  "int \<Rightarrow> string \<Rightarrow> string \<Rightarrow> string \<Rightarrow> string \<Rightarrow> string option \<Rightarrow> string \<Rightarrow>
   (control_db, rc_row option) op" where
  "confirm_abort_body now k token_hash sender chat_id thread_id message_id db =
     (case latest_pending k (abort_requests_tbl db) of
        None \<Rightarrow> (Inl (ValueError ''no pending abort request''), db)
      | Some row \<Rightarrow>
          if ab_expires_at row < now
          then (Inl (ValueError ''abort confirmation token expired''),
                db\<lparr>abort_requests_tbl := update_where (\<lambda>r. ab_request_id r = ab_request_id row)
                  (\<lambda>r. r\<lparr>ab_status := ''expired'', ab_updated_at := now\<rparr>) (abort_requests_tbl db)\<rparr>)
          else if ab_token_hash row \<noteq> token_hash \<or> ab_sender row \<noteq> sender \<or>
                  ab_chat_id row \<noteq> chat_id \<or> or_text (ab_thread_id row) \<noteq> or_text thread_id
          then (Inl (PyPermissionError
                  ''abort confirmation must match token, requester, and channel''), db)
          else
            let db' = db\<lparr>
              abort_requests_tbl := update_where (\<lambda>r. ab_request_id r = ab_request_id row)
                (\<lambda>r. r\<lparr>ab_status := ''confirmed'', ab_confirm_message_id := Some message_id,
                      ab_updated_at := now\<rparr>) (abort_requests_tbl db),
              run_control_tbl := update_where
                (\<lambda>r. rc_run_key r = k \<and> rc_state r \<in> set abort_entry_states)
                (request_abort now sender (ab_reason row)) (run_control_tbl db)\<rparr>
            in (Inr (run_control db' k), db'))"

definition confirm_abort_request ::
  "int \<Rightarrow> string \<Rightarrow> string \<Rightarrow> string \<Rightarrow> string \<Rightarrow> string option \<Rightarrow> string \<Rightarrow>
   (control_db, rc_row) op" where
  "confirm_abort_request now k token_hash sender chat_id thread_id message_id db =
     (case connect (confirm_abort_body now k token_hash sender chat_id thread_id message_id) db of
        (Inl e, db') \<Rightarrow> (Inl e, db')
      | (Inr control, db') \<Rightarrow>
          (case control of
             None \<Rightarrow> (Inl (ValueError ''run is no longer active''), db')
           | Some c \<Rightarrow> if rc_state c \<noteq> ''abort_requested''
                       then (Inl (ValueError ''run is no longer active''), db')
                       else (Inr c, db')))"

definition mark_aborting :: "int \<Rightarrow> string \<Rightarrow> (control_db, unit) op" where
  "mark_aborting now k = connect (\<lambda>db. (Inr (), db\<lparr>run_control_tbl := update_where
     (\<lambda>r. rc_run_key r = k \<and> rc_state r = ''abort_requested'')
     (\<lambda>r. r\<lparr>rc_state := ''aborting'', rc_state_version := rc_state_version r + 1,
           rc_last_transition_reason := Some ''abort_execution_started'',
           rc_terminal_at := None, rc_next_retry_at := None, rc_updated_at := now\<rparr>)
     (run_control_tbl db)\<rparr>))"

definition apply_finish_abort ::
  "int \<Rightarrow> string \<Rightarrow> string option \<Rightarrow> string option \<Rightarrow> rc_row \<Rightarrow> rc_row" where
  "apply_finish_abort now state checked_head merge_commit_sha r = r\<lparr>
     rc_state := state, rc_aborted_at := Some now, rc_terminal_at := Some now,
     rc_state_version := rc_state_version r + 1,
     rc_last_transition_reason := Some (if state = ''completed_before_abort''
        then ''merged_before_abort'' else ''human_abort_completed''),
     rc_checked_head := coalesce checked_head (rc_checked_head r),
     rc_merge_commit_sha := coalesce merge_commit_sha (rc_merge_commit_sha r),
     rc_next_retry_at := None, rc_updated_at := now\<rparr>"

definition finish_abort ::
  "int \<Rightarrow> string \<Rightarrow> string \<Rightarrow> string option \<Rightarrow> string option \<Rightarrow> (control_db, unit) op" where
  "finish_abort now k state checked_head merge_commit_sha db =
     (if state \<notin> set [''aborted'', ''completed_before_abort'']
      then (Inl (ValueError (''invalid abort terminal state '' @ state)), db)
      else if state = ''completed_before_abort'' \<and>
              (case checked_head of None \<Rightarrow> True | Some h \<Rightarrow> \<not> valid_sha h)
      then (Inl (ValueError ''completed_before_abort requires a valid checked head SHA''), db)
      else if (case merge_commit_sha of None \<Rightarrow> False | Some m \<Rightarrow> \<not> valid_sha m)
      then (Inl (ValueError ''abort terminal has an invalid merge commit SHA''), db)
      else connect (\<lambda>db.
        let sel = (\<lambda>r. rc_run_key r = k \<and> rc_state r \<in> set abort_states);
            db' = db\<lparr>run_control_tbl := update_where sel
              (apply_finish_abort now state checked_head merge_commit_sha) (run_control_tbl db)\<rparr>
        in (Inr (), if rowcount sel (run_control_tbl db) = 1
                    then db'\<lparr>merge_wait_tbl := delete_where (\<lambda>r. mw_run_key r = k) (merge_wait_tbl db')\<rparr>
                    else db')) db)"

section \<open>Merge wait\<close>

text \<open>The blocker arguments of \<open>set_merge_wait\<close>; the boolean result is \<open>changed\<close>.\<close>

definition set_merge_wait ::
  "int \<Rightarrow> string \<Rightarrow> int \<Rightarrow> string option \<Rightarrow> merge_blocker \<Rightarrow> int \<Rightarrow> (control_db, mw_row \<times> bool) op" where
  "set_merge_wait now k mr_iid head_sha b retry_seconds = connect (\<lambda>db.
     let previous = find (\<lambda>r. mw_run_key r = k) (merge_wait_tbl db);
         same_identity = (case previous of None \<Rightarrow> False
           | Some p \<Rightarrow> mw_head_sha p = head_sha \<and> mw_blocker_kind p = mb_kind b);
         same_evidence = (case previous of None \<Rightarrow> False
           | Some p \<Rightarrow> same_identity \<and> mw_blocker p = take 1000 (mb_message b) \<and>
               mw_blocker_url p = mb_url b \<and> mw_blocker_owner p = mb_owner b \<and>
               mw_blocker_updated_at p = mb_updated_at b);
         first_seen_at = (case previous of None \<Rightarrow> now
           | Some p \<Rightarrow> if same_identity then mw_first_seen_at p else now);
         row = \<lparr>mw_run_key = k, mw_mr_iid = Some mr_iid, mw_head_sha = head_sha,
           mw_blocker_kind = mb_kind b, mw_blocker = take 1000 (mb_message b),
           mw_blocker_url = mb_url b, mw_blocker_owner = mb_owner b,
           mw_blocker_updated_at = mb_updated_at b, mw_first_seen_at = first_seen_at,
           mw_last_checked_at = now, mw_next_retry_at = now + retry_seconds\<rparr>
     in (Inr (row, \<not> same_evidence),
         db\<lparr>merge_wait_tbl := (case previous of None \<Rightarrow> merge_wait_tbl db @ [row]
            | Some _ \<Rightarrow> update_where (\<lambda>r. mw_run_key r = k) (\<lambda>_. row) (merge_wait_tbl db))\<rparr>))"

definition clear_merge_wait :: "string \<Rightarrow> (control_db, unit) op" where
  "clear_merge_wait k = connect (\<lambda>db. (Inr (),
     db\<lparr>merge_wait_tbl := delete_where (\<lambda>r. mw_run_key r = k) (merge_wait_tbl db)\<rparr>))"

definition merge_wait :: "control_db \<Rightarrow> string \<Rightarrow> mw_row option" where
  "merge_wait db k = find (\<lambda>r. mw_run_key r = k) (merge_wait_tbl db)"

end
