(* ===== verification/Run_Checks.thy ===== *)
theory Run_Checks
  imports Run_Control
begin

text \<open>
  The store's startup validation of run_control (\<open>_validate_existing\<close>): each
  query is its WHERE expression in SQL's three-valued logic. \<open>rc_ok\<close> is the row
  invariant in two-valued logic; every operation of \<open>Run_Control\<close>, called the way
  the service calls it, keeps it, so the controller's own writes always pass the
  checks of the next start.
\<close>

section \<open>The checks\<close>

definition abort_family :: "string list" where
  "abort_family = [''abort_requested'', ''aborting'', ''aborted'', ''completed_before_abort'']"

lemmas state_list_defs = RUN_STATES_def TERMINAL_RUN_STATES_def abort_states_def retry_states_def
  flow_states_def abort_family_def abort_entry_states_def

definition state_in :: "string list \<Rightarrow> rc_row \<Rightarrow> tvl" where
  "state_in xs r = sql_in (Some (rc_state r)) xs"

text \<open>\<open>h IS NULL OR length(h) != 40 OR h GLOB '*[^0-9a-f]*'\<close>\<close>

definition bad_head :: "string option \<Rightarrow> tvl" where
  "bad_head h = sql_or (sql_is_null h)
     (sql_or (sql_not (sql_eq (map_option length h) (Some 40)))
             (map_option (\<lambda>s. \<not> list_all is_lower_hex s) h))"

definition chk_unknown_run_state :: "rc_row \<Rightarrow> tvl" where
  "chk_unknown_run_state r = sql_not (state_in RUN_STATES r)"

definition chk_invalid_state_version :: "rc_row \<Rightarrow> tvl" where
  "chk_invalid_state_version r = sql_lt (Some (rc_state_version r)) (Some 1)"

definition chk_terminal_timestamp_mismatch :: "rc_row \<Rightarrow> tvl" where
  "chk_terminal_timestamp_mismatch r =
     sql_or (sql_and (state_in TERMINAL_RUN_STATES r) (sql_is_null (rc_terminal_at r)))
            (sql_and (sql_not (state_in TERMINAL_RUN_STATES r))
                     (sql_not (sql_is_null (rc_terminal_at r))))"

definition chk_retry_schedule_mismatch :: "rc_row \<Rightarrow> tvl" where
  "chk_retry_schedule_mismatch r =
     sql_or (sql_and (state_in retry_states r) (sql_is_null (rc_next_retry_at r)))
            (sql_and (sql_not (state_in (retry_states @ abort_states) r))
                     (sql_not (sql_is_null (rc_next_retry_at r))))"

definition chk_completed_metadata_missing :: "rc_row \<Rightarrow> tvl" where
  "chk_completed_metadata_missing r =
     sql_and (state_in [''completed''] r)
       (sql_or (sql_not (sql_in (rc_compliance r) [''verified'', ''unverified'']))
       (sql_or (sql_not (sql_in (rc_completion_source r) [''controller'', ''external'']))
               (bad_head (rc_checked_head r))))"

definition chk_flow_completion_metadata_missing :: "rc_row \<Rightarrow> tvl" where
  "chk_flow_completion_metadata_missing r =
     sql_and (state_in flow_states r)
       (sql_or (sql_not (sql_in (rc_compliance r) [''verified'', ''unverified'']))
       (sql_or (sql_not (sql_eq (rc_completion_source r) (Some ''controller'')))
       (sql_or (bad_head (rc_checked_head r))
               (sql_not (sql_is_null (rc_merge_commit_sha r))))))"

definition chk_abort_metadata_missing :: "rc_row \<Rightarrow> tvl" where
  "chk_abort_metadata_missing r =
     sql_and (state_in abort_family r)
       (sql_or (sql_is_null (rc_abort_requested_by r))
       (sql_or (sql_eq (rc_abort_requested_by r) (Some ''''))
       (sql_or (sql_is_null (rc_abort_reason r))
       (sql_or (sql_eq (rc_abort_reason r) (Some ''''))
               (sql_is_null (rc_abort_requested_at r))))))"

definition chk_abort_terminal_timestamp_missing :: "rc_row \<Rightarrow> tvl" where
  "chk_abort_terminal_timestamp_missing r =
     sql_and (state_in [''aborted'', ''completed_before_abort''] r) (sql_is_null (rc_aborted_at r))"

definition chk_completed_before_abort_head_missing :: "rc_row \<Rightarrow> tvl" where
  "chk_completed_before_abort_head_missing r =
     sql_and (state_in [''completed_before_abort''] r) (bad_head (rc_checked_head r))"

definition chk_invalid_merge_commit_sha :: "rc_row \<Rightarrow> tvl" where
  "chk_invalid_merge_commit_sha r =
     sql_and (sql_not (sql_is_null (rc_merge_commit_sha r)))
       (sql_or (sql_not (sql_eq (map_option length (rc_merge_commit_sha r)) (Some 40)))
               (map_option (\<lambda>s. \<not> list_all is_lower_hex s) (rc_merge_commit_sha r)))"

definition invariant_checks :: "(string \<times> (rc_row \<Rightarrow> tvl)) list" where
  "invariant_checks =
     [(''unknown_run_state'', chk_unknown_run_state),
      (''invalid_state_version'', chk_invalid_state_version),
      (''terminal_timestamp_mismatch'', chk_terminal_timestamp_mismatch),
      (''retry_schedule_mismatch'', chk_retry_schedule_mismatch),
      (''completed_metadata_missing'', chk_completed_metadata_missing),
      (''flow_completion_metadata_missing'', chk_flow_completion_metadata_missing),
      (''abort_metadata_missing'', chk_abort_metadata_missing),
      (''abort_terminal_timestamp_missing'', chk_abort_terminal_timestamp_missing),
      (''completed_before_abort_head_missing'', chk_completed_before_abort_head_missing),
      (''invalid_merge_commit_sha'', chk_invalid_merge_commit_sha)]"

text \<open>\<open>for code, query in invariant_checks.items()\<close>: the first query that selects a row raises.\<close>

definition check_run_control :: "control_db \<Rightarrow> unit res" where
  "check_run_control db =
     (case find (\<lambda>(code, q). \<exists>r \<in> set (run_control_tbl db). sql_true (q r)) invariant_checks of
        None \<Rightarrow> Inr ()
      | Some (code, _) \<Rightarrow> Inl (ControllerFatalError (''controller_store_invariant_failed:'' @ code)))"

section \<open>The row invariant\<close>

definition sha_ok :: "string option \<Rightarrow> bool" where
  "sha_ok h \<longleftrightarrow> (case h of None \<Rightarrow> False | Some s \<Rightarrow> valid_sha s)"

definition nonempty :: "string option \<Rightarrow> bool" where
  "nonempty s \<longleftrightarrow> (case s of None \<Rightarrow> False | Some t \<Rightarrow> t \<noteq> [])"

lemma bad_head_iff [simp]: "sql_true (bad_head h) \<longleftrightarrow> \<not> sha_ok h"
  by (cases h) (auto simp: bad_head_def sha_ok_def valid_sha_def)

lemma sha_ok_Some [simp]: "sha_ok (Some s) = valid_sha s" "\<not> sha_ok None"
  by (simp_all add: sha_ok_def)

lemma nonempty_Some [simp]: "nonempty (Some s) = (s \<noteq> [])" "\<not> nonempty None"
  by (simp_all add: nonempty_def)

lemma nonempty_iff: "nonempty s \<longleftrightarrow> (\<exists>t. s = Some t \<and> t \<noteq> [])"
  by (cases s) simp_all

lemma sha_ok_coalesce [simp]:
  "sha_ok h \<Longrightarrow> sha_ok (coalesce h h')" "h = None \<Longrightarrow> sha_ok h' \<Longrightarrow> sha_ok (coalesce h h')"
  by (auto simp: coalesce_def split: option.splits)

text \<open>
  One predicate for each aspect of a row. \<open>merge_ok\<close> is stronger than the
  checks: a merge commit is recorded only by a terminal transition, which is what
  keeps a flow completion free of one.
\<close>

definition terminal_ok :: "rc_row \<Rightarrow> bool" where
  "terminal_ok r \<longleftrightarrow> (rc_terminal_at r \<noteq> None \<longleftrightarrow> rc_state r \<in> set TERMINAL_RUN_STATES)"

definition retry_ok :: "rc_row \<Rightarrow> bool" where
  "retry_ok r \<longleftrightarrow>
     (rc_state r \<in> set retry_states \<longrightarrow> rc_next_retry_at r \<noteq> None) \<and>
     (rc_state r \<notin> set (retry_states @ abort_states) \<longrightarrow> rc_next_retry_at r = None)"

definition completed_ok :: "rc_row \<Rightarrow> bool" where
  "completed_ok r \<longleftrightarrow> (rc_state r = ''completed'' \<longrightarrow>
     rc_compliance r \<in> {Some ''verified'', Some ''unverified''} \<and>
     rc_completion_source r \<in> {Some ''controller'', Some ''external''} \<and>
     sha_ok (rc_checked_head r))"

definition flow_ok :: "rc_row \<Rightarrow> bool" where
  "flow_ok r \<longleftrightarrow> (rc_state r \<in> set flow_states \<longrightarrow>
     rc_compliance r = flow_compliance (rc_state r) \<and>
     rc_completion_source r = Some ''controller'' \<and> sha_ok (rc_checked_head r))"

definition abort_ok :: "rc_row \<Rightarrow> bool" where
  "abort_ok r \<longleftrightarrow>
     (rc_state r \<in> set abort_family \<longrightarrow> nonempty (rc_abort_requested_by r) \<and>
        nonempty (rc_abort_reason r) \<and> rc_abort_requested_at r \<noteq> None) \<and>
     (rc_state r \<in> set [''aborted'', ''completed_before_abort''] \<longrightarrow> rc_aborted_at r \<noteq> None) \<and>
     (rc_state r = ''completed_before_abort'' \<longrightarrow> sha_ok (rc_checked_head r))"

definition merge_ok :: "rc_row \<Rightarrow> bool" where
  "merge_ok r \<longleftrightarrow> (rc_merge_commit_sha r \<noteq> None \<longrightarrow> sha_ok (rc_merge_commit_sha r) \<and>
     rc_state r \<in> set [''completed'', ''aborted'', ''completed_before_abort''])"

definition rc_ok :: "rc_row \<Rightarrow> bool" where
  "rc_ok r \<longleftrightarrow> rc_state r \<in> set RUN_STATES \<and> 1 \<le> rc_state_version r \<and>
     terminal_ok r \<and> retry_ok r \<and> completed_ok r \<and> flow_ok r \<and> abort_ok r \<and> merge_ok r"

definition ab_ok :: "ab_row \<Rightarrow> bool" where
  "ab_ok r \<longleftrightarrow> ab_sender r \<noteq> [] \<and> ab_reason r \<noteq> []"

definition control_ok :: "control_db \<Rightarrow> bool" where
  "control_ok db \<longleftrightarrow> unique_on rc_run_key (run_control_tbl db) \<and>
     (\<forall>r \<in> set (run_control_tbl db). rc_ok r) \<and>
     unique_on ab_request_id (abort_requests_tbl db) \<and>
     (\<forall>r \<in> set (abort_requests_tbl db). ab_ok r)"

lemma state_in_simps [simp]:
  "sql_true (state_in xs r) \<longleftrightarrow> rc_state r \<in> set xs"
  "sql_true (sql_not (state_in xs r)) \<longleftrightarrow> rc_state r \<notin> set xs"
  by (simp_all add: state_in_def)

lemma rc_ok_chk_state: "rc_ok r \<Longrightarrow> \<not> sql_true (chk_unknown_run_state r)"
  by (simp add: chk_unknown_run_state_def rc_ok_def)

lemma rc_ok_chk_version: "rc_ok r \<Longrightarrow> \<not> sql_true (chk_invalid_state_version r)"
  by (simp add: chk_invalid_state_version_def rc_ok_def)

lemma rc_ok_chk_terminal: "rc_ok r \<Longrightarrow> \<not> sql_true (chk_terminal_timestamp_mismatch r)"
  unfolding rc_ok_def terminal_ok_def chk_terminal_timestamp_mismatch_def by auto

lemma rc_ok_chk_retry: "rc_ok r \<Longrightarrow> \<not> sql_true (chk_retry_schedule_mismatch r)"
  unfolding rc_ok_def retry_ok_def chk_retry_schedule_mismatch_def by auto

lemma rc_ok_chk_completed: "rc_ok r \<Longrightarrow> \<not> sql_true (chk_completed_metadata_missing r)"
  unfolding rc_ok_def completed_ok_def chk_completed_metadata_missing_def by auto

lemma flow_compliance_values:
  "s \<in> set flow_states \<Longrightarrow> flow_compliance s \<in> {Some ''verified'', Some ''unverified''}"
  by (auto simp: flow_compliance_def flow_states_def)

lemma flow_no_merge: "merge_ok r \<Longrightarrow> rc_state r \<in> set flow_states \<Longrightarrow> rc_merge_commit_sha r = None"
  by (rule ccontr) (auto simp: merge_ok_def flow_states_def)

lemma rc_ok_chk_flow: "rc_ok r \<Longrightarrow> \<not> sql_true (chk_flow_completion_metadata_missing r)"
  using flow_no_merge [of r] flow_compliance_values [of "rc_state r"]
  unfolding rc_ok_def flow_ok_def chk_flow_completion_metadata_missing_def by auto

lemma rc_ok_chk_abort: "rc_ok r \<Longrightarrow> \<not> sql_true (chk_abort_metadata_missing r)"
  unfolding rc_ok_def abort_ok_def chk_abort_metadata_missing_def
  by (auto simp: nonempty_iff simp del: list.set)

lemma rc_ok_chk_aborted: "rc_ok r \<Longrightarrow> \<not> sql_true (chk_abort_terminal_timestamp_missing r)"
  unfolding rc_ok_def abort_ok_def chk_abort_terminal_timestamp_missing_def by auto

lemma rc_ok_chk_before: "rc_ok r \<Longrightarrow> \<not> sql_true (chk_completed_before_abort_head_missing r)"
  unfolding rc_ok_def abort_ok_def chk_completed_before_abort_head_missing_def by auto

lemma rc_ok_chk_merge: "rc_ok r \<Longrightarrow> \<not> sql_true (chk_invalid_merge_commit_sha r)"
  unfolding rc_ok_def merge_ok_def chk_invalid_merge_commit_sha_def
  by (auto simp: valid_sha_def)

lemmas rc_ok_chks = rc_ok_chk_state rc_ok_chk_version rc_ok_chk_terminal rc_ok_chk_retry
  rc_ok_chk_completed rc_ok_chk_flow rc_ok_chk_abort rc_ok_chk_aborted rc_ok_chk_before
  rc_ok_chk_merge

lemma rc_ok_checks:
  assumes "rc_ok r" and "(code, q) \<in> set invariant_checks"
  shows "\<not> sql_true (q r)"
  using assms(2) by (auto simp: invariant_checks_def rc_ok_chks [OF assms(1)])

lemma control_ok_checks: "control_ok db \<Longrightarrow> check_run_control db = Inr ()"
proof -
  assume "control_ok db"
  then have "find (\<lambda>(code, q). \<exists>r \<in> set (run_control_tbl db). sql_true (q r)) invariant_checks = None"
    using rc_ok_checks by (fastforce simp: find_None_all control_ok_def)
  then show ?thesis by (simp add: check_run_control_def)
qed

end
