(* ===== verification/Run_Machine.thy ===== *)
theory Run_Machine
  imports Run_Checks
begin

text \<open>
  The run state machine as a step relation over the operations of \<open>Run_Control\<close>,
  each called with arguments the service passes. The invariant \<open>control_ok\<close>, the
  terminal states and the state version are instances of the generic contracts
  of \<open>Prelude\<close>.
\<close>

section \<open>Rows after an operation\<close>

text \<open>
  The arguments \<open>service.py\<close> passes to \<open>transition_run\<close>: it never starts from a
  terminal state, gives a retry time exactly for the states that wait, re-enters
  an abort state only from an abort state, and completes with full evidence.
\<close>

definition transition_contract :: "transition_args \<Rightarrow> bool" where
  "transition_contract a \<longleftrightarrow>
     (\<forall>s \<in> set (ta_expected_states a). s \<notin> set TERMINAL_RUN_STATES) \<and>
     (ta_new_state a \<in> set retry_states \<longrightarrow> ta_next_retry_at a \<noteq> None) \<and>
     (ta_new_state a \<notin> set (retry_states @ abort_states) \<longrightarrow> ta_next_retry_at a = None) \<and>
     (ta_new_state a \<in> set abort_states \<longrightarrow> set (ta_expected_states a) \<subseteq> set abort_states) \<and>
     (ta_new_state a = ''completed'' \<longrightarrow>
        ta_compliance a \<in> {Some ''verified'', Some ''unverified''} \<and>
        ta_completion_source a \<in> {Some ''controller'', Some ''external''} \<and>
        sha_ok (ta_checked_head a)) \<and>
     (ta_new_state a \<in> set flow_states \<longrightarrow>
        ta_compliance a = flow_compliance (ta_new_state a) \<and>
        ta_completion_source a = Some ''controller'' \<and> sha_ok (ta_checked_head a)) \<and>
     ta_new_state a \<notin> set [''aborted'', ''completed_before_abort''] \<and>
     (ta_merge_commit_sha a \<noteq> None \<longrightarrow>
        sha_ok (ta_merge_commit_sha a) \<and> ta_new_state a = ''completed'')"

lemma nonterminal_no_merge:
  "merge_ok r \<Longrightarrow> rc_state r \<notin> set TERMINAL_RUN_STATES \<Longrightarrow> rc_merge_commit_sha r = None"
  by (rule ccontr) (auto simp: merge_ok_def TERMINAL_RUN_STATES_def)

lemma apply_transition_ok:
  assumes ok: "rc_ok r" and frm: "rc_state r \<in> set (ta_expected_states a)"
    and c: "transition_contract a" and new: "ta_new_state a \<in> set RUN_STATES"
  shows "rc_ok (apply_transition now a r)"
proof -
  let ?t = "apply_transition now a r"
  have nonterm: "rc_state r \<notin> set TERMINAL_RUN_STATES"
    using frm c unfolding transition_contract_def by blast
  have "merge_ok r" using ok unfolding rc_ok_def by simp
  from nonterminal_no_merge [OF this nonterm] have nomerge: "rc_merge_commit_sha r = None" .
  have 1: "terminal_ok ?t" by (simp add: terminal_ok_def apply_transition_def)
  have 2: "retry_ok ?t"
    using c unfolding transition_contract_def retry_ok_def apply_transition_def by simp
  have 3: "completed_ok ?t"
  proof (cases "ta_new_state a = ''completed''")
    case True
    then have "ta_compliance a \<in> {Some ''verified'', Some ''unverified''}"
      "ta_completion_source a \<in> {Some ''controller'', Some ''external''}"
      "sha_ok (ta_checked_head a)"
      using c unfolding transition_contract_def by blast+
    then show ?thesis by (auto simp: completed_ok_def apply_transition_def)
  qed (simp add: completed_ok_def apply_transition_def)
  have 4: "flow_ok ?t"
  proof (cases "ta_new_state a \<in> set flow_states")
    case True
    moreover have "ta_compliance a = flow_compliance (ta_new_state a)"
      "ta_completion_source a = Some ''controller''" "sha_ok (ta_checked_head a)"
      using True c unfolding transition_contract_def by blast+
    ultimately show ?thesis using flow_compliance_values [OF True]
      by (auto simp: flow_ok_def apply_transition_def)
  qed (simp add: flow_ok_def apply_transition_def)
  have 5: "abort_ok ?t"
  proof (cases "ta_new_state a \<in> set abort_states")
    case True
    with c frm have "rc_state r \<in> set abort_states"
      unfolding transition_contract_def by blast
    then have "rc_state r \<in> set abort_family" by (auto simp add: abort_states_def abort_family_def)
    moreover have "abort_ok r" using ok unfolding rc_ok_def by simp
    ultimately show ?thesis using True c
      unfolding abort_ok_def apply_transition_def transition_contract_def by simp
  next
    case False
    with c have "ta_new_state a \<notin> set abort_family"
      unfolding transition_contract_def abort_states_def abort_family_def by auto
    with c show ?thesis
      unfolding abort_ok_def apply_transition_def transition_contract_def by simp
  qed
  have 6: "merge_ok ?t"
    using c nomerge unfolding transition_contract_def merge_ok_def apply_transition_def by auto
  show ?thesis using ok new 1 2 3 4 5 6 unfolding rc_ok_def
    by (simp add: apply_transition_def)
qed

lemma new_row_ok:
  "rc_ok \<lparr>rc_run_key = k, rc_state = ''active'', rc_state_version = 1, rc_terminal_at = None,
     rc_last_transition_reason = None, rc_next_retry_at = None, rc_compliance = None,
     rc_completion_source = None, rc_checked_head = None, rc_merge_commit_sha = None,
     rc_abort_requested_by = None, rc_abort_reason = None, rc_abort_requested_at = None,
     rc_aborted_at = None, rc_updated_at = now\<rparr>"
  by (simp add: rc_ok_def state_list_defs terminal_ok_def retry_ok_def
      completed_ok_def flow_ok_def abort_ok_def merge_ok_def)

lemma abort_entry_nonterminal:
  "s \<in> set abort_entry_states \<Longrightarrow> s \<notin> set TERMINAL_RUN_STATES"
  by (auto simp: state_list_defs)

lemma request_abort_ok:
  assumes ok: "rc_ok r" and s: "rc_state r \<in> set abort_entry_states"
    and "sender \<noteq> []" "reason \<noteq> []"
  shows "rc_ok (request_abort now sender reason r)"
proof -
  have "merge_ok r" using ok unfolding rc_ok_def by simp
  from nonterminal_no_merge [OF this abort_entry_nonterminal [OF s]]
  have "rc_merge_commit_sha r = None" .
  with assms(1,3,4) show ?thesis
    by (simp add: rc_ok_def state_list_defs terminal_ok_def retry_ok_def
        completed_ok_def flow_ok_def abort_ok_def merge_ok_def request_abort_def)
qed

lemma abort_state_nonterminal: "s \<in> set abort_states \<Longrightarrow> s \<notin> set TERMINAL_RUN_STATES"
  by (auto simp: state_list_defs)

lemma start_abort_ok:
  assumes ok: "rc_ok r" and s: "rc_state r = ''abort_requested''"
  shows "rc_ok (r\<lparr>rc_state := ''aborting'', rc_state_version := rc_state_version r + 1,
     rc_last_transition_reason := Some ''abort_execution_started'',
     rc_terminal_at := None, rc_next_retry_at := None, rc_updated_at := now\<rparr>)"
proof -
  have m: "merge_ok r" using ok unfolding rc_ok_def by simp
  have "rc_state r \<in> set abort_states" using s by (simp add: abort_states_def)
  from nonterminal_no_merge [OF m abort_state_nonterminal [OF this]]
  have "rc_merge_commit_sha r = None" .
  moreover have "abort_ok r" "1 \<le> rc_state_version r" using ok unfolding rc_ok_def by simp_all
  ultimately show ?thesis using s
    by (simp add: rc_ok_def state_list_defs terminal_ok_def retry_ok_def
        completed_ok_def flow_ok_def abort_ok_def merge_ok_def)
qed

lemma finish_abort_row_ok:
  assumes ok: "rc_ok r" and s: "rc_state r \<in> set abort_states"
    and t: "state \<in> set [''aborted'', ''completed_before_abort'']"
    and h: "state = ''completed_before_abort'' \<Longrightarrow> sha_ok checked_head"
    and m: "merge_commit_sha \<noteq> None \<Longrightarrow> sha_ok merge_commit_sha"
  shows "rc_ok (apply_finish_abort now state checked_head merge_commit_sha r)"
proof -
  have mo: "merge_ok r" using ok unfolding rc_ok_def by simp
  from nonterminal_no_merge [OF mo abort_state_nonterminal [OF s]]
  have nm: "rc_merge_commit_sha r = None" .
  have "rc_state r \<in> set abort_family" using s by (auto simp: abort_states_def abort_family_def)
  moreover have "abort_ok r" "1 \<le> rc_state_version r" using ok unfolding rc_ok_def by simp_all
  ultimately have "nonempty (rc_abort_requested_by r)" "nonempty (rc_abort_reason r)"
    "rc_abort_requested_at r \<noteq> None" unfolding abort_ok_def by blast+
  moreover have "state = ''aborted'' \<or> state = ''completed_before_abort''" using t by simp
  ultimately show ?thesis using \<open>1 \<le> rc_state_version r\<close> nm h m
    by (elim disjE) (simp_all add: rc_ok_def state_list_defs terminal_ok_def
        retry_ok_def completed_ok_def flow_ok_def abort_ok_def merge_ok_def apply_finish_abort_def)
qed


section \<open>The operations as steps\<close>

inductive rc_step :: "control_db \<Rightarrow> control_db \<Rightarrow> bool" where
  ensure: "rc_step db (snd (ensure_run_control now k db))"
| transition: "transition_contract a \<Longrightarrow> rc_step db (snd (transition_run now k a db))"
| complete: "compliance \<in> {''verified'', ''unverified''} \<Longrightarrow>
    rc_step db (snd (mark_completed now k external compliance head merge reason db))"
| flow: "rc_step db (snd (mark_flow_completed now k state head reason db))"
| except: "rc_step db (snd (set_run_exception now k reason db))"
| create_abort: "sender \<noteq> [] \<Longrightarrow> reason \<noteq> [] \<Longrightarrow>
    rc_step db (snd (create_abort_request now rid k token sender chat thread reason expires db))"
| confirm_abort: "sender \<noteq> [] \<Longrightarrow>
    rc_step db (snd (confirm_abort_request now k token sender chat thread message db))"
| aborting: "rc_step db (snd (mark_aborting now k db))"
| finish: "rc_step db (snd (finish_abort now k state head merge db))"
| set_wait: "rc_step db (snd (set_merge_wait now k iid h b retry db))"
| clear_wait: "rc_step db (snd (clear_merge_wait k db))"

definition init_control :: "control_db \<Rightarrow> bool" where
  "init_control db \<longleftrightarrow> db = \<lparr>run_control_tbl = [], abort_requests_tbl = [], merge_wait_tbl = []\<rparr>"

text \<open>What one operation may do to the row of a run.\<close>

definition row_step :: "rc_row \<Rightarrow> rc_row \<Rightarrow> bool" where
  "row_step r r' \<longleftrightarrow> r' = r \<or>
     (rc_state r \<notin> set TERMINAL_RUN_STATES \<and> rc_state_version r' = rc_state_version r + 1)"

definition rewrite_ok :: "(rc_row \<Rightarrow> bool) \<Rightarrow> (rc_row \<Rightarrow> rc_row) \<Rightarrow> bool" where
  "rewrite_ok sel f \<longleftrightarrow> (\<forall>r. rc_run_key (f r) = rc_run_key r) \<and>
     (\<forall>r. sel r \<longrightarrow> rc_state r \<notin> set TERMINAL_RUN_STATES \<and>
        rc_state_version (f r) = rc_state_version r + 1 \<and> (rc_ok r \<longrightarrow> rc_ok (f r)))"

text \<open>
  The effect of every operation on run_control: rows are rewritten in place, and
  at most one valid row with a fresh key is appended.
\<close>

definition rc_effect :: "control_db \<Rightarrow> control_db \<Rightarrow> bool" where
  "rc_effect db db' \<longleftrightarrow> (\<exists>sel f xs. rewrite_ok sel f \<and>
     run_control_tbl db' = update_where sel f (run_control_tbl db) @ xs \<and> length xs \<le> 1 \<and>
     (\<forall>x \<in> set xs. rc_ok x \<and> (\<forall>r \<in> set (run_control_tbl db). rc_run_key r \<noteq> rc_run_key x)))"

lemma rewrite_ok_none: "rewrite_ok (\<lambda>_. False) id"
  by (simp add: rewrite_ok_def)

lemma update_where_none [simp]: "update_where (\<lambda>_. False) f t = t"
  by (simp add: update_where_def)

lemma rc_effect_same: "run_control_tbl db' = run_control_tbl db \<Longrightarrow> rc_effect db db'"
  unfolding rc_effect_def using rewrite_ok_none by (metis append.right_neutral empty_iff
      list.set(1) list.size(3) update_where_none zero_le)

lemma rc_effect_rewrite:
  "rewrite_ok sel f \<Longrightarrow> run_control_tbl db' = update_where sel f (run_control_tbl db) \<Longrightarrow>
     rc_effect db db'"
  unfolding rc_effect_def by (rule exI [of _ sel], rule exI [of _ f], rule exI [of _ "[]"]) simp

lemma rc_effect_row:
  assumes "rc_effect db db'" and "run_control db k = Some r"
  obtains r' where "run_control db' k = Some r'" "row_step r r'"
proof -
  from assms(1) obtain sel f xs where e: "rewrite_ok sel f"
    "run_control_tbl db' = update_where sel f (run_control_tbl db) @ xs"
    unfolding rc_effect_def by blast
  have "run_control db' k = Some (if sel r then f r else r)"
    using assms(2) e by (simp add: run_control_def rewrite_ok_def find_append find_update_where)
  moreover have "row_step r (if sel r then f r else r)"
    using e(1) by (simp add: row_step_def rewrite_ok_def)
  ultimately show thesis by (rule that)
qed

lemma rc_effect_ok:
  assumes "rc_effect db db'" and "control_ok db"
  shows "unique_on rc_run_key (run_control_tbl db') \<and> (\<forall>r \<in> set (run_control_tbl db'). rc_ok r)"
proof -
  from assms(1) obtain sel f xs where e: "rewrite_ok sel f"
    "run_control_tbl db' = update_where sel f (run_control_tbl db) @ xs" "length xs \<le> 1"
    "\<forall>x \<in> set xs. rc_ok x \<and> (\<forall>r \<in> set (run_control_tbl db). rc_run_key r \<noteq> rc_run_key x)"
    unfolding rc_effect_def by blast
  have u: "unique_on rc_run_key (update_where sel f (run_control_tbl db))"
    using assms(2) e(1) by (auto simp: control_ok_def rewrite_ok_def intro: unique_on_update_where)
  have k: "\<forall>r \<in> set (update_where sel f (run_control_tbl db)). \<forall>x \<in> set xs. rc_run_key r \<noteq> rc_run_key x"
    using e(1,4) by (auto simp: table_simps rewrite_ok_def split: if_splits)
  have o: "\<forall>r \<in> set (update_where sel f (run_control_tbl db)). rc_ok r"
    using assms(2) e(1) by (auto simp: control_ok_def table_simps rewrite_ok_def)
  from e(3) have "xs = [] \<or> (\<exists>x. xs = [x])" by (cases xs) auto
  with u k o e(2,4) show ?thesis by (auto simp: unique_on_insert)
qed

lemma transition_write_cases:
  assumes "transition_contract a" "ta_new_state a \<in> set RUN_STATES"
    and "run_control db k = Some row" "rc_state row \<in> set (ta_expected_states a)"
    and "unique_on rc_run_key (run_control_tbl db)"
    and "transition_write now k a (rc_state_version row) db = (Inr v, db')"
  obtains f where "rewrite_ok (\<lambda>r. r = row) f"
    and "run_control_tbl db' = update_where (\<lambda>r. r = row) f (run_control_tbl db)"
    and "abort_requests_tbl db' = abort_requests_tbl db"
proof
  let ?f = "\<lambda>r. if r = row then apply_transition now a r else r"
  have row: "row \<in> set (run_control_tbl db)" "rc_run_key row = k"
    using find_SomeD [OF assms(3) [unfolded run_control_def]] by auto
  have nonterm: "rc_state row \<notin> set TERMINAL_RUN_STATES"
    using assms(1,4) unfolding transition_contract_def by blast
  show "rewrite_ok (\<lambda>r. r = row) ?f"
    using nonterm apply_transition_ok [OF _ assms(4,1,2)]
    by (auto simp: rewrite_ok_def apply_transition_def)
  have "(rc_run_key r = k \<and> rc_state_version r = rc_state_version row) = (r = row)"
    if "r \<in> set (run_control_tbl db)" for r
    using row unique_on_eq [OF assms(5) row(1) that] by metis
  then have "update_where (\<lambda>r. rc_run_key r = k \<and> rc_state_version r = rc_state_version row)
      (apply_transition now a) (run_control_tbl db) =
    update_where (\<lambda>r. r = row) ?f (run_control_tbl db)"
    unfolding update_where_def by (intro map_cong) simp_all
  moreover have "db' = db\<lparr>run_control_tbl := update_where
      (\<lambda>r. rc_run_key r = k \<and> rc_state_version r = rc_state_version row)
      (apply_transition now a) (run_control_tbl db)\<rparr>"
    using assms(6) by (simp add: transition_write_def Let_def split: if_splits option.splits)
  ultimately show "run_control_tbl db' = update_where (\<lambda>r. r = row) ?f (run_control_tbl db)"
    and "abort_requests_tbl db' = abort_requests_tbl db"
    by simp_all
qed


lemma transition_run_effect:
  assumes c: "transition_contract a" and u: "unique_on rc_run_key (run_control_tbl db)"
  shows "rc_effect db (snd (transition_run now k a db)) \<and>
    abort_requests_tbl (snd (transition_run now k a db)) = abort_requests_tbl db"
proof (cases "transition_run now k a db")
  case (Pair r db')
  show ?thesis
  proof (cases "ta_new_state a \<in> set RUN_STATES")
    case False then show ?thesis by (simp add: transition_run_def rc_effect_same)
  next
    case True
    then have tr: "connect (transition_body now k a) db = (r, db')"
      using Pair by (simp add: transition_run_def)
    then show ?thesis
    proof (cases rule: connect_cases)
      case (rollback e w) then show ?thesis using Pair by (simp add: rc_effect_same)
    next
      case (commit v)
      then obtain row where row: "run_control db k = Some row"
        "rc_state row \<in> set (ta_expected_states a)"
        "transition_write now k a (rc_state_version row) db = (Inr v, db')"
        by (auto simp: transition_body_def split: option.splits if_splits)
      from transition_write_cases [OF c True row(1,2) u row(3)] rc_effect_rewrite Pair
      show ?thesis by (metis snd_conv)
    qed
  qed
qed

lemma create_abort_run_control:
  "run_control_tbl (snd (create_abort_request now rid k token sender chat thread reason expires db))
     = run_control_tbl (snd (ensure_run_control now k db))"
  by (auto simp: create_abort_request_def connect_def create_abort_body_def Let_def
      split: prod.splits sum.splits option.splits if_splits)

lemma ensure_effect: "rc_effect db (snd (ensure_run_control now k db))"
proof (cases "\<exists>r \<in> set (run_control_tbl db). rc_run_key r = k")
  case True then show ?thesis by (simp add: ensure_run_control_def connect_def rc_effect_same)
next
  case False
  then show ?thesis unfolding rc_effect_def
    by (intro exI [of _ "\<lambda>_. False"] exI [of _ id]) (auto simp: ensure_run_control_def connect_def rewrite_ok_none new_row_ok)
qed

lemma ensure_abort_tbl [simp]:
  "abort_requests_tbl (snd (ensure_run_control now k db)) = abort_requests_tbl db"
  by (simp add: ensure_run_control_def connect_def)

lemma latest_pending_row:
  assumes "latest_pending k t = Some row"
  shows "row \<in> set t \<and> ab_run_key row = k \<and> ab_status row = ''pending''"
proof -
  have "row \<in> set (order_by (\<lambda>r. - ab_created_at r)
      (filter (\<lambda>r. ab_run_key r = k \<and> ab_status r = ''pending'') t))"
    using assms by (auto simp: latest_pending_def first_row_def split: list.splits)
  then show ?thesis by (simp add: order_by_def)
qed

lemma latest_pending_in: "latest_pending k t = Some row \<Longrightarrow> row \<in> set t"
  using latest_pending_row by blast

lemma confirm_body_effect:
  assumes "confirm_abort_body now k token sender chat thread message db = (Inr c, db')"
    and "sender \<noteq> []" and "\<forall>r \<in> set (abort_requests_tbl db). ab_ok r"
  shows "rc_effect db db' \<and>
    (\<exists>p g. (\<forall>r. ab_request_id (g r) = ab_request_id r \<and> (ab_ok r \<longrightarrow> ab_ok (g r))) \<and>
       abort_requests_tbl db' = update_where p g (abort_requests_tbl db))"
proof -
  from assms(1) obtain row where row: "latest_pending k (abort_requests_tbl db) = Some row"
    and db': "db' = db\<lparr>
      abort_requests_tbl := update_where (\<lambda>r. ab_request_id r = ab_request_id row)
        (\<lambda>r. r\<lparr>ab_status := ''confirmed'', ab_confirm_message_id := Some message,
              ab_updated_at := now\<rparr>) (abort_requests_tbl db),
      run_control_tbl := update_where (\<lambda>r. rc_run_key r = k \<and> rc_state r \<in> set abort_entry_states)
        (request_abort now sender (ab_reason row)) (run_control_tbl db)\<rparr>"
    by (auto simp: confirm_abort_body_def Let_def split: option.splits if_splits)
  have "ab_reason row \<noteq> []"
    using latest_pending_in [OF row] assms(3) by (auto simp: ab_ok_def)
  with assms(2) have "rewrite_ok (\<lambda>r. rc_run_key r = k \<and> rc_state r \<in> set abort_entry_states)
      (request_abort now sender (ab_reason row))"
    using abort_entry_nonterminal request_abort_ok
    by (auto simp: rewrite_ok_def) (simp_all add: request_abort_def)
  from rc_effect_rewrite [OF this] db' have "rc_effect db db'" by simp
  moreover have "abort_requests_tbl db' = update_where (\<lambda>r. ab_request_id r = ab_request_id row)
        (\<lambda>r. r\<lparr>ab_status := ''confirmed'', ab_confirm_message_id := Some message,
              ab_updated_at := now\<rparr>) (abort_requests_tbl db)"
    by (simp add: db')
  ultimately show ?thesis
    by (intro conjI exI [of _ "\<lambda>r. ab_request_id r = ab_request_id row"]
        exI [of _ "\<lambda>r. r\<lparr>ab_status := ''confirmed'', ab_confirm_message_id := Some message,
              ab_updated_at := now\<rparr>"]) (simp_all add: ab_ok_def)
qed

lemma confirm_abort_state:
  "snd (confirm_abort_request now k token sender chat thread message db) =
   snd (connect (confirm_abort_body now k token sender chat thread message) db)"
  by (auto simp: confirm_abort_request_def split: prod.splits sum.splits option.splits)

lemma start_abort_rewrite:
  "rewrite_ok (\<lambda>r. rc_run_key r = k \<and> rc_state r = ''abort_requested'')
     (\<lambda>r. r\<lparr>rc_state := ''aborting'', rc_state_version := rc_state_version r + 1,
           rc_last_transition_reason := Some ''abort_execution_started'',
           rc_terminal_at := None, rc_next_retry_at := None, rc_updated_at := now\<rparr>)"
  using start_abort_ok abort_state_nonterminal [of "''abort_requested''"]
  by (auto simp: rewrite_ok_def abort_states_def)

lemma finish_abort_rewrite:
  assumes "state \<in> set [''aborted'', ''completed_before_abort'']"
    and "state = ''completed_before_abort'' \<Longrightarrow> sha_ok checked_head"
    and "merge_commit_sha \<noteq> None \<Longrightarrow> sha_ok merge_commit_sha"
  shows "rewrite_ok (\<lambda>r. rc_run_key r = k \<and> rc_state r \<in> set abort_states)
     (apply_finish_abort now state checked_head merge_commit_sha)"
  using finish_abort_row_ok [OF _ _ assms] abort_state_nonterminal
  by (auto simp: rewrite_ok_def) (simp_all add: apply_finish_abort_def)

lemma mark_completed_contract:
  assumes "valid_sha head" and "compliance \<in> {''verified'', ''unverified''}"
    and "\<forall>m. merge = Some m \<longrightarrow> valid_sha m"
  shows "transition_contract (completed_args external compliance head merge reason)"
  using assms by (cases merge) (auto simp: completed_args_def transition_contract_def state_list_defs)

lemma mark_flow_contract:
  assumes "valid_sha head" and "flow_compliance state = Some compliance"
  shows "transition_contract (flow_args state compliance head reason)"
proof -
  from assms(2) have "state \<in> {''completed_ready'', ''completed_with_findings'', ''completed_test_failed''}"
    by (auto simp: flow_compliance_def split: if_splits)
  with assms show ?thesis by (auto simp: flow_args_def transition_contract_def state_list_defs)
qed

lemma exception_contract: "transition_contract (exception_args reason)"
  by (simp add: exception_args_def transition_contract_def state_list_defs)

lemma mark_completed_state:
  "snd (mark_completed now k external compliance head merge reason db) = db \<or>
   (valid_sha head \<and> (\<forall>m. merge = Some m \<longrightarrow> valid_sha m) \<and>
    snd (mark_completed now k external compliance head merge reason db) =
    snd (transition_run now k (completed_args external compliance head merge reason) db))"
  by (simp add: mark_completed_def split: option.splits)

lemma mark_flow_completed_state:
  "snd (mark_flow_completed now k state head reason db) = db \<or>
   (\<exists>compliance. valid_sha head \<and> flow_compliance state = Some compliance \<and>
    snd (mark_flow_completed now k state head reason db) =
    snd (transition_run now k (flow_args state compliance head reason) db))"
  by (simp add: mark_flow_completed_def split: option.splits)

lemma set_run_exception_state:
  "snd (set_run_exception now k reason db) = db \<or>
   snd (set_run_exception now k reason db) = snd (transition_run now k (exception_args reason) db)"
  by (simp add: set_run_exception_def split: option.splits)

section \<open>Every step keeps the invariant\<close>

definition abort_tbl_ok :: "control_db \<Rightarrow> bool" where
  "abort_tbl_ok db \<longleftrightarrow> unique_on ab_request_id (abort_requests_tbl db) \<and>
     (\<forall>r \<in> set (abort_requests_tbl db). ab_ok r)"

lemma control_ok_split:
  "control_ok db \<longleftrightarrow> unique_on rc_run_key (run_control_tbl db) \<and>
     (\<forall>r \<in> set (run_control_tbl db). rc_ok r) \<and> abort_tbl_ok db"
  by (auto simp: control_ok_def abort_tbl_ok_def)

lemma abort_tbl_ok_cong:
  "abort_requests_tbl db' = abort_requests_tbl db \<Longrightarrow> abort_tbl_ok db' = abort_tbl_ok db"
  by (simp add: abort_tbl_ok_def)

lemma abort_tbl_ok_update:
  assumes "abort_tbl_ok db" "\<forall>r. ab_request_id (g r) = ab_request_id r \<and> (ab_ok r \<longrightarrow> ab_ok (g r))"
    and "abort_requests_tbl db' = update_where p g (abort_requests_tbl db)"
  shows "abort_tbl_ok db'"
  using assms by (auto simp: abort_tbl_ok_def table_simps intro: unique_on_update_where)

lemma create_abort_tbl_ok:
  assumes "abort_tbl_ok db" "sender \<noteq> []" "reason \<noteq> []"
  shows "abort_tbl_ok (snd (create_abort_request now rid k token sender chat thread reason expires db))"
proof -
  have e: "abort_tbl_ok (snd (ensure_run_control now k db))"
    using assms(1) by (simp add: abort_tbl_ok_def)
  let ?p = "\<lambda>t. update_where (\<lambda>r. ab_run_key r = k \<and> ab_status r = ''pending'')
              (\<lambda>r. r\<lparr>ab_status := ''expired'', ab_updated_at := now\<rparr>) t"
  have u: "abort_tbl_ok d \<Longrightarrow> unique_on ab_request_id (?p (abort_requests_tbl d)) \<and>
      (\<forall>r \<in> set (?p (abort_requests_tbl d)). ab_ok r)" for d
    by (auto simp: abort_tbl_ok_def table_simps ab_ok_def split: if_splits intro: unique_on_update_where)
  show ?thesis unfolding create_abort_request_def
  proof (rule connect_keeps [where P = abort_tbl_ok, OF e])
    fix v t
    assume "create_abort_body now rid k token sender chat thread reason expires
              (snd (ensure_run_control now k db)) = (Inr v, t)"
    then show "abort_tbl_ok t" using u [OF e] assms(2,3)
      by (auto simp: create_abort_body_def Let_def abort_tbl_ok_def unique_on_insert ab_ok_def
          split: option.splits if_splits)
  qed
qed

lemma rc_step_effect:
  assumes "rc_step db db'" and "control_ok db"
  shows "rc_effect db db' \<and> abort_tbl_ok db'"
  using assms
proof (induction rule: rc_step.induct)
  case (ensure db now k)
  then show ?case by (simp add: ensure_effect control_ok_split abort_tbl_ok_def)
next
  case (transition a db now k)
  then show ?case using transition_run_effect
    by (metis abort_tbl_ok_cong control_ok_split)
next
  case (complete compliance db now k external head merge reason)
  then show ?case
    using mark_completed_state [of now k external compliance head merge reason db]
      mark_completed_contract transition_run_effect
    by (metis abort_tbl_ok_cong control_ok_split rc_effect_same)
next
  case (flow db now k state head reason)
  then show ?case
    using mark_flow_completed_state [of now k state head reason db]
      mark_flow_contract transition_run_effect
    by (metis abort_tbl_ok_cong control_ok_split rc_effect_same)
next
  case (except db now k reason)
  then show ?case
    using set_run_exception_state [of now k reason db] exception_contract transition_run_effect
    by (metis abort_tbl_ok_cong control_ok_split rc_effect_same)
next
  case (create_abort sender reason db now rid k token chat thread expires)
  then have "abort_tbl_ok db" by (simp add: control_ok_split)
  moreover have "rc_effect db (snd (create_abort_request now rid k token sender chat thread reason expires db))"
    using ensure_effect [of db now k] by (simp add: rc_effect_def create_abort_run_control)
  ultimately show ?case using create_abort create_abort_tbl_ok by blast
next
  case (confirm_abort sender db now k token chat thread message)
  then have a: "abort_tbl_ok db" by (simp add: control_ok_split)
  have "rc_effect db t \<and> abort_tbl_ok t"
    if "t = db \<or> (\<exists>c. confirm_abort_body now k token sender chat thread message db = (Inr c, t))" for t
    using that confirm_body_effect [OF _ confirm_abort.hyps] a
    by (metis abort_tbl_ok_def abort_tbl_ok_update rc_effect_same)
  then show ?case unfolding confirm_abort_state
    by (auto simp: connect_def split: prod.splits sum.splits)
next
  case (aborting db now k)
  then show ?case
    using rc_effect_rewrite [OF start_abort_rewrite [of k now]]
    by (simp add: mark_aborting_def connect_def control_ok_split abort_tbl_ok_def)
next
  case (finish db now k state head merge)
  then have a: "abort_tbl_ok db" by (simp add: control_ok_split)
  show ?case
  proof (cases "snd (finish_abort now k state head merge db) = db")
    case True then show ?thesis using a by (simp add: rc_effect_same)
  next
    case False
    then have g: "state \<in> set [''aborted'', ''completed_before_abort'']"
      "state = ''completed_before_abort'' \<Longrightarrow> sha_ok head" "merge \<noteq> None \<Longrightarrow> sha_ok merge"
      by (auto simp: finish_abort_def split: option.splits if_splits)
    have "run_control_tbl (snd (finish_abort now k state head merge db)) =
        update_where (\<lambda>r. rc_run_key r = k \<and> rc_state r \<in> set abort_states)
          (apply_finish_abort now state head merge) (run_control_tbl db) \<and>
      abort_requests_tbl (snd (finish_abort now k state head merge db)) = abort_requests_tbl db"
      using False by (auto simp: finish_abort_def connect_def Let_def split: option.splits if_splits)
    with rc_effect_rewrite [OF finish_abort_rewrite [OF g]] a show ?thesis
      by (simp add: abort_tbl_ok_def)
  qed
next
  case (set_wait db now k iid h b retry)
  then show ?case
    by (simp add: set_merge_wait_def connect_def Let_def rc_effect_same control_ok_split abort_tbl_ok_def)
next
  case (clear_wait db k)
  then show ?case
    by (simp add: clear_merge_wait_def connect_def rc_effect_same control_ok_split abort_tbl_ok_def)
qed

lemma rc_step_control_ok: "rc_step db db' \<Longrightarrow> control_ok db \<Longrightarrow> control_ok db'"
  using rc_step_effect [of db db'] rc_effect_ok [of db db'] by (auto simp: control_ok_split)

lemma init_control_ok: "init_control db \<Longrightarrow> control_ok db"
  by (simp add: init_control_def control_ok_def unique_on_def)

interpretation run_inv: inductive_invariant init_control rc_step control_ok
  by unfold_locales (auto intro: init_control_ok rc_step_control_ok)


text \<open>The row of one run through any number of steps: its version and its terminal states.\<close>

definition run_version :: "string \<Rightarrow> control_db \<Rightarrow> int option" where
  "run_version k db = map_option rc_state_version (run_control db k)"

definition run_final :: "string \<Rightarrow> control_db \<Rightarrow> bool" where
  "run_final k db \<longleftrightarrow> control_ok db \<and>
     (\<exists>r. run_control db k = Some r \<and> rc_state r \<in> set TERMINAL_RUN_STATES)"

definition ok_step :: "control_db \<Rightarrow> control_db \<Rightarrow> bool" where
  "ok_step db db' \<longleftrightarrow> control_ok db \<and> rc_step db db'"

lemma ok_step_row:
  "ok_step db db' \<Longrightarrow> run_control db k = Some r \<Longrightarrow>
     \<exists>r'. run_control db' k = Some r' \<and> row_step r r'"
  unfolding ok_step_def by (metis rc_effect_row rc_step_effect)

lemma steps_ok_steps: "rc_step\<^sup>*\<^sup>* db db' \<Longrightarrow> control_ok db \<Longrightarrow> ok_step\<^sup>*\<^sup>* db db' \<and> control_ok db'"
proof (induction rule: rtranclp_induct)
  case (step y z)
  then show ?case unfolding ok_step_def
    by (metis (mono_tags, lifting) rc_step_control_ok rtranclp.rtrancl_into_rtrancl)
qed simp

interpretation run_lock: versioned ok_step "run_version k" "\<lambda>db. run_control db k" for k
proof
  fix s t n assume st: "ok_step s t" and n: "run_version k s = Some n"
  then obtain r where r: "run_control s k = Some r" "rc_state_version r = n"
    by (auto simp: run_version_def)
  from ok_step_row [OF st r(1)] obtain r' where "run_control t k = Some r'" "row_step r r'" by blast
  with r show "run_version k t = Some n \<and> run_control t k = run_control s k \<or>
      (\<exists>m > n. run_version k t = Some m)"
    by (auto simp: run_version_def row_step_def)
qed

interpretation run_terminal: absorbing ok_step "run_final k" "\<lambda>db. run_control db k" for k
proof
  fix s t assume st: "ok_step s t" and f: "run_final k s"
  then obtain r where r: "run_control s k = Some r" "rc_state r \<in> set TERMINAL_RUN_STATES"
    by (auto simp: run_final_def)
  from ok_step_row [OF st r(1)] obtain r' where "run_control t k = Some r'" "row_step r r'" by blast
  moreover have "control_ok t" using st rc_step_control_ok by (auto simp: ok_step_def)
  ultimately show "run_final k t \<and> run_control t k = run_control s k"
    using r by (auto simp: run_final_def row_step_def)
qed

section \<open>At most one pending abort request for a run\<close>

definition ab_pending :: "ab_row \<Rightarrow> bool" where
  "ab_pending r \<longleftrightarrow> ab_status r = ''pending''"

definition one_pending :: "control_db \<Rightarrow> bool" where
  "one_pending db \<longleftrightarrow> unique_on ab_run_key (filter ab_pending (abort_requests_tbl db))"

text \<open>An update that makes nothing pending only removes pending rows.\<close>

lemma filter_update_where_off:
  "(\<And>r. p r \<Longrightarrow> \<not> q (f r)) \<Longrightarrow> filter q (update_where p f t) = filter (\<lambda>r. \<not> p r) (filter q t)"
  by (induction t) auto

lemma unique_on_filter_update:
  assumes "unique_on k (filter q t)" and "\<And>r. p r \<Longrightarrow> \<not> q (f r)"
  shows "unique_on k (filter q (update_where p f t))"
  using unique_on_delete [OF assms(1), of p] assms(2)
  by (simp add: filter_update_where_off delete_where_def)

lemma transition_abort_tbl:
  "abort_requests_tbl (snd (transition_run now k a db)) = abort_requests_tbl db"
proof -
  have "abort_requests_tbl (snd (connect (transition_body now k a) db)) = abort_requests_tbl db"
    by (rule connect_keeps [where P = "\<lambda>d. abort_requests_tbl d = abort_requests_tbl db"])
      (auto simp: transition_body_def transition_write_def Let_def
        split: option.splits if_splits)
  then show ?thesis by (simp add: transition_run_def)
qed

lemma confirm_body_cases:
  assumes "confirm_abort_body now k token sender chat thread message db = (Inr v, t)"
  obtains row where "latest_pending k (abort_requests_tbl db) = Some row"
    "now \<le> ab_expires_at row" "ab_token_hash row = token" "ab_sender row = sender"
    "ab_chat_id row = chat" "or_text (ab_thread_id row) = or_text thread"
    "abort_requests_tbl t = update_where (\<lambda>r. ab_request_id r = ab_request_id row)
      (\<lambda>r. r\<lparr>ab_status := ''confirmed'', ab_confirm_message_id := Some message,
            ab_updated_at := now\<rparr>) (abort_requests_tbl db)"
    "run_control_tbl t = update_where (\<lambda>r. rc_run_key r = k \<and> rc_state r \<in> set abort_entry_states)
        (request_abort now sender (ab_reason row)) (run_control_tbl db)"
    "v = run_control t k"
proof (cases "latest_pending k (abort_requests_tbl db)")
  case (Some row)
  show thesis
    using assms by (intro that [of row])
      (simp_all add: Some confirm_abort_body_def Let_def raise_if_iff, (elim conjE, hypsubst, simp)+)
qed (use assms in \<open>simp add: confirm_abort_body_def\<close>)

lemma one_pending_cong:
  "abort_requests_tbl db' = abort_requests_tbl db \<Longrightarrow> one_pending db' = one_pending db"
  by (simp add: one_pending_def)

lemma create_one_pending:
  assumes "one_pending db"
  shows "one_pending (snd (create_abort_request now rid k token sender chat thread reason expires db))"
proof -
  let ?d = "snd (ensure_run_control now k db)"
  let ?p = "update_where (\<lambda>r. ab_run_key r = k \<and> ab_status r = ''pending'')
              (\<lambda>r. r\<lparr>ab_status := ''expired'', ab_updated_at := now\<rparr>) (abort_requests_tbl db)"
  have d: "one_pending ?d" using assms by (simp add: one_pending_def)
  have u: "unique_on ab_run_key (filter ab_pending ?p)"
    using assms by (intro unique_on_filter_update) (simp_all add: one_pending_def ab_pending_def)
  have n: "\<forall>r \<in> set ?p. ab_pending r \<longrightarrow> ab_run_key r \<noteq> k"
  proof
    fix r assume "r \<in> set ?p"
    then obtain q where "r = (if ab_run_key q = k \<and> ab_status q = ''pending''
        then q\<lparr>ab_status := ''expired'', ab_updated_at := now\<rparr> else q)"
      unfolding set_update_where by blast
    then show "ab_pending r \<longrightarrow> ab_run_key r \<noteq> k"
      by (cases "ab_run_key q = k \<and> ab_status q = ''pending''") (simp_all add: ab_pending_def, blast)
  qed
  show ?thesis unfolding create_abort_request_def
  proof (rule connect_keeps [where P = one_pending, OF d])
    fix v t
    assume "create_abort_body now rid k token sender chat thread reason expires ?d = (Inr v, t)"
    then have "\<exists>row. abort_requests_tbl t = ?p @ [row] \<and> ab_run_key row = k"
      by (auto simp: create_abort_body_def Let_def split: option.splits if_splits)
    then obtain row where row: "abort_requests_tbl t = ?p @ [row]" "ab_run_key row = k" by blast
    show "one_pending t"
      using u n row(2) by (cases "ab_pending row") (simp_all add: one_pending_def row(1) unique_on_insert)
  qed
qed

lemma confirm_one_pending:
  assumes "one_pending db"
  shows "one_pending (snd (confirm_abort_request now k token sender chat thread message db))"
  unfolding confirm_abort_state
proof (rule connect_keeps [where P = one_pending, OF assms])
  fix v t
  assume "confirm_abort_body now k token sender chat thread message db = (Inr v, t)"
  then show "one_pending t"
  proof (cases rule: confirm_body_cases)
    case (1 row)
    show ?thesis using assms unfolding one_pending_def 1(7)
      by (rule unique_on_filter_update) (simp add: ab_pending_def)
  qed
qed

lemma rc_step_one_pending:
  assumes "rc_step db db'" and "one_pending db"
  shows "one_pending db'"
  using assms
proof (induction rule: rc_step.induct)
  case (ensure db now k)
  then show ?case using one_pending_cong [OF ensure_abort_tbl] by blast
next
  case (transition a db now k)
  then show ?case using one_pending_cong [OF transition_abort_tbl] by blast
next
  case (complete compliance db now k external head merge reason)
  then show ?case
    using mark_completed_state [of now k external compliance head merge reason db]
      one_pending_cong [OF transition_abort_tbl] by metis
next
  case (flow db now k state head reason)
  then show ?case
    using mark_flow_completed_state [of now k state head reason db]
      one_pending_cong [OF transition_abort_tbl] by metis
next
  case (except db now k reason)
  then show ?case
    using set_run_exception_state [of now k reason db] one_pending_cong [OF transition_abort_tbl]
    by metis
next
  case (create_abort sender reason db now rid k token chat thread expires)
  then show ?case by (simp add: create_one_pending)
next
  case (confirm_abort sender db now k token chat thread message)
  then show ?case by (simp add: confirm_one_pending)
next
  case (aborting db now k)
  then show ?case by (simp add: one_pending_def mark_aborting_def connect_def)
next
  case (finish db now k state head merge)
  have "abort_requests_tbl (snd (finish_abort now k state head merge db)) = abort_requests_tbl db"
    by (simp add: finish_abort_def connect_def Let_def split: option.splits)
  with finish show ?case using one_pending_cong by blast
next
  case (set_wait db now k iid h b retry)
  then show ?case by (simp add: one_pending_def set_merge_wait_def connect_def Let_def)
next
  case (clear_wait db k)
  then show ?case by (simp add: one_pending_def clear_merge_wait_def connect_def)
qed

lemma init_one_pending: "init_control db \<Longrightarrow> one_pending db"
  by (simp add: init_control_def one_pending_def unique_on_def)

interpretation pending_inv: inductive_invariant init_control rc_step one_pending
  by unfold_locales (fact init_one_pending, fact rc_step_one_pending)

lemma one_pending_latest:
  assumes "one_pending db" and "latest_pending k (abort_requests_tbl db) = Some row"
    and "r \<in> set (abort_requests_tbl db)" and "ab_run_key r = k" and "ab_pending r"
  shows "r = row"
proof -
  have "row \<in> set (filter ab_pending (abort_requests_tbl db))" "ab_run_key row = k"
    using latest_pending_row [OF assms(2)] by (auto simp: ab_pending_def)
  with assms(1,3-) show ?thesis unfolding one_pending_def
    using unique_on_eq [of ab_run_key "filter ab_pending (abort_requests_tbl db)" r row] by simp
qed

end
