(* ===== verification/Run_Properties.thy ===== *)
theory Run_Properties
  imports Run_Machine
begin

text \<open>
  What the run state machine guarantees, stated on the operations of
  \<open>Run_Control\<close> and proved from the step analysis of \<open>Run_Machine\<close>.
\<close>

section \<open>Concrete states for the witnesses\<close>

definition empty_control :: control_db where
  "empty_control = \<lparr>run_control_tbl = [], abort_requests_tbl = [], merge_wait_tbl = []\<rparr>"

definition head_a :: string where
  "head_a = replicate 40 (CHR ''a'')"

definition db_active :: control_db where
  "db_active = snd (ensure_run_control 5 ''r'' empty_control)"

definition db_done :: control_db where
  "db_done = snd (mark_completed 9 ''r'' False ''verified'' head_a None ''merged'' db_active)"

definition db_requested :: control_db where
  "db_requested = snd (create_abort_request 6 ''q'' ''r'' ''h'' ''ou_1'' ''oc_1'' None ''stop'' 600 db_active)"

lemmas witness_defs = empty_control_def head_a_def db_active_def db_done_def db_requested_def

lemma db_active_row:
  "db_active = \<lparr>run_control_tbl = [\<lparr>rc_run_key = ''r'', rc_state = ''active'', rc_state_version = 1,
     rc_terminal_at = None, rc_last_transition_reason = None, rc_next_retry_at = None,
     rc_compliance = None, rc_completion_source = None, rc_checked_head = None,
     rc_merge_commit_sha = None, rc_abort_requested_by = None, rc_abort_reason = None,
     rc_abort_requested_at = None, rc_aborted_at = None, rc_updated_at = 5\<rparr>],
     abort_requests_tbl = [], merge_wait_tbl = []\<rparr>"
  by (simp add: db_active_def empty_control_def ensure_run_control_def connect_def)

lemma control_ok_active: "control_ok db_active"
  using rc_step_control_ok [OF rc_step.ensure init_control_ok, of empty_control 5 "''r''"]
  by (simp add: db_active_def init_control_def empty_control_def)

lemma step_done: "rc_step db_active db_done"
  unfolding db_done_def by (rule rc_step.complete) simp

lemma control_ok_done: "control_ok db_done"
  by (rule rc_step_control_ok [OF step_done control_ok_active])

lemma valid_head_a [simp]: "valid_sha head_a"
  by (simp add: valid_sha_def head_a_def is_lower_hex_def list_all_iff)

section \<open>Properties\<close>





text \<open>
  Optimistic locking is sound: a caller that read a run at some version and
  passes that version as \<open>expected_version\<close> cannot overwrite a run that has
  changed in any way since; its transition is refused and nothing is written.
\<close>

theorem stale_version_is_refused:
  assumes ok: "control_ok db" and steps: "rc_step\<^sup>*\<^sup>* db db'"
    and seen: "run_control db k = Some r" and changed: "run_control db' k \<noteq> Some r"
    and v: "ta_expected_version a = Some (rc_state_version r)"
  shows "\<exists>e. transition_run now k a db' = (Inl e, db')"
proof -
  have ver: "run_version k db = Some (rc_state_version r)" using seen by (simp add: run_version_def)
  have os: "ok_step\<^sup>*\<^sup>* db db'" using steps_ok_steps [OF steps ok] by simp
  have "run_version k db' \<noteq> Some (rc_state_version r)"
    using run_lock.same_version_same_content [OF os ver] seen changed by auto
  moreover obtain r' where "run_control db' k = Some r'"
    using run_lock.version_mono [OF os ver] by (auto simp: run_version_def)
  ultimately show ?thesis using v
    by (auto simp: transition_run_def transition_body_def connect_def run_version_def)
qed

theorem stale_version_is_refused_witness:
  "\<exists>e. transition_run 12 ''r'' ((exception_args ''late'')\<lparr>ta_expected_version := Some 1\<rparr>) db_done
     = (Inl e, db_done)"
proof -
  let ?r = "hd (run_control_tbl db_active)"
  have r: "run_control db_active ''r'' = Some ?r" "rc_state_version ?r = 1" "rc_state ?r = ''active''"
    by (simp_all add: db_active_row run_control_def)
  have "map_option rc_state (run_control db_done ''r'') = Some ''completed''"
    unfolding db_done_def db_active_row by code_simp
  then have ne: "run_control db_done ''r'' \<noteq> Some ?r" using r(3) by auto
  from stale_version_is_refused [OF control_ok_active r_into_rtranclp [of rc_step, OF step_done] r(1) ne,
      of "(exception_args ''late'')\<lparr>ta_expected_version := Some 1\<rparr>" 12] r(2)
  show ?thesis by simp
qed

text \<open>
  What \<open>transition_run\<close> does on every branch: it succeeds exactly when the
  target is a known state, the run exists, is in an expected state and has the
  expected version, and then rewrites that row only; otherwise nothing changes.
\<close>

theorem transition_run_exact:
  assumes u: "unique_on rc_run_key (run_control_tbl db)"
  shows "case transition_run now k a db of
      (Inr r', db') \<Rightarrow> (\<exists>r. run_control db k = Some r \<and> ta_new_state a \<in> set RUN_STATES \<and>
          rc_state r \<in> set (ta_expected_states a) \<and>
          ta_expected_version a \<in> {None, Some (rc_state_version r)} \<and>
          r' = apply_transition now a r \<and> run_control db' = (run_control db)(k \<mapsto> r'))
    | (Inl e, db') \<Rightarrow> db' = db \<and>
        \<not> (\<exists>r. run_control db k = Some r \<and> ta_new_state a \<in> set RUN_STATES \<and>
          rc_state r \<in> set (ta_expected_states a) \<and>
          ta_expected_version a \<in> {None, Some (rc_state_version r)})"
proof (cases "run_control db k")
  case None
  then show ?thesis by (auto simp: transition_run_def transition_body_def connect_def)
next
  case (Some row)
  have row: "row \<in> set (run_control_tbl db)" "rc_run_key row = k"
    using find_SomeD [OF Some [unfolded run_control_def]] by auto
  let ?sel = "\<lambda>r. rc_run_key r = k \<and> rc_state_version r = rc_state_version row"
  let ?db = "db\<lparr>run_control_tbl := update_where ?sel (apply_transition now a) (run_control_tbl db)\<rparr>"
  have one: "rowcount ?sel (run_control_tbl db) = 1"
    by (rule rowcount_one [OF u row(1)]) (auto simp: row(2))
  have look: "run_control ?db j = map_option (\<lambda>r. if ?sel r then apply_transition now a r else r)
      (run_control db j)" for j
    by (simp add: run_control_def find_update_where apply_transition_def)
  have "run_control db j = Some r \<Longrightarrow> rc_run_key r = j" for j r
    by (auto simp: run_control_def dest: find_SomeD)
  then have map: "run_control ?db = (run_control db)(k \<mapsto> apply_transition now a row)"
    using look Some row(2) by (intro ext) (auto simp: option.map_id split: option.splits if_splits
      cong: map_option_cong intro!: option.map_ident)
  have "transition_write now k a (rc_state_version row) db = (Inr (apply_transition now a row), ?db)"
    using one map by (simp add: transition_write_def Let_def)
  then show ?thesis using Some map
    by (auto simp: transition_run_def transition_body_def connect_def split: option.splits)
qed

theorem transition_run_exact_witness:
  "\<exists>r'. fst (transition_run 7 ''r'' (exception_args ''x'') db_active) = Inr r' \<and> rc_state r' = ''exception''"
proof -
  have u: "unique_on rc_run_key (run_control_tbl db_active)" using control_ok_active by (simp add: control_ok_def)
  have "\<exists>r. run_control db_active ''r'' = Some r \<and> rc_state r = ''active''"
    by (simp add: db_active_row run_control_def)
  with transition_run_exact [OF u, where now = 7 and k = "''r''" and a = "exception_args ''x''"] show ?thesis
    by (auto simp: exception_args_def RUN_STATES_def apply_transition_def split: prod.splits sum.splits)
qed

text \<open>
  C26. A confirmation succeeds only for the pending request of the run, unexpired
  and matched in token, sender, chat and thread, on a run that may be aborted;
  the run is then in abort_requested with the requester's reason, and the same
  confirmation cannot be replayed: no pending request is left to confirm.
\<close>

theorem confirm_abort_sound:
  assumes reach: "reachable init_control rc_step db"
    and c: "confirm_abort_request now k token sender chat thread message db = (Inr c, db')"
  shows "(\<exists>row \<in> set (abort_requests_tbl db). ab_run_key row = k \<and> ab_status row = ''pending'' \<and>
      now \<le> ab_expires_at row \<and> ab_token_hash row = token \<and> ab_sender row = sender \<and>
      ab_chat_id row = chat \<and> or_text (ab_thread_id row) = or_text thread \<and>
      (\<exists>r. run_control db k = Some r \<and>
        (rc_state r \<in> set abort_entry_states \<and> c = request_abort now sender (ab_reason row) r \<or>
         rc_state r = ''abort_requested'' \<and> c = r))) \<and>
    run_control db' k = Some c \<and> rc_state c = ''abort_requested'' \<and>
    confirm_abort_request now' k token' sender' chat' thread' message' db' =
      (Inl (ValueError ''no pending abort request''), db')"
proof -
  have op: "one_pending db" by (rule pending_inv.reachable_inv [OF reach])
  let ?conf = "\<lambda>row. \<lambda>r. r\<lparr>ab_status := ''confirmed'', ab_confirm_message_id := Some message,
      ab_updated_at := now\<rparr>"
  from c have body: "confirm_abort_body now k token sender chat thread message db = (Inr (Some c), db')"
    and st: "rc_state c = ''abort_requested''"
    by (auto simp: confirm_abort_request_def connect_def split: prod.splits sum.splits option.splits if_splits)
  from body obtain row where row: "latest_pending k (abort_requests_tbl db) = Some row"
      "now \<le> ab_expires_at row" "ab_token_hash row = token" "ab_sender row = sender"
      "ab_chat_id row = chat" "or_text (ab_thread_id row) = or_text thread"
    and at: "abort_requests_tbl db' = update_where (\<lambda>r. ab_request_id r = ab_request_id row)
        (?conf row) (abort_requests_tbl db)"
    and rt: "run_control_tbl db' = update_where (\<lambda>r. rc_run_key r = k \<and> rc_state r \<in> set abort_entry_states)
        (request_abort now sender (ab_reason row)) (run_control_tbl db)"
    and cc: "run_control db' k = Some c"
    by (rule confirm_body_cases) simp
  have inr: "row \<in> set (abort_requests_tbl db)" "ab_run_key row = k" "ab_status row = ''pending''"
    using latest_pending_row [OF row(1)] by blast+
  have "run_control db' k = map_option (\<lambda>r. if rc_run_key r = k \<and> rc_state r \<in> set abort_entry_states
      then request_abort now sender (ab_reason row) r else r) (run_control db k)"
    by (simp add: rt run_control_def find_update_where request_abort_def)
  with cc obtain r where r0: "run_control db k = Some r"
    "c = (if rc_run_key r = k \<and> rc_state r \<in> set abort_entry_states
          then request_abort now sender (ab_reason row) r else r)"
    by (cases "run_control db k") simp_all
  have "rc_run_key r = k" using r0(1) by (auto simp: run_control_def dest: find_SomeD)
  with r0 have r: "run_control db k = Some r"
    "c = (if rc_state r \<in> set abort_entry_states then request_abort now sender (ab_reason row) r else r)"
    by simp_all
  have "filter (\<lambda>r. ab_run_key r = k \<and> ab_status r = ''pending'') (abort_requests_tbl db') = []"
  proof -
    have "filter ab_pending (abort_requests_tbl db') =
        filter (\<lambda>r. ab_request_id r \<noteq> ab_request_id row) (filter ab_pending (abort_requests_tbl db))"
      unfolding at by (rule filter_update_where_off) (simp add: ab_pending_def)
    then have "r \<in> set (abort_requests_tbl db') \<Longrightarrow> ab_pending r \<Longrightarrow>
        r \<in> set (abort_requests_tbl db) \<and> ab_request_id r \<noteq> ab_request_id row" for r
      by (metis (mono_tags, lifting) mem_Collect_eq set_filter)
    then show ?thesis using one_pending_latest [OF op row(1)]
      by (fastforce simp: filter_empty_conv ab_pending_def)
  qed
  then have "latest_pending k (abort_requests_tbl db') = None"
    by (simp add: latest_pending_def first_row_def order_by_def)
  then have "confirm_abort_request now' k token' sender' chat' thread' message' db' =
      (Inl (ValueError ''no pending abort request''), db')"
    by (simp add: confirm_abort_request_def confirm_abort_body_def connect_def)
  with row inr r cc st show ?thesis by (auto split: if_splits)
qed

lemma reachable_active: "reachable init_control rc_step db_active"
  unfolding db_active_def
  by (rule reachable.reach_step [of init_control rc_step empty_control,
        OF reachable.reach_init rc_step.ensure [of empty_control 5 "''r''"]])
    (simp add: init_control_def empty_control_def)

lemma reachable_requested: "reachable init_control rc_step db_requested"
  unfolding db_requested_def
  by (rule reachable.reach_step [of init_control rc_step, OF reachable_active
        rc_step.create_abort [of "''ou_1''" "''stop''" db_active 6 "''q''" "''r''" "''h''" "''oc_1''" None 600]])
    simp_all

theorem confirm_abort_sound_witness:
  "let (r, db) = confirm_abort_request 7 ''r'' ''h'' ''ou_1'' ''oc_1'' None ''om_2'' db_requested
   in (\<exists>c. r = Inr c) \<and>
      confirm_abort_request 8 ''r'' ''h'' ''ou_1'' ''oc_1'' None ''om_3'' db =
        (Inl (ValueError ''no pending abort request''), db)"
proof -
  let ?run = "confirm_abort_request 7 ''r'' ''h'' ''ou_1'' ''oc_1'' None ''om_2'' db_requested"
  have "map_sum (\<lambda>_. ()) rc_state (fst ?run) = Inr ''abort_requested''"
    unfolding db_requested_def db_active_row by code_simp
  then obtain c where "?run = (Inr c, snd ?run)"
    by (cases "fst ?run") (auto simp: prod_eq_iff)
  note run = this
  from confirm_abort_sound [OF reachable_requested run, where now' = 8 and token' = "''h''"
      and sender' = "''ou_1''" and chat' = "''oc_1''" and thread' = None and message' = "''om_3''"]
  show ?thesis by (subst run) simp
qed

text \<open>
  An expired confirmation is refused and leaves no trace: the UPDATE that
  marks the request expired is rolled back with the error, so the row is still
  pending afterwards.
\<close>

theorem expired_confirmation_rolls_back:
  assumes "latest_pending k (abort_requests_tbl db) = Some row" and "ab_expires_at row < now"
  shows "confirm_abort_request now k token sender chat thread message db =
      (Inl (ValueError ''abort confirmation token expired''), db) \<and>
    (\<exists>r \<in> set (abort_requests_tbl db). r = row \<and> ab_status r = ''pending'')"
proof -
  have "row \<in> set (abort_requests_tbl db)" "ab_status row = ''pending''"
    using latest_pending_row [OF assms(1)] by blast+
  then show ?thesis using assms
    by (simp add: confirm_abort_request_def confirm_abort_body_def connect_def)
qed

theorem expired_confirmation_rolls_back_witness:
  "confirm_abort_request 601 ''r'' ''h'' ''ou_1'' ''oc_1'' None ''om_2'' db_requested =
     (Inl (ValueError ''abort confirmation token expired''), db_requested)"
proof -
  have "map_option ab_expires_at (latest_pending ''r'' (abort_requests_tbl db_requested)) = Some 600"
    unfolding db_requested_def db_active_row by code_simp
  then obtain row where "latest_pending ''r'' (abort_requests_tbl db_requested) = Some row"
    "ab_expires_at row < 601" by auto
  from expired_confirmation_rolls_back [OF this] show ?thesis by blast
qed

text \<open>
  What the startup check of completed runs really selects: a NULL compliance
  or completion source makes its comparison unknown, so a completed run without
  them passes; only a present wrong value or a bad head is caught.
\<close>

theorem completed_check_ignores_null:
  "sql_true (chk_completed_metadata_missing r) \<longleftrightarrow> rc_state r = ''completed'' \<and>
     ((\<exists>c. rc_compliance r = Some c \<and> c \<notin> {''verified'', ''unverified''}) \<or>
      (\<exists>s. rc_completion_source r = Some s \<and> s \<notin> {''controller'', ''external''}) \<or>
      sha_ok (rc_checked_head r) = False)"
  by (auto simp: chk_completed_metadata_missing_def)

section \<open>Repeated merge polls\<close>

definition poll_wait ::
  "string \<Rightarrow> int \<Rightarrow> string option \<Rightarrow> merge_blocker \<Rightarrow> int \<Rightarrow> int \<Rightarrow> bool list \<times> control_db \<Rightarrow>
   bool list \<times> control_db" where
  "poll_wait k iid h b retry now = (\<lambda>(changes, db).
     case set_merge_wait now k iid h b retry db of
       (Inr (_, ch), db') \<Rightarrow> (changes @ [ch], db') | (Inl _, db') \<Rightarrow> (changes, db'))"

lemma poll_wait_again:
  assumes "merge_wait db k = Some p" "mw_head_sha p = h" "mw_blocker_kind p = mb_kind b"
    "mw_blocker p = take 1000 (mb_message b)" "mw_blocker_url p = mb_url b"
    "mw_blocker_owner p = mb_owner b" "mw_blocker_updated_at p = mb_updated_at b"
  shows "\<exists>q db'. poll_wait k iid h b retry now (cs, db) = (cs @ [False], db') \<and>
    merge_wait db' k = Some q \<and> mw_head_sha q = h \<and> mw_blocker_kind q = mb_kind b \<and>
    mw_blocker q = take 1000 (mb_message b) \<and> mw_blocker_url q = mb_url b \<and>
    mw_blocker_owner q = mb_owner b \<and> mw_blocker_updated_at q = mb_updated_at b \<and>
    mw_first_seen_at q = mw_first_seen_at p \<and> mw_last_checked_at q = now"
proof -
  have "mw_run_key p = k" using assms(1) by (auto simp: merge_wait_def dest: find_SomeD)
  then show ?thesis using assms
    by (simp add: poll_wait_def set_merge_wait_def connect_def Let_def merge_wait_def find_update_where_on)
qed

text \<open>
  The first time a merge blocker was seen survives any number of polls that
  find the same blocker on the same head, and only the first poll reports a
  change.
\<close>

theorem blocker_first_seen_is_stable:
  assumes new: "merge_wait db k = None"
  shows "\<exists>q. fst (fold (poll_wait k iid h b retry) (t # ts) ([], db)) = True # replicate (length ts) False \<and>
    merge_wait (snd (fold (poll_wait k iid h b retry) (t # ts) ([], db))) k = Some q \<and>
    mw_first_seen_at q = t \<and> mw_last_checked_at q = last (t # ts)"
proof -
  let ?same = "\<lambda>q. mw_head_sha q = h \<and> mw_blocker_kind q = mb_kind b \<and>
    mw_blocker q = take 1000 (mb_message b) \<and> mw_blocker_url q = mb_url b \<and>
    mw_blocker_owner q = mb_owner b \<and> mw_blocker_updated_at q = mb_updated_at b"
  have again: "\<exists>q. fst (fold (poll_wait k iid h b retry) ts (cs, d)) = cs @ replicate (length ts) False \<and>
      merge_wait (snd (fold (poll_wait k iid h b retry) ts (cs, d))) k = Some q \<and>
      mw_first_seen_at q = mw_first_seen_at p \<and> mw_last_checked_at q = last (mw_last_checked_at p # ts)"
    if "merge_wait d k = Some p" "?same p" for d cs p and ts :: "int list"
    using that
  proof (induction ts arbitrary: d cs p)
    case (Cons s ts)
    from Cons.prems poll_wait_again [of d k p h b iid retry s cs] obtain q d' where
      s: "poll_wait k iid h b retry s (cs, d) = (cs @ [False], d')" "merge_wait d' k = Some q" "?same q"
         "mw_first_seen_at q = mw_first_seen_at p" "mw_last_checked_at q = s" by blast
    from Cons.IH [OF s(2,3), of "cs @ [False]"] s(1,4,5) show ?case by simp
  qed simp
  have find: "find (\<lambda>r. mw_run_key r = k) (merge_wait_tbl db) = None" using new by (simp add: merge_wait_def)
  then obtain p d where "poll_wait k iid h b retry t ([], db) = ([True], d)" "merge_wait d k = Some p"
    "?same p" "mw_first_seen_at p = t" "mw_last_checked_at p = t"
    by (simp add: poll_wait_def set_merge_wait_def connect_def Let_def merge_wait_def find_append)
  with again [of d p ts "[True]"] show ?thesis by simp
qed

theorem blocker_first_seen_is_stable_witness:
  "\<exists>q. merge_wait (snd (fold (poll_wait ''r'' 4 None \<lparr>mb_kind = ''conflict'', mb_message = ''m'',
      mb_url = None, mb_owner = None, mb_updated_at = None, mb_immediate_exception = False\<rparr> 60)
      [10, 70, 130] ([], db_active))) ''r'' = Some q \<and> mw_first_seen_at q = 10"
proof -
  have "merge_wait db_active ''r'' = None" by (simp add: db_active_row merge_wait_def)
  from blocker_first_seen_is_stable [OF this, where t = 10 and ts = "[70, 130]" and iid = 4 and h = None
      and retry = 60 and b = "\<lparr>mb_kind = ''conflict'', mb_message = ''m'', mb_url = None, mb_owner = None,
        mb_updated_at = None, mb_immediate_exception = False\<rparr>"]
  show ?thesis by blast
qed

end
