(* ===== verification/Models.thy ===== *)
theory Models
  imports Prelude
begin

text \<open>
  The data model of models.py below the completion contract: the enums and
  their values, the regular expressions of the field constraints as predicates,
  \<open>PurePosixPath\<close>, and the run, card, baseline, repair and evidence records with
  their validators. A validator is a function to \<open>unit res\<close>; a \<open>Field\<close> constraint
  is a conjunct of the record's \<open>_fields\<close> predicate.
\<close>

section \<open>Enums\<close>

datatype Stage = SPEC_WRITE | SPEC_REVIEW | PLAN_WRITE | PLAN_REVIEW | TASKS_WRITE
  | TASKS_REVIEW | IMPLEMENT | TEST | CODE_REVIEW

datatype Phase = SPEC_PHASE | PLAN_PHASE | TASKS_PHASE | CODE_PHASE

datatype WorkMode = NORMAL | FINALIZATION

datatype RepairKind = REVIEW_FAILURE | CODE_GATE_FAILURE | FROZEN_ARTIFACT_VIOLATION

datatype BaselineDisposition = SOURCE | REVIEWED | FORCED_AFTER_REVIEW_LIMIT

datatype TestDisposition = EXECUTED | SKIPPED_UNAVAILABLE

datatype GatePhase = IMPLEMENTATION_ENTRY | IMPLEMENTATION_COMPLETION | MIGRATION_EXECUTION
  | DEPLOYMENT_ENTRY | RELEASE_ACCEPTANCE

datatype GateDecision = APPROVED | REJECTED

datatype ChangeStrategy = EXTEND_EXISTING | MODIFY_EXISTING | EXTEND_AND_MODIFY

datatype Outcome = PASS | FAIL | CANCELLED

fun stage_value :: "Stage \<Rightarrow> string" where
  "stage_value SPEC_WRITE = ''spec-write''"
| "stage_value SPEC_REVIEW = ''spec-review''"
| "stage_value PLAN_WRITE = ''plan-write''"
| "stage_value PLAN_REVIEW = ''plan-review''"
| "stage_value TASKS_WRITE = ''tasks-write''"
| "stage_value TASKS_REVIEW = ''tasks-review''"
| "stage_value IMPLEMENT = ''implement''"
| "stage_value TEST = ''test''"
| "stage_value CODE_REVIEW = ''code-review''"

lemma stage_value_inject [simp]: "stage_value s = stage_value t \<longleftrightarrow> s = t"
  by (cases s; cases t) simp_all

definition all_stages :: "Stage list" where
  "all_stages = [SPEC_WRITE, SPEC_REVIEW, PLAN_WRITE, PLAN_REVIEW, TASKS_WRITE,
     TASKS_REVIEW, IMPLEMENT, TEST, CODE_REVIEW]"

text \<open>\<open>Stage(value)\<close>; \<open>None\<close> is its ValueError.\<close>

definition stage_of_value :: "string \<Rightarrow> Stage option" where
  "stage_of_value v = find (\<lambda>s. stage_value s = v) all_stages"

lemma stage_of_value_inverse [simp]: "stage_of_value (stage_value s) = Some s"
  by (cases s) (simp_all add: stage_of_value_def all_stages_def)

section \<open>Patterns\<close>

text \<open>
  The regular expressions of the module, each anchored at both ends by pydantic's
  regex engine.
\<close>

definition is_digit :: "char \<Rightarrow> bool" where
  "is_digit c \<longleftrightarrow> CHR ''0'' \<le> c \<and> c \<le> CHR ''9''"

definition is_lower :: "char \<Rightarrow> bool" where
  "is_lower c \<longleftrightarrow> CHR ''a'' \<le> c \<and> c \<le> CHR ''z''"

definition is_upper :: "char \<Rightarrow> bool" where
  "is_upper c \<longleftrightarrow> CHR ''A'' \<le> c \<and> c \<le> CHR ''Z''"

definition is_key_char :: "char \<Rightarrow> bool" where
  "is_key_char c \<longleftrightarrow> is_lower c \<or> is_digit c"

definition is_id_char :: "char \<Rightarrow> bool" where
  "is_id_char c \<longleftrightarrow> is_lower c \<or> is_upper c \<or> is_digit c \<or> c = CHR ''_'' \<or> c = CHR ''-''"

definition is_run_key_body :: "string \<Rightarrow> bool" where
  "is_run_key_body s \<longleftrightarrow> length s = 20 \<and> list_all is_key_char s"

definition is_run_key :: "string \<Rightarrow> bool" where
  "is_run_key s \<longleftrightarrow> starts_with ''hollysys-'' s \<and> is_run_key_body (drop 9 s)"

definition is_source_key :: "string \<Rightarrow> bool" where
  "is_source_key s \<longleftrightarrow> starts_with ''source-'' s \<and> is_run_key_body (drop 7 s)"

text \<open>\<open>^prefix[A-Za-z0-9_-]+$\<close>\<close>

definition is_prefixed_id :: "string \<Rightarrow> string \<Rightarrow> bool" where
  "is_prefixed_id p s \<longleftrightarrow> starts_with p s \<and> drop (length p) s \<noteq> [] \<and>
     list_all is_id_char (drop (length p) s)"

definition is_card_id :: "string \<Rightarrow> bool" where
  "is_card_id = is_prefixed_id ''t_''"

definition is_digest :: "string \<Rightarrow> bool" where
  "is_digest s \<longleftrightarrow> length s = 64 \<and> list_all is_lower_hex s"

definition is_gate_reviewer :: "string \<Rightarrow> bool" where
  "is_gate_reviewer s \<longleftrightarrow> starts_with ''id:'' s \<and> (case drop 3 s of [] \<Rightarrow> False
     | c # ds \<Rightarrow> is_digit c \<and> c \<noteq> CHR ''0'' \<and> list_all is_digit ds)"

definition opt_all :: "('a \<Rightarrow> bool) \<Rightarrow> 'a option \<Rightarrow> bool" where
  "opt_all p x \<longleftrightarrow> (case x of None \<Rightarrow> True | Some y \<Rightarrow> p y)"

lemma opt_all_simps [simp]: "opt_all p None" "opt_all p (Some x) = p x"
  by (simp_all add: opt_all_def)

section \<open>PurePosixPath\<close>

text \<open>
  \<open>PurePosixPath(s)\<close>: the root is empty, a slash, or two slashes when the string
  starts with exactly two; the components are the non-empty parts other than a
  single dot. \<open>path.parts\<close> has the root in front when there is one.
\<close>

fun split_slash :: "string \<Rightarrow> string list" where
  "split_slash [] = [[]]"
| "split_slash (c # s) = (if c = CHR ''/'' then [] # split_slash s
     else case split_slash s of [] \<Rightarrow> [[c]] | w # ws \<Rightarrow> (c # w) # ws)"

datatype posix_path = PosixPath (pp_root: string) (pp_comps: "string list")

definition path_root :: "string \<Rightarrow> string" where
  "path_root s = (if starts_with ''//'' s \<and> \<not> starts_with ''///'' s then ''//''
     else if starts_with ''/'' s then ''/'' else '''')"

definition path_of :: "string \<Rightarrow> posix_path" where
  "path_of s = PosixPath (path_root s)
     (filter (\<lambda>w. w \<noteq> [] \<and> w \<noteq> ''.'') (split_slash s))"

definition is_absolute :: "posix_path \<Rightarrow> bool" where
  "is_absolute p \<longleftrightarrow> pp_root p \<noteq> []"

definition path_parts :: "posix_path \<Rightarrow> string list" where
  "path_parts p = (if pp_root p = [] then pp_comps p else pp_root p # pp_comps p)"

fun join_slash :: "string list \<Rightarrow> string" where
  "join_slash [] = []"
| "join_slash [w] = w"
| "join_slash (w # v # ws) = w @ ''/'' @ join_slash (v # ws)"

text \<open>\<open>str(path)\<close>: a relative path with no component prints as a dot.\<close>

definition path_str :: "posix_path \<Rightarrow> string" where
  "path_str p = (if pp_root p = [] \<and> pp_comps p = [] then ''.''
     else pp_root p @ join_slash (pp_comps p))"

text \<open>\<open>name.rfind('.')\<close> splits a name into stem and suffix, unless the dot is first or last.\<close>

definition stem_suffix :: "string \<Rightarrow> string \<times> string" where
  "stem_suffix name =
     (let ext = rev (takeWhile (\<lambda>c. c \<noteq> CHR ''.'') (rev name));
          stem = rev (tl (dropWhile (\<lambda>c. c \<noteq> CHR ''.'') (rev name)))
      in if CHR ''.'' \<notin> set name \<or> ext = [] \<or> stem = [] then (name, [])
         else (stem, ''.'' @ ext))"

definition path_name :: "posix_path \<Rightarrow> string" where
  "path_name p = (if pp_comps p = [] then [] else last (pp_comps p))"

definition path_suffix :: "posix_path \<Rightarrow> string" where
  "path_suffix p = snd (stem_suffix (path_name p))"

definition without_suffix :: "posix_path \<Rightarrow> posix_path" where
  "without_suffix p = (if pp_comps p = [] then p else
     PosixPath (pp_root p) (butlast (pp_comps p) @ [fst (stem_suffix (path_name p))]))"

definition lower_char :: "char \<Rightarrow> char" where
  "lower_char c = (if is_upper c then char_of (of_char c + 32 :: nat) else c)"

lemma split_slash_no_slash: "w \<in> set (split_slash s) \<Longrightarrow> CHR ''/'' \<notin> set w"
proof (induction s arbitrary: w)
  case (Cons c s)
  have IH: "v \<in> set (split_slash s) \<Longrightarrow> CHR ''/'' \<notin> set v" for v by (rule Cons.IH)
  show ?case
  proof (cases "c = CHR ''/''")
    case False
    with Cons.prems have "w \<in> set (case split_slash s of [] \<Rightarrow> [[c]] | u # us \<Rightarrow> (c # u) # us)"
      by simp
    with IH False show ?thesis by (cases "split_slash s") auto
  qed (use Cons.prems IH in auto)
qed simp

lemma path_of_comps: "w \<in> set (pp_comps (path_of s)) \<Longrightarrow> w \<noteq> [] \<and> w \<noteq> ''.'' \<and> CHR ''/'' \<notin> set w"
  by (auto simp: path_of_def dest: split_slash_no_slash)

text \<open>
  The test shared by \<open>RepositoryEvidence\<close>, the gate artifact paths and the
  artifact reads: an exact path below the repository root.
\<close>

definition exact_repository_path :: "string \<Rightarrow> bool" where
  "exact_repository_path raw \<longleftrightarrow>
     \<not> (is_absolute (path_of raw) \<or> raw \<in> {[], ''.''} \<or> ''..'' \<in> set (path_parts (path_of raw)) \<or>
        (\<exists>c \<in> set raw. c \<in> set (''*?[]'' @ [CHR 0x00])))"

text \<open>A scratch directory is a proper child of /opt/data/scratch.\<close>

definition scratch_root :: posix_path where
  "scratch_root = path_of ''/opt/data/scratch''"

definition validate_scratch_dir :: "string \<Rightarrow> unit res" where
  "validate_scratch_dir scratch_dir =
     (let path = path_of scratch_dir; base_dir = scratch_root
      in if \<not> is_absolute path \<or> path = base_dir \<or>
            take (length (path_parts base_dir)) (path_parts path) \<noteq> path_parts base_dir \<or>
            ''..'' \<in> set (path_parts path)
         then Inl (ValueError ''scratch_dir must be a child of /opt/data/scratch'')
         else Inr ())"

section \<open>Run and delivery records\<close>

text \<open>
  \<open>datetime\<close> is kept as its epoch second with its time zone offset, if any; an
  \<open>AnyHttpUrl\<close> as its string.
\<close>

record py_datetime =
  dt_epoch :: int
  dt_tzinfo :: "int option"

record FeishuOrigin =
  fo_message_id :: string
  fo_chat_id :: string
  fo_thread_id :: "string option"
  fo_chat_type :: string
  fo_initiator_open_id :: string

definition origin_fields :: "FeishuOrigin \<Rightarrow> bool" where
  "origin_fields o1 \<longleftrightarrow> is_prefixed_id ''om_'' (fo_message_id o1) \<and>
     is_prefixed_id ''oc_'' (fo_chat_id o1) \<and> fo_chat_type o1 \<in> set [''group'', ''p2p''] \<and>
     is_prefixed_id ''ou_'' (fo_initiator_open_id o1)"

record ProjectFacts =
  pf_host :: string
  pf_project_id :: int
  pf_project_path :: string
  pf_project_display_name :: string
  pf_default_branch :: string

record SourceFacts =
  sf_prd_path :: string
  sf_prd_commit_sha :: string
  sf_prd_blob_sha :: string
  sf_prd_blob_url :: string
  sf_prd_mr_url :: string

record WorkspaceFacts =
  wf_board :: string
  wf_checkout :: string
  wf_worktree :: string
  wf_branch :: string
  wf_target_branch :: string
  wf_repository_base_sha :: string

record ArtifactScope =
  as_source_prd_path :: string
  as_root_path :: string
  as_spec_patterns :: "string list"
  as_plan_patterns :: "string list"
  as_tasks_patterns :: "string list"

text \<open>
  \<open>ArtifactScope.from_prd_path\<close>. \<open>relative_patterns\<close> is the configured dict; an
  absent or empty one is falsy and the defaults apply.
\<close>

definition default_patterns :: "(string \<times> string list) list" where
  "default_patterns = [(''spec-review'', [''specs/spec-*.md'']),
     (''plan-review'', [''plans/plan-*.md'']),
     (''tasks-review'', [''tasks/task-*.md'', ''tasks/tasks-*.md''])]"

definition scoped_pattern :: "string \<Rightarrow> string \<Rightarrow> string res" where
  "scoped_pattern base_dir pattern =
     (if is_absolute (path_of pattern) \<or> ''..'' \<in> set (path_parts (path_of pattern))
      then Inl (ValueError ''artifact scope pattern must be relative'')
      else Inr (base_dir @ ''/'' @ pattern))"

fun collect :: "('a \<Rightarrow> 'b res) \<Rightarrow> 'a list \<Rightarrow> 'b list res" where
  "collect f [] = Inr []"
| "collect f (x # xs) = (case f x of Inl e \<Rightarrow> Inl e | Inr y \<Rightarrow>
     (case collect f xs of Inl e \<Rightarrow> Inl e | Inr ys \<Rightarrow> Inr (y # ys)))"

definition scoped :: "(string \<times> string list) list \<Rightarrow> string \<Rightarrow> Stage \<Rightarrow> string list res" where
  "scoped configured base_dir stage =
     (case map_of configured (stage_value stage) of
        None \<Rightarrow> Inl (ValueError (''artifact scope lacks '' @ stage_value stage @ '' patterns''))
      | Some [] \<Rightarrow> Inl (ValueError (''artifact scope lacks '' @ stage_value stage @ '' patterns''))
      | Some patterns \<Rightarrow> collect (scoped_pattern base_dir) patterns)"

definition from_prd_path :: "string \<Rightarrow> (string \<times> string list) list \<Rightarrow> ArtifactScope res" where
  "from_prd_path prd_path relative_patterns =
     (let path = path_of prd_path in
      if is_absolute path \<or> map lower_char (path_suffix path) \<noteq> ''.md'' \<or>
         (\<exists>part \<in> set (path_parts path). part \<in> {[], ''.'', ''..''}) \<or> length (path_parts path) < 2
      then Inl (ValueError ''PRD path cannot define a canonical artifact scope'')
      else let base_dir = path_str (without_suffix path);
               configured = (if relative_patterns = [] then default_patterns else relative_patterns)
           in case scoped configured base_dir SPEC_REVIEW of Inl e \<Rightarrow> Inl e | Inr spec \<Rightarrow>
              (case scoped configured base_dir PLAN_REVIEW of Inl e \<Rightarrow> Inl e | Inr plan \<Rightarrow>
              (case scoped configured base_dir TASKS_REVIEW of Inl e \<Rightarrow> Inl e | Inr tasks \<Rightarrow>
                 Inr \<lparr>as_source_prd_path = prd_path, as_root_path = base_dir, as_spec_patterns = spec,
                      as_plan_patterns = plan, as_tasks_patterns = tasks\<rparr>)))"

definition patterns_for :: "ArtifactScope \<Rightarrow> Stage \<Rightarrow> string list res" where
  "patterns_for sc stage = (case stage of
      SPEC_WRITE \<Rightarrow> Inr (as_spec_patterns sc) | SPEC_REVIEW \<Rightarrow> Inr (as_spec_patterns sc)
    | PLAN_WRITE \<Rightarrow> Inr (as_plan_patterns sc) | PLAN_REVIEW \<Rightarrow> Inr (as_plan_patterns sc)
    | TASKS_WRITE \<Rightarrow> Inr (as_tasks_patterns sc) | TASKS_REVIEW \<Rightarrow> Inr (as_tasks_patterns sc)
    | _ \<Rightarrow> Inl (ValueError (stage_value stage @ '' has no document artifact scope'')))"

definition run_allows_document_path :: "ArtifactScope \<Rightarrow> string \<Rightarrow> bool" where
  "run_allows_document_path sc path \<longleftrightarrow>
     path \<noteq> as_source_prd_path sc \<and> starts_with (as_root_path sc @ ''/'') path"

record RunRecord =
  rr_run_key :: string
  rr_source_key :: string
  rr_run_generation :: string
  rr_started_at :: py_datetime
  rr_project :: ProjectFacts
  rr_source :: SourceFacts
  rr_artifact_scope :: ArtifactScope
  rr_workspace :: WorkspaceFacts
  rr_origin :: FeishuOrigin

definition run_fields :: "RunRecord \<Rightarrow> bool" where
  "run_fields r \<longleftrightarrow> is_run_key (rr_run_key r) \<and> is_source_key (rr_source_key r) \<and>
     is_run_key_body (rr_run_generation r) \<and> 0 < pf_project_id (rr_project r) \<and>
     valid_sha (sf_prd_commit_sha (rr_source r)) \<and> valid_sha (sf_prd_blob_sha (rr_source r)) \<and>
     as_spec_patterns (rr_artifact_scope r) \<noteq> [] \<and> as_plan_patterns (rr_artifact_scope r) \<noteq> [] \<and>
     as_tasks_patterns (rr_artifact_scope r) \<noteq> [] \<and>
     valid_sha (wf_repository_base_sha (rr_workspace r)) \<and> origin_fields (rr_origin r)"

definition validate_run :: "RunRecord \<Rightarrow> unit res" where
  "validate_run r =
     (if dt_tzinfo (rr_started_at r) = None
      then Inl (ValueError ''started_at must include a timezone'')
      else if as_source_prd_path (rr_artifact_scope r) \<noteq> sf_prd_path (rr_source r)
      then Inl (ValueError ''artifact scope must be derived from the source PRD'')
      else Inr ())"

record DeliveryBinding =
  db_mr_iid :: int
  db_mr_url :: string
  db_creator :: string
  db_created_at :: py_datetime
  db_initial_head_sha :: string
  db_claim_note_id :: int

definition delivery_fields :: "DeliveryBinding \<Rightarrow> bool" where
  "delivery_fields b \<longleftrightarrow> 0 < db_mr_iid b \<and> db_creator b \<noteq> [] \<and>
     valid_sha (db_initial_head_sha b) \<and> 0 < db_claim_note_id b"

definition validate_delivery :: "DeliveryBinding \<Rightarrow> unit res" where
  "validate_delivery b = (if dt_tzinfo (db_created_at b) = None
     then Inl (ValueError ''delivery created_at must include a timezone'') else Inr ())"

section \<open>Baselines and repair contexts\<close>

record ArtifactBaseline =
  bl_phase :: string
  bl_disposition :: BaselineDisposition
  bl_artifact_paths :: "string list"
  bl_artifact_digest :: string
  bl_artifact_commit_sha :: string
  bl_source_card_id :: string
  bl_decision_urls :: "string list"
  bl_key_decisions :: "string list"
  bl_unresolved_findings :: "string list"
  bl_residual_risk :: "string list"

definition baseline_fields :: "ArtifactBaseline \<Rightarrow> bool" where
  "baseline_fields b \<longleftrightarrow> bl_phase b \<in> set [''prd'', ''spec'', ''plan'', ''tasks''] \<and>
     bl_artifact_paths b \<noteq> [] \<and> is_digest (bl_artifact_digest b) \<and>
     valid_sha (bl_artifact_commit_sha b) \<and> is_card_id (bl_source_card_id b)"

record RepairContext =
  rp_kind :: RepairKind
  rp_trigger_card_id :: string
  rp_issues :: "string list"
  rp_review_attempt :: "int option"
  rp_review_limit :: "int option"
  rp_related_card_ids :: "string list"
  rp_head_sha :: "string option"
  rp_code_modification :: "int option"
  rp_code_modification_limit :: "int option"
  rp_frozen_baselines :: "ArtifactBaseline list"

definition repair_fields :: "RepairContext \<Rightarrow> bool" where
  "repair_fields p \<longleftrightarrow> is_card_id (rp_trigger_card_id p) \<and> rp_issues p \<noteq> [] \<and>
     opt_all (\<lambda>n. 1 \<le> n) (rp_review_attempt p) \<and> opt_all (\<lambda>n. 1 \<le> n) (rp_review_limit p) \<and>
     list_all is_card_id (rp_related_card_ids p) \<and> opt_all valid_sha (rp_head_sha p) \<and>
     opt_all (\<lambda>n. 1 \<le> n) (rp_code_modification p) \<and>
     opt_all (\<lambda>n. 1 \<le> n) (rp_code_modification_limit p) \<and>
     list_all baseline_fields (rp_frozen_baselines p)"

definition exceeds :: "int option \<Rightarrow> int option \<Rightarrow> bool" where
  "exceeds a b \<longleftrightarrow> (case (a, b) of (Some x, Some y) \<Rightarrow> x > y | _ \<Rightarrow> False)"

definition validate_repair_contract :: "RepairContext \<Rightarrow> unit res" where
  "validate_repair_contract p =
     (if rp_kind p = REVIEW_FAILURE \<and> (rp_review_attempt p = None \<or> rp_review_limit p = None)
      then Inl (ValueError ''review_failure requires review_attempt and review_limit'')
      else if rp_kind p \<noteq> REVIEW_FAILURE \<and>
              (rp_review_attempt p \<noteq> None \<or> rp_review_limit p \<noteq> None)
      then Inl (ValueError ''review attempt fields are only valid for review_failure'')
      else if rp_kind p = CODE_GATE_FAILURE \<and>
              (rp_related_card_ids p = [] \<or> rp_head_sha p = None \<or>
               rp_code_modification p = None \<or> rp_code_modification_limit p = None)
      then Inl (ValueError ''code_gate_failure requires both gate cards, head, and modification counters'')
      else if rp_code_modification p \<noteq> None \<and>
              (rp_code_modification_limit p = None \<or>
               exceeds (rp_code_modification p) (rp_code_modification_limit p))
      then Inl (ValueError ''code_modification cannot exceed code_modification_limit'')
      else if rp_kind p \<noteq> CODE_GATE_FAILURE \<and>
              (rp_related_card_ids p \<noteq> [] \<or> rp_head_sha p \<noteq> None \<or>
               rp_code_modification p \<noteq> None \<or> rp_code_modification_limit p \<noteq> None)
      then Inl (ValueError ''code gate fields are only valid for code_gate_failure'')
      else if exceeds (rp_review_attempt p) (rp_review_limit p)
      then Inl (ValueError ''review_attempt cannot exceed review_limit'')
      else Inr ())"

text \<open>The contract of a repair card in one table: what each kind carries.\<close>

definition repair_contract :: "RepairContext \<Rightarrow> bool" where
  "repair_contract p \<longleftrightarrow> (case rp_kind p of
      REVIEW_FAILURE \<Rightarrow> (\<exists>a l. rp_review_attempt p = Some a \<and> rp_review_limit p = Some l \<and> a \<le> l) \<and>
        rp_related_card_ids p = [] \<and> rp_head_sha p = None \<and> rp_code_modification p = None \<and>
        rp_code_modification_limit p = None
    | CODE_GATE_FAILURE \<Rightarrow> rp_review_attempt p = None \<and> rp_review_limit p = None \<and>
        rp_related_card_ids p \<noteq> [] \<and> rp_head_sha p \<noteq> None \<and>
        (\<exists>m l. rp_code_modification p = Some m \<and> rp_code_modification_limit p = Some l \<and> m \<le> l)
    | FROZEN_ARTIFACT_VIOLATION \<Rightarrow> rp_review_attempt p = None \<and> rp_review_limit p = None \<and>
        rp_related_card_ids p = [] \<and> rp_head_sha p = None \<and> rp_code_modification p = None \<and>
        rp_code_modification_limit p = None)"

lemma repair_contract_iff: "validate_repair_contract p = Inr () \<longleftrightarrow> repair_contract p"
  by (cases "rp_kind p"; cases "rp_review_attempt p"; cases "rp_review_limit p";
      cases "rp_code_modification p"; cases "rp_code_modification_limit p")
    (auto simp: validate_repair_contract_def repair_contract_def exceeds_def)

section \<open>Cards\<close>

record CardRecord =
  cr_run :: RunRecord
  cr_stage :: Stage
  cr_iteration :: int
  cr_mode :: WorkMode
  cr_idempotency_key :: string
  cr_parent_card_id :: string
  cr_assignee :: string
  cr_skills :: "string list"
  cr_frozen_baselines :: "ArtifactBaseline list"
  cr_repair_context :: "RepairContext option"
  cr_resume_answer :: "string option"
  cr_resumed_from_card_id :: "string option"
  cr_expected_head_sha :: "string option"
  cr_context_digest :: string
  cr_scratch_dir :: string
  cr_delivery :: "DeliveryBinding option"

definition card_fields :: "CardRecord \<Rightarrow> bool" where
  "card_fields c \<longleftrightarrow> run_fields (cr_run c) \<and> 1 \<le> cr_iteration c \<and>
     is_card_id (cr_parent_card_id c) \<and> list_all baseline_fields (cr_frozen_baselines c) \<and>
     opt_all repair_fields (cr_repair_context c) \<and> opt_all valid_sha (cr_expected_head_sha c) \<and>
     is_digest (cr_context_digest c) \<and> opt_all delivery_fields (cr_delivery c)"

record ExceptionCardRecord =
  xr_run :: RunRecord
  xr_parent_card_id :: string
  xr_idempotency_key :: string
  xr_reason :: string
  xr_scratch_dir :: string

definition exception_card_fields :: "ExceptionCardRecord \<Rightarrow> bool" where
  "exception_card_fields c \<longleftrightarrow> run_fields (xr_run c) \<and> is_card_id (xr_parent_card_id c) \<and>
     xr_reason c \<noteq> [] \<and> length (xr_reason c) \<le> 1000"

section \<open>Evidence\<close>

record ForcedAdvance =
  fa_review_limit :: int
  fa_final_review_card_id :: string
  fa_final_review_url :: string
  fa_decision_url :: string
  fa_baseline_commit_sha :: string
  fa_artifact_paths :: "string list"
  fa_artifact_digest :: string
  fa_key_decisions :: "string list"
  fa_unresolved_findings :: "string list"
  fa_residual_risks :: "string list"

definition forced_fields :: "ForcedAdvance \<Rightarrow> bool" where
  "forced_fields f \<longleftrightarrow> 1 \<le> fa_review_limit f \<and> is_card_id (fa_final_review_card_id f) \<and>
     valid_sha (fa_baseline_commit_sha f) \<and> fa_artifact_paths f \<noteq> [] \<and>
     is_digest (fa_artifact_digest f) \<and> fa_key_decisions f \<noteq> []"

record RepositoryEvidence =
  re_repository_base_sha :: string
  re_inspected_paths :: "string list"
  re_existing_capabilities :: "string list"
  re_change_strategy :: ChangeStrategy
  re_reuse_decisions :: "string list"

definition nonempty_strings :: "string list \<Rightarrow> bool" where
  "nonempty_strings xs \<longleftrightarrow> list_all (\<lambda>s. s \<noteq> []) xs"

definition evidence_fields :: "RepositoryEvidence \<Rightarrow> bool" where
  "evidence_fields e \<longleftrightarrow> valid_sha (re_repository_base_sha e) \<and>
     re_inspected_paths e \<noteq> [] \<and> nonempty_strings (re_inspected_paths e) \<and>
     re_existing_capabilities e \<noteq> [] \<and> nonempty_strings (re_existing_capabilities e) \<and>
     re_reuse_decisions e \<noteq> [] \<and> nonempty_strings (re_reuse_decisions e)"

definition validate_repository_paths :: "RepositoryEvidence \<Rightarrow> unit res" where
  "validate_repository_paths e =
     (if \<not> distinct (re_inspected_paths e)
      then Inl (ValueError ''inspected_paths must be unique'')
      else if \<exists>p \<in> set (re_inspected_paths e). \<not> exact_repository_path p
      then Inl (ValueError ''inspected_paths must be exact repository-relative paths'')
      else Inr ())"

record DeterministicCheck =
  dc_validator :: string
  dc_validator_version :: string
  dc_input_digest :: string
  dc_passed :: bool
  dc_error_codes :: "string list"
  dc_result_digest :: string

definition is_error_code :: "string \<Rightarrow> bool" where
  "is_error_code s \<longleftrightarrow> s \<noteq> [] \<and> list_all (\<lambda>c. is_key_char c \<or> c = CHR ''_'') s"

definition check_fields :: "DeterministicCheck \<Rightarrow> bool" where
  "check_fields d \<longleftrightarrow> dc_validator d \<noteq> [] \<and> dc_validator_version d \<noteq> [] \<and>
     is_digest (dc_input_digest d) \<and> list_all is_error_code (dc_error_codes d) \<and>
     is_digest (dc_result_digest d)"

definition validate_check_result :: "DeterministicCheck \<Rightarrow> unit res" where
  "validate_check_result d =
     (if dc_passed d \<and> dc_error_codes d \<noteq> []
      then Inl (ValueError ''passed deterministic check cannot have errors'')
      else if \<not> dc_passed d \<and> dc_error_codes d = []
      then Inl (ValueError ''failed deterministic check requires error_codes'')
      else if \<not> distinct (dc_error_codes d)
      then Inl (ValueError ''deterministic error_codes must be unique'')
      else Inr ())"

section \<open>Requests\<close>

record StartRequest =
  sq_prd_blob_url :: string
  sq_prd_mr_url :: string
  sq_message_id :: string
  sq_chat_id :: string
  sq_thread_id :: "string option"
  sq_chat_type :: string
  sq_initiator :: string

definition start_request_fields :: "StartRequest \<Rightarrow> bool" where
  "start_request_fields q \<longleftrightarrow> is_prefixed_id ''om_'' (sq_message_id q) \<and>
     is_prefixed_id ''oc_'' (sq_chat_id q) \<and> sq_chat_type q \<in> set [''group'', ''p2p''] \<and>
     is_prefixed_id ''ou_'' (sq_initiator q)"

text \<open>\<open>BLOCK_ID_PATTERN\<close>: run key, card id and a positive decimal, joined by colons.\<close>

fun split_colon :: "string \<Rightarrow> string list" where
  "split_colon [] = [[]]"
| "split_colon (c # s) = (if c = CHR '':'' then [] # split_colon s
     else case split_colon s of [] \<Rightarrow> [[c]] | w # ws \<Rightarrow> (c # w) # ws)"

definition is_block_id :: "string \<Rightarrow> bool" where
  "is_block_id s \<longleftrightarrow> (case split_colon s of
      [k, c, n] \<Rightarrow> is_run_key k \<and> is_card_id c \<and>
        (case n of [] \<Rightarrow> False | d # ds \<Rightarrow> is_digit d \<and> d \<noteq> CHR ''0'' \<and> list_all is_digit ds)
    | _ \<Rightarrow> False)"

text \<open>The fields common to the requests a user sends from a chat.\<close>

record ChatRequest =
  ch_run_key :: string
  ch_message_id :: string
  ch_sender :: string
  ch_chat_id :: string
  ch_thread_id :: "string option"

definition chat_fields :: "('a ChatRequest_scheme) \<Rightarrow> bool" where
  "chat_fields q \<longleftrightarrow> is_run_key (ch_run_key q) \<and> is_prefixed_id ''om_'' (ch_message_id q) \<and>
     is_prefixed_id ''ou_'' (ch_sender q) \<and> is_prefixed_id ''oc_'' (ch_chat_id q)"

record ResolveRequest = ChatRequest +
  rq_card_id :: string
  rq_block_id :: string
  rq_answer :: string

definition resolve_request_fields :: "ResolveRequest \<Rightarrow> bool" where
  "resolve_request_fields q \<longleftrightarrow> chat_fields q \<and> is_card_id (rq_card_id q) \<and>
     is_block_id (rq_block_id q) \<and> rq_answer q \<noteq> [] \<and> length (rq_answer q) \<le> 4000"

text \<open>\<open>RecoverRequest\<close> and \<open>AbortRequest\<close> have the same fields and bounds.\<close>

record ReasonRequest = ChatRequest +
  rq_reason :: string

definition reason_request_fields :: "ReasonRequest \<Rightarrow> bool" where
  "reason_request_fields q \<longleftrightarrow> chat_fields q \<and> rq_reason q \<noteq> [] \<and> length (rq_reason q) \<le> 1000"

record AbortConfirmRequest = ChatRequest +
  rq_token :: string

definition abort_confirm_fields :: "AbortConfirmRequest \<Rightarrow> bool" where
  "abort_confirm_fields q \<longleftrightarrow> chat_fields q \<and> length (rq_token q) = 8 \<and>
     list_all (\<lambda>c. is_upper c \<or> (is_digit c \<and> c \<noteq> CHR ''0'' \<and> c \<noteq> CHR ''1'')) (rq_token q)"

definition RPC_METHODS :: "string list" where
  "RPC_METHODS = [''start'', ''status'', ''status-summary'', ''resolve'', ''recover'', ''health'',
     ''preflight'', ''abort-request'', ''abort-confirm'', ''validate-completion'',
     ''publish-delivery'', ''card-context'', ''completion-template'', ''validate-artifact'']"

end
