(* ===== verification/Completion.thy ===== *)
theory Completion
  imports Models
begin

text \<open>
  The completion contract of models.py: \<open>CompletionMetadata\<close>, its field
  constraints, and \<open>validate_stage_contract\<close> check by check in source order. The
  declarative \<open>stage_contract\<close> says what each stage, outcome and mode must and
  must not carry; the validator accepts exactly that. String fields are the
  values after pydantic's \<open>str_strip_whitespace\<close>.
\<close>

section \<open>Metadata\<close>

record completion_identity =
  cm_protocol_version :: string
  cm_run_key :: string
  cm_source_key :: string
  cm_run_generation :: string
  cm_context_digest :: string
  cm_stage :: Stage
  cm_iteration :: int
  cm_mode :: WorkMode
  cm_outcome :: Outcome
  cm_project_id :: int
  cm_project_path :: string
  cm_checkout :: string
  cm_worktree :: string
  cm_branch :: string
  cm_target_branch :: string
  cm_prd_path :: string
  cm_prd_commit_sha :: string
  cm_prd_blob_sha :: string
  cm_prd_mr_url :: string
  cm_kanban_card_id :: string

record completion_delivery = completion_identity +
  cm_mr_iid :: "int option"
  cm_mr_url :: "string option"
  cm_head_before_sha :: "string option"
  cm_head_sha :: "string option"
  cm_artifact_commit_sha :: "string option"
  cm_artifact_digest :: "string option"
  cm_artifact_paths :: "string list"
  cm_baseline_disposition :: "BaselineDisposition option"
  cm_forced_advance :: "ForcedAdvance option"
  cm_repository_evidence :: "RepositoryEvidence option"
  cm_test_disposition :: "TestDisposition option"
  cm_skip_reason :: "string option"
  cm_verification :: "string list"
  cm_gitlab_urls :: "string list"
  cm_key_decisions :: "string list"
  cm_issues :: "string list"
  cm_residual_risk :: "string list"

record CompletionMetadata = completion_delivery +
  cm_gate_phase :: "GatePhase option"
  cm_gate_decision :: "GateDecision option"
  cm_gate_reviewer :: "string option"
  cm_gate_reviewed_at :: "py_datetime option"
  cm_gate_reason :: "string option"
  cm_gate_evidence_refs :: "string list"
  cm_gate_artifact_paths :: "string list"
  cm_gate_artifact_commit_sha :: "string option"
  cm_gate_artifact_digest :: "string option"
  cm_contract_refs :: "string list"
  cm_requirement_ids :: "string list"
  cm_deterministic_checks :: "DeterministicCheck list"

definition completion_fields :: "CompletionMetadata \<Rightarrow> bool" where
  "completion_fields md \<longleftrightarrow>
     cm_protocol_version md = ''hollysys-controller/v4'' \<and> is_run_key (cm_run_key md) \<and>
     is_source_key (cm_source_key md) \<and> is_run_key_body (cm_run_generation md) \<and>
     is_digest (cm_context_digest md) \<and> 1 \<le> cm_iteration md \<and> 0 < cm_project_id md \<and>
     valid_sha (cm_prd_commit_sha md) \<and> valid_sha (cm_prd_blob_sha md) \<and>
     is_card_id (cm_kanban_card_id md) \<and> opt_all (\<lambda>n. 0 < n) (cm_mr_iid md) \<and>
     opt_all valid_sha (cm_head_before_sha md) \<and> opt_all valid_sha (cm_head_sha md) \<and>
     opt_all valid_sha (cm_artifact_commit_sha md) \<and> opt_all is_digest (cm_artifact_digest md) \<and>
     opt_all forced_fields (cm_forced_advance md) \<and>
     opt_all (\<lambda>e. evidence_fields e \<and> validate_repository_paths e = Inr ()) (cm_repository_evidence md) \<and>
     opt_all (\<lambda>s. s \<noteq> []) (cm_skip_reason md) \<and> opt_all is_gate_reviewer (cm_gate_reviewer md) \<and>
     opt_all (\<lambda>s. s \<noteq> []) (cm_gate_reason md) \<and> nonempty_strings (cm_gate_evidence_refs md) \<and>
     nonempty_strings (cm_gate_artifact_paths md) \<and>
     opt_all valid_sha (cm_gate_artifact_commit_sha md) \<and>
     opt_all is_digest (cm_gate_artifact_digest md) \<and> nonempty_strings (cm_contract_refs md) \<and>
     nonempty_strings (cm_requirement_ids md) \<and>
     list_all (\<lambda>d. check_fields d \<and> validate_check_result d = Inr ()) (cm_deterministic_checks md)"

section \<open>The validator\<close>

definition document_reviews :: "Stage list" where
  "document_reviews = [SPEC_REVIEW, PLAN_REVIEW, TASKS_REVIEW]"

definition document_producers :: "Stage list" where
  "document_producers = [SPEC_WRITE, PLAN_WRITE, TASKS_WRITE]"

definition repository_authors :: "Stage list" where
  "repository_authors = document_producers @ [IMPLEMENT]"

definition code_gates :: "Stage list" where
  "code_gates = [TEST, CODE_REVIEW]"

lemmas stage_set_defs = document_reviews_def document_producers_def repository_authors_def
  code_gates_def

definition gate_fields_present :: "CompletionMetadata \<Rightarrow> bool" where
  "gate_fields_present md \<longleftrightarrow>
     cm_gate_decision md \<noteq> None \<or> cm_gate_reviewer md \<noteq> None \<or> cm_gate_reviewed_at md \<noteq> None \<or>
     cm_gate_reason md \<noteq> None \<or> cm_gate_evidence_refs md \<noteq> [] \<or> cm_gate_artifact_paths md \<noteq> [] \<or>
     cm_gate_artifact_commit_sha md \<noteq> None \<or> cm_gate_artifact_digest md \<noteq> None \<or>
     cm_contract_refs md \<noteq> [] \<or> cm_requirement_ids md \<noteq> []"

definition gate_fields_missing :: "CompletionMetadata \<Rightarrow> bool" where
  "gate_fields_missing md \<longleftrightarrow>
     cm_gate_decision md = None \<or> cm_gate_reviewer md = None \<or> cm_gate_reviewed_at md = None \<or>
     cm_gate_reason md = None \<or> cm_gate_evidence_refs md = [] \<or> cm_gate_artifact_paths md = [] \<or>
     cm_gate_artifact_commit_sha md = None \<or> cm_gate_artifact_digest md = None \<or>
     cm_contract_refs md = [] \<or> cm_requirement_ids md = []"

definition gate_shape_checks :: "CompletionMetadata \<Rightarrow> (bool \<times> string) list" where
  "gate_shape_checks md =
     [(cm_stage md \<in> set [SPEC_REVIEW, PLAN_REVIEW] \<and>
         (cm_gate_phase md \<noteq> None \<or> gate_fields_present md),
       ''SPEC/PLAN review comments are not semantic gates; leave gate_phase and all gate evidence fields empty''),
      (cm_gate_phase md \<noteq> None \<and> gate_fields_missing md,
       ''gate_phase requires decision, reviewer, reviewed_at, reason, evidence refs, frozen artifact paths/version/digest, contract_refs and requirement_ids''),
      (cm_gate_phase md = None \<and> gate_fields_present md,
       ''gate evidence fields require gate_phase'')]"

definition gate_value_checks :: "CompletionMetadata \<Rightarrow> (bool \<times> string) list" where
  "gate_value_checks md =
     (case (cm_gate_phase md, cm_gate_decision md, cm_gate_reviewed_at md) of
        (Some _, Some decision, Some reviewed_at) \<Rightarrow>
          [(dt_tzinfo reviewed_at = None, ''gate_reviewed_at must include a timezone''),
           (decision = APPROVED \<and> cm_outcome md \<noteq> PASS, ''approved gate requires outcome=pass''),
           (decision \<noteq> APPROVED \<and> cm_outcome md \<noteq> FAIL, ''rejected gate requires outcome=fail''),
           (\<not> distinct (cm_requirement_ids md), ''requirement_ids must be unique''),
           (\<not> distinct (cm_contract_refs md), ''contract_refs must be unique''),
           (\<not> distinct (cm_gate_evidence_refs md), ''gate_evidence_refs must be unique''),
           (\<not> distinct (cm_gate_artifact_paths md), ''gate_artifact_paths must be unique''),
           (\<exists>p \<in> set (cm_gate_artifact_paths md). \<not> exact_repository_path p,
            ''gate_artifact_paths must be exact repository paths'')]
      | _ \<Rightarrow> [])"

definition gate_required_checks :: "CompletionMetadata \<Rightarrow> (bool \<times> string) list" where
  "gate_required_checks md =
     [(cm_stage md = TASKS_REVIEW \<and> cm_outcome md = PASS \<and>
         (cm_gate_phase md \<noteq> Some IMPLEMENTATION_ENTRY \<or> cm_gate_decision md \<noteq> Some APPROVED),
       ''tasks-review pass requires approved implementation_entry gate''),
      (cm_stage md = CODE_REVIEW \<and> cm_outcome md = PASS \<and>
         (cm_gate_phase md \<noteq> Some IMPLEMENTATION_COMPLETION \<or> cm_gate_decision md \<noteq> Some APPROVED),
       ''code-review pass requires approved implementation_completion gate'')]"

definition outcome_checks :: "CompletionMetadata \<Rightarrow> (bool \<times> string) list" where
  "outcome_checks md =
     [(cm_outcome md = FAIL \<and> cm_issues md = [], ''fail requires a non-empty issues list''),
      (cm_outcome md = FAIL \<and> cm_stage md \<notin> set (document_reviews @ code_gates),
       ''only review/test stages may return fail''),
      (cm_outcome md \<in> {PASS, FAIL} \<and> cm_stage md \<in> set document_reviews \<and>
         (cm_artifact_paths md = [] \<or> cm_artifact_digest md = None \<or> cm_artifact_commit_sha md = None),
       ''artifact review requires paths, digest, and artifact_commit_sha''),
      (cm_outcome md \<in> {PASS, FAIL} \<and> cm_stage md \<in> set code_gates \<and>
         (cm_mr_iid md = None \<or> cm_mr_url md = None \<or> cm_head_sha md = None),
       ''test/code-review requires mr_iid, mr_url, and head_sha'')]"

definition test_checks :: "CompletionMetadata \<Rightarrow> (bool \<times> string) list" where
  "test_checks md =
     (if cm_stage md = TEST \<and> cm_outcome md \<in> {PASS, FAIL}
      then [(cm_test_disposition md = None, ''test pass/fail requires test_disposition''),
            (cm_test_disposition md = Some SKIPPED_UNAVAILABLE \<and>
               (cm_outcome md \<noteq> PASS \<or> cm_skip_reason md = None \<or> cm_verification md = [] \<or>
                cm_residual_risk md = []),
             ''skipped test requires pass, skip_reason, verification evidence, and residual risk''),
            (cm_test_disposition md \<noteq> Some SKIPPED_UNAVAILABLE \<and> cm_skip_reason md \<noteq> None,
             ''executed test must not include skip_reason'')]
      else [(cm_test_disposition md \<noteq> None \<or> cm_skip_reason md \<noteq> None,
             ''test disposition fields are only valid for test pass/fail'')])"

definition authoring_checks :: "CompletionMetadata \<Rightarrow> (bool \<times> string) list" where
  "authoring_checks md =
     (if cm_outcome md = PASS \<and> cm_stage md \<in> set repository_authors
      then [(cm_repository_evidence md = None,
             ''SPEC/PLAN/TASKS/CODE authoring pass requires repository_evidence''),
            (cm_mr_iid md = None \<or> cm_mr_url md = None \<or> cm_head_sha md = None,
             ''SPEC/PLAN/TASKS/CODE authoring pass requires the shared delivery MR and current head'')]
      else [(cm_repository_evidence md \<noteq> None,
             ''repository_evidence is only valid for an authoring pass'')])"

definition forced_mismatch :: "CompletionMetadata \<Rightarrow> ForcedAdvance \<Rightarrow> bool" where
  "forced_mismatch md f \<longleftrightarrow>
     Some (fa_baseline_commit_sha f) \<noteq> cm_artifact_commit_sha md \<or>
     fa_artifact_paths f \<noteq> cm_artifact_paths md \<or>
     Some (fa_artifact_digest f) \<noteq> cm_artifact_digest md \<or>
     fa_key_decisions f \<noteq> cm_key_decisions md \<or> fa_residual_risks f \<noteq> cm_residual_risk md"

definition finalization_checks :: "CompletionMetadata \<Rightarrow> (bool \<times> string) list" where
  "finalization_checks md =
     (if cm_mode md = FINALIZATION
      then [(cm_stage md \<notin> set document_producers,
             ''finalization is only valid for a document producer''),
            (cm_outcome md = PASS \<and>
               (cm_artifact_paths md = [] \<or> cm_artifact_digest md = None \<or>
                cm_artifact_commit_sha md = None \<or> cm_mr_iid md = None \<or> cm_mr_url md = None \<or>
                cm_baseline_disposition md \<noteq> Some FORCED_AFTER_REVIEW_LIMIT \<or>
                cm_forced_advance md = None),
             ''finalization requires a forced artifact baseline and decision''),
            (cm_outcome md = PASS \<and> \<not> opt_all (\<lambda>f. \<not> forced_mismatch md f) (cm_forced_advance md),
             ''forced_advance baseline and residual risks must match top-level finalization evidence''),
            (cm_outcome md \<notin> {PASS, CANCELLED}, ''finalization only allows pass or cancelled'')]
      else [(cm_forced_advance md \<noteq> None, ''forced_advance is only valid for finalization'')])"

definition baseline_checks :: "CompletionMetadata \<Rightarrow> (bool \<times> string) list" where
  "baseline_checks md =
     (if cm_stage md \<in> set document_reviews \<and> cm_outcome md = PASS
      then [(cm_baseline_disposition md \<noteq> Some REVIEWED,
             ''document review pass requires baseline_disposition=reviewed'')]
      else [(cm_mode md \<noteq> FINALIZATION \<and> cm_baseline_disposition md \<noteq> None,
             ''baseline_disposition is only valid for a document review pass or finalization'')])"

definition stage_contract_checks :: "CompletionMetadata \<Rightarrow> (bool \<times> string) list" where
  "stage_contract_checks md = gate_shape_checks md @ gate_value_checks md @ gate_required_checks md @
     outcome_checks md @ test_checks md @ authoring_checks md @ finalization_checks md @
     baseline_checks md"

definition validate_stage_contract :: "CompletionMetadata \<Rightarrow> unit res" where
  "validate_stage_contract md = first_error (stage_contract_checks md)"

section \<open>The contract, declaratively\<close>

text \<open>
  A semantic gate is carried as a whole or not at all; its decision is the
  outcome; it never accompanies a SPEC or PLAN review and always accompanies a
  TASKS review or code review that passes.
\<close>

definition gate_evidence_ok :: "CompletionMetadata \<Rightarrow> bool" where
  "gate_evidence_ok md \<longleftrightarrow> (\<exists>decision reviewer ts reason sha digest.
     cm_gate_decision md = Some decision \<and> cm_gate_reviewer md = Some reviewer \<and>
     cm_gate_reviewed_at md = Some ts \<and> cm_gate_reason md = Some reason \<and>
     cm_gate_artifact_commit_sha md = Some sha \<and> cm_gate_artifact_digest md = Some digest \<and>
     dt_tzinfo ts \<noteq> None \<and> cm_outcome md = (case decision of APPROVED \<Rightarrow> PASS | REJECTED \<Rightarrow> FAIL)) \<and>
   (\<forall>xs \<in> {cm_requirement_ids md, cm_contract_refs md, cm_gate_evidence_refs md,
       cm_gate_artifact_paths md}. xs \<noteq> [] \<and> distinct xs) \<and>
   (\<forall>p \<in> set (cm_gate_artifact_paths md). exact_repository_path p)"

definition required_gate :: "Stage \<Rightarrow> Outcome \<Rightarrow> GatePhase option" where
  "required_gate s out = (if out = PASS \<and> s = TASKS_REVIEW then Some IMPLEMENTATION_ENTRY
     else if out = PASS \<and> s = CODE_REVIEW then Some IMPLEMENTATION_COMPLETION else None)"

definition gate_contract :: "CompletionMetadata \<Rightarrow> bool" where
  "gate_contract md \<longleftrightarrow> (case cm_gate_phase md of
      None \<Rightarrow> \<not> gate_fields_present md \<and> required_gate (cm_stage md) (cm_outcome md) = None
    | Some p \<Rightarrow> cm_stage md \<notin> {SPEC_REVIEW, PLAN_REVIEW} \<and> gate_evidence_ok md \<and>
        opt_all (\<lambda>q. p = q) (required_gate (cm_stage md) (cm_outcome md)))"

definition has_delivery :: "CompletionMetadata \<Rightarrow> bool" where
  "has_delivery md \<longleftrightarrow> cm_mr_iid md \<noteq> None \<and> cm_mr_url md \<noteq> None \<and> cm_head_sha md \<noteq> None"

definition has_artifact :: "CompletionMetadata \<Rightarrow> bool" where
  "has_artifact md \<longleftrightarrow> cm_artifact_paths md \<noteq> [] \<and> cm_artifact_digest md \<noteq> None \<and>
     cm_artifact_commit_sha md \<noteq> None"

text \<open>What a finished (not cancelled) stage brings.\<close>

definition stage_evidence :: "CompletionMetadata \<Rightarrow> bool" where
  "stage_evidence md \<longleftrightarrow> (case cm_outcome md of
      CANCELLED \<Rightarrow> True
    | PASS \<Rightarrow> (if cm_stage md \<in> set document_reviews then has_artifact md else has_delivery md)
    | FAIL \<Rightarrow> cm_issues md \<noteq> [] \<and> (if cm_stage md \<in> set document_reviews then has_artifact md
                 else cm_stage md \<in> set code_gates \<and> has_delivery md))"

definition test_contract :: "CompletionMetadata \<Rightarrow> bool" where
  "test_contract md \<longleftrightarrow>
     (if cm_stage md \<noteq> TEST \<or> cm_outcome md = CANCELLED
      then cm_test_disposition md = None \<and> cm_skip_reason md = None
      else cm_test_disposition md = Some EXECUTED \<and> cm_skip_reason md = None \<or>
           cm_test_disposition md = Some SKIPPED_UNAVAILABLE \<and> cm_outcome md = PASS \<and>
             cm_skip_reason md \<noteq> None \<and> cm_verification md \<noteq> [] \<and> cm_residual_risk md \<noteq> [])"

definition baseline_contract :: "CompletionMetadata \<Rightarrow> bool" where
  "baseline_contract md \<longleftrightarrow> (case cm_mode md of
      NORMAL \<Rightarrow> cm_forced_advance md = None \<and>
        cm_baseline_disposition md =
          (if cm_stage md \<in> set document_reviews \<and> cm_outcome md = PASS then Some REVIEWED else None)
    | FINALIZATION \<Rightarrow> cm_stage md \<in> set document_producers \<and> cm_outcome md \<noteq> FAIL \<and>
        (cm_outcome md = PASS \<longrightarrow> has_artifact md \<and> cm_mr_iid md \<noteq> None \<and> cm_mr_url md \<noteq> None \<and>
           cm_baseline_disposition md = Some FORCED_AFTER_REVIEW_LIMIT \<and>
           (\<exists>f. cm_forced_advance md = Some f \<and> \<not> forced_mismatch md f)))"

definition stage_contract :: "CompletionMetadata \<Rightarrow> bool" where
  "stage_contract md \<longleftrightarrow> gate_contract md \<and> stage_evidence md \<and> test_contract md \<and>
     (cm_repository_evidence md \<noteq> None \<longleftrightarrow>
        cm_outcome md = PASS \<and> cm_stage md \<in> set repository_authors) \<and>
     baseline_contract md"

lemma not_outcome: "x \<notin> {PASS, FAIL} \<longleftrightarrow> x = CANCELLED" "x \<in> {PASS, FAIL} \<longleftrightarrow> x \<noteq> CANCELLED"
  by (cases x; simp)+

lemma gate_checks_iff:
  "first_error (gate_shape_checks md @ gate_value_checks md @ gate_required_checks md) = Inr () \<longleftrightarrow>
     gate_contract md"
proof (cases "cm_gate_phase md")
  case None
  have "cm_gate_decision md = None" if "\<not> gate_fields_present md"
    using that by (simp add: gate_fields_present_def)
  then show ?thesis using None
    by (auto simp: first_error_ok gate_shape_checks_def gate_value_checks_def
        gate_required_checks_def gate_contract_def required_gate_def)
next
  case (Some p)
  show ?thesis
  proof (cases "gate_fields_missing md")
    case True
    then have "\<not> gate_evidence_ok md"
      unfolding gate_evidence_ok_def gate_fields_missing_def by auto
    with True Some show ?thesis
      by (auto simp: first_error_ok gate_shape_checks_def gate_contract_def)
  next
    case False
    then obtain d rv ts rs sha dg where g: "cm_gate_decision md = Some d" "cm_gate_reviewer md = Some rv"
      "cm_gate_reviewed_at md = Some ts" "cm_gate_reason md = Some rs"
      "cm_gate_artifact_commit_sha md = Some sha" "cm_gate_artifact_digest md = Some dg"
      "cm_requirement_ids md \<noteq> []" "cm_contract_refs md \<noteq> []" "cm_gate_evidence_refs md \<noteq> []"
      "cm_gate_artifact_paths md \<noteq> []"
      unfolding gate_fields_missing_def by auto
    have v: "(\<forall>c \<in> set (gate_value_checks md). \<not> fst c) \<longleftrightarrow> gate_evidence_ok md"
      using Some g by (cases d; cases "cm_outcome md")
        (simp_all add: gate_value_checks_def gate_evidence_ok_def conj_ac)
    have r: "(\<forall>c \<in> set (gate_required_checks md). \<not> fst c) \<longleftrightarrow>
        opt_all (\<lambda>q. p = q) (required_gate (cm_stage md) (cm_outcome md))"
      if "gate_evidence_ok md"
    proof -
      have "cm_outcome md = PASS \<Longrightarrow> d = APPROVED"
        using that g(1) by (cases d) (auto simp: gate_evidence_ok_def)
      then show ?thesis using Some g(1)
        by (auto simp: gate_required_checks_def required_gate_def)
    qed
    have "(\<forall>c \<in> set (gate_shape_checks md). \<not> fst c) \<longleftrightarrow> cm_stage md \<notin> {SPEC_REVIEW, PLAN_REVIEW}"
      using False Some by (auto simp: gate_shape_checks_def)
    with v r Some show ?thesis by (auto simp: first_error_ok gate_contract_def ball_Un)
  qed
qed

lemma evidence_checks_iff:
  "first_error (outcome_checks md @ authoring_checks md) = Inr () \<longleftrightarrow>
     stage_evidence md \<and> (cm_repository_evidence md \<noteq> None \<longleftrightarrow>
        cm_outcome md = PASS \<and> cm_stage md \<in> set repository_authors)"
  by (cases "cm_outcome md"; cases "cm_stage md")
    (auto simp: first_error_ok outcome_checks_def authoring_checks_def stage_evidence_def
      has_delivery_def has_artifact_def stage_set_defs)

lemma test_checks_iff: "first_error (test_checks md) = Inr () \<longleftrightarrow> test_contract md"
proof (cases "cm_stage md = TEST \<and> cm_outcome md \<in> {PASS, FAIL}")
  case True
  show ?thesis
  proof (cases "cm_test_disposition md")
    case (Some d)
    with True show ?thesis
      by (cases d) (auto simp: first_error_ok test_checks_def test_contract_def)
  qed (use True in \<open>auto simp: first_error_ok test_checks_def test_contract_def\<close>)
next
  case False
  then show ?thesis
    by (cases "cm_outcome md") (auto simp: first_error_ok test_checks_def test_contract_def)
qed

lemma baseline_checks_iff:
  "first_error (finalization_checks md @ baseline_checks md) = Inr () \<longleftrightarrow> baseline_contract md"
proof (cases "cm_mode md")
  case NORMAL
  then show ?thesis
    by (auto simp: first_error_ok finalization_checks_def baseline_checks_def baseline_contract_def)
next
  case FINALIZATION
  have "cm_stage md \<in> set document_producers \<Longrightarrow> cm_stage md \<notin> set document_reviews"
    by (auto simp: stage_set_defs)
  moreover have "cm_outcome md \<noteq> FAIL \<longleftrightarrow> cm_outcome md \<in> {PASS, CANCELLED}"
    by (cases "cm_outcome md") simp_all
  ultimately show ?thesis using FINALIZATION
    by (cases "cm_forced_advance md")
      (auto simp: first_error_ok finalization_checks_def baseline_checks_def baseline_contract_def
        has_artifact_def)
qed

lemma validate_stage_contract_iff: "validate_stage_contract md = Inr () \<longleftrightarrow> stage_contract md"
proof -
  have "validate_stage_contract md = Inr () \<longleftrightarrow>
      first_error (gate_shape_checks md @ gate_value_checks md @ gate_required_checks md) = Inr () \<and>
      first_error (outcome_checks md @ authoring_checks md) = Inr () \<and>
      first_error (test_checks md) = Inr () \<and>
      first_error (finalization_checks md @ baseline_checks md) = Inr ()"
    unfolding validate_stage_contract_def stage_contract_checks_def first_error_ok by auto
  then show ?thesis
    unfolding gate_checks_iff evidence_checks_iff test_checks_iff baseline_checks_iff
      stage_contract_def by blast
qed

section \<open>Persisted metadata\<close>

text \<open>
  A decoded JSON document. \<open>model_validate\<close> is pydantic's constructor of
  \<open>CompletionMetadata\<close>, a parameter.
\<close>

datatype json = JNull | JBool bool | JInt int | JStr string | JList "json list"
  | JObj "(string \<times> json) list"

definition validate_persisted_completion_metadata ::
  "(json \<Rightarrow> CompletionMetadata res) \<Rightarrow> json \<Rightarrow> CompletionMetadata res" where
  "validate_persisted_completion_metadata model_validate raw =
     (case raw of
        JObj kvs \<Rightarrow>
          (case map_of kvs ''worker_session_id'' of
             None \<Rightarrow> model_validate (JObj kvs)
           | Some v \<Rightarrow>
               (case v of
                  JStr s \<Rightarrow> if strip s = []
                    then Inl (ValueError ''worker_session_id must be a non-empty string'')
                    else model_validate (JObj (filter (\<lambda>(k, _). k \<noteq> ''worker_session_id'') kvs))
                | _ \<Rightarrow> Inl (ValueError ''worker_session_id must be a non-empty string'')))
      | _ \<Rightarrow> model_validate raw)"

end
