(* ===== verification/Config.thy ===== *)
theory Config
  imports Models
begin

text \<open>
  The controller's configuration (config.py): the fields the controller's policy
  reads, their \<open>Field\<close> bounds, and \<open>validate_controller_contract\<close>. Seconds that
  the source keeps as floats are rationals. \<open>urlparse\<close> is Python's; the host it
  finds is an argument.
\<close>

record ControllerConfig =
  cf_hermes_command :: string
  cf_glab_command :: string
  cf_controller_profile :: string
  cf_controller_mode :: string
  cf_reconcile_workers :: int
  cf_command_timeout_seconds :: int
  cf_start_request_sync_timeout_seconds :: rat
  cf_gitlab_host :: string
  cf_allowed_groups :: "string list"
  cf_preflight_project_path :: string
  cf_stage_assignees :: "(Stage \<times> string) list"
  cf_stage_skills :: "(Stage \<times> string list) list"
  cf_artifact_relative_patterns :: "(string \<times> string list) list"
  cf_reviewer_identities :: "(string \<times> string list) list"
  cf_document_review_limit :: int
  cf_code_modification_limit :: int
  cf_protocol_retry_limit :: int
  cf_abort_admin_open_ids :: "string list"
  cf_abort_confirmation_ttl_seconds :: int
  cf_dependency_backoff_initial_seconds :: rat
  cf_dependency_backoff_max_seconds :: rat
  cf_dependency_circuit_failure_threshold :: int
  cf_health_stale_seconds :: int
  cf_event_lag_warning_threshold :: int
  cf_outbox_warning_threshold :: int
  cf_worker_slow_warning_seconds :: int
  cf_worker_progress_lease_seconds :: int
  cf_worker_heartbeat_stale_seconds :: int
  cf_worker_redispatch_limit :: int
  cf_provider_tempfail_cooldown_seconds :: int
  cf_merge_wait_retry_seconds :: int
  cf_merge_blocker_timeout_seconds :: int
  cf_merge_draft_grace_seconds :: int
  cf_outbox_backoff_initial_seconds :: int
  cf_outbox_backoff_max_seconds :: int

text \<open>The \<open>Field\<close> bounds (protocol_retry_limit has none).\<close>

definition config_fields :: "ControllerConfig \<Rightarrow> bool" where
  "config_fields c \<longleftrightarrow>
     1 \<le> cf_reconcile_workers c \<and> cf_reconcile_workers c \<le> 32 \<and>
     0 < cf_command_timeout_seconds c \<and>
     1 \<le> cf_start_request_sync_timeout_seconds c \<and> cf_start_request_sync_timeout_seconds c \<le> 60 \<and>
     1 \<le> cf_document_review_limit c \<and> 1 \<le> cf_code_modification_limit c \<and>
     60 \<le> cf_abort_confirmation_ttl_seconds c \<and> cf_abort_confirmation_ttl_seconds c \<le> 3600 \<and>
     0 < cf_dependency_backoff_initial_seconds c \<and> 0 < cf_dependency_backoff_max_seconds c \<and>
     2 \<le> cf_dependency_circuit_failure_threshold c \<and> 10 \<le> cf_health_stale_seconds c \<and>
     1 \<le> cf_event_lag_warning_threshold c \<and> 1 \<le> cf_outbox_warning_threshold c \<and>
     300 \<le> cf_worker_slow_warning_seconds c \<and> 300 \<le> cf_worker_progress_lease_seconds c \<and>
     60 \<le> cf_worker_heartbeat_stale_seconds c \<and> 0 \<le> cf_worker_redispatch_limit c \<and>
     cf_worker_redispatch_limit c \<le> 10 \<and> 30 \<le> cf_provider_tempfail_cooldown_seconds c \<and>
     cf_provider_tempfail_cooldown_seconds c \<le> 3600 \<and> 5 \<le> cf_merge_wait_retry_seconds c \<and>
     60 \<le> cf_merge_blocker_timeout_seconds c \<and> 60 \<le> cf_merge_draft_grace_seconds c \<and>
     1 \<le> cf_outbox_backoff_initial_seconds c \<and> 1 \<le> cf_outbox_backoff_max_seconds c"

section \<open>GitLab endpoint\<close>

text \<open>What \<open>urlparse\<close> returns for the value with its scheme added.\<close>

record parsed_url =
  pu_scheme :: string
  pu_hostname :: "string option"
  pu_username :: "string option"
  pu_password :: "string option"
  pu_port :: "int option"
  pu_path :: string
  pu_query :: string
  pu_fragment :: string

definition HOLLYSYS_GITLAB_HOSTNAME :: string where
  "HOLLYSYS_GITLAB_HOSTNAME = ''green-git.hollysys.net''"

definition normalize_gitlab_endpoint :: "(string \<Rightarrow> parsed_url) \<Rightarrow> string \<Rightarrow> string res" where
  "normalize_gitlab_endpoint urlparse raw =
     (let value = strip raw in
      if value = [] then Inl (ValueError ''gitlab_host must not be empty'')
      else let parsed = urlparse (if contains_str ''://'' value then value else ''https://'' @ value)
        in if pu_scheme parsed \<noteq> ''https'' \<or> \<not> truthy_str (pu_hostname parsed) \<or>
              truthy_str (pu_username parsed) \<or> truthy_str (pu_password parsed) \<or>
              pu_port parsed \<noteq> None \<or> pu_path parsed \<notin> {[], ''/''} \<or> pu_query parsed \<noteq> [] \<or>
              pu_fragment parsed \<noteq> []
           then Inl (ValueError ''gitlab_host must be a bare hostname or an HTTPS origin without credentials, port, path, query, or fragment'')
           else let hostname = map lower_char (the (pu_hostname parsed)) in
             if hostname \<noteq> HOLLYSYS_GITLAB_HOSTNAME
             then Inl (ValueError (''gitlab_host must be '' @ HOLLYSYS_GITLAB_HOSTNAME))
             else Inr hostname)"

section \<open>The configuration contract\<close>

text \<open>\<open>group_pattern\<close>: non-empty segments joined by slashes, none starting with a dot or dash.\<close>

definition is_word_char :: "char \<Rightarrow> bool" where
  "is_word_char c \<longleftrightarrow> is_lower c \<or> is_upper c \<or> is_digit c \<or> c = CHR ''_''"

definition is_group_segment :: "string \<Rightarrow> bool" where
  "is_group_segment s \<longleftrightarrow> (case s of [] \<Rightarrow> False
     | c # cs \<Rightarrow> is_word_char c \<and> list_all (\<lambda>d. is_word_char d \<or> d = CHR ''.'' \<or> d = CHR ''-'') cs)"

definition group_pattern :: "string \<Rightarrow> bool" where
  "group_pattern s \<longleftrightarrow> list_all is_group_segment (split_slash s)"

definition dotted :: "string \<Rightarrow> bool" where
  "dotted s \<longleftrightarrow> (\<exists>part \<in> set (split_slash s). part \<in> {''.'', ''..''})"

definition ends_with :: "string \<Rightarrow> string \<Rightarrow> bool" where
  "ends_with p s \<longleftrightarrow> starts_with (rev p) (rev s)"

fun join_comma :: "string list \<Rightarrow> string" where
  "join_comma [] = []"
| "join_comma [w] = w"
| "join_comma (w # v # ws) = w @ '', '' @ join_comma (v # ws)"

definition missing_keys :: "string list \<Rightarrow> (string \<times> string list) list \<Rightarrow> string list" where
  "missing_keys ks m = filter (\<lambda>k. case map_of m k of None \<Rightarrow> True | Some v \<Rightarrow> v = []) ks"

definition check_groups :: "ControllerConfig \<Rightarrow> (bool \<times> string) list" where
  "check_groups c =
     [(cf_controller_mode c \<notin> set [''preflight'', ''active''], ''controller_mode must be preflight or active''),
      (cf_controller_profile c \<noteq> ''dispatcher'', ''controller_profile must be dispatcher''),
      (cf_allowed_groups c = [], ''allowed_groups must contain at least one GitLab group''),
      (\<not> distinct (cf_allowed_groups c) \<or>
         (\<exists>g \<in> set (cf_allowed_groups c). \<not> group_pattern g \<or> dotted g),
       ''allowed_groups must contain unique GitLab group paths''),
      (cf_preflight_project_path c \<noteq> [] \<and>
         (length (split_slash (cf_preflight_project_path c)) < 2 \<or>
          \<not> group_pattern (cf_preflight_project_path c) \<or> dotted (cf_preflight_project_path c) \<or>
          ends_with ''.git'' (cf_preflight_project_path c)),
       ''preflight_project_path must be a canonical GitLab namespace/project path without .git''),
      (cf_preflight_project_path c \<noteq> [] \<and>
         \<not> (\<exists>g \<in> set (cf_allowed_groups c). starts_with (g @ ''/'') (cf_preflight_project_path c)),
       ''preflight_project_path must be inside an allowed group'')]"

definition review_values :: "string list" where
  "review_values = [''spec-review'', ''plan-review'', ''tasks-review'']"

definition check_stages :: "ControllerConfig \<Rightarrow> (bool \<times> string) list" where
  "check_stages c =
     [(set (map fst (cf_stage_assignees c)) \<noteq> set all_stages,
       ''stage_assignees must define every workflow stage''),
      (set (map fst (cf_stage_skills c)) \<noteq> set all_stages \<or>
         (\<exists>s \<in> set (cf_stage_skills c). snd s = []),
       ''stage_skills must define a non-empty list for every stage''),
      (missing_keys review_values (cf_artifact_relative_patterns c) \<noteq> [],
       ''artifact_relative_patterns missing: '' @
         join_comma (sort (missing_keys review_values (cf_artifact_relative_patterns c)))),
      (\<exists>ps \<in> set (cf_artifact_relative_patterns c). \<exists>p \<in> set (snd ps).
         is_absolute (path_of p) \<or> ''..'' \<in> set (path_parts (path_of p)),
       ''artifact_relative_patterns must stay below the PRD scope''),
      (missing_keys (review_values @ [''test'', ''code-review'']) (cf_reviewer_identities c) \<noteq> [],
       ''reviewer_identities missing: '' @
         join_comma (sort (missing_keys (review_values @ [''test'', ''code-review''])
           (cf_reviewer_identities c))))]"

definition check_thresholds :: "ControllerConfig \<Rightarrow> (bool \<times> string) list" where
  "check_thresholds c =
     [(cf_dependency_backoff_initial_seconds c > cf_dependency_backoff_max_seconds c,
       ''dependency_backoff_initial_seconds cannot exceed maximum''),
      (cf_outbox_backoff_initial_seconds c > cf_outbox_backoff_max_seconds c,
       ''outbox initial backoff cannot exceed maximum''),
      (cf_worker_slow_warning_seconds c > cf_worker_progress_lease_seconds c,
       ''worker slow warning cannot exceed progress lease''),
      (cf_worker_heartbeat_stale_seconds c > cf_worker_progress_lease_seconds c,
       ''worker heartbeat threshold cannot exceed progress lease'')]"

definition validate_controller_contract ::
  "(string \<Rightarrow> parsed_url) \<Rightarrow> ControllerConfig \<Rightarrow> ControllerConfig res" where
  "validate_controller_contract urlparse c =
     (case normalize_gitlab_endpoint urlparse (cf_gitlab_host c) of
        Inl e \<Rightarrow> Inl e
      | Inr hostname \<Rightarrow>
          (case first_error (check_groups c @ check_stages c @ check_thresholds c) of
             Inl e \<Rightarrow> Inl e
           | Inr _ \<Rightarrow> Inr (c\<lparr>cf_gitlab_host := hostname\<rparr>)))"

lemma split_slash_append_slash: "split_slash (g @ ''/'' @ r) = split_slash g @ split_slash r"
proof (induction g)
  case (Cons c g)
  have "split_slash g \<noteq> []" by (cases g) (auto split: list.splits)
  with Cons show ?case by (auto split: list.splits)
qed simp

lemma starts_with_iff: "starts_with p s \<longleftrightarrow> (\<exists>r. s = p @ r)"
  by (auto simp: starts_with_def) (metis append_take_drop_id)

text \<open>A configuration with the limits at their least values, for concrete runs.\<close>

definition sample_config :: ControllerConfig where
  "sample_config = \<lparr>cf_hermes_command = ''hermes'', cf_glab_command = ''/usr/local/bin/glab'',
     cf_controller_profile = ''dispatcher'', cf_controller_mode = ''active'',
     cf_reconcile_workers = 4, cf_command_timeout_seconds = 120, cf_start_request_sync_timeout_seconds = 10, cf_gitlab_host = ''green-git.hollysys.net'',
     cf_allowed_groups = [''hollysys''], cf_preflight_project_path = [],
     cf_stage_assignees = map (\<lambda>s. (s, ''coder'')) all_stages,
     cf_stage_skills = map (\<lambda>s. (s, [''skill''])) all_stages,
     cf_artifact_relative_patterns = default_patterns, cf_reviewer_identities = [],
     cf_document_review_limit = 1, cf_code_modification_limit = 1, cf_protocol_retry_limit = 2,
     cf_abort_admin_open_ids = [], cf_abort_confirmation_ttl_seconds = 600,
     cf_dependency_backoff_initial_seconds = 5, cf_dependency_backoff_max_seconds = 300,
     cf_dependency_circuit_failure_threshold = 5, cf_health_stale_seconds = 120,
     cf_event_lag_warning_threshold = 100, cf_outbox_warning_threshold = 20,
     cf_worker_slow_warning_seconds = 900, cf_worker_progress_lease_seconds = 1800,
     cf_worker_heartbeat_stale_seconds = 300, cf_worker_redispatch_limit = 2,
     cf_provider_tempfail_cooldown_seconds = 300, cf_merge_wait_retry_seconds = 30,
     cf_merge_blocker_timeout_seconds = 3600, cf_merge_draft_grace_seconds = 600,
     cf_outbox_backoff_initial_seconds = 5, cf_outbox_backoff_max_seconds = 300\<rparr>"

end
