(* ===== verification/Workflow.thy ===== *)
theory Workflow
  imports Completion Config
begin

text \<open>
  workflow.py: the stage sequence, its maps and \<open>route_completion\<close>. The second
  half plays the workflow the way \<open>_reconcile_run\<close> does - a review attempt is
  counted for each finished document review, a code modification for each passed
  implementation after the first, a test completion is paired with the code
  review that follows it - and bounds it by a rank that every completion lowers.
\<close>

section \<open>The workflow\<close>

definition SEQUENCE :: "Stage list" where
  "SEQUENCE = [SPEC_WRITE, SPEC_REVIEW, PLAN_WRITE, PLAN_REVIEW, TASKS_WRITE, TASKS_REVIEW,
     IMPLEMENT, TEST, CODE_REVIEW]"

fun PRODUCER_FOR_REVIEW :: "Stage \<Rightarrow> Stage option" where
  "PRODUCER_FOR_REVIEW SPEC_REVIEW = Some SPEC_WRITE"
| "PRODUCER_FOR_REVIEW PLAN_REVIEW = Some PLAN_WRITE"
| "PRODUCER_FOR_REVIEW TASKS_REVIEW = Some TASKS_WRITE"
| "PRODUCER_FOR_REVIEW TEST = Some IMPLEMENT"
| "PRODUCER_FOR_REVIEW CODE_REVIEW = Some IMPLEMENT"
| "PRODUCER_FOR_REVIEW _ = None"

fun DOCUMENT_REVIEW_FOR_PRODUCER :: "Stage \<Rightarrow> Stage option" where
  "DOCUMENT_REVIEW_FOR_PRODUCER SPEC_WRITE = Some SPEC_REVIEW"
| "DOCUMENT_REVIEW_FOR_PRODUCER PLAN_WRITE = Some PLAN_REVIEW"
| "DOCUMENT_REVIEW_FOR_PRODUCER TASKS_WRITE = Some TASKS_REVIEW"
| "DOCUMENT_REVIEW_FOR_PRODUCER _ = None"

fun PHASE_FOR_STAGE :: "Stage \<Rightarrow> Phase" where
  "PHASE_FOR_STAGE SPEC_WRITE = SPEC_PHASE"
| "PHASE_FOR_STAGE SPEC_REVIEW = SPEC_PHASE"
| "PHASE_FOR_STAGE PLAN_WRITE = PLAN_PHASE"
| "PHASE_FOR_STAGE PLAN_REVIEW = PLAN_PHASE"
| "PHASE_FOR_STAGE TASKS_WRITE = TASKS_PHASE"
| "PHASE_FOR_STAGE TASKS_REVIEW = TASKS_PHASE"
| "PHASE_FOR_STAGE IMPLEMENT = CODE_PHASE"
| "PHASE_FOR_STAGE TEST = CODE_PHASE"
| "PHASE_FOR_STAGE CODE_REVIEW = CODE_PHASE"

fun PRODUCER_FOR_PHASE :: "Phase \<Rightarrow> Stage" where
  "PRODUCER_FOR_PHASE SPEC_PHASE = SPEC_WRITE"
| "PRODUCER_FOR_PHASE PLAN_PHASE = PLAN_WRITE"
| "PRODUCER_FOR_PHASE TASKS_PHASE = TASKS_WRITE"
| "PRODUCER_FOR_PHASE CODE_PHASE = IMPLEMENT"

fun NEXT_PHASE_STAGE :: "Phase \<Rightarrow> Stage option" where
  "NEXT_PHASE_STAGE SPEC_PHASE = Some PLAN_WRITE"
| "NEXT_PHASE_STAGE PLAN_PHASE = Some TASKS_WRITE"
| "NEXT_PHASE_STAGE TASKS_PHASE = Some IMPLEMENT"
| "NEXT_PHASE_STAGE CODE_PHASE = None"

record Route =
  rt_next_stage :: "Stage option"
  rt_next_mode :: WorkMode
  rt_merge :: bool
  rt_terminal_state :: "string option"
  rt_blocked_reason :: "string option"

definition route0 :: Route where
  "route0 = \<lparr>rt_next_stage = None, rt_next_mode = NORMAL, rt_merge = False,
     rt_terminal_state = None, rt_blocked_reason = None\<rparr>"

text \<open>\<open>SEQUENCE.index(stage)\<close>: every stage is in the sequence.\<close>

definition sequence_index :: "Stage \<Rightarrow> nat" where
  "sequence_index s = length (takeWhile (\<lambda>t. t \<noteq> s) SEQUENCE)"

definition next_stage :: "Stage \<Rightarrow> Stage option" where
  "next_stage stage = (let index = sequence_index stage
     in if index + 1 < length SEQUENCE then Some (SEQUENCE ! (index + 1)) else None)"

definition same_delivery :: "CompletionMetadata \<Rightarrow> CompletionMetadata \<Rightarrow> bool" where
  "same_delivery t md \<longleftrightarrow>
     cm_mr_iid t = cm_mr_iid md \<and> cm_mr_url t = cm_mr_url md \<and> cm_head_sha t = cm_head_sha md"

text \<open>
  \<open>review_attempts_by_stage.get(stage, 0)\<close> is the function \<open>attempts\<close>; \<open>doc_limit\<close>
  and \<open>code_limit\<close> are the two limits of the configuration.
\<close>

definition route_completion ::
  "CompletionMetadata \<Rightarrow> (Stage \<Rightarrow> int) \<Rightarrow> ControllerConfig \<Rightarrow> CompletionMetadata option \<Rightarrow> int \<Rightarrow> Route" where
  "route_completion md attempts config paired_test code_modifications =
     (if cm_outcome md = CANCELLED
      then if cm_stage md \<in> {TEST, CODE_REVIEW} then route0\<lparr>rt_next_stage := Some TEST\<rparr>
           else route0\<lparr>rt_blocked_reason := Some (stage_value (cm_stage md) @ '' was cancelled'')\<rparr>
      else if cm_stage md = TEST
      then if cm_outcome md = PASS then route0\<lparr>rt_next_stage := Some CODE_REVIEW\<rparr>
           else if code_modifications \<ge> cf_code_modification_limit config
           then route0\<lparr>rt_terminal_state := Some ''completed_test_failed''\<rparr>
           else route0\<lparr>rt_next_stage := Some IMPLEMENT\<rparr>
      else if cm_stage md = CODE_REVIEW
      then (case paired_test of
              None \<Rightarrow> route0\<lparr>rt_next_stage := Some TEST\<rparr>
            | Some t \<Rightarrow>
                if \<not> same_delivery t md then route0\<lparr>rt_next_stage := Some TEST\<rparr>
                else if cm_outcome t = PASS \<and> cm_outcome md = PASS
                then route0\<lparr>rt_terminal_state := Some ''completed_ready''\<rparr>
                else if code_modifications \<ge> cf_code_modification_limit config
                then route0\<lparr>rt_terminal_state := Some ''completed_with_findings''\<rparr>
                else route0\<lparr>rt_next_stage := Some IMPLEMENT\<rparr>)
      else if cm_outcome md = FAIL
      then (case PRODUCER_FOR_REVIEW (cm_stage md) of
              None \<Rightarrow> route0\<lparr>rt_blocked_reason := Some (stage_value (cm_stage md) @ '' cannot return fail'')\<rparr>
            | Some target \<Rightarrow>
                if cm_stage md \<in> {SPEC_REVIEW, PLAN_REVIEW, TASKS_REVIEW}
                then route0\<lparr>rt_next_stage := Some target,
                  rt_next_mode := (if attempts (cm_stage md) \<ge> cf_document_review_limit config
                                   then FINALIZATION else NORMAL)\<rparr>
                else route0\<lparr>rt_next_stage := Some target\<rparr>)
      else if cm_mode md = FINALIZATION
      then (case NEXT_PHASE_STAGE (PHASE_FOR_STAGE (cm_stage md)) of
              None \<Rightarrow> route0\<lparr>rt_merge := True\<rparr>
            | Some following \<Rightarrow> route0\<lparr>rt_next_stage := Some following\<rparr>)
      else (case next_stage (cm_stage md) of
              None \<Rightarrow> route0\<lparr>rt_merge := True\<rparr>
            | Some following \<Rightarrow> route0\<lparr>rt_next_stage := Some following\<rparr>))"

definition iteration_for :: "Stage \<Rightarrow> (Stage \<Rightarrow> int) \<Rightarrow> int" where
  "iteration_for stage attempts = attempts stage + 1"

definition protocol_retry_allowed :: "int \<Rightarrow> ControllerConfig \<Rightarrow> bool" where
  "protocol_retry_allowed invalid_count config \<longleftrightarrow> invalid_count \<le> cf_protocol_retry_limit config"

section \<open>Stages in workflow order\<close>

text \<open>The order of \<open>SEQUENCE\<close> as a linear order on stages.\<close>

instantiation Stage :: linorder
begin

definition less_eq_Stage :: "Stage \<Rightarrow> Stage \<Rightarrow> bool" where
  "less_eq_Stage s t \<longleftrightarrow> sequence_index s \<le> sequence_index t"

definition less_Stage :: "Stage \<Rightarrow> Stage \<Rightarrow> bool" where
  "less_Stage s t \<longleftrightarrow> sequence_index s < sequence_index t"

instance
proof
  fix x y z :: Stage
  show "x < y \<longleftrightarrow> x \<le> y \<and> \<not> y \<le> x" by (auto simp: less_eq_Stage_def less_Stage_def)
  show "x \<le> x" by (simp add: less_eq_Stage_def)
  show "x \<le> y \<Longrightarrow> y \<le> z \<Longrightarrow> x \<le> z" by (simp add: less_eq_Stage_def)
  show "x \<le> y \<Longrightarrow> y \<le> x \<Longrightarrow> x = y"
    by (cases x; cases y) (simp_all add: less_eq_Stage_def sequence_index_def SEQUENCE_def)
  show "x \<le> y \<or> y \<le> x" by (auto simp: less_eq_Stage_def)
qed

end

lemma next_stage_simps [simp]:
  "next_stage SPEC_WRITE = Some SPEC_REVIEW" "next_stage SPEC_REVIEW = Some PLAN_WRITE"
  "next_stage PLAN_WRITE = Some PLAN_REVIEW" "next_stage PLAN_REVIEW = Some TASKS_WRITE"
  "next_stage TASKS_WRITE = Some TASKS_REVIEW" "next_stage TASKS_REVIEW = Some IMPLEMENT"
  "next_stage IMPLEMENT = Some TEST" "next_stage TEST = Some CODE_REVIEW"
  "next_stage CODE_REVIEW = None"
  by (simp_all add: next_stage_def sequence_index_def SEQUENCE_def)

lemma next_stage_greater: "next_stage s = Some t \<Longrightarrow> s < t"
  by (cases s) (auto simp: less_Stage_def sequence_index_def SEQUENCE_def)

section \<open>Routing a valid completion\<close>

lemma contract_fail_stage:
  "stage_contract md \<Longrightarrow> cm_outcome md = FAIL \<Longrightarrow> cm_stage md \<in> set document_reviews \<union> set code_gates"
  by (auto simp: stage_contract_def stage_evidence_def split: if_splits)

lemma contract_finalization:
  "stage_contract md \<Longrightarrow> cm_mode md = FINALIZATION \<Longrightarrow>
     cm_stage md \<in> set document_producers \<and> cm_outcome md \<noteq> FAIL"
  by (simp add: stage_contract_def baseline_contract_def)

lemma contract_review_normal:
  "stage_contract md \<Longrightarrow> cm_stage md \<notin> set document_producers \<Longrightarrow> cm_mode md = NORMAL"
  using contract_finalization by (cases "cm_mode md") blast+

text \<open>A valid completion that was not cancelled goes on to a stage or ends the flow.\<close>

lemma route_valid:
  assumes "stage_contract md" "cm_outcome md \<noteq> CANCELLED"
  shows "rt_merge (route_completion md attempts config paired mods) = False \<and>
    rt_blocked_reason (route_completion md attempts config paired mods) = None"
  using assms contract_fail_stage [OF assms(1)] contract_finalization [OF assms(1)]
  by (cases "cm_stage md"; cases "cm_outcome md")
    (auto simp: route_completion_def route0_def stage_set_defs split: option.splits)

section \<open>The workflow played\<close>

text \<open>
  The state of a delivery: the current card's stage and mode, the finished
  reviews of each document stage, the passed implementations, and the test
  completion the next code review is paired with.
\<close>

record wf_state =
  wf_stage :: Stage
  wf_mode :: WorkMode
  wf_reviews :: "Stage \<Rightarrow> int"
  wf_implemented :: int
  wf_test :: "CompletionMetadata option"

definition wf_start :: wf_state where
  "wf_start = \<lparr>wf_stage = SPEC_WRITE, wf_mode = NORMAL, wf_reviews = (\<lambda>_. 0),
     wf_implemented = 0, wf_test = None\<rparr>"

text \<open>The counters as the history shows them once this card is done.\<close>

definition wf_count :: "CompletionMetadata \<Rightarrow> wf_state \<Rightarrow> wf_state" where
  "wf_count md st = st\<lparr>
     wf_reviews := (if cm_stage md \<in> set document_reviews
       then (wf_reviews st)(cm_stage md := wf_reviews st (cm_stage md) + 1) else wf_reviews st),
     wf_implemented := (if cm_stage md = IMPLEMENT \<and> cm_outcome md = PASS
       then wf_implemented st + 1 else wf_implemented st),
     wf_test := (if cm_stage md = TEST then Some md
       else if cm_stage md = IMPLEMENT then None else wf_test st)\<rparr>"

definition wf_route :: "ControllerConfig \<Rightarrow> CompletionMetadata \<Rightarrow> wf_state \<Rightarrow> Route" where
  "wf_route config md st = (let st' = wf_count md st in
     route_completion md (wf_reviews st') config (wf_test st') (max 0 (wf_implemented st' - 1)))"

datatype wf_result = Running wf_state | Finished string | Stuck

definition wf_advance :: "ControllerConfig \<Rightarrow> CompletionMetadata \<Rightarrow> wf_state \<Rightarrow> wf_result" where
  "wf_advance config md st = (let r = wf_route config md st in
     case rt_terminal_state r of Some t \<Rightarrow> Finished t
     | None \<Rightarrow> (case rt_next_stage r of
         Some s \<Rightarrow> Running ((wf_count md st)\<lparr>wf_stage := s, wf_mode := rt_next_mode r\<rparr>)
       | None \<Rightarrow> Stuck))"

text \<open>
  A completion that fits the current card: it meets the stage contract, reports
  the card's stage and mode, was not cancelled, and a code review looks at the
  delivery that was tested.
\<close>

definition wf_fits :: "CompletionMetadata \<Rightarrow> wf_state \<Rightarrow> bool" where
  "wf_fits md st \<longleftrightarrow> stage_contract md \<and> cm_stage md = wf_stage st \<and> cm_mode md = wf_mode st \<and>
     cm_outcome md \<noteq> CANCELLED \<and>
     (wf_stage st = CODE_REVIEW \<longrightarrow> (\<exists>t. wf_test st = Some t \<and> same_delivery t md))"

text \<open>Plays completions until the flow ends; a completion that does not fit is not played.\<close>

fun wf_play :: "ControllerConfig \<Rightarrow> wf_state \<Rightarrow> CompletionMetadata list \<Rightarrow> wf_result" where
  "wf_play config st [] = Running st"
| "wf_play config st (md # mds) = (case wf_advance config md st of
     Running st' \<Rightarrow> wf_play config st' mds | r \<Rightarrow> r)"

fun wf_fit_all :: "ControllerConfig \<Rightarrow> wf_state \<Rightarrow> CompletionMetadata list \<Rightarrow> bool" where
  "wf_fit_all config st [] = True"
| "wf_fit_all config st (md # mds) = (wf_fits md st \<and>
     (case wf_advance config md st of Running st' \<Rightarrow> wf_fit_all config st' mds | _ \<Rightarrow> True))"

subsection \<open>The rank\<close>

fun review_of_phase :: "Phase \<Rightarrow> Stage" where
  "review_of_phase SPEC_PHASE = SPEC_REVIEW"
| "review_of_phase PLAN_PHASE = PLAN_REVIEW"
| "review_of_phase _ = TASKS_REVIEW"

text \<open>The document phases still to come after a phase.\<close>

fun later_phases :: "Phase \<Rightarrow> int" where
  "later_phases SPEC_PHASE = 2" | "later_phases PLAN_PHASE = 1" | "later_phases _ = 0"

definition doc_budget :: "ControllerConfig \<Rightarrow> int" where
  "doc_budget config = 2 * cf_document_review_limit config + 1"

definition code_budget :: "ControllerConfig \<Rightarrow> int" where
  "code_budget config = 3 * (cf_code_modification_limit config + 1)"

text \<open>The most completions a delivery can still take.\<close>

definition wf_rank :: "ControllerConfig \<Rightarrow> wf_state \<Rightarrow> int" where
  "wf_rank config st = (let p = PHASE_FOR_STAGE (wf_stage st);
       left = cf_document_review_limit config - wf_reviews st (review_of_phase p)
     in case p of
       CODE_PHASE \<Rightarrow> 3 * (cf_code_modification_limit config + 1 - wf_implemented st) +
         (case wf_stage st of TEST \<Rightarrow> 2 | CODE_REVIEW \<Rightarrow> 1 | _ \<Rightarrow> 0)
     | _ \<Rightarrow> later_phases p * doc_budget config + code_budget config +
         (if wf_mode st = FINALIZATION then 1
          else if wf_stage st \<in> set document_reviews then 2 * left else 2 * left + 1))"

text \<open>
  The invariant: reviews of later phases have not started, a normal card of a
  document phase still has a review left, and the code counters are in range.
\<close>

definition wf_inv :: "ControllerConfig \<Rightarrow> wf_state \<Rightarrow> bool" where
  "wf_inv config st \<longleftrightarrow>
     (\<forall>s \<in> set document_reviews. 0 \<le> wf_reviews st s \<and> wf_reviews st s \<le> cf_document_review_limit config) \<and>
     (\<forall>s \<in> set document_reviews. wf_stage st < s \<and> PHASE_FOR_STAGE s \<noteq> PHASE_FOR_STAGE (wf_stage st) \<longrightarrow>
        wf_reviews st s = 0) \<and>
     (PHASE_FOR_STAGE (wf_stage st) \<noteq> CODE_PHASE \<longrightarrow> wf_implemented st = 0 \<and>
        (wf_mode st = NORMAL \<longrightarrow>
          wf_reviews st (review_of_phase (PHASE_FOR_STAGE (wf_stage st))) < cf_document_review_limit config)) \<and>
     (wf_mode st = FINALIZATION \<longrightarrow> wf_stage st \<in> set document_producers) \<and>
     (wf_stage st = IMPLEMENT \<longrightarrow> 0 \<le> wf_implemented st \<and>
        wf_implemented st \<le> cf_code_modification_limit config) \<and>
     (wf_stage st \<in> set code_gates \<longrightarrow> 1 \<le> wf_implemented st \<and>
        wf_implemented st \<le> cf_code_modification_limit config + 1) \<and>
     (wf_stage st = CODE_REVIEW \<longrightarrow> (\<exists>t. wf_test st = Some t \<and> cm_outcome t = PASS))"

definition limits_ok :: "ControllerConfig \<Rightarrow> bool" where
  "limits_ok config \<longleftrightarrow> 1 \<le> cf_document_review_limit config \<and> 1 \<le> cf_code_modification_limit config"

lemma stage_less_iff:
  "(s :: Stage) < t \<longleftrightarrow> sequence_index s < sequence_index t"
  by (simp add: less_Stage_def)

lemma sequence_index_simps [simp]:
  "sequence_index SPEC_WRITE = 0" "sequence_index SPEC_REVIEW = 1" "sequence_index PLAN_WRITE = 2"
  "sequence_index PLAN_REVIEW = 3" "sequence_index TASKS_WRITE = 4" "sequence_index TASKS_REVIEW = 5"
  "sequence_index IMPLEMENT = 6" "sequence_index TEST = 7" "sequence_index CODE_REVIEW = 8"
  by (simp_all add: sequence_index_def SEQUENCE_def)

lemma wf_start_inv: "limits_ok config \<Longrightarrow> wf_inv config wf_start"
  by (simp add: limits_ok_def wf_inv_def wf_start_def stage_set_defs)

lemmas wf_defs = wf_advance_def wf_route_def wf_count_def route_completion_def route0_def Let_def

lemmas wf_inv_simps = wf_inv_def stage_set_defs stage_less_iff

lemma outcome_cases: "x \<noteq> CANCELLED \<Longrightarrow> x = PASS \<or> x = FAIL"
  by (cases x) simp_all

lemma mode_cases: "m = NORMAL \<or> m = FINALIZATION"
  by (cases m) simp_all

definition advance_ok :: "ControllerConfig \<Rightarrow> CompletionMetadata \<Rightarrow> wf_state \<Rightarrow> bool" where
  "advance_ok config md st \<longleftrightarrow> (case wf_advance config md st of
      Running st' \<Rightarrow> wf_inv config st' \<and> wf_rank config st' < wf_rank config st
    | Finished t \<Rightarrow> t \<in> {''completed_ready'', ''completed_with_findings'', ''completed_test_failed''}
    | Stuck \<Rightarrow> False)"

lemma advance_write:
  assumes lim: "limits_ok config" and inv: "wf_inv config st" and fits: "wf_fits md st"
    and s: "wf_stage st \<in> set document_producers"
  shows "advance_ok config md st"
proof -
  have "cm_outcome md = PASS"
    using fits s contract_fail_stage [of md] outcome_cases [of "cm_outcome md"]
    by (auto simp: wf_fits_def stage_set_defs)
  moreover have "cm_stage md = wf_stage st" "cm_mode md = wf_mode st" using fits by (simp_all add: wf_fits_def)
  ultimately show ?thesis using lim inv s mode_cases [of "wf_mode st"]
    by (cases "wf_stage st")
      (auto simp: advance_ok_def wf_defs wf_inv_simps wf_rank_def doc_budget_def code_budget_def limits_ok_def)
qed

lemma advance_review:
  assumes lim: "limits_ok config" and inv: "wf_inv config st" and fits: "wf_fits md st"
    and s: "wf_stage st \<in> set document_reviews"
  shows "advance_ok config md st"
proof -
  have "cm_outcome md = PASS \<or> cm_outcome md = FAIL"
    using fits outcome_cases by (simp add: wf_fits_def)
  moreover have "cm_stage md = wf_stage st" "cm_mode md = wf_mode st" using fits by (simp_all add: wf_fits_def)
  moreover have "wf_mode st = NORMAL"
    using fits s contract_review_normal [of md] by (auto simp: wf_fits_def stage_set_defs)
  ultimately show ?thesis using lim inv s
    by (cases "wf_stage st")
      (auto simp: advance_ok_def wf_defs wf_inv_simps wf_rank_def doc_budget_def code_budget_def limits_ok_def)
qed

lemma advance_code:
  assumes lim: "limits_ok config" and inv: "wf_inv config st" and fits: "wf_fits md st"
    and s: "PHASE_FOR_STAGE (wf_stage st) = CODE_PHASE"
  shows "advance_ok config md st"
proof -
  have "cm_outcome md = PASS \<or> cm_outcome md = FAIL"
    using fits outcome_cases by (simp add: wf_fits_def)
  moreover have "wf_stage st = IMPLEMENT \<Longrightarrow> cm_outcome md \<noteq> FAIL"
    using fits contract_fail_stage [of md] by (auto simp: wf_fits_def stage_set_defs)
  moreover have "cm_stage md = wf_stage st" "cm_mode md = wf_mode st" using fits by (simp_all add: wf_fits_def)
  moreover have "wf_mode st = NORMAL"
    using fits s contract_review_normal [of md] by (cases "wf_stage st") (auto simp: wf_fits_def stage_set_defs)
  moreover have "wf_stage st = CODE_REVIEW \<Longrightarrow> \<exists>t. wf_test st = Some t \<and> same_delivery t md"
    using fits by (simp add: wf_fits_def)
  ultimately show ?thesis using lim inv s
    by (cases "wf_stage st")
      (auto simp: advance_ok_def wf_defs wf_inv_simps wf_rank_def doc_budget_def code_budget_def limits_ok_def)
qed

lemma advance_always_ok:
  assumes "limits_ok config" and "wf_inv config st" and "wf_fits md st"
  shows "advance_ok config md st"
  using advance_write [OF assms] advance_review [OF assms] advance_code [OF assms]
  by (cases "wf_stage st") (simp_all add: stage_set_defs)

lemma wf_rank_nonneg: "wf_inv config st \<Longrightarrow> limits_ok config \<Longrightarrow> 0 < wf_rank config st"
  by (cases "wf_stage st"; cases "wf_mode st")
    (auto simp: wf_inv_simps wf_rank_def doc_budget_def code_budget_def limits_ok_def)

lemma wf_play_finishes:
  assumes "limits_ok config" "wf_inv config st" "wf_fit_all config st mds"
    and "wf_rank config st \<le> int (length mds)"
  shows "\<exists>t. wf_play config st mds = Finished t \<and>
     t \<in> {''completed_ready'', ''completed_with_findings'', ''completed_test_failed''}"
  using assms
proof (induction config st mds rule: wf_play.induct)
  case (1 config st)
  then show ?case using wf_rank_nonneg by fastforce
next
  case (2 config st md mds)
  then have fits: "wf_fits md st" by simp
  note ok = advance_always_ok [OF 2(2,3) fits, unfolded advance_ok_def]
  show ?case
  proof (cases "wf_advance config md st")
    case (Running st')
    with ok have "wf_inv config st'" "wf_rank config st' < wf_rank config st" by auto
    with 2(1) [OF Running 2(2)] 2(4,5) Running show ?thesis by simp
  qed (use ok in auto)
qed

section \<open>Repair contexts\<close>

text \<open>
  The repair contexts \<open>_reconcile_run\<close> builds for the next card. The fixed Chinese
  sentences of the source are stood for by their English meaning.
\<close>

definition test_gate_issues :: "CompletionMetadata \<Rightarrow> string list" where
  "test_gate_issues t = (let issues = map (\<lambda>i. ''[tester] '' @ i) (cm_issues t)
     in if issues = [] then [''[tester] the test failed; change the implementation'' ] else issues)"

definition code_gate_issues :: "CompletionMetadata \<Rightarrow> CompletionMetadata \<Rightarrow> string list" where
  "code_gate_issues t review =
     (let issues = map (\<lambda>i. ''[tester] '' @ i) (cm_issues t) @
                   map (\<lambda>i. ''[code-reviewer] '' @ i) (cm_issues review)
      in if issues = [] then [''the CODE gates did not both pass; check the gate evidence''] else issues)"

definition review_repair_context ::
  "CompletionMetadata \<Rightarrow> string \<Rightarrow> int \<Rightarrow> ControllerConfig \<Rightarrow> RepairContext" where
  "review_repair_context md task_id review_attempt config =
     \<lparr>rp_kind = REVIEW_FAILURE, rp_trigger_card_id = task_id, rp_issues = cm_issues md,
      rp_review_attempt = Some review_attempt,
      rp_review_limit = Some (cf_document_review_limit config), rp_related_card_ids = [],
      rp_head_sha = None, rp_code_modification = None, rp_code_modification_limit = None,
      rp_frozen_baselines = []\<rparr>"

definition code_repair_context ::
  "string list \<Rightarrow> string list \<Rightarrow> CompletionMetadata \<Rightarrow> string \<Rightarrow> int \<Rightarrow> ControllerConfig \<Rightarrow> RepairContext" where
  "code_repair_context issues related md task_id code_modifications config =
     \<lparr>rp_kind = CODE_GATE_FAILURE, rp_trigger_card_id = task_id, rp_issues = issues,
      rp_review_attempt = None, rp_review_limit = None, rp_related_card_ids = related,
      rp_head_sha = cm_head_sha md, rp_code_modification = Some (code_modifications + 1),
      rp_code_modification_limit = Some (cf_code_modification_limit config),
      rp_frozen_baselines = []\<rparr>"

definition frozen_repair_context :: "string \<Rightarrow> string \<Rightarrow> RepairContext" where
  "frozen_repair_context task_id violation =
     \<lparr>rp_kind = FROZEN_ARTIFACT_VIOLATION, rp_trigger_card_id = task_id,
      rp_issues = [''restore the frozen artifact to the baseline. '' @ violation],
      rp_review_attempt = None, rp_review_limit = None, rp_related_card_ids = [],
      rp_head_sha = None, rp_code_modification = None, rp_code_modification_limit = None,
      rp_frozen_baselines = []\<rparr>"

text \<open>The chain of ifs that assigns \<open>repair_context\<close> once the route has a next stage.\<close>

definition next_repair_context ::
  "CompletionMetadata \<Rightarrow> string \<Rightarrow> (Stage \<Rightarrow> int) \<Rightarrow> CompletionMetadata option \<Rightarrow> int \<Rightarrow>
   ControllerConfig \<Rightarrow> RepairContext option" where
  "next_repair_context md task_id attempts paired_test code_modifications config =
     (case (if cm_stage md = CODE_REVIEW then paired_test else None) of
        Some t \<Rightarrow> if cm_outcome t = FAIL \<or> cm_outcome md = FAIL
          then Some (code_repair_context (code_gate_issues t md)
                 [cm_kanban_card_id t, cm_kanban_card_id md] md task_id code_modifications config)
          else None
      | None \<Rightarrow>
          if cm_stage md = TEST \<and> cm_outcome md = FAIL
          then Some (code_repair_context (test_gate_issues md) [cm_kanban_card_id md] md task_id
                 code_modifications config)
          else if cm_stage md \<in> {SPEC_REVIEW, PLAN_REVIEW, TASKS_REVIEW} \<and> cm_outcome md = FAIL
          then Some (review_repair_context md task_id (attempts (cm_stage md)) config)
          else None)"

text \<open>
  A frozen artifact was changed while a normal card ran: \<open>_reconcile_run\<close> rejects
  the completion and restarts the phase at its producer in normal mode, whatever
  the number of reviews the phase has had.
\<close>

definition wf_frozen :: "CompletionMetadata \<Rightarrow> wf_state \<Rightarrow> wf_state" where
  "wf_frozen md st = (wf_count md st)\<lparr>
     wf_stage := PRODUCER_FOR_PHASE (PHASE_FOR_STAGE (cm_stage md)),
     wf_mode := (if cm_mode md = FINALIZATION then FINALIZATION else NORMAL)\<rparr>"

end
