(* ===== verification/Workflow_Properties.thy ===== *)
theory Workflow_Properties
  imports Workflow Run_Control
begin

text \<open>
  What the completion contract and the workflow guarantee together: the
  validator decides the declarative contract, valid completions always route
  somewhere, a delivery ends within its budget, and the repair cards the
  controller creates meet their own contract.
\<close>

section \<open>Sample completions for the witnesses\<close>

definition sha_b :: string where
  "sha_b = replicate 40 (CHR ''b'')"

definition sample_digest :: string where
  "sample_digest = replicate 64 (CHR ''c'')"

definition sample_forced :: ForcedAdvance where
  "sample_forced = \<lparr>fa_review_limit = 1, fa_final_review_card_id = ''t_1'', fa_final_review_url = ''u'',
     fa_decision_url = ''u'', fa_baseline_commit_sha = sha_b, fa_artifact_paths = [''docs/spec.md''],
     fa_artifact_digest = sample_digest, fa_key_decisions = [''d''], fa_unresolved_findings = [],
     fa_residual_risks = [''r'']\<rparr>"

definition sample_evidence :: RepositoryEvidence where
  "sample_evidence = \<lparr>re_repository_base_sha = sha_b, re_inspected_paths = [''src/a.py''],
     re_existing_capabilities = [''c''], re_change_strategy = EXTEND_EXISTING,
     re_reuse_decisions = [''d'']\<rparr>"

definition sample_md :: "Stage \<Rightarrow> WorkMode \<Rightarrow> Outcome \<Rightarrow> CompletionMetadata" where
  "sample_md s m out = (let gate = required_gate s out in
     \<lparr>cm_protocol_version = ''hollysys-controller/v4'', cm_run_key = ''hollysys-'' @ replicate 20 (CHR ''a''),
      cm_source_key = ''source-'' @ replicate 20 (CHR ''a''), cm_run_generation = replicate 20 (CHR ''a''),
      cm_context_digest = sample_digest, cm_stage = s, cm_iteration = 1, cm_mode = m, cm_outcome = out,
      cm_project_id = 1, cm_project_path = ''g/p'', cm_checkout = ''c'', cm_worktree = ''w'',
      cm_branch = ''b'', cm_target_branch = ''main'', cm_prd_path = ''docs/prd.md'',
      cm_prd_commit_sha = sha_b, cm_prd_blob_sha = sha_b, cm_prd_mr_url = ''u'',
      cm_kanban_card_id = ''t_1'', cm_mr_iid = Some 7, cm_mr_url = Some ''u'',
      cm_head_before_sha = None, cm_head_sha = Some sha_b, cm_artifact_commit_sha = Some sha_b,
      cm_artifact_digest = Some sample_digest, cm_artifact_paths = [''docs/spec.md''],
      cm_baseline_disposition = (if m = FINALIZATION then Some FORCED_AFTER_REVIEW_LIMIT
        else if s \<in> set document_reviews \<and> out = PASS then Some REVIEWED else None),
      cm_forced_advance = (if m = FINALIZATION then Some sample_forced else None),
      cm_repository_evidence = (if out = PASS \<and> s \<in> set repository_authors then Some sample_evidence else None),
      cm_test_disposition = (if s = TEST \<and> out \<noteq> CANCELLED then Some EXECUTED else None),
      cm_skip_reason = None, cm_verification = [], cm_gitlab_urls = [], cm_key_decisions = [''d''],
      cm_issues = [''i''], cm_residual_risk = [''r''], cm_gate_phase = gate,
      cm_gate_decision = map_option (\<lambda>_. APPROVED) gate, cm_gate_reviewer = map_option (\<lambda>_. ''id:1'') gate,
      cm_gate_reviewed_at = map_option (\<lambda>_. \<lparr>dt_epoch = 0, dt_tzinfo = Some 0\<rparr>) gate,
      cm_gate_reason = map_option (\<lambda>_. ''ok'') gate,
      cm_gate_evidence_refs = (if gate = None then [] else [''e'']),
      cm_gate_artifact_paths = (if gate = None then [] else [''docs/spec.md'']),
      cm_gate_artifact_commit_sha = map_option (\<lambda>_. sha_b) gate,
      cm_gate_artifact_digest = map_option (\<lambda>_. sample_digest) gate,
      cm_contract_refs = (if gate = None then [] else [''c'']),
      cm_requirement_ids = (if gate = None then [] else [''R1'']), cm_deterministic_checks = []\<rparr>)"

lemma sample_fields [simp]:
  "cm_stage (sample_md s m out) = s" "cm_mode (sample_md s m out) = m"
  "cm_outcome (sample_md s m out) = out" "cm_issues (sample_md s m out) = [''i'']"
  by (simp_all add: sample_md_def Let_def)

lemma sample_limits [simp]:
  "cf_document_review_limit sample_config = 1" "cf_code_modification_limit sample_config = 1"
  by (simp_all add: sample_config_def)

lemma sample_delivery [simp]: "same_delivery (sample_md s m out) (sample_md s' m' out')"
  by (simp add: same_delivery_def sample_md_def Let_def)

lemma exact_sample_path: "exact_repository_path ''docs/spec.md''"
  by code_simp

lemma sample_contract:
  assumes "out = FAIL \<Longrightarrow> s \<in> set document_reviews \<union> set code_gates"
    and "m = FINALIZATION \<Longrightarrow> s \<in> set document_producers \<and> out = PASS"
  shows "stage_contract (sample_md s m out)"
proof -
  have "baseline_contract (sample_md s m out)" using assms(2)
    by (cases m) (auto simp: baseline_contract_def sample_md_def Let_def has_artifact_def
        forced_mismatch_def sample_forced_def)
  moreover have "gate_contract (sample_md s m out)" using exact_sample_path
    by (auto simp: gate_contract_def sample_md_def Let_def gate_fields_present_def gate_evidence_ok_def
        required_gate_def)
  ultimately show ?thesis using assms(1)
    by (cases out) (auto simp: stage_contract_def stage_evidence_def test_contract_def sample_md_def
        Let_def has_artifact_def has_delivery_def)
qed

definition sample_flow :: "CompletionMetadata list" where
  "sample_flow = map (\<lambda>(s, m, out). sample_md s m out)
     ([(SPEC_WRITE, NORMAL, PASS), (SPEC_REVIEW, NORMAL, FAIL), (SPEC_WRITE, FINALIZATION, PASS),
       (PLAN_WRITE, NORMAL, PASS), (PLAN_REVIEW, NORMAL, PASS),
       (TASKS_WRITE, NORMAL, PASS), (TASKS_REVIEW, NORMAL, PASS),
       (IMPLEMENT, NORMAL, PASS), (TEST, NORMAL, FAIL), (IMPLEMENT, NORMAL, PASS),
       (TEST, NORMAL, PASS), (CODE_REVIEW, NORMAL, FAIL)] @
      replicate 3 (TEST, NORMAL, PASS))"

section \<open>Properties\<close>

text \<open>
  C23. The completion validator decides the declarative contract: the ordered
  checks of \<open>validate_stage_contract\<close> accept a completion exactly when its gate,
  evidence, test disposition and baseline are those of its stage, outcome and
  mode.
\<close>

theorem stage_contract_decides: "validate_stage_contract md = Inr () \<longleftrightarrow> stage_contract md"
  by (rule validate_stage_contract_iff)

text \<open>
  C24. A valid completion that was not cancelled always moves the delivery on: the
  route has a next stage or a terminal state, never a block, and never the merge
  branch, which no valid completion reaches.
\<close>

theorem valid_completion_moves_on:
  assumes "validate_stage_contract md = Inr ()" and "cm_outcome md \<noteq> CANCELLED"
  shows "let r = route_completion md attempts config paired mods in
    rt_merge r = False \<and> rt_blocked_reason r = None \<and>
    (rt_next_stage r \<noteq> None) \<noteq> (rt_terminal_state r \<noteq> None)"
proof -
  have c: "stage_contract md" using assms(1) by (simp add: validate_stage_contract_iff)
  from contract_fail_stage [OF c] contract_finalization [OF c] assms(2) route_valid [OF c assms(2)]
  show ?thesis unfolding Let_def
    by (cases "cm_stage md"; cases "cm_outcome md")
      (auto simp: route_completion_def route0_def stage_set_defs split: option.splits)
qed

theorem valid_completion_moves_on_witness:
  "rt_merge (route_completion (sample_md SPEC_REVIEW NORMAL FAIL) (\<lambda>_. 1) sample_config None 0) = False \<and>
   rt_next_stage (route_completion (sample_md SPEC_REVIEW NORMAL FAIL) (\<lambda>_. 1) sample_config None 0) =
     Some SPEC_WRITE"
proof -
  have "validate_stage_contract (sample_md SPEC_REVIEW NORMAL FAIL) = Inr ()"
    unfolding validate_stage_contract_iff by (rule sample_contract) (simp_all add: stage_set_defs)
  from valid_completion_moves_on [OF this, of "\<lambda>_. 1" sample_config None 0]
  show ?thesis by (simp add: Let_def route_completion_def route0_def)
qed


lemma sample_flow_fits: "wf_fit_all sample_config wf_start sample_flow"
proof -
  have "stage_contract (sample_md s m out)"
    if "(out = FAIL \<longrightarrow> s \<in> set document_reviews \<union> set code_gates) \<and>
      (m = FINALIZATION \<longrightarrow> s \<in> set document_producers \<and> out = PASS)" for s m out
    using that by (intro sample_contract) auto
  then show ?thesis
    by (simp add: sample_flow_def wf_fits_def wf_defs wf_start_def stage_set_defs)
qed



definition sample_review_state :: wf_state where
  "sample_review_state = wf_start\<lparr>wf_stage := SPEC_REVIEW\<rparr>"


text \<open>
  C40. The restart for a changed frozen artifact escapes that bound: when the last
  allowed review of a phase is rejected for it, the phase is played once more in
  normal mode, and if the next review fails its repair context is refused, so the
  delivery ends in an exception instead of the finalization the limit promises.
\<close>

theorem frozen_restart_breaks_review_limit:
  assumes last: "wf_reviews st (wf_stage st) + 1 = cf_document_review_limit config"
    and review: "wf_stage st \<in> set document_reviews" and md: "cm_stage md = wf_stage st" "cm_mode md = NORMAL"
    and prod: "cm_stage md1 = wf_stage (wf_frozen md st)" "cm_mode md1 = NORMAL" "cm_outcome md1 = PASS"
    and again: "cm_stage md2 = wf_stage st" "cm_outcome md2 = FAIL"
  shows "\<exists>st1. wf_advance config md1 (wf_frozen md st) = Running st1 \<and> wf_stage st1 = wf_stage st \<and>
    (\<exists>ctx. next_repair_context md2 task_id (wf_reviews (wf_count md2 st1)) None 0 config = Some ctx \<and>
       validate_repair_contract ctx = Inl (ValueError ''review_attempt cannot exceed review_limit''))"
  using assms
  by (cases "wf_stage st")
    (auto simp: wf_frozen_def wf_defs stage_set_defs next_repair_context_def review_repair_context_def
      validate_repair_contract_def exceeds_def)

theorem frozen_restart_breaks_review_limit_witness:
  "\<exists>st1. wf_advance sample_config (sample_md SPEC_WRITE NORMAL PASS)
      (wf_frozen (sample_md SPEC_REVIEW NORMAL PASS) sample_review_state) = Running st1 \<and>
    wf_stage st1 = SPEC_REVIEW"
proof -
  have 1: "wf_reviews sample_review_state (wf_stage sample_review_state) + 1 = cf_document_review_limit sample_config"
    "wf_stage sample_review_state \<in> set document_reviews"
    "cm_stage (sample_md SPEC_REVIEW NORMAL PASS) = wf_stage sample_review_state"
    "cm_stage (sample_md SPEC_WRITE NORMAL PASS) =
      wf_stage (wf_frozen (sample_md SPEC_REVIEW NORMAL PASS) sample_review_state)"
    "cm_stage (sample_md SPEC_REVIEW NORMAL FAIL) = wf_stage sample_review_state"
    by (simp_all add: sample_review_state_def wf_start_def stage_set_defs wf_frozen_def wf_count_def)
  have s: "wf_stage sample_review_state = SPEC_REVIEW" by (simp add: sample_review_state_def)
  from frozen_restart_breaks_review_limit [OF 1(1,2,3) _ 1(4) _ _ 1(5), where task_id = "''t_1''"] s
  show ?thesis by auto
qed

end
