(* ===== verification/Task_Graph.thy ===== *)
theory Task_Graph
  imports Models
begin

text \<open>
  validators.py: the deterministic check of the TASKS documents. A task block is
  what the module's regular expressions find between one task header and the
  next; from there on \<open>validate_task_documents\<close> is modelled statement by
  statement, the depth-first search for dependency cycles included.
\<close>

section \<open>Blocks and results\<close>

text \<open>
  The matches in one block: the header's id; for each \<open>depends_on\<close> line the ids
  \<open>findall\<close> returns and whether text is left once ids and separators are removed;
  the action of each action line; the back-quoted paths.
\<close>

record task_block =
  tb_task_id :: string
  tb_dependencies :: "(string list \<times> bool) list"
  tb_actions :: "string list"
  tb_target_paths :: "string list"

record ValidationResult =
  vr_validator :: string
  vr_validator_version :: string
  vr_input_digest :: string
  vr_passed :: bool
  vr_error_codes :: "string list"
  vr_result_digest :: string

definition VALIDATOR_VERSION :: string where
  "VALIDATOR_VERSION = ''tasks-graph/v1''"

text \<open>
  \<open>_result\<close>; \<open>digest\<close> is the SHA-256 of the JSON text of its arguments. A Python set
  of error codes is a list here, sorted and without duplicates in the result.
\<close>

definition task_result :: "(string \<Rightarrow> string list \<Rightarrow> string) \<Rightarrow> string \<Rightarrow> string list \<Rightarrow> ValidationResult" where
  "task_result digest input_digest errors =
     (let error_codes = sort (remdups errors) in
      \<lparr>vr_validator = ''tasks-graph'', vr_validator_version = VALIDATOR_VERSION,
       vr_input_digest = input_digest, vr_passed = (error_codes = []), vr_error_codes = error_codes,
       vr_result_digest = digest input_digest error_codes\<rparr>)"

definition looks_like_frozen_upstream :: "string \<Rightarrow> bool" where
  "looks_like_frozen_upstream path =
     (let normalized = map lower_char (dropWhile (\<lambda>c. c = CHR ''.'' \<or> c = CHR ''/'') (strip path))
      in list_ex (\<lambda>part. contains_str part normalized)
           [''/prds/'', ''/specs/'', ''/plans/'', ''docs/prd'', ''docs/spec'', ''docs/plan''])"

section \<open>Collecting the tasks\<close>

text \<open>\<open>tasks\<close> in insertion order, \<open>duplicate_ids\<close> and \<open>errors\<close>.\<close>

record task_scan =
  ts_tasks :: "(string \<times> string list) list"
  ts_duplicates :: "string list"
  ts_errors :: "string list"

definition task_ids :: "task_scan \<Rightarrow> string list" where
  "task_ids s = map fst (ts_tasks s)"

definition dependency_errors :: "task_block \<Rightarrow> string list" where
  "dependency_errors b = (case tb_dependencies b of
      [(_, residue)] \<Rightarrow> if residue then [''malformed_dependency''] else []
    | _ \<Rightarrow> [''depends_on_count''])"

definition dependency_ids :: "task_block \<Rightarrow> string list" where
  "dependency_ids b = (case tb_dependencies b of [(ids, _)] \<Rightarrow> remdups ids | _ \<Rightarrow> [])"

definition action_errors :: "task_block \<Rightarrow> string list" where
  "action_errors b = (case tb_actions b of
      [action] \<Rightarrow> if action \<noteq> ''reuse'' \<and> list_ex looks_like_frozen_upstream (tb_target_paths b)
                  then [''frozen_file_modified''] else []
    | _ \<Rightarrow> [''action_count''])"

definition scan_block :: "task_block \<Rightarrow> task_scan \<Rightarrow> task_scan" where
  "scan_block b s =
     (let dup = (tb_task_id b \<in> set (task_ids s));
          duplicates = (if dup then tb_task_id b # ts_duplicates s else ts_duplicates s);
          errors = ts_errors s @ (if dup then [''duplicate_id''] else []) @
                   dependency_errors b @ action_errors b
      in \<lparr>ts_tasks = (if tb_task_id b \<in> set duplicates then ts_tasks s
                      else ts_tasks s @ [(tb_task_id b, dependency_ids b)]),
          ts_duplicates = duplicates, ts_errors = errors\<rparr>)"

definition scan_documents :: "task_block list list \<Rightarrow> task_scan" where
  "scan_documents documents =
     fold (fold scan_block) documents \<lparr>ts_tasks = [], ts_duplicates = [], ts_errors = []\<rparr>"

definition reference_errors :: "(string \<times> string list) list \<Rightarrow> string \<times> string list \<Rightarrow> string list" where
  "reference_errors tasks td =
     (if \<exists>d \<in> set (snd td). d \<notin> set (map fst tasks) then [''missing_dependency''] else []) @
     (if fst td \<in> set (snd td) then [''self_dependency''] else [])"

section \<open>The depth-first search\<close>

text \<open>
  \<open>visit\<close> with the stack \<open>visiting\<close>; the result is \<open>visited\<close> after the call and
  whether a dependency_cycle was reported. \<open>known\<close> lists the dependencies of a
  task that are tasks (\<open>if dependency in tasks\<close>); a task outside \<open>tasks\<close> is never
  visited.
\<close>

definition known :: "(string \<times> string list) list \<Rightarrow> string \<Rightarrow> string list" where
  "known tasks t = (case map_of tasks t of None \<Rightarrow> []
     | Some ds \<Rightarrow> filter (\<lambda>d. d \<in> set (map fst tasks)) ds)"

function visit_all :: "(string \<times> string list) list \<Rightarrow> string list \<Rightarrow> string list \<Rightarrow> string list \<Rightarrow> string list \<times> bool" where
  "visit_all tasks visiting visited [] = (visited, False)"
| "visit_all tasks visiting visited (t # ts) =
     (if t \<in> set visiting
      then (let (visited', c) = visit_all tasks visiting visited ts in (visited', True))
      else if t \<in> set visited \<or> t \<notin> set (map fst tasks)
      then visit_all tasks visiting visited ts
      else let (visited1, c1) = visit_all tasks (t # visiting) visited (known tasks t);
               (visited2, c2) = visit_all tasks visiting (t # visited1) ts
           in (visited2, c1 \<or> c2))"
  by pat_completeness auto
termination
proof (relation "measures [\<lambda>(tasks, visiting, visited, ts). card (set (map fst tasks) - set visiting),
    \<lambda>(tasks, visiting, visited, ts). length ts]")
  fix tasks :: "(string \<times> string list) list" and visiting visited :: "string list" and t :: string and ts
  assume "t \<notin> set visiting" "\<not> (t \<in> set visited \<or> t \<notin> set (map fst tasks))"
  then have "set (map fst tasks) - set (t # visiting) \<subset> set (map fst tasks) - set visiting" by auto
  then have "card (set (map fst tasks) - set (t # visiting)) < card (set (map fst tasks) - set visiting)"
    by (rule psubset_card_mono [rotated]) simp
  then show "((tasks, t # visiting, visited, known tasks t), tasks, visiting, visited, t # ts)
    \<in> measures [\<lambda>(tasks, visiting, visited, ts). card (set (map fst tasks) - set visiting),
        \<lambda>(tasks, visiting, visited, ts). length ts]" by simp
qed auto

definition validate_task_documents ::
  "(string \<Rightarrow> string list \<Rightarrow> string) \<Rightarrow> string \<Rightarrow> task_block list list \<Rightarrow> ValidationResult" where
  "validate_task_documents digest input_digest documents =
     (let s = scan_documents documents in
      if ts_tasks s = [] then task_result digest input_digest (ts_errors s @ [''no_tasks''])
      else let refs = concat (map (reference_errors (ts_tasks s)) (ts_tasks s));
               cyc = snd (visit_all (ts_tasks s) [] [] (task_ids s))
           in task_result digest input_digest
                (ts_errors s @ refs @ (if cyc then [''dependency_cycle''] else [])))"

section \<open>The search finds exactly the cycles\<close>

definition edges :: "(string \<times> string list) list \<Rightarrow> (string \<times> string) set" where
  "edges tasks = {(t, d). d \<in> set (known tasks t)}"

text \<open>A visited list in which every task's known dependencies come after it.\<close>

fun topological :: "(string \<times> string list) list \<Rightarrow> string list \<Rightarrow> bool" where
  "topological tasks [] = True"
| "topological tasks (t # vs) = (t \<notin> set vs \<and> set (known tasks t) \<subseteq> set vs \<and> topological tasks vs)"

lemma topological_closed:
  "topological tasks vs \<Longrightarrow> v \<in> set vs \<Longrightarrow> (v, w) \<in> (edges tasks)\<^sup>+ \<Longrightarrow>
     \<exists>as bs. vs = as @ v # bs \<and> w \<in> set bs"
proof (induction vs arbitrary: v)
  case (Cons t vs)
  have step: "\<exists>as bs. vs = as @ u # bs \<and> w \<in> set bs" if "u \<in> set vs" "(u, w) \<in> (edges tasks)\<^sup>+" for u
    using Cons.IH [of u] Cons.prems(1) that by simp
  show ?case
  proof (cases "v = t")
    case True
    from Cons.prems(3) obtain u where u: "(v, u) \<in> edges tasks" "u = w \<or> (u, w) \<in> (edges tasks)\<^sup>+"
      by (metis tranclD rtrancl_eq_or_trancl)
    then have "u \<in> set vs" using True Cons.prems(1) by (auto simp: edges_def)
    then have "w \<in> set vs" using u(2) step [of u] by auto
    moreover have "t # vs = [] @ v # vs" using True by simp
    ultimately show ?thesis by blast
  next
    case False
    with Cons.prems(2) step [of v] Cons.prems(3) obtain as bs where "vs = as @ v # bs" "w \<in> set bs" by auto
    then show ?thesis by (intro exI [of _ "t # as"] exI [of _ bs]) simp
  qed
qed simp

lemma topological_distinct: "topological tasks vs \<Longrightarrow> distinct vs"
  by (induction vs) auto

lemma topological_acyclic:
  assumes "topological tasks vs" "v \<in> set vs"
  shows "(v, v) \<notin> (edges tasks)\<^sup>+"
proof
  assume "(v, v) \<in> (edges tasks)\<^sup>+"
  from topological_closed [OF assms this] topological_distinct [OF assms(1)] show False by auto
qed

text \<open>Without a report the visited list stays topological and takes in the tasks visited.\<close>

lemma visit_all_complete:
  assumes "visit_all tasks visiting visited ts = (visited', False)" "topological tasks visited"
    and "set visiting \<inter> set visited = {}" "set ts \<subseteq> set (map fst tasks)"
  shows "topological tasks visited' \<and> set visited \<union> set ts \<subseteq> set visited' \<and>
    set visiting \<inter> set visited' = {}"
  using assms
proof (induction tasks visiting visited ts arbitrary: visited' rule: visit_all.induct)
  case (1 tasks visiting visited)
  then show ?case by simp
next
  case (2 tasks visiting visited t ts)
  have nv: "t \<notin> set visiting" using 2(5) by (auto simp: Let_def split: if_splits prod.splits)
  show ?case
  proof (cases "t \<in> set visited \<or> t \<notin> set (map fst tasks)")
    case True
    with 2(5) nv have "visit_all tasks visiting visited ts = (visited', False)" by auto
    from 2(2) [OF nv True this 2(6,7)] 2(8) True show ?thesis by auto
  next
    case False
    obtain v1 c1 where v1: "visit_all tasks (t # visiting) visited (known tasks t) = (v1, c1)" by force
    obtain v2 c2 where v2: "visit_all tasks visiting (t # v1) ts = (v2, c2)" by force
    from 2(5) nv False v1 v2 have c: "c1 = False" "c2 = False" "v2 = visited'" by (auto simp: Let_def)
    have k: "set (known tasks t) \<subseteq> set (map fst tasks)" by (auto simp: known_def split: option.splits)
    have d1: "set (t # visiting) \<inter> set visited = {}" using 2(7) False by auto
    from 2(3) [OF nv False v1 [unfolded c] 2(6) d1 k]
    have a: "topological tasks v1" "set visited \<union> set (known tasks t) \<subseteq> set v1"
      "set (t # visiting) \<inter> set v1 = {}" by blast+
    then have t1: "topological tasks (t # v1)" and d2: "set visiting \<inter> set (t # v1) = {}"
      using nv by auto
    from 2(4) [OF nv False v1 [symmetric] refl v2 [unfolded c] t1 d2] 2(8) a(2)
    show ?thesis by auto
  qed
qed

text \<open>A report comes from a dependency on the stack, so it closes a cycle.\<close>

fun chained :: "(string \<times> string) set \<Rightarrow> string list \<Rightarrow> bool" where
  "chained E [] = True"
| "chained E [t] = True"
| "chained E (t # s # ts) = ((s, t) \<in> E \<and> chained E (s # ts))"

lemma chained_reach: "chained E (u # stack) \<Longrightarrow> t \<in> set (u # stack) \<Longrightarrow> t = u \<or> (t, u) \<in> E\<^sup>+"
proof (induction stack arbitrary: u)
  case (Cons s stack)
  show ?case
  proof (cases "t = u")
    case False
    with Cons.prems have "t = s \<or> (t, s) \<in> E\<^sup>+" "(s, u) \<in> E" using Cons.IH [of s] by auto
    then show ?thesis by (auto intro: trancl_into_trancl)
  qed simp
qed simp

lemma visit_all_sound:
  assumes "visit_all tasks visiting visited ts = (visited', True)" "chained (edges tasks) visiting"
    and "case visiting of [] \<Rightarrow> True | u # _ \<Rightarrow> \<forall>t \<in> set ts. (u, t) \<in> edges tasks"
  shows "\<exists>t. (t, t) \<in> (edges tasks)\<^sup>+"
  using assms
proof (induction tasks visiting visited ts arbitrary: visited' rule: visit_all.induct)
  case (1 tasks visiting visited)
  then show ?case by simp
next
  case (2 tasks visiting visited t ts)
  show ?case
  proof (cases "t \<in> set visiting")
    case True
    then obtain u stack where v: "visiting = u # stack" by (cases visiting) auto
    with 2(7) have "(u, t) \<in> edges tasks" by simp
    moreover have "t = u \<or> (t, u) \<in> (edges tasks)\<^sup>+"
      using chained_reach [of "edges tasks" u stack t] 2(6) True v by simp
    ultimately show ?thesis by (metis r_into_trancl' trancl_into_trancl)
  next
    case nv: False
    have rest: "case visiting of [] \<Rightarrow> True | u # _ \<Rightarrow> \<forall>t \<in> set ts. (u, t) \<in> edges tasks"
      using 2(7) by (auto split: list.splits)
    show ?thesis
    proof (cases "t \<in> set visited \<or> t \<notin> set (map fst tasks)")
      case True
      with 2(5) nv have "visit_all tasks visiting visited ts = (visited', True)" by auto
      from 2(2) [OF nv True this 2(6) rest] show ?thesis .
    next
      case False
      obtain v1 c1 where v1: "visit_all tasks (t # visiting) visited (known tasks t) = (v1, c1)" by force
      obtain v2 c2 where v2: "visit_all tasks visiting (t # v1) ts = (v2, c2)" by force
      from 2(5) nv False v1 v2 have "c1 \<or> c2" by (auto simp: Let_def)
      moreover have "\<exists>t. (t, t) \<in> (edges tasks)\<^sup>+" if "c1"
      proof -
        have "chained (edges tasks) (t # visiting)" using 2(6,7) by (cases visiting) auto
        with 2(3) [OF nv False v1 [unfolded that [THEN eq_True [THEN iffD2]]]] show ?thesis
          by (simp add: edges_def)
      qed
      moreover have "\<exists>t. (t, t) \<in> (edges tasks)\<^sup>+" if "c2"
        using 2(4) [OF nv False v1 [symmetric] refl v2 [unfolded that [THEN eq_True [THEN iffD2]]] 2(6) rest] .
      ultimately show ?thesis by blast
    qed
  qed
qed

lemma visit_cycle_iff:
  "snd (visit_all tasks [] [] (map fst tasks)) \<longleftrightarrow> (\<exists>t. (t, t) \<in> (edges tasks)\<^sup>+)"
proof (cases "snd (visit_all tasks [] [] (map fst tasks))")
  case True
  then have "visit_all tasks [] [] (map fst tasks) = (fst (visit_all tasks [] [] (map fst tasks)), True)"
    by (metis prod.collapse)
  from visit_all_sound [OF this] True show ?thesis by simp
next
  case False
  then have "visit_all tasks [] [] (map fst tasks) = (fst (visit_all tasks [] [] (map fst tasks)), False)"
    by (metis prod.collapse)
  from visit_all_complete [OF this] have
    top: "topological tasks (fst (visit_all tasks [] [] (map fst tasks)))"
      "set (map fst tasks) \<subseteq> set (fst (visit_all tasks [] [] (map fst tasks)))" by simp_all
  have "(t, t) \<notin> (edges tasks)\<^sup>+" for t
  proof
    assume c: "(t, t) \<in> (edges tasks)\<^sup>+"
    then obtain u where "(t, u) \<in> edges tasks" by (metis tranclD)
    then have "t \<in> set (map fst tasks)"
      by (auto simp: edges_def known_def split: option.splits dest: map_of_SomeD)
        (metis fst_conv image_eqI map_of_SomeD)
    with topological_acyclic [OF top(1), of t] top(2) c show False by blast
  qed
  with False show ?thesis by blast
qed

section \<open>What the scan collects\<close>

definition block_errors :: "task_block \<Rightarrow> string list" where
  "block_errors b = dependency_errors b @ action_errors b"

lemma scan_documents_concat:
  "scan_documents documents =
     fold scan_block (concat documents) \<lparr>ts_tasks = [], ts_duplicates = [], ts_errors = []\<rparr>"
proof -
  have "fold (fold scan_block) documents s = fold scan_block (concat documents) s" for s
    by (induction documents arbitrary: s) simp_all
  then show ?thesis by (simp add: scan_documents_def)
qed

lemma scan_block_errors:
  "ts_errors (scan_block b s) = ts_errors s @
     (if tb_task_id b \<in> set (task_ids s) then [''duplicate_id''] else []) @ block_errors b"
  by (simp add: scan_block_def Let_def block_errors_def)

definition scan_codes :: "string set" where
  "scan_codes = {''duplicate_id'', ''depends_on_count'', ''malformed_dependency'', ''action_count'',
     ''frozen_file_modified''}"

lemma block_error_codes: "set (block_errors b) \<subseteq> scan_codes"
proof -
  have "dependency_errors b \<in> {[], [''malformed_dependency''], [''depends_on_count'']}"
    by (auto simp: dependency_errors_def split: list.splits)
  moreover have "action_errors b \<in> {[], [''frozen_file_modified''], [''action_count'']}"
    by (auto simp: action_errors_def split: list.splits)
  ultimately show ?thesis unfolding block_errors_def scan_codes_def by (elim insertE emptyE) simp_all
qed

lemma scan_error_codes: "set (ts_errors (fold scan_block bs s)) \<subseteq> set (ts_errors s) \<union> scan_codes"
proof (induction bs arbitrary: s)
  case (Cons b bs)
  have "''duplicate_id'' \<in> scan_codes" by (simp add: scan_codes_def)
  with block_error_codes [of b] have "set (ts_errors (scan_block b s)) \<subseteq> set (ts_errors s) \<union> scan_codes"
    unfolding scan_block_errors by auto
  with Cons.IH [of "scan_block b s"] show ?case by auto
qed simp

lemma scan_errors_mono: "ts_errors s \<noteq> [] \<Longrightarrow> ts_errors (fold scan_block bs s) \<noteq> []"
  by (induction bs arbitrary: s) (simp_all add: scan_block_def Let_def)

lemma scan_ok:
  assumes "ts_duplicates s = []" "ts_errors s = []"
  shows "(ts_errors (fold scan_block bs s) = [] \<longleftrightarrow> distinct (map tb_task_id bs) \<and>
        (\<forall>b \<in> set bs. tb_task_id b \<notin> set (task_ids s) \<and> block_errors b = [])) \<and>
     (ts_errors (fold scan_block bs s) = [] \<longrightarrow>
        ts_tasks (fold scan_block bs s) = ts_tasks s @ map (\<lambda>b. (tb_task_id b, dependency_ids b)) bs)"
  using assms
proof (induction bs arbitrary: s)
  case (Cons b bs)
  show ?case
  proof (cases "tb_task_id b \<in> set (task_ids s) \<or> block_errors b \<noteq> []")
    case True
    then have "ts_errors (scan_block b s) \<noteq> []" by (auto simp: scan_block_errors)
    from scan_errors_mono [OF this, of bs] True show ?thesis by auto
  next
    case False
    then have b: "tb_task_id b \<notin> set (task_ids s)" "block_errors b = []" by simp_all
    let ?s1 = "\<lparr>ts_tasks = ts_tasks s @ [(tb_task_id b, dependency_ids b)],
        ts_duplicates = [], ts_errors = []\<rparr>"
    have s1: "scan_block b s = ?s1"
      using b Cons.prems by (simp add: scan_block_def Let_def block_errors_def)
    have ids: "set (task_ids ?s1) = insert (tb_task_id b) (set (task_ids s))"
      by (simp add: task_ids_def)
    have IH1: "ts_errors (fold scan_block bs ?s1) = [] \<longleftrightarrow> distinct (map tb_task_id bs) \<and>
        (\<forall>c \<in> set bs. tb_task_id c \<notin> set (task_ids ?s1) \<and> block_errors c = [])"
      and IH2: "ts_errors (fold scan_block bs ?s1) = [] \<longrightarrow> ts_tasks (fold scan_block bs ?s1) =
        ts_tasks ?s1 @ map (\<lambda>b. (tb_task_id b, dependency_ids b)) bs"
      using Cons.IH [of ?s1] by simp_all
    have f: "fold scan_block (b # bs) s = fold scan_block bs ?s1" by (simp add: s1)
    have "ts_errors (fold scan_block (b # bs) s) = [] \<longleftrightarrow> distinct (map tb_task_id (b # bs)) \<and>
        (\<forall>c \<in> set (b # bs). tb_task_id c \<notin> set (task_ids s) \<and> block_errors c = [])"
      unfolding f IH1 ids using b by (auto simp: image_iff)
    moreover have "ts_errors (fold scan_block (b # bs) s) = [] \<longrightarrow> ts_tasks (fold scan_block (b # bs) s) =
        ts_tasks s @ map (\<lambda>b. (tb_task_id b, dependency_ids b)) (b # bs)"
      unfolding f using IH2 by simp
    ultimately show ?thesis by blast
  qed
qed simp

lemma scan_tasks_mono: "ts_tasks s \<noteq> [] \<Longrightarrow> ts_tasks (fold scan_block bs s) \<noteq> []"
  by (induction bs arbitrary: s) (simp_all add: scan_block_def Let_def)

lemma scan_tasks_empty: "ts_tasks (scan_documents documents) = [] \<longleftrightarrow> concat documents = []"
proof (cases "concat documents")
  case (Cons b bs)
  have "ts_tasks (scan_block b \<lparr>ts_tasks = [], ts_duplicates = [], ts_errors = []\<rparr>) \<noteq> []"
    by (simp add: scan_block_def Let_def task_ids_def)
  from scan_tasks_mono [OF this, of bs] Cons show ?thesis by (simp add: scan_documents_concat)
next
  case Nil
  then show ?thesis unfolding scan_documents_concat Nil by simp
qed

lemma reference_error_codes:
  "set (reference_errors tasks td) \<subseteq> set [''missing_dependency'', ''self_dependency'']"
  by (auto simp: reference_errors_def)

lemma result_codes [simp]:
  "set (vr_error_codes (task_result digest input errors)) = set errors"
  "vr_passed (task_result digest input errors) \<longleftrightarrow> errors = []"
  by (auto simp: task_result_def Let_def) (metis list.set_sel(1) set_empty set_remdups set_sort)

lemma no_cycle_code_in_scan: "''dependency_cycle'' \<notin> set (ts_errors (scan_documents documents))"
  using scan_error_codes [of "concat documents" "\<lparr>ts_tasks = [], ts_duplicates = [], ts_errors = []\<rparr>"]
  by (auto simp: scan_documents_concat scan_codes_def)

lemma no_cycle_code_in_refs: "''dependency_cycle'' \<notin> set (concat (map (reference_errors tasks) tds))"
  using reference_error_codes [of tasks] by fastforce

end
