(* ===== verification/Task_Properties.thy ===== *)
theory Task_Properties
  imports Task_Graph
begin

text \<open>
  What the TASKS validator promises: cycles are reported exactly, and a document
  set passes exactly when it is a well-formed acyclic task graph that changes no
  frozen upstream document.
\<close>

text \<open>
  The depth-first search is exact: dependency_cycle is reported if and only
  if the dependencies between declared tasks contain a cycle.
\<close>

theorem dependency_cycle_exact:
  "''dependency_cycle'' \<in> set (vr_error_codes (validate_task_documents digest input documents)) \<longleftrightarrow>
     (\<exists>t. (t, t) \<in> (edges (ts_tasks (scan_documents documents)))\<^sup>+)"
proof (cases "ts_tasks (scan_documents documents) = []")
  case True
  then have "edges (ts_tasks (scan_documents documents)) = {}" by (simp add: edges_def known_def)
  with True no_cycle_code_in_scan [of documents] show ?thesis
    by (simp add: validate_task_documents_def Let_def)
next
  case False
  with no_cycle_code_in_scan [of documents] no_cycle_code_in_refs
    [of "ts_tasks (scan_documents documents)" "ts_tasks (scan_documents documents)"] show ?thesis
    by (simp add: validate_task_documents_def Let_def task_ids_def visit_cycle_iff)
qed

section \<open>Well-formed task sets\<close>

definition block_ok :: "string list \<Rightarrow> task_block \<Rightarrow> bool" where
  "block_ok ids b \<longleftrightarrow> (\<exists>deps action. tb_dependencies b = [(deps, False)] \<and> set deps \<subseteq> set ids \<and>
     tb_actions b = [action] \<and>
     (action = ''reuse'' \<or> list_all (\<lambda>p. \<not> looks_like_frozen_upstream p) (tb_target_paths b)))"

definition depends :: "task_block list \<Rightarrow> (string \<times> string) set" where
  "depends bs = {(tb_task_id b, d) | b d. b \<in> set bs \<and> d \<in> set (dependency_ids b)}"

lemma block_errors_none:
  "block_errors b = [] \<longleftrightarrow> (\<exists>deps action. tb_dependencies b = [(deps, False)] \<and> tb_actions b = [action] \<and>
     (action = ''reuse'' \<or> list_all (\<lambda>p. \<not> looks_like_frozen_upstream p) (tb_target_paths b)))"
  by (auto simp: block_errors_def dependency_errors_def action_errors_def list_all_iff list_ex_iff
      split: list.splits if_splits)

lemma known_of_blocks:
  assumes "distinct (map tb_task_id bs)" "b \<in> set bs"
  shows "known (map (\<lambda>b. (tb_task_id b, dependency_ids b)) bs) (tb_task_id b) =
    filter (\<lambda>d. d \<in> tb_task_id ` set bs) (dependency_ids b)"
proof -
  have "map_of (map (\<lambda>b. (tb_task_id b, dependency_ids b)) bs) (tb_task_id b) = Some (dependency_ids b)"
    using assms by (intro map_of_is_SomeI) (auto simp: comp_def)
  then show ?thesis by (simp add: known_def comp_def image_image)
qed

lemma edges_of_blocks:
  assumes "distinct (map tb_task_id bs)" "\<forall>b \<in> set bs. set (dependency_ids b) \<subseteq> tb_task_id ` set bs"
  shows "edges (map (\<lambda>b. (tb_task_id b, dependency_ids b)) bs) = depends bs"
proof -
  have "(t, d) \<in> edges (map (\<lambda>b. (tb_task_id b, dependency_ids b)) bs) \<longleftrightarrow> (t, d) \<in> depends bs" for t d
  proof (cases "t \<in> tb_task_id ` set bs")
    case True
    then obtain b where b: "b \<in> set bs" "t = tb_task_id b" by auto
    have "c = b" if "c \<in> set bs" "tb_task_id c = t" for c
      using assms(1) b that by (auto simp: distinct_map inj_on_def)
    then have "(t, d) \<in> depends bs \<longleftrightarrow> d \<in> set (dependency_ids b)"
      using b by (auto simp: depends_def)
    then show ?thesis using known_of_blocks [OF assms(1) b(1)] assms(2) b by (auto simp: edges_def)
  next
    case False
    then have "map_of (map (\<lambda>b. (tb_task_id b, dependency_ids b)) bs) t = None"
      by (auto simp: map_of_eq_None_iff image_image)
    with False show ?thesis by (auto simp: edges_def known_def depends_def)
  qed
  then show ?thesis by auto
qed

text \<open>
  C36. The validator passes exactly the well-formed task sets: at least one task,
  ids unique over all documents, one clean dependency line and one action in each
  block, dependencies among the declared tasks and acyclic, and no block but a
  reuse that names a frozen upstream path.
\<close>

theorem task_validation_exact:
  "vr_passed (validate_task_documents digest input documents) \<longleftrightarrow>
     (let bs = concat documents; ids = map tb_task_id bs
      in bs \<noteq> [] \<and> distinct ids \<and> list_all (block_ok ids) bs \<and> acyclic (depends bs))"
proof (cases "concat documents = []")
  case True
  then show ?thesis using scan_tasks_empty [of documents]
    by (simp add: validate_task_documents_def Let_def)
next
  case ne: False
  let ?bs = "concat documents"
  let ?s = "scan_documents documents"
  let ?ts = "map (\<lambda>b. (tb_task_id b, dependency_ids b)) ?bs"
  have scan: "ts_errors ?s = [] \<longleftrightarrow> distinct (map tb_task_id ?bs) \<and> (\<forall>b \<in> set ?bs. block_errors b = [])"
    and tasks: "ts_errors ?s = [] \<Longrightarrow> ts_tasks ?s = ?ts"
    using scan_ok [of "\<lparr>ts_tasks = [], ts_duplicates = [], ts_errors = []\<rparr>" ?bs]
    by (simp_all add: scan_documents_concat task_ids_def)
  have passed: "vr_passed (validate_task_documents digest input documents) \<longleftrightarrow>
      ts_errors ?s = [] \<and> (\<forall>td \<in> set (ts_tasks ?s). reference_errors (ts_tasks ?s) td = []) \<and>
      \<not> (\<exists>t. (t, t) \<in> (edges (ts_tasks ?s))\<^sup>+)"
    using ne scan_tasks_empty [of documents]
    by (auto simp: validate_task_documents_def Let_def task_ids_def visit_cycle_iff [symmetric])
  show ?thesis
  proof (cases "ts_errors ?s = []")
    case False
    have "\<not> (distinct (map tb_task_id ?bs) \<and> list_all (block_ok (map tb_task_id ?bs)) ?bs)"
    proof -
      have "block_ok (map tb_task_id ?bs) b \<Longrightarrow> block_errors b = []" for b
        unfolding block_ok_def block_errors_none by blast
      with False scan show ?thesis unfolding list_all_iff by blast
    qed
    with False passed show ?thesis by (auto simp: Let_def)
  next
    case True
    with scan have d: "distinct (map tb_task_id ?bs)" and be: "\<forall>b \<in> set ?bs. block_errors b = []" by auto
    have deps: "set (dependency_ids b) = set deps" if "tb_dependencies b = [(deps, r)]" for b deps r
      using that by (simp add: dependency_ids_def)
    have refs: "(\<forall>td \<in> set ?ts. reference_errors ?ts td = []) \<longleftrightarrow>
        (\<forall>b \<in> set ?bs. set (dependency_ids b) \<subseteq> tb_task_id ` set ?bs \<and> tb_task_id b \<notin> set (dependency_ids b))"
      by (auto simp: reference_errors_def image_image split: if_splits)
    have ok: "list_all (block_ok (map tb_task_id ?bs)) ?bs \<longleftrightarrow>
        (\<forall>b \<in> set ?bs. set (dependency_ids b) \<subseteq> tb_task_id ` set ?bs)"
    proof -
      have "block_ok (map tb_task_id ?bs) b \<longleftrightarrow> set (dependency_ids b) \<subseteq> tb_task_id ` set ?bs"
        if "b \<in> set ?bs" for b
      proof -
        from be that obtain ds a where "tb_dependencies b = [(ds, False)]" "tb_actions b = [a]"
          "a = ''reuse'' \<or> list_all (\<lambda>p. \<not> looks_like_frozen_upstream p) (tb_target_paths b)"
          unfolding block_errors_none by blast
        then show ?thesis by (auto simp: block_ok_def dependency_ids_def)
      qed
      then show ?thesis by (auto simp: list_all_iff)
    qed
    have "(\<forall>td \<in> set ?ts. reference_errors ?ts td = []) \<and> \<not> (\<exists>t. (t, t) \<in> (edges ?ts)\<^sup>+) \<longleftrightarrow>
        list_all (block_ok (map tb_task_id ?bs)) ?bs \<and> acyclic (depends ?bs)"
    proof (cases "\<forall>b \<in> set ?bs. set (dependency_ids b) \<subseteq> tb_task_id ` set ?bs")
      case sub: True
      have "tb_task_id b \<notin> set (dependency_ids b)" if "acyclic (depends ?bs)" "b \<in> set ?bs" for b
      proof
        assume "tb_task_id b \<in> set (dependency_ids b)"
        with that(2) have "(tb_task_id b, tb_task_id b) \<in> depends ?bs" unfolding depends_def by blast
        with that(1) show False unfolding acyclic_def by blast
      qed
      with refs sub have "acyclic (depends ?bs) \<Longrightarrow> \<forall>td \<in> set ?ts. reference_errors ?ts td = []" by blast
      moreover have "\<not> (\<exists>t. (t, t) \<in> (edges ?ts)\<^sup>+) \<longleftrightarrow> acyclic (depends ?bs)"
        unfolding edges_of_blocks [OF d sub] acyclic_def by blast
      ultimately show ?thesis using ok sub by blast
    next
      case False
      with refs ok show ?thesis by blast
    qed
    with True passed tasks d ne show ?thesis by (auto simp: Let_def)
  qed
qed

end
