(* ===== verification/Store_Runs.thy ===== *)
theory Store_Runs
  imports Models
begin

text \<open>
  The runs, delivery_bindings and event_cursor tables of store.py. A run's record
  is kept as JSON text: pydantic's \<open>model_dump_json\<close> and \<open>model_validate_json\<close> are
  the arguments \<open>dump\<close> and \<open>load\<close> (\<open>None\<close> is a ValidationError, which is a
  ValueError).
\<close>

record run_row =
  rn_run_key :: string
  rn_source_key :: string
  rn_run_generation :: string
  rn_started_at :: py_datetime
  rn_provenance :: string
  rn_record_json :: string
  rn_created_at :: int

record binding_row =
  bd_run_key :: string
  bd_mr_iid :: int
  bd_mr_url :: string
  bd_creator :: string
  bd_created_at :: py_datetime
  bd_initial_head_sha :: string
  bd_claim_note_id :: int
  bd_binding_json :: string
  bd_updated_at :: int

record cursor_row =
  ec_board :: string
  ec_event_id :: int
  ec_updated_at :: int

record runs_db =
  runs_tbl :: "run_row list"
  delivery_bindings_tbl :: "binding_row list"
  event_cursor_tbl :: "cursor_row list"

section \<open>Event cursors\<close>

definition cursor :: "runs_db \<Rightarrow> string \<Rightarrow> int" where
  "cursor db board = (case find (\<lambda>r. ec_board r = board) (event_cursor_tbl db) of
     Some row \<Rightarrow> ec_event_id row | None \<Rightarrow> 0)"

definition set_cursor :: "int \<Rightarrow> string \<Rightarrow> int \<Rightarrow> (runs_db, unit) op" where
  "set_cursor now board event_id = connect (\<lambda>db. (Inr (), db\<lparr>event_cursor_tbl :=
     (if \<exists>r \<in> set (event_cursor_tbl db). ec_board r = board
      then update_where (\<lambda>r. ec_board r = board)
             (\<lambda>r. r\<lparr>ec_event_id := max (ec_event_id r) event_id, ec_updated_at := now\<rparr>)
             (event_cursor_tbl db)
      else event_cursor_tbl db @ [\<lparr>ec_board = board, ec_event_id = event_id, ec_updated_at = now\<rparr>])\<rparr>))"

section \<open>Runs\<close>

definition load_record :: "(string \<Rightarrow> 'a option) \<Rightarrow> string \<Rightarrow> 'a res" where
  "load_record load payload = (case load payload of
     None \<Rightarrow> Inl (ValueError ''validation_error'') | Some r \<Rightarrow> Inr r)"

definition find_run :: "runs_db \<Rightarrow> string \<Rightarrow> run_row option" where
  "find_run db k = find (\<lambda>r. rn_run_key r = k) (runs_tbl db)"

text \<open>
  The INSERT breaks the unique generation of another run; the key itself is free,
  as the SELECT before it found nothing.
\<close>

definition insert_run :: "(RunRecord \<Rightarrow> string) \<Rightarrow> int \<Rightarrow> RunRecord \<Rightarrow> (runs_db, unit) op" where
  "insert_run dump now run db =
     (if \<exists>r \<in> set (runs_tbl db). rn_run_generation r = rr_run_generation run
      then (Inl (DatabaseError ''UNIQUE constraint failed: runs.run_generation''), db)
      else (Inr (), db\<lparr>runs_tbl := runs_tbl db @
        [\<lparr>rn_run_key = rr_run_key run, rn_source_key = rr_source_key run,
          rn_run_generation = rr_run_generation run, rn_started_at = rr_started_at run,
          rn_provenance = ''fresh_v4'', rn_record_json = dump run, rn_created_at = now\<rparr>]\<rparr>))"

definition save_run ::
  "(RunRecord \<Rightarrow> string) \<Rightarrow> (string \<Rightarrow> RunRecord option) \<Rightarrow> int \<Rightarrow> RunRecord \<Rightarrow> (runs_db, unit) op" where
  "save_run dump load now run = connect (\<lambda>db.
     case find_run db (rr_run_key run) of
       Some existing \<Rightarrow>
         (case load_record load (rn_record_json existing) of
            Inl e \<Rightarrow> (Inl e, db)
          | Inr persisted \<Rightarrow>
              if persisted \<noteq> run
              then (Inl (ControllerFatalError (''run_identity_conflict:'' @ rr_run_key run)), db)
              else (Inr (), db))
     | None \<Rightarrow> insert_run dump now run db)"

definition run_record :: "(string \<Rightarrow> RunRecord option) \<Rightarrow> runs_db \<Rightarrow> string \<Rightarrow> RunRecord option res" where
  "run_record load db k = (case find_run db k of
     None \<Rightarrow> Inr None
   | Some row \<Rightarrow> (case load_record load (rn_record_json row) of Inl e \<Rightarrow> Inl e | Inr r \<Rightarrow> Inr (Some r)))"

definition runs_for_source ::
  "(string \<Rightarrow> RunRecord option) \<Rightarrow> runs_db \<Rightarrow> string \<Rightarrow> RunRecord list res" where
  "runs_for_source load db source_key =
     collect (\<lambda>row. load_record load (rn_record_json row))
       (order_by (\<lambda>r. (rn_created_at r, rn_run_key r))
         (filter (\<lambda>r. rn_source_key r = source_key) (runs_tbl db)))"

section \<open>Delivery bindings\<close>

definition find_binding :: "runs_db \<Rightarrow> string \<Rightarrow> binding_row option" where
  "find_binding db k = find (\<lambda>r. bd_run_key r = k) (delivery_bindings_tbl db)"

definition insert_binding ::
  "(DeliveryBinding \<Rightarrow> string) \<Rightarrow> int \<Rightarrow> string \<Rightarrow> DeliveryBinding \<Rightarrow> (runs_db, unit) op" where
  "insert_binding dump now k binding db =
     (if \<exists>r \<in> set (delivery_bindings_tbl db). bd_mr_iid r = db_mr_iid binding
      then (Inl (DatabaseError ''UNIQUE constraint failed: delivery_bindings.mr_iid''), db)
      else if find_run db k = None
      then (Inl (DatabaseError ''FOREIGN KEY constraint failed''), db)
      else (Inr (), db\<lparr>delivery_bindings_tbl := delivery_bindings_tbl db @
        [\<lparr>bd_run_key = k, bd_mr_iid = db_mr_iid binding, bd_mr_url = db_mr_url binding,
          bd_creator = db_creator binding, bd_created_at = db_created_at binding, bd_initial_head_sha = db_initial_head_sha binding,
          bd_claim_note_id = db_claim_note_id binding, bd_binding_json = dump binding,
          bd_updated_at = now\<rparr>]\<rparr>))"

definition bind_delivery ::
  "(DeliveryBinding \<Rightarrow> string) \<Rightarrow> (string \<Rightarrow> DeliveryBinding option) \<Rightarrow> (string \<Rightarrow> RunRecord option) \<Rightarrow>
   int \<Rightarrow> string \<Rightarrow> DeliveryBinding \<Rightarrow> (runs_db, unit) op" where
  "bind_delivery dump load load_run now k binding db =
     (case run_record load_run db k of
        Inl e \<Rightarrow> (Inl e, db)
      | Inr None \<Rightarrow> (Inl (ValueError (''unknown_run:'' @ k)), db)
      | Inr (Some _) \<Rightarrow> connect (\<lambda>db.
          case find_binding db k of
            Some existing \<Rightarrow>
              (case load_record load (bd_binding_json existing) of
                 Inl e \<Rightarrow> (Inl e, db)
               | Inr persisted \<Rightarrow>
                   if persisted \<noteq> binding
                   then (Inl (ControllerFatalError (''delivery_binding_conflict:'' @ k)), db)
                   else (Inr (), db))
          | None \<Rightarrow> insert_binding dump now k binding db) db)"

definition delivery_binding ::
  "(string \<Rightarrow> DeliveryBinding option) \<Rightarrow> runs_db \<Rightarrow> string \<Rightarrow> DeliveryBinding option res" where
  "delivery_binding load db k = (case find_binding db k of
     None \<Rightarrow> Inr None
   | Some row \<Rightarrow> (case load_record load (bd_binding_json row) of Inl e \<Rightarrow> Inl e | Inr b \<Rightarrow> Inr (Some b)))"

section \<open>The tables under their operations\<close>

inductive runs_step :: "runs_db \<Rightarrow> runs_db \<Rightarrow> bool" where
  save: "runs_step db (snd (save_run dump load now run db))"
| bind: "runs_step db (snd (bind_delivery dumpd loadd load now k binding db))"
| advance: "0 \<le> event_id \<Longrightarrow> runs_step db (snd (set_cursor now board event_id db))"

definition init_runs :: "runs_db \<Rightarrow> bool" where
  "init_runs db \<longleftrightarrow> db = \<lparr>runs_tbl = [], delivery_bindings_tbl = [], event_cursor_tbl = []\<rparr>"

definition runs_ok :: "runs_db \<Rightarrow> bool" where
  "runs_ok db \<longleftrightarrow> unique_on rn_run_key (runs_tbl db) \<and> unique_on rn_run_generation (runs_tbl db) \<and>
     unique_on bd_run_key (delivery_bindings_tbl db) \<and> unique_on bd_mr_iid (delivery_bindings_tbl db) \<and>
     (\<forall>b \<in> set (delivery_bindings_tbl db). find_run db (bd_run_key b) \<noteq> None) \<and>
     unique_on ec_board (event_cursor_tbl db)"

text \<open>What the operations do to the tables: rows are appended, and only a cursor is rewritten.\<close>

lemma save_run_cases:
  obtains (same) "snd (save_run dump load now run db) = db"
  | (new) "find_run db (rr_run_key run) = None"
      "\<forall>r \<in> set (runs_tbl db). rn_run_generation r \<noteq> rr_run_generation run"
      "fst (save_run dump load now run db) = Inr ()"
      "snd (save_run dump load now run db) = db\<lparr>runs_tbl := runs_tbl db @
        [\<lparr>rn_run_key = rr_run_key run, rn_source_key = rr_source_key run,
          rn_run_generation = rr_run_generation run, rn_started_at = rr_started_at run,
          rn_provenance = ''fresh_v4'', rn_record_json = dump run, rn_created_at = now\<rparr>]\<rparr>"
proof (cases "find_run db (rr_run_key run) = None \<and>
    (\<forall>r \<in> set (runs_tbl db). rn_run_generation r \<noteq> rr_run_generation run)")
  case True
  then show thesis by (intro new) (auto simp: save_run_def connect_def insert_run_def)
next
  case False
  then show thesis
    by (intro same) (auto simp: save_run_def connect_def insert_run_def split: option.splits sum.splits)
qed

lemma bind_delivery_cases:
  obtains (same) "snd (bind_delivery dump load load_run now k binding db) = db"
  | (new) "find_binding db k = None" "find_run db k \<noteq> None"
      "\<forall>r \<in> set (delivery_bindings_tbl db). bd_mr_iid r \<noteq> db_mr_iid binding"
      "snd (bind_delivery dump load load_run now k binding db) = db\<lparr>delivery_bindings_tbl :=
        delivery_bindings_tbl db @ [\<lparr>bd_run_key = k, bd_mr_iid = db_mr_iid binding,
          bd_mr_url = db_mr_url binding, bd_creator = db_creator binding, bd_created_at = db_created_at binding,
          bd_initial_head_sha = db_initial_head_sha binding, bd_claim_note_id = db_claim_note_id binding,
          bd_binding_json = dump binding, bd_updated_at = now\<rparr>]\<rparr>"
proof (cases "snd (bind_delivery dump load load_run now k binding db) = db")
  case True then show thesis by (rule same)
next
  case False
  then show thesis
    by (intro new) (auto simp: bind_delivery_def connect_def insert_binding_def
        split: option.splits sum.splits if_splits)
qed

lemma find_none_key: "find (\<lambda>r. f r = k) t = None \<longleftrightarrow> (\<forall>r \<in> set t. f r \<noteq> k)"
  by (auto simp: find_None_all)

lemma runs_step_ok:
  assumes "runs_step db db'" "runs_ok db"
  shows "runs_ok db'"
  using assms
proof (induction rule: runs_step.induct)
  case (save db dump load now run)
  show ?case
  proof (cases rule: save_run_cases [of dump load now run db])
    case new
    have "find_run (snd (save_run dump load now run db)) k \<noteq> None" if "find_run db k \<noteq> None" for k
      using that unfolding new(4) by (auto simp: find_run_def find_append split: option.splits)
    with save new(1,2) show ?thesis
      unfolding runs_ok_def new(4) by (auto simp: unique_on_insert find_run_def find_none_key)
  qed (use save in simp)
next
  case (bind db dump load load_run now k binding)
  show ?case
  proof (cases rule: bind_delivery_cases [of dump load load_run now k binding db])
    case new
    have f: "find_run (snd (bind_delivery dump load load_run now k binding db)) j = find_run db j" for j
      unfolding new(4) by (simp add: find_run_def)
    show ?thesis using bind new(1-3) unfolding runs_ok_def f
      unfolding new(4) by (auto simp: unique_on_insert find_binding_def find_none_key)
  qed (use bind in simp)
next
  case (advance event_id db now board)
  have f: "find_run (snd (set_cursor now board event_id db)) j = find_run db j" for j
    by (simp add: find_run_def set_cursor_def connect_def)
  have "unique_on ec_board (event_cursor_tbl (snd (set_cursor now board event_id db)))"
    using advance by (auto simp: runs_ok_def set_cursor_def connect_def unique_on_insert
        intro: unique_on_update_where)
  with advance show ?case unfolding runs_ok_def f by (simp add: set_cursor_def connect_def)
qed

lemma init_runs_ok: "init_runs db \<Longrightarrow> runs_ok db"
  by (simp add: init_runs_def runs_ok_def unique_on_def)

interpretation runs_inv: inductive_invariant init_runs runs_step runs_ok
  by unfold_locales (fact init_runs_ok, fact runs_step_ok)

text \<open>Rows of runs and bindings are never rewritten; a cursor only moves forward.\<close>

definition keeps_rows :: "runs_db \<Rightarrow> runs_db \<Rightarrow> bool" where
  "keeps_rows db db' \<longleftrightarrow> (\<forall>k r. find_run db k = Some r \<longrightarrow> find_run db' k = Some r) \<and>
     (\<forall>k b. find_binding db k = Some b \<longrightarrow> find_binding db' k = Some b) \<and>
     (\<forall>board. cursor db board \<le> cursor db' board)"

lemma keeps_rows_refl [simp]: "keeps_rows db db"
  by (simp add: keeps_rows_def)

lemma set_cursor_cursor:
  "cursor (snd (set_cursor now board event_id db)) bd =
     (if bd = board then case find (\<lambda>r. ec_board r = board) (event_cursor_tbl db) of
        Some row \<Rightarrow> max (ec_event_id row) event_id | None \<Rightarrow> event_id
      else cursor db bd)"
proof (cases "find (\<lambda>r. ec_board r = board) (event_cursor_tbl db)")
  case None
  then have "\<not> (\<exists>r \<in> set (event_cursor_tbl db). ec_board r = board)" by (auto simp: find_None_all)
  with None show ?thesis
    by (auto simp: cursor_def set_cursor_def connect_def find_append split: option.splits)
next
  case (Some row)
  then have ex: "\<exists>r \<in> set (event_cursor_tbl db). ec_board r = board" by (auto dest: find_SomeD)
  show ?thesis
  proof (cases "bd = board")
    case True
    have "ec_board row = board" using Some by (auto dest: find_SomeD)
    with True Some ex show ?thesis
      by (simp add: cursor_def set_cursor_def connect_def find_update_where)
  next
    case False
    have "map_option (\<lambda>r. if ec_board r = board
        then r\<lparr>ec_event_id := max (ec_event_id r) event_id, ec_updated_at := now\<rparr> else r)
        (find (\<lambda>r. ec_board r = bd) (event_cursor_tbl db)) = find (\<lambda>r. ec_board r = bd) (event_cursor_tbl db)"
    proof (cases "find (\<lambda>r. ec_board r = bd) (event_cursor_tbl db)")
      case (Some r)
      then have "ec_board r = bd" by (auto dest: find_SomeD)
      with Some False show ?thesis by simp
    qed simp
    with ex False show ?thesis
      by (simp add: cursor_def set_cursor_def connect_def find_update_where)
  qed
qed

lemma runs_step_keeps: "runs_step db db' \<Longrightarrow> keeps_rows db db'"
proof (induction rule: runs_step.induct)
  case (save db dump load now run)
  show ?case
    by (cases rule: save_run_cases [of dump load now run db])
      (simp_all add: keeps_rows_def find_run_def find_binding_def cursor_def find_append)
next
  case (bind db dump load load_run now j binding)
  show ?case
    by (cases rule: bind_delivery_cases [of dump load load_run now j binding db])
      (simp_all add: keeps_rows_def find_run_def find_binding_def cursor_def find_append)
next
  case (advance event_id db now board)
  have "cursor db bd \<le> cursor (snd (set_cursor now board event_id db)) bd" for bd
    unfolding set_cursor_cursor using advance by (auto simp: cursor_def split: option.splits)
  then show ?case by (simp add: keeps_rows_def find_run_def find_binding_def set_cursor_def connect_def)
qed

lemma runs_steps_keep: "runs_step\<^sup>*\<^sup>* db db' \<Longrightarrow> keeps_rows db db'"
proof (induction rule: rtranclp_induct)
  case (step y z)
  then show ?case using runs_step_keeps [OF step.hyps(2)] unfolding keeps_rows_def
    by (meson order_trans)
qed simp

section \<open>A concrete store for the witnesses\<close>

definition sample_run :: RunRecord where
  "sample_run = \<lparr>rr_run_key = ''hollysys-1'', rr_source_key = ''source-1'', rr_run_generation = ''g1'',
     rr_started_at = \<lparr>dt_epoch = 0, dt_tzinfo = Some 0\<rparr>,
     rr_project = \<lparr>pf_host = ''h'', pf_project_id = 1, pf_project_path = ''g/p'',
       pf_project_display_name = ''p'', pf_default_branch = ''main''\<rparr>,
     rr_source = \<lparr>sf_prd_path = ''docs/prd.md'', sf_prd_commit_sha = ''c'', sf_prd_blob_sha = ''b'',
       sf_prd_blob_url = ''u'', sf_prd_mr_url = ''u''\<rparr>,
     rr_artifact_scope = \<lparr>as_source_prd_path = ''docs/prd.md'', as_root_path = ''docs/prd'',
       as_spec_patterns = [''s''], as_plan_patterns = [''p''], as_tasks_patterns = [''t'']\<rparr>,
     rr_workspace = \<lparr>wf_board = ''b'', wf_checkout = ''c'', wf_worktree = ''w'', wf_branch = ''br'',
       wf_target_branch = ''main'', wf_repository_base_sha = ''s''\<rparr>,
     rr_origin = \<lparr>fo_message_id = ''om_1'', fo_chat_id = ''oc_1'', fo_thread_id = None,
       fo_chat_type = ''group'', fo_initiator_open_id = ''ou_1''\<rparr>\<rparr>"

definition sample_binding :: DeliveryBinding where
  "sample_binding = \<lparr>db_mr_iid = 7, db_mr_url = ''u'', db_creator = ''bot'',
     db_created_at = \<lparr>dt_epoch = 0, dt_tzinfo = Some 0\<rparr>, db_initial_head_sha = ''s'',
     db_claim_note_id = 3\<rparr>"

definition empty_runs :: runs_db where
  "empty_runs = \<lparr>runs_tbl = [], delivery_bindings_tbl = [], event_cursor_tbl = []\<rparr>"

definition sample_runs :: runs_db where
  "sample_runs = snd (save_run (\<lambda>_. ''json'') (\<lambda>_. Some sample_run) 5 sample_run empty_runs)"

lemma sample_saved:
  "save_run (\<lambda>_. ''json'') (\<lambda>_. Some sample_run) 5 sample_run empty_runs = (Inr (), sample_runs)"
  by (simp add: sample_runs_def save_run_def connect_def find_run_def insert_run_def empty_runs_def)

lemma sample_bound:
  "bind_delivery (\<lambda>_. ''mr'') (\<lambda>_. Some sample_binding) (\<lambda>_. Some sample_run) 6 ''hollysys-1'' sample_binding
     sample_runs = (Inr (), snd (bind_delivery (\<lambda>_. ''mr'') (\<lambda>_. Some sample_binding) (\<lambda>_. Some sample_run) 6
       ''hollysys-1'' sample_binding sample_runs))"
  by (simp add: sample_runs_def save_run_def connect_def find_run_def insert_run_def empty_runs_def
      bind_delivery_def run_record_def load_record_def find_binding_def insert_binding_def sample_run_def)

lemma sample_runs_reachable: "reachable init_runs runs_step sample_runs"
  unfolding sample_runs_def
  by (rule reach_step [of init_runs runs_step empty_runs, OF reach_init runs_step.save])
    (simp add: init_runs_def empty_runs_def)

section \<open>Properties\<close>

text \<open>
  A saved run is permanent: once \<open>save_run\<close> has returned, every later state
  gives the same record back, and saving another record under its key is refused
  as an identity conflict. \<open>load (dump run) = Some run\<close> is pydantic's round trip.
\<close>

theorem saved_run_is_permanent:
  assumes trip: "load (dump run) = Some run" and saved: "save_run dump load now run db = (Inr (), db1)"
    and later: "runs_step\<^sup>*\<^sup>* db1 db2"
  shows "run_record load db2 (rr_run_key run) = Inr (Some run) \<and>
    (\<forall>other now'. rr_run_key other = rr_run_key run \<and> other \<noteq> run \<longrightarrow>
       save_run dump load now' other db2 =
         (Inl (ControllerFatalError (''run_identity_conflict:'' @ rr_run_key run)), db2))"
proof -
  have "\<exists>row. find_run db1 (rr_run_key run) = Some row \<and> load (rn_record_json row) = Some run"
  proof (cases rule: save_run_cases [of dump load now run db])
    case same
    with saved have "db1 = db" by simp
    with saved show ?thesis
      by (auto simp: save_run_def connect_def load_record_def insert_run_def
          split: option.splits sum.splits if_splits dest: arg_cong [where f = runs_tbl])
  next
    case new
    with saved show ?thesis by (simp add: trip find_run_def find_append)
  qed
  then obtain row where "find_run db2 (rr_run_key run) = Some row" "load (rn_record_json row) = Some run"
    using runs_steps_keep [OF later] unfolding keeps_rows_def by blast
  then show ?thesis by (simp add: run_record_def load_record_def save_run_def connect_def)
qed

theorem saved_run_is_permanent_witness:
  "run_record (\<lambda>_. Some sample_run) (snd (set_cursor 9 ''b'' 4 sample_runs)) ''hollysys-1''
     = Inr (Some sample_run)"
proof -
  have "runs_step\<^sup>*\<^sup>* sample_runs (snd (set_cursor 9 ''b'' 4 sample_runs))"
    by (rule r_into_rtranclp [of runs_step, OF runs_step.advance]) simp
  from saved_run_is_permanent [OF _ sample_saved this] show ?thesis by (simp add: sample_run_def)
qed

text \<open>
  C39. A delivery binding is permanent and exclusive: once bound, a run keeps its
  merge request whatever happens later, and no other run can bind that merge
  request.
\<close>

theorem delivery_binding_is_exclusive:
  assumes trip: "load (dump binding) = Some binding"
    and bound: "bind_delivery dump load load_run now k binding db = (Inr (), db1)"
    and ok: "reachable init_runs runs_step db" and later: "runs_step\<^sup>*\<^sup>* db1 db2"
  shows "delivery_binding load db2 k = Inr (Some binding) \<and>
    (\<exists>row. find_binding db2 k = Some row \<and>
      (\<forall>j r. j \<noteq> k \<and> find_binding db2 j = Some r \<longrightarrow> bd_mr_iid r \<noteq> bd_mr_iid row) \<and>
      (\<forall>j other now'. j \<noteq> k \<and> find_binding db2 j = None \<and> db_mr_iid other = bd_mr_iid row \<longrightarrow>
        (\<exists>e. bind_delivery dump load load_run now' j other db2 = (Inl e, db2))))"
proof -
  have "\<exists>row. find_binding db1 k = Some row \<and> load (bd_binding_json row) = Some binding"
  proof (cases rule: bind_delivery_cases [of dump load load_run now k binding db])
    case same
    with bound have "db1 = db" by simp
    with bound show ?thesis
      by (auto simp: bind_delivery_def connect_def load_record_def insert_binding_def
          split: option.splits sum.splits if_splits dest: arg_cong [where f = delivery_bindings_tbl])
  next
    case new
    with bound show ?thesis by (simp add: trip find_binding_def find_append)
  qed
  then obtain row where row: "find_binding db2 k = Some row" "load (bd_binding_json row) = Some binding"
    using runs_steps_keep [OF later] unfolding keeps_rows_def by blast
  have "runs_step db db1" using runs_step.bind [of db dump load load_run now k binding] bound by simp
  with ok later have "reachable init_runs runs_step db1" by (meson reach_step)
  then have "runs_ok db1" by (rule runs_inv.reachable_inv)
  with later have ok2: "runs_ok db2" by (rule runs_inv.steps_inv)
  have inrow: "row \<in> set (delivery_bindings_tbl db2)" "bd_run_key row = k"
    using row(1) by (auto simp: find_binding_def dest: find_SomeD)
  have "bd_mr_iid r \<noteq> bd_mr_iid row" if "j \<noteq> k" "find_binding db2 j = Some r" for j r
  proof -
    have r: "r \<in> set (delivery_bindings_tbl db2)" "bd_run_key r = j"
      using that(2) by (auto simp: find_binding_def dest: find_SomeD)
    have "unique_on bd_mr_iid (delivery_bindings_tbl db2)" using ok2 by (simp add: runs_ok_def)
    from unique_on_eq [OF this r(1) inrow(1)] r(2) inrow(2) that(1) show ?thesis by auto
  qed
  moreover have "\<exists>e. bind_delivery dump load load_run now' j other db2 = (Inl e, db2)"
    if "find_binding db2 j = None" "db_mr_iid other = bd_mr_iid row" for j other now'
    using that inrow(1)
    by (auto simp: bind_delivery_def connect_def insert_binding_def split: sum.splits option.splits)
  ultimately show ?thesis using row by (auto simp: delivery_binding_def load_record_def)
qed

theorem delivery_binding_is_exclusive_witness:
  "delivery_binding (\<lambda>_. Some sample_binding)
     (snd (bind_delivery (\<lambda>_. ''mr'') (\<lambda>_. Some sample_binding) (\<lambda>_. Some sample_run) 6
       ''hollysys-1'' sample_binding sample_runs)) ''hollysys-1'' = Inr (Some sample_binding)"
  using delivery_binding_is_exclusive [OF _ sample_bound sample_runs_reachable rtranclp.rtrancl_refl]
  by simp

end
