(* ===== verification/Reconcile_Queue.thy ===== *)
theory Reconcile_Queue
  imports Store_Runs
begin

text \<open>
  The durable work queue of store.py: reconcile_intents with \<open>enqueue_reconcile\<close>,
  \<open>claim_reconcile\<close>, \<open>update_reconcile_step\<close>, \<open>finish_reconcile\<close> and
  \<open>reconcile_intents\<close>. The rows refine an abstract queue in which a run is idle,
  pending, or leased with or without a wakeup that arrived during the lease.
\<close>

section \<open>State and operations\<close>

record intent_row =
  ri_intent_id :: string
  ri_run_key :: string
  ri_reason :: string
  ri_status :: string
  ri_event_id :: "int option"
  ri_lease_owner :: "string option"
  ri_lease_until :: "int option"
  ri_current_step :: "string option"
  ri_attempts :: int
  ri_revision :: int
  ri_leased_revision :: "int option"
  ri_last_error :: "string option"
  ri_created_at :: int
  ri_updated_at :: int

record queue_db =
  q_runs :: runs_db
  intents_tbl :: "intent_row list"

definition find_intent :: "queue_db \<Rightarrow> string \<Rightarrow> intent_row option" where
  "find_intent db k = find (\<lambda>r. ri_run_key r = k) (intents_tbl db)"

definition new_intent :: "int \<Rightarrow> string \<Rightarrow> string \<Rightarrow> string \<Rightarrow> int option \<Rightarrow> intent_row" where
  "new_intent now intent_id k reason event_id =
     \<lparr>ri_intent_id = intent_id, ri_run_key = k, ri_reason = take 1000 reason, ri_status = ''pending'',
      ri_event_id = event_id, ri_lease_owner = None, ri_lease_until = None, ri_current_step = None,
      ri_attempts = 0, ri_revision = 1, ri_leased_revision = None, ri_last_error = None,
      ri_created_at = now, ri_updated_at = now\<rparr>"

definition renew_intent :: "int \<Rightarrow> string \<Rightarrow> int option \<Rightarrow> intent_row \<Rightarrow> intent_row" where
  "renew_intent now reason event_id r = r\<lparr>
     ri_reason := take 1000 reason,
     ri_event_id := Some (max (the (coalesce (ri_event_id r) (Some 0))) (the (coalesce event_id (Some 0)))),
     ri_status := (if ri_status r = ''leased'' then ''leased'' else ''pending''),
     ri_revision := ri_revision r + 1,
     ri_updated_at := now\<rparr>"

text \<open>\<open>intent_id\<close> is the value of \<open>uuid.uuid4().hex\<close>.\<close>

definition enqueue_reconcile ::
  "(string \<Rightarrow> RunRecord option) \<Rightarrow> int \<Rightarrow> string \<Rightarrow> string \<Rightarrow> string \<Rightarrow> int option \<Rightarrow> (queue_db, string) op" where
  "enqueue_reconcile load now intent_id k reason event_id db =
     (case run_record load (q_runs db) k of
        Inl e \<Rightarrow> (Inl e, db)
      | Inr None \<Rightarrow> (Inl (ValueError (''unknown_run:'' @ k)), db)
      | Inr (Some _) \<Rightarrow> connect (\<lambda>db.
          if find_intent db k = None
          then if \<exists>r \<in> set (intents_tbl db). ri_intent_id r = intent_id
               then (Inl (DatabaseError ''UNIQUE constraint failed: reconcile_intents.intent_id''), db)
               else (Inr intent_id, db\<lparr>intents_tbl := intents_tbl db @
                      [new_intent now intent_id k reason event_id]\<rparr>)
          else let db' = db\<lparr>intents_tbl := update_where (\<lambda>r. ri_run_key r = k)
                      (renew_intent now reason event_id) (intents_tbl db)\<rparr>
               in case find_intent db' k of
                    None \<Rightarrow> (Inl (PyTypeError ''NoneType''), db')
                  | Some row \<Rightarrow> (Inr (ri_intent_id row), db')) db)"

definition claimable :: "int \<Rightarrow> intent_row \<Rightarrow> bool" where
  "claimable now r \<longleftrightarrow> ri_status r = ''pending'' \<or>
     (ri_status r = ''leased'' \<and> sql_true (sql_lt (ri_lease_until r) (Some now)))"

definition next_claim :: "int \<Rightarrow> queue_db \<Rightarrow> intent_row option" where
  "next_claim now db = first_row (order_by (\<lambda>r. (ri_created_at r, ri_intent_id r))
     (filter (claimable now) (intents_tbl db)))"

definition lease_intent :: "int \<Rightarrow> string \<Rightarrow> int \<Rightarrow> intent_row \<Rightarrow> intent_row" where
  "lease_intent now lease_owner lease_seconds r = r\<lparr>
     ri_status := ''leased'', ri_lease_owner := Some lease_owner,
     ri_lease_until := Some (now + lease_seconds), ri_leased_revision := Some (ri_revision r),
     ri_attempts := ri_attempts r + 1, ri_current_step := Some ''claimed'', ri_updated_at := now\<rparr>"

definition claim_reconcile :: "int \<Rightarrow> string \<Rightarrow> int \<Rightarrow> (queue_db, intent_row option) op" where
  "claim_reconcile now lease_owner lease_seconds = connect (\<lambda>db.
     case next_claim now db of
       None \<Rightarrow> (Inr None, db)
     | Some row \<Rightarrow>
         let sel = (\<lambda>r. ri_intent_id r = ri_intent_id row \<and> claimable now r);
             db' = db\<lparr>intents_tbl := update_where sel (lease_intent now lease_owner lease_seconds) (intents_tbl db)\<rparr>
         in if rowcount sel (intents_tbl db) \<noteq> 1 then (Inr None, db')
            else case find (\<lambda>r. ri_intent_id r = ri_intent_id row) (intents_tbl db') of
                   None \<Rightarrow> (Inl (PyTypeError ''dict(None)''), db')
                 | Some claimed \<Rightarrow> (Inr (Some claimed), db'))"

definition update_reconcile_step ::
  "int \<Rightarrow> string \<Rightarrow> string \<Rightarrow> string \<Rightarrow> int \<Rightarrow> (queue_db, unit) op" where
  "update_reconcile_step now intent_id lease_owner step lease_seconds db =
     (let sel = (\<lambda>r. ri_intent_id r = intent_id \<and> ri_status r = ''leased'' \<and>
                    ri_lease_owner r = Some lease_owner);
          (res, db') = connect (\<lambda>db. (Inr (rowcount sel (intents_tbl db)),
            db\<lparr>intents_tbl := update_where sel (\<lambda>r. r\<lparr>ri_current_step := Some (take 200 step),
              ri_lease_until := Some (now + lease_seconds), ri_updated_at := now\<rparr>) (intents_tbl db)\<rparr>)) db
      in case res of
           Inl e \<Rightarrow> (Inl e, db')
         | Inr n \<Rightarrow> if n \<noteq> 1 then (Inl (ValueError (''reconcile_lease_lost:'' @ intent_id)), db')
                    else (Inr (), db'))"

definition release_intent :: "int \<Rightarrow> bool \<Rightarrow> string option \<Rightarrow> intent_row \<Rightarrow> intent_row" where
  "release_intent now rerun error r = r\<lparr>
     ri_status := (if rerun \<or> truthy_str error then ''pending'' else ''done''),
     ri_lease_owner := None, ri_lease_until := None, ri_current_step := None,
     ri_last_error := (if truthy_str error then map_option (take 1000) error else None),
     ri_updated_at := now\<rparr>"

definition finish_reconcile ::
  "int \<Rightarrow> string \<Rightarrow> string \<Rightarrow> string option \<Rightarrow> (queue_db, unit) op" where
  "finish_reconcile now intent_id lease_owner error = connect (\<lambda>db.
     case find (\<lambda>r. ri_intent_id r = intent_id \<and> ri_status r = ''leased'' \<and>
                   ri_lease_owner r = Some lease_owner) (intents_tbl db) of
       None \<Rightarrow> (Inl (ValueError (''reconcile_lease_lost:'' @ intent_id)), db)
     | Some row \<Rightarrow>
         (case ri_leased_revision row of
            None \<Rightarrow> (Inl (PyTypeError ''int(None)''), db)
          | Some leased \<Rightarrow> (Inr (), db\<lparr>intents_tbl := update_where (\<lambda>r. ri_intent_id r = intent_id)
              (release_intent now (ri_revision row \<noteq> leased) error) (intents_tbl db)\<rparr>)))"

definition reconcile_intents :: "queue_db \<Rightarrow> string option \<Rightarrow> intent_row list" where
  "reconcile_intents db k = order_by (\<lambda>r. (ri_created_at r, ri_intent_id r))
     (filter (\<lambda>r. (k = None \<or> k = Some (ri_run_key r)) \<and> ri_status r \<noteq> ''done'') (intents_tbl db))"

section \<open>The abstract queue\<close>

text \<open>
  For each run: nothing to do, work to do, or a lease by an owner until a time,
  with a flag for a wakeup since the lease was taken.
\<close>

datatype work = Idle | Wanted | Leased string int bool

definition abs_row :: "intent_row \<Rightarrow> work" where
  "abs_row r = (if ri_status r = ''pending'' then Wanted
     else if ri_status r = ''leased''
     then Leased (the (ri_lease_owner r)) (the (ri_lease_until r)) (ri_leased_revision r \<noteq> Some (ri_revision r))
     else Idle)"

definition abs_queue :: "queue_db \<Rightarrow> string \<Rightarrow> work" where
  "abs_queue db k = (case find_intent db k of None \<Rightarrow> Idle | Some r \<Rightarrow> abs_row r)"

fun wake :: "work \<Rightarrow> work" where
  "wake Idle = Wanted" | "wake Wanted = Wanted" | "wake (Leased o1 u d) = Leased o1 u True"

fun available :: "int \<Rightarrow> work \<Rightarrow> bool" where
  "available now Idle = False" | "available now Wanted = True"
| "available now (Leased o1 u d) = (u < now)"

fun held_by :: "string \<Rightarrow> work \<Rightarrow> bool" where
  "held_by w (Leased o1 u d) = (o1 = w)" | "held_by w _ = False"

fun extend :: "int \<Rightarrow> work \<Rightarrow> work" where
  "extend u (Leased o1 _ d) = Leased o1 u d" | "extend u w = w"

fun release :: "bool \<Rightarrow> work \<Rightarrow> work" where
  "release failed (Leased o1 u d) = (if d \<or> failed then Wanted else Idle)" | "release failed w = w"

section \<open>The invariant\<close>

definition intent_ok :: "intent_row \<Rightarrow> bool" where
  "intent_ok r \<longleftrightarrow> ri_status r \<in> {''pending'', ''leased'', ''done''} \<and>
     (ri_status r = ''leased'' \<longrightarrow> ri_lease_owner r \<noteq> None \<and> ri_lease_until r \<noteq> None \<and>
        ri_leased_revision r \<noteq> None)\<and>
     (\<forall>v. ri_leased_revision r = Some v \<longrightarrow> v \<le> ri_revision r)"

definition queue_ok :: "queue_db \<Rightarrow> bool" where
  "queue_ok db \<longleftrightarrow> unique_on ri_intent_id (intents_tbl db) \<and> unique_on ri_run_key (intents_tbl db) \<and>
     (\<forall>r \<in> set (intents_tbl db). intent_ok r)"

datatype rq_event =
    RqEnqueue int string string string "int option"
  | RqClaim int string int
  | RqStep int string string string int
  | RqFinish int string string "string option"

fun rq_apply :: "(string \<Rightarrow> RunRecord option) \<Rightarrow> rq_event \<Rightarrow> queue_db \<Rightarrow> queue_db" where
  "rq_apply load (RqEnqueue now i k reason ev) db = snd (enqueue_reconcile load now i k reason ev db)"
| "rq_apply load (RqClaim now w secs) db = snd (claim_reconcile now w secs db)"
| "rq_apply load (RqStep now i w s secs) db = snd (update_reconcile_step now i w s secs db)"
| "rq_apply load (RqFinish now i w e) db = snd (finish_reconcile now i w e db)"

text \<open>Each operation appends one fresh row or rewrites the row of one intent.\<close>

definition in_place :: "(intent_row \<Rightarrow> bool) \<Rightarrow> (intent_row \<Rightarrow> intent_row) \<Rightarrow> bool" where
  "in_place sel f \<longleftrightarrow> (\<forall>r. ri_intent_id (f r) = ri_intent_id r \<and> ri_run_key (f r) = ri_run_key r)"

lemma queue_ok_rewrite:
  assumes "queue_ok db" "in_place sel f" "\<And>r. r \<in> set (intents_tbl db) \<Longrightarrow> sel r \<Longrightarrow> intent_ok r \<Longrightarrow> intent_ok (f r)"
    and "intents_tbl db' = update_where sel f (intents_tbl db)"
  shows "queue_ok db'"
  using assms unfolding queue_ok_def assms(4)
  by (auto simp: in_place_def set_update_where intro: unique_on_update_where)

lemma find_intent_rewrite:
  assumes "in_place sel f" "intents_tbl db' = update_where sel f (intents_tbl db)"
  shows "find_intent db' k = map_option (\<lambda>r. if sel r then f r else r) (find_intent db k)"
  using assms by (simp add: find_intent_def in_place_def find_update_where)

lemma in_place_ops [simp]:
  "in_place sel (renew_intent now reason ev)" "in_place sel (lease_intent now w secs)"
  "in_place sel (release_intent now b e)"
  "in_place sel (\<lambda>r. r\<lparr>ri_current_step := st, ri_lease_until := u, ri_updated_at := now\<rparr>)"
  by (simp_all add: in_place_def renew_intent_def lease_intent_def release_intent_def)

lemma intent_ok_ops:
  "intent_ok r \<Longrightarrow> intent_ok (renew_intent now reason ev r)"
  "intent_ok r \<Longrightarrow> intent_ok (lease_intent now w secs r)"
  "intent_ok r \<Longrightarrow> intent_ok (release_intent now b e r)"
  "intent_ok r \<Longrightarrow> intent_ok (r\<lparr>ri_current_step := st, ri_lease_until := Some u, ri_updated_at := now\<rparr>)"
  "intent_ok (new_intent now i k reason ev)"
  by (auto simp: intent_ok_def renew_intent_def lease_intent_def release_intent_def new_intent_def)

lemma next_claim_row: "next_claim now db = Some r \<Longrightarrow> r \<in> set (intents_tbl db) \<and> claimable now r"
proof -
  assume "next_claim now db = Some r"
  then have "r \<in> set (order_by (\<lambda>r. (ri_created_at r, ri_intent_id r)) (filter (claimable now) (intents_tbl db)))"
    by (auto simp: next_claim_def first_row_def split: list.splits)
  then show ?thesis by (simp add: order_by_def)
qed

lemma next_claim_none: "next_claim now db = None \<longleftrightarrow> (\<forall>r \<in> set (intents_tbl db). \<not> claimable now r)"
proof -
  have "next_claim now db = None \<longleftrightarrow>
      order_by (\<lambda>r. (ri_created_at r, ri_intent_id r)) (filter (claimable now) (intents_tbl db)) = []"
    by (simp add: next_claim_def first_row_def split: list.splits)
  also have "\<dots> \<longleftrightarrow> filter (claimable now) (intents_tbl db) = []"
    unfolding order_by_def by (metis set_empty set_sort)
  finally show ?thesis by (simp add: filter_empty_conv)
qed

lemma find_intent_row: "find_intent db k = Some r \<Longrightarrow> r \<in> set (intents_tbl db) \<and> ri_run_key r = k"
  by (auto simp: find_intent_def dest: find_SomeD)

lemma intent_unique:
  "queue_ok db \<Longrightarrow> r \<in> set (intents_tbl db) \<Longrightarrow> s \<in> set (intents_tbl db) \<Longrightarrow>
     ri_intent_id r = ri_intent_id s \<Longrightarrow> r = s"
  unfolding queue_ok_def using unique_on_eq by metis

lemma find_intent_of_row:
  "queue_ok db \<Longrightarrow> r \<in> set (intents_tbl db) \<Longrightarrow> find_intent db (ri_run_key r) = Some r"
  unfolding queue_ok_def find_intent_def by (intro unique_on_find) blast+

lemma claim_spec:
  assumes ok: "queue_ok db"
  obtains (none) "claim_reconcile now w secs db = (Inr None, db)" "\<forall>r \<in> set (intents_tbl db). \<not> claimable now r"
  | (some) row where "next_claim now db = Some row" "row \<in> set (intents_tbl db)" "claimable now row"
      "fst (claim_reconcile now w secs db) = Inr (Some (lease_intent now w secs row))"
      "intents_tbl (snd (claim_reconcile now w secs db)) =
        update_where (\<lambda>r. r = row) (lease_intent now w secs) (intents_tbl db)"
      "q_runs (snd (claim_reconcile now w secs db)) = q_runs db"
proof (cases "next_claim now db")
  case None
  then have "\<forall>r \<in> set (intents_tbl db). \<not> claimable now r" by (simp add: next_claim_none)
  with None show thesis by (intro none) (simp_all add: claim_reconcile_def connect_def)
next
  case (Some row)
  let ?sel = "\<lambda>r. ri_intent_id r = ri_intent_id row \<and> claimable now r"
  have row: "row \<in> set (intents_tbl db)" "claimable now row" using next_claim_row [OF Some] by auto
  have u: "unique_on ri_intent_id (intents_tbl db)" using ok by (simp add: queue_ok_def)
  have one: "rowcount ?sel (intents_tbl db) = 1"
    by (rule rowcount_one [OF u row(1)]) (simp_all add: row(2))
  have same: "?sel r = (r = row)" if "r \<in> set (intents_tbl db)" for r
    using intent_unique [OF ok that row(1)] row(2) by auto
  have upd: "update_where ?sel f (intents_tbl db) = update_where (\<lambda>r. r = row) f (intents_tbl db)" for f
    unfolding update_where_def by (intro map_cong) (simp_all add: same)
  have "find (\<lambda>r. ri_intent_id r = ri_intent_id row) (intents_tbl db) = Some row"
    using unique_on_find [OF u row(1)] .
  then have "find (\<lambda>r. ri_intent_id r = ri_intent_id row)
      (update_where (\<lambda>r. r = row) (lease_intent now w secs) (intents_tbl db)) = Some (lease_intent now w secs row)"
    by (simp add: find_update_where lease_intent_def)
  then show thesis using Some row one upd
    by (intro some [of row]) (simp_all add: claim_reconcile_def connect_def Let_def)
qed

lemma finish_spec:
  assumes ok: "queue_ok db"
  obtains (lost) "finish_reconcile now i w e db = (Inl (ValueError (''reconcile_lease_lost:'' @ i)), db)"
      "\<forall>r \<in> set (intents_tbl db). ri_intent_id r = i \<longrightarrow> \<not> held_by w (abs_row r)"
  | (owner) row where "row \<in> set (intents_tbl db)" "ri_intent_id row = i" "held_by w (abs_row row)"
      "fst (finish_reconcile now i w e db) = Inr ()"
      "intents_tbl (snd (finish_reconcile now i w e db)) =
        update_where (\<lambda>r. r = row) (release_intent now (ri_leased_revision row \<noteq> Some (ri_revision row)) e)
          (intents_tbl db)"
      "q_runs (snd (finish_reconcile now i w e db)) = q_runs db"
proof -
  let ?p = "\<lambda>r. ri_intent_id r = i \<and> ri_status r = ''leased'' \<and> ri_lease_owner r = Some w"
  have held: "?p r \<longleftrightarrow> ri_intent_id r = i \<and> held_by w (abs_row r)" if "r \<in> set (intents_tbl db)" for r
    using ok that by (auto simp: queue_ok_def intent_ok_def abs_row_def)
  show thesis
  proof (cases "find ?p (intents_tbl db)")
    case None
    then have "\<forall>r \<in> set (intents_tbl db). ri_intent_id r = i \<longrightarrow> \<not> held_by w (abs_row r)"
      using held by (fastforce simp: find_None_all)
    with None show thesis by (intro lost) (simp_all add: finish_reconcile_def connect_def)
  next
    case (Some row)
    then have row: "row \<in> set (intents_tbl db)" "?p row" using find_SomeD [OF Some] by auto
    obtain v where v: "ri_leased_revision row = Some v"
      using ok row by (auto simp: queue_ok_def intent_ok_def)
    have same: "(ri_intent_id r = i) = (r = row)" if "r \<in> set (intents_tbl db)" for r
      using intent_unique [OF ok that row(1)] row(2) by auto
    have upd: "update_where (\<lambda>r. ri_intent_id r = i) f (intents_tbl db) =
        update_where (\<lambda>r. r = row) f (intents_tbl db)" for f
      unfolding update_where_def by (intro map_cong) (simp_all add: same)
    have "(ri_revision row \<noteq> v) = (Some v \<noteq> Some (ri_revision row))" by auto
    with Some row v upd held [OF row(1)] show thesis
      by (intro owner [of row]) (simp_all add: finish_reconcile_def connect_def)
  qed
qed

lemma step_spec:
  assumes ok: "queue_ok db"
  obtains (lost) "update_reconcile_step now i w s secs db = (Inl (ValueError (''reconcile_lease_lost:'' @ i)), db)"
      "\<forall>r \<in> set (intents_tbl db). ri_intent_id r = i \<longrightarrow> \<not> held_by w (abs_row r)"
  | (owner) row where "row \<in> set (intents_tbl db)" "ri_intent_id row = i" "held_by w (abs_row row)"
      "fst (update_reconcile_step now i w s secs db) = Inr ()"
      "intents_tbl (snd (update_reconcile_step now i w s secs db)) =
        update_where (\<lambda>r. r = row) (\<lambda>r. r\<lparr>ri_current_step := Some (take 200 s),
          ri_lease_until := Some (now + secs), ri_updated_at := now\<rparr>) (intents_tbl db)"
      "q_runs (snd (update_reconcile_step now i w s secs db)) = q_runs db"
proof -
  let ?p = "\<lambda>r. ri_intent_id r = i \<and> ri_status r = ''leased'' \<and> ri_lease_owner r = Some w"
  have held: "?p r \<longleftrightarrow> ri_intent_id r = i \<and> held_by w (abs_row r)" if "r \<in> set (intents_tbl db)" for r
    using ok that by (auto simp: queue_ok_def intent_ok_def abs_row_def)
  show thesis
  proof (cases "\<exists>r \<in> set (intents_tbl db). ?p r")
    case False
    then have "rowcount ?p (intents_tbl db) = 0" "update_where ?p f (intents_tbl db) = intents_tbl db" for f
      by (auto simp: rowcount_def filter_empty_conv update_where_def intro!: map_idI)
    with False held show thesis
      by (intro lost) (simp_all add: update_reconcile_step_def connect_def)
  next
    case True
    then obtain row where row: "row \<in> set (intents_tbl db)" "?p row" by blast
    have u: "unique_on ri_intent_id (intents_tbl db)" using ok by (simp add: queue_ok_def)
    have one: "rowcount ?p (intents_tbl db) = 1"
      by (rule rowcount_one [OF u row(1)]) (use row(2) in simp_all)
    have same: "?p r = (r = row)" if "r \<in> set (intents_tbl db)" for r
      using intent_unique [OF ok that row(1)] row(2) by auto
    have upd: "update_where ?p f (intents_tbl db) = update_where (\<lambda>r. r = row) f (intents_tbl db)" for f
      unfolding update_where_def by (intro map_cong) (simp_all add: same)
    show thesis using row one upd held [OF row(1)]
      by (intro owner [of row]) (simp_all add: update_reconcile_step_def connect_def Let_def)
  qed
qed

lemma enqueue_spec:
  assumes ok: "queue_ok db"
  obtains (fail) e where "enqueue_reconcile load now i k reason ev db = (Inl e, db)"
  | (new) "find_intent db k = None" "\<forall>r \<in> set (intents_tbl db). ri_intent_id r \<noteq> i"
      "fst (enqueue_reconcile load now i k reason ev db) = Inr i"
      "intents_tbl (snd (enqueue_reconcile load now i k reason ev db)) =
        intents_tbl db @ [new_intent now i k reason ev]"
  | (again) row where "find_intent db k = Some row"
      "fst (enqueue_reconcile load now i k reason ev db) = Inr (ri_intent_id row)"
      "intents_tbl (snd (enqueue_reconcile load now i k reason ev db)) =
        update_where (\<lambda>r. r = row) (renew_intent now reason ev) (intents_tbl db)"
proof (cases "\<exists>r. run_record load (q_runs db) k = Inr (Some r)")
  case False
  then show thesis
    by (cases "run_record load (q_runs db) k")
      (auto intro!: fail simp: enqueue_reconcile_def split: option.splits)
next
  case known: True
  show thesis
  proof (cases "find_intent db k")
    case None
    show thesis
    proof (cases "\<exists>r \<in> set (intents_tbl db). ri_intent_id r = i")
      case True with known None show thesis
        by (intro fail) (auto simp: enqueue_reconcile_def connect_def)
    next
      case False with known None show thesis
        by (intro new) (auto simp: enqueue_reconcile_def connect_def)
    qed
  next
    case (Some row)
    have row: "row \<in> set (intents_tbl db)" "ri_run_key row = k" using find_intent_row [OF Some] by auto
    have same: "(ri_run_key r = k) = (r = row)" if "r \<in> set (intents_tbl db)" for r
      using ok that row unfolding queue_ok_def by (metis unique_on_eq)
    have upd: "update_where (\<lambda>r. ri_run_key r = k) f (intents_tbl db) =
        update_where (\<lambda>r. r = row) f (intents_tbl db)" for f
      unfolding update_where_def by (intro map_cong) (simp_all add: same)
    have "find_intent (db\<lparr>intents_tbl := update_where (\<lambda>r. r = row) (renew_intent now reason ev) (intents_tbl db)\<rparr>) k =
        Some (renew_intent now reason ev row)"
      using find_intent_rewrite [of "\<lambda>r. r = row" "renew_intent now reason ev"] Some by simp
    then show thesis using known Some upd
      by (intro again [of row]) (auto simp: enqueue_reconcile_def connect_def Let_def renew_intent_def)
  qed
qed

lemma queue_ok_one_row:
  assumes "queue_ok db" "in_place (\<lambda>r. r = row) f" "intent_ok row \<Longrightarrow> intent_ok (f row)"
    and "intents_tbl db' = update_where (\<lambda>r. r = row) f (intents_tbl db)"
  shows "queue_ok db'"
  using queue_ok_rewrite [OF assms(1,2) _ assms(4)] assms(3) by blast

lemma rq_apply_ok: "queue_ok db \<Longrightarrow> queue_ok (rq_apply load e db)"
proof (cases e)
  case (RqEnqueue now i k reason ev)
  assume ok: "queue_ok db"
  then show ?thesis
  proof (cases rule: enqueue_spec [of db load now i k reason ev])
    case new
    with ok show ?thesis unfolding RqEnqueue queue_ok_def
      by (auto simp: unique_on_insert new_intent_def find_intent_def find_None_all intent_ok_def)
  next
    case (again row)
    show ?thesis unfolding RqEnqueue rq_apply.simps
      by (rule queue_ok_one_row [OF ok _ _ again(3)]) (simp_all add: intent_ok_ops)
  qed (use ok in \<open>simp_all add: RqEnqueue\<close>)
next
  case (RqClaim now w secs)
  assume ok: "queue_ok db"
  then show ?thesis
  proof (cases rule: claim_spec [of db now w secs])
    case (some row)
    show ?thesis unfolding RqClaim rq_apply.simps
      by (rule queue_ok_one_row [OF ok _ _ some(5)]) (simp_all add: intent_ok_ops)
  qed (use ok in \<open>simp_all add: RqClaim\<close>)
next
  case (RqStep now i w s secs)
  assume ok: "queue_ok db"
  then show ?thesis
  proof (cases rule: step_spec [of db now i w s secs])
    case (owner row)
    show ?thesis unfolding RqStep rq_apply.simps
      by (rule queue_ok_one_row [OF ok _ _ owner(5)]) (simp_all add: intent_ok_ops)
  qed (use ok in \<open>simp_all add: RqStep\<close>)
next
  case (RqFinish now i w e)
  assume ok: "queue_ok db"
  then show ?thesis
  proof (cases rule: finish_spec [of db now i w e])
    case (owner row)
    show ?thesis unfolding RqFinish rq_apply.simps
      by (rule queue_ok_one_row [OF ok _ _ owner(5)]) (simp_all add: intent_ok_ops)
  qed (use ok in \<open>simp_all add: RqFinish\<close>)
qed

text \<open>The abstract queue after one row was rewritten: only that run's entry moves.\<close>

lemma abs_queue_one_row:
  assumes "queue_ok db" "row \<in> set (intents_tbl db)" "in_place (\<lambda>r. r = row) f"
    and "intents_tbl db' = update_where (\<lambda>r. r = row) f (intents_tbl db)"
  shows "abs_queue db' = (abs_queue db)(ri_run_key row := abs_row (f row))"
proof
  fix k
  have f: "find_intent db' k = map_option (\<lambda>r. if r = row then f r else r) (find_intent db k)"
    by (rule find_intent_rewrite [OF assms(3,4)])
  show "abs_queue db' k = ((abs_queue db)(ri_run_key row := abs_row (f row))) k"
  proof (cases "k = ri_run_key row")
    case True
    with f find_intent_of_row [OF assms(1,2)] show ?thesis by (simp add: abs_queue_def)
  next
    case False
    have "find_intent db k = Some r \<Longrightarrow> r \<noteq> row" for r using find_intent_row False by blast
    with f False show ?thesis by (cases "find_intent db k") (auto simp: abs_queue_def)
  qed
qed

lemma abs_row_ops:
  "intent_ok r \<Longrightarrow> abs_row (renew_intent now reason ev r) = wake (abs_row r)"
  "abs_row (lease_intent now w secs r) = Leased w (now + secs) False"
  "abs_row r = Leased v u d \<Longrightarrow> abs_row (r\<lparr>ri_current_step := st, ri_lease_until := Some t, ri_updated_at := now\<rparr>) =
     extend t (abs_row r)"
  "abs_row r = Leased v u d \<Longrightarrow> abs_row (release_intent now (ri_leased_revision r \<noteq> Some (ri_revision r)) e r) =
     release (truthy_str e) (abs_row r)"
  by (auto simp: abs_row_def renew_intent_def lease_intent_def release_intent_def intent_ok_def
      split: if_splits)

lemma claimable_abs: "intent_ok r \<Longrightarrow> claimable now r \<longleftrightarrow> available now (abs_row r)"
  by (auto simp: claimable_def abs_row_def intent_ok_def)

end
