(* ===== verification/Queue_Properties.thy ===== *)
theory Queue_Properties
  imports Reconcile_Queue
begin

text \<open>
  The queue contract as a locale - an implementation whose operations move each
  run's entry the way the abstract queue allows - its consequences, the
  interpretation on \<open>Reconcile_Queue\<close>, and the properties that rest on it.
\<close>

section \<open>The contract\<close>

text \<open>The moves of one entry; only a claim of that run starts a lease without a wakeup.\<close>

definition work_step :: "bool \<Rightarrow> work \<Rightarrow> work \<Rightarrow> bool" where
  "work_step claimed w w' \<longleftrightarrow> w' = w \<or> w' = wake w \<or> (\<exists>u. w' = extend u w) \<or>
     (\<exists>b. w' = release b w) \<or> (claimed \<and> (\<exists>o1 u. w' = Leased o1 u False))"

fun needs_run :: "work \<Rightarrow> bool" where
  "needs_run Idle = False" | "needs_run Wanted = True" | "needs_run (Leased o1 u d) = d"

lemma needs_run_step: "work_step False w w' \<Longrightarrow> needs_run w \<Longrightarrow> needs_run w'"
  by (cases w) (auto simp: work_step_def)

locale work_queue =
  fixes apply_event :: "'e \<Rightarrow> 's \<Rightarrow> 's"
    and ok :: "'s \<Rightarrow> bool"
    and entry :: "'s \<Rightarrow> 'k \<Rightarrow> work"
    and claims :: "'e \<Rightarrow> 's \<Rightarrow> 'k \<Rightarrow> bool"
  assumes event_ok: "ok s \<Longrightarrow> ok (apply_event e s)"
    and event_moves: "ok s \<Longrightarrow> work_step (claims e s k) (entry s k) (entry (apply_event e s) k)"
begin

fun unclaimed :: "'k \<Rightarrow> 'e list \<Rightarrow> 's \<Rightarrow> bool" where
  "unclaimed k [] s = True"
| "unclaimed k (e # es) s = (\<not> claims e s k \<and> unclaimed k es (apply_event e s))"

lemma events_ok: "ok s \<Longrightarrow> ok (fold apply_event es s)"
  by (induction es arbitrary: s) (simp_all add: event_ok)

lemma wakeup_kept:
  "ok s \<Longrightarrow> needs_run (entry s k) \<Longrightarrow> unclaimed k es s \<Longrightarrow> needs_run (entry (fold apply_event es s) k)"
proof (induction es arbitrary: s)
  case (Cons e es)
  have "needs_run (entry (apply_event e s) k)"
    using needs_run_step [of "entry s k"] event_moves [OF Cons.prems(1), of e k] Cons.prems(2,3) by simp
  with Cons.IH [OF event_ok [OF Cons.prems(1)]] Cons.prems(3) show ?case by simp
qed simp

end

section \<open>The reconcile queue provides it\<close>

fun rq_claims :: "rq_event \<Rightarrow> queue_db \<Rightarrow> string \<Rightarrow> bool" where
  "rq_claims (RqClaim now w secs) db k \<longleftrightarrow>
     (case next_claim now db of None \<Rightarrow> False | Some row \<Rightarrow> ri_run_key row = k)"
| "rq_claims _ _ _ \<longleftrightarrow> False"

definition rq_refines :: "(string \<Rightarrow> RunRecord option) \<Rightarrow> rq_event \<Rightarrow> queue_db \<Rightarrow> bool" where
  "rq_refines load e db \<longleftrightarrow> (let A = abs_queue db; A' = abs_queue (rq_apply load e db) in case e of
     RqEnqueue now i k reason ev \<Rightarrow>
       (case fst (enqueue_reconcile load now i k reason ev db) of
          Inl _ \<Rightarrow> A' = A | Inr _ \<Rightarrow> A' = A(k := wake (A k)))
   | RqClaim now w secs \<Rightarrow>
       (case fst (claim_reconcile now w secs db) of
          Inr (Some r) \<Rightarrow> available now (A (ri_run_key r)) \<and> A' = A(ri_run_key r := Leased w (now + secs) False)
        | Inr None \<Rightarrow> A' = A \<and> (\<forall>k. \<not> available now (A k))
        | Inl _ \<Rightarrow> False)
   | RqStep now i w st secs \<Rightarrow>
       (case fst (update_reconcile_step now i w st secs db) of
          Inl _ \<Rightarrow> A' = A
        | Inr _ \<Rightarrow> \<exists>k. held_by w (A k) \<and> A' = A(k := extend (now + secs) (A k)))
   | RqFinish now i w err \<Rightarrow>
       (case fst (finish_reconcile now i w err db) of
          Inl _ \<Rightarrow> A' = A
        | Inr _ \<Rightarrow> \<exists>k. held_by w (A k) \<and> A' = A(k := release (truthy_str err) (A k))))"

lemma abs_queue_row: "queue_ok db \<Longrightarrow> r \<in> set (intents_tbl db) \<Longrightarrow> abs_queue db (ri_run_key r) = abs_row r"
  using find_intent_of_row by (simp add: abs_queue_def)

lemma row_ok: "queue_ok db \<Longrightarrow> r \<in> set (intents_tbl db) \<Longrightarrow> intent_ok r"
  by (simp add: queue_ok_def)

lemma held_leased: "held_by w x \<Longrightarrow> \<exists>u d. x = Leased w u d"
  by (cases x) auto

lemma enqueue_refines:
  assumes ok: "queue_ok db"
  shows "rq_refines load (RqEnqueue now i k reason ev) db"
proof (cases rule: enqueue_spec [OF ok, of load now i k reason ev])
  case (1 e)
  then show ?thesis by (simp add: rq_refines_def)
next
  case 2
  let ?db' = "snd (enqueue_reconcile load now i k reason ev db)"
  have "find_intent ?db' j = (if j = k then Some (new_intent now i k reason ev) else find_intent db j)" for j
    using 2(1) by (auto simp: find_intent_def 2(4) find_append new_intent_def split: option.splits)
  then have "abs_queue ?db' = (abs_queue db)(k := Wanted)" "abs_queue db k = Idle"
    using 2(1) by (auto simp: abs_queue_def abs_row_def new_intent_def)
  with 2(3) show ?thesis by (simp add: rq_refines_def Let_def)
next
  case (3 row)
  have row: "row \<in> set (intents_tbl db)" "ri_run_key row = k" using find_intent_row [OF 3(1)] by auto
  have "abs_queue (snd (enqueue_reconcile load now i k reason ev db)) =
      (abs_queue db)(k := abs_row (renew_intent now reason ev row))"
    using abs_queue_one_row [OF ok row(1) in_place_ops(1) 3(3)] row(2) by simp
  with 3(2) row abs_queue_row [OF ok row(1)] abs_row_ops(1) [OF row_ok [OF ok row(1)]]
  show ?thesis by (simp add: rq_refines_def Let_def)
qed

lemma claim_refines:
  assumes ok: "queue_ok db"
  shows "rq_refines load (RqClaim now w secs) db"
proof (cases rule: claim_spec [OF ok, of now w secs])
  case 1
  have "\<not> available now (abs_queue db k)" for k
  proof (cases "find_intent db k")
    case (Some r)
    with 1(2) find_intent_row [OF Some] claimable_abs [of r now] row_ok [OF ok] show ?thesis
      by (auto simp: abs_queue_def)
  qed (simp add: abs_queue_def)
  with 1(1) show ?thesis by (simp add: rq_refines_def Let_def)
next
  case (2 row)
  have "abs_queue (snd (claim_reconcile now w secs db)) =
      (abs_queue db)(ri_run_key row := Leased w (now + secs) False)"
    using abs_queue_one_row [OF ok 2(2) in_place_ops(2) 2(5)] by (simp add: abs_row_ops)
  moreover have "available now (abs_queue db (ri_run_key row))"
    using 2(3) claimable_abs [OF row_ok [OF ok 2(2)]] abs_queue_row [OF ok 2(2)] by simp
  ultimately show ?thesis using 2(4) by (simp add: rq_refines_def Let_def lease_intent_def)
qed

lemma step_refines:
  assumes ok: "queue_ok db"
  shows "rq_refines load (RqStep now i w st secs) db"
proof (cases rule: step_spec [OF ok, of now i w st secs])
  case 1
  then show ?thesis by (simp add: rq_refines_def)
next
  case (2 row)
  obtain u d where l: "abs_row row = Leased w u d" using held_leased [OF 2(3)] by blast
  have "abs_queue (snd (update_reconcile_step now i w st secs db)) =
      (abs_queue db)(ri_run_key row := extend (now + secs) (abs_row row))"
    using abs_queue_one_row [OF ok 2(1) in_place_ops(4) 2(5)] abs_row_ops(3) [OF l] by simp
  with 2(3,4) abs_queue_row [OF ok 2(1)] show ?thesis
    by (auto simp: rq_refines_def Let_def intro!: exI [of _ "ri_run_key row"])
qed

lemma finish_refines:
  assumes ok: "queue_ok db"
  shows "rq_refines load (RqFinish now i w err) db"
proof (cases rule: finish_spec [OF ok, of now i w err])
  case 1
  then show ?thesis by (simp add: rq_refines_def)
next
  case (2 row)
  obtain u d where l: "abs_row row = Leased w u d" using held_leased [OF 2(3)] by blast
  have "abs_queue (snd (finish_reconcile now i w err db)) =
      (abs_queue db)(ri_run_key row := release (truthy_str err) (abs_row row))"
    using abs_queue_one_row [OF ok 2(1) in_place_ops(3) 2(5)] abs_row_ops(4) [OF l] by simp
  with 2(3,4) abs_queue_row [OF ok 2(1)] show ?thesis
    by (auto simp: rq_refines_def Let_def intro!: exI [of _ "ri_run_key row"])
qed

lemma all_refine: "queue_ok db \<Longrightarrow> rq_refines load e db"
  by (cases e) (simp_all add: enqueue_refines claim_refines step_refines finish_refines)

lemma refines_moves:
  assumes ok: "queue_ok db"
  shows "work_step (rq_claims e db k) (abs_queue db k) (abs_queue (rq_apply load e db) k)"
proof (cases e)
  case (RqEnqueue now i j reason ev)
  with all_refine [OF ok, of load e] show ?thesis
    by (auto simp: rq_refines_def Let_def work_step_def split: sum.splits)
next
  case (RqClaim now w secs)
  show ?thesis
  proof (cases rule: claim_spec [OF ok, of now w secs])
    case 1
    then show ?thesis by (simp add: RqClaim work_step_def)
  next
    case (2 row)
    have "abs_queue (rq_apply load e db) = (abs_queue db)(ri_run_key row := Leased w (now + secs) False)"
      using abs_queue_one_row [OF ok 2(2) in_place_ops(2) 2(5)] by (simp add: abs_row_ops RqClaim)
    with 2(1) show ?thesis by (auto simp: RqClaim work_step_def)
  qed
next
  case (RqStep now i w st secs)
  with all_refine [OF ok, of load e] show ?thesis
    by (auto simp: rq_refines_def Let_def work_step_def split: sum.splits)
next
  case (RqFinish now i w err)
  with all_refine [OF ok, of load e] show ?thesis
    by (auto simp: rq_refines_def Let_def work_step_def split: sum.splits) blast
qed

interpretation rq: work_queue "rq_apply load" queue_ok abs_queue rq_claims for load
  by unfold_locales (fact rq_apply_ok, fact refines_moves)

section \<open>Properties\<close>

text \<open>
  C19. The table refines the abstract queue: a successful enqueue wakes its run
  and nothing else, a claim takes an available run and starts its lease or finds
  none available, and only the owner of a lease extends or releases it; a refused
  operation changes nothing.
\<close>

theorem queue_refines_abstract: "queue_ok db \<Longrightarrow> rq_refines load e db"
  by (rule all_refine)

text \<open>The sample queue: one run, enqueued and claimed by worker \<open>w1\<close>, then woken again.\<close>

definition queue0 :: queue_db where
  "queue0 = \<lparr>q_runs = sample_runs, intents_tbl = []\<rparr>"

abbreviation sample_load :: "string \<Rightarrow> RunRecord option" where
  "sample_load \<equiv> \<lambda>_. Some sample_run"

definition queue1 :: queue_db where
  "queue1 = rq_apply sample_load (RqClaim 20 ''w1'' 60)
     (rq_apply sample_load (RqEnqueue 10 ''i1'' ''hollysys-1'' ''event'' (Some 4)) queue0)"

lemma queue0_ok: "queue_ok queue0"
  by (simp add: queue_ok_def queue0_def unique_on_def)

lemma queue1_ok: "queue_ok queue1"
  unfolding queue1_def by (intro rq_apply_ok queue0_ok)

lemma queue1_row: "queue1 = queue0\<lparr>intents_tbl := [(new_intent 10 ''i1'' ''hollysys-1'' ''event'' (Some 4))
    \<lparr>ri_status := ''leased'', ri_lease_owner := Some ''w1'', ri_lease_until := Some 80,
     ri_leased_revision := Some 1, ri_attempts := 1, ri_current_step := Some ''claimed'', ri_updated_at := 20\<rparr>]\<rparr>"
  by (simp add: queue1_def queue0_def enqueue_reconcile_def run_record_def load_record_def find_run_def
      sample_runs_def save_run_def insert_run_def connect_def empty_runs_def sample_run_def find_intent_def
      new_intent_def claim_reconcile_def next_claim_def claimable_def first_row_def order_by_def
      rowcount_def lease_intent_def Let_def)

theorem queue_refines_abstract_witness:
  "abs_queue (rq_apply sample_load (RqFinish 30 ''i1'' ''w1'' None) queue1) ''hollysys-1'' = Idle"
proof -
  have fin: "fst (finish_reconcile 30 ''i1'' ''w1'' None queue1) = Inr ()"
    by (simp add: queue1_row finish_reconcile_def connect_def new_intent_def)
  have a: "abs_queue queue1 = (\<lambda>k. if k = ''hollysys-1'' then Leased ''w1'' 80 False else Idle)"
    by (auto simp: abs_queue_def find_intent_def queue1_row abs_row_def new_intent_def)
  from queue_refines_abstract [OF queue1_ok, of sample_load "RqFinish 30 ''i1'' ''w1'' None"] fin
  show ?thesis by (auto simp: rq_refines_def Let_def a truthy_str_def split: if_splits)
qed

text \<open>
  C17. No wakeup is lost: after \<open>enqueue_reconcile\<close> has returned for a run, its
  intent stays pending, or leased with a rerun due, through any further
  operations of any workers until a claim of that run; in particular it never
  becomes done, whatever lease it arrived in.
\<close>

theorem no_lost_wakeup:
  assumes ok: "queue_ok db"
    and enq: "enqueue_reconcile load now i k reason ev db = (Inr id1, db1)"
    and quiet: "rq.unclaimed load k es db1"
  shows "needs_run (abs_queue (fold (rq_apply load) es db1) k)"
proof -
  have "abs_queue db1 = (abs_queue db)(k := wake (abs_queue db k))"
    using all_refine [OF ok, of load "RqEnqueue now i k reason ev"] enq by (simp add: rq_refines_def Let_def)
  then have "needs_run (abs_queue db1 k)" by (cases "abs_queue db k") simp_all
  moreover have "queue_ok db1" using rq_apply_ok [OF ok, of load "RqEnqueue now i k reason ev"] enq by simp
  ultimately show ?thesis using rq.wakeup_kept quiet by blast
qed

theorem no_lost_wakeup_witness:
  "needs_run (abs_queue (fold (rq_apply sample_load)
     [RqStep 25 ''i1'' ''w1'' ''s'' 60, RqFinish 30 ''i1'' ''w1'' None]
     (rq_apply sample_load (RqEnqueue 22 ''i2'' ''hollysys-1'' ''again'' None) queue1)) ''hollysys-1'')"
proof -
  have e: "fst (enqueue_reconcile sample_load 22 ''i2'' ''hollysys-1'' ''again'' None queue1) = Inr ''i1''"
    by (simp add: queue1_row queue0_def enqueue_reconcile_def run_record_def load_record_def find_run_def
      sample_runs_def save_run_def insert_run_def connect_def empty_runs_def sample_run_def find_intent_def
      new_intent_def renew_intent_def)
  from no_lost_wakeup [OF queue1_ok, of sample_load 22 "''i2''" "''hollysys-1''" "''again''" None "''i1''"
      "rq_apply sample_load (RqEnqueue 22 ''i2'' ''hollysys-1'' ''again'' None) queue1"
      "[RqStep 25 ''i1'' ''w1'' ''s'' 60, RqFinish 30 ''i1'' ''w1'' None]"] e
  show ?thesis by (simp add: prod_eq_iff)
qed



end
