(* ===== verification/Operations.thy ===== *)
theory Operations
  imports Completion
begin

text \<open>
  The requests and operations tables of store.py: idempotent requests
  (\<open>begin_request\<close> to \<open>running_requests\<close>) and the journal of external mutations
  (\<open>operation_result\<close> to \<open>operation_record\<close>). JSON columns hold the JSON value
  itself: a payload its key-sorted form, so that comparing the encoded texts is
  comparing the values; every encoded text is non-empty, so truthy.
\<close>

section \<open>JSON payloads\<close>

text \<open>\<open>json.dumps(payload, sort_keys=True)\<close> as the value with its keys sorted at every level.\<close>

fun canon :: "json \<Rightarrow> json" where
  "canon (JList xs) = JList (map canon xs)"
| "canon (JObj kvs) = JObj (sort_key fst (map (\<lambda>(k, v). (k, canon v)) kvs))"
| "canon v = v"

section \<open>State\<close>

record request_row =
  rs_request_key :: string
  rs_kind :: string
  rs_run_key :: "string option"
  rs_payload :: json
  rs_status :: string
  rs_response :: "json option"
  rs_error :: "string option"
  rs_created_at :: int
  rs_updated_at :: int

record operation_row =
  op_operation_key :: string
  op_kind :: string
  op_payload :: json
  op_status :: string
  op_result :: "json option"
  op_error :: "string option"
  op_expected_state_version :: "int option"
  op_expected_head_sha :: "string option"
  op_uncertain_at :: "int option"
  op_attempts :: int
  op_created_at :: int
  op_updated_at :: int

record journal_db =
  requests_tbl :: "request_row list"
  operations_tbl :: "operation_row list"

definition request :: "journal_db \<Rightarrow> string \<Rightarrow> request_row option" where
  "request db k = find (\<lambda>r. rs_request_key r = k) (requests_tbl db)"

definition operation_record :: "journal_db \<Rightarrow> string \<Rightarrow> operation_row option" where
  "operation_record db k = find (\<lambda>r. op_operation_key r = k) (operations_tbl db)"

section \<open>Requests\<close>

text \<open>\<open>None\<close> tells the caller to execute the request.\<close>

definition begin_request :: "int \<Rightarrow> string \<Rightarrow> string \<Rightarrow> json \<Rightarrow> (journal_db, json option) op" where
  "begin_request now key kind payload = connect (\<lambda>db.
     case request db key of
       Some row \<Rightarrow>
         if rs_payload row \<noteq> canon payload
         then (Inl (ValueError (''idempotency key '' @ key @ '' was reused with new payload'')), db)
         else if rs_status row = ''done'' \<and> rs_response row \<noteq> None then (Inr (rs_response row), db)
         else if rs_status row = ''failed''
         then (Inl (PyRuntimeError (case or_text (rs_error row) of Some e \<Rightarrow> e
                 | None \<Rightarrow> ''request '' @ key @ '' failed'')), db)
         else (Inr None, db)
     | None \<Rightarrow> (Inr None, db\<lparr>requests_tbl := requests_tbl db @
         [\<lparr>rs_request_key = key, rs_kind = kind, rs_run_key = None, rs_payload = canon payload,
           rs_status = ''running'', rs_response = None, rs_error = None, rs_created_at = now,
           rs_updated_at = now\<rparr>]\<rparr>))"

definition update_request :: "string \<Rightarrow> (request_row \<Rightarrow> request_row) \<Rightarrow> (journal_db, unit) op" where
  "update_request key f = connect (\<lambda>db. (Inr (),
     db\<lparr>requests_tbl := update_where (\<lambda>r. rs_request_key r = key) f (requests_tbl db)\<rparr>))"

definition finish_request :: "int \<Rightarrow> string \<Rightarrow> json \<Rightarrow> (journal_db, unit) op" where
  "finish_request now key response = update_request key (\<lambda>r. r\<lparr>rs_status := ''done'',
     rs_response := Some response, rs_error := None, rs_updated_at := now\<rparr>)"

definition fail_request :: "int \<Rightarrow> string \<Rightarrow> string \<Rightarrow> (journal_db, unit) op" where
  "fail_request now key error = update_request key (\<lambda>r. r\<lparr>rs_status := ''failed'',
     rs_error := Some (take 2000 error), rs_updated_at := now\<rparr>)"

definition bind_request_run :: "int \<Rightarrow> string \<Rightarrow> string \<Rightarrow> (journal_db, unit) op" where
  "bind_request_run now key run_key = connect (\<lambda>db.
     case request db key of
       None \<Rightarrow> (Inl (ValueError (''request_not_running:'' @ key)), db)
     | Some row \<Rightarrow>
         if rs_status row \<noteq> ''running'' then (Inl (ValueError (''request_not_running:'' @ key)), db)
         else if rs_run_key row \<notin> {None, Some run_key}
         then (Inl (ValueError (''request_run_key_changed:'' @ key)), db)
         else (Inr (), db\<lparr>requests_tbl := update_where (\<lambda>r. rs_request_key r = key)
                (\<lambda>r. r\<lparr>rs_run_key := Some run_key, rs_updated_at := now\<rparr>) (requests_tbl db)\<rparr>))"

definition running_requests :: "journal_db \<Rightarrow> request_row list" where
  "running_requests db = order_by rs_created_at (filter (\<lambda>r. rs_status r = ''running'') (requests_tbl db))"

section \<open>Operations\<close>

definition new_operation ::
  "int \<Rightarrow> string \<Rightarrow> string \<Rightarrow> json \<Rightarrow> int option \<Rightarrow> string option \<Rightarrow> operation_row" where
  "new_operation now key kind payload version head =
     \<lparr>op_operation_key = key, op_kind = kind, op_payload = canon payload, op_status = ''executing'',
      op_result = None, op_error = None, op_expected_state_version = version,
      op_expected_head_sha = head, op_uncertain_at = None, op_attempts = 1,
      op_created_at = now, op_updated_at = now\<rparr>"

definition retry_operation :: "int \<Rightarrow> int option \<Rightarrow> operation_row \<Rightarrow> operation_row" where
  "retry_operation now version r = r\<lparr>op_status := ''executing'',
     op_uncertain_at := (if op_status r \<in> {''executing'', ''running'', ''uncertain''} then Some now
                         else op_uncertain_at r),
     op_attempts := op_attempts r + 1, op_expected_state_version := version, op_updated_at := now\<rparr>"

definition version_advanced :: "int option \<Rightarrow> int option \<Rightarrow> bool" where
  "version_advanced stored expected \<longleftrightarrow> (case (stored, expected) of
     (Some v, Some e) \<Rightarrow> e > v | _ \<Rightarrow> False)"

definition operation_result ::
  "int \<Rightarrow> string \<Rightarrow> string \<Rightarrow> json \<Rightarrow> int option \<Rightarrow> string option \<Rightarrow> (journal_db, json option) op" where
  "operation_result now key kind payload version head = connect (\<lambda>db.
     case operation_record db key of
       Some row \<Rightarrow>
         if op_kind row \<noteq> kind \<or> op_payload row \<noteq> canon payload
         then (Inl (ValueError (''operation key '' @ key @ '' was reused'')), db)
         else if op_expected_head_sha row \<noteq> head
         then (Inl (ValueError (''operation expectation changed for '' @ key)), db)
         else if op_expected_state_version row \<noteq> version \<and>
                 \<not> version_advanced (op_expected_state_version row) version
         then (Inl (ValueError (''operation expectation changed for '' @ key)), db)
         else if op_status row = ''done'' \<and> op_result row \<noteq> None then (Inr (op_result row), db)
         else (Inr None, db\<lparr>operations_tbl := update_where (\<lambda>r. op_operation_key r = key)
                (retry_operation now version) (operations_tbl db)\<rparr>)
     | None \<Rightarrow> (Inr None, db\<lparr>operations_tbl := operations_tbl db @
                [new_operation now key kind payload version head]\<rparr>))"

definition update_operation :: "string \<Rightarrow> (operation_row \<Rightarrow> operation_row) \<Rightarrow> (journal_db, unit) op" where
  "update_operation key f = connect (\<lambda>db. (Inr (),
     db\<lparr>operations_tbl := update_where (\<lambda>r. op_operation_key r = key) f (operations_tbl db)\<rparr>))"

definition finish_operation :: "int \<Rightarrow> string \<Rightarrow> json \<Rightarrow> (journal_db, unit) op" where
  "finish_operation now key result = update_operation key (\<lambda>r. r\<lparr>op_status := ''done'',
     op_result := Some result, op_error := None, op_uncertain_at := None, op_updated_at := now\<rparr>)"

definition close_operation :: "string \<Rightarrow> int \<Rightarrow> string \<Rightarrow> string \<Rightarrow> (journal_db, unit) op" where
  "close_operation status now key error = update_operation key (\<lambda>r. r\<lparr>op_status := status,
     op_error := Some (take 2000 error), op_updated_at := now\<rparr>)"

definition fail_operation :: "int \<Rightarrow> string \<Rightarrow> string \<Rightarrow> (journal_db, unit) op" where
  "fail_operation = close_operation ''failed''"

definition block_operation :: "int \<Rightarrow> string \<Rightarrow> string \<Rightarrow> (journal_db, unit) op" where
  "block_operation = close_operation ''blocked''"

definition supersede_operation :: "int \<Rightarrow> string \<Rightarrow> string \<Rightarrow> (journal_db, unit) op" where
  "supersede_operation = close_operation ''superseded''"

definition mark_operation_uncertain :: "int \<Rightarrow> string \<Rightarrow> string \<Rightarrow> (journal_db, unit) op" where
  "mark_operation_uncertain now key error = update_operation key (\<lambda>r. r\<lparr>op_status := ''uncertain'',
     op_error := Some (take 2000 error), op_uncertain_at := coalesce (op_uncertain_at r) (Some now),
     op_updated_at := now\<rparr>)"

section \<open>Rows after an operation\<close>

lemma record_update_operation:
  "(\<And>r. op_operation_key (f r) = op_operation_key r) \<Longrightarrow>
     operation_record (snd (update_operation key f db)) k =
       (if k = key then map_option f (operation_record db k) else operation_record db k)"
proof -
  assume f: "\<And>r. op_operation_key (f r) = op_operation_key r"
  have "operation_record (snd (update_operation key f db)) k =
      map_option (\<lambda>r. if op_operation_key r = key then f r else r) (operation_record db k)"
    by (simp add: operation_record_def update_operation_def connect_def find_update_where f)
  moreover have "operation_record db k = Some r \<Longrightarrow> op_operation_key r = k" for r
    by (auto simp: operation_record_def dest: find_SomeD)
  ultimately show ?thesis by (cases "operation_record db k") auto
qed

lemma record_of_result:
  "operation_record (snd (operation_result now key kind payload version head db)) k =
     (case fst (operation_result now key kind payload version head db) of
        Inr None \<Rightarrow> if k \<noteq> key then operation_record db k
          else Some (case operation_record db key of
            None \<Rightarrow> new_operation now key kind payload version head
          | Some r \<Rightarrow> retry_operation now version r)
      | _ \<Rightarrow> operation_record db k)"
proof (cases "operation_record db key")
  case None
  have "operation_record (db\<lparr>operations_tbl := operations_tbl db @
      [new_operation now key kind payload version head]\<rparr>) k =
    (if k = key then Some (new_operation now key kind payload version head) else operation_record db k)"
    using None by (auto simp: operation_record_def find_append new_operation_def split: option.splits)
  with None show ?thesis by (simp add: operation_result_def connect_def)
next
  case (Some row)
  have "operation_record (db\<lparr>operations_tbl := update_where (\<lambda>r. op_operation_key r = key)
      (retry_operation now version) (operations_tbl db)\<rparr>) k =
    (if k = key then Some (retry_operation now version row) else operation_record db k)"
    using record_update_operation [of "retry_operation now version" key db k] Some
    by (simp add: update_operation_def connect_def retry_operation_def)
  with Some show ?thesis
    by (cases "op_result row"; cases "k = key") (auto simp: operation_result_def connect_def)
qed

lemma record_closers [simp]:
  "operation_record (snd (finish_operation now key result db)) k = (if k = key
     then map_option (\<lambda>r. r\<lparr>op_status := ''done'', op_result := Some result, op_error := None,
       op_uncertain_at := None, op_updated_at := now\<rparr>) (operation_record db k)
     else operation_record db k)"
  "operation_record (snd (close_operation status now key error db)) k = (if k = key
     then map_option (\<lambda>r. r\<lparr>op_status := status, op_error := Some (take 2000 error), op_updated_at := now\<rparr>)
       (operation_record db k)
     else operation_record db k)"
  "operation_record (snd (mark_operation_uncertain now key error db)) k = (if k = key
     then map_option (\<lambda>r. r\<lparr>op_status := ''uncertain'', op_error := Some (take 2000 error),
       op_uncertain_at := coalesce (op_uncertain_at r) (Some now), op_updated_at := now\<rparr>)
       (operation_record db k)
     else operation_record db k)"
  by (simp_all add: finish_operation_def close_operation_def mark_operation_uncertain_def
      record_update_operation)

end
