(* ===== verification/Controller_Ops.thy ===== *)
theory Controller_Ops
  imports Operations Run_Control
begin

text \<open>
  The concurrency guards of service.py and \<open>_operation\<close>, the journalled execution
  of an external mutation. The state is the journal, the run control tables, and a
  world the action works on: an action may change the world and, because other
  threads run meanwhile, the control tables, but reaches the journal only through
  \<open>_operation\<close>, which is its only user.
\<close>

section \<open>In-process guards\<close>

text \<open>
  \<open>_reconciling_runs\<close>, \<open>_aborting_runs\<close> and \<open>_active_requests\<close>, each under the
  in-flight lock: begin returns false when the key is already in the set.
\<close>

record guards =
  g_reconciling_runs :: "string list"
  g_aborting_runs :: "string list"
  g_active_requests :: "string list"

definition enter :: "string \<Rightarrow> string list \<Rightarrow> bool \<times> string list" where
  "enter k s = (if k \<in> set s then (False, s) else (True, k # s))"

definition leave :: "string \<Rightarrow> string list \<Rightarrow> string list" where
  "leave k s = filter (\<lambda>j. j \<noteq> k) s"

definition begin_reconcile :: "string \<Rightarrow> guards \<Rightarrow> bool \<times> guards" where
  "begin_reconcile k g = (let (r, s) = enter k (g_reconciling_runs g) in (r, g\<lparr>g_reconciling_runs := s\<rparr>))"

definition finish_reconcile_guard :: "string \<Rightarrow> guards \<Rightarrow> guards" where
  "finish_reconcile_guard k g = g\<lparr>g_reconciling_runs := leave k (g_reconciling_runs g)\<rparr>"

definition begin_abort :: "string \<Rightarrow> guards \<Rightarrow> bool \<times> guards" where
  "begin_abort k g = (let (r, s) = enter k (g_aborting_runs g) in (r, g\<lparr>g_aborting_runs := s\<rparr>))"

definition finish_abort_guard :: "string \<Rightarrow> guards \<Rightarrow> guards" where
  "finish_abort_guard k g = g\<lparr>g_aborting_runs := leave k (g_aborting_runs g)\<rparr>"

definition begin_request_execution :: "string \<Rightarrow> guards \<Rightarrow> bool \<times> guards" where
  "begin_request_execution k g = (let (r, s) = enter k (g_active_requests g) in (r, g\<lparr>g_active_requests := s\<rparr>))"

definition finish_request_execution :: "string \<Rightarrow> guards \<Rightarrow> guards" where
  "finish_request_execution k g = g\<lparr>g_active_requests := leave k (g_active_requests g)\<rparr>"

text \<open>
  The contract of such a pair: a key can be entered again only after it was left.
\<close>

locale exclusive_guard =
  fixes begin_op :: "'k \<Rightarrow> 'g \<Rightarrow> bool \<times> 'g"
    and finish_op :: "'k \<Rightarrow> 'g \<Rightarrow> 'g"
    and inside :: "'g \<Rightarrow> 'k set"
  assumes begin_free: "k \<notin> inside g \<Longrightarrow> fst (begin_op k g) \<and> inside (snd (begin_op k g)) = insert k (inside g)"
    and begin_busy: "k \<in> inside g \<Longrightarrow> \<not> fst (begin_op k g) \<and> inside (snd (begin_op k g)) = inside g"
    and finish_inside: "inside (finish_op k g) = inside g - {k}"
begin

text \<open>The holders of a key through a list of calls: \<open>True\<close> is a begin, \<open>False\<close> a finish by its holder.\<close>

fun grants :: "'k \<Rightarrow> ('k \<times> bool) list \<Rightarrow> 'g \<Rightarrow> nat" where
  "grants k [] g = 0"
| "grants k ((j, True) # cs) g = (if j = k \<and> fst (begin_op j g) then 1 else 0) + grants k cs (snd (begin_op j g))"
| "grants k ((j, False) # cs) g = grants k cs (finish_op j g)"

lemma one_holder: "k \<in> inside g \<Longrightarrow> (k, False) \<notin> set cs \<Longrightarrow> grants k cs g = 0"
proof (induction k cs g rule: grants.induct)
  case (2 k j cs g)
  have "k \<in> inside (snd (begin_op j g))" using 2(2) begin_free begin_busy by (cases "j \<in> inside g") auto
  with 2 begin_busy show ?case by auto
next
  case (3 k j cs g)
  then show ?case using finish_inside by auto
qed simp

lemma at_most_one_grant: "(k, False) \<notin> set cs \<Longrightarrow> grants k cs g \<le> 1"
proof (induction k cs g rule: grants.induct)
  case (2 k j cs g)
  show ?case
  proof (cases "j = k \<and> fst (begin_op j g)")
    case True
    then have "k \<in> inside (snd (begin_op j g))" using begin_free begin_busy by (cases "k \<in> inside g") auto
    with one_holder 2(2) True show ?thesis by auto
  next
    case False
    with 2 show ?thesis by auto
  qed
qed auto

end

lemma enter_spec:
  "k \<notin> set s \<Longrightarrow> enter k s = (True, k # s)" "k \<in> set s \<Longrightarrow> enter k s = (False, s)"
  "set (leave k s) = set s - {k}"
  by (auto simp: enter_def leave_def)

interpretation reconcile_guard: exclusive_guard begin_reconcile finish_reconcile_guard
  "\<lambda>g. set (g_reconciling_runs g)"
  by unfold_locales (simp_all add: begin_reconcile_def finish_reconcile_guard_def enter_spec)

interpretation abort_guard: exclusive_guard begin_abort finish_abort_guard "\<lambda>g. set (g_aborting_runs g)"
  by unfold_locales (simp_all add: begin_abort_def finish_abort_guard_def enter_spec)

interpretation request_guard: exclusive_guard begin_request_execution finish_request_execution
  "\<lambda>g. set (g_active_requests g)"
  by unfold_locales (simp_all add: begin_request_execution_def finish_request_execution_def enter_spec)

section \<open>Journalled operations\<close>

record 'w ctl_state =
  cs_journal :: journal_db
  cs_control :: control_db
  cs_world :: 'w

type_synonym 'w action = "control_db \<times> 'w \<Rightarrow> json res \<times> (control_db \<times> 'w)"

definition mutable_states :: "string list" where
  "mutable_states = [''active'', ''dependency_degraded'', ''merge_wait'']"

text \<open>
  \<open>_assert_reconcile_mutable\<close>: a run without a row counts as active; the result is
  its state version, 1 when there is no row.
\<close>

definition assert_reconcile_mutable :: "control_db \<Rightarrow> string \<Rightarrow> int res" where
  "assert_reconcile_mutable db k =
     (let state = (case run_control db k of None \<Rightarrow> ''active''
                   | Some r \<Rightarrow> if rc_state r = [] then ''active'' else rc_state r)
      in if state \<notin> set mutable_states
         then Inl (ReconcileSuperseded (''reconcile_superseded:'' @ k @ '':state='' @ state))
         else Inr (case run_control db k of None \<Rightarrow> 1
                   | Some r \<Rightarrow> if rc_state_version r = 0 then 1 else rc_state_version r))"

text \<open>The version check before and after the action; it applies when both arguments are given.\<close>

definition check_version ::
  "(int \<Rightarrow> string) \<Rightarrow> control_db \<Rightarrow> string option \<Rightarrow> int option \<Rightarrow> unit res" where
  "check_version message db run_key expected =
     (case (run_key, expected) of
        (Some k, Some v) \<Rightarrow>
          (case assert_reconcile_mutable db k of
             Inl e \<Rightarrow> Inl e
           | Inr n \<Rightarrow> if n \<noteq> v then Inl (ReconcileSuperseded (message n)) else Inr ())
      | _ \<Rightarrow> Inr ())"

text \<open>The chain of except clauses: what is journalled and what is raised.\<close>

definition operation_failed ::
  "int \<Rightarrow> string \<Rightarrow> string \<Rightarrow> ctl_error \<Rightarrow> (journal_db, json) op" where
  "operation_failed now key kind e db =
     (case e of
        ReconcileSuperseded _ \<Rightarrow> (Inl e, db)
      | DependencyTransientError _ _ \<Rightarrow> (Inl e, snd (mark_operation_uncertain now key (error_message e) db))
      | DependencyRateLimitedError _ _ \<Rightarrow> (Inl e, snd (mark_operation_uncertain now key (error_message e) db))
      | DependencyAuthError _ _ \<Rightarrow> (Inl e, snd (mark_operation_uncertain now key (error_message e) db))
      | DependencyContractError _ _ \<Rightarrow> (Inl e, snd (mark_operation_uncertain now key (error_message e) db))
      | MergeBlocked _ \<Rightarrow> (Inl e, snd (block_operation now key (error_message e) db))
      | CheckedHeadConflict _ \<Rightarrow> (Inl e, snd (supersede_operation now key (error_message e) db))
      | RunPolicyError _ \<Rightarrow> (Inl e, snd (fail_operation now key (error_message e) db))
      | ValueError _ \<Rightarrow> (Inl e, snd (fail_operation now key (error_message e) db))
      | PyTypeError _ \<Rightarrow> (Inl e, snd (fail_operation now key (error_message e) db))
      | _ \<Rightarrow> (Inl (ControllerFatalError (''operation_failed_without_classification:'' @ kind @ '':'' @
               error_message e)),
             snd (mark_operation_uncertain now key (error_message e) db)))"

definition run_action ::
  "int \<Rightarrow> string \<Rightarrow> string \<Rightarrow> 'w action \<Rightarrow> string option \<Rightarrow> int option \<Rightarrow> ('w ctl_state, json) op" where
  "run_action now key kind action run_key version s =
     (case action (cs_control s, cs_world s) of
        (r, (control, world)) \<Rightarrow>
          let s1 = s\<lparr>cs_control := control, cs_world := world\<rparr> in
          case r of
            Inl e \<Rightarrow> (let (r', j) = operation_failed now key kind e (cs_journal s1)
                      in (r', s1\<lparr>cs_journal := j\<rparr>))
          | Inr result \<Rightarrow>
              let s2 = s1\<lparr>cs_journal := snd (finish_operation now key result (cs_journal s1))\<rparr> in
              (case check_version (\<lambda>_. ''discarded_stale_operation_result:'' @ the_text run_key @ '':'' @ kind)
                      (cs_control s2) run_key version of
                 Inl e \<Rightarrow> (let (r', j) = operation_failed now key kind e (cs_journal s2)
                           in (r', s2\<lparr>cs_journal := j\<rparr>))
               | Inr _ \<Rightarrow> (Inr result, s2)))"

definition operation ::
  "int \<Rightarrow> int \<Rightarrow> string \<Rightarrow> string \<Rightarrow> json \<Rightarrow> 'w action \<Rightarrow> string option \<Rightarrow> int option \<Rightarrow> string option \<Rightarrow>
   ('w ctl_state, json) op" where
  "operation now later key kind payload action run_key version head s =
     (case check_version (\<lambda>n. ''operation_state_version_changed:'' @ the_text run_key @ '':'' @
              int_str (the version) @ ''!='' @ int_str n) (cs_control s) run_key version of
        Inl e \<Rightarrow> (Inl e, s)
      | Inr _ \<Rightarrow>
          (case operation_result now key kind payload version head (cs_journal s) of
             (Inl e, j) \<Rightarrow> (Inl e, s\<lparr>cs_journal := j\<rparr>)
           | (Inr (Some previous), j) \<Rightarrow> (Inr previous, s\<lparr>cs_journal := j\<rparr>)
           | (Inr None, j) \<Rightarrow> run_action later key kind action run_key version (s\<lparr>cs_journal := j\<rparr>)))"

section \<open>A finished operation\<close>

text \<open>The operation is done with a result.\<close>

definition op_done :: "string \<Rightarrow> json \<Rightarrow> 'w ctl_state \<Rightarrow> bool" where
  "op_done key result s \<longleftrightarrow> (\<exists>r. operation_record (cs_journal s) key = Some r \<and>
     op_status r = ''done'' \<and> op_result r = Some result)"

lemma failed_keeps_other:
  "k \<noteq> key \<Longrightarrow> operation_record (snd (operation_failed now key kind e db)) k = operation_record db k"
  by (cases e) (simp_all add: operation_failed_def block_operation_def supersede_operation_def
      fail_operation_def)

lemma run_action_keeps_other:
  "k \<noteq> key \<Longrightarrow> operation_record (cs_journal (snd (run_action now key kind action rk v s))) k =
     operation_record (cs_journal s) k"
  by (auto simp: run_action_def Let_def failed_keeps_other split: prod.splits sum.splits)
    (metis failed_keeps_other record_closers(1) snd_conv)+

lemma operation_keeps_other:
  assumes "k \<noteq> key"
  shows "operation_record (cs_journal (snd (operation now later key kind payload action rk v h s))) k =
    operation_record (cs_journal s) k"
proof (cases "operation_result now key kind payload v h (cs_journal s)")
  case (Pair r j)
  have j: "operation_record j k = operation_record (cs_journal s) k"
    using record_of_result [of now key kind payload v h "cs_journal s" k] Pair assms
    by (simp split: sum.splits option.splits)
  then show ?thesis
    by (auto simp: operation_def Pair run_action_keeps_other [OF assms] split: sum.splits option.splits)
qed

text \<open>A call for a finished operation never runs its action.\<close>

lemma operation_of_done:
  assumes "op_done key result s"
  shows "(fst (operation now later key kind payload action rk v h s) = Inr result \<or>
      (\<exists>e. fst (operation now later key kind payload action rk v h s) = Inl e)) \<and>
    snd (operation now later key kind payload action rk v h s) = s"
proof -
  obtain r where r: "operation_record (cs_journal s) key = Some r" "op_status r = ''done''"
    "op_result r = Some result" using assms by (auto simp: op_done_def)
  have "\<exists>e. operation_result now key kind payload v h (cs_journal s) = (Inl e, cs_journal s) \<or>
      operation_result now key kind payload v h (cs_journal s) = (Inr (Some result), cs_journal s)"
    using r by (auto simp: operation_result_def connect_def)
  then show ?thesis by (auto simp: operation_def split: sum.splits)
qed

text \<open>
  The steps of the system: any operation with any action, and any change of the
  control tables or the world by the rest of the program.
\<close>

inductive ctl_step :: "'w ctl_state \<Rightarrow> 'w ctl_state \<Rightarrow> bool" where
  op_call: "ctl_step s (snd (operation now later key kind payload action rk v h s))"
| outside: "ctl_step s (s\<lparr>cs_control := c, cs_world := w\<rparr>)"

lemma ctl_step_done: "ctl_step s t \<Longrightarrow> op_done key result s \<Longrightarrow> op_done key result t"
proof (induction rule: ctl_step.induct)
  case (op_call s now later j kind payload action rk v h)
  show ?case
  proof (cases "j = key")
    case True
    with operation_of_done [OF op_call] show ?thesis using op_call by simp
  next
    case False
    with operation_keeps_other [of key j now later kind payload action rk v h s] op_call show ?thesis
      by (simp add: op_done_def)
  qed
qed (simp add: op_done_def)

interpretation op_final: absorbing ctl_step "op_done key result" "\<lambda>_. ()" for key result
  by unfold_locales (simp add: ctl_step_done)

lemma successful_operation_done:
  assumes "operation now later key kind payload action rk v h s = (Inr result, t)"
  shows "op_done key result t"
proof -
  obtain r j where rj: "operation_result now key kind payload v h (cs_journal s) = (r, j)" by force
  have rec: "operation_record j key = (case r of Inr None \<Rightarrow>
      Some (case operation_record (cs_journal s) key of None \<Rightarrow> new_operation now key kind payload v h
        | Some q \<Rightarrow> retry_operation now v q) | _ \<Rightarrow> operation_record (cs_journal s) key)"
    using record_of_result [of now key kind payload v h "cs_journal s" key] rj
    by (simp split: sum.splits option.splits)
  show ?thesis
  proof (cases r)
    case (Inl e)
    with assms rj show ?thesis by (simp add: operation_def split: sum.splits)
  next
    case (Inr p)
    show ?thesis
    proof (cases p)
      case None
      with assms rj Inr have "run_action later key kind action rk v (s\<lparr>cs_journal := j\<rparr>) = (Inr result, t)"
        by (simp add: operation_def split: sum.splits)
      then obtain c w where "cs_journal t = snd (finish_operation later key result j)"
        by (auto simp: run_action_def Let_def operation_failed_def split: prod.splits sum.splits ctl_error.splits)
      with rec None Inr show ?thesis by (auto simp: op_done_def)
    next
      case (Some q)
      with assms rj Inr have "q = result" "t = s\<lparr>cs_journal := j\<rparr>"
        by (auto simp: operation_def split: sum.splits)
      moreover from rj Inr Some have "\<exists>row. operation_record (cs_journal s) key = Some row \<and>
          op_status row = ''done'' \<and> op_result row = Some q"
        by (auto simp: operation_result_def connect_def split: option.splits if_splits)
      ultimately show ?thesis using rec Inr Some by (auto simp: op_done_def)
    qed
  qed
qed

end
