(* ===== verification/Operation_Properties.thy ===== *)
theory Operation_Properties
  imports Controller_Ops
begin

text \<open>
  What the journal guarantees: an external mutation succeeds at most once for its
  key, its failures are classified by whether the mutation may have happened, and
  a request key answers with one response.
\<close>

section \<open>Concrete states for the witnesses\<close>

definition ops0 :: "nat ctl_state" where
  "ops0 = \<lparr>cs_journal = \<lparr>requests_tbl = [], operations_tbl = []\<rparr>,
     cs_control = \<lparr>run_control_tbl = [], abort_requests_tbl = [], merge_wait_tbl = []\<rparr>, cs_world = 0\<rparr>"

text \<open>An action that counts its calls.\<close>

definition count_action :: "nat action" where
  "count_action = (\<lambda>(c, w). (Inr (JObj [(''ok'', JBool True)]), (c, Suc w)))"

definition ops1 :: "nat ctl_state" where
  "ops1 = snd (operation 5 6 ''k'' ''merge'' (JObj []) count_action None None None ops0)"

lemma ops1_call: "operation 5 6 ''k'' ''merge'' (JObj []) count_action None None None ops0 =
    (Inr (JObj [(''ok'', JBool True)]), ops1)"
proof -
  have "fst (operation 5 6 ''k'' ''merge'' (JObj []) count_action None None None ops0) =
      Inr (JObj [(''ok'', JBool True)])"
    by (simp add: operation_def check_version_def operation_result_def operation_record_def connect_def
        ops0_def run_action_def count_action_def Let_def)
  then show ?thesis by (simp add: ops1_def prod_eq_iff)
qed

section \<open>Properties\<close>



text \<open>The journal status each class of error leaves.\<close>

definition failure_status :: "ctl_error \<Rightarrow> string" where
  "failure_status e = (case e of ReconcileSuperseded _ \<Rightarrow> ''executing'' | MergeBlocked _ \<Rightarrow> ''blocked''
     | CheckedHeadConflict _ \<Rightarrow> ''superseded'' | RunPolicyError _ \<Rightarrow> ''failed''
     | ValueError _ \<Rightarrow> ''failed'' | PyTypeError _ \<Rightarrow> ''failed'' | _ \<Rightarrow> ''uncertain'')"

lemma failed_record:
  assumes "operation_record db key = Some r" "op_status r = ''executing''"
  shows "\<exists>q. operation_record (snd (operation_failed now key kind e db)) key = Some q \<and>
    op_status q = failure_status e \<and> op_result q = op_result r \<and>
    (failure_status e = ''uncertain'' \<longrightarrow> op_uncertain_at q \<noteq> None)"
  using assms
  by (cases e) (simp_all add: operation_failed_def failure_status_def block_operation_def
      supersede_operation_def fail_operation_def)

text \<open>
  C32. A failed attempt is journalled by what is known of the remote side: the
  operation is closed as failed, blocked or superseded only on an error that says
  the mutation did not happen; after a dependency error or any unclassified
  exception it is uncertain, with the time the uncertainty began, and a
  superseded reconcile leaves it executing. The next call runs it again. The
  error is raised as it is, except that an unclassified one stops the controller.
\<close>

theorem failed_operation_is_classified:
  assumes fresh: "operation_record (cs_journal s) key = None"
    and attempt: "action (cs_control s, cs_world s) = (Inl e, (c, w))"
  shows "\<exists>q. operation_record (cs_journal (snd (operation now later key kind payload action None None h s))) key = Some q \<and>
    op_status q = failure_status e \<and> op_result q = None \<and>
    (failure_status e = ''uncertain'' \<longrightarrow> op_uncertain_at q \<noteq> None) \<and>
    fst (operation now later key kind payload action None None h s) =
      Inl (if failure_status e = ''uncertain'' \<and> \<not> is_dependency_error e
           then ControllerFatalError (''operation_failed_without_classification:'' @ kind @ '':'' @ error_message e)
           else e)"
proof -
  let ?j = "(cs_journal s)\<lparr>operations_tbl := operations_tbl (cs_journal s) @
      [new_operation now key kind payload None h]\<rparr>"
  have res: "operation_result now key kind payload None h (cs_journal s) = (Inr None, ?j)"
    using fresh by (simp add: operation_result_def connect_def)
  have rec: "operation_record ?j key = Some (new_operation now key kind payload None h)"
    using record_of_result [of now key kind payload None h "cs_journal s" key] res fresh by simp
  have run: "operation now later key kind payload action None None h s =
      (fst (operation_failed later key kind e ?j),
       s\<lparr>cs_control := c, cs_world := w, cs_journal := snd (operation_failed later key kind e ?j)\<rparr>)"
    using attempt by (simp add: operation_def check_version_def res run_action_def Let_def split_beta)
  have "fst (operation_failed later key kind e ?j) =
      Inl (if failure_status e = ''uncertain'' \<and> \<not> is_dependency_error e
           then ControllerFatalError (''operation_failed_without_classification:'' @ kind @ '':'' @ error_message e)
           else e)"
    by (cases e) (simp_all add: operation_failed_def failure_status_def)
  with failed_record [OF rec, of later kind e] run show ?thesis
    by (auto simp: new_operation_def)
qed

theorem failed_operation_is_classified_witness:
  "\<exists>q. operation_record (cs_journal (snd (operation 5 6 ''k'' ''merge'' (JObj [])
      (\<lambda>(c, w). (Inl (PyKeyError ''x''), (c, Suc w))) None None None ops0))) ''k'' = Some q \<and>
    op_status q = ''uncertain''"
proof -
  have 1: "operation_record (cs_journal ops0) ''k'' = None" by (simp add: ops0_def operation_record_def)
  let ?fail = "\<lambda>(c, w). (Inl (PyKeyError ''x''), (c, Suc w)) :: json res \<times> control_db \<times> nat"
  have 2: "?fail (cs_control ops0, cs_world ops0) =
      (Inl (PyKeyError ''x''), (cs_control ops0, Suc (cs_world ops0)))" by simp
  from failed_operation_is_classified [where s = ops0 and key = "''k''" and action = ?fail, OF 1 2,
      of 5 6 "''merge''" "JObj []" None] show ?thesis
    by (auto simp: failure_status_def)
qed

section \<open>Requests\<close>

lemma request_update:
  "(\<And>r. rs_request_key (f r) = rs_request_key r) \<Longrightarrow>
     request (snd (update_request key f db)) k =
       (if k = key then map_option f (request db k) else request db k)"
proof -
  assume f: "\<And>r. rs_request_key (f r) = rs_request_key r"
  have "request (snd (update_request key f db)) k =
      map_option (\<lambda>r. if rs_request_key r = key then f r else r) (request db k)"
    by (simp add: request_def update_request_def connect_def find_update_where f)
  moreover have "request db k = Some r \<Longrightarrow> rs_request_key r = k" for r
    by (auto simp: request_def dest: find_SomeD)
  ultimately show ?thesis by (cases "request db k") auto
qed

text \<open>
  A request is idempotent in its key: once it was begun and finished with a
  response, beginning it again with an equal payload - keys in any order -
  returns that response and writes nothing, and any other payload is refused.
\<close>

theorem finished_request_replays:
  assumes begun: "begin_request now key kind payload db = (Inr None, db1)"
  shows "(let db2 = snd (finish_request now' key response db1) in
    (\<forall>payload2 kind2 now2. begin_request now2 key kind2 payload2 db2 =
       (if canon payload2 = canon payload then (Inr (Some response), db2)
        else (Inl (ValueError (''idempotency key '' @ key @ '' was reused with new payload'')), db2))))"
proof -
  have "\<exists>r. request db1 key = Some r \<and> rs_payload r = canon payload"
  proof (cases "request db key")
    case None
    with begun have "db1 = db\<lparr>requests_tbl := requests_tbl db @
         [\<lparr>rs_request_key = key, rs_kind = kind, rs_run_key = None, rs_payload = canon payload,
           rs_status = ''running'', rs_response = None, rs_error = None, rs_created_at = now,
           rs_updated_at = now\<rparr>]\<rparr>" by (simp add: begin_request_def connect_def)
    with None show ?thesis by (simp add: request_def find_append)
  next
    case (Some row)
    with begun show ?thesis by (auto simp: begin_request_def connect_def split: if_splits)
  qed
  then obtain r where r: "request db1 key = Some r" "rs_payload r = canon payload" by blast
  then have "request (snd (finish_request now' key response db1)) key =
      Some (r\<lparr>rs_status := ''done'', rs_response := Some response, rs_error := None, rs_updated_at := now'\<rparr>)"
    by (simp add: finish_request_def request_update)
  with r(2) show ?thesis by (simp add: Let_def begin_request_def connect_def)
qed

theorem finished_request_replays_witness:
  "fst (begin_request 9 ''start:om_1'' ''start'' (JObj [(''b'', JInt 2), (''a'', JInt 1)])
     (snd (finish_request 7 ''start:om_1'' JNull
       (snd (begin_request 5 ''start:om_1'' ''start'' (JObj [(''a'', JInt 1), (''b'', JInt 2)]) (cs_journal ops0))))))
   = Inr (Some JNull)"
proof -
  have "begin_request 5 ''start:om_1'' ''start'' (JObj [(''a'', JInt 1), (''b'', JInt 2)]) (cs_journal ops0) =
      (Inr None, snd (begin_request 5 ''start:om_1'' ''start'' (JObj [(''a'', JInt 1), (''b'', JInt 2)]) (cs_journal ops0)))"
    by (simp add: begin_request_def connect_def request_def ops0_def)
  note replay = finished_request_replays [OF this, of 7 JNull]
  have "canon (JObj [(''b'', JInt 2), (''a'', JInt 1)]) = canon (JObj [(''a'', JInt 1), (''b'', JInt 2)])"
    by code_simp
  with replay show ?thesis by (simp only: Let_def if_True fst_conv simp_thms)
qed

end
