(* ===== verification/Json.thy ===== *)
theory Json
  imports Completion "HOL-Library.AList"
begin

text \<open>
  Python's json module on the values the controller stores: \<open>dumps\<close> with the
  separators and the indentation a caller chooses (\<open>ensure_ascii=False\<close>), \<open>loads\<close>,
  and the round trip of the two. A text is its UTF-8 encoding. A number with a
  fraction or an exponent has no value in the model: reading one is \<open>None\<close>, as
  every JSONDecodeError is.
\<close>

section \<open>Values\<close>

text \<open>\<open>bool(v)\<close>, and \<open>str(v)\<close> given \<open>str\<close> on the values that are not texts.\<close>

fun truthy_json :: "json \<Rightarrow> bool" where
  "truthy_json JNull = False"
| "truthy_json (JBool b) = b"
| "truthy_json (JInt n) = (n \<noteq> 0)"
| "truthy_json (JStr s) = (s \<noteq> [])"
| "truthy_json (JList xs) = (xs \<noteq> [])"
| "truthy_json (JObj kvs) = (kvs \<noteq> [])"

fun json_text :: "(json \<Rightarrow> string) \<Rightarrow> json \<Rightarrow> string" where
  "json_text py_str (JStr s) = s"
| "json_text py_str v = py_str v"

section \<open>Printing\<close>

definition control_code :: "nat \<Rightarrow> string" where
  "control_code n = (let digit = (\<lambda>d. char_of (if d < 10 then 48 + d else 87 + d))
     in [CHR 0x5C, CHR ''u'', CHR ''0'', CHR ''0'', digit (n div 16), digit (n mod 16)])"

definition escape_char :: "char \<Rightarrow> string" where
  "escape_char c =
     (if c = CHR 0x22 then [CHR 0x5C, CHR 0x22]
      else if c = CHR 0x5C then [CHR 0x5C, CHR 0x5C]
      else if c = CHR 0x0A then [CHR 0x5C, CHR ''n'']
      else if c = CHR 0x0D then [CHR 0x5C, CHR ''r'']
      else if c = CHR 0x09 then [CHR 0x5C, CHR ''t'']
      else if c = CHR 0x0C then [CHR 0x5C, CHR ''f'']
      else if c = CHR 0x08 then [CHR 0x5C, CHR ''b'']
      else if (of_char c :: nat) < 32 then control_code (of_char c)
      else [c])"

definition quoted :: "string \<Rightarrow> string" where
  "quoted s = CHR 0x22 # concat (map escape_char s) @ [CHR 0x22]"

record json_style =
  js_item :: string
  js_key :: string
  js_indent :: "nat option"

text \<open>\<open>indent=2\<close>, \<open>separators=(",", ":")\<close> and the default.\<close>

definition pretty :: json_style where
  "pretty = \<lparr>js_item = '','', js_key = '': '', js_indent = Some 2\<rparr>"

definition compact :: json_style where
  "compact = \<lparr>js_item = '','', js_key = '':'', js_indent = None\<rparr>"

definition plain :: json_style where
  "plain = \<lparr>js_item = '', '', js_key = '': '', js_indent = None\<rparr>"

definition line_break :: "json_style \<Rightarrow> nat \<Rightarrow> string" where
  "line_break st l = (case js_indent st of None \<Rightarrow> []
     | Some k \<Rightarrow> CHR 0x0A # replicate (k * l) (CHR '' ''))"

text \<open>The items of a container, each after its separator but the first.\<close>

fun separated :: "string \<Rightarrow> string list \<Rightarrow> string" where
  "separated sep [] = []"
| "separated sep [x] = x"
| "separated sep (x # y # ys) = x @ sep @ separated sep (y # ys)"

definition bracketed :: "json_style \<Rightarrow> nat \<Rightarrow> char \<Rightarrow> char \<Rightarrow> string list \<Rightarrow> string" where
  "bracketed st l opening closing items = (if items = [] then [opening, closing]
     else opening # line_break st (Suc l) @ separated (js_item st @ line_break st (Suc l)) items
       @ line_break st l @ [closing])"

fun dump_json :: "json_style \<Rightarrow> nat \<Rightarrow> json \<Rightarrow> string" where
  "dump_json st l JNull = ''null''"
| "dump_json st l (JBool b) = (if b then ''true'' else ''false'')"
| "dump_json st l (JInt n) = int_str n"
| "dump_json st l (JStr s) = quoted s"
| "dump_json st l (JList xs) = bracketed st l (CHR 0x5B) (CHR 0x5D) (map (dump_json st (Suc l)) xs)"
| "dump_json st l (JObj kvs) = bracketed st l (CHR 0x7B) (CHR 0x7D)
     (map (\<lambda>(k, v). quoted k @ js_key st @ dump_json st (Suc l) v) kvs)"

definition dumps :: "json_style \<Rightarrow> json \<Rightarrow> string" where
  "dumps st v = dump_json st 0 v"

section \<open>Reading\<close>

definition json_space :: "char \<Rightarrow> bool" where
  "json_space c \<longleftrightarrow> c = CHR '' '' \<or> c = CHR 0x09 \<or> c = CHR 0x0A \<or> c = CHR 0x0D"

definition skip :: "string \<Rightarrow> string" where
  "skip s = dropWhile json_space s"

definition hex_digit :: "char \<Rightarrow> nat option" where
  "hex_digit c = (let n = of_char c in
     if 48 \<le> n \<and> n \<le> 57 then Some (n - 48)
     else if 97 \<le> n \<and> n \<le> 102 then Some (n - 87)
     else if 65 \<le> n \<and> n \<le> 70 then Some (n - 55) else None)"

fun hex4 :: "char \<Rightarrow> char \<Rightarrow> char \<Rightarrow> char \<Rightarrow> nat option" where
  "hex4 a b c d = (case (hex_digit a, hex_digit b, hex_digit c, hex_digit d) of
     (Some w, Some x, Some y, Some z) \<Rightarrow> Some (((w * 16 + x) * 16 + y) * 16 + z) | _ \<Rightarrow> None)"

text \<open>The UTF-8 encoding of a code point.\<close>

definition utf8_char :: "nat \<Rightarrow> string" where
  "utf8_char n = map char_of
     (if n < 0x80 then [n]
      else if n < 0x800 then [0xC0 + n div 0x40, 0x80 + n mod 0x40]
      else if n < 0x10000 then [0xE0 + n div 0x1000, 0x80 + n div 0x40 mod 0x40, 0x80 + n mod 0x40]
      else [0xF0 + n div 0x40000, 0x80 + n div 0x1000 mod 0x40, 0x80 + n div 0x40 mod 0x40, 0x80 + n mod 0x40])"

definition simple_escape :: "char \<Rightarrow> char option" where
  "simple_escape c = map_of [(CHR 0x22, CHR 0x22), (CHR 0x5C, CHR 0x5C), (CHR ''/'', CHR ''/''),
     (CHR ''b'', CHR 0x08), (CHR ''f'', CHR 0x0C), (CHR ''n'', CHR 0x0A), (CHR ''r'', CHR 0x0D),
     (CHR ''t'', CHR 0x09)] c"

definition joined :: "string \<Rightarrow> (string \<times> string) option \<Rightarrow> (string \<times> string) option" where
  "joined p r = map_option (\<lambda>(s, rest). (p @ s, rest)) r"

text \<open>
  The rest of a string after its opening quote, with what follows the closing one. A
  high and a low surrogate in sequence are one code point.
\<close>

fun read_string :: "string \<Rightarrow> (string \<times> string) option" where
  "read_string [] = None"
| "read_string (c # s) =
     (if c = CHR 0x22 then Some ([], s)
      else if c \<noteq> CHR 0x5C then (if (of_char c :: nat) < 32 then None else joined [c] (read_string s))
      else case s of
        [] \<Rightarrow> None
      | e # t \<Rightarrow>
          if e \<noteq> CHR ''u'' then (case simple_escape e of None \<Rightarrow> None | Some x \<Rightarrow> joined [x] (read_string t))
          else case t of
            h1 # h2 # h3 # h4 # u \<Rightarrow>
              (case hex4 h1 h2 h3 h4 of
                 None \<Rightarrow> None
               | Some n \<Rightarrow>
                   if 0xD800 \<le> n \<and> n \<le> 0xDBFF
                   then (case u of
                       b # m # l1 # l2 # l3 # l4 # w \<Rightarrow>
                         (if b = CHR 0x5C \<and> m = CHR ''u''
                          then case hex4 l1 l2 l3 l4 of
                              None \<Rightarrow> None
                            | Some k \<Rightarrow>
                                if 0xDC00 \<le> k \<and> k \<le> 0xDFFF
                                then joined (utf8_char (0x10000 + (n - 0xD800) * 0x400 + (k - 0xDC00))) (read_string w)
                                else joined (utf8_char n) (read_string u)
                          else joined (utf8_char n) (read_string u))
                     | _ \<Rightarrow> joined (utf8_char n) (read_string u))
                   else joined (utf8_char n) (read_string u))
          | _ \<Rightarrow> None)"

definition digit_value :: "char \<Rightarrow> nat" where
  "digit_value c = of_char c - 48"

definition digits_value :: "string \<Rightarrow> nat" where
  "digits_value ds = foldl (\<lambda>n c. n * 10 + digit_value c) 0 ds"

text \<open>\<open>-?(0|[1-9][0-9]*)\<close>, not followed by a fraction or an exponent.\<close>

definition whole_number :: "string \<Rightarrow> (nat \<times> string) option" where
  "whole_number s = (case s of
     [] \<Rightarrow> None
   | c # t \<Rightarrow>
       let (ds, rest) = (if c = CHR ''0'' then ([c], t) else (takeWhile is_digit s, dropWhile is_digit s))
       in if ds = [] then None
          else case rest of
            [] \<Rightarrow> Some (digits_value ds, rest)
          | d # _ \<Rightarrow> if d \<in> set ''.eE'' then None else Some (digits_value ds, rest))"

definition read_number :: "string \<Rightarrow> (json \<times> string) option" where
  "read_number s = (case s of
     [] \<Rightarrow> None
   | c # t \<Rightarrow>
       if c = CHR ''-'' then map_option (\<lambda>(n, rest). (JInt (- int n), rest)) (whole_number t)
       else map_option (\<lambda>(n, rest). (JInt (int n), rest)) (whole_number s))"

text \<open>A dict keeps the first place and the last value of a repeated key.\<close>

definition dict_of :: "(string \<times> json) list \<Rightarrow> (string \<times> json) list" where
  "dict_of kvs = fold (\<lambda>(k, v). AList.update k v) kvs []"

text \<open>
  Values, list items up to the bracket and members up to the brace. The number
  bounds the nesting of the calls; \<open>loads\<close> gives more than the text has characters.
\<close>

fun read_value :: "nat \<Rightarrow> string \<Rightarrow> (json \<times> string) option"
and read_items :: "nat \<Rightarrow> string \<Rightarrow> (json list \<times> string) option"
and read_members :: "nat \<Rightarrow> string \<Rightarrow> ((string \<times> json) list \<times> string) option" where
  "read_value 0 s = None"
| "read_value (Suc n) [] = None"
| "read_value (Suc n) (c # s) =
     (if c = CHR 0x22 then map_option (\<lambda>(x, r). (JStr x, r)) (read_string s)
      else if c = CHR 0x5B then
        (if take 1 (skip s) = [CHR 0x5D] then Some (JList [], drop 1 (skip s))
         else map_option (\<lambda>(xs, r). (JList xs, r)) (read_items n (skip s)))
      else if c = CHR 0x7B then
        (if take 1 (skip s) = [CHR 0x7D] then Some (JObj [], drop 1 (skip s))
         else map_option (\<lambda>(kvs, r). (JObj (dict_of kvs), r)) (read_members n (skip s)))
      else if starts_with ''null'' (c # s) then Some (JNull, drop 4 (c # s))
      else if starts_with ''true'' (c # s) then Some (JBool True, drop 4 (c # s))
      else if starts_with ''false'' (c # s) then Some (JBool False, drop 5 (c # s))
      else read_number (c # s))"
| "read_items 0 s = None"
| "read_items (Suc n) s =
     (case read_value n s of
        None \<Rightarrow> None
      | Some (v, r) \<Rightarrow>
          (case skip r of
             [] \<Rightarrow> None
           | c # t \<Rightarrow>
               if c = CHR 0x5D then Some ([v], t)
               else if c = CHR '','' then map_option (\<lambda>(vs, w). (v # vs, w)) (read_items n (skip t))
               else None))"
| "read_members 0 s = None"
| "read_members (Suc n) s =
     (case s of
        [] \<Rightarrow> None
      | q # s' \<Rightarrow>
          if q \<noteq> CHR 0x22 then None
          else case read_string s' of
            None \<Rightarrow> None
          | Some (k, r) \<Rightarrow>
              (case skip r of
                 [] \<Rightarrow> None
               | d # t \<Rightarrow>
                   if d \<noteq> CHR '':'' then None
                   else case read_value n (skip t) of
                     None \<Rightarrow> None
                   | Some (v, w) \<Rightarrow>
                       (case skip w of
                          [] \<Rightarrow> None
                        | c # u \<Rightarrow>
                            if c = CHR 0x7D then Some ([(k, v)], u)
                            else if c = CHR '','' then map_option (\<lambda>(kvs, z). ((k, v) # kvs, z)) (read_members n (skip u))
                            else None)))"

definition loads :: "string \<Rightarrow> json option" where
  "loads s = (case read_value (Suc (2 * length s)) (skip s) of
     None \<Rightarrow> None
   | Some (v, r) \<Rightarrow> if skip r = [] then Some v else None)"

section \<open>Reading what was printed\<close>

fun json_wf :: "json \<Rightarrow> bool" where
  "json_wf (JList xs) = (\<forall>x \<in> set xs. json_wf x)"
| "json_wf (JObj kvs) = (distinct (map fst kvs) \<and> (\<forall>(k, v) \<in> set kvs. json_wf v))"
| "json_wf v = True"

fun json_size :: "json \<Rightarrow> nat" where
  "json_size (JList xs) = Suc (sum_list (map (\<lambda>x. Suc (json_size x)) xs))"
| "json_size (JObj kvs) = Suc (sum_list (map (\<lambda>(k, v). Suc (json_size v)) kvs))"
| "json_size v = 1"

definition spaces :: "string \<Rightarrow> bool" where
  "spaces w \<longleftrightarrow> list_all json_space w"

definition style_ok :: "json_style \<Rightarrow> bool" where
  "style_ok st \<longleftrightarrow> js_item st \<noteq> [] \<and> hd (js_item st) = CHR '','' \<and> spaces (tl (js_item st)) \<and>
     js_key st \<noteq> [] \<and> hd (js_key st) = CHR '':'' \<and> spaces (tl (js_key st))"

lemma styles_ok [simp]: "style_ok pretty" "style_ok compact" "style_ok plain"
  by (simp_all add: style_ok_def pretty_def compact_def plain_def spaces_def json_space_def)

text \<open>What follows a printed value: nothing that would continue a number.\<close>

definition stops :: "string \<Rightarrow> bool" where
  "stops r \<longleftrightarrow> r = [] \<or> (\<not> is_digit (hd r) \<and> hd r \<notin> set ''.eE'')"

lemma spaces_line_break [simp]: "spaces (line_break st l)"
  by (cases "js_indent st") (simp_all add: spaces_def line_break_def json_space_def list_all_iff)

lemma skip_spaces [simp]: "spaces w \<Longrightarrow> skip (w @ s) = skip s"
  by (induction w) (auto simp: spaces_def skip_def)

lemma skip_cons [simp]: "\<not> json_space c \<Longrightarrow> skip (c # s) = c # s"
  by (simp add: skip_def)

lemma style_item: "style_ok st \<Longrightarrow> \<exists>w. js_item st = CHR '','' # w \<and> spaces w"
  by (cases "js_item st") (auto simp: style_ok_def)

lemma style_key: "style_ok st \<Longrightarrow> \<exists>w. js_key st = CHR '':'' # w \<and> spaces w"
  by (cases "js_key st") (auto simp: style_ok_def)

subsection \<open>Numbers\<close>

lemma digit_char: "n < 10 \<Longrightarrow> is_digit (char_of (48 + n))" "n < 10 \<Longrightarrow> digit_value (char_of (48 + n)) = n"
  by (simp_all add: is_digit_def digit_value_def less_eq_char_def)

lemma nat_str_digits: "list_all is_digit (nat_str n)"
  by (induction n rule: nat_str.induct) (subst nat_str.simps, auto simp: digit_char)

lemma nat_str_nonempty [simp]: "nat_str n \<noteq> []"
  by (subst nat_str.simps) simp

lemma digits_value_snoc: "digits_value (ds @ [c]) = digits_value ds * 10 + digit_value c"
  by (simp add: digits_value_def)

lemma digits_value_nat_str: "digits_value (nat_str n) = n"
proof (induction n rule: nat_str.induct)
  case (1 n)
  show ?case
  proof (cases "n < 10")
    case True
    then have "nat_str n = [char_of (48 + n)]" by (subst nat_str.simps) simp
    with True show ?thesis by (simp add: digits_value_def digit_char)
  next
    case False
    then have "nat_str n = nat_str (n div 10) @ [char_of (48 + n mod 10)]" by (subst nat_str.simps) simp
    with 1 [OF False] show ?thesis by (simp add: digits_value_snoc digit_char)
  qed
qed

lemma zero_char: "(char_of (48 :: nat) :: char) = CHR ''0''"
  by code_simp

lemma nat_str_zero: "hd (nat_str n) = CHR ''0'' \<Longrightarrow> n = 0"
proof (induction n rule: nat_str.induct)
  case (1 n)
  show ?case
  proof (cases "n < 10")
    case True
    then have "nat_str n = [char_of (48 + n)]" by (subst nat_str.simps) simp
    with 1(2) have "char_of (48 + n) = (char_of (48 :: nat) :: char)" unfolding zero_char by simp
    then have "of_char (char_of (48 + n) :: char) = (of_char (char_of (48 :: nat) :: char) :: nat)" by simp
    with True show ?thesis by simp
  next
    case False
    then have "nat_str n = nat_str (n div 10) @ [char_of (48 + n mod 10)]" by (subst nat_str.simps) simp
    with 1 False show ?thesis by simp
  qed
qed

lemma whole_number_nat_str: "stops r \<Longrightarrow> whole_number (nat_str n @ r) = Some (n, r)"
proof -
  assume r: "stops r"
  obtain c t where ct: "nat_str n = c # t" by (cases "nat_str n") simp_all
  have dig: "list_all is_digit (c # t)" using nat_str_digits [of n] ct by simp
  have tail: "takeWhile is_digit r = []" "dropWhile is_digit r = r"
    using r by (cases r; simp add: stops_def)+
  have all: "takeWhile is_digit (nat_str n @ r) = nat_str n" "dropWhile is_digit (nat_str n @ r) = r"
    using nat_str_digits [of n] tail by (simp_all add: list_all_iff)
  show ?thesis
  proof (cases "c = CHR ''0''")
    case True
    then have n: "n = 0" using nat_str_zero [of n] ct by simp
    have "nat_str 0 = ''0''" by (subst nat_str.simps) (simp add: zero_char)
    with ct n True have "t = []" by simp
    with r n True ct show ?thesis
      by (cases r) (auto simp: whole_number_def stops_def digits_value_def digit_value_def)
  next
    case False
    with r all ct digits_value_nat_str [of n] show ?thesis
      by (cases r) (auto simp: whole_number_def stops_def)
  qed
qed

lemma read_number_int_str: "stops r \<Longrightarrow> read_number (int_str n @ r) = Some (JInt n, r)"
proof -
  assume r: "stops r"
  obtain c t where ct: "nat_str (nat n) = c # t" by (cases "nat_str (nat n)") simp_all
  have "is_digit c" using nat_str_digits [of "nat n"] ct by simp
  then have "c \<noteq> CHR ''-''" by (auto simp: is_digit_def less_eq_char_def)
  with whole_number_nat_str [OF r, of "nat n"] whole_number_nat_str [OF r, of "nat (- n)"] ct show ?thesis
    by (auto simp: read_number_def int_str_def)
qed

subsection \<open>Strings\<close>

lemma hex_digit_code: "d < 16 \<Longrightarrow> hex_digit (char_of (if d < 10 then 48 + d else 87 + d)) = Some d"
  by (simp add: hex_digit_def Let_def)

lemma read_control: "n < 32 \<Longrightarrow> read_string (control_code n @ r) = joined [char_of n] (read_string r)"
proof -
  assume n: "n < 32"
  have zero: "hex_digit (CHR ''0'') = Some 0" by code_simp
  have "hex_digit (char_of (if n div 16 < 10 then 48 + n div 16 else 87 + n div 16)) = Some (n div 16)"
    "hex_digit (char_of (if n mod 16 < 10 then 48 + n mod 16 else 87 + n mod 16)) = Some (n mod 16)"
    using n by (intro hex_digit_code; simp)+
  then have "hex4 (CHR ''0'') (CHR ''0'') (char_of (if n div 16 < 10 then 48 + n div 16 else 87 + n div 16))
      (char_of (if n mod 16 < 10 then 48 + n mod 16 else 87 + n mod 16)) = Some n"
    by (simp add: zero)
  with n show ?thesis by (simp add: control_code_def Let_def utf8_char_def)
qed

lemma read_escape: "read_string (escape_char c @ r) = joined [c] (read_string r)"
proof (cases "(of_char c :: nat) < 32")
  case True
  from read_control [OF this, of r] True show ?thesis
    by (auto simp: escape_char_def simple_escape_def)
next
  case False
  then show ?thesis by (auto simp: escape_char_def simple_escape_def)
qed

lemma read_escaped: "read_string (concat (map escape_char s) @ CHR 0x22 # r) = Some (s, r)"
  by (induction s) (simp_all add: read_escape joined_def)

lemma quoted_append: "quoted s @ r = CHR 0x22 # concat (map escape_char s) @ CHR 0x22 # r"
  by (simp add: quoted_def)

subsection \<open>Containers\<close>

lemma int_str_head: "\<exists>c t. int_str n = c # t \<and> (is_digit c \<or> c = CHR ''-'')"
proof -
  obtain c t where "nat_str (nat n) = c # t" by (cases "nat_str (nat n)") simp_all
  with nat_str_digits [of "nat n"] show ?thesis by (auto simp: int_str_def)
qed

lemma number_head: "is_digit c \<or> c = CHR ''-'' \<Longrightarrow> \<not> json_space c \<and>
    c \<notin> {CHR 0x22, CHR 0x5B, CHR 0x7B, CHR 0x5D, CHR 0x7D, CHR ''n'', CHR ''t'', CHR ''f''}"
  by (auto simp: is_digit_def less_eq_char_def json_space_def)

lemma dump_head: "\<exists>c t. dump_json st l v = c # t \<and> \<not> json_space c \<and> c \<noteq> CHR 0x5D \<and> c \<noteq> CHR 0x7D"
proof (cases v)
  case (JInt n)
  with int_str_head [of n] number_head show ?thesis by force
qed (auto simp: quoted_def bracketed_def json_space_def)

lemma skip_dump: "skip (dump_json st l v @ r) = dump_json st l v @ r"
  using dump_head [of st l v] by auto

lemma stops_simps [simp]: "stops []" "stops (CHR 0x5D # r)" "stops (CHR 0x7D # r)" "stops (CHR '','' # r)"
  by (simp_all add: stops_def is_digit_def less_eq_char_def)

lemma stops_spaces: "spaces w \<Longrightarrow> stops r \<Longrightarrow> stops (w @ r)"
  by (cases w) (auto simp: stops_def spaces_def json_space_def is_digit_def less_eq_char_def)

definition reads_back :: "json_style \<Rightarrow> json \<Rightarrow> bool" where
  "reads_back st v \<longleftrightarrow> (\<forall>n l r. json_size v \<le> n \<longrightarrow> stops r \<longrightarrow> read_value n (dump_json st l v @ r) = Some (v, r))"

lemma reads_backD: "reads_back st v \<Longrightarrow> json_size v \<le> n \<Longrightarrow> stops r \<Longrightarrow>
    read_value n (dump_json st l v @ r) = Some (v, r)"
  by (simp add: reads_back_def)

lemma read_items_dump:
  assumes st: "style_ok st" and "\<forall>x \<in> set xs. reads_back st x" "xs \<noteq> []"
    and "sum_list (map (\<lambda>x. Suc (json_size x)) xs) \<le> n"
  shows "read_items n (separated (js_item st @ line_break st l) (map (dump_json st l) xs)
      @ line_break st k @ CHR 0x5D # r) = Some (xs, r)"
  using assms(2-)
proof (induction xs arbitrary: n)
  case (Cons x xs)
  obtain m where n: "n = Suc m" "json_size x \<le> m" "sum_list (map (\<lambda>x. Suc (json_size x)) xs) \<le> m"
    using Cons.prems(3) by (cases n) auto
  note x = reads_backD [of st x m _ l, OF _ n(2)]
  show ?case
  proof (cases xs)
    case Nil
    have "stops (line_break st k @ CHR 0x5D # r)" by (rule stops_spaces) simp_all
    with x Cons.prems(1) Nil n(1) show ?thesis by (simp add: json_space_def)
  next
    case (Cons y ys)
    obtain w where w: "js_item st = CHR '','' # w" "spaces w" using style_item [OF st] by blast
    let ?rest = "separated (js_item st @ line_break st l) (map (dump_json st l) xs) @ line_break st k @ CHR 0x5D # r"
    have "read_items m ?rest = Some (xs, r)" using Cons.IH [of m] Cons.prems Cons n(3) by simp
    moreover have "skip ?rest = ?rest"
      using skip_dump [of st l y] Cons by (cases ys) simp_all
    ultimately show ?thesis using x [of "CHR '','' # w @ line_break st l @ ?rest"] Cons.prems(1) Cons n(1) w
      by (simp add: json_space_def)
  qed
qed simp

definition dump_member :: "json_style \<Rightarrow> nat \<Rightarrow> string \<times> json \<Rightarrow> string" where
  "dump_member st l kv = quoted (fst kv) @ js_key st @ dump_json st l (snd kv)"

lemma read_members_dump:
  assumes st: "style_ok st" and "\<forall>kv \<in> set kvs. reads_back st (snd kv)" "kvs \<noteq> []"
    and "sum_list (map (\<lambda>kv. Suc (json_size (snd kv))) kvs) \<le> n"
  shows "read_members n (separated (js_item st @ line_break st l) (map (dump_member st l) kvs)
      @ line_break st k @ CHR 0x7D # r) = Some (kvs, r)"
  using assms(2-)
proof (induction kvs arbitrary: n)
  case (Cons kv kvs)
  obtain m where n: "n = Suc m" "json_size (snd kv) \<le> m" "sum_list (map (\<lambda>kv. Suc (json_size (snd kv))) kvs) \<le> m"
    using Cons.prems(3) by (cases n) auto
  obtain u where u: "js_key st = CHR '':'' # u" "spaces u" using style_key [OF st] by blast
  have colon: "\<not> json_space (CHR '':'')" "\<not> json_space (CHR '','')" "\<not> json_space (CHR 0x7D)"
    by (simp_all add: json_space_def)
  have x: "read_value m (skip (u @ dump_json st l (snd kv) @ s)) = Some (snd kv, s)" if "stops s" for s
    using reads_backD [of st "snd kv" m s l] Cons.prems(1) n(2) that u(2) by (simp add: skip_dump)
  show ?case
  proof (cases kvs)
    case Nil
    have "stops (line_break st k @ CHR 0x7D # r)" by (rule stops_spaces) simp_all
    from x [OF this] Nil n(1) u(1) colon show ?thesis
      by (simp add: dump_member_def quoted_append read_escaped)
  next
    case (Cons y ys)
    obtain w where w: "js_item st = CHR '','' # w" "spaces w" using style_item [OF st] by blast
    let ?rest = "separated (js_item st @ line_break st l) (map (dump_member st l) kvs) @ line_break st k @ CHR 0x7D # r"
    have "read_members m ?rest = Some (kvs, r)" using Cons.IH [of m] Cons.prems Cons n(3) by simp
    moreover have "skip ?rest = ?rest"
      using Cons by (cases ys) (simp_all add: dump_member_def quoted_append json_space_def)
    moreover have "dump_member st l kv @ s = CHR 0x22 # concat (map escape_char (fst kv)) @
        CHR 0x22 # CHR '':'' # u @ dump_json st l (snd kv) @ s" for s
      by (simp add: dump_member_def quoted_append u(1))
    ultimately show ?thesis using x [of "CHR '','' # w @ line_break st l @ ?rest"] Cons n(1) w colon
      by (simp add: read_escaped)
  qed
qed simp

lemma update_fresh: "k \<notin> fst ` set al \<Longrightarrow> AList.update k v al = al @ [(k, v)]"
  by (induction al) auto

lemma dict_of_distinct: "distinct (map fst kvs) \<Longrightarrow> dict_of kvs = kvs"
proof -
  have "fold (\<lambda>(k, v). AList.update k v) kvs al = al @ kvs" if "distinct (map fst (al @ kvs))" for al
    using that by (induction kvs arbitrary: al) (auto simp: update_fresh)
  from this [of "[]"] show "distinct (map fst kvs) \<Longrightarrow> dict_of kvs = kvs" by (simp add: dict_of_def)
qed

lemma separated_head: "xs \<noteq> [] \<Longrightarrow> hd xs \<noteq> [] \<Longrightarrow> \<exists>t. separated sep xs @ r = hd (hd xs) # t"
  by (cases xs; cases "tl xs"; cases "hd xs") auto

lemma read_word: "read_value (Suc n) (dump_json st l (JBool b) @ r) = Some (JBool b, r)"
    "read_value (Suc n) (dump_json st l JNull @ r) = Some (JNull, r)"
  by (cases b) (simp_all add: starts_with_def)

lemma read_text: "read_value (Suc n) (dump_json st l (JStr s) @ r) = Some (JStr s, r)"
  by (simp add: quoted_append read_escaped)

lemma read_int: "stops r \<Longrightarrow> read_value (Suc n) (dump_json st l (JInt i) @ r) = Some (JInt i, r)"
proof -
  assume r: "stops r"
  obtain c t where ct: "int_str i = c # t" "is_digit c \<or> c = CHR ''-''" using int_str_head [of i] by blast
  from number_head [OF ct(2)] read_number_int_str [OF r, of i] ct(1) show ?thesis
    by (simp add: starts_with_def)
qed

lemma dump_reads_back: "style_ok st \<Longrightarrow> json_wf v \<Longrightarrow> reads_back st v"
proof (induction v)
  case (JList xs)
  have items: "\<forall>x \<in> set xs. reads_back st x" using JList by auto
  show ?case unfolding reads_back_def
  proof (intro allI impI)
    fix n l r assume n: "json_size (JList xs) \<le> n" and r: "stops r"
    obtain m where m: "n = Suc m" "sum_list (map (\<lambda>x. Suc (json_size x)) xs) \<le> m" using n by (cases n) auto
    show "read_value n (dump_json st l (JList xs) @ r) = Some (JList xs, r)"
    proof (cases "xs = []")
      case True
      then show ?thesis using m(1) by (simp add: bracketed_def json_space_def)
    next
      case False
      let ?items = "separated (js_item st @ line_break st (Suc l)) (map (dump_json st (Suc l)) xs)"
      have shape: "dump_json st l (JList xs) @ r =
          CHR 0x5B # line_break st (Suc l) @ ?items @ line_break st l @ CHR 0x5D # r"
        using False by (simp add: bracketed_def)
      obtain c t where c: "dump_json st (Suc l) (hd xs) = c # t" "\<not> json_space c" "c \<noteq> CHR 0x5D"
        using dump_head by blast
      obtain t' where "?items @ line_break st l @ CHR 0x5D # r = c # t'"
        using separated_head [of "map (dump_json st (Suc l)) xs"] False c(1) by (auto simp: hd_map)
      with read_items_dump [OF JList.prems(1) items False m(2), of "Suc l" l r] m(1) c
      show ?thesis unfolding shape by simp
    qed
  qed
next
  case (JObj kvs)
  have items: "\<forall>kv \<in> set kvs. reads_back st (snd kv)" using JObj by (fastforce simp: snds.simps)
  have size: "sum_list (map (\<lambda>(k, v). Suc (json_size v)) kvs) = sum_list (map (\<lambda>kv. Suc (json_size (snd kv))) kvs)"
    by (simp add: case_prod_unfold)
  have members: "map (\<lambda>(k, v). quoted k @ js_key st @ dump_json st l v) kvs = map (dump_member st l) kvs" for l
    by (simp add: dump_member_def case_prod_unfold)
  show ?case unfolding reads_back_def
  proof (intro allI impI)
    fix n l r assume n: "json_size (JObj kvs) \<le> n" and r: "stops r"
    obtain m where m: "n = Suc m" "sum_list (map (\<lambda>kv. Suc (json_size (snd kv))) kvs) \<le> m"
      using n size by (cases n) auto
    show "read_value n (dump_json st l (JObj kvs) @ r) = Some (JObj kvs, r)"
    proof (cases "kvs = []")
      case True
      then show ?thesis using m(1) by (simp add: bracketed_def json_space_def)
    next
      case False
      let ?items = "separated (js_item st @ line_break st (Suc l)) (map (dump_member st (Suc l)) kvs)"
      have shape: "dump_json st l (JObj kvs) @ r =
          CHR 0x7B # line_break st (Suc l) @ ?items @ line_break st l @ CHR 0x7D # r"
        using False by (simp add: bracketed_def members)
      have "dump_member st (Suc l) (hd kvs) \<noteq> []" "hd (dump_member st (Suc l) (hd kvs)) = CHR 0x22"
        by (simp_all add: dump_member_def quoted_def)
      then obtain t' where "?items @ line_break st l @ CHR 0x7D # r = CHR 0x22 # t'"
        using separated_head [of "map (dump_member st (Suc l)) kvs"] False by (auto simp: hd_map)
      with read_members_dump [OF JObj.prems(1) items False m(2), of "Suc l" l r] m(1) JObj.prems(2)
      show ?thesis unfolding shape by (simp add: dict_of_distinct json_space_def)
    qed
  qed
qed (auto simp: reads_back_def read_word read_int read_text simp del: dump_json.simps dest!: Suc_le_D)

lemma length_separated: "sum_list (map length xs) + (length xs - 1) * length sep \<le> length (separated sep xs)"
  by (induction sep xs rule: separated.induct) (simp_all add: algebra_simps)

lemma length_bracketed: "js_item st \<noteq> [] \<Longrightarrow>
    2 + sum_list (map length xs) + (length xs - 1) \<le> length (bracketed st l a b xs)"
proof -
  assume "js_item st \<noteq> []"
  then have "length xs - 1 \<le> (length xs - 1) * length (js_item st @ line_break st (Suc l))"
    by (cases "js_item st") simp_all
  from order_trans [OF add_left_mono [OF this] length_separated]
  show ?thesis by (cases xs) (simp_all add: bracketed_def)
qed

lemma sum_size:
  assumes "\<forall>x \<in> set xs. f x \<le> 2 * (length (g x) :: nat)"
  shows "sum_list (map (\<lambda>x. Suc (f x)) xs) \<le> length xs + 2 * sum_list (map (\<lambda>x. length (g x)) xs)"
  using assms by (induction xs) auto

lemma size_dump: "style_ok st \<Longrightarrow> json_size v \<le> 2 * length (dump_json st l v)"
proof (induction v arbitrary: l)
  case (JList xs)
  then have "\<forall>x \<in> set xs. json_size x \<le> 2 * length (dump_json st (Suc l) x)" by blast
  note sum = sum_size [OF this]
  have "js_item st \<noteq> []" using JList.prems by (simp add: style_ok_def)
  from length_bracketed [OF this, of "map (dump_json st (Suc l)) xs" l "CHR 0x5B" "CHR 0x5D"] sum show ?case
    by (simp add: comp_def)
next
  case (JObj kvs)
  let ?d = "\<lambda>kv. quoted (fst kv) @ js_key st @ dump_json st (Suc l) (snd kv)"
  have "\<forall>kv \<in> set kvs. json_size (snd kv) \<le> 2 * length (dump_json st (Suc l) (snd kv))"
    using JObj by (fastforce simp: snds.simps)
  then have "\<forall>kv \<in> set kvs. json_size (snd kv) \<le> 2 * length (?d kv)" by fastforce
  note sum = sum_size [OF this]
  have "js_item st \<noteq> []" using JObj.prems by (simp add: style_ok_def)
  from length_bracketed [OF this, of "map ?d kvs" l "CHR 0x7B" "CHR 0x7D"] sum show ?case
    by (simp add: comp_def case_prod_unfold)
next
  case (JInt n)
  with int_str_head [of n] show ?case by auto
qed (simp_all add: quoted_def)

lemma loads_spaced:
  assumes "style_ok st" "json_wf v" "spaces a" "spaces b"
  shows "loads (a @ dumps st v @ b) = Some v"
proof -
  have "json_size v \<le> Suc (2 * length (a @ dumps st v @ b))"
    using size_dump [OF assms(1), of v 0] by (simp add: dumps_def)
  moreover have "stops b" using stops_spaces [OF assms(4), of "[]"] by simp
  ultimately have "read_value (Suc (2 * length (a @ dumps st v @ b))) (dumps st v @ b) = Some (v, b)"
    using dump_reads_back [OF assms(1,2)] by (simp add: reads_back_def dumps_def)
  moreover have "skip (a @ dumps st v @ b) = dumps st v @ b"
    using assms(3) by (simp add: dumps_def skip_dump)
  moreover have "skip b = []" using skip_spaces [OF assms(4), of "[]"] by (simp add: skip_def)
  ultimately show ?thesis by (simp add: loads_def)
qed

lemma loads_dumps: "style_ok st \<Longrightarrow> json_wf v \<Longrightarrow> loads (dumps st v) = Some v"
  using loads_spaced [of st v "[]" "[]"] by (simp add: spaces_def)

end
