(* ===== verification/Outbox.thy ===== *)
theory Outbox
  imports Operations Config Json
begin

text \<open>
  The notification outbox: the outbox table and its operations in store.py
  (\<open>enqueue\<close>, \<open>pending_outbox\<close>, \<open>finish_outbox\<close>, \<open>fail_outbox\<close>,
  \<open>retry_dead_outbox\<close>) and the delivery loop \<open>_flush_outbox_once\<close> of service.py.
  The notifier is a parameter \<open>send\<close> on the state of the outside world; pydantic's
  \<open>FeishuOrigin.model_validate\<close> and Python's \<open>str\<close> on a JSON value that is not a
  string are parameters too. One \<open>now\<close> stands for the clock during a flush.
\<close>

section \<open>Table\<close>

record outbox_row =
  ob_outbox_key :: string
  ob_run_key :: string
  ob_event :: string
  ob_payload :: json
  ob_status :: string
  ob_attempts :: int
  ob_last_error :: "string option"
  ob_error_class :: "string option"
  ob_next_attempt_at :: int
  ob_dead_at :: "int option"
  ob_created_at :: int
  ob_updated_at :: int

type_synonym outbox_db = "outbox_row list"

definition outbox_entry :: "outbox_db \<Rightarrow> string \<Rightarrow> outbox_row option" where
  "outbox_entry db key = find (\<lambda>r. ob_outbox_key r = key) db"

text \<open>\<open>INSERT OR IGNORE\<close>: a key that is there already keeps its row.\<close>

definition enqueue :: "int \<Rightarrow> string \<Rightarrow> string \<Rightarrow> string \<Rightarrow> json \<Rightarrow> (outbox_db, unit) op" where
  "enqueue now key run_key event payload = connect (\<lambda>db. (Inr (),
     if outbox_entry db key \<noteq> None then db
     else db @ [\<lparr>ob_outbox_key = key, ob_run_key = run_key, ob_event = event,
       ob_payload = canon payload, ob_status = ''pending'', ob_attempts = 0,
       ob_last_error = None, ob_error_class = None, ob_next_attempt_at = now,
       ob_dead_at = None, ob_created_at = now, ob_updated_at = now\<rparr>]))"

definition outbox_due :: "int \<Rightarrow> outbox_row \<Rightarrow> bool" where
  "outbox_due now r \<longleftrightarrow> ob_status r \<in> set [''pending'', ''retrying''] \<and> ob_next_attempt_at r \<le> now"

definition pending_outbox :: "nat \<Rightarrow> int \<Rightarrow> outbox_db \<Rightarrow> outbox_row list" where
  "pending_outbox limit now db = take limit
     (order_by (\<lambda>r. (ob_next_attempt_at r, ob_created_at r)) (filter (outbox_due now) db))"

definition finish_outbox :: "int \<Rightarrow> string \<Rightarrow> (outbox_db, unit) op" where
  "finish_outbox now key = connect (\<lambda>db. (Inr (),
     update_where (\<lambda>r. ob_outbox_key r = key) (\<lambda>r. r\<lparr>ob_status := ''done'',
       ob_attempts := ob_attempts r + 1, ob_last_error := None, ob_error_class := None,
       ob_dead_at := None, ob_updated_at := now\<rparr>) db))"

definition outbox_delay :: "int \<Rightarrow> int \<Rightarrow> int \<Rightarrow> int" where
  "outbox_delay initial maximum attempts = min maximum (initial * 2 ^ nat (max 0 (attempts - 1)))"

definition failed_entry ::
  "int \<Rightarrow> string \<Rightarrow> int \<Rightarrow> string \<Rightarrow> bool \<Rightarrow> outbox_row \<Rightarrow> outbox_row" where
  "failed_entry now error delay cls permanent r = r\<lparr>
     ob_status := (if permanent then ''dead'' else ''retrying''),
     ob_attempts := ob_attempts r + 1, ob_last_error := Some (take 2000 error),
     ob_error_class := Some cls, ob_next_attempt_at := now + max 1 delay,
     ob_dead_at := (if permanent then Some now else None), ob_updated_at := now\<rparr>"

definition fail_outbox ::
  "int \<Rightarrow> string \<Rightarrow> string \<Rightarrow> int \<Rightarrow> int \<Rightarrow> string \<Rightarrow> bool \<Rightarrow> (outbox_db, unit) op" where
  "fail_outbox now key error initial maximum cls permanent = connect (\<lambda>db.
     let attempts = (case outbox_entry db key of Some r \<Rightarrow> ob_attempts r + 1 | None \<Rightarrow> 1)
     in (Inr (), update_where (\<lambda>r. ob_outbox_key r = key)
          (failed_entry now error (outbox_delay initial maximum attempts) cls permanent) db))"

text \<open>The exception is raised after the transaction has been committed.\<close>

definition retry_dead_outbox :: "int \<Rightarrow> string \<Rightarrow> (outbox_db, unit) op" where
  "retry_dead_outbox now key db =
     (let sel = (\<lambda>r. ob_outbox_key r = key \<and> ob_status r = ''dead'')
      in (if rowcount sel db \<noteq> 1 then Inl (ValueError (''outbox_not_dead:'' @ key)) else Inr (),
          update_where sel (\<lambda>r. r\<lparr>ob_status := ''pending'', ob_next_attempt_at := now,
            ob_dead_at := None, ob_updated_at := now\<rparr>) db))"

section \<open>Delivery\<close>

record outbox_message =
  om_origin :: FeishuOrigin
  om_content :: string
  om_format :: string

definition message_body :: "(json \<Rightarrow> string) \<Rightarrow> (string \<times> json) list \<Rightarrow> (string \<times> string) res" where
  "message_body py_str kvs =
     (case map_of kvs ''content'' of
        Some content \<Rightarrow> Inr (json_text py_str content,
          case map_of kvs ''format'' of
            Some f \<Rightarrow> if truthy_json f then json_text py_str f else ''markdown''
          | None \<Rightarrow> ''markdown'')
      | None \<Rightarrow>
          (case map_of kvs ''text'' of
             Some t \<Rightarrow> Inr (json_text py_str t, ''text'')
           | None \<Rightarrow> Inl (PyKeyError ''text'')))"

text \<open>The message of a stored payload, or the exception that reading it raises.\<close>

definition read_message ::
  "(json \<Rightarrow> FeishuOrigin res) \<Rightarrow> (json \<Rightarrow> string) \<Rightarrow> json \<Rightarrow> outbox_message res" where
  "read_message model_validate py_str payload =
     (case payload of
        JObj kvs \<Rightarrow>
          (case map_of kvs ''origin'' of
             None \<Rightarrow> Inl (PyKeyError ''origin'')
           | Some o1 \<Rightarrow>
               (case model_validate o1 of
                  Inl e \<Rightarrow> Inl e
                | Inr origin \<Rightarrow>
                    (case message_body py_str kvs of
                       Inl e \<Rightarrow> Inl e
                     | Inr (content, format) \<Rightarrow>
                         if format \<notin> set [''text'', ''markdown'']
                         then Inl (ValueError (''unsupported outbox message format:'' @ format))
                         else Inr \<lparr>om_origin = origin, om_content = content, om_format = format\<rparr>)))
      | _ \<Rightarrow> Inl (PyTypeError ''payload is not subscriptable by a string''))"

text \<open>
  The first \<open>except\<close> clause: errors of the message itself (pydantic's
  ValidationError and CheckedHeadConflict are ValueErrors) and a contract error of
  the service.
\<close>

fun is_permanent :: "ctl_error \<Rightarrow> bool" where
  "is_permanent (PyKeyError _) = True"
| "is_permanent (PyTypeError _) = True"
| "is_permanent (ValueError _) = True"
| "is_permanent (CheckedHeadConflict _) = True"
| "is_permanent (DependencyContractError _ _) = True"
| "is_permanent _ = False"

definition delivery_failed ::
  "ControllerConfig \<Rightarrow> int \<Rightarrow> string \<Rightarrow> ctl_error \<Rightarrow> (outbox_db, unit) op" where
  "delivery_failed config now key e =
     (if is_permanent e
      then fail_outbox now key (error_message e) 5 300 ''dependency_contract'' True
      else fail_outbox now key (error_message e)
        (cf_outbox_backoff_initial_seconds config) (cf_outbox_backoff_max_seconds config)
        (case error_class e of Some c \<Rightarrow> c | None \<Rightarrow> ''dependency_transient'') False)"

type_synonym 'w sender = "string \<Rightarrow> outbox_message \<Rightarrow> 'w \<Rightarrow> unit res \<times> 'w"

record 'w delivery =
  dl_validate :: "json \<Rightarrow> FeishuOrigin res"
  dl_str :: "json \<Rightarrow> string"
  dl_send :: "'w sender"

definition flush_item ::
  "'w delivery \<Rightarrow> ControllerConfig \<Rightarrow> int \<Rightarrow> outbox_row \<Rightarrow> outbox_db \<times> 'w \<Rightarrow> outbox_db \<times> 'w" where
  "flush_item d config now item s = (case s of (db, w) \<Rightarrow>
     (case read_message (dl_validate d) (dl_str d) (ob_payload item) of
        Inl e \<Rightarrow> (snd (delivery_failed config now (ob_outbox_key item) e db), w)
      | Inr m \<Rightarrow>
          (case dl_send d (ob_outbox_key item) m w of
             (Inr _, w') \<Rightarrow> (snd (finish_outbox now (ob_outbox_key item) db), w')
           | (Inl e, w') \<Rightarrow> (snd (delivery_failed config now (ob_outbox_key item) e db), w'))))"

definition flush_outbox ::
  "'w delivery \<Rightarrow> ControllerConfig \<Rightarrow> int \<Rightarrow> outbox_db \<times> 'w \<Rightarrow> outbox_db \<times> 'w" where
  "flush_outbox d config now s = fold (flush_item d config now) (pending_outbox 20 now (fst s)) s"

end
