(* ===== verification/Outbox_Properties.thy ===== *)
theory Outbox_Properties
  imports Outbox
begin

text \<open>
  The outbox delivers: a delivered message stays delivered and is not sent again,
  repeated failures follow the capped doubling schedule, and repeated flushes leave
  nothing due, whatever the notifier does.
\<close>

section \<open>The retry schedule\<close>

interpretation outbox_backoff: backoff "\<lambda>initial cap k. outbox_delay initial cap (int k + 1)"
proof unfold_locales
  fix initial cap :: int and k :: nat
  assume pos: "0 < initial" "initial \<le> cap"
  then show "outbox_delay initial cap (int 0 + 1) = initial" by (simp add: outbox_delay_def)
  have "nat (max 0 (int (Suc k) + 1 - 1)) = Suc k" "nat (max 0 (int k + 1 - 1)) = k" by auto
  with pos show "outbox_delay initial cap (int (Suc k) + 1) =
      min cap (2 * outbox_delay initial cap (int k + 1))"
    by (auto simp: outbox_delay_def min_def)
qed

section \<open>What one delivery attempt does to the table\<close>

text \<open>Every operation rewrites rows in place, so keys stay unique.\<close>

lemma unique_enqueue:
  "unique_on ob_outbox_key db \<Longrightarrow> unique_on ob_outbox_key (snd (enqueue now key run_key event payload db))"
  by (auto simp: enqueue_def connect_def outbox_entry_def unique_on_insert find_None_iff)

lemma unique_retry_dead:
  "unique_on ob_outbox_key db \<Longrightarrow> unique_on ob_outbox_key (snd (retry_dead_outbox now key db))"
  by (simp add: retry_dead_outbox_def Let_def unique_on_update_where)

definition attempted :: "int \<Rightarrow> (outbox_row \<Rightarrow> outbox_row) \<Rightarrow> bool" where
  "attempted now f \<longleftrightarrow> (\<forall>r. ob_outbox_key (f r) = ob_outbox_key r \<and> \<not> outbox_due now (f r))"

lemma fail_outbox_effect:
  "\<exists>f. attempted now f \<and> snd (fail_outbox now key e i m c p db) =
     update_where (\<lambda>r. ob_outbox_key r = key) f db"
  by (rule exI [where x = "failed_entry now e (outbox_delay i m
      (case outbox_entry db key of Some r \<Rightarrow> ob_attempts r + 1 | None \<Rightarrow> 1)) c p"])
    (simp add: attempted_def fail_outbox_def connect_def Let_def failed_entry_def outbox_due_def)

lemma finish_outbox_effect:
  "\<exists>f. attempted now f \<and> snd (finish_outbox now key db) =
     update_where (\<lambda>r. ob_outbox_key r = key) f db"
  by (simp add: finish_outbox_def connect_def) (rule exI, rule conjI [OF _ refl],
      simp add: attempted_def outbox_due_def)

lemma flush_item_effect:
  "\<exists>f w'. attempted now f \<and> flush_item d config now item (db, w) =
     (update_where (\<lambda>r. ob_outbox_key r = ob_outbox_key item) f db, w')"
proof -
  have fail: "\<exists>f. attempted now f \<and> snd (delivery_failed config now (ob_outbox_key item) e db) =
      update_where (\<lambda>r. ob_outbox_key r = ob_outbox_key item) f db" for e
    using fail_outbox_effect by (simp add: delivery_failed_def)
  show ?thesis
  proof (cases "read_message (dl_validate d) (dl_str d) (ob_payload item)")
    case (Inl e)
    with fail [of e] show ?thesis by (auto simp: flush_item_def)
  next
    case (Inr m)
    obtain x w' where "dl_send d (ob_outbox_key item) m w = (x, w')" by fastforce
    with Inr fail finish_outbox_effect [of now "ob_outbox_key item" db] show ?thesis
      by (cases x) (fastforce simp: flush_item_def)+
  qed
qed

section \<open>A flush\<close>

definition due_keys :: "int \<Rightarrow> outbox_db \<Rightarrow> string set" where
  "due_keys now db = ob_outbox_key ` set (filter (outbox_due now) db)"

lemma due_keys_attempted:
  "attempted now f \<Longrightarrow> due_keys now (update_where (\<lambda>r. ob_outbox_key r = k) f db) = due_keys now db - {k}"
  by (induction db) (auto simp: due_keys_def attempted_def)

lemma fold_flush_item:
  "map ob_outbox_key (fst (fold (flush_item d config now) items (db, w))) = map ob_outbox_key db \<and>
   due_keys now (fst (fold (flush_item d config now) items (db, w))) =
     due_keys now db - ob_outbox_key ` set items \<and>
   (key \<notin> ob_outbox_key ` set items \<longrightarrow>
     outbox_entry (fst (fold (flush_item d config now) items (db, w))) key = outbox_entry db key)"
proof (induction items arbitrary: db w)
  case Nil show ?case by simp
next
  case (Cons item items)
  obtain f w' where f: "attempted now f" "flush_item d config now item (db, w) =
      (update_where (\<lambda>r. ob_outbox_key r = ob_outbox_key item) f db, w')"
    using flush_item_effect [of now d config item db w] by auto
  let ?db = "update_where (\<lambda>r. ob_outbox_key r = ob_outbox_key item) f db"
  have keys: "map ob_outbox_key ?db = map ob_outbox_key db"
    using f(1) by (simp add: attempted_def map_update_where_on)
  have other: "outbox_entry ?db key = outbox_entry db key" if "key \<noteq> ob_outbox_key item"
    using f(1) that by (induction db) (auto simp: outbox_entry_def attempted_def)
  from Cons.IH [of ?db w'] f(2) keys other due_keys_attempted [OF f(1), of "ob_outbox_key item" db]
  show ?case by auto
qed

lemma pending_in_due: "ob_outbox_key ` set (pending_outbox limit now db) \<subseteq> due_keys now db"
  by (auto simp: pending_outbox_def due_keys_def order_by_def dest!: in_set_takeD)

lemma card_pending:
  assumes "unique_on ob_outbox_key db"
  shows "card (ob_outbox_key ` set (pending_outbox limit now db)) = min (card (due_keys now db)) limit"
proof -
  let ?rows = "order_by (\<lambda>r. (ob_next_attempt_at r, ob_created_at r)) (filter (outbox_due now) db)"
  have "distinct (map ob_outbox_key (filter (outbox_due now) db))"
    using assms by (simp add: unique_on_def distinct_map_filter)
  then have inj: "inj_on ob_outbox_key (set ?rows)" and d: "distinct ?rows"
    by (simp_all add: distinct_map order_by_def)
  have "due_keys now db = ob_outbox_key ` set ?rows" by (simp add: due_keys_def order_by_def)
  with inj d have 1: "card (due_keys now db) = length ?rows"
    by (simp add: card_image distinct_card)
  have "inj_on ob_outbox_key (set (take limit ?rows))"
    using inj by (rule inj_on_subset) (rule set_take_subset)
  moreover have "distinct (take limit ?rows)" using d by simp
  ultimately have "card (ob_outbox_key ` set (take limit ?rows)) = length (take limit ?rows)"
    by (simp add: card_image distinct_card)
  with 1 show ?thesis by (simp add: pending_outbox_def min.commute)
qed

lemma flush_keeps_unique:
  "unique_on ob_outbox_key (fst s) \<Longrightarrow> unique_on ob_outbox_key (fst (flush_outbox d config now s))"
  using fold_flush_item [of d config now "pending_outbox 20 now (fst s)" "fst s" "snd s"]
  by (simp add: unique_on_def flush_outbox_def)

lemma flush_due:
  assumes "unique_on ob_outbox_key (fst s)"
  shows "card (due_keys now (fst (flush_outbox d config now s))) = card (due_keys now (fst s)) - 20"
proof -
  let ?batch = "ob_outbox_key ` set (pending_outbox 20 now (fst s))"
  have "due_keys now (fst (flush_outbox d config now s)) = due_keys now (fst s) - ?batch"
    using fold_flush_item [of d config now "pending_outbox 20 now (fst s)" "fst s" "snd s"]
    by (simp add: flush_outbox_def)
  moreover have "card (due_keys now (fst s) - ?batch) = card (due_keys now (fst s)) - card ?batch"
    by (rule card_Diff_subset) (use pending_in_due [of 20 now "fst s"] in \<open>auto simp: due_keys_def\<close>)
  ultimately show ?thesis using card_pending [OF assms, of 20 now] by simp
qed

lemma pending_Nil_iff: "pending_outbox 20 now db = [] \<longleftrightarrow> card (due_keys now db) = 0"
proof -
  have "pending_outbox 20 now db = [] \<longleftrightarrow> filter (outbox_due now) db = []"
    unfolding pending_outbox_def order_by_def by (metis set_empty set_sort take_eq_Nil zero_neq_numeral)
  then show ?thesis by (auto simp: due_keys_def filter_empty_conv)
qed

lemma repeated_flush:
  assumes "unique_on ob_outbox_key (fst s)"
  shows "card (due_keys now (fst ((flush_outbox d config now ^^ n) s))) = card (due_keys now (fst s)) - 20 * n
    \<and> unique_on ob_outbox_key (fst ((flush_outbox d config now ^^ n) s))"
proof (induction n)
  case 0 with assms show ?case by simp
next
  case (Suc n) then show ?case using flush_due flush_keeps_unique by fastforce
qed

section \<open>Delivered messages\<close>

text \<open>
  The steps of the outbox: a notification is queued, an operator revives a dead
  one, the controller flushes (in any state of the world, at any time).
\<close>

inductive outbox_step :: "'w delivery \<Rightarrow> ControllerConfig \<Rightarrow> outbox_db \<Rightarrow> outbox_db \<Rightarrow> bool"
  for d :: "'w delivery" and config :: ControllerConfig where
  ob_enqueue: "outbox_step d config db (snd (enqueue now key run_key event payload db))"
| ob_revive: "outbox_step d config db (snd (retry_dead_outbox now key db))"
| ob_flush: "outbox_step d config db (fst (flush_outbox d config now (db, w)))"

definition delivered :: "string \<Rightarrow> outbox_db \<Rightarrow> bool" where
  "delivered key db \<longleftrightarrow> unique_on ob_outbox_key db \<and>
     (\<exists>r. outbox_entry db key = Some r \<and> ob_status r = ''done'')"

lemma delivered_not_pending:
  assumes "delivered key db"
  shows "key \<notin> ob_outbox_key ` set (pending_outbox limit now db)"
proof
  assume "key \<in> ob_outbox_key ` set (pending_outbox limit now db)"
  then obtain q where q: "q \<in> set db" "ob_outbox_key q = key" "outbox_due now q"
    by (auto simp: pending_outbox_def order_by_def dest!: in_set_takeD)
  from assms obtain r where r: "unique_on ob_outbox_key db" "outbox_entry db key = Some r" "ob_status r = ''done''"
    by (auto simp: delivered_def)
  from unique_on_find [OF r(1) q(1)] q(2) r(2) have "r = q" by (simp add: outbox_entry_def)
  with q(3) r(3) show False by (simp add: outbox_due_def)
qed

lemma delivered_step:
  assumes "outbox_step d config db db'" "delivered key db"
  shows "delivered key db' \<and> outbox_entry db' key = outbox_entry db key"
proof -
  from assms(2) obtain r where r: "unique_on ob_outbox_key db" "outbox_entry db key = Some r" "ob_status r = ''done''"
    by (auto simp: delivered_def)
  from assms(1) have "unique_on ob_outbox_key db' \<and> outbox_entry db' key = outbox_entry db key"
  proof (cases rule: outbox_step.cases)
    case (ob_enqueue now k run_key event payload)
    have "outbox_entry db' key = outbox_entry db key"
      using r(2) by (simp add: ob_enqueue enqueue_def connect_def outbox_entry_def find_append)
    with unique_enqueue [OF r(1), of now k run_key event payload] ob_enqueue show ?thesis by simp
  next
    case (ob_revive now k)
    have "outbox_entry db' key = map_option (\<lambda>r. if ob_outbox_key r = k \<and> ob_status r = ''dead''
        then r\<lparr>ob_status := ''pending'', ob_next_attempt_at := now, ob_dead_at := None, ob_updated_at := now\<rparr>
        else r) (outbox_entry db key)"
      unfolding ob_revive retry_dead_outbox_def outbox_entry_def Let_def snd_conv
      by (rule find_update_where) simp
    with r(2,3) unique_retry_dead [OF r(1), of now k] ob_revive show ?thesis by simp
  next
    case (ob_flush now w)
    with ob_flush fold_flush_item [of d config now "pending_outbox 20 now db" db w key]
      delivered_not_pending [OF assms(2), of 20 now] flush_keeps_unique [of "(db, w)" d config now] r(1)
    show ?thesis by (simp add: flush_outbox_def)
  qed
  with r show ?thesis by (simp add: delivered_def)
qed

interpretation outbox_final: absorbing "outbox_step d config" "delivered key" "\<lambda>db. outbox_entry db key"
  for d config key
  by unfold_locales (fact delivered_step)

text \<open>The notifier, recording the keys it is asked to send.\<close>

definition recording :: "'w delivery \<Rightarrow> ('w \<times> string list) delivery" where
  "recording d = \<lparr>dl_validate = dl_validate d, dl_str = dl_str d,
     dl_send = (\<lambda>key m (w, sent). case dl_send d key m w of (r, w') \<Rightarrow> (r, (w', sent @ [key])))\<rparr>"

lemma recorded_keys:
  "set (snd (snd (fold (flush_item (recording d) config now) items (db, w, sent)))) \<subseteq>
     set sent \<union> ob_outbox_key ` set items"
proof (induction items arbitrary: db w sent)
  case Nil show ?case by simp
next
  case (Cons item items)
  obtain db' w' sent' where one: "flush_item (recording d) config now item (db, w, sent) = (db', w', sent')"
    by (cases "flush_item (recording d) config now item (db, w, sent)")
  then have "set sent' \<subseteq> set sent \<union> {ob_outbox_key item}"
    by (auto simp: flush_item_def recording_def split: sum.splits prod.splits)
  with Cons.IH [of db' w' sent'] one show ?case by fastforce
qed

text \<open>
  C30. A delivered notification is final: once its entry is done, no enqueue under
  its key, no revival and no flush changes the entry, and no later flush hands it
  to the notifier again, whatever the notifier does in the meantime.
\<close>

theorem delivered_is_final:
  assumes "unique_on ob_outbox_key db" "outbox_entry db key = Some r" "ob_status r = ''done''"
    and "(outbox_step d config)\<^sup>*\<^sup>* db db'"
  shows "outbox_entry db' key = Some r \<and>
    key \<notin> set (snd (snd (flush_outbox (recording d) config now (db', w, []))))"
proof -
  from assms(1-3) have "delivered key db" by (simp add: delivered_def)
  from outbox_final.final_forever [OF assms(4) this]
  have final: "delivered key db'" "outbox_entry db' key = Some r" using assms(2) by auto
  from recorded_keys [of d config now "pending_outbox 20 now db'" db' w "[]"]
    delivered_not_pending [OF final(1), of 20 now]
  have "key \<notin> set (snd (snd (flush_outbox (recording d) config now (db', w, []))))"
    by (auto simp: flush_outbox_def)
  with final(2) show ?thesis by simp
qed

definition sample_entry :: "string \<Rightarrow> string \<Rightarrow> outbox_row" where
  "sample_entry key status = \<lparr>ob_outbox_key = key, ob_run_key = ''r'', ob_event = ''e'',
     ob_payload = JObj [(''origin'', JNull), (''text'', JStr ''t'')], ob_status = status,
     ob_attempts = 0, ob_last_error = None, ob_error_class = None, ob_next_attempt_at = 5,
     ob_dead_at = None, ob_created_at = 5, ob_updated_at = 5\<rparr>"

definition sample_notifier :: "nat delivery" where
  "sample_notifier = \<lparr>dl_validate = (\<lambda>_. Inr \<lparr>fo_message_id = ''om_1'', fo_chat_id = ''oc_1'',
       fo_thread_id = None, fo_chat_type = ''p2p'', fo_initiator_open_id = ''ou_1''\<rparr>),
     dl_str = (\<lambda>_. []), dl_send = (\<lambda>key m n. (if n = 0 then Inl (PyRuntimeError ''x'') else Inr (), n + 1))\<rparr>"

theorem delivered_is_final_witness:
  "outbox_entry (snd (enqueue 7 ''k'' ''r'' ''e'' JNull [sample_entry ''k'' ''done''])) ''k'' =
    Some (sample_entry ''k'' ''done'')"
proof -
  let ?db = "[sample_entry ''k'' ''done'']"
  have "unique_on ob_outbox_key ?db" "outbox_entry ?db ''k'' = Some (sample_entry ''k'' ''done'')"
    "ob_status (sample_entry ''k'' ''done'') = ''done''"
    by (simp_all add: sample_entry_def unique_on_def outbox_entry_def)
  note start = this
  have "(outbox_step sample_notifier sample_config)\<^sup>*\<^sup>* ?db (snd (enqueue 7 ''k'' ''r'' ''e'' JNull ?db))"
    by (rule r_into_rtranclp) (rule ob_enqueue)
  from delivered_is_final [OF start this, of 9 0] show ?thesis by simp
qed

section \<open>Failures\<close>

text \<open>A run of temporary failures: the time and the error of each attempt.\<close>

definition failures ::
  "string \<Rightarrow> int \<Rightarrow> int \<Rightarrow> (int \<times> string) list \<Rightarrow> outbox_db \<Rightarrow> outbox_db" where
  "failures key initial cap es db = fold (\<lambda>(t, e) db.
     snd (fail_outbox t key e initial cap ''dependency_transient'' False db)) es db"

lemma failures_keys: "map ob_outbox_key (failures key i c es db) = map ob_outbox_key db"
  by (induction es arbitrary: db)
    (auto simp: failures_def fail_outbox_def connect_def Let_def failed_entry_def map_update_where_on)

lemma failures_entry:
  assumes "outbox_entry db key = Some r" "0 \<le> ob_attempts r"
  shows "\<exists>q. outbox_entry (failures key i c (es @ [(t, e)]) db) key = Some q \<and>
    ob_status q = ''retrying'' \<and> ob_attempts q = ob_attempts r + int (length es) + 1 \<and>
    ob_next_attempt_at q = t + max 1 (outbox_delay i c (ob_attempts r + int (length es) + 1))"
proof -
  have one: "\<exists>q. outbox_entry (snd (fail_outbox t key e i c ''dependency_transient'' False db)) key = Some q \<and>
    ob_status q = ''retrying'' \<and> ob_attempts q = ob_attempts r + 1 \<and>
    ob_next_attempt_at q = t + max 1 (outbox_delay i c (ob_attempts r + 1))"
    if "outbox_entry db key = Some r" for db t e r
  proof -
    have "ob_outbox_key r = key" using find_SomeD that by (fastforce simp: outbox_entry_def)
    with that show ?thesis
      by (simp add: fail_outbox_def connect_def Let_def outbox_entry_def failed_entry_def find_update_where)
  qed
  have "\<exists>q. outbox_entry (failures key i c es db) key = Some q \<and>
      ob_attempts q = ob_attempts r + int (length es)"
  proof (induction es rule: rev_induct)
    case Nil from assms show ?case by (simp add: failures_def)
  next
    case (snoc x es)
    then obtain q where "outbox_entry (failures key i c es db) key = Some q"
      "ob_attempts q = ob_attempts r + int (length es)" by auto
    with one [of "failures key i c es db" q "fst x" "snd x"] show ?case
      by (cases x) (auto simp: failures_def)
  qed
  then obtain q where "outbox_entry (failures key i c es db) key = Some q"
    "ob_attempts q = ob_attempts r + int (length es)" by auto
  with one [of "failures key i c es db" q t e] show ?thesis by (auto simp: failures_def)
qed

text \<open>
  The retry schedule: after n failed attempts a fresh entry is waiting with n
  attempts counted, and is due again min(cap, initial * 2 ^ (n - 1)) seconds after
  the last failure, so never before the initial delay and never after the cap.
\<close>

theorem outbox_retry_schedule:
  assumes "outbox_entry db key = Some r" "ob_attempts r = 0"
    and "0 < initial" "initial \<le> cap" and "es \<noteq> []"
  shows "\<exists>q. outbox_entry (failures key initial cap es db) key = Some q \<and>
    ob_status q = ''retrying'' \<and> ob_attempts q = int (length es) \<and>
    ob_next_attempt_at q = fst (last es) + min cap (initial * 2 ^ (length es - 1)) \<and>
    fst (last es) + initial \<le> ob_next_attempt_at q \<and> ob_next_attempt_at q \<le> fst (last es) + cap"
proof -
  obtain fs t e where es: "es = fs @ [(t, e)]" using assms(5) by (metis rev_exhaust surj_pair)
  from failures_entry [OF assms(1), of initial cap fs t e] assms(2) obtain q where
    q: "outbox_entry (failures key initial cap es db) key = Some q" "ob_status q = ''retrying''"
      "ob_attempts q = int (length fs) + 1"
      "ob_next_attempt_at q = t + max 1 (outbox_delay initial cap (int (length fs) + 1))"
    by (auto simp: es)
  have range: "initial \<le> outbox_delay initial cap (int (length fs) + 1)"
    "outbox_delay initial cap (int (length fs) + 1) \<le> cap"
    using outbox_backoff.delay_range [OF assms(3,4), of "length fs"] by simp_all
  with q(4) assms(3) have "ob_next_attempt_at q = t + outbox_delay initial cap (int (length fs) + 1)"
    by simp
  with q(1-3) range outbox_backoff.delay_exact [OF assms(3,4), of "length fs"] show ?thesis
    by (simp add: es)
qed

theorem outbox_retry_schedule_witness:
  "\<exists>q. outbox_entry (failures ''k'' 5 300 [(10, ''a''), (20, ''b''), (40, ''c'')] [sample_entry ''k'' ''pending'']) ''k'' = Some q \<and>
    ob_next_attempt_at q = 60"
proof -
  have "outbox_entry [sample_entry ''k'' ''pending''] ''k'' = Some (sample_entry ''k'' ''pending'')"
    "ob_attempts (sample_entry ''k'' ''pending'') = 0"
    by (simp_all add: outbox_entry_def sample_entry_def)
  from outbox_retry_schedule [OF this, of 5 300 "[(10, ''a''), (20, ''b''), (40, ''c'')]"]
  show ?thesis by auto
qed

section \<open>Draining\<close>

lemma flush_keys: "map ob_outbox_key (fst (flush_outbox d config now s)) = map ob_outbox_key (fst s)"
  using fold_flush_item [of d config now "pending_outbox 20 now (fst s)" "fst s" "snd s"]
  by (simp add: flush_outbox_def)



end
