(* ===== verification/Outages.thy ===== *)
theory Outages
  imports Run_Control
begin

text \<open>
  The dependency outages of store.py: the tables dependency_outages,
  dependency_outage_runs and dependency_outage_history and every operation on them
  (\<open>record_dependency_failure\<close> to \<open>dependency_outage_history\<close>). The identifier
  that \<open>uuid.uuid4().hex\<close> draws is the argument \<open>fresh\<close>. The backoff seconds are
  floats in the source; \<open>initial * 2 ** (failures - 1)\<close> is exact on them (a product
  that overflows is infinite, so the maximum is taken), hence they are rationals
  here, except that converting \<open>2 ** n\<close> to a float raises OverflowError from n = 1024 on.
\<close>

section \<open>Tables\<close>

record outage_row =
  ou_dependency :: string
  ou_outage_id :: string
  ou_status :: string
  ou_error_class :: string
  ou_error_summary :: string
  ou_failures :: int
  ou_peak_failures :: int
  ou_started_at :: int
  ou_last_failure_at :: int
  ou_last_success_at :: "int option"
  ou_endpoint :: "string option"
  ou_circuit_state :: string
  ou_next_retry_at :: int
  ou_recovered_at :: "int option"
  ou_updated_at :: int

record outage_run_row =
  our_dependency :: string
  our_outage_id :: string
  our_run_key :: string
  our_created_at :: int

record outage_history_row =
  oh_dependency :: string
  oh_outage_id :: string
  oh_error_class :: string
  oh_error_summary :: string
  oh_peak_failures :: int
  oh_started_at :: int
  oh_recovered_at :: int
  oh_duration_seconds :: int
  oh_endpoint :: "string option"

record outage_db =
  outages_tbl :: "outage_row list"
  outage_runs_tbl :: "outage_run_row list"
  outage_history_tbl :: "outage_history_row list"

definition find_outage :: "outage_db \<Rightarrow> string \<Rightarrow> outage_row option" where
  "find_outage db dependency = find (\<lambda>r. ou_dependency r = dependency) (outages_tbl db)"

section \<open>A failure\<close>

text \<open>The error and the policy the caller passes.\<close>

record failure_args =
  fa_error :: string
  fa_initial_backoff_seconds :: rat
  fa_maximum_backoff_seconds :: rat
  fa_error_class :: string
  fa_endpoint :: "string option"
  fa_retry_after_seconds :: "int option"

definition raw_delay :: "rat \<Rightarrow> rat \<Rightarrow> int \<Rightarrow> rat" where
  "raw_delay initial maximum failures = min maximum (initial * 2 ^ nat (failures - 1))"

definition outage_delay :: "rat \<Rightarrow> rat \<Rightarrow> int option \<Rightarrow> int \<Rightarrow> rat res" where
  "outage_delay initial maximum retry_after failures =
     (if 1024 \<le> failures - 1 then Inl (PyOverflowError ''int too large to convert to float'')
      else let delay = raw_delay initial maximum failures
           in Inr (case retry_after of None \<Rightarrow> delay | Some s \<Rightarrow> max delay (of_int s)))"

text \<open>\<open>int(x)\<close> truncates towards zero.\<close>

definition py_int :: "rat \<Rightarrow> int" where
  "py_int x = (if 0 \<le> x then \<lfloor>x\<rfloor> else \<lceil>x\<rceil>)"

definition continuing :: "outage_row option \<Rightarrow> bool" where
  "continuing previous \<longleftrightarrow> (case previous of None \<Rightarrow> False | Some r \<Rightarrow> ou_status r = ''open'')"

text \<open>The values of the INSERT.\<close>

definition failed_outage ::
  "int \<Rightarrow> string \<Rightarrow> string \<Rightarrow> failure_args \<Rightarrow> int \<Rightarrow> outage_row option \<Rightarrow> outage_row" where
  "failed_outage now fresh dependency a next_retry_at previous =
     (let cont = continuing previous;
          failures = (case previous of Some r \<Rightarrow> if cont then ou_failures r + 1 else 1 | None \<Rightarrow> 1)
      in \<lparr>ou_dependency = dependency,
          ou_outage_id = (case previous of Some r \<Rightarrow> if cont then ou_outage_id r else fresh | None \<Rightarrow> fresh),
          ou_status = ''open'', ou_error_class = fa_error_class a,
          ou_error_summary = take 1000 (fa_error a), ou_failures = failures,
          ou_peak_failures = max (case previous of Some r \<Rightarrow> if cont then ou_peak_failures r else 0
            | None \<Rightarrow> 0) failures,
          ou_started_at = (case previous of Some r \<Rightarrow> if cont then ou_started_at r else now | None \<Rightarrow> now),
          ou_last_failure_at = now, ou_last_success_at = None, ou_endpoint = fa_endpoint a,
          ou_circuit_state = ''open'', ou_next_retry_at = next_retry_at, ou_recovered_at = None,
          ou_updated_at = now\<rparr>)"

text \<open>ON CONFLICT(dependency): the old last_success_at stays and the larger peak is kept.\<close>

definition upsert_outage :: "outage_row \<Rightarrow> outage_row list \<Rightarrow> outage_row list" where
  "upsert_outage new t =
     (if (\<exists>r \<in> set t. ou_dependency r = ou_dependency new)
      then update_where (\<lambda>r. ou_dependency r = ou_dependency new)
        (\<lambda>r. new\<lparr>ou_peak_failures := max (ou_peak_failures r) (ou_peak_failures new),
           ou_last_success_at := ou_last_success_at r\<rparr>) t
      else t @ [new])"

definition record_dependency_failure ::
  "int \<Rightarrow> string \<Rightarrow> string \<Rightarrow> failure_args \<Rightarrow> (outage_db, outage_row) op" where
  "record_dependency_failure now fresh dependency a = connect (\<lambda>db.
     let previous = find_outage db dependency;
         failures = (case previous of Some r \<Rightarrow> if continuing previous then ou_failures r + 1 else 1 | None \<Rightarrow> 1)
     in case outage_delay (fa_initial_backoff_seconds a) (fa_maximum_backoff_seconds a)
              (fa_retry_after_seconds a) failures of
          Inl e \<Rightarrow> (Inl e, db)
        | Inr delay \<Rightarrow>
            let db' = db\<lparr>outages_tbl := upsert_outage
                  (failed_outage now fresh dependency a (now + max 1 (py_int delay)) previous) (outages_tbl db)\<rparr>
            in case find_outage db' dependency of
                 None \<Rightarrow> (Inl (PyTypeError ''dict(None)''), db')
               | Some row \<Rightarrow> (Inr row, db'))"

section \<open>Affected runs\<close>

definition associate_outage_run :: "int \<Rightarrow> string \<Rightarrow> string \<Rightarrow> string \<Rightarrow> (outage_db, unit) op" where
  "associate_outage_run now dependency outage_id run_key = connect (\<lambda>db. (Inr (),
     if (\<exists>r \<in> set (outage_runs_tbl db). our_dependency r = dependency \<and> our_outage_id r = outage_id
           \<and> our_run_key r = run_key) then db
     else db\<lparr>outage_runs_tbl := outage_runs_tbl db @ [\<lparr>our_dependency = dependency,
       our_outage_id = outage_id, our_run_key = run_key, our_created_at = now\<rparr>]\<rparr>))"

definition outage_run_keys :: "outage_db \<Rightarrow> string \<Rightarrow> string \<Rightarrow> string list" where
  "outage_run_keys db dependency outage_id = map our_run_key (order_by our_run_key
     (filter (\<lambda>r. our_dependency r = dependency \<and> our_outage_id r = outage_id) (outage_runs_tbl db)))"

section \<open>Recovery and queries\<close>

definition insert_history :: "outage_history_row \<Rightarrow> outage_history_row list \<Rightarrow> outage_history_row list" where
  "insert_history h t =
     (if (\<exists>q \<in> set t. oh_dependency q = oh_dependency h \<and> oh_outage_id q = oh_outage_id h) then t else t @ [h])"

definition history_of :: "int \<Rightarrow> outage_row \<Rightarrow> outage_history_row" where
  "history_of now r = \<lparr>oh_dependency = ou_dependency r, oh_outage_id = ou_outage_id r,
     oh_error_class = ou_error_class r, oh_error_summary = ou_error_summary r,
     oh_peak_failures = ou_peak_failures r, oh_started_at = ou_started_at r, oh_recovered_at = now,
     oh_duration_seconds = max 0 (now - ou_started_at r), oh_endpoint = ou_endpoint r\<rparr>"

definition recovered_outage :: "int \<Rightarrow> outage_row \<Rightarrow> outage_row" where
  "recovered_outage now r = r\<lparr>ou_status := ''recovered'', ou_recovered_at := Some now,
     ou_last_success_at := Some now, ou_failures := 0, ou_circuit_state := ''closed'', ou_updated_at := now\<rparr>"

definition recover_dependency :: "int \<Rightarrow> string \<Rightarrow> (outage_db, outage_row option) op" where
  "recover_dependency now dependency = connect (\<lambda>db.
     case find (\<lambda>r. ou_dependency r = dependency \<and> ou_status r = ''open'') (outages_tbl db) of
       None \<Rightarrow> (Inr None, db)
     | Some previous \<Rightarrow>
         (Inr (Some (previous\<lparr>ou_recovered_at := Some now, ou_last_success_at := Some now\<rparr>)),
          db\<lparr>outages_tbl := update_where (\<lambda>r. ou_dependency r = dependency) (recovered_outage now) (outages_tbl db),
             outage_history_tbl := insert_history (history_of now previous) (outage_history_tbl db)\<rparr>))"

definition mark_dependency_half_open :: "int \<Rightarrow> string \<Rightarrow> (outage_db, bool) op" where
  "mark_dependency_half_open now dependency = connect (\<lambda>db.
     let sel = (\<lambda>r. ou_dependency r = dependency \<and> ou_status r = ''open''
           \<and> ou_circuit_state r = ''open'' \<and> ou_next_retry_at r \<le> now)
     in (Inr (rowcount sel (outages_tbl db) = 1),
         db\<lparr>outages_tbl := update_where sel
           (\<lambda>r. r\<lparr>ou_circuit_state := ''half_open'', ou_updated_at := now\<rparr>) (outages_tbl db)\<rparr>))"

definition open_dependency_outages :: "outage_db \<Rightarrow> outage_row list" where
  "open_dependency_outages db = order_by (\<lambda>r. (ou_started_at r, ou_dependency r))
     (filter (\<lambda>r. ou_status r = ''open'') (outages_tbl db))"

definition dependency_outage_history :: "outage_db \<Rightarrow> nat \<Rightarrow> outage_history_row list" where
  "dependency_outage_history db limit = take limit (order_by (\<lambda>r. - oh_recovered_at r) (outage_history_tbl db))"

section \<open>The circuit of one dependency\<close>

interpretation outage_backoff: backoff "\<lambda>initial cap k. raw_delay initial cap (int k + 1)"
  by unfold_locales (auto simp: raw_delay_def min_def nat_add_distrib)

definition outage_ok :: "outage_row \<Rightarrow> bool" where
  "outage_ok r \<longleftrightarrow> 0 \<le> ou_failures r \<and> ou_failures r \<le> 1024 \<and> 1 \<le> ou_peak_failures r \<and>
     ou_failures r \<le> ou_peak_failures r \<and>
     (ou_status r = ''open'' \<and> 1 \<le> ou_failures r \<and> ou_recovered_at r = None \<and>
        (ou_circuit_state r = ''open'' \<or> ou_circuit_state r = ''half_open'') \<or>
      ou_status r = ''recovered'' \<and> ou_failures r = 0 \<and> ou_recovered_at r = ou_last_success_at r \<and>
        (\<exists>t. ou_recovered_at r = Some t) \<and> ou_circuit_state r = ''closed'')"

text \<open>Closed outages, and only those, are in the history.\<close>

definition outages_ok :: "outage_db \<Rightarrow> bool" where
  "outages_ok db \<longleftrightarrow> unique_on ou_dependency (outages_tbl db) \<and>
     unique_on (\<lambda>h. (oh_dependency h, oh_outage_id h)) (outage_history_tbl db) \<and>
     (\<forall>r \<in> set (outages_tbl db). outage_ok r \<and>
        (ou_status r = ''recovered'') = (\<exists>h \<in> set (outage_history_tbl db).
           oh_dependency h = ou_dependency r \<and> oh_outage_id h = ou_outage_id r)) \<and>
     (\<forall>h \<in> set (outage_history_tbl db). 0 \<le> oh_duration_seconds h \<and> 1 \<le> oh_peak_failures h)"

inductive outage_step :: "outage_db \<Rightarrow> outage_db \<Rightarrow> bool" where
  os_failure: "\<forall>h \<in> set (outage_history_tbl db). oh_outage_id h \<noteq> fresh \<Longrightarrow>
    outage_step db (snd (record_dependency_failure now fresh dependency a db))"
| os_associate: "outage_step db (snd (associate_outage_run now dependency outage_id run_key db))"
| os_recover: "outage_step db (snd (recover_dependency now dependency db))"
| os_half_open: "outage_step db (snd (mark_dependency_half_open now dependency db))"

end
