(* ===== verification/Circuit.thy ===== *)
theory Circuit
  imports Outages Outbox
begin

text \<open>
  How the service degrades and recovers runs (service.py, \<open>_dependency_retry_blocked\<close>
  to \<open>_finish_dependency_recovery\<close>): a failing dependency opens an outage scoped to
  the run, enough corroborating runs open the GitLab circuit, a probe or a
  successful run operation closes it again. The state is the part of the store
  these handlers touch. One \<open>now\<close> stands for the clock during a handler; the
  identifiers the store draws, the rendered notices (None when the run's history
  cannot be read) and the answer of \<open>gitlab.health()\<close> are arguments.
\<close>

section \<open>State and environment\<close>

record service_db =
  sd_control :: control_db
  sd_outages :: outage_db
  sd_outbox :: outbox_db
  sd_last_reconcile_error :: "string option"

record circuit_env =
  ce_config :: ControllerConfig
  ce_minimal :: bool
  ce_outage_notice :: "string \<Rightarrow> outage_row \<Rightarrow> json option"
  ce_recovered_notice :: "int \<Rightarrow> string \<Rightarrow> outage_row \<Rightarrow> json option"
  ce_failure_notice :: "string \<Rightarrow> ctl_error \<Rightarrow> (string \<times> json) option"

definition on_control :: "(control_db, 'a) op \<Rightarrow> (service_db, 'a) op" where
  "on_control = on_part sd_control (\<lambda>c s. s\<lparr>sd_control := c\<rparr>)"

definition on_outages :: "(outage_db, 'a) op \<Rightarrow> (service_db, 'a) op" where
  "on_outages = on_part sd_outages (\<lambda>o1 s. s\<lparr>sd_outages := o1\<rparr>)"

definition on_outbox :: "(outbox_db, 'a) op \<Rightarrow> (service_db, 'a) op" where
  "on_outbox = on_part sd_outbox (\<lambda>b s. s\<lparr>sd_outbox := b\<rparr>)"

definition ignore_result :: "('s, 'a) op \<Rightarrow> ('s, unit) op" where
  "ignore_result m = then_do m (\<lambda>_. give ())"

section \<open>Queries\<close>

definition dependency_retry_blocked :: "int \<Rightarrow> string \<Rightarrow> service_db \<Rightarrow> bool" where
  "dependency_retry_blocked now dependency s \<longleftrightarrow>
     (\<exists>r \<in> set (open_dependency_outages (sd_outages s)). ou_dependency r = dependency \<and> now < ou_next_retry_at r)"

definition dependency_is_open :: "string \<Rightarrow> service_db \<Rightarrow> bool" where
  "dependency_is_open dependency s \<longleftrightarrow>
     (\<exists>r \<in> set (open_dependency_outages (sd_outages s)). ou_dependency r = dependency)"

text \<open>\<open>error.context\<close>; the handlers are only called with a DependencyError.\<close>

definition the_context :: "ctl_error \<Rightarrow> error_context" where
  "the_context e = (case error_context_of e of Some c \<Rightarrow> c
     | None \<Rightarrow> \<lparr>ec_dependency = [], ec_endpoint = None, ec_status_code = None,
         ec_retry_after_seconds = None, ec_error_code = None\<rparr>)"

text \<open>Authentication and rate limits concern the host, everything else the run.\<close>

fun host_wide :: "ctl_error \<Rightarrow> bool" where
  "host_wide (DependencyAuthError _ _) = True"
| "host_wide (DependencyRateLimitedError _ _) = True"
| "host_wide _ = False"

definition scope_name :: "string \<Rightarrow> string option \<Rightarrow> string" where
  "scope_name dependency run_key = dependency @ '':'' @
     (case or_text run_key of Some k \<Rightarrow> k | None \<Rightarrow> ''request'')"

definition dependency_scope :: "string option \<Rightarrow> ctl_error \<Rightarrow> string" where
  "dependency_scope run_key e =
     (if ec_dependency (the_context e) = ''gitlab'' \<and> host_wide e then ec_dependency (the_context e)
      else scope_name (ec_dependency (the_context e)) run_key)"

section \<open>Notices\<close>

definition enqueue_dependency_outage :: "circuit_env \<Rightarrow> int \<Rightarrow> string \<Rightarrow> outage_row \<Rightarrow> (service_db, unit) op" where
  "enqueue_dependency_outage env now run_key outage =
     (if ce_minimal env \<and> ou_error_class outage \<noteq> ''dependency_auth'' then give ()
      else case ce_outage_notice env run_key outage of
             None \<Rightarrow> give ()
           | Some payload \<Rightarrow> on_outbox (enqueue now
               (run_key @ '':dependency-outage:'' @ ou_outage_id outage) run_key ''dependency-outage'' payload))"

definition enqueue_dependency_recovered :: "circuit_env \<Rightarrow> int \<Rightarrow> string \<Rightarrow> outage_row \<Rightarrow> (service_db, unit) op" where
  "enqueue_dependency_recovered env now run_key outage =
     (if ce_minimal env \<and> ou_error_class outage \<noteq> ''dependency_auth'' then give ()
      else case ce_recovered_notice env now run_key outage of
             None \<Rightarrow> give ()
           | Some payload \<Rightarrow> on_outbox (enqueue now
               (run_key @ '':dependency-recovered:'' @ ou_outage_id outage) run_key ''dependency-recovered'' payload))"

definition enqueue_controller_failure :: "circuit_env \<Rightarrow> int \<Rightarrow> string \<Rightarrow> ctl_error \<Rightarrow> (service_db, unit) op" where
  "enqueue_controller_failure env now run_key e =
     (case ce_failure_notice env run_key e of
        None \<Rightarrow> give ()
      | Some (suffix, payload) \<Rightarrow> on_outbox (enqueue now
          (run_key @ '':controller-failure:'' @ suffix) run_key ''controller-failure'' payload))"

section \<open>A failing dependency\<close>

definition failure_of :: "circuit_env \<Rightarrow> ctl_error \<Rightarrow> failure_args" where
  "failure_of env e = \<lparr>fa_error = error_message e,
     fa_initial_backoff_seconds = cf_dependency_backoff_initial_seconds (ce_config env),
     fa_maximum_backoff_seconds = cf_dependency_backoff_max_seconds (ce_config env),
     fa_error_class = the_text (error_class e), fa_endpoint = ec_endpoint (the_context e),
     fa_retry_after_seconds = ec_retry_after_seconds (the_context e)\<rparr>"

definition outage_reason :: "ctl_error \<Rightarrow> string" where
  "outage_reason e = ec_dependency (the_context e) @ '':'' @ the_text (error_class e) @ '':'' @
     (case or_text (ec_error_code (the_context e)) of Some c \<Rightarrow> c | None \<Rightarrow> ''unavailable'')"

text \<open>The keyword arguments of the handlers' \<open>transition_run\<close> calls.\<close>

definition move_args :: "rc_row \<Rightarrow> string \<Rightarrow> string \<Rightarrow> int option \<Rightarrow> transition_args" where
  "move_args control new_state reason next_retry_at =
     \<lparr>ta_expected_states = [rc_state control], ta_new_state = new_state, ta_reason = reason,
      ta_expected_version = Some (rc_state_version control), ta_next_retry_at = next_retry_at,
      ta_compliance = None, ta_completion_source = None, ta_checked_head = None,
      ta_merge_commit_sha = None\<rparr>"

definition degradable_states :: "string list" where
  "degradable_states = [''active'', ''merge_wait'', ''dependency_degraded'']"

definition degrade_run :: "int \<Rightarrow> string \<Rightarrow> string \<Rightarrow> int \<Rightarrow> (service_db, unit) op" where
  "degrade_run now run_key reason next_retry_at s =
     (case run_control (sd_control s) run_key of
        None \<Rightarrow> (Inr (), s)
      | Some control \<Rightarrow>
          if rc_state control \<in> set degradable_states
          then ignore_result (on_control (transition_run now run_key
                 (move_args control ''dependency_degraded'' reason (Some next_retry_at)))) s
          else if rc_state control \<in> set abort_states
          then ignore_result (on_control (transition_run now run_key
                 (move_args control (rc_state control) reason (Some next_retry_at)))) s
          else (Inr (), s))"

text \<open>The runs with an open transient GitLab outage of their own.\<close>

definition run_scoped_gitlab :: "outage_row \<Rightarrow> bool" where
  "run_scoped_gitlab r \<longleftrightarrow> starts_with ''gitlab:'' (ou_dependency r) \<and>
     ou_dependency r \<noteq> ''gitlab:request'' \<and> ou_error_class r = ''dependency_transient''"

definition corroborating_runs :: "outage_db \<Rightarrow> string list" where
  "corroborating_runs db = remdups (concat (map (\<lambda>r. outage_run_keys db (ou_dependency r) (ou_outage_id r))
     (filter run_scoped_gitlab (open_dependency_outages db))))"

definition open_gitlab_circuit ::
  "circuit_env \<Rightarrow> int \<Rightarrow> string \<Rightarrow> ctl_error \<Rightarrow> (service_db, unit) op" where
  "open_gitlab_circuit env now fresh e s =
     (let runs = corroborating_runs (sd_outages s)
      in if cf_dependency_circuit_failure_threshold (ce_config env) \<le> int (length runs)
         then then_do (on_outages (record_dependency_failure now fresh ''gitlab'' (failure_of env e)))
                (\<lambda>global. for_each (\<lambda>k. on_outages (associate_outage_run now ''gitlab'' (ou_outage_id global) k)) runs) s
         else (Inr (), s))"

fun is_transient :: "ctl_error \<Rightarrow> bool" where
  "is_transient (DependencyTransientError _ _) = True"
| "is_transient _ = False"

fun is_contract :: "ctl_error \<Rightarrow> bool" where
  "is_contract (DependencyContractError _ _) = True"
| "is_contract _ = False"

definition handle_dependency_error ::
  "circuit_env \<Rightarrow> int \<Rightarrow> string \<Rightarrow> string \<Rightarrow> string \<Rightarrow> ctl_error \<Rightarrow> (service_db, outage_row) op" where
  "handle_dependency_error env now fresh fresh' run_key e s =
     (if is_contract e then (Inl e, s)
      else let dependency = dependency_scope (Some run_key) e in
        then_do (on_outages (record_dependency_failure now fresh dependency (failure_of env e)))
          (\<lambda>outage. then_do (on_outages (associate_outage_run now dependency (ou_outage_id outage) run_key))
            (\<lambda>_. then_do (if ec_dependency (the_context e) = ''gitlab'' \<and> dependency \<noteq> ''gitlab'' \<and> is_transient e
                          then open_gitlab_circuit env now fresh' e else give ())
              (\<lambda>_. then_do (degrade_run now run_key (outage_reason e) (ou_next_retry_at outage))
                (\<lambda>_. then_do (enqueue_dependency_outage env now run_key outage)
                  (\<lambda>_ s. (Inr outage, s\<lparr>sd_last_reconcile_error := Some (ec_dependency (the_context e) @ '':'' @
                     the_text (error_class e) @ '':'' @ error_message e)\<rparr>)))))) s)"

text \<open>A failure of a request that may not have a run yet.\<close>

definition record_request_dependency_error ::
  "circuit_env \<Rightarrow> int \<Rightarrow> string \<Rightarrow> string \<Rightarrow> string option \<Rightarrow> ctl_error \<Rightarrow> (service_db, outage_row) op" where
  "record_request_dependency_error env now fresh fresh' run_key e s =
     (case or_text run_key of
        Some k \<Rightarrow>
          if run_control (sd_control s) k \<noteq> None then handle_dependency_error env now fresh fresh' k e s
          else then_do (on_outages (record_dependency_failure now fresh (dependency_scope None e) (failure_of env e)))
            (\<lambda>outage s. (Inr outage, s\<lparr>sd_last_reconcile_error := Some (ec_dependency (the_context e) @ '':'' @
               the_text (error_class e) @ '':'' @ error_message e)\<rparr>)) s
      | None \<Rightarrow> then_do (on_outages (record_dependency_failure now fresh (dependency_scope None e) (failure_of env e)))
            (\<lambda>outage s. (Inr outage, s\<lparr>sd_last_reconcile_error := Some (ec_dependency (the_context e) @ '':'' @
               the_text (error_class e) @ '':'' @ error_message e)\<rparr>)) s)"

definition record_run_exception :: "circuit_env \<Rightarrow> int \<Rightarrow> string \<Rightarrow> ctl_error \<Rightarrow> (service_db, unit) op" where
  "record_run_exception env now run_key e s =
     (case run_control (sd_control s) run_key of
        None \<Rightarrow> (Inr (), s)
      | Some control \<Rightarrow>
          if rc_state control \<in> set [''active'', ''dependency_degraded'', ''merge_wait'']
          then then_do (on_control (set_run_exception now run_key (error_message e)))
                 (\<lambda>_. enqueue_controller_failure env now run_key e) s
          else (Inr (), s))"

section \<open>Recovery\<close>

definition remaining_outages :: "outage_db \<Rightarrow> string \<Rightarrow> outage_row list" where
  "remaining_outages db run_key = filter (\<lambda>r. run_key \<in> set (outage_run_keys db (ou_dependency r) (ou_outage_id r)))
     (open_dependency_outages db)"

text \<open>\<open>dependency.split(":", 1)[0]\<close>\<close>

definition base_dependency :: "string \<Rightarrow> string" where
  "base_dependency d = takeWhile (\<lambda>c. c \<noteq> CHR '':'') d"

definition reactivate_run :: "int \<Rightarrow> string \<Rightarrow> string \<Rightarrow> (service_db, unit) op" where
  "reactivate_run now dependency run_key s =
     (case run_control (sd_control s) run_key of
        None \<Rightarrow> (Inr (), s)
      | Some control \<Rightarrow>
          if rc_state control = ''dependency_degraded''
          then case remaining_outages (sd_outages s) run_key of
                 [] \<Rightarrow> ignore_result (on_control (transition_run now run_key
                   (move_args control ''active'' (base_dependency dependency @ ''_dependency_recovered'') None))) s
               | r # rs \<Rightarrow> ignore_result (on_control (transition_run now run_key
                   (move_args control ''dependency_degraded'' ''dependency_recovery_partial''
                     (Some (fold min (map ou_next_retry_at rs) (ou_next_retry_at r)))))) s
          else (Inr (), s))"

definition finish_dependency_recovery ::
  "circuit_env \<Rightarrow> int \<Rightarrow> string \<Rightarrow> outage_row \<Rightarrow> (service_db, unit) op" where
  "finish_dependency_recovery env now dependency recovered s =
     for_each (\<lambda>k. then_do (reactivate_run now dependency k)
         (\<lambda>_. enqueue_dependency_recovered env now k recovered))
       (outage_run_keys (sd_outages s) dependency (ou_outage_id recovered)) s"

definition due_outage :: "int \<Rightarrow> string \<Rightarrow> service_db \<Rightarrow> outage_row option" where
  "due_outage now dependency s = find (\<lambda>r. ou_dependency r = dependency \<and> ou_next_retry_at r \<le> now)
     (open_dependency_outages (sd_outages s))"

definition recover_run_dependency :: "circuit_env \<Rightarrow> int \<Rightarrow> string \<Rightarrow> string \<Rightarrow> (service_db, unit) op" where
  "recover_run_dependency env now run_key dependency s =
     (let scope = dependency @ '':'' @ run_key in
      case due_outage now scope s of
        None \<Rightarrow> (Inr (), s)
      | Some outage \<Rightarrow>
          if run_key \<notin> set (outage_run_keys (sd_outages s) scope (ou_outage_id outage)) then (Inr (), s)
          else then_do (on_outages (recover_dependency now scope))
            (\<lambda>recovered. case recovered of None \<Rightarrow> give ()
               | Some r \<Rightarrow> finish_dependency_recovery env now scope r) s)"

definition recover_request_dependency :: "int \<Rightarrow> string \<Rightarrow> (service_db, unit) op" where
  "recover_request_dependency now dependency s =
     (let scope = dependency @ '':request'' in
      case due_outage now scope s of
        None \<Rightarrow> (Inr (), s)
      | Some _ \<Rightarrow> ignore_result (on_outages (recover_dependency now scope)) s)"

text \<open>The runs of a failed probe are rescheduled with the circuit.\<close>

definition reschedule_run :: "circuit_env \<Rightarrow> int \<Rightarrow> string \<Rightarrow> outage_row \<Rightarrow> string \<Rightarrow> (service_db, unit) op" where
  "reschedule_run env now reason updated run_key s =
     then_do (case run_control (sd_control s) run_key of
         None \<Rightarrow> give ()
       | Some control \<Rightarrow>
           if rc_state control = ''dependency_degraded''
           then ignore_result (on_control (transition_run now run_key
             (move_args control ''dependency_degraded'' reason (Some (ou_next_retry_at updated)))))
           else give ())
       (\<lambda>_. enqueue_dependency_outage env now run_key updated) s"

definition recover_gitlab_circuit ::
  "circuit_env \<Rightarrow> int \<Rightarrow> string \<Rightarrow> ctl_error option \<Rightarrow> (service_db, unit) op" where
  "recover_gitlab_circuit env now fresh health s =
     (case find (\<lambda>r. ou_dependency r = ''gitlab'') (open_dependency_outages (sd_outages s)) of
        None \<Rightarrow> (Inr (), s)
      | Some outage \<Rightarrow>
          if now < ou_next_retry_at outage then (Inr (), s)
          else then_do (on_outages (mark_dependency_half_open now ''gitlab''))
            (\<lambda>_. case health of
               Some e \<Rightarrow> if \<not> is_dependency_error e then (\<lambda>s. (Inl e, s)) else
                 then_do (on_outages (record_dependency_failure now fresh ''gitlab'' (failure_of env e)))
                   (\<lambda>updated s. for_each (reschedule_run env now
                       (''gitlab:'' @ the_text (error_class e) @ '':'' @
                         (case or_text (ec_error_code (the_context e)) of Some c \<Rightarrow> c | None \<Rightarrow> ''unavailable'')) updated)
                     (outage_run_keys (sd_outages s) ''gitlab'' (ou_outage_id updated)) s)
             | None \<Rightarrow>
                 then_do (on_outages (recover_dependency now ''gitlab''))
                   (\<lambda>recovered. case recovered of None \<Rightarrow> give ()
                      | Some r \<Rightarrow> finish_dependency_recovery env now ''gitlab'' r)) s)"

end
