(* ===== verification/Outage_Properties.thy ===== *)
theory Outage_Properties
  imports Outages
begin

text \<open>
  The life of a dependency outage: the circuit invariant of every reachable store,
  the identity, count and retry time of an outage through repeated failures, the
  history entry its recovery leaves, and the failure count at which recording a
  failure raises.
\<close>

section \<open>The operations on one row\<close>

lemma find_upsert:
  "find (\<lambda>r. ou_dependency r = d) (upsert_outage new t) =
    (if d = ou_dependency new
     then Some (case find (\<lambda>r. ou_dependency r = d) t of None \<Rightarrow> new
       | Some r \<Rightarrow> new\<lparr>ou_peak_failures := max (ou_peak_failures r) (ou_peak_failures new),
           ou_last_success_at := ou_last_success_at r\<rparr>)
     else find (\<lambda>r. ou_dependency r = d) t)"
proof (cases "find (\<lambda>r. ou_dependency r = ou_dependency new) t")
  case None
  then have "\<not> (\<exists>r \<in> set t. ou_dependency r = ou_dependency new)" by (simp add: find_None_iff)
  then have "upsert_outage new t = t @ [new]" by (simp add: upsert_outage_def)
  with None show ?thesis by (auto simp: find_append split: option.splits)
next
  case (Some r)
  then have "\<exists>r \<in> set t. ou_dependency r = ou_dependency new" using find_SomeD by fast
  then have up: "upsert_outage new t = update_where (\<lambda>r. ou_dependency r = ou_dependency new)
        (\<lambda>r. new\<lparr>ou_peak_failures := max (ou_peak_failures r) (ou_peak_failures new),
           ou_last_success_at := ou_last_success_at r\<rparr>) t" by (simp only: upsert_outage_def if_True)
  have key: "ou_dependency r = ou_dependency new" using find_SomeD [OF Some] by simp
  have "find (\<lambda>r. ou_dependency r = d) (upsert_outage new t) = map_option
      (\<lambda>r. if ou_dependency r = ou_dependency new
        then new\<lparr>ou_peak_failures := max (ou_peak_failures r) (ou_peak_failures new),
           ou_last_success_at := ou_last_success_at r\<rparr> else r) (find (\<lambda>r. ou_dependency r = d) t)"
    unfolding up by (rule find_update_where_on) simp
  note found = this
  show ?thesis
  proof (cases "d = ou_dependency new")
    case True
    with found Some key show ?thesis by simp
  next
    case False
    then have "ou_dependency q \<noteq> ou_dependency new"
      if "find (\<lambda>r. ou_dependency r = d) t = Some q" for q
      using find_SomeD [OF that] by simp
    with found False show ?thesis by (cases "find (\<lambda>r. ou_dependency r = d) t") simp_all
  qed
qed

lemma unique_upsert: "unique_on ou_dependency t \<Longrightarrow> unique_on ou_dependency (upsert_outage new t)"
  by (auto simp: upsert_outage_def unique_on_insert intro!: unique_on_update_where)

text \<open>The failure count and the retry time after a failure.\<close>

definition new_failures :: "outage_row option \<Rightarrow> int" where
  "new_failures previous = (case previous of Some r \<Rightarrow> if continuing previous then ou_failures r + 1 else 1 | None \<Rightarrow> 1)"

definition retry_at :: "int \<Rightarrow> failure_args \<Rightarrow> int \<Rightarrow> int" where
  "retry_at now a n = now + max 1 (py_int
     (let delay = raw_delay (fa_initial_backoff_seconds a) (fa_maximum_backoff_seconds a) n
      in case fa_retry_after_seconds a of None \<Rightarrow> delay | Some s \<Rightarrow> max delay (of_int s)))"

text \<open>The inserted row, and the row an upsert leaves.\<close>

definition inserted :: "int \<Rightarrow> string \<Rightarrow> string \<Rightarrow> failure_args \<Rightarrow> outage_row option \<Rightarrow> outage_row" where
  "inserted now fresh d a previous =
     failed_outage now fresh d a (retry_at now a (new_failures previous)) previous"

definition outage_after :: "int \<Rightarrow> string \<Rightarrow> string \<Rightarrow> failure_args \<Rightarrow> outage_row option \<Rightarrow> outage_row" where
  "outage_after now fresh d a previous =
     (case previous of None \<Rightarrow> inserted now fresh d a previous
      | Some r \<Rightarrow> (inserted now fresh d a previous)
          \<lparr>ou_peak_failures := max (ou_peak_failures r) (ou_peak_failures (inserted now fresh d a previous)),
           ou_last_success_at := ou_last_success_at r\<rparr>)"

lemma inserted_fields [simp]:
  "ou_dependency (inserted now fresh d a p) = d"
  "ou_status (inserted now fresh d a p) = ''open''"
  "ou_circuit_state (inserted now fresh d a p) = ''open''"
  "ou_recovered_at (inserted now fresh d a p) = None"
  "ou_failures (inserted now fresh d a p) = new_failures p"
  "ou_next_retry_at (inserted now fresh d a p) = retry_at now a (new_failures p)"
  "ou_last_failure_at (inserted now fresh d a p) = now"
  by (simp_all add: inserted_def failed_outage_def Let_def new_failures_def)

lemma outage_after_fields [simp]:
  "ou_dependency (outage_after now fresh d a p) = d"
  "ou_status (outage_after now fresh d a p) = ''open''"
  "ou_circuit_state (outage_after now fresh d a p) = ''open''"
  "ou_recovered_at (outage_after now fresh d a p) = None"
  "ou_failures (outage_after now fresh d a p) = new_failures p"
  "ou_next_retry_at (outage_after now fresh d a p) = retry_at now a (new_failures p)"
  "ou_last_failure_at (outage_after now fresh d a p) = now"
  by (simp_all add: outage_after_def split: option.splits)

lemma outage_after_continues:
  assumes "ou_status r = ''open''"
  shows "ou_outage_id (outage_after now fresh d a (Some r)) = ou_outage_id r"
    "ou_started_at (outage_after now fresh d a (Some r)) = ou_started_at r"
    "new_failures (Some r) = ou_failures r + 1"
    "ou_peak_failures (outage_after now fresh d a (Some r)) = max (ou_peak_failures r) (ou_failures r + 1)"
  using assms by (simp_all add: outage_after_def inserted_def failed_outage_def Let_def continuing_def
      new_failures_def)

lemma outage_after_starts:
  assumes "\<not> continuing p"
  shows "ou_outage_id (outage_after now fresh d a p) = fresh"
    "ou_started_at (outage_after now fresh d a p) = now" "new_failures p = 1"
    "ou_peak_failures (outage_after now fresh d a p) = (case p of None \<Rightarrow> 1 | Some r \<Rightarrow> max (ou_peak_failures r) 1)"
  using assms by (auto simp: outage_after_def inserted_def failed_outage_def Let_def new_failures_def
      split: option.splits)

lemma find_outage_key: "find_outage db d = Some r \<Longrightarrow> ou_dependency r = d \<and> r \<in> set (outages_tbl db)"
  unfolding find_outage_def by (drule find_SomeD) simp

lemma set_upsert_inserted:
  assumes "unique_on ou_dependency (outages_tbl db)"
    and "r \<in> set (upsert_outage (inserted now fresh d a (find_outage db d)) (outages_tbl db))"
  shows "r \<in> set (outages_tbl db) \<and> ou_dependency r \<noteq> d \<or> r = outage_after now fresh d a (find_outage db d)"
proof (cases "ou_dependency r = d")
  case True
  from unique_on_find [OF unique_upsert [OF assms(1)] assms(2)] True
  have "find (\<lambda>q. ou_dependency q = d) (upsert_outage (inserted now fresh d a (find_outage db d)) (outages_tbl db)) = Some r"
    by simp
  then show ?thesis
    by (simp add: find_upsert outage_after_def find_outage_def split: option.splits)
next
  case False
  with assms(2) show ?thesis
    by (auto simp: upsert_outage_def set_update_where split: if_splits)
qed

lemma record_failure_cases:
  obtains (overflow) "1025 \<le> new_failures (find_outage db d)"
      "record_dependency_failure now fresh d a db =
        (Inl (PyOverflowError ''int too large to convert to float''), db)"
    | (recorded) db' where "new_failures (find_outage db d) \<le> 1024"
      "db' = db\<lparr>outages_tbl := upsert_outage (inserted now fresh d a (find_outage db d)) (outages_tbl db)\<rparr>"
      "record_dependency_failure now fresh d a db = (Inr (outage_after now fresh d a (find_outage db d)), db')"
      "\<And>d'. find_outage db' d' = (if d' = d then Some (outage_after now fresh d a (find_outage db d))
        else find_outage db d')"
proof (cases "1025 \<le> new_failures (find_outage db d)")
  case True
  then have "outage_delay (fa_initial_backoff_seconds a) (fa_maximum_backoff_seconds a)
      (fa_retry_after_seconds a) (new_failures (find_outage db d)) =
      Inl (PyOverflowError ''int too large to convert to float'')" by (simp add: outage_delay_def)
  with True show ?thesis
    by (intro overflow) (simp_all add: record_dependency_failure_def connect_def Let_def
        new_failures_def [symmetric])
next
  case False
  let ?db = "db\<lparr>outages_tbl := upsert_outage (inserted now fresh d a (find_outage db d)) (outages_tbl db)\<rparr>"
  have found: "find_outage ?db d' = (if d' = d then Some (outage_after now fresh d a (find_outage db d))
      else find_outage db d')" for d'
    by (simp add: find_outage_def find_upsert outage_after_def split: option.splits)
  obtain delay where "outage_delay (fa_initial_backoff_seconds a) (fa_maximum_backoff_seconds a)
      (fa_retry_after_seconds a) (new_failures (find_outage db d)) = Inr delay"
    "retry_at now a (new_failures (find_outage db d)) = now + max 1 (py_int delay)"
    using False by (simp add: outage_delay_def retry_at_def Let_def)
  then have "record_dependency_failure now fresh d a db =
      (Inr (outage_after now fresh d a (find_outage db d)), ?db)"
    using found [of d] by (simp add: record_dependency_failure_def connect_def Let_def
        new_failures_def [symmetric] inserted_def)
  with False found show ?thesis by (intro recorded [of ?db]) simp_all
qed

section \<open>The invariant\<close>

definition in_history :: "outage_db \<Rightarrow> outage_row \<Rightarrow> bool" where
  "in_history db r \<longleftrightarrow> (\<exists>h \<in> set (outage_history_tbl db).
     oh_dependency h = ou_dependency r \<and> oh_outage_id h = ou_outage_id r)"

lemma outages_okI:
  assumes "unique_on ou_dependency (outages_tbl db)"
    "unique_on (\<lambda>h. (oh_dependency h, oh_outage_id h)) (outage_history_tbl db)"
    "\<And>r. r \<in> set (outages_tbl db) \<Longrightarrow> outage_ok r \<and> (ou_status r = ''recovered'') = in_history db r"
    "\<And>h. h \<in> set (outage_history_tbl db) \<Longrightarrow> 0 \<le> oh_duration_seconds h \<and> 1 \<le> oh_peak_failures h"
  shows "outages_ok db"
  using assms unfolding outages_ok_def in_history_def by blast

lemma outages_okD:
  assumes "outages_ok db"
  shows "unique_on ou_dependency (outages_tbl db)"
    "unique_on (\<lambda>h. (oh_dependency h, oh_outage_id h)) (outage_history_tbl db)"
    "r \<in> set (outages_tbl db) \<Longrightarrow> outage_ok r"
    "r \<in> set (outages_tbl db) \<Longrightarrow> (ou_status r = ''recovered'') = in_history db r"
    "h \<in> set (outage_history_tbl db) \<Longrightarrow> 0 \<le> oh_duration_seconds h \<and> 1 \<le> oh_peak_failures h"
  using assms unfolding outages_ok_def in_history_def by blast+

lemma open_or_recovered:
  "outage_ok r \<Longrightarrow> ou_status r = ''open'' \<or> ou_status r = ''recovered''"
  by (auto simp: outage_ok_def)

lemma outage_after_ok:
  assumes "new_failures p \<le> 1024" "case p of None \<Rightarrow> True | Some r \<Rightarrow> outage_ok r"
  shows "outage_ok (outage_after now fresh d a p)"
proof (cases "continuing p")
  case True
  then obtain r where r: "p = Some r" "ou_status r = ''open''"
    by (auto simp: continuing_def split: option.splits)
  with assms outage_after_continues [OF r(2)] show ?thesis
    by (simp add: outage_ok_def le_max_iff_disj)
next
  case False
  from outage_after_starts [OF this] assms(2) show ?thesis
    by (auto simp: outage_ok_def split: option.splits)
qed

lemma record_failure_keeps_ok:
  assumes ok: "outages_ok db" and fresh: "\<forall>h \<in> set (outage_history_tbl db). oh_outage_id h \<noteq> fresh"
  shows "outages_ok (snd (record_dependency_failure now fresh d a db))"
proof (cases rule: record_failure_cases [of db d now fresh a])
  case overflow
  with ok show ?thesis by simp
next
  case (recorded db')
  let ?p = "find_outage db d" and ?new = "outage_after now fresh d a (find_outage db d)"
  have p_ok: "case ?p of None \<Rightarrow> True | Some r \<Rightarrow> outage_ok r"
    using outages_okD(3) [OF ok] find_outage_key by (auto split: option.splits)
  have hist: "outage_history_tbl db' = outage_history_tbl db" using recorded(2) by simp
  have unused: "\<not> in_history db ?new"
  proof (cases "continuing ?p")
    case True
    then obtain r where r: "?p = Some r" "ou_status r = ''open''"
      by (auto simp: continuing_def split: option.splits)
    with find_outage_key [OF r(1)] outages_okD(4) [OF ok, of r] outage_after_continues(1) [OF r(2), of now fresh d a]
    show ?thesis by (simp add: in_history_def)
  next
    case False
    with fresh outage_after_starts(1) [OF False, of now fresh d a] show ?thesis
      by (auto simp: in_history_def)
  qed
  have "outages_ok db'"
  proof (rule outages_okI)
    show "unique_on ou_dependency (outages_tbl db')"
      using outages_okD(1) [OF ok] recorded(2) by (simp add: unique_upsert)
    show "unique_on (\<lambda>h. (oh_dependency h, oh_outage_id h)) (outage_history_tbl db')"
      using outages_okD(2) [OF ok] hist by simp
    fix r assume "r \<in> set (outages_tbl db')"
    with recorded(2) have "r \<in> set (upsert_outage (inserted now fresh d a ?p) (outages_tbl db))" by simp
    from set_upsert_inserted [OF outages_okD(1) [OF ok] this]
    show "outage_ok r \<and> (ou_status r = ''recovered'') = in_history db' r"
    proof
      assume "r \<in> set (outages_tbl db) \<and> ou_dependency r \<noteq> d"
      with outages_okD(3,4) [OF ok, of r] hist show ?thesis by (simp add: in_history_def)
    next
      assume "r = ?new"
      with outage_after_ok [OF recorded(1) p_ok, of now fresh d a] unused hist show ?thesis
        by (simp add: in_history_def)
    qed
  next
    fix h assume "h \<in> set (outage_history_tbl db')"
    with outages_okD(5) [OF ok, of h] hist show "0 \<le> oh_duration_seconds h \<and> 1 \<le> oh_peak_failures h" by simp
  qed
  with recorded(3) show ?thesis by simp
qed

lemma recover_cases:
  assumes ok: "outages_ok db"
  obtains (closed) "\<not> continuing (find_outage db d)" "recover_dependency now d db = (Inr None, db)"
    | (recovered) r db' where "find_outage db d = Some r" "ou_status r = ''open''"
      "recover_dependency now d db =
        (Inr (Some (r\<lparr>ou_recovered_at := Some now, ou_last_success_at := Some now\<rparr>)), db')"
      "outages_tbl db' = update_where (\<lambda>q. ou_dependency q = d) (recovered_outage now) (outages_tbl db)"
      "outage_history_tbl db' = outage_history_tbl db @ [history_of now r]"
      "outage_runs_tbl db' = outage_runs_tbl db"
proof (cases "find (\<lambda>r. ou_dependency r = d \<and> ou_status r = ''open'') (outages_tbl db)")
  case None
  have "\<not> continuing (find_outage db d)"
    using None find_outage_key [of db d] by (auto simp: continuing_def find_None_iff split: option.splits)
  with None show ?thesis by (intro closed) (simp_all add: recover_dependency_def connect_def)
next
  case (Some r)
  with find_SomeD [OF Some] have r: "r \<in> set (outages_tbl db)" "ou_dependency r = d" "ou_status r = ''open''" by auto
  from unique_on_find [OF outages_okD(1) [OF ok] r(1)] r(2) have "find_outage db d = Some r"
    by (simp add: find_outage_def)
  moreover have "\<not> in_history db r" using outages_okD(4) [OF ok r(1)] r(3) by simp
  ultimately show ?thesis using Some r
    by (intro recovered [of r "snd (recover_dependency now d db)"]) (simp_all add: recover_dependency_def connect_def insert_history_def
        history_of_def in_history_def)
qed

lemma recover_keeps_ok:
  assumes ok: "outages_ok db"
  shows "outages_ok (snd (recover_dependency now d db))"
proof (cases rule: recover_cases [OF ok, of d now])
  case 1
  with ok show ?thesis by simp
next
  case (2 r db')
  have r: "r \<in> set (outages_tbl db)" "ou_dependency r = d" using find_outage_key [OF 2(1)] by auto
  have nohist: "\<not> in_history db r" using outages_okD(4) [OF ok r(1)] 2(2) by simp
  have hist: "in_history db' q = (in_history db q \<or> (ou_dependency q = d \<and> ou_outage_id q = ou_outage_id r))" for q
    using 2(5) r(2) by (auto simp: in_history_def history_of_def)
  have "outages_ok db'"
  proof (rule outages_okI)
    show "unique_on ou_dependency (outages_tbl db')"
      unfolding 2(4) by (rule unique_on_update_where [OF outages_okD(1) [OF ok]]) (simp add: recovered_outage_def)
    show "unique_on (\<lambda>h. (oh_dependency h, oh_outage_id h)) (outage_history_tbl db')"
      using outages_okD(2) [OF ok] nohist unfolding 2(5)
      by (auto simp: unique_on_insert history_of_def in_history_def)
    fix q assume "q \<in> set (outages_tbl db')"
    then obtain q0 where q0: "q0 \<in> set (outages_tbl db)"
      "q = (if ou_dependency q0 = d then recovered_outage now q0 else q0)"
      unfolding 2(4) set_update_where by blast
    show "outage_ok q \<and> (ou_status q = ''recovered'') = in_history db' q"
    proof (cases "ou_dependency q0 = d")
      case True
      with r unique_on_eq [OF outages_okD(1) [OF ok] q0(1) r(1)] have "q0 = r" by simp
      with q0(2) True outages_okD(3) [OF ok r(1)] hist [of q] r(2) show ?thesis
        by (simp add: recovered_outage_def outage_ok_def)
    next
      case False
      with q0 outages_okD(3,4) [OF ok q0(1)] hist [of q] show ?thesis by simp
    qed
  next
    fix h assume "h \<in> set (outage_history_tbl db')"
    with outages_okD(3) [OF ok r(1)] outages_okD(5) [OF ok, of h] 2(5)
    show "0 \<le> oh_duration_seconds h \<and> 1 \<le> oh_peak_failures h"
      by (auto simp: history_of_def outage_ok_def)
  qed
  with 2(3) show ?thesis by simp
qed

lemma half_open_keeps_ok:
  assumes ok: "outages_ok db"
  shows "outages_ok (snd (mark_dependency_half_open now d db))"
proof -
  let ?db = "snd (mark_dependency_half_open now d db)"
  define f :: "outage_row \<Rightarrow> outage_row" where "f = (\<lambda>r. r\<lparr>ou_circuit_state := ''half_open'', ou_updated_at := now\<rparr>)"
  define sel :: "outage_row \<Rightarrow> bool" where "sel = (\<lambda>r. ou_dependency r = d \<and> ou_status r = ''open'' \<and>
      ou_circuit_state r = ''open'' \<and> ou_next_retry_at r \<le> now)"
  have db: "outages_tbl ?db = update_where sel f (outages_tbl db)"
    "outage_history_tbl ?db = outage_history_tbl db"
    by (simp_all add: mark_dependency_half_open_def connect_def Let_def f_def sel_def)
  show ?thesis
  proof (rule outages_okI)
    show "unique_on ou_dependency (outages_tbl ?db)"
      unfolding db by (rule unique_on_update_where [OF outages_okD(1) [OF ok]]) (simp add: f_def)
    show "unique_on (\<lambda>h. (oh_dependency h, oh_outage_id h)) (outage_history_tbl ?db)"
      unfolding db by (rule outages_okD(2) [OF ok])
    fix r assume "r \<in> set (outages_tbl ?db)"
    then obtain q where q: "q \<in> set (outages_tbl db)" "r = (if sel q then f q else q)"
      unfolding db set_update_where by blast
    show "outage_ok r \<and> (ou_status r = ''recovered'') = in_history ?db r"
    proof (cases "sel q")
      case True
      then have is_open: "ou_status q = ''open''" by (simp add: sel_def)
      with outages_okD(4) [OF ok q(1)] have "\<not> in_history db q" by simp
      with is_open q(2) True outages_okD(3) [OF ok q(1)] db(2) show ?thesis
        by (simp add: outage_ok_def in_history_def f_def)
    next
      case False
      with q outages_okD(3,4) [OF ok q(1)] db(2) show ?thesis by (simp add: in_history_def)
    qed
  next
    fix h assume "h \<in> set (outage_history_tbl ?db)"
    with outages_okD(5) [OF ok, of h] db(2)
    show "0 \<le> oh_duration_seconds h \<and> 1 \<le> oh_peak_failures h" by simp
  qed
qed

lemma associate_keeps_ok: "outages_ok db \<Longrightarrow> outages_ok (snd (associate_outage_run now d i k db))"
  by (simp add: associate_outage_run_def connect_def outages_ok_def)

definition no_outages :: "outage_db \<Rightarrow> bool" where
  "no_outages db \<longleftrightarrow> outages_tbl db = [] \<and> outage_runs_tbl db = [] \<and> outage_history_tbl db = []"

lemma outage_step_ok: "outage_step db db' \<Longrightarrow> outages_ok db \<Longrightarrow> outages_ok db'"
  by (erule outage_step.cases)
    (simp_all add: record_failure_keeps_ok associate_keeps_ok recover_keeps_ok half_open_keeps_ok)

interpretation outages_inv: inductive_invariant no_outages outage_step outages_ok
proof unfold_locales
  fix db :: outage_db assume "no_outages db"
  then show "outages_ok db" by (simp add: no_outages_def outages_ok_def unique_on_def)
qed (rule outage_step_ok)

text \<open>
  The circuit invariant: in every state the store can reach there is one
  outage row for a dependency, an open one has between 1 and 1024 failures counted,
  no recovery time and an open or half-open circuit, a recovered one a closed
  circuit and no failures, and exactly the recovered outages are in the history,
  each once.
\<close>

theorem reachable_outages:
  assumes "reachable no_outages outage_step db"
  shows "outages_ok db"
  using outages_inv.reachable_inv [OF assms] .

definition sample_failure :: "int option \<Rightarrow> failure_args" where
  "sample_failure retry_after = \<lparr>fa_error = ''timeout'', fa_initial_backoff_seconds = 5,
     fa_maximum_backoff_seconds = 300, fa_error_class = ''dependency_transient'', fa_endpoint = None,
     fa_retry_after_seconds = retry_after\<rparr>"

definition empty_outages :: outage_db where
  "empty_outages = \<lparr>outages_tbl = [], outage_runs_tbl = [], outage_history_tbl = []\<rparr>"

theorem reachable_outages_witness:
  "outages_ok (snd (record_dependency_failure 10 ''o1'' ''gitlab'' (sample_failure None) empty_outages))"
proof -
  have "no_outages empty_outages" by (simp add: no_outages_def empty_outages_def)
  moreover have "outage_step empty_outages
      (snd (record_dependency_failure 10 ''o1'' ''gitlab'' (sample_failure None) empty_outages))"
    by (rule os_failure) (simp add: empty_outages_def)
  ultimately have "reachable no_outages outage_step
      (snd (record_dependency_failure 10 ''o1'' ''gitlab'' (sample_failure None) empty_outages))"
    by (blast intro: reach_init reach_step)
  then show ?thesis by (rule reachable_outages)
qed

section \<open>An outage through repeated failures\<close>

text \<open>Failures of one dependency: the time, the drawn identifier and the error of each.\<close>

definition fail_all :: "string \<Rightarrow> (int \<times> string \<times> failure_args) list \<Rightarrow> outage_db \<Rightarrow> outage_db" where
  "fail_all d fs db = fold (\<lambda>(t, fresh, a) db. snd (record_dependency_failure t fresh d a db)) fs db"

lemma fail_all_snoc [simp]:
  "fail_all d (fs @ [(t, u, a)]) db = snd (record_dependency_failure t u d a (fail_all d fs db))"
  by (simp add: fail_all_def)

lemma record_failure_tables [simp]:
  "outage_history_tbl (snd (record_dependency_failure t u d a db)) = outage_history_tbl db"
  "outage_runs_tbl (snd (record_dependency_failure t u d a db)) = outage_runs_tbl db"
  by (cases rule: record_failure_cases [of db d t u a]; simp)+

lemma record_failure_other: "d' \<noteq> d \<Longrightarrow>
  find_outage (snd (record_dependency_failure t u d a db)) d' = find_outage db d'"
  by (cases rule: record_failure_cases [of db d t u a]) simp_all

lemma fail_all_other:
  "d' \<noteq> d \<Longrightarrow> find_outage (fail_all d fs db) d' = find_outage db d'"
  "outage_history_tbl (fail_all d fs db) = outage_history_tbl db"
  "outage_runs_tbl (fail_all d fs db) = outage_runs_tbl db"
  by (induction fs arbitrary: db) (auto simp: fail_all_def record_failure_other)

definition old_peak :: "outage_row option \<Rightarrow> int" where
  "old_peak p = (case p of None \<Rightarrow> 0 | Some r \<Rightarrow> ou_peak_failures r)"

lemma fail_all_row:
  assumes "\<not> continuing (find_outage db d)" "length fs \<le> 1023"
  shows "\<exists>r. find_outage (fail_all d (fs @ [(t, u, a)]) db) d = Some r \<and> ou_status r = ''open'' \<and>
    ou_outage_id r = fst (snd (hd (fs @ [(t, u, a)]))) \<and> ou_started_at r = fst (hd (fs @ [(t, u, a)])) \<and>
    ou_failures r = int (length fs) + 1 \<and> ou_last_failure_at r = t \<and>
    ou_peak_failures r = max (old_peak (find_outage db d)) (int (length fs) + 1) \<and>
    ou_next_retry_at r = retry_at t a (int (length fs) + 1)"
  using assms(2)
proof (induction fs arbitrary: t u a rule: rev_induct)
  case Nil
  have "new_failures (find_outage db d) = 1" by (rule outage_after_starts(3) [OF assms(1)])
  with outage_after_starts [OF assms(1)] show ?case
    by (cases rule: record_failure_cases [of db d t u a])
      (auto simp: fail_all_def old_peak_def split: option.splits)
next
  case (snoc f fs)
  obtain t0 u0 a0 where f: "f = (t0, u0, a0)" by (metis surj_pair)
  let ?db = "fail_all d (fs @ [f]) db"
  from snoc.IH [of t0 u0 a0] snoc.prems f obtain r where
    r: "find_outage ?db d = Some r" "ou_status r = ''open''"
      "ou_outage_id r = fst (snd (hd (fs @ [f])))" "ou_started_at r = fst (hd (fs @ [f]))"
      "ou_failures r = int (length fs) + 1"
      "ou_peak_failures r = max (old_peak (find_outage db d)) (int (length fs) + 1)" by auto
  note after = outage_after_continues [OF r(2)]
  have hd: "hd ((fs @ [f]) @ [(t, u, a)]) = hd (fs @ [f])" by (cases fs) simp_all
  from snoc.prems have few: "\<not> 1025 \<le> new_failures (find_outage ?db d)" by (simp add: r(1,5) after(3))
  have "find_outage (fail_all d ((fs @ [f]) @ [(t, u, a)]) db) d = Some (outage_after t u d a (Some r))"
    unfolding fail_all_snoc
    by (cases rule: record_failure_cases [of ?db d t u a]) (use few r(1) in auto)
  with after r(3-6) show ?case unfolding hd by simp
qed

lemma floor_max_int: "\<lfloor>max (x :: rat) (of_int s)\<rfloor> = max \<lfloor>x\<rfloor> s"
proof (cases "x \<le> of_int s")
  case True
  then have "\<lfloor>x\<rfloor> \<le> s" using floor_mono [OF True] by simp
  with True show ?thesis by (simp add: max_absorb2)
next
  case False
  then have "of_int s \<le> x" by simp
  then have "s \<le> \<lfloor>x\<rfloor>" by (simp add: le_floor_iff)
  with \<open>of_int s \<le> x\<close> show ?thesis by (simp add: max_absorb1)
qed

lemma raw_delay_pos: "0 < initial \<Longrightarrow> initial \<le> maximum \<Longrightarrow> 0 < raw_delay initial maximum n"
  by (simp add: raw_delay_def)

text \<open>
  The schedule of an outage: through n failures without a recovery the outage
  keeps the identifier and the start of the first one and counts n; it may be
  retried max(1, floor(min(maximum, initial * 2 ^ (n - 1)))) seconds after the last
  one, never later than the maximum, unless the service asked for more, which is
  honoured. Other dependencies are not affected.
\<close>

theorem outage_schedule:
  assumes "\<not> continuing (find_outage db d)" "n = length fs + 1" "n \<le> 1024"
    and "fa_initial_backoff_seconds a = initial" "fa_maximum_backoff_seconds a = maximum"
    and "0 < initial" "initial \<le> maximum"
  shows "\<exists>r. find_outage (fail_all d (fs @ [(t, u, a)]) db) d = Some r \<and>
    ou_outage_id r = fst (snd (hd (fs @ [(t, u, a)]))) \<and> ou_started_at r = fst (hd (fs @ [(t, u, a)])) \<and>
    ou_failures r = int n \<and>
    (case fa_retry_after_seconds a of
       None \<Rightarrow> ou_next_retry_at r = t + max 1 \<lfloor>min maximum (initial * 2 ^ (n - 1))\<rfloor> \<and>
         ou_next_retry_at r \<le> t + max 1 \<lfloor>maximum\<rfloor>
     | Some s \<Rightarrow> ou_next_retry_at r = t + max 1 (max \<lfloor>min maximum (initial * 2 ^ (n - 1))\<rfloor> s)) \<and>
    (\<forall>d'. find_outage (fail_all d (fs @ [(t, u, a)]) db) d' =
       (if d' = d then Some r else find_outage db d'))"
proof -
  from assms(2,3) have len: "length fs \<le> 1023" by simp
  have n: "int (length fs) + 1 = int n" using assms(2) by simp
  from fail_all_row [OF assms(1) len, of t u a, unfolded n] obtain r where
    r: "find_outage (fail_all d (fs @ [(t, u, a)]) db) d = Some r"
      "ou_outage_id r = fst (snd (hd (fs @ [(t, u, a)])))" "ou_started_at r = fst (hd (fs @ [(t, u, a)]))"
      "ou_failures r = int n" "ou_next_retry_at r = retry_at t a (int n)" by blast
  have raw: "raw_delay initial maximum (int n) = min maximum (initial * 2 ^ (n - 1))"
    using assms(2) by (simp add: raw_delay_def)
  let ?raw = "min maximum (initial * 2 ^ (n - 1))"
  have pos: "0 < ?raw" using raw_delay_pos [OF assms(6,7), of "int n"] raw by simp
  have "retry_at t a (int n) = (case fa_retry_after_seconds a of None \<Rightarrow> t + max 1 \<lfloor>?raw\<rfloor>
      | Some s \<Rightarrow> t + max 1 (max \<lfloor>?raw\<rfloor> s))"
  proof (cases "fa_retry_after_seconds a")
    case None
    with pos show ?thesis by (simp add: retry_at_def Let_def assms(4,5) raw py_int_def)
  next
    case (Some s)
    have floor_max: "\<lfloor>max ?raw (of_int s)\<rfloor> = max \<lfloor>?raw\<rfloor> s" by (rule floor_max_int)
    from pos have "0 \<le> max ?raw (of_int s)" by linarith
    then have "py_int (max ?raw (of_int s)) = \<lfloor>max ?raw (of_int s)\<rfloor>" by (simp only: py_int_def if_True)
    with floor_max have "py_int (max ?raw (of_int s)) = max \<lfloor>?raw\<rfloor> s" by simp
    with Some show ?thesis unfolding retry_at_def Let_def assms(4,5) raw by simp
  qed
  moreover have "\<lfloor>?raw\<rfloor> \<le> max 1 \<lfloor>maximum\<rfloor>"
    using floor_mono [of ?raw maximum] by (simp add: le_max_iff_disj)
  ultimately show ?thesis using r fail_all_other(1) [of _ d "fs @ [(t, u, a)]" db]
    by (intro exI [of _ r]) (auto split: option.splits)
qed

theorem outage_schedule_witness:
  "\<exists>r. find_outage (fail_all ''gitlab'' ([(10, ''o1'', sample_failure None), (20, ''o2'', sample_failure None)] @
      [(50, ''o3'', sample_failure None)]) empty_outages) ''gitlab'' = Some r \<and>
    ou_outage_id r = ''o1'' \<and> ou_failures r = 3 \<and> ou_next_retry_at r = 70"
proof -
  have 1: "\<not> continuing (find_outage empty_outages ''gitlab'')"
    by (simp add: continuing_def find_outage_def empty_outages_def)
  have 2: "fa_initial_backoff_seconds (sample_failure None) = 5"
    "fa_maximum_backoff_seconds (sample_failure None) = 300"
    "fa_retry_after_seconds (sample_failure None) = None" by (simp_all add: sample_failure_def)
  from outage_schedule [OF 1 refl, of "[(10, ''o1'', sample_failure None), (20, ''o2'', sample_failure None)]",
      OF _ 2(1,2), of 50 "''o3''"] show ?thesis
    by (auto simp: 2(3))
qed

section \<open>Recovery\<close>

lemma fail_all_ok:
  assumes "outages_ok db" "\<forall>(t, u, a) \<in> set fs. \<forall>h \<in> set (outage_history_tbl db). oh_outage_id h \<noteq> u"
  shows "outages_ok (fail_all d fs db)"
  using assms
proof (induction fs rule: rev_induct)
  case Nil then show ?case by (simp add: fail_all_def)
next
  case (snoc f fs)
  obtain t u a where f: "f = (t, u, a)" by (metis surj_pair)
  from snoc.prems(2) f have "\<forall>h \<in> set (outage_history_tbl (fail_all d fs db)). oh_outage_id h \<noteq> u"
    by (simp add: fail_all_other(2))
  with snoc f record_failure_keeps_ok show ?case by simp
qed

text \<open>
  A recovery is recorded exactly once: recovering a dependency after n failures
  appends one history entry with the outage's identifier, its start and its length,
  closes the circuit, and a second recovery does nothing. The entry's peak is the
  larger of n and the peak of the dependency's previous, already recovered outage.
\<close>

theorem recovery_is_recorded:
  assumes ok: "outages_ok db" and p: "\<not> continuing (find_outage db d)" and len: "length fs \<le> 1023"
    and unused: "\<forall>(t, u, a) \<in> set (fs @ [(t, u, a)]). \<forall>h \<in> set (outage_history_tbl db). oh_outage_id h \<noteq> u"
    and db': "db' = snd (recover_dependency now d (fail_all d (fs @ [(t, u, a)]) db))"
  shows "\<exists>h r. outage_history_tbl db' = outage_history_tbl db @ [h] \<and>
    oh_dependency h = d \<and> oh_outage_id h = fst (snd (hd (fs @ [(t, u, a)]))) \<and>
    oh_started_at h = fst (hd (fs @ [(t, u, a)])) \<and> oh_recovered_at h = now \<and>
    oh_duration_seconds h = max 0 (now - fst (hd (fs @ [(t, u, a)]))) \<and>
    oh_peak_failures h = max (old_peak (find_outage db d)) (int (length fs) + 1) \<and>
    find_outage db' d = Some r \<and> ou_circuit_state r = ''closed'' \<and> ou_failures r = 0 \<and>
    recover_dependency later d db' = (Inr None, db')"
proof -
  let ?f = "fail_all d (fs @ [(t, u, a)]) db"
  from fail_all_row [OF p len, of t u a] obtain r where
    r: "find_outage ?f d = Some r" "ou_status r = ''open''"
      "ou_outage_id r = fst (snd (hd (fs @ [(t, u, a)])))" "ou_started_at r = fst (hd (fs @ [(t, u, a)]))"
      "ou_peak_failures r = max (old_peak (find_outage db d)) (int (length fs) + 1)" by blast
  have dep: "ou_dependency r = d" using find_outage_key [OF r(1)] by simp
  have f_ok: "outages_ok ?f" by (rule fail_all_ok [OF ok unused])
  have db'_ok: "outages_ok db'" unfolding db' by (rule recover_keeps_ok [OF f_ok])
  show ?thesis
  proof (cases rule: recover_cases [OF f_ok, of d now])
    case 1
    with r(1,2) show ?thesis by (simp add: continuing_def)
  next
    case (2 q dbr)
    with r(1) db' have q: "q = r" "dbr = db'" by simp_all
    have found: "find_outage db' d = Some (recovered_outage now r)"
    proof -
      have "find (\<lambda>x. ou_dependency x = d) (outages_tbl db') = map_option
          (\<lambda>x. if ou_dependency x = d then recovered_outage now x else x)
          (find (\<lambda>x. ou_dependency x = d) (outages_tbl ?f))"
        unfolding 2(4) [unfolded q] by (rule find_update_where) (simp add: recovered_outage_def)
      with r(1) dep show ?thesis by (simp add: find_outage_def)
    qed
    then have "\<not> continuing (find_outage db' d)" by (simp add: continuing_def recovered_outage_def)
    then have "recover_dependency later d db' = (Inr None, db')"
      by (cases rule: recover_cases [OF db'_ok, of d later]) (simp_all add: continuing_def)
    with 2(5) q found r(3-5) dep show ?thesis
      by (intro exI [of _ "history_of now r"] exI [of _ "recovered_outage now r"])
        (simp add: fail_all_other(2) history_of_def recovered_outage_def)
  qed
qed

theorem recovery_is_recorded_witness:
  "\<exists>h. outage_history_tbl (snd (recover_dependency 100 ''gitlab'' (fail_all ''gitlab''
      ([(10, ''o1'', sample_failure None)] @ [(20, ''o2'', sample_failure None)]) empty_outages))) = [h] \<and>
    oh_outage_id h = ''o1'' \<and> oh_duration_seconds h = 90 \<and> oh_peak_failures h = 2"
proof -
  have 1: "outages_ok empty_outages" by (simp add: outages_ok_def empty_outages_def unique_on_def)
  have 2: "\<not> continuing (find_outage empty_outages ''gitlab'')"
    and 3: "old_peak (find_outage empty_outages ''gitlab'') = 0" "outage_history_tbl empty_outages = []"
    by (simp_all add: continuing_def old_peak_def find_outage_def empty_outages_def)
  from recovery_is_recorded [OF 1 2, of "[(10, ''o1'', sample_failure None)]" 20 "''o2''" "sample_failure None",
      OF _ _ refl, of 100 0] show ?thesis by (auto simp: 3)
qed

text \<open>
  The failure counter ends at 1024: from the 1025th failure of an outage on,
  recording a failure raises OverflowError and leaves the store as it is, whatever
  the error, so the retry time no longer moves.
\<close>

theorem failure_counter_overflows:
  assumes "\<not> continuing (find_outage db d)" "length fs = 1024"
  shows "record_dependency_failure now fresh d b (fail_all d fs db) =
      (Inl (PyOverflowError ''int too large to convert to float''), fail_all d fs db)"
proof -
  obtain gs t u a where fs: "fs = gs @ [(t, u, a)]" "length gs = 1023"
    using assms(2) by (cases fs rule: rev_cases) auto
  from fail_all_row [OF assms(1), of gs t u a] fs obtain r where
    "find_outage (fail_all d fs db) d = Some r" "ou_status r = ''open''" "ou_failures r = 1024" by auto
  then have "new_failures (find_outage (fail_all d fs db) d) = 1025"
    by (simp add: outage_after_continues)
  then show ?thesis
    by (cases rule: record_failure_cases [of "fail_all d fs db" d now fresh b]) auto
qed

theorem failure_counter_overflows_witness:
  "fst (record_dependency_failure 9 ''u'' ''gitlab'' (sample_failure None)
     (fail_all ''gitlab'' (replicate 1024 (0, ''o'', sample_failure None)) empty_outages)) =
    Inl (PyOverflowError ''int too large to convert to float'')"
proof -
  have "\<not> continuing (find_outage empty_outages ''gitlab'')"
    by (simp add: continuing_def find_outage_def empty_outages_def)
  from failure_counter_overflows [OF this, of "replicate 1024 (0, ''o'', sample_failure None)"
      9 "''u''" "sample_failure None"] show ?thesis by simp
qed

end
