(* ===== verification/Circuit_Properties.thy ===== *)
theory Circuit_Properties
  imports Circuit Outage_Properties
begin

text \<open>
  Degradation and recovery of runs: a dependency error concerns its own run only,
  the GitLab circuit opens exactly at the configured number of corroborating runs,
  and a run becomes active again exactly when no open outage concerns it.
\<close>

section \<open>The parts of the state\<close>

lemma on_part_simps [simp]:
  "m (sd_control s) = (r, c) \<Longrightarrow> on_control m s = (r, s\<lparr>sd_control := c\<rparr>)"
  "n (sd_outages s) = (r', d) \<Longrightarrow> on_outages n s = (r', s\<lparr>sd_outages := d\<rparr>)"
  "b (sd_outbox s) = (r'', x) \<Longrightarrow> on_outbox b s = (r'', s\<lparr>sd_outbox := x\<rparr>)"
  by (simp_all add: on_control_def on_outages_def on_outbox_def on_part_def)

lemma transition_exact:
  assumes "unique_on rc_run_key (run_control_tbl db)" "run_control db k = Some row"
    and "ta_new_state a \<in> set RUN_STATES" "rc_state row \<in> set (ta_expected_states a)"
    and "ta_expected_version a = Some (rc_state_version row)"
  shows "\<exists>db'. transition_run now k a db = (Inr (apply_transition now a row), db') \<and>
    unique_on rc_run_key (run_control_tbl db') \<and>
    (\<forall>k'. run_control db' k' = (if k' = k then Some (apply_transition now a row) else run_control db k'))"
proof -
  let ?sel = "\<lambda>r. rc_run_key r = k \<and> rc_state_version r = rc_state_version row"
  let ?db = "db\<lparr>run_control_tbl := update_where ?sel (apply_transition now a) (run_control_tbl db)\<rparr>"
  from assms(2) have row: "row \<in> set (run_control_tbl db)" "rc_run_key row = k"
    using find_SomeD by (fastforce simp: run_control_def)+
  have key: "rc_run_key (apply_transition now a r) = rc_run_key r" for r by (simp add: apply_transition_def)
  have one: "rowcount ?sel (run_control_tbl db) = 1"
    by (rule rowcount_one [OF assms(1) row(1)]) (simp_all add: row(2))
  have keys: "run_control ?db k' = map_option (\<lambda>r. if ?sel r then apply_transition now a r else r) (run_control db k')" for k'
    unfolding run_control_def by simp (rule find_update_where, simp add: key)
  have found: "run_control ?db k' = (if k' = k then Some (apply_transition now a row) else run_control db k')" for k'
  proof (cases "k' = k")
    case True
    with keys [of k] assms(2) row show ?thesis by simp
  next
    case False
    have "rc_run_key r \<noteq> k" if "run_control db k' = Some r" for r
      using find_SomeD that False by (fastforce simp: run_control_def)
    with keys [of k'] False show ?thesis by (cases "run_control db k'") simp_all
  qed
  have "transition_write now k a (rc_state_version row) db = (Inr (apply_transition now a row), ?db)"
    using one found [of k] by (simp add: transition_write_def Let_def)
  then have "transition_run now k a db = (Inr (apply_transition now a row), ?db)"
    using assms(2-5) by (simp add: transition_run_def transition_body_def connect_def)
  moreover have "unique_on rc_run_key (run_control_tbl ?db)"
    using unique_on_update_where [OF assms(1)] key by simp
  ultimately show ?thesis using found by blast
qed

lemma known_states [simp]:
  "''dependency_degraded'' \<in> set RUN_STATES" "''active'' \<in> set RUN_STATES"
  by (simp_all add: RUN_STATES_def)

lemma abort_states_known: "x \<in> set abort_states \<Longrightarrow> x \<in> set RUN_STATES"
  by (auto simp: abort_states_def RUN_STATES_def)

lemma move_args_fields [simp]:
  "ta_new_state (move_args c n r t) = n" "ta_expected_states (move_args c n r t) = [rc_state c]"
  "ta_expected_version (move_args c n r t) = Some (rc_state_version c)"
  "ta_next_retry_at (move_args c n r t) = t"
  by (simp_all add: move_args_def)

lemma apply_transition_fields [simp]:
  "rc_state (apply_transition now a r) = ta_new_state a"
  "rc_next_retry_at (apply_transition now a r) = ta_next_retry_at a"
  "rc_state_version (apply_transition now a r) = rc_state_version r + 1"
  by (simp_all add: apply_transition_def)

text \<open>Moving one run, seen from the service state.\<close>

lemma move_run:
  assumes "unique_on rc_run_key (run_control_tbl (sd_control s))" "run_control (sd_control s) k = Some r"
    and "n \<in> set RUN_STATES"
  obtains c where "ignore_result (on_control (transition_run now k (move_args r n reason t))) s =
      (Inr (), s\<lparr>sd_control := c\<rparr>)"
    "unique_on rc_run_key (run_control_tbl c)"
    "\<And>k'. run_control c k' = (if k' = k then Some (apply_transition now (move_args r n reason t) r)
      else run_control (sd_control s) k')"
proof -
  from transition_exact [OF assms(1,2), of "move_args r n reason t" now] assms(3) obtain c where
    "transition_run now k (move_args r n reason t) (sd_control s) =
      (Inr (apply_transition now (move_args r n reason t) r), c)"
    "unique_on rc_run_key (run_control_tbl c)"
    "\<forall>k'. run_control c k' = (if k' = k then Some (apply_transition now (move_args r n reason t) r)
      else run_control (sd_control s) k')" by auto
  then show ?thesis by (intro that [of c]) (simp_all add: ignore_result_def)
qed

text \<open>The notices only write to the outbox, and never raise.\<close>

lemma notice_effect:
  "\<exists>x. enqueue_dependency_outage env now k r s = (Inr (), s\<lparr>sd_outbox := x\<rparr>)"
  "\<exists>x. enqueue_dependency_recovered env now k r s = (Inr (), s\<lparr>sd_outbox := x\<rparr>)"
proof -
  have enq: "\<exists>x. on_outbox (enqueue now key run_key event payload) s = (Inr (), s\<lparr>sd_outbox := x\<rparr>)"
    for key run_key event payload
  proof -
    have "enqueue now key run_key event payload (sd_outbox s) =
        (Inr (), snd (enqueue now key run_key event payload (sd_outbox s)))"
      by (simp add: enqueue_def connect_def)
    then show ?thesis by (blast intro: on_part_simps(3))
  qed
  have same: "\<exists>x. give () s = (Inr (), s\<lparr>sd_outbox := x\<rparr>)"
    by (intro exI [of _ "sd_outbox s"]) simp
  show "\<exists>x. enqueue_dependency_outage env now k r s = (Inr (), s\<lparr>sd_outbox := x\<rparr>)"
    using enq same by (auto simp: enqueue_dependency_outage_def split: option.splits)
  show "\<exists>x. enqueue_dependency_recovered env now k r s = (Inr (), s\<lparr>sd_outbox := x\<rparr>)"
    using enq same by (auto simp: enqueue_dependency_recovered_def split: option.splits)
qed

section \<open>Associations\<close>

lemma associate_ok: "fst (associate_outage_run now d i k db) = Inr ()"
  by (simp add: associate_outage_run_def connect_def)

lemma in_outage_run_keys:
  "k \<in> set (outage_run_keys db d i) \<longleftrightarrow> (\<exists>r \<in> set (outage_runs_tbl db).
     our_dependency r = d \<and> our_outage_id r = i \<and> our_run_key r = k)"
  by (auto simp: outage_run_keys_def order_by_def)

lemma associate_keys:
  "set (outage_run_keys (snd (associate_outage_run now d i k db)) d' i') =
    set (outage_run_keys db d' i') \<union> (if d' = d \<and> i' = i then {k} else {})"
proof (cases "k \<in> set (outage_run_keys db d i)")
  case True
  then have "snd (associate_outage_run now d i k db) = db"
    unfolding in_outage_run_keys associate_outage_run_def connect_def by auto
  with True show ?thesis by auto
next
  case False
  then have "snd (associate_outage_run now d i k db) = db\<lparr>outage_runs_tbl := outage_runs_tbl db @
      [\<lparr>our_dependency = d, our_outage_id = i, our_run_key = k, our_created_at = now\<rparr>]\<rparr>"
    unfolding in_outage_run_keys associate_outage_run_def connect_def by auto
  then show ?thesis by (simp add: outage_run_keys_def order_by_def)
qed

lemma associate_keys_other:
  "d' \<noteq> d \<Longrightarrow> outage_run_keys (snd (associate_outage_run now d i k db)) d' i' = outage_run_keys db d' i'"
  by (simp add: associate_outage_run_def connect_def outage_run_keys_def)

lemma associate_tables [simp]:
  "outages_tbl (snd (associate_outage_run now d i k db)) = outages_tbl db"
  by (simp add: associate_outage_run_def connect_def)

lemma associate_all:
  "\<exists>db'. for_each (\<lambda>k. on_outages (associate_outage_run now d i k)) ks s = (Inr (), s\<lparr>sd_outages := db'\<rparr>) \<and>
    outages_tbl db' = outages_tbl (sd_outages s) \<and>
    (\<forall>d' i'. set (outage_run_keys db' d' i') =
       set (outage_run_keys (sd_outages s) d' i') \<union> (if d' = d \<and> i' = i then set ks else {})) \<and>
    (\<forall>d' i'. d' \<noteq> d \<longrightarrow> outage_run_keys db' d' i' = outage_run_keys (sd_outages s) d' i')"
proof (induction ks arbitrary: s)
  case Nil
  show ?case by (intro exI [of _ "sd_outages s"]) simp
next
  case (Cons k ks)
  let ?db = "snd (associate_outage_run now d i k (sd_outages s))"
  have one: "on_outages (associate_outage_run now d i k) s = (Inr (), s\<lparr>sd_outages := ?db\<rparr>)"
    using associate_ok [of now d i k "sd_outages s"]
    by (cases "associate_outage_run now d i k (sd_outages s)") simp
  from Cons.IH [of "s\<lparr>sd_outages := ?db\<rparr>"] obtain db' where
    "for_each (\<lambda>k. on_outages (associate_outage_run now d i k)) ks (s\<lparr>sd_outages := ?db\<rparr>) =
      (Inr (), s\<lparr>sd_outages := db'\<rparr>)" "outages_tbl db' = outages_tbl (sd_outages s)"
    "\<forall>d' i'. set (outage_run_keys db' d' i') =
       set (outage_run_keys ?db d' i') \<union> (if d' = d \<and> i' = i then set ks else {})"
    "\<forall>d' i'. d' \<noteq> d \<longrightarrow> outage_run_keys db' d' i' = outage_run_keys ?db d' i'" by auto
  with one show ?case by (intro exI [of _ db']) (auto simp: associate_keys associate_keys_other)
qed

section \<open>The steps of a failure\<close>

definition degraded_to :: "int \<Rightarrow> rc_row \<Rightarrow> rc_row \<Rightarrow> bool" where
  "degraded_to n r r' \<longleftrightarrow>
     (if rc_state r \<in> set degradable_states
      then rc_state r' = ''dependency_degraded'' \<and> rc_next_retry_at r' = Some n \<and>
        rc_state_version r' = rc_state_version r + 1
      else if rc_state r \<in> set abort_states
      then rc_state r' = rc_state r \<and> rc_next_retry_at r' = Some n \<and>
        rc_state_version r' = rc_state_version r + 1
      else r' = r)"

lemma degrade_effect:
  assumes "unique_on rc_run_key (run_control_tbl (sd_control s))"
  obtains c where "degrade_run now k reason n s = (Inr (), s\<lparr>sd_control := c\<rparr>)"
    "unique_on rc_run_key (run_control_tbl c)"
    "\<And>k'. k' \<noteq> k \<Longrightarrow> run_control c k' = run_control (sd_control s) k'"
    "rel_option (degraded_to n) (run_control (sd_control s) k) (run_control c k)"
proof (cases "run_control (sd_control s) k")
  case None
  then show ?thesis by (intro that [of "sd_control s"]) (simp_all add: degrade_run_def assms)
next
  case (Some r)
  note goal = that
  have moved: thesis if known: "m \<in> set RUN_STATES" and step: "degrade_run now k reason n s =
      ignore_result (on_control (transition_run now k (move_args r m reason (Some n)))) s"
      and to: "degraded_to n r (apply_transition now (move_args r m reason (Some n)) r)" for m
  proof -
    obtain c where "ignore_result (on_control (transition_run now k (move_args r m reason (Some n)))) s =
        (Inr (), s\<lparr>sd_control := c\<rparr>)" "unique_on rc_run_key (run_control_tbl c)"
      "\<And>k'. run_control c k' = (if k' = k then Some (apply_transition now (move_args r m reason (Some n)) r)
        else run_control (sd_control s) k')"
      using move_run [OF assms Some known, of now reason "Some n"] by blast
    with Some step to show thesis by (intro goal [of c]) simp_all
  qed
  consider (degradable) "rc_state r \<in> set degradable_states"
    | (aborting) "rc_state r \<notin> set degradable_states" "rc_state r \<in> set abort_states"
    | (other) "rc_state r \<notin> set degradable_states" "rc_state r \<notin> set abort_states" by blast
  then show ?thesis
  proof cases
    case degradable
    with Some show ?thesis
      by (intro moved [of "''dependency_degraded''"]) (simp_all add: degrade_run_def degraded_to_def)
  next
    case aborting
    with Some abort_states_known show ?thesis
      by (intro moved [of "rc_state r"]) (simp_all add: degrade_run_def degraded_to_def)
  next
    case other
    with Some show ?thesis
      by (intro that [of "sd_control s"]) (simp_all add: degrade_run_def assms degraded_to_def)
  qed
qed

lemma record_ok:
  assumes "new_failures (find_outage (sd_outages s) d) \<le> 1024"
  obtains db' r where "on_outages (record_dependency_failure now fresh d a) s = (Inr r, s\<lparr>sd_outages := db'\<rparr>)"
    "r = outage_after now fresh d a (find_outage (sd_outages s) d)"
    "\<And>d'. find_outage db' d' = (if d' = d then Some r else find_outage (sd_outages s) d')"
    "outages_tbl db' = upsert_outage (inserted now fresh d a (find_outage (sd_outages s) d)) (outages_tbl (sd_outages s))"
    "outage_runs_tbl db' = outage_runs_tbl (sd_outages s)"
  using assms by (cases rule: record_failure_cases [of "sd_outages s" d now fresh a]) (auto intro: that)

lemma retry_later: "now < retry_at now a n"
  by (simp add: retry_at_def Let_def)

text \<open>The GitLab row is not one of the run-scoped outages.\<close>

lemma filter_upsert_off:
  assumes "\<And>r. ou_dependency r = ou_dependency new \<Longrightarrow> \<not> P r"
  shows "filter P (upsert_outage new t) = filter P t"
proof -
  have "filter P (update_where (\<lambda>r. ou_dependency r = ou_dependency new)
      (\<lambda>r. new\<lparr>ou_peak_failures := max (ou_peak_failures r) (ou_peak_failures new),
           ou_last_success_at := ou_last_success_at r\<rparr>) t) = filter P t"
    using assms by (induction t) auto
  then show ?thesis using assms by (simp add: upsert_outage_def)
qed

lemma corroborating_cong:
  assumes "filter run_scoped_gitlab (outages_tbl db') = filter run_scoped_gitlab (outages_tbl db)"
    and "\<And>d i. d \<noteq> ''gitlab'' \<Longrightarrow> outage_run_keys db' d i = outage_run_keys db d i"
  shows "corroborating_runs db' = corroborating_runs db"
proof -
  have "filter run_scoped_gitlab (open_dependency_outages x) =
      order_by (\<lambda>r. (ou_started_at r, ou_dependency r))
        (filter (\<lambda>r. ou_status r = ''open'') (filter run_scoped_gitlab (outages_tbl x)))" for x
    by (simp add: open_dependency_outages_def order_by_def filter_sort conj_commute)
  then have "filter run_scoped_gitlab (open_dependency_outages db') =
      filter run_scoped_gitlab (open_dependency_outages db)" by (simp only: assms(1))
  moreover have keys: "outage_run_keys db' (ou_dependency r) (ou_outage_id r) =
      outage_run_keys db (ou_dependency r) (ou_outage_id r)" if "run_scoped_gitlab r" for r
    using that by (intro assms(2)) (auto simp: run_scoped_gitlab_def starts_with_def)
  have "map (\<lambda>r. outage_run_keys db' (ou_dependency r) (ou_outage_id r)) (filter run_scoped_gitlab xs) =
      map (\<lambda>r. outage_run_keys db (ou_dependency r) (ou_outage_id r)) (filter run_scoped_gitlab xs)" for xs
    by (rule map_cong [OF refl]) (simp add: keys)
  ultimately show ?thesis by (simp only: corroborating_runs_def)
qed

definition threshold :: "circuit_env \<Rightarrow> int" where
  "threshold env = cf_dependency_circuit_failure_threshold (ce_config env)"

lemma open_circuit_effect:
  assumes "new_failures (find_outage (sd_outages s) ''gitlab'') \<le> 1024"
  obtains db' where "open_gitlab_circuit env now fresh e s = (Inr (), s\<lparr>sd_outages := db'\<rparr>)"
    "\<And>d. d \<noteq> ''gitlab'' \<Longrightarrow> find_outage db' d = find_outage (sd_outages s) d"
    "\<And>d i. d \<noteq> ''gitlab'' \<Longrightarrow> outage_run_keys db' d i = outage_run_keys (sd_outages s) d i"
    "corroborating_runs db' = corroborating_runs (sd_outages s)"
    "if int (length (corroborating_runs (sd_outages s))) < threshold env
     then find_outage db' ''gitlab'' = find_outage (sd_outages s) ''gitlab''
     else \<exists>r. find_outage db' ''gitlab'' = Some r \<and> ou_status r = ''open'' \<and> now < ou_next_retry_at r \<and>
       set (corroborating_runs (sd_outages s)) \<subseteq> set (outage_run_keys db' ''gitlab'' (ou_outage_id r))"
proof (cases "int (length (corroborating_runs (sd_outages s))) < threshold env")
  case True
  then show ?thesis
    by (intro that [of "sd_outages s"]) (simp_all add: open_gitlab_circuit_def Let_def threshold_def)
next
  case False
  let ?runs = "corroborating_runs (sd_outages s)"
  obtain db1 r where db1: "on_outages (record_dependency_failure now fresh ''gitlab'' (failure_of env e)) s =
      (Inr r, s\<lparr>sd_outages := db1\<rparr>)"
    "r = outage_after now fresh ''gitlab'' (failure_of env e) (find_outage (sd_outages s) ''gitlab'')"
    "\<And>d'. find_outage db1 d' = (if d' = ''gitlab'' then Some r else find_outage (sd_outages s) d')"
    "outages_tbl db1 = upsert_outage (inserted now fresh ''gitlab'' (failure_of env e)
      (find_outage (sd_outages s) ''gitlab'')) (outages_tbl (sd_outages s))"
    "outage_runs_tbl db1 = outage_runs_tbl (sd_outages s)"
    using record_ok [OF assms, of now fresh "failure_of env e"] by blast
  obtain db' where db': "for_each (\<lambda>k. on_outages (associate_outage_run now ''gitlab'' (ou_outage_id r) k)) ?runs
      (s\<lparr>sd_outages := db1\<rparr>) = (Inr (), s\<lparr>sd_outages := db'\<rparr>)"
    "outages_tbl db' = outages_tbl db1"
    "\<And>d' i'. set (outage_run_keys db' d' i') = set (outage_run_keys db1 d' i') \<union>
      (if d' = ''gitlab'' \<and> i' = ou_outage_id r then set ?runs else {})"
    "\<And>d' i'. d' \<noteq> ''gitlab'' \<Longrightarrow> outage_run_keys db' d' i' = outage_run_keys db1 d' i'"
    using associate_all [of now "''gitlab''" "ou_outage_id r" ?runs "s\<lparr>sd_outages := db1\<rparr>"] by auto
  have step: "open_gitlab_circuit env now fresh e s = (Inr (), s\<lparr>sd_outages := db'\<rparr>)"
    using False db1(1) db'(1) by (simp add: open_gitlab_circuit_def Let_def threshold_def)
  have rows: "find_outage db' d = find_outage db1 d" for d by (simp add: find_outage_def db'(2))
  have keys: "outage_run_keys db' d i = outage_run_keys (sd_outages s) d i" if "d \<noteq> ''gitlab''" for d i
    using db'(4) [OF that] db1(5) by (simp add: outage_run_keys_def)
  have "filter run_scoped_gitlab (outages_tbl db') = filter run_scoped_gitlab (outages_tbl (sd_outages s))"
    unfolding db'(2) db1(4) by (rule filter_upsert_off) (simp add: run_scoped_gitlab_def starts_with_def)
  from corroborating_cong [OF this keys] step rows db1(2,3) db'(3) keys False retry_later show ?thesis
    by (intro that [of db']) simp_all
qed

text \<open>The whole handler: what it leaves in the run, the outage and the GitLab circuit.\<close>

definition corroborates :: "ctl_error \<Rightarrow> bool" where
  "corroborates e \<longleftrightarrow> ec_dependency (the_context e) = ''gitlab'' \<and> is_transient e"

lemma handle_effect:
  assumes u: "unique_on rc_run_key (run_control_tbl (sd_control s))" and e: "\<not> is_contract e"
    and d: "d = dependency_scope (Some k) e"
    and few: "new_failures (find_outage (sd_outages s) d) \<le> 1024"
      "new_failures (find_outage (sd_outages s) ''gitlab'') \<le> 1024"
  obtains outage s' where "handle_dependency_error env now fresh fresh' k e s = (Inr outage, s')"
    "ou_dependency outage = d" "ou_status outage = ''open''" "now < ou_next_retry_at outage"
    "find_outage (sd_outages s') d = Some outage"
    "k \<in> set (outage_run_keys (sd_outages s') d (ou_outage_id outage))"
    "\<And>k'. k' \<noteq> k \<Longrightarrow> run_control (sd_control s') k' = run_control (sd_control s) k'"
    "rel_option (degraded_to (ou_next_retry_at outage)) (run_control (sd_control s) k) (run_control (sd_control s') k)"
    "d \<noteq> ''gitlab'' \<Longrightarrow>
     if corroborates e \<and> threshold env \<le> int (length (corroborating_runs (sd_outages s')))
     then \<exists>r. find_outage (sd_outages s') ''gitlab'' = Some r \<and> ou_status r = ''open'' \<and> now < ou_next_retry_at r \<and>
       set (corroborating_runs (sd_outages s')) \<subseteq> set (outage_run_keys (sd_outages s') ''gitlab'' (ou_outage_id r))
     else find_outage (sd_outages s') ''gitlab'' = find_outage (sd_outages s) ''gitlab''"
proof -
  obtain db1 outage where db1: "on_outages (record_dependency_failure now fresh d (failure_of env e)) s =
      (Inr outage, s\<lparr>sd_outages := db1\<rparr>)"
    "outage = outage_after now fresh d (failure_of env e) (find_outage (sd_outages s) d)"
    "\<And>d'. find_outage db1 d' = (if d' = d then Some outage else find_outage (sd_outages s) d')"
    using record_ok [OF few(1), of now fresh "failure_of env e"] by blast
  define db2 where "db2 = snd (associate_outage_run now d (ou_outage_id outage) k db1)"
  have db2: "on_outages (associate_outage_run now d (ou_outage_id outage) k) (s\<lparr>sd_outages := db1\<rparr>) =
      (Inr (), s\<lparr>sd_outages := db2\<rparr>)"
    using associate_ok [of now d "ou_outage_id outage" k db1]
    by (cases "associate_outage_run now d (ou_outage_id outage) k db1") (simp add: db2_def)
  have rows2: "find_outage db2 d' = find_outage db1 d'" for d' by (simp add: db2_def find_outage_def)
  have key2: "k \<in> set (outage_run_keys db2 d (ou_outage_id outage))" by (simp add: db2_def associate_keys)
  let ?s2 = "s\<lparr>sd_outages := db2\<rparr>"
  let ?go = "ec_dependency (the_context e) = ''gitlab'' \<and> d \<noteq> ''gitlab'' \<and> is_transient e"
  obtain db3 where db3: "(if ?go then open_gitlab_circuit env now fresh' e else give ()) ?s2 = (Inr (), ?s2\<lparr>sd_outages := db3\<rparr>)"
    "find_outage db3 d = Some outage" "k \<in> set (outage_run_keys db3 d (ou_outage_id outage))"
    "d \<noteq> ''gitlab'' \<Longrightarrow>
     if corroborates e \<and> threshold env \<le> int (length (corroborating_runs db3))
     then \<exists>r. find_outage db3 ''gitlab'' = Some r \<and> ou_status r = ''open'' \<and> now < ou_next_retry_at r \<and>
       set (corroborating_runs db3) \<subseteq> set (outage_run_keys db3 ''gitlab'' (ou_outage_id r))
     else find_outage db3 ''gitlab'' = find_outage (sd_outages s) ''gitlab''"
  proof (cases ?go)
    case False
    then have "d \<noteq> ''gitlab'' \<Longrightarrow> \<not> corroborates e" by (simp add: corroborates_def)
    with False show ?thesis using rows2 key2 db1(3) by (intro that [of db2]) auto
  next
    case True
    have "new_failures (find_outage (sd_outages ?s2) ''gitlab'') \<le> 1024"
      using True rows2 db1(3) [of "''gitlab''"] few(2) by auto
    then obtain db where
      db: "open_gitlab_circuit env now fresh' e ?s2 = (Inr (), ?s2\<lparr>sd_outages := db\<rparr>)"
      "\<And>d. d \<noteq> ''gitlab'' \<Longrightarrow> find_outage db d = find_outage (sd_outages ?s2) d"
      "\<And>d i. d \<noteq> ''gitlab'' \<Longrightarrow> outage_run_keys db d i = outage_run_keys (sd_outages ?s2) d i"
      "corroborating_runs db = corroborating_runs (sd_outages ?s2)"
      "if int (length (corroborating_runs (sd_outages ?s2))) < threshold env
       then find_outage db ''gitlab'' = find_outage (sd_outages ?s2) ''gitlab''
       else \<exists>r. find_outage db ''gitlab'' = Some r \<and> ou_status r = ''open'' \<and> now < ou_next_retry_at r \<and>
         set (corroborating_runs (sd_outages ?s2)) \<subseteq> set (outage_run_keys db ''gitlab'' (ou_outage_id r))"
      by (rule open_circuit_effect [of ?s2 env now fresh' e]) (rule that)
    have "corroborates e" using True by (simp add: corroborates_def)
    with True db rows2 key2 db1(3) show ?thesis
      by (intro that [of db]) (auto simp: not_less split: if_splits)
  qed
  let ?s3 = "?s2\<lparr>sd_outages := db3\<rparr>"
  have "unique_on rc_run_key (run_control_tbl (sd_control ?s3))" using u by simp
  from degrade_effect [OF this, of now k "outage_reason e" "ou_next_retry_at outage"] obtain c where
    c: "degrade_run now k (outage_reason e) (ou_next_retry_at outage) ?s3 = (Inr (), ?s3\<lparr>sd_control := c\<rparr>)"
      "\<And>k'. k' \<noteq> k \<Longrightarrow> run_control c k' = run_control (sd_control s) k'"
      "rel_option (degraded_to (ou_next_retry_at outage)) (run_control (sd_control s) k) (run_control c k)"
    by auto
  obtain x where x: "enqueue_dependency_outage env now k outage (?s3\<lparr>sd_control := c\<rparr>) =
      (Inr (), ?s3\<lparr>sd_control := c, sd_outbox := x\<rparr>)" using notice_effect(1) by blast
  let ?s4 = "?s3\<lparr>sd_control := c, sd_outbox := x, sd_last_reconcile_error := Some (ec_dependency (the_context e) @
      '':'' @ the_text (error_class e) @ '':'' @ error_message e)\<rparr>"
  have "handle_dependency_error env now fresh fresh' k e s = (Inr outage, ?s4)"
    unfolding handle_dependency_error_def Let_def d [symmetric]
    using e db1(1) db2 db3(1) c(1) x by simp
  then show ?thesis
    using db1(2) db3(2-4) c(2,3) retry_later by (intro that [of outage ?s4]) simp_all
qed

definition sample_timeout :: ctl_error where
  "sample_timeout = DependencyTransientError ''timeout'' \<lparr>ec_dependency = ''gitlab'', ec_endpoint = None,
     ec_status_code = None, ec_retry_after_seconds = None, ec_error_code = None\<rparr>"

definition sample_env :: circuit_env where
  "sample_env = \<lparr>ce_config = sample_config, ce_minimal = False, ce_outage_notice = (\<lambda>_ _. None),
     ce_recovered_notice = (\<lambda>_ _ _. None), ce_failure_notice = (\<lambda>_ _. None)\<rparr>"

definition sample_row :: "string \<Rightarrow> rc_row" where
  "sample_row state = \<lparr>rc_run_key = ''r'', rc_state = state, rc_state_version = 1, rc_terminal_at = None,
     rc_last_transition_reason = None, rc_next_retry_at = None, rc_compliance = None,
     rc_completion_source = None, rc_checked_head = None, rc_merge_commit_sha = None,
     rc_abort_requested_by = None, rc_abort_reason = None, rc_abort_requested_at = None,
     rc_aborted_at = None, rc_updated_at = 1\<rparr>"

definition sample_service :: service_db where
  "sample_service = \<lparr>sd_control = \<lparr>run_control_tbl = [sample_row ''active''], abort_requests_tbl = [],
       merge_wait_tbl = []\<rparr>, sd_outages = empty_outages, sd_outbox = [], sd_last_reconcile_error = None\<rparr>"

text \<open>
  C28. A dependency error is contained: below 1024 failures the handler never
  raises; the outage it opens blocks its scope until a later time and names the run;
  the run, when active, waiting to merge or degraded, is degraded until exactly that
  time, a run being aborted keeps its state and retries then, any other run keeps
  its row; and no other run is touched.
\<close>

theorem dependency_error_is_contained:
  assumes "unique_on rc_run_key (run_control_tbl (sd_control s))" "\<not> is_contract e"
    and "new_failures (find_outage (sd_outages s) (dependency_scope (Some k) e)) \<le> 1024"
    and "new_failures (find_outage (sd_outages s) ''gitlab'') \<le> 1024"
  shows "\<exists>outage s'. handle_dependency_error env now fresh fresh' k e s = (Inr outage, s') \<and>
    dependency_retry_blocked now (dependency_scope (Some k) e) s' \<and>
    k \<in> set (outage_run_keys (sd_outages s') (dependency_scope (Some k) e) (ou_outage_id outage)) \<and>
    rel_option (degraded_to (ou_next_retry_at outage)) (run_control (sd_control s) k) (run_control (sd_control s') k) \<and>
    (\<forall>k'. k' = k \<or> run_control (sd_control s') k' = run_control (sd_control s) k')"
proof -
  obtain outage s' where h: "handle_dependency_error env now fresh fresh' k e s = (Inr outage, s')"
    "ou_dependency outage = dependency_scope (Some k) e" "ou_status outage = ''open''" "now < ou_next_retry_at outage"
    "find_outage (sd_outages s') (dependency_scope (Some k) e) = Some outage"
    "k \<in> set (outage_run_keys (sd_outages s') (dependency_scope (Some k) e) (ou_outage_id outage))"
    "\<And>k'. k' \<noteq> k \<Longrightarrow> run_control (sd_control s') k' = run_control (sd_control s) k'"
    "rel_option (degraded_to (ou_next_retry_at outage)) (run_control (sd_control s) k) (run_control (sd_control s') k)"
    using handle_effect [OF assms(1,2) refl assms(3,4)] by metis
  from h(3) find_outage_key [OF h(5)] have "outage \<in> set (open_dependency_outages (sd_outages s'))"
    by (simp add: open_dependency_outages_def order_by_def)
  with h show ?thesis unfolding dependency_retry_blocked_def by blast
qed

theorem dependency_error_is_contained_witness:
  "\<exists>outage s'. handle_dependency_error sample_env 10 ''o1'' ''o2'' ''r'' sample_timeout sample_service = (Inr outage, s') \<and>
    dependency_retry_blocked 10 ''gitlab:r'' s'"
proof -
  have 1: "unique_on rc_run_key (run_control_tbl (sd_control sample_service))"
    by (simp add: sample_service_def unique_on_def)
  have 2: "new_failures (find_outage (sd_outages sample_service) d) \<le> 1024" for d
    by (simp add: sample_service_def find_outage_def empty_outages_def new_failures_def)
  have 3: "dependency_scope (Some ''r'') sample_timeout = ''gitlab:r''" by code_simp
  from dependency_error_is_contained [OF 1 _ 2 2, of sample_timeout sample_env 10 "''o1''" "''o2''" "''r''"]
  show ?thesis unfolding 3 by (auto simp: sample_timeout_def)
qed

text \<open>
  The GitLab circuit opens exactly at the threshold: after a run's own
  dependency error the host-wide circuit is open, with every corroborating run
  named in it, when the error was a transient one of GitLab and at least the
  configured number of distinct runs has such an outage open; otherwise its row is
  untouched.
\<close>

theorem gitlab_circuit_threshold:
  assumes "unique_on rc_run_key (run_control_tbl (sd_control s))" "\<not> is_contract e"
    and "new_failures (find_outage (sd_outages s) (dependency_scope (Some k) e)) \<le> 1024"
    and "new_failures (find_outage (sd_outages s) ''gitlab'') \<le> 1024"
    and "dependency_scope (Some k) e \<noteq> ''gitlab''"
    and "s' = snd (handle_dependency_error env now fresh fresh' k e s)"
    and "n = length (corroborating_runs (sd_outages s'))"
  shows "distinct (corroborating_runs (sd_outages s')) \<and>
    (if ec_dependency (the_context e) = ''gitlab'' \<and> is_transient e \<and>
       cf_dependency_circuit_failure_threshold (ce_config env) \<le> int n
     then \<exists>r. find_outage (sd_outages s') ''gitlab'' = Some r \<and> ou_status r = ''open'' \<and> now < ou_next_retry_at r \<and>
       set (corroborating_runs (sd_outages s')) \<subseteq> set (outage_run_keys (sd_outages s') ''gitlab'' (ou_outage_id r))
     else find_outage (sd_outages s') ''gitlab'' = find_outage (sd_outages s) ''gitlab'')"
proof -
  have dist: "distinct (corroborating_runs (sd_outages s'))" by (simp add: corroborating_runs_def)
  obtain outage t where
    h: "handle_dependency_error env now fresh fresh' k e s = (Inr outage, t)"
    "if corroborates e \<and> threshold env \<le> int (length (corroborating_runs (sd_outages t)))
     then \<exists>r. find_outage (sd_outages t) ''gitlab'' = Some r \<and> ou_status r = ''open'' \<and> now < ou_next_retry_at r \<and>
       set (corroborating_runs (sd_outages t)) \<subseteq> set (outage_run_keys (sd_outages t) ''gitlab'' (ou_outage_id r))
     else find_outage (sd_outages t) ''gitlab'' = find_outage (sd_outages s) ''gitlab''"
    by (rule handle_effect [OF assms(1,2) refl assms(3,4), of env now fresh fresh']) (use assms(5) in blast)
  from h(1) assms(6) have t: "t = s'" by simp
  from h(2) dist show ?thesis unfolding t corroborates_def threshold_def assms(7) conj_assoc by (rule conjI [rotated])
qed

theorem gitlab_circuit_threshold_witness:
  "distinct (corroborating_runs (sd_outages (snd (handle_dependency_error sample_env 10 ''o1'' ''o2'' ''r''
    sample_timeout sample_service))))"
proof -
  have 1: "unique_on rc_run_key (run_control_tbl (sd_control sample_service))"
    by (simp add: sample_service_def unique_on_def)
  have 2: "new_failures (find_outage (sd_outages sample_service) d) \<le> 1024" for d
    by (simp add: sample_service_def find_outage_def empty_outages_def new_failures_def)
  have 3: "\<not> is_contract sample_timeout" by (simp add: sample_timeout_def)
  have "dependency_scope (Some ''r'') sample_timeout = ''gitlab:r''" by code_simp
  then have 4: "dependency_scope (Some ''r'') sample_timeout \<noteq> ''gitlab''" by simp
  from gitlab_circuit_threshold [OF 1 3 2 2 4 refl refl, of sample_env 10 "''o1''" "''o2''"]
  show ?thesis by (rule conjunct1)
qed

section \<open>Recovery\<close>

lemma open_outage_listed:
  assumes "find_outage db d = Some r" "ou_status r = ''open''"
  shows "r \<in> set (open_dependency_outages db)"
  using find_outage_key [OF assms(1)] assms(2) by (simp add: open_dependency_outages_def order_by_def)

lemma due_outage_found:
  assumes "unique_on ou_dependency (outages_tbl (sd_outages s))"
    and "find_outage (sd_outages s) d = Some r" "ou_status r = ''open''" "ou_next_retry_at r \<le> now"
  shows "due_outage now d s = Some r"
proof -
  have key: "ou_dependency r = d" and r: "r \<in> set (outages_tbl (sd_outages s))"
    using find_outage_key [OF assms(2)] by simp_all
  have "due_outage now d s \<noteq> None"
    using open_outage_listed [OF assms(2,3)] key assms(4) unfolding due_outage_def find_None_iff by blast
  then obtain x where x: "due_outage now d s = Some x" by blast
  then have "x \<in> set (outages_tbl (sd_outages s))" "ou_dependency x = d"
    by (auto simp: due_outage_def open_dependency_outages_def order_by_def dest: find_SomeD)
  with unique_on_eq [OF assms(1) r] key x show ?thesis by auto
qed

lemma reactivate_effect:
  assumes "unique_on rc_run_key (run_control_tbl (sd_control s))"
    and "run_control (sd_control s) k = Some r" "rc_state r = ''dependency_degraded''"
    and "rest = remaining_outages (sd_outages s) k"
  obtains c r' where "reactivate_run now d k s = (Inr (), s\<lparr>sd_control := c\<rparr>)"
    "run_control c k = Some r'" "\<And>k'. k' \<noteq> k \<Longrightarrow> run_control c k' = run_control (sd_control s) k'"
    "if rest = [] then rc_state r' = ''active'' \<and> rc_next_retry_at r' = None
     else rc_state r' = ''dependency_degraded'' \<and> rc_next_retry_at r' = Some (Min (ou_next_retry_at ` set rest))"
proof (cases rest)
  case Nil
  obtain c where "ignore_result (on_control (transition_run now k
      (move_args r ''active'' (base_dependency d @ ''_dependency_recovered'') None))) s = (Inr (), s\<lparr>sd_control := c\<rparr>)"
    "\<And>k'. run_control c k' = (if k' = k then Some (apply_transition now
      (move_args r ''active'' (base_dependency d @ ''_dependency_recovered'') None) r) else run_control (sd_control s) k')"
    by (rule move_run [OF assms(1,2) known_states(2)]) (rule that)
  with Nil assms show ?thesis
    by (intro that [of c "apply_transition now (move_args r ''active''
        (base_dependency d @ ''_dependency_recovered'') None) r"]) (simp_all add: reactivate_run_def)
next
  case (Cons x xs)
  have min: "fold min (map ou_next_retry_at xs) (ou_next_retry_at x) = Min (ou_next_retry_at ` set rest)"
    unfolding Cons using Min.set_eq_fold [of "ou_next_retry_at x" "map ou_next_retry_at xs"] by simp
  obtain c where "ignore_result (on_control (transition_run now k
      (move_args r ''dependency_degraded'' ''dependency_recovery_partial''
        (Some (Min (ou_next_retry_at ` set rest)))))) s = (Inr (), s\<lparr>sd_control := c\<rparr>)"
    "\<And>k'. run_control c k' = (if k' = k then Some (apply_transition now
      (move_args r ''dependency_degraded'' ''dependency_recovery_partial''
        (Some (Min (ou_next_retry_at ` set rest)))) r) else run_control (sd_control s) k')"
    by (rule move_run [OF assms(1,2) known_states(1)]) (rule that)
  with Cons assms min show ?thesis
    by (intro that [of c "apply_transition now (move_args r ''dependency_degraded''
        ''dependency_recovery_partial'' (Some (Min (ou_next_retry_at ` set rest)))) r"])
      (simp_all add: reactivate_run_def)
qed

text \<open>
  C27. A run recovers exactly when nothing holds it: after a successful operation of
  a degraded run whose own outage is due, that outage is closed and the run is
  active if no open outage names it any more, and otherwise stays degraded until
  the earliest retry time among them. Other runs are not touched.
\<close>

theorem run_recovers_exactly:
  assumes "unique_on rc_run_key (run_control_tbl (sd_control s))" "outages_ok (sd_outages s)"
    and "run_control (sd_control s) k = Some r" "rc_state r = ''dependency_degraded''"
    and "find_outage (sd_outages s) (dep @ '':'' @ k) = Some outage" "ou_status outage = ''open''"
    and "ou_next_retry_at outage \<le> now"
    and "outage_run_keys (sd_outages s) (dep @ '':'' @ k) (ou_outage_id outage) = [k]"
  shows "\<exists>s' r' rest. recover_run_dependency env now k dep s = (Inr (), s') \<and>
    dependency_is_open (dep @ '':'' @ k) s' = False \<and> run_control (sd_control s') k = Some r' \<and>
    rest = remaining_outages (sd_outages s') k \<and>
    (if rest = [] then rc_state r' = ''active'' \<and> rc_next_retry_at r' = None
     else rc_state r' = ''dependency_degraded'' \<and> rc_next_retry_at r' = Some (Min (ou_next_retry_at ` set rest))) \<and>
    (\<forall>k'. k' = k \<or> run_control (sd_control s') k' = run_control (sd_control s) k')"
proof (cases rule: recover_cases [OF assms(2), of "dep @ '':'' @ k" now])
  case 1
  with assms(5,6) show ?thesis by (simp add: continuing_def)
next
  case (2 q db')
  let ?d = "dep @ '':'' @ k"
  have due: "due_outage now ?d s = Some outage"
    by (rule due_outage_found [OF outages_okD(1) [OF assms(2)] assms(5-7)])
  have q: "q = outage" using 2(1) assms(5) by simp
  let ?r = "outage\<lparr>ou_recovered_at := Some now, ou_last_success_at := Some now\<rparr>"
  let ?s1 = "s\<lparr>sd_outages := db'\<rparr>"
  have keys: "outage_run_keys db' d i = outage_run_keys (sd_outages s) d i" for d i
    using 2(6) by (simp add: outage_run_keys_def)
  have closed: "\<not> dependency_is_open ?d t" if "sd_outages t = db'" for t
    using 2(4) that by (auto simp: dependency_is_open_def open_dependency_outages_def order_by_def
        set_update_where recovered_outage_def)
  obtain c r' where c: "reactivate_run now ?d k ?s1 = (Inr (), ?s1\<lparr>sd_control := c\<rparr>)"
    "run_control c k = Some r'" "\<And>k'. k' \<noteq> k \<Longrightarrow> run_control c k' = run_control (sd_control ?s1) k'"
    "if remaining_outages (sd_outages ?s1) k = [] then rc_state r' = ''active'' \<and> rc_next_retry_at r' = None
     else rc_state r' = ''dependency_degraded'' \<and>
       rc_next_retry_at r' = Some (Min (ou_next_retry_at ` set (remaining_outages (sd_outages ?s1) k)))"
    by (rule reactivate_effect [OF _ _ assms(4) refl, of ?s1 k now ?d]) (simp_all add: assms(1,3) that)
  obtain x where x: "enqueue_dependency_recovered env now k ?r (?s1\<lparr>sd_control := c\<rparr>) =
      (Inr (), ?s1\<lparr>sd_control := c, sd_outbox := x\<rparr>)" using notice_effect(2) by blast
  have "recover_run_dependency env now k dep s = (Inr (), ?s1\<lparr>sd_control := c, sd_outbox := x\<rparr>)"
    using due assms(8) 2(3) c(1) x by (simp add: recover_run_dependency_def Let_def q
        finish_dependency_recovery_def keys)
  with c(2-4) closed show ?thesis
    by (intro exI [of _ "?s1\<lparr>sd_control := c, sd_outbox := x\<rparr>"] exI [of _ r']
        exI [of _ "remaining_outages db' k"]) auto
qed

definition sample_outage :: outage_row where
  "sample_outage = \<lparr>ou_dependency = ''gitlab:r'', ou_outage_id = ''o1'', ou_status = ''open'',
     ou_error_class = ''dependency_transient'', ou_error_summary = ''timeout'', ou_failures = 1,
     ou_peak_failures = 1, ou_started_at = 10, ou_last_failure_at = 10, ou_last_success_at = None,
     ou_endpoint = None, ou_circuit_state = ''open'', ou_next_retry_at = 15, ou_recovered_at = None,
     ou_updated_at = 10\<rparr>"

definition sample_degraded :: service_db where
  "sample_degraded = sample_service\<lparr>sd_control := (sd_control sample_service)
       \<lparr>run_control_tbl := [sample_row ''dependency_degraded'']\<rparr>,
     sd_outages := \<lparr>outages_tbl = [sample_outage], outage_runs_tbl =
       [\<lparr>our_dependency = ''gitlab:r'', our_outage_id = ''o1'', our_run_key = ''r'', our_created_at = 10\<rparr>],
       outage_history_tbl = []\<rparr>\<rparr>"

theorem run_recovers_exactly_witness:
  "\<exists>s' r'. recover_run_dependency sample_env 20 ''r'' ''gitlab'' sample_degraded = (Inr (), s') \<and>
    run_control (sd_control s') ''r'' = Some r'"
proof -
  have 1: "unique_on rc_run_key (run_control_tbl (sd_control sample_degraded))"
    by (simp add: sample_degraded_def unique_on_def)
  have 2: "outages_ok (sd_outages sample_degraded)"
    by (simp add: sample_degraded_def sample_outage_def outages_ok_def outage_ok_def unique_on_def)
  have 3: "run_control (sd_control sample_degraded) ''r'' = Some (sample_row ''dependency_degraded'')"
    "rc_state (sample_row ''dependency_degraded'') = ''dependency_degraded''"
    by (simp_all add: sample_degraded_def run_control_def sample_row_def)
  have 4: "find_outage (sd_outages sample_degraded) (''gitlab'' @ '':'' @ ''r'') = Some sample_outage"
    "ou_status sample_outage = ''open''" "ou_next_retry_at sample_outage \<le> 20"
    "outage_run_keys (sd_outages sample_degraded) (''gitlab'' @ '':'' @ ''r'') (ou_outage_id sample_outage) = [''r'']"
    by (simp_all add: sample_degraded_def find_outage_def sample_outage_def outage_run_keys_def order_by_def)
  from run_recovers_exactly [OF 1 2 3 4, of sample_env] show ?thesis by blast
qed

end
