(* ===== verification/Attempts.thy ===== *)
theory Attempts
  imports Store_Runs Operations "HOL-Library.AList"
begin

text \<open>
  Cards, workers and attempts: the tables managed_cards, card_runtime, card_attempts
  and attempt_metrics of store.py with the operations that write them
  (\<open>add_managed_card\<close>, \<open>record_card_runtime_event\<close>, \<open>register_card_attempt\<close>,
  \<open>record_attempt_completion\<close>, \<open>record_attempt_metric\<close>,
  \<open>record_supervisor_observation\<close>, \<open>update_worker_watchdog\<close>) and their queries.
  \<open>json.dumps\<close>, Python's \<open>int\<close> on a text and the float product
  \<open>int(float(value) * 1000)\<close> are parameters.
\<close>

section \<open>Tables\<close>

record managed_row =
  mc_board :: string
  mc_card_id :: string
  mc_run_key :: string
  mc_stage :: string
  mc_iteration :: int
  mc_idempotency_key :: string
  mc_parent_card_id :: "string option"
  mc_purpose :: string
  mc_created_at :: int

record runtime_row =
  rt_board :: string
  rt_card_id :: string
  rt_profile :: "string option"
  rt_dispatch_key :: "string option"
  rt_worker_pid :: "int option"
  rt_worker_started_at :: "int option"
  rt_worker_session_id :: "string option"
  rt_last_heartbeat_at :: "int option"
  rt_last_progress_event_at :: "int option"
  rt_deadline_at :: "int option"
  rt_last_event_kind :: "string option"
  rt_attempt :: int
  rt_redispatch_count :: int
  rt_worktree :: "string option"
  rt_branch :: "string option"
  rt_mr_iid :: "int option"
  rt_head_sha :: "string option"
  rt_attempt_status :: string
  rt_finished_at :: "int option"
  rt_terminal_reason :: "string option"
  rt_updated_at :: int

record attempt_row =
  at_run_id :: string
  at_board :: string
  at_card_id :: string
  at_run_key :: string
  at_attempt :: int
  at_profile :: "string option"
  at_dispatch_key :: "string option"
  at_worker_pid :: "int option"
  at_worker_session_id :: "string option"
  at_started_at :: "int option"
  at_blocked_at :: "int option"
  at_completion_at :: "int option"
  at_exited_at :: "int option"
  at_last_heartbeat_at :: "int option"
  at_last_progress_at :: "int option"
  at_status :: string
  at_terminal_reason :: "string option"
  at_recovery_reason :: "string option"
  at_redispatched_from_run_id :: "string option"
  at_created_at :: int
  at_updated_at :: int

record metric_row =
  mt_run_id :: string
  mt_metric :: string
  mt_duration_ms :: int
  mt_summary :: "string option"
  mt_recorded_at :: int

record cards_db =
  cd_runs :: runs_db
  managed_tbl :: "managed_row list"
  runtime_tbl :: "runtime_row list"
  attempts_tbl :: "attempt_row list"
  metrics_tbl :: "metric_row list"

section \<open>Managed cards\<close>

definition managed_card :: "cards_db \<Rightarrow> string \<Rightarrow> string \<Rightarrow> managed_row option" where
  "managed_card db board card_id =
     find (\<lambda>r. mc_board r = board \<and> mc_card_id r = card_id) (managed_tbl db)"

text \<open>A second card under a used idempotency key violates the UNIQUE constraint.\<close>

definition add_managed_card :: "int \<Rightarrow> managed_row \<Rightarrow> int option \<Rightarrow> (cards_db, unit) op" where
  "add_managed_card now c created_at = connect (\<lambda>db.
     if \<exists>r \<in> set (managed_tbl db). mc_board r = mc_board c \<and> mc_card_id r \<noteq> mc_card_id c
          \<and> mc_idempotency_key r = mc_idempotency_key c
     then (Inl (DatabaseError ''UNIQUE constraint failed: managed_cards''), db)
     else if managed_card db (mc_board c) (mc_card_id c) = None
     then (Inr (), db\<lparr>managed_tbl := managed_tbl db @
       [c\<lparr>mc_created_at := (case created_at of Some t \<Rightarrow> if t = 0 then now else t | None \<Rightarrow> now)\<rparr>]\<rparr>)
     else (Inr (), db\<lparr>managed_tbl := update_where
       (\<lambda>r. mc_board r = mc_board c \<and> mc_card_id r = mc_card_id c)
       (\<lambda>r. c\<lparr>mc_created_at := mc_created_at r\<rparr>) (managed_tbl db)\<rparr>))"

definition cards_for_run :: "cards_db \<Rightarrow> string \<Rightarrow> managed_row list" where
  "cards_for_run db run_key =
     order_by mc_created_at (filter (\<lambda>r. mc_run_key r = run_key) (managed_tbl db))"

section \<open>Events\<close>

record runtime_event =
  ev_board :: string
  ev_card_id :: string
  ev_kind :: string
  ev_created_at :: int
  ev_worker_session_id :: "string option"
  ev_worker_pid :: "int option"
  ev_lease_seconds :: int
  ev_run_id :: "string option"
  ev_runtime_metrics :: "(string \<times> rat) list option"
  ev_progress_summary :: "json option"

definition terminal_kinds :: "string list" where
  "terminal_kinds = [''completed'', ''blocked'', ''reclaimed'', ''crashed'', ''rate_limited'',
     ''timed_out'', ''gave_up'', ''spawn_auto_blocked'']"

definition ev_started :: "runtime_event \<Rightarrow> bool" where
  "ev_started e \<longleftrightarrow> ev_kind e \<in> set [''claimed'', ''started'', ''worker_started'']"

definition ev_heartbeat :: "runtime_event \<Rightarrow> bool" where
  "ev_heartbeat e \<longleftrightarrow> ev_kind e \<in> set [''heartbeat'', ''worker_heartbeat'']"

definition ev_terminal :: "runtime_event \<Rightarrow> bool" where
  "ev_terminal e \<longleftrightarrow> ev_kind e \<in> set terminal_kinds"

definition ev_progress :: "runtime_event \<Rightarrow> bool" where
  "ev_progress e \<longleftrightarrow> ev_started e \<or> ev_kind e = ''progress'' \<or> ev_kind e \<in> set terminal_kinds"

definition at_time :: "bool \<Rightarrow> runtime_event \<Rightarrow> int option" where
  "at_time b e = (if b then Some (ev_created_at e) else None)"

definition card_runtime :: "cards_db \<Rightarrow> string \<Rightarrow> string \<Rightarrow> runtime_row option" where
  "card_runtime db board card_id =
     find (\<lambda>r. rt_board r = board \<and> rt_card_id r = card_id) (runtime_tbl db)"

text \<open>\<open>worker_session_id and worker_session_id != previous["worker_session_id"]\<close>\<close>

definition other_session :: "runtime_event \<Rightarrow> runtime_row \<Rightarrow> bool" where
  "other_session e r \<longleftrightarrow> truthy_str (ev_worker_session_id e) \<and>
     ev_worker_session_id e \<noteq> rt_worker_session_id r"

definition new_session :: "runtime_event \<Rightarrow> runtime_row option \<Rightarrow> bool" where
  "new_session e previous \<longleftrightarrow> ev_started e \<and>
     (case previous of None \<Rightarrow> False | Some r \<Rightarrow> other_session e r)"

definition preserve_finished :: "runtime_event \<Rightarrow> runtime_row option \<Rightarrow> bool" where
  "preserve_finished e previous \<longleftrightarrow>
     (case previous of None \<Rightarrow> False | Some r \<Rightarrow> rt_finished_at r \<noteq> None) \<and>
     \<not> ev_terminal e \<and> \<not> new_session e previous"

section \<open>The attempt of an event\<close>

definition find_attempt :: "cards_db \<Rightarrow> string \<Rightarrow> attempt_row option" where
  "find_attempt db run_id = find (\<lambda>r. at_run_id r = run_id) (attempts_tbl db)"

definition card_attempt_rows :: "cards_db \<Rightarrow> string \<Rightarrow> string \<Rightarrow> attempt_row list" where
  "card_attempt_rows db board card_id =
     filter (\<lambda>r. at_board r = board \<and> at_card_id r = card_id) (attempts_tbl db)"

definition next_attempt :: "cards_db \<Rightarrow> string \<Rightarrow> string \<Rightarrow> int" where
  "next_attempt db board card_id = (case card_attempt_rows db board card_id of
     [] \<Rightarrow> 0 | rows \<Rightarrow> Max (set (map at_attempt rows))) + 1"

definition new_attempt_row :: "int \<Rightarrow> runtime_event \<Rightarrow> string \<Rightarrow> string \<Rightarrow> int \<Rightarrow> attempt_row" where
  "new_attempt_row now e run_id run_key attempt =
     \<lparr>at_run_id = run_id, at_board = ev_board e, at_card_id = ev_card_id e, at_run_key = run_key,
      at_attempt = attempt, at_profile = None, at_dispatch_key = None,
      at_worker_pid = ev_worker_pid e, at_worker_session_id = ev_worker_session_id e,
      at_started_at = at_time (ev_started e) e,
      at_blocked_at = at_time (ev_kind e = ''blocked'') e,
      at_completion_at = at_time (ev_kind e = ''completed'') e,
      at_exited_at = at_time (ev_kind e \<in> set [''worker_exited'', ''reclaimed'']) e,
      at_last_heartbeat_at = at_time (ev_heartbeat e) e,
      at_last_progress_at = at_time (ev_progress e) e,
      at_status = (if ev_kind e = ''worker_exited'' then ''exited''
        else if ev_kind e = ''reclaimed'' then ''reclaimed''
        else if ev_kind e = ''blocked'' then ''blocked''
        else if ev_kind e = ''completed'' then ''completion_recorded''
        else if ev_terminal e then ev_kind e else ''running''),
      at_terminal_reason = (if ev_terminal e then Some (ev_kind e) else None),
      at_recovery_reason = None, at_redispatched_from_run_id = None,
      at_created_at = ev_created_at e, at_updated_at = now\<rparr>"

definition status_after :: "runtime_event \<Rightarrow> string \<Rightarrow> string" where
  "status_after e status =
     (if ev_kind e = ''worker_exited'' \<and> status \<noteq> ''reclaimed'' then ''exited''
      else if ev_kind e = ''reclaimed'' then ''reclaimed''
      else if ev_kind e = ''blocked'' then ''blocked''
      else if ev_kind e = ''completed'' then ''completion_recorded''
      else if ev_terminal e then ev_kind e else status)"

definition touch_attempt :: "int \<Rightarrow> runtime_event \<Rightarrow> attempt_row \<Rightarrow> attempt_row" where
  "touch_attempt now e r = r\<lparr>
     at_worker_pid := coalesce (ev_worker_pid e) (at_worker_pid r),
     at_worker_session_id := coalesce (ev_worker_session_id e) (at_worker_session_id r),
     at_started_at := coalesce (at_started_at r) (at_time (ev_started e) e),
     at_blocked_at := coalesce (at_blocked_at r) (at_time (ev_kind e = ''blocked'') e),
     at_completion_at := coalesce (at_completion_at r) (at_time (ev_kind e = ''completed'') e),
     at_exited_at := coalesce (at_exited_at r)
       (at_time (ev_kind e \<in> set [''worker_exited'', ''reclaimed'']) e),
     at_last_heartbeat_at := (if ev_heartbeat e then Some (ev_created_at e) else at_last_heartbeat_at r),
     at_last_progress_at := (if ev_progress e then Some (ev_created_at e) else at_last_progress_at r),
     at_status := status_after e (at_status r),
     at_terminal_reason := (if ev_terminal e then Some (ev_kind e) else at_terminal_reason r),
     at_updated_at := now\<rparr>"

definition write_attempt :: "int \<Rightarrow> runtime_event \<Rightarrow> string \<Rightarrow> (cards_db, unit) op" where
  "write_attempt now e run_id db =
     (case managed_card db (ev_board e) (ev_card_id e) of
        None \<Rightarrow> (Inl (ValueError (''unknown_managed_card:'' @ ev_board e @ '':'' @ ev_card_id e)), db)
      | Some managed \<Rightarrow>
          (case find_attempt db run_id of
             Some r \<Rightarrow>
               if at_board r \<noteq> ev_board e \<or> at_card_id r \<noteq> ev_card_id e \<or> at_run_key r \<noteq> mc_run_key managed
               then (Inl (ControllerFatalError (''attempt_run_id_conflict:'' @ run_id)), db)
               else (Inr (), db\<lparr>attempts_tbl := update_where (\<lambda>r. at_run_id r = run_id)
                      (touch_attempt now e) (attempts_tbl db)\<rparr>)
           | None \<Rightarrow>
               if find_run (cd_runs db) (mc_run_key managed) = None
               then (Inl (DatabaseError ''FOREIGN KEY constraint failed''), db)
               else (Inr (), db\<lparr>attempts_tbl := attempts_tbl db @ [new_attempt_row now e run_id
                      (mc_run_key managed) (next_attempt db (ev_board e) (ev_card_id e))]\<rparr>)))"

section \<open>Metrics\<close>

text \<open>INSERT ... ON CONFLICT(run_id, metric): \<open>replace\<close> is the SET clause.\<close>

definition upsert_metric :: "metric_row \<Rightarrow> (metric_row \<Rightarrow> metric_row) \<Rightarrow> metric_row list \<Rightarrow> metric_row list" where
  "upsert_metric new replace t =
     (if \<exists>r \<in> set t. mt_run_id r = mt_run_id new \<and> mt_metric r = mt_metric new
      then update_where (\<lambda>r. mt_run_id r = mt_run_id new \<and> mt_metric r = mt_metric new) replace t
      else t @ [new])"

definition replace_metric :: "metric_row \<Rightarrow> metric_row \<Rightarrow> metric_row" where
  "replace_metric new r = r\<lparr>mt_duration_ms := mt_duration_ms new, mt_summary := mt_summary new,
     mt_recorded_at := mt_recorded_at new\<rparr>"

definition record_attempt_metric ::
  "int \<Rightarrow> string \<Rightarrow> string \<Rightarrow> int \<Rightarrow> string option \<Rightarrow> (cards_db, unit) op" where
  "record_attempt_metric now run_id metric duration_ms summary = connect (\<lambda>db.
     if find_attempt db run_id = None then (Inl (DatabaseError ''FOREIGN KEY constraint failed''), db)
     else let new = \<lparr>mt_run_id = run_id, mt_metric = metric, mt_duration_ms = duration_ms,
             mt_summary = map_option (take 500) (or_text summary), mt_recorded_at = now\<rparr>
       in (Inr (), db\<lparr>metrics_tbl := upsert_metric new (replace_metric new) (metrics_tbl db)\<rparr>))"

definition opt_json :: "string option \<Rightarrow> json" where
  "opt_json s = (case s of None \<Rightarrow> JNull | Some x \<Rightarrow> JStr x)"

definition record_supervisor_observation ::
  "(json \<Rightarrow> string) \<Rightarrow> int \<Rightarrow> string \<Rightarrow> string \<Rightarrow> int \<Rightarrow> int \<Rightarrow> string option \<Rightarrow> (cards_db, unit) op" where
  "record_supervisor_observation dump now run_id state duration_ms observed_at error_code =
     record_attempt_metric now run_id ''supervisor_probe'' duration_ms
       (Some (dump (JObj [(''state'', JStr state), (''observed_at'', JInt observed_at),
          (''error_code'', opt_json error_code)])))"

text \<open>The earlier reclaimed attempt a new one replaces.\<close>

definition link_redispatch :: "int \<Rightarrow> runtime_event \<Rightarrow> string \<Rightarrow> cards_db \<Rightarrow> cards_db" where
  "link_redispatch now e run_id db =
     (case first_row (order_by (\<lambda>r. - at_attempt r)
         (filter (\<lambda>r. at_status r = ''reclaimed'' \<and> at_run_id r \<noteq> run_id)
           (card_attempt_rows db (ev_board e) (ev_card_id e)))) of
        None \<Rightarrow> db
      | Some reclaimed \<Rightarrow> db\<lparr>
          attempts_tbl := update_where (\<lambda>r. at_run_id r = run_id)
            (\<lambda>r. r\<lparr>at_redispatched_from_run_id :=
               coalesce (at_redispatched_from_run_id r) (Some (at_run_id reclaimed)), at_updated_at := now\<rparr>)
            (attempts_tbl db),
          metrics_tbl := upsert_metric \<lparr>mt_run_id = run_id, mt_metric = ''redispatched_from_run_id'',
              mt_duration_ms = 0, mt_summary = Some (at_run_id reclaimed), mt_recorded_at = now\<rparr>
            (\<lambda>r. r\<lparr>mt_summary := Some (at_run_id reclaimed), mt_recorded_at := now\<rparr>) (metrics_tbl db)\<rparr>)"

text \<open>
  \<open>int(x)\<close> on a decoded JSON value: a text is parsed by \<open>int_text\<close>, None and
  containers raise TypeError.
\<close>

fun json_int :: "(string \<Rightarrow> int option) \<Rightarrow> json \<Rightarrow> int res" where
  "json_int int_text (JInt n) = Inr n"
| "json_int int_text (JBool b) = Inr (if b then 1 else 0)"
| "json_int int_text (JStr s) = (case int_text s of Some n \<Rightarrow> Inr n | None \<Rightarrow> Inl (ValueError ''invalid literal for int()''))"
| "json_int int_text _ = Inl (PyTypeError ''int() argument'')"

text \<open>The categories with a non-negative integer (a bool is an int), keys cut to 32 characters.\<close>

fun safe_category :: "string \<times> json \<Rightarrow> (string \<times> json) list \<Rightarrow> (string \<times> json) list" where
  "safe_category (k, JInt n) acc = (if 0 \<le> n then AList.update (take 32 k) (JInt n) acc else acc)"
| "safe_category (k, JBool b) acc = AList.update (take 32 k) (JInt (if b then 1 else 0)) acc"
| "safe_category (k, _) acc = acc"

definition safe_categories :: "json option \<Rightarrow> (string \<times> json) list" where
  "safe_categories categories = (case categories of Some (JObj kvs) \<Rightarrow> fold safe_category kvs [] | _ \<Rightarrow> [])"

definition summary_count :: "(string \<Rightarrow> int option) \<Rightarrow> (string \<times> json) list \<Rightarrow> string \<Rightarrow> int res" where
  "summary_count int_text kvs key =
     (case json_int int_text (case map_of kvs key of Some v \<Rightarrow> v | None \<Rightarrow> JInt 0) of
        Inl e \<Rightarrow> Inl e | Inr n \<Rightarrow> Inr (max 0 n))"

definition safe_summary ::
  "(json \<Rightarrow> string) \<Rightarrow> (string \<Rightarrow> int option) \<Rightarrow> json option \<Rightarrow> string option res" where
  "safe_summary dump int_text summary =
     (case summary of
        Some (JObj kvs) \<Rightarrow>
          (case summary_count int_text kvs ''tool_count'' of
             Inl e \<Rightarrow> Inl e
           | Inr tools \<Rightarrow>
               (case summary_count int_text kvs ''elapsed_seconds'' of
                  Inl e \<Rightarrow> Inl e
                | Inr seconds \<Rightarrow> Inr (Some (dump (JObj
                    [(''tool_categories'', JObj (safe_categories (map_of kvs ''tool_categories''))),
                     (''tool_count'', JInt tools), (''elapsed_seconds'', JInt seconds)])))))
      | _ \<Rightarrow> Inr None)"

definition runtime_metric_names :: "string list" where
  "runtime_metric_names = [''model_wait'', ''tool_execution'', ''delegation_wait'', ''retry_wait'']"

definition progress_metrics ::
  "(rat \<Rightarrow> int) \<Rightarrow> runtime_event \<Rightarrow> string \<Rightarrow> (string \<times> rat) list \<Rightarrow> string option \<Rightarrow> metric_row list \<Rightarrow> metric_row list" where
  "progress_metrics ms e run_id values summary t = fold (\<lambda>metric t.
     case map_of values metric of
       None \<Rightarrow> t
     | Some v \<Rightarrow> if v < 0 then t
         else let new = \<lparr>mt_run_id = run_id, mt_metric = metric, mt_duration_ms = max 0 (ms v),
                mt_summary = summary, mt_recorded_at = ev_created_at e\<rparr>
              in upsert_metric new (replace_metric new) t) runtime_metric_names t"

section \<open>The runtime row\<close>

definition runtime_status :: "runtime_event \<Rightarrow> string" where
  "runtime_status e = (if ev_terminal e then ''finished''
     else if ev_progress e \<or> ev_heartbeat e then ''running'' else ''created'')"

definition new_runtime_row :: "int \<Rightarrow> runtime_event \<Rightarrow> runtime_row" where
  "new_runtime_row now e = \<lparr>rt_board = ev_board e, rt_card_id = ev_card_id e, rt_profile = None,
     rt_dispatch_key = None, rt_worker_pid = ev_worker_pid e,
     rt_worker_started_at = at_time (ev_started e) e, rt_worker_session_id = ev_worker_session_id e,
     rt_last_heartbeat_at = at_time (ev_heartbeat e) e,
     rt_last_progress_event_at = at_time (ev_progress e) e,
     rt_deadline_at = (if ev_progress e then Some (ev_created_at e + ev_lease_seconds e) else None),
     rt_last_event_kind = Some (ev_kind e), rt_attempt = 1, rt_redispatch_count = 0,
     rt_worktree = None, rt_branch = None, rt_mr_iid = None, rt_head_sha = None,
     rt_attempt_status = runtime_status e, rt_finished_at = at_time (ev_terminal e) e,
     rt_terminal_reason = (if ev_terminal e then Some (ev_kind e) else None), rt_updated_at = now\<rparr>"

definition new_attempt :: "runtime_event \<Rightarrow> runtime_row \<Rightarrow> bool" where
  "new_attempt e r \<longleftrightarrow> ev_started e \<and> rt_worker_started_at r \<noteq> None \<and> other_session e r"

definition touch_runtime :: "int \<Rightarrow> runtime_event \<Rightarrow> runtime_row \<Rightarrow> runtime_row" where
  "touch_runtime now e r = (let new = new_runtime_row now e in r\<lparr>
     rt_worker_pid := coalesce (rt_worker_pid new) (rt_worker_pid r),
     rt_worker_started_at := (if new_attempt e r then rt_worker_started_at new
       else coalesce (rt_worker_started_at r) (rt_worker_started_at new)),
     rt_worker_session_id := coalesce (rt_worker_session_id new) (rt_worker_session_id r),
     rt_last_heartbeat_at := coalesce (rt_last_heartbeat_at new) (rt_last_heartbeat_at r),
     rt_last_progress_event_at := coalesce (rt_last_progress_event_at new) (rt_last_progress_event_at r),
     rt_deadline_at := coalesce (rt_deadline_at new) (rt_deadline_at r),
     rt_last_event_kind := rt_last_event_kind new,
     rt_attempt := rt_attempt r + (if new_attempt e r then 1 else 0),
     rt_redispatch_count := rt_redispatch_count r + 0,
     rt_attempt_status := rt_attempt_status new, rt_finished_at := rt_finished_at new,
     rt_terminal_reason := rt_terminal_reason new, rt_updated_at := now\<rparr>)"

text \<open>Late events: of an older session, and a replayed start older than the current one.\<close>

definition late_event :: "runtime_event \<Rightarrow> runtime_row \<Rightarrow> bool" where
  "late_event e r \<longleftrightarrow>
     truthy_str (rt_worker_session_id r) \<and> other_session e r \<and> \<not> ev_started e \<or>
     ev_started e \<and> other_session e r \<and>
       (case rt_worker_started_at r of None \<Rightarrow> False | Some t \<Rightarrow> ev_created_at e < t)"

definition write_runtime :: "int \<Rightarrow> runtime_event \<Rightarrow> cards_db \<Rightarrow> cards_db" where
  "write_runtime now e db =
     (if card_runtime db (ev_board e) (ev_card_id e) = None
      then db\<lparr>runtime_tbl := runtime_tbl db @ [new_runtime_row now e]\<rparr>
      else db\<lparr>runtime_tbl := update_where
        (\<lambda>r. rt_board r = ev_board e \<and> rt_card_id r = ev_card_id e) (touch_runtime now e) (runtime_tbl db)\<rparr>)"

section \<open>Recording an event\<close>

text \<open>The Python functions the store uses: \<open>json.dumps\<close>, \<open>int\<close> on a text, float milliseconds.\<close>

record py_env =
  py_dump :: "json \<Rightarrow> string"
  py_int_text :: "string \<Rightarrow> int option"
  py_ms :: "rat \<Rightarrow> int"

definition record_attempt :: "py_env \<Rightarrow> int \<Rightarrow> runtime_event \<Rightarrow> string \<Rightarrow> (cards_db, unit) op" where
  "record_attempt py now e run_id = then_do (write_attempt now e run_id) (\<lambda>_ db.
     let db = (if ev_started e then link_redispatch now e run_id db else db)
     in case ev_runtime_metrics e of
          None \<Rightarrow> (Inr (), db)
        | Some values \<Rightarrow>
            if ev_kind e \<noteq> ''progress'' \<or> values = [] then (Inr (), db)
            else case safe_summary (py_dump py) (py_int_text py) (ev_progress_summary e) of
                   Inl x \<Rightarrow> (Inl x, db)
                 | Inr summary \<Rightarrow> (Inr (), db\<lparr>metrics_tbl :=
                     progress_metrics (py_ms py) e run_id values summary (metrics_tbl db)\<rparr>))"

definition record_card_runtime_event :: "py_env \<Rightarrow> int \<Rightarrow> runtime_event \<Rightarrow> (cards_db, unit) op" where
  "record_card_runtime_event py now e = connect (\<lambda>db.
     let previous = card_runtime db (ev_board e) (ev_card_id e);
         preserve = preserve_finished e previous
     in if preserve \<and> ev_kind e \<noteq> ''worker_exited'' then (Inr (), db)
        else then_do (case or_text (ev_run_id e) of
               None \<Rightarrow> give () | Some run_id \<Rightarrow> record_attempt py now e run_id)
             (\<lambda>_ db. (Inr (), if preserve then db
                else case previous of
                       Some r \<Rightarrow> if late_event e r then db else write_runtime now e db
                     | None \<Rightarrow> write_runtime now e db)) db)"

section \<open>Other writers\<close>

definition register_card_attempt ::
  "int \<Rightarrow> string \<Rightarrow> string \<Rightarrow> string \<Rightarrow> string \<Rightarrow> string \<Rightarrow> string \<Rightarrow> (cards_db, unit) op" where
  "register_card_attempt now board card_id profile dispatch_key worktree branch = connect (\<lambda>db. (Inr (),
     if card_runtime db board card_id = None
     then db\<lparr>runtime_tbl := runtime_tbl db @ [\<lparr>rt_board = board, rt_card_id = card_id,
       rt_profile = Some profile, rt_dispatch_key = Some dispatch_key, rt_worker_pid = None,
       rt_worker_started_at = None, rt_worker_session_id = None, rt_last_heartbeat_at = None,
       rt_last_progress_event_at = None, rt_deadline_at = None, rt_last_event_kind = None,
       rt_attempt = 1, rt_redispatch_count = 0, rt_worktree = Some worktree, rt_branch = Some branch,
       rt_mr_iid = None, rt_head_sha = None, rt_attempt_status = ''created'', rt_finished_at = None,
       rt_terminal_reason = None, rt_updated_at = now\<rparr>]\<rparr>
     else db\<lparr>runtime_tbl := update_where (\<lambda>r. rt_board r = board \<and> rt_card_id r = card_id)
       (\<lambda>r. r\<lparr>rt_profile := Some profile, rt_dispatch_key := Some dispatch_key,
         rt_worktree := Some worktree, rt_branch := Some branch, rt_updated_at := now\<rparr>) (runtime_tbl db)\<rparr>))"

definition record_attempt_completion ::
  "int \<Rightarrow> string \<Rightarrow> string \<Rightarrow> bool \<Rightarrow> int option \<Rightarrow> string option \<Rightarrow> string option \<Rightarrow> (cards_db, unit) op" where
  "record_attempt_completion now board card_id accepted mr_iid head_sha reason = connect (\<lambda>db. (Inr (),
     db\<lparr>runtime_tbl := update_where (\<lambda>r. rt_board r = board \<and> rt_card_id r = card_id)
       (\<lambda>r. r\<lparr>rt_mr_iid := coalesce mr_iid (rt_mr_iid r), rt_head_sha := coalesce head_sha (rt_head_sha r),
         rt_attempt_status := (if accepted then ''completed_accepted'' else ''completed_rejected''),
         rt_finished_at := coalesce (rt_finished_at r) (Some now),
         rt_terminal_reason := coalesce (map_option (take 1000) (or_text reason)) (rt_terminal_reason r),
         rt_updated_at := now\<rparr>) (runtime_tbl db)\<rparr>))"

definition current_attempt :: "cards_db \<Rightarrow> string \<Rightarrow> string \<Rightarrow> attempt_row option" where
  "current_attempt db board card_id =
     first_row (order_by (\<lambda>r. - at_attempt r) (card_attempt_rows db board card_id))"

text \<open>The attempts of a card that needed recovery, each counted once.\<close>

definition recovered_attempts :: "cards_db \<Rightarrow> string \<Rightarrow> string \<Rightarrow> nat" where
  "recovered_attempts db board card_id =
     rowcount (\<lambda>r. at_board r = board \<and> at_card_id r = card_id \<and> at_recovery_reason r \<noteq> None) (attempts_tbl db)"

definition mark_recovery :: "int \<Rightarrow> string \<Rightarrow> string \<Rightarrow> string option \<Rightarrow> cards_db \<Rightarrow> int option \<times> cards_db" where
  "mark_recovery now board card_id reason db =
     (case current_attempt db board card_id of
        Some current \<Rightarrow>
          let db' = db\<lparr>attempts_tbl := update_where (\<lambda>r. at_run_id r = at_run_id current)
                (\<lambda>r. r\<lparr>at_recovery_reason := coalesce (at_recovery_reason r)
                  (Some (take 1000 (case or_text reason of Some x \<Rightarrow> x | None \<Rightarrow> ''redispatch_requested''))),
                  at_updated_at := now\<rparr>) (attempts_tbl db)\<rparr>
          in (Some (int (recovered_attempts db' board card_id)), db')
      | None \<Rightarrow> (map_option (\<lambda>r. rt_redispatch_count r + 1) (card_runtime db board card_id), db))"

text \<open>The exception is raised after the transaction has been committed.\<close>

definition update_worker_watchdog ::
  "int \<Rightarrow> string \<Rightarrow> string \<Rightarrow> string \<Rightarrow> int option \<Rightarrow> string option \<Rightarrow> bool \<Rightarrow> (cards_db, unit) op" where
  "update_worker_watchdog now board card_id attempt_status lease_seconds reason increment db =
     (let (redispatch_count, db1) = (if increment then mark_recovery now board card_id reason db else (None, db));
          sel = (\<lambda>r. rt_board r = board \<and> rt_card_id r = card_id);
          db2 = db1\<lparr>runtime_tbl := update_where sel
            (\<lambda>r. r\<lparr>rt_attempt_status := attempt_status,
              rt_deadline_at := coalesce (map_option (\<lambda>s. now + s) lease_seconds) (rt_deadline_at r),
              rt_redispatch_count := (case redispatch_count of Some n \<Rightarrow> n | None \<Rightarrow> rt_redispatch_count r),
              rt_terminal_reason := coalesce (map_option (take 1000) (or_text reason)) (rt_terminal_reason r),
              rt_updated_at := now\<rparr>) (runtime_tbl db1)\<rparr>
      in (if rowcount sel (runtime_tbl db1) \<noteq> 1
          then Inl (ValueError (''unknown_card_runtime:'' @ board @ '':'' @ card_id)) else Inr (), db2))"

section \<open>Queries\<close>

text \<open>\<open>a or b\<close> on two nullable times (0 is false), and the age of the result.\<close>

definition or_time :: "int option \<Rightarrow> int option \<Rightarrow> int option" where
  "or_time a b = (case a of Some t \<Rightarrow> if t = 0 then b else a | None \<Rightarrow> b)"

definition age_seconds :: "int \<Rightarrow> int option \<Rightarrow> int option" where
  "age_seconds now t = map_option (\<lambda>t. max 0 (now - t)) t"

definition supervisor_state :: "(string \<Rightarrow> json option) \<Rightarrow> string option \<Rightarrow> json" where
  "supervisor_state loads raw = (case or_text raw of
     Some text \<Rightarrow> (case loads text of Some (JObj kvs) \<Rightarrow> JObj kvs | _ \<Rightarrow> JObj [(''state'', JStr ''unknown'')])
   | None \<Rightarrow> JObj [(''state'', JStr ''unknown'')])"

record attempt_view =
  av_attempt :: attempt_row
  av_metrics :: "metric_row list"
  av_heartbeat_age_seconds :: "int option"
  av_progress_age_seconds :: "int option"
  av_supervisor_state :: json

definition decorate_attempt_runtime ::
  "(string \<Rightarrow> json option) \<Rightarrow> int \<Rightarrow> attempt_row \<Rightarrow> metric_row list \<Rightarrow> attempt_view" where
  "decorate_attempt_runtime loads now r metrics =
     \<lparr>av_attempt = r, av_metrics = metrics,
      av_heartbeat_age_seconds = age_seconds now (or_time (at_last_heartbeat_at r) (at_started_at r)),
      av_progress_age_seconds = age_seconds now (or_time (at_last_progress_at r) (at_started_at r)),
      av_supervisor_state = supervisor_state loads
        (case find (\<lambda>m. mt_metric m = ''supervisor_probe'') metrics of Some m \<Rightarrow> mt_summary m | None \<Rightarrow> None)\<rparr>"

definition attempts_for_run :: "(string \<Rightarrow> json option) \<Rightarrow> int \<Rightarrow> cards_db \<Rightarrow> string \<Rightarrow> attempt_view list" where
  "attempts_for_run loads now db run_key =
     map (\<lambda>r. decorate_attempt_runtime loads now r
         (order_by mt_metric (filter (\<lambda>m. mt_run_id m = at_run_id r) (metrics_tbl db))))
       (order_by (\<lambda>r. (at_created_at r, at_run_id r)) (filter (\<lambda>r. at_run_key r = run_key) (attempts_tbl db)))"

record runtime_view =
  rv_runtime :: runtime_row
  rv_stage :: string
  rv_iteration :: int
  rv_heartbeat_age_seconds :: "int option"
  rv_progress_age_seconds :: "int option"
  rv_supervisor_state :: json

text \<open>The attempt a worker session \<open>kanban-run:<id>\<close> names.\<close>

definition session_run_id :: "runtime_row \<Rightarrow> string option" where
  "session_run_id r = (let session = the_text (rt_worker_session_id r) in
     if starts_with ''kanban-run:'' session
     then Some (rt_board r @ '':'' @ drop (length ''kanban-run:'') session) else None)"

definition runtime_for_run :: "(string \<Rightarrow> json option) \<Rightarrow> int \<Rightarrow> cards_db \<Rightarrow> string \<Rightarrow> runtime_view list" where
  "runtime_for_run loads now db run_key =
     (let joined = concat (map (\<lambda>r. map (\<lambda>c. (r, c)) (filter (\<lambda>c. mc_board c = rt_board r \<and>
              mc_card_id c = rt_card_id r \<and> mc_run_key c = run_key) (managed_tbl db))) (runtime_tbl db));
          probe = (\<lambda>run_id. find (\<lambda>m. mt_run_id m = run_id \<and> mt_metric m = ''supervisor_probe'' \<and>
              (\<exists>a \<in> set (attempts_tbl db). at_run_id a = run_id \<and> at_run_key a = run_key)) (metrics_tbl db))
      in map (\<lambda>(r, c). \<lparr>rv_runtime = r, rv_stage = mc_stage c, rv_iteration = mc_iteration c,
            rv_heartbeat_age_seconds = age_seconds now (or_time (rt_last_heartbeat_at r) (rt_worker_started_at r)),
            rv_progress_age_seconds = age_seconds now (or_time (rt_last_progress_event_at r) (rt_worker_started_at r)),
            rv_supervisor_state = supervisor_state loads
              (case probe (the_text (session_run_id r)) of Some m \<Rightarrow> mt_summary m | None \<Rightarrow> None)\<rparr>)
          (order_by (\<lambda>(r, c). (rt_updated_at r, rt_card_id r)) joined))"

end
