(* ===== verification/Attempt_Properties.thy ===== *)
theory Attempt_Properties
  imports Attempts
begin

text \<open>
  Attempts of a card: they are numbered 1 to n in the order they began, a finished
  card is not resurrected by late events of its session, a late terminal event
  however overwrites a terminal attempt, and the recovery counter counts attempts,
  not watchdog rounds.
\<close>

section \<open>What the operations do to the attempts\<close>

type_synonym attempt_key = "string \<times> string \<times> string \<times> int"

definition attempt_key :: "attempt_row \<Rightarrow> attempt_key" where
  "attempt_key r = (at_run_id r, at_board r, at_card_id r, at_attempt r)"

definition keys_of :: "cards_db \<Rightarrow> attempt_key list" where
  "keys_of db = map attempt_key (attempts_tbl db)"

lemma keys_update_where:
  "(\<And>r. attempt_key (f r) = attempt_key r) \<Longrightarrow> map attempt_key (update_where p f t) = map attempt_key t"
  by (rule map_update_where)

lemma attempt_key_updates [simp]:
  "attempt_key (touch_attempt now e r) = attempt_key r"
  "attempt_key (r\<lparr>at_recovery_reason := x, at_updated_at := n\<rparr>) = attempt_key r"
  "attempt_key (r\<lparr>at_redispatched_from_run_id := x, at_updated_at := n\<rparr>) = attempt_key r"
  by (simp_all add: attempt_key_def touch_attempt_def)

lemma find_attempt_None: "find_attempt db k = None \<longleftrightarrow> k \<notin> fst ` set (keys_of db)"
  by (auto simp: find_attempt_def keys_of_def attempt_key_def find_None_iff image_iff)

text \<open>A write appends the next attempt of the card, under a new identifier, or keeps all keys.\<close>

definition extends :: "cards_db \<Rightarrow> cards_db \<Rightarrow> bool" where
  "extends db db' \<longleftrightarrow> keys_of db' = keys_of db \<or>
     (\<exists>k b c. k \<notin> fst ` set (keys_of db) \<and> keys_of db' = keys_of db @ [(k, b, c, next_attempt db b c)])"

lemma extends_same: "keys_of db' = keys_of db \<Longrightarrow> extends db db'"
  by (simp add: extends_def)

lemma write_attempt_effect:
  assumes "write_attempt now e k db = (Inr u, db')"
  shows "extends db db' \<and> runtime_tbl db' = runtime_tbl db \<and> metrics_tbl db' = metrics_tbl db \<and>
    find_attempt db' k \<noteq> None"
proof -
  obtain managed where m: "managed_card db (ev_board e) (ev_card_id e) = Some managed"
    using assms by (auto simp: write_attempt_def split: option.splits)
  show ?thesis
  proof (cases "find_attempt db k")
    case (Some r)
    with assms m have db': "db' = db\<lparr>attempts_tbl := update_where (\<lambda>r. at_run_id r = k) (touch_attempt now e) (attempts_tbl db)\<rparr>"
      by (auto simp: write_attempt_def split: if_splits)
    then have "keys_of db' = keys_of db" by (simp add: keys_of_def keys_update_where)
    with Some db' find_attempt_None [of db k] find_attempt_None [of db' k] show ?thesis
      by (auto simp: extends_def)
  next
    case None
    with assms m have db': "db' = db\<lparr>attempts_tbl := attempts_tbl db @ [new_attempt_row now e k
        (mc_run_key managed) (next_attempt db (ev_board e) (ev_card_id e))]\<rparr>"
      by (auto simp: write_attempt_def split: if_splits)
    then have "keys_of db' = keys_of db @ [(k, ev_board e, ev_card_id e, next_attempt db (ev_board e) (ev_card_id e))]"
      by (simp add: keys_of_def new_attempt_row_def attempt_key_def)
    with None db' find_attempt_None [of db k] find_attempt_None [of db' k] show ?thesis
      unfolding extends_def by auto
  qed
qed

lemma link_redispatch_effect:
  "keys_of (link_redispatch now e k db) = keys_of db \<and> runtime_tbl (link_redispatch now e k db) = runtime_tbl db"
  by (simp add: link_redispatch_def keys_of_def keys_update_where split: option.splits)

definition metric_key :: "metric_row \<Rightarrow> string \<times> string" where
  "metric_key m = (mt_run_id m, mt_metric m)"

text \<open>One row for each metric of an attempt, and every metric belongs to an attempt.\<close>

definition metric_tbl_ok :: "string set \<Rightarrow> metric_row list \<Rightarrow> bool" where
  "metric_tbl_ok ids t \<longleftrightarrow> unique_on metric_key t \<and> (\<forall>m \<in> set t. mt_run_id m \<in> ids)"

definition metrics_ok :: "cards_db \<Rightarrow> bool" where
  "metrics_ok db \<longleftrightarrow> metric_tbl_ok (fst ` set (keys_of db)) (metrics_tbl db)"

lemma metric_key_updates [simp]:
  "metric_key (replace_metric new r) = metric_key r"
  "metric_key (r\<lparr>mt_summary := x, mt_recorded_at := n\<rparr>) = metric_key r"
  by (simp_all add: metric_key_def replace_metric_def)

lemma upsert_metric_ok:
  assumes "metric_tbl_ok ids t" "mt_run_id new \<in> ids" "\<And>r. metric_key (f r) = metric_key r"
  shows "metric_tbl_ok ids (upsert_metric new f t)"
proof (cases "\<exists>r \<in> set t. mt_run_id r = mt_run_id new \<and> mt_metric r = mt_metric new")
  case True
  have "mt_run_id (f r) = mt_run_id r" for r using assms(3) [of r] by (simp add: metric_key_def)
  note same = this
  let ?up = "update_where (\<lambda>r. mt_run_id r = mt_run_id new \<and> mt_metric r = mt_metric new) f t"
  have "unique_on metric_key ?up"
    by (rule unique_on_update_where) (use assms(1,3) in \<open>simp_all add: metric_tbl_ok_def\<close>)
  moreover have "mt_run_id m \<in> ids" if "m \<in> set ?up" for m
  proof -
    obtain q where q: "q \<in> set t"
      "m = (if mt_run_id q = mt_run_id new \<and> mt_metric q = mt_metric new then f q else q)"
      using \<open>m \<in> set ?up\<close> unfolding set_update_where by blast
    with same [of q] have "mt_run_id m = mt_run_id q" by simp
    with q(1) assms(1) show ?thesis by (simp add: metric_tbl_ok_def)
  qed
  ultimately show ?thesis using True by (simp add: metric_tbl_ok_def upsert_metric_def)
next
  case False
  have "upsert_metric new f t = t @ [new]" using False by (simp only: upsert_metric_def if_False)
  moreover have "\<forall>q \<in> set t. metric_key q \<noteq> metric_key new" using False by (simp add: metric_key_def)
  ultimately show ?thesis using assms(1,2) by (simp add: metric_tbl_ok_def unique_on_insert)
qed

lemma link_redispatch_metrics:
  assumes "metrics_ok db" "find_attempt db k \<noteq> None"
  shows "metrics_ok (link_redispatch now e k db)"
proof -
  have k: "k \<in> fst ` set (keys_of db)" using assms(2) unfolding find_attempt_None by simp
  show ?thesis
  proof (cases "first_row (order_by (\<lambda>r. - at_attempt r)
      (filter (\<lambda>r. at_status r = ''reclaimed'' \<and> at_run_id r \<noteq> k)
        (card_attempt_rows db (ev_board e) (ev_card_id e))))")
    case None
    with assms(1) show ?thesis by (simp add: link_redispatch_def)
  next
    case (Some r)
    let ?new = "\<lparr>mt_run_id = k, mt_metric = ''redispatched_from_run_id'', mt_duration_ms = 0,
      mt_summary = Some (at_run_id r), mt_recorded_at = now\<rparr>"
    have "metric_tbl_ok (fst ` set (keys_of db))
        (upsert_metric ?new (\<lambda>q. q\<lparr>mt_summary := Some (at_run_id r), mt_recorded_at := now\<rparr>) (metrics_tbl db))"
      by (rule upsert_metric_ok) (use assms(1) k in \<open>simp_all add: metrics_ok_def\<close>)
    moreover have "metrics_tbl (link_redispatch now e k db) =
        upsert_metric ?new (\<lambda>q. q\<lparr>mt_summary := Some (at_run_id r), mt_recorded_at := now\<rparr>) (metrics_tbl db)"
      using Some by (simp add: link_redispatch_def)
    ultimately show ?thesis by (simp add: metrics_ok_def link_redispatch_effect)
  qed
qed

lemma progress_metrics_ok:
  assumes "metric_tbl_ok ids t" "k \<in> ids"
  shows "metric_tbl_ok ids (progress_metrics ms e k vs summary t)"
proof -
  have "metric_tbl_ok ids (fold (\<lambda>metric t. case map_of vs metric of None \<Rightarrow> t
     | Some v \<Rightarrow> if v < 0 then t
         else let new = \<lparr>mt_run_id = k, mt_metric = metric, mt_duration_ms = max 0 (ms v),
                mt_summary = summary, mt_recorded_at = ev_created_at e\<rparr>
              in upsert_metric new (replace_metric new) t) names t)" for names
    using assms(1)
  proof (induction names arbitrary: t)
    case (Cons m names)
    from Cons.prems assms(2) upsert_metric_ok show ?case
      by (auto simp: Let_def intro!: Cons.IH split: option.splits)
  qed simp
  then show ?thesis unfolding progress_metrics_def .
qed

section \<open>An event\<close>

lemma record_attempt_effect:
  assumes "record_attempt py now e k db = (Inr u, db')" "metrics_ok db"
  shows "extends db db' \<and> runtime_tbl db' = runtime_tbl db \<and> metrics_ok db'"
proof -
  obtain u1 db1 where w: "write_attempt now e k db = (Inr u1, db1)"
    using assms(1) by (auto simp: record_attempt_def then_do_def split: prod.splits sum.splits)
  note w1 = write_attempt_effect [OF w]
  have sub: "fst ` set (keys_of db) \<subseteq> fst ` set (keys_of db1)"
    using w1 by (auto simp: extends_def)
  with assms(2) w1 have m1: "metrics_ok db1"
    by (auto simp: metrics_ok_def metric_tbl_ok_def)
  define db2 where "db2 = (if ev_started e then link_redispatch now e k db1 else db1)"
  have m2: "metrics_ok db2" using m1 w1 link_redispatch_metrics by (simp add: db2_def)
  have k2: "keys_of db2 = keys_of db1" "runtime_tbl db2 = runtime_tbl db1"
    by (simp_all add: db2_def link_redispatch_effect)
  have "k \<in> fst ` set (keys_of db2)"
    using w1 [THEN conjunct2, THEN conjunct2, THEN conjunct2] unfolding find_attempt_None k2 by simp
  then have m3: "metrics_ok (db2\<lparr>metrics_tbl := progress_metrics ms e k vs summary (metrics_tbl db2)\<rparr>)"
    for ms vs summary
    using m2 progress_metrics_ok by (simp add: metrics_ok_def keys_of_def)
  have step: "record_attempt py now e k db = (case ev_runtime_metrics e of
          None \<Rightarrow> (Inr (), db2)
        | Some vs \<Rightarrow>
            if ev_kind e \<noteq> ''progress'' \<or> vs = [] then (Inr (), db2)
            else case safe_summary (py_dump py) (py_int_text py) (ev_progress_summary e) of
                   Inl x \<Rightarrow> (Inl x, db2)
                 | Inr summary \<Rightarrow> (Inr (), db2\<lparr>metrics_tbl :=
                     progress_metrics (py_ms py) e k vs summary (metrics_tbl db2)\<rparr>))"
    by (simp only: record_attempt_def then_do_def w prod.case sum.case Let_def db2_def)
  from assms(1) [unfolded step] have "db' = db2 \<or> (\<exists>ms vs summary. db' =
      db2\<lparr>metrics_tbl := progress_metrics ms e k vs summary (metrics_tbl db2)\<rparr>)"
    by (auto split: option.splits if_splits sum.splits)
  then show ?thesis
  proof
    assume "db' = db2" with w1 k2 m2 show ?thesis by (simp add: extends_def)
  next
    assume "\<exists>ms vs summary. db' =
      db2\<lparr>metrics_tbl := progress_metrics ms e k vs summary (metrics_tbl db2)\<rparr>"
    then obtain ms vs summary where
      "db' = db2\<lparr>metrics_tbl := progress_metrics ms e k vs summary (metrics_tbl db2)\<rparr>" by blast
    with w1 k2 m3 show ?thesis by (simp add: extends_def keys_of_def)
  qed
qed

definition runtime_key :: "runtime_row \<Rightarrow> string \<times> string" where
  "runtime_key r = (rt_board r, rt_card_id r)"

lemma card_runtime_None: "card_runtime db b c = None \<longleftrightarrow> (b, c) \<notin> runtime_key ` set (runtime_tbl db)"
  by (auto simp: card_runtime_def find_None_iff runtime_key_def image_iff)

lemma runtime_key_updates [simp]:
  "runtime_key (touch_runtime now e r) = runtime_key r"
  "runtime_key (new_runtime_row now e) = (ev_board e, ev_card_id e)"
  by (simp_all add: runtime_key_def touch_runtime_def new_runtime_row_def Let_def)

lemma write_runtime_effect:
  "attempts_tbl (write_runtime now e db) = attempts_tbl db \<and> metrics_tbl (write_runtime now e db) = metrics_tbl db"
  "unique_on runtime_key (runtime_tbl db) \<Longrightarrow> unique_on runtime_key (runtime_tbl (write_runtime now e db))"
proof -
  show "attempts_tbl (write_runtime now e db) = attempts_tbl db \<and> metrics_tbl (write_runtime now e db) = metrics_tbl db"
    by (simp add: write_runtime_def)
  assume u: "unique_on runtime_key (runtime_tbl db)"
  show "unique_on runtime_key (runtime_tbl (write_runtime now e db))"
  proof (cases "card_runtime db (ev_board e) (ev_card_id e) = None")
    case True
    then have "\<forall>q \<in> set (runtime_tbl db). runtime_key q \<noteq> (ev_board e, ev_card_id e)"
      unfolding card_runtime_None by (metis imageI)
    with True u show ?thesis by (simp add: write_runtime_def unique_on_insert)
  next
    case False
    then obtain r where "card_runtime db (ev_board e) (ev_card_id e) = Some r" by blast
    with unique_on_update_where [OF u] show ?thesis by (simp add: write_runtime_def)
  qed
qed

text \<open>Everything the invariant says of a store, relative to its predecessor.\<close>

definition progresses :: "cards_db \<Rightarrow> cards_db \<Rightarrow> bool" where
  "progresses db db' \<longleftrightarrow> extends db db' \<and> (metrics_ok db \<longrightarrow> metrics_ok db') \<and>
     (unique_on runtime_key (runtime_tbl db) \<longrightarrow> unique_on runtime_key (runtime_tbl db'))"

lemma progresses_refl: "progresses db db"
  by (simp add: progresses_def extends_same)

lemma progresses_runtime:
  assumes "attempts_tbl db' = attempts_tbl db" "metrics_tbl db' = metrics_tbl db"
    and "unique_on runtime_key (runtime_tbl db) \<Longrightarrow> unique_on runtime_key (runtime_tbl db')"
  shows "progresses db db'"
  using assms by (simp add: progresses_def extends_same keys_of_def metrics_ok_def)

lemma progresses_then_runtime:
  assumes "progresses db t" "attempts_tbl u = attempts_tbl t" "metrics_tbl u = metrics_tbl t"
    and "unique_on runtime_key (runtime_tbl t) \<Longrightarrow> unique_on runtime_key (runtime_tbl u)"
  shows "progresses db u"
  using assms by (simp add: progresses_def extends_def keys_of_def metrics_ok_def)

lemma event_progresses:
  assumes "metrics_ok db"
  shows "progresses db (snd (record_card_runtime_event py now e db))"
  unfolding record_card_runtime_event_def
proof (rule connect_keeps [where P = "progresses db", OF progresses_refl])
  fix v t
  let ?prev = "card_runtime db (ev_board e) (ev_card_id e)"
  let ?rest = "\<lambda>db. if preserve_finished e ?prev then db
      else case ?prev of Some r \<Rightarrow> if late_event e r then db else write_runtime now e db
        | None \<Rightarrow> write_runtime now e db"
  assume run: "(let previous = ?prev; preserve = preserve_finished e previous
      in if preserve \<and> ev_kind e \<noteq> ''worker_exited'' then (Inr (), db)
        else then_do (case or_text (ev_run_id e) of
               None \<Rightarrow> give () | Some run_id \<Rightarrow> record_attempt py now e run_id)
             (\<lambda>_ db. (Inr (), if preserve then db
                else case previous of
                       Some r \<Rightarrow> if late_event e r then db else write_runtime now e db
                     | None \<Rightarrow> write_runtime now e db)) db) = (Inr v, t)"
  show "progresses db t"
  proof (cases "preserve_finished e ?prev \<and> ev_kind e \<noteq> ''worker_exited''")
    case True
    with run show ?thesis by (simp add: Let_def progresses_refl)
  next
    case False
    with run obtain u t1 where mid: "(case or_text (ev_run_id e) of
        None \<Rightarrow> give () | Some run_id \<Rightarrow> record_attempt py now e run_id) db = (Inr u, t1)" "t = ?rest t1"
      unfolding Let_def if_not_P [OF False] then_do_def by (auto split: prod.splits sum.splits)
    have "progresses db t1"
    proof (cases "or_text (ev_run_id e)")
      case None
      with mid(1) show ?thesis by (simp add: progresses_refl)
    next
      case (Some k)
      with mid(1) have "record_attempt py now e k db = (Inr u, t1)" by simp
      from record_attempt_effect [OF this assms] show ?thesis by (simp add: progresses_def)
    qed
    moreover have "attempts_tbl t = attempts_tbl t1 \<and> metrics_tbl t = metrics_tbl t1 \<and>
        (unique_on runtime_key (runtime_tbl t1) \<longrightarrow> unique_on runtime_key (runtime_tbl t))"
      unfolding mid(2) using write_runtime_effect by (auto split: option.splits)
    ultimately show ?thesis using progresses_then_runtime by blast
  qed
qed

lemma register_progresses: "progresses db (snd (register_card_attempt now b c p d w br db))"
  by (rule progresses_runtime)
    (auto simp: register_card_attempt_def connect_def unique_on_insert card_runtime_None runtime_key_def
      image_iff intro!: unique_on_update_where)

lemma completion_progresses: "progresses db (snd (record_attempt_completion now b c acc m h r db))"
  by (rule progresses_runtime)
    (simp_all add: record_attempt_completion_def connect_def unique_on_update_where runtime_key_def)

lemma metric_progresses: "progresses db (snd (record_attempt_metric now k m d s db))"
proof (cases "find_attempt db k = None")
  case True
  then show ?thesis by (simp add: record_attempt_metric_def connect_def progresses_refl)
next
  case False
  then have "k \<in> fst ` set (keys_of db)" unfolding find_attempt_None by simp
  with False show ?thesis
    by (auto simp: record_attempt_metric_def connect_def Let_def progresses_def keys_of_def metrics_ok_def
        intro!: extends_same upsert_metric_ok)
qed

lemma mark_recovery_effect:
  "keys_of (snd (mark_recovery now b c reason db)) = keys_of db"
  "runtime_tbl (snd (mark_recovery now b c reason db)) = runtime_tbl db"
  "metrics_tbl (snd (mark_recovery now b c reason db)) = metrics_tbl db"
  by (auto simp: mark_recovery_def Let_def keys_of_def keys_update_where split: option.splits)

lemma watchdog_progresses: "progresses db (snd (update_worker_watchdog now b c st lease reason inc db))"
proof -
  define n1 where "n1 = (if inc then mark_recovery now b c reason db else (None, db))"
  have n1: "keys_of (snd n1) = keys_of db" "runtime_tbl (snd n1) = runtime_tbl db" "metrics_tbl (snd n1) = metrics_tbl db"
    by (simp_all add: n1_def mark_recovery_effect)
  then have "progresses db (snd n1)" by (simp add: progresses_def extends_same metrics_ok_def)
  then show ?thesis
    by (rule progresses_then_runtime)
      (auto simp: update_worker_watchdog_def n1_def [symmetric] Let_def split_beta runtime_key_def
        intro!: unique_on_update_where)
qed

section \<open>Numbered attempts\<close>

definition numbers :: "attempt_key list \<Rightarrow> string \<Rightarrow> string \<Rightarrow> int list" where
  "numbers ks b c = map (\<lambda>(_, _, _, n). n) (filter (\<lambda>(_, b', c', _). b' = b \<and> c' = c) ks)"

definition numbered :: "attempt_key list \<Rightarrow> bool" where
  "numbered ks \<longleftrightarrow> (\<forall>b c. numbers ks b c = [1..int (length (numbers ks b c))])"

lemma numbers_of_card: "numbers (keys_of db) b c = map at_attempt (card_attempt_rows db b c)"
  by (simp add: numbers_def keys_of_def card_attempt_rows_def filter_map comp_def attempt_key_def)

lemma Max_upto: "0 < n \<Longrightarrow> Max {1..int n} = int n"
  by (rule Max_eqI) auto

lemma next_attempt_numbered:
  assumes "numbered (keys_of db)"
  shows "next_attempt db b c = int (length (card_attempt_rows db b c)) + 1"
proof (cases "card_attempt_rows db b c")
  case Nil then show ?thesis by (simp add: next_attempt_def)
next
  case (Cons r rs)
  let ?rows = "card_attempt_rows db b c"
  have "map at_attempt ?rows = [1..int (length ?rows)]"
    using assms unfolding numbered_def numbers_of_card by (metis length_map)
  then have "set (map at_attempt ?rows) = {1..int (length ?rows)}" by simp
  then have "Max (set (map at_attempt ?rows)) = int (length ?rows)"
    using Max_upto [of "length ?rows"] Cons by simp
  with Cons show ?thesis by (simp add: next_attempt_def)
qed

lemma numbered_extends:
  assumes "extends db db'" "numbered (keys_of db)"
  shows "numbered (keys_of db')"
  using assms(1) unfolding extends_def
proof
  assume "keys_of db' = keys_of db" with assms(2) show ?thesis by simp
next
  assume "\<exists>k b c. k \<notin> fst ` set (keys_of db) \<and> keys_of db' = keys_of db @ [(k, b, c, next_attempt db b c)]"
  then obtain k b c where ks: "keys_of db' = keys_of db @ [(k, b, c, next_attempt db b c)]" by blast
  have len: "length (numbers (keys_of db) b c) = length (card_attempt_rows db b c)"
    by (simp add: numbers_of_card)
  have new: "numbers (keys_of db') b' c' = numbers (keys_of db) b' c' @
      (if b' = b \<and> c' = c then [int (length (numbers (keys_of db) b c)) + 1] else [])" for b' c'
    unfolding ks next_attempt_numbered [OF assms(2)] len by (simp add: numbers_def)
  have old: "numbers (keys_of db) b' c' = [1..int (length (numbers (keys_of db) b' c'))]" for b' c'
    using assms(2) unfolding numbered_def by blast
  show ?thesis unfolding numbered_def
  proof (intro allI)
    fix b' c'
    let ?n = "length (numbers (keys_of db) b' c')"
    have "[1..int ?n + 1] = [1..int ?n] @ [int ?n + 1]"
      using upto_rec2 [of 1 "int ?n + 1"] by simp
    with new [of b' c'] old [of b' c'] show "numbers (keys_of db') b' c' = [1..int (length (numbers (keys_of db') b' c'))]"
      by (auto simp: add.commute)
  qed
qed

lemma distinct_extends:
  "extends db db' \<Longrightarrow> distinct (map fst (keys_of db)) \<Longrightarrow> distinct (map fst (keys_of db'))"
  by (auto simp: extends_def)

definition cards_ok :: "cards_db \<Rightarrow> bool" where
  "cards_ok db \<longleftrightarrow> unique_on at_run_id (attempts_tbl db) \<and>
     (\<forall>b c. map at_attempt (card_attempt_rows db b c) = [1..int (length (card_attempt_rows db b c))]) \<and>
     unique_on (\<lambda>r. (rt_board r, rt_card_id r)) (runtime_tbl db) \<and>
     unique_on (\<lambda>m. (mt_run_id m, mt_metric m)) (metrics_tbl db) \<and>
     (\<forall>m \<in> set (metrics_tbl db). \<exists>r \<in> set (attempts_tbl db). at_run_id r = mt_run_id m)"

lemma cards_ok_iff:
  "cards_ok db \<longleftrightarrow> distinct (map fst (keys_of db)) \<and> numbered (keys_of db) \<and>
     unique_on runtime_key (runtime_tbl db) \<and> metrics_ok db"
proof -
  have 1: "map fst (keys_of db) = map at_run_id (attempts_tbl db)"
    by (simp add: keys_of_def attempt_key_def)
  have 2: "fst ` set (keys_of db) = at_run_id ` set (attempts_tbl db)"
    using arg_cong [OF 1, of set] by simp
  have 4: "x \<in> at_run_id ` set t \<longleftrightarrow> (\<exists>r \<in> set t. at_run_id r = x)" for x and t :: "attempt_row list"
    by auto
  have 3: "runtime_key = (\<lambda>r. (rt_board r, rt_card_id r))" "metric_key = (\<lambda>m. (mt_run_id m, mt_metric m))"
    by (simp_all add: fun_eq_iff runtime_key_def metric_key_def)
  show ?thesis
    unfolding cards_ok_def unique_on_def metrics_ok_def metric_tbl_ok_def numbered_def numbers_of_card 1 2 3
      length_map 4 ..
qed

inductive cards_step :: "cards_db \<Rightarrow> cards_db \<Rightarrow> bool" where
  cs_run: "cards_step db (db\<lparr>cd_runs := runs\<rparr>)"
| cs_card: "cards_step db (snd (add_managed_card now c created_at db))"
| cs_event: "cards_step db (snd (record_card_runtime_event py now e db))"
| cs_register: "cards_step db (snd (register_card_attempt now board card_id p d w br db))"
| cs_completion: "cards_step db (snd (record_attempt_completion now board card_id acc m h r db))"
| cs_metric: "cards_step db (snd (record_attempt_metric now k metric ms summary db))"
| cs_watchdog: "cards_step db (snd (update_worker_watchdog now board card_id st lease reason inc db))"

definition no_cards :: "cards_db \<Rightarrow> bool" where
  "no_cards db \<longleftrightarrow> managed_tbl db = [] \<and> runtime_tbl db = [] \<and> attempts_tbl db = [] \<and> metrics_tbl db = []"

lemma managed_progresses: "progresses db (snd (add_managed_card now c created_at db))"
  by (rule progresses_runtime) (simp_all add: add_managed_card_def connect_def)

lemma step_progresses: "cards_step db db' \<Longrightarrow> metrics_ok db \<Longrightarrow> progresses db db'"
proof (induction rule: cards_step.induct)
  case (cs_run db runs)
  show ?case by (rule progresses_runtime) simp_all
qed (simp_all add: managed_progresses event_progresses register_progresses completion_progresses
    metric_progresses watchdog_progresses)

interpretation cards_inv: inductive_invariant no_cards cards_step cards_ok
proof unfold_locales
  fix db :: cards_db assume "no_cards db"
  then show "cards_ok db" by (simp add: no_cards_def cards_ok_def card_attempt_rows_def unique_on_def)
next
  fix db db' assume "cards_step db db'" "cards_ok db"
  then have "progresses db db'" "cards_ok db" using step_progresses cards_ok_iff by blast+
  then show "cards_ok db'"
    unfolding cards_ok_iff progresses_def using numbered_extends distinct_extends by blast
qed


definition sample_event :: "string \<Rightarrow> int \<Rightarrow> runtime_event" where
  "sample_event kind t = \<lparr>ev_board = ''b'', ev_card_id = ''t_1'', ev_kind = kind, ev_created_at = t,
     ev_worker_session_id = Some ''s'', ev_worker_pid = Some 7, ev_lease_seconds = 60,
     ev_run_id = Some ''b:1'', ev_runtime_metrics = None, ev_progress_summary = None\<rparr>"

definition sample_py :: py_env where
  "sample_py = \<lparr>py_dump = (\<lambda>_. []), py_int_text = (\<lambda>_. None), py_ms = (\<lambda>x. \<lfloor>x\<rfloor>)\<rparr>"

definition sample_card :: managed_row where
  "sample_card = \<lparr>mc_board = ''b'', mc_card_id = ''t_1'', mc_run_key = ''r'', mc_stage = ''test'',
     mc_iteration = 1, mc_idempotency_key = ''k'', mc_parent_card_id = None, mc_purpose = ''work'',
     mc_created_at = 1\<rparr>"

definition sample_attempt :: "string \<Rightarrow> attempt_row" where
  "sample_attempt status = (new_attempt_row 1 (sample_event ''claimed'' 1) ''b:1'' ''r'' 1)\<lparr>at_status := status\<rparr>"

definition sample_cards :: "string \<Rightarrow> int option \<Rightarrow> cards_db" where
  "sample_cards status finished = \<lparr>cd_runs = empty_runs, managed_tbl = [sample_card],
     runtime_tbl = [(new_runtime_row 1 (sample_event ''claimed'' 1))\<lparr>rt_finished_at := finished\<rparr>],
     attempts_tbl = [sample_attempt status], metrics_tbl = []\<rparr>"


section \<open>Late events\<close>

lemma write_attempt_runtime: "runtime_tbl (snd (write_attempt now e k db)) = runtime_tbl db"
  by (simp add: write_attempt_def split: option.splits)

lemma record_attempt_runtime: "runtime_tbl (snd (record_attempt py now e k db)) = runtime_tbl db"
  using write_attempt_runtime [of now e k db]
  by (auto simp: record_attempt_def then_do_def Let_def link_redispatch_effect
      split: prod.splits sum.splits option.splits)

lemma attempt_part_runtime:
  "runtime_tbl (snd ((case or_text (ev_run_id e) of None \<Rightarrow> give ()
     | Some run_id \<Rightarrow> record_attempt py now e run_id) db)) = runtime_tbl db"
  by (simp add: record_attempt_runtime split: option.splits)

lemma card_runtime_cong: "runtime_tbl t = runtime_tbl db \<Longrightarrow> card_runtime t b c = card_runtime db b c"
  by (simp add: card_runtime_def)

lemma write_runtime_other:
  assumes "(ev_board e, ev_card_id e) \<noteq> (b, c)"
  shows "card_runtime (write_runtime now e db) b c = card_runtime db b c"
proof -
  have key: "rt_board (touch_runtime now e r) = rt_board r \<and> rt_card_id (touch_runtime now e r) = rt_card_id r" for r
    by (simp add: touch_runtime_def Let_def)
  have "find (\<lambda>r. rt_board r = b \<and> rt_card_id r = c)
      (update_where (\<lambda>r. rt_board r = ev_board e \<and> rt_card_id r = ev_card_id e) (touch_runtime now e) t) =
    find (\<lambda>r. rt_board r = b \<and> rt_card_id r = c) t" for t
    using assms key by (induction t) auto
  moreover have "find (\<lambda>r. rt_board r = b \<and> rt_card_id r = c) (t @ [new_runtime_row now e]) =
      find (\<lambda>r. rt_board r = b \<and> rt_card_id r = c) t" for t
  proof -
    have "\<not> (rt_board (new_runtime_row now e) = b \<and> rt_card_id (new_runtime_row now e) = c)"
      using assms by (simp add: new_runtime_row_def)
    then show ?thesis by (induction t) simp_all
  qed
  ultimately show ?thesis by (simp add: write_runtime_def card_runtime_def)
qed

text \<open>An event that must not touch a finished card: it is not terminal and starts no new session.\<close>

definition harmless :: "runtime_row \<Rightarrow> runtime_event \<Rightarrow> bool" where
  "harmless r e \<longleftrightarrow> \<not> ((ev_board e, ev_card_id e) = (rt_board r, rt_card_id r) \<and>
     (ev_terminal e \<or> ev_started e \<and> other_session e r))"

lemma harmless_event:
  assumes "card_runtime db (rt_board r) (rt_card_id r) = Some r" "rt_finished_at r \<noteq> None" "harmless r e"
  shows "card_runtime (snd (record_card_runtime_event py now e db)) (rt_board r) (rt_card_id r) = Some r"
  unfolding record_card_runtime_event_def
proof (rule connect_keeps [where P = "\<lambda>t. card_runtime t (rt_board r) (rt_card_id r) = Some r", OF assms(1)])
  fix v t
  let ?prev = "card_runtime db (ev_board e) (ev_card_id e)"
  assume run: "(let previous = ?prev; preserve = preserve_finished e previous
      in if preserve \<and> ev_kind e \<noteq> ''worker_exited'' then (Inr (), db)
        else then_do (case or_text (ev_run_id e) of
               None \<Rightarrow> give () | Some run_id \<Rightarrow> record_attempt py now e run_id)
             (\<lambda>_ db. (Inr (), if preserve then db
                else case previous of
                       Some r \<Rightarrow> if late_event e r then db else write_runtime now e db
                     | None \<Rightarrow> write_runtime now e db)) db) = (Inr v, t)"
  show "card_runtime t (rt_board r) (rt_card_id r) = Some r"
  proof (cases "(ev_board e, ev_card_id e) = (rt_board r, rt_card_id r)")
    case True
    with assms have "preserve_finished e ?prev"
      by (auto simp: preserve_finished_def harmless_def new_session_def)
    with run attempt_part_runtime [where e = e and py = py and now = now and db = db] have "runtime_tbl t = runtime_tbl db"
      by (auto simp: Let_def then_do_def split: if_splits prod.splits sum.splits)
    with card_runtime_cong assms(1) show ?thesis by metis
  next
    case False
    note other = write_runtime_other [OF False]
    from run attempt_part_runtime [where e = e and py = py and now = now and db = db] obtain t1 where
      "runtime_tbl t1 = runtime_tbl db" "t = t1 \<or> t = write_runtime now e t1"
      by (auto simp: Let_def then_do_def split: if_splits prod.splits sum.splits option.splits)
    with other card_runtime_cong assms(1) show ?thesis by metis
  qed
qed

text \<open>Recording a sequence of events, each at its own time.\<close>

definition record_events :: "py_env \<Rightarrow> (int \<times> runtime_event) list \<Rightarrow> cards_db \<Rightarrow> cards_db" where
  "record_events py es db = fold (\<lambda>(now, e) db. snd (record_card_runtime_event py now e db)) es db"

text \<open>
  A finished card is not resurrected: whatever events follow, as long as none of
  them is a terminal event of the card or the start of another session, its runtime
  row stays as it is, late heartbeats, progress and exits included.
\<close>

theorem finished_card_is_kept:
  assumes "card_runtime db (rt_board r) (rt_card_id r) = Some r" "rt_finished_at r \<noteq> None"
    and "\<forall>(now, e) \<in> set es. harmless r e"
  shows "card_runtime (record_events py es db) (rt_board r) (rt_card_id r) = Some r"
  using assms(1,3)
proof (induction es arbitrary: db)
  case Nil then show ?case by (simp add: record_events_def)
next
  case (Cons x es)
  obtain now e where x: "x = (now, e)" by fastforce
  with Cons.prems harmless_event [OF _ assms(2), where db = db and e = e and py = py and now = now] show ?case
    using Cons.IH [of "snd (record_card_runtime_event py now e db)"] by (simp add: record_events_def)
qed

theorem finished_card_is_kept_witness:
  "\<exists>r. card_runtime (record_events sample_py [(20, sample_event ''heartbeat'' 19), (21, sample_event ''worker_exited'' 20)]
      (sample_cards ''completion_recorded'' (Some 15))) ''b'' ''t_1'' = Some r \<and> rt_finished_at r = Some 15"
proof -
  let ?r = "(new_runtime_row 1 (sample_event ''claimed'' 1))\<lparr>rt_finished_at := Some 15\<rparr>"
  have key: "rt_board ?r = ''b''" "rt_card_id ?r = ''t_1''"
    by (simp_all add: new_runtime_row_def sample_event_def)
  have 1: "card_runtime (sample_cards ''completion_recorded'' (Some 15)) (rt_board ?r) (rt_card_id ?r) = Some ?r"
    unfolding key by (simp add: card_runtime_def sample_cards_def key)
  have 2: "\<forall>(now, e) \<in> set [(20 :: int, sample_event ''heartbeat'' 19), (21, sample_event ''worker_exited'' 20)]. harmless ?r e"
    by (simp add: harmless_def sample_event_def ev_terminal_def ev_started_def terminal_kinds_def)
  from finished_card_is_kept [OF 1 _ 2, of sample_py] show ?thesis unfolding key by simp
qed

text \<open>
  A terminal event always wins: recorded for a known attempt it overwrites the
  attempt's status and the card's finish time and terminal reason, also when the
  attempt had been reclaimed, completed or exited before.
\<close>

theorem terminal_event_overwrites:
  assumes managed: "managed_card db (ev_board e) (ev_card_id e) = Some m"
    and run: "ev_run_id e = Some k" "k \<noteq> []"
    and attempt: "find_attempt db k = Some a" "at_board a = ev_board e" "at_card_id a = ev_card_id e"
      "at_run_key a = mc_run_key m"
    and runtime: "card_runtime db (ev_board e) (ev_card_id e) = Some r" "\<not> other_session e r"
    and terminal: "ev_terminal e"
  shows "\<exists>db' a' r'. record_card_runtime_event py now e db = (Inr (), db') \<and>
    find_attempt db' k = Some a' \<and>
    at_status a' = (if ev_kind e = ''completed'' then ''completion_recorded'' else ev_kind e) \<and>
    at_terminal_reason a' = Some (ev_kind e) \<and>
    card_runtime db' (ev_board e) (ev_card_id e) = Some r' \<and> rt_attempt_status r' = ''finished'' \<and>
    rt_finished_at r' = Some (ev_created_at e) \<and> rt_terminal_reason r' = Some (ev_kind e)"
proof -
  have kinds: "\<not> ev_started e" "ev_kind e \<noteq> ''worker_exited''" "ev_kind e \<noteq> ''progress''"
    using terminal by (auto simp: ev_terminal_def ev_started_def terminal_kinds_def)
  define db1 where "db1 = db\<lparr>attempts_tbl := update_where (\<lambda>r. at_run_id r = k) (touch_attempt now e) (attempts_tbl db)\<rparr>"
  have key: "at_run_id (touch_attempt now e x) = at_run_id x" for x by (simp add: touch_attempt_def)
  have id: "at_run_id a = k" using find_SomeD attempt(1) by (fastforce simp: find_attempt_def)
  have found: "find_attempt db1 k = Some (touch_attempt now e a)"
    using attempt(1) id key by (simp add: db1_def find_attempt_def find_update_where)
  have wr: "write_attempt now e k db = (Inr (), db1)"
    using managed attempt by (simp add: write_attempt_def db1_def)
  have rec1: "record_attempt py now e k db = (Inr (), db1)"
    using wr kinds by (simp add: record_attempt_def Let_def split: option.splits)
  have same: "card_runtime db1 (ev_board e) (ev_card_id e) = Some r" using runtime(1) by (simp add: db1_def card_runtime_def)
  have rkey: "rt_board (touch_runtime now e x) = rt_board x" "rt_card_id (touch_runtime now e x) = rt_card_id x" for x
    by (simp_all add: touch_runtime_def Let_def)
  have rid: "rt_board r = ev_board e" "rt_card_id r = ev_card_id e"
    using find_SomeD runtime(1) by (fastforce simp: card_runtime_def)+
  let ?db = "write_runtime now e db1"
  have final: "card_runtime ?db (ev_board e) (ev_card_id e) = Some (touch_runtime now e r)"
    using same rkey rid by (simp add: write_runtime_def card_runtime_def find_update_where)
  have "\<not> late_event e r" using runtime(2) by (simp add: late_event_def)
  moreover have "\<not> preserve_finished e (Some r)" using terminal by (simp add: preserve_finished_def)
  ultimately have "record_card_runtime_event py now e db = (Inr (), ?db)"
    using run runtime(1) rec1 by (simp add: record_card_runtime_event_def connect_def Let_def or_text_def truthy_str_def)
  moreover have "find_attempt ?db k = Some (touch_attempt now e a)"
    using found by (simp add: find_attempt_def write_runtime_effect)
  moreover have "at_status (touch_attempt now e a) = (if ev_kind e = ''completed'' then ''completion_recorded'' else ev_kind e)"
    using terminal kinds by (simp add: touch_attempt_def status_after_def)
  ultimately show ?thesis using final terminal
    by (intro exI [of _ ?db] exI [of _ "touch_attempt now e a"] exI [of _ "touch_runtime now e r"])
      (simp add: touch_attempt_def touch_runtime_def new_runtime_row_def runtime_status_def at_time_def Let_def)
qed

theorem terminal_event_overwrites_witness:
  "\<exists>db' a' r'. record_card_runtime_event sample_py 20 (sample_event ''completed'' 19)
      (sample_cards ''reclaimed'' (Some 15)) = (Inr (), db') \<and>
    find_attempt db' ''b:1'' = Some a' \<and> at_status a' = ''completion_recorded'' \<and>
    card_runtime db' ''b'' ''t_1'' = Some r' \<and> rt_finished_at r' = Some 19"
proof -
  let ?e = "sample_event ''completed'' 19" and ?db = "sample_cards ''reclaimed'' (Some 15)"
  let ?r = "(new_runtime_row 1 (sample_event ''claimed'' 1))\<lparr>rt_finished_at := Some 15\<rparr>"
  have e: "ev_board ?e = ''b''" "ev_card_id ?e = ''t_1''" "ev_run_id ?e = Some ''b:1''" "ev_kind ?e = ''completed''"
    "ev_created_at ?e = 19" by (simp_all add: sample_event_def)
  have "managed_card ?db (ev_board ?e) (ev_card_id ?e) = Some sample_card"
    unfolding e by (simp add: managed_card_def sample_cards_def sample_card_def)
  moreover have "find_attempt ?db ''b:1'' = Some (sample_attempt ''reclaimed'')"
    "at_board (sample_attempt ''reclaimed'') = ev_board ?e" "at_card_id (sample_attempt ''reclaimed'') = ev_card_id ?e"
    "at_run_key (sample_attempt ''reclaimed'') = mc_run_key sample_card"
    unfolding e by (simp_all add: find_attempt_def sample_cards_def sample_attempt_def new_attempt_row_def
        sample_event_def sample_card_def)
  moreover have "card_runtime ?db (ev_board ?e) (ev_card_id ?e) = Some ?r"
    unfolding e by (simp add: card_runtime_def sample_cards_def new_runtime_row_def sample_event_def)
  moreover have "\<not> other_session ?e ?r"
    by (simp add: other_session_def new_runtime_row_def sample_event_def)
  moreover have "ev_terminal ?e" by (simp add: ev_terminal_def terminal_kinds_def e)
  ultimately show ?thesis
    using terminal_event_overwrites [OF _ e(3), of ?db sample_card "sample_attempt ''reclaimed''" ?r sample_py 20]
    unfolding e by auto
qed

section \<open>The recovery counter\<close>

lemma first_sorted:
  assumes "first_row (order_by f xs) = Some a"
  shows "a \<in> set xs \<and> (\<forall>x \<in> set xs. f a \<le> f x)"
proof -
  obtain ys where ys: "sort_key f xs = a # ys"
    using assms by (auto simp: first_row_def order_by_def split: list.splits)
  have "set xs = set (a # ys)" using arg_cong [OF ys, of set] by simp
  moreover have "sorted (map f (a # ys))" unfolding ys [symmetric] by simp
  ultimately show ?thesis by auto
qed

lemma rows_numbered: "cards_ok db \<Longrightarrow> map at_attempt (card_attempt_rows db b c) = [1..int (length (card_attempt_rows db b c))]"
  by (simp add: cards_ok_def)

lemma current_attempt_iff:
  assumes "cards_ok db"
  shows "current_attempt db b c = Some a \<longleftrightarrow>
    a \<in> set (card_attempt_rows db b c) \<and> at_attempt a = int (length (card_attempt_rows db b c))"
proof -
  let ?rows = "card_attempt_rows db b c"
  have inj: "x = y" if "x \<in> set ?rows" "y \<in> set ?rows" "at_attempt x = at_attempt y" for x y
  proof (rule unique_on_eq [of at_attempt ?rows])
    show "unique_on at_attempt ?rows" unfolding unique_on_def rows_numbered [OF assms] by simp
  qed (use that in simp_all)
  have nums: "at_attempt ` set ?rows = {1..int (length ?rows)}"
    using arg_cong [OF rows_numbered [OF assms], of set] by simp
  have top: "a \<in> set ?rows \<and> at_attempt a = int (length ?rows)" if cur: "current_attempt db b c = Some a" for a
  proof -
    from first_sorted [OF cur [unfolded current_attempt_def]]
    have a: "a \<in> set ?rows" "\<forall>x \<in> set ?rows. at_attempt x \<le> at_attempt a" by auto
    then have "1 \<le> int (length ?rows)" by (cases ?rows) auto
    then have "int (length ?rows) \<in> at_attempt ` set ?rows" unfolding nums atLeastAtMost_iff by (intro conjI order_refl)
    with a have "int (length ?rows) \<le> at_attempt a" by auto
    moreover have "at_attempt a \<in> {1..int (length ?rows)}" using a(1) unfolding nums [symmetric] by (rule imageI)
    ultimately show ?thesis using a(1) by simp
  qed
  show ?thesis
  proof
    assume "current_attempt db b c = Some a" then show "a \<in> set ?rows \<and> at_attempt a = int (length ?rows)" by (rule top)
  next
    assume a: "a \<in> set ?rows \<and> at_attempt a = int (length ?rows)"
    then have "order_by (\<lambda>r. - at_attempt r) ?rows \<noteq> []"
      by (metis empty_iff empty_set order_by_def set_sort)
    then obtain x where x: "current_attempt db b c = Some x"
      by (cases "order_by (\<lambda>r. - at_attempt r) ?rows") (simp_all add: current_attempt_def first_row_def)
    from top [OF x] a inj have "x = a" by metis
    with x show "current_attempt db b c = Some a" by simp
  qed
qed

lemma length_filter_mono:
  assumes "\<And>x. P x \<Longrightarrow> Q x"
  shows "length (filter P xs) \<le> length (filter Q xs)"
  by (induction xs) (auto dest: assms)

lemma length_pos_member: "x \<in> set xs \<Longrightarrow> 1 \<le> length xs"
  by (cases xs) simp_all

definition recovery_marked :: "int \<Rightarrow> string option \<Rightarrow> attempt_row \<Rightarrow> attempt_row" where
  "recovery_marked now reason r = r\<lparr>at_recovery_reason := coalesce (at_recovery_reason r)
     (Some (take 1000 (case or_text reason of Some x \<Rightarrow> x | None \<Rightarrow> ''redispatch_requested''))),
     at_updated_at := now\<rparr>"

lemma recovery_marked_fields [simp]:
  "at_run_id (recovery_marked now reason r) = at_run_id r" "at_board (recovery_marked now reason r) = at_board r"
  "at_card_id (recovery_marked now reason r) = at_card_id r" "at_attempt (recovery_marked now reason r) = at_attempt r"
  "(at_recovery_reason (recovery_marked now reason r) = None) = False"
  by (cases "at_recovery_reason r"; simp add: recovery_marked_def coalesce_def)+

lemma recovery_marked_some [simp]: "\<exists>y. at_recovery_reason (recovery_marked now reason r) = Some y"
  using recovery_marked_fields(5) by blast

lemma watchdog_counts:
  assumes "current_attempt db b c = Some a" "card_runtime db b c = Some r"
    and "db' = snd (update_worker_watchdog now b c st lease reason True db)"
  shows "attempts_tbl db' = update_where (\<lambda>x. at_run_id x = at_run_id a) (recovery_marked now reason) (attempts_tbl db)"
    "\<exists>r'. card_runtime db' b c = Some r' \<and> rt_redispatch_count r' = int (recovered_attempts db' b c)"
proof -
  let ?db1 = "db\<lparr>attempts_tbl := update_where (\<lambda>x. at_run_id x = at_run_id a) (recovery_marked now reason) (attempts_tbl db)\<rparr>"
  have mark: "mark_recovery now b c reason db = (Some (int (recovered_attempts ?db1 b c)), ?db1)"
    unfolding mark_recovery_def recovery_marked_def [abs_def] Let_def assms(1) by simp
  define f where "f = (\<lambda>r. r\<lparr>rt_attempt_status := st,
      rt_deadline_at := coalesce (map_option (\<lambda>s. now + s) lease) (rt_deadline_at r),
      rt_redispatch_count := int (recovered_attempts ?db1 b c),
      rt_terminal_reason := coalesce (map_option (take 1000) (or_text reason)) (rt_terminal_reason r),
      rt_updated_at := now\<rparr> :: runtime_row)"
  have db': "db' = ?db1\<lparr>runtime_tbl := update_where (\<lambda>r. rt_board r = b \<and> rt_card_id r = c) f (runtime_tbl db)\<rparr>"
    unfolding assms(3) by (simp add: update_worker_watchdog_def mark f_def Let_def)
  then show "attempts_tbl db' = update_where (\<lambda>x. at_run_id x = at_run_id a) (recovery_marked now reason) (attempts_tbl db)"
    by simp
  have rid: "rt_board r = b" "rt_card_id r = c" using find_SomeD assms(2) by (fastforce simp: card_runtime_def)+
  have "rt_board (f x) = rt_board x" "rt_card_id (f x) = rt_card_id x" for x by (simp_all add: f_def)
  then have "card_runtime db' b c = Some (f r)"
    using assms(2) rid by (simp add: db' card_runtime_def find_update_where)
  moreover have "recovered_attempts db' b c = recovered_attempts ?db1 b c" by (simp add: db' recovered_attempts_def)
  ultimately show "\<exists>r'. card_runtime db' b c = Some r' \<and> rt_redispatch_count r' = int (recovered_attempts db' b c)"
    by (simp add: f_def)
qed

text \<open>
  The recovery budget counts attempts: asking twice for the recovery of the same
  attempt counts it once, the counter equals the number of the card's attempts that
  needed recovery, and it never exceeds the number of the current attempt.
\<close>

theorem redispatch_counts_attempts:
  assumes ok: "cards_ok db" and row: "card_runtime db b c = Some r" and cur: "current_attempt db b c = Some a"
    and db1: "db1 = snd (update_worker_watchdog now b c st lease reason True db)"
    and db2: "db2 = snd (update_worker_watchdog later b c st' lease' reason' True db1)"
  shows "\<exists>r1 r2. card_runtime db1 b c = Some r1 \<and> card_runtime db2 b c = Some r2 \<and>
    rt_redispatch_count r2 = rt_redispatch_count r1 \<and>
    rt_redispatch_count r1 = int (recovered_attempts db1 b c) \<and>
    1 \<le> rt_redispatch_count r1 \<and> rt_redispatch_count r1 \<le> at_attempt a"
proof -
  note step1 = watchdog_counts [OF cur row db1]
  then obtain r1 where r1: "card_runtime db1 b c = Some r1" "rt_redispatch_count r1 = int (recovered_attempts db1 b c)" by blast
  have ok1: "cards_ok db1" unfolding db1 by (rule cards_inv.inv_step [OF cs_watchdog ok])
  let ?a1 = "recovery_marked now reason a"
  have a: "a \<in> set (card_attempt_rows db b c)" "at_attempt a = int (length (card_attempt_rows db b c))"
    using cur unfolding current_attempt_iff [OF ok] by simp_all
  then have a_in: "a \<in> set (attempts_tbl db)" "at_board a = b" "at_card_id a = c" by (simp_all add: card_attempt_rows_def)
  have a1_in: "?a1 \<in> set (card_attempt_rows db1 b c)"
    using a_in by (auto simp: card_attempt_rows_def step1(1) set_update_where)
  have len: "length (card_attempt_rows db1 b c) = length (card_attempt_rows db b c)"
  proof -
    have "length (filter (\<lambda>r. at_board r = b \<and> at_card_id r = c)
        (update_where (\<lambda>x. at_run_id x = at_run_id a) (recovery_marked now reason) t)) =
      length (filter (\<lambda>r. at_board r = b \<and> at_card_id r = c) t)" for t by (induction t) auto
    then show ?thesis by (simp add: card_attempt_rows_def step1(1))
  qed
  have cur1: "current_attempt db1 b c = Some ?a1"
    using a1_in a(2) len unfolding current_attempt_iff [OF ok1] by simp
  note step2 = watchdog_counts [OF cur1 r1(1) db2]
  then obtain r2 where r2: "card_runtime db2 b c = Some r2" "rt_redispatch_count r2 = int (recovered_attempts db2 b c)" by blast
  let ?P = "\<lambda>r. at_board r = b \<and> at_card_id r = c \<and> at_recovery_reason r \<noteq> None"
  have marked: "(at_recovery_reason x = None) = False" if "x \<in> set (attempts_tbl db1)" "at_run_id x = at_run_id ?a1" for x
  proof -
    have "\<exists>q. x = recovery_marked now reason q" using that by (auto simp: step1(1) set_update_where)
    then obtain q where x: "x = recovery_marked now reason q" ..
    show ?thesis unfolding x by (rule recovery_marked_fields(5))
  qed
  have "length (filter ?P (update_where (\<lambda>x. at_run_id x = at_run_id ?a1) (recovery_marked later reason') t)) =
      length (filter ?P t)" if "set t \<subseteq> set (attempts_tbl db1)" for t
    using that marked by (induction t) (auto simp del: not_None_eq)
  then have same: "recovered_attempts db2 b c = recovered_attempts db1 b c"
    by (simp add: recovered_attempts_def rowcount_def step2(1))
  have "recovered_attempts db1 b c \<le> length (card_attempt_rows db1 b c)"
    unfolding recovered_attempts_def rowcount_def card_attempt_rows_def by (rule length_filter_mono) simp
  moreover have "?a1 \<in> set (filter ?P (attempts_tbl db1))" using a1_in by (simp add: card_attempt_rows_def)
  then have "1 \<le> recovered_attempts db1 b c"
    unfolding recovered_attempts_def rowcount_def by (rule length_pos_member)
  ultimately show ?thesis using r1 r2 same len a(2) by (intro exI [of _ r1] exI [of _ r2]) simp
qed

theorem redispatch_counts_attempts_witness:
  "\<exists>r1. card_runtime (snd (update_worker_watchdog 30 ''b'' ''t_1'' ''stale'' None None True
      (sample_cards ''running'' None))) ''b'' ''t_1'' = Some r1 \<and> rt_redispatch_count r1 = 1"
proof -
  let ?db = "sample_cards ''running'' None"
  let ?r = "(new_runtime_row 1 (sample_event ''claimed'' 1))\<lparr>rt_finished_at := None\<rparr>"
  have rows: "card_attempt_rows ?db b c = (if b = ''b'' \<and> c = ''t_1'' then [sample_attempt ''running''] else [])" for b c
    by (simp add: card_attempt_rows_def sample_cards_def sample_attempt_def new_attempt_row_def sample_event_def)
  have one: "at_attempt (sample_attempt ''running'') = 1"
    by (simp add: sample_attempt_def new_attempt_row_def)
  have 1: "cards_ok ?db"
    unfolding cards_ok_def rows using one by (simp add: sample_cards_def unique_on_def)
  have 2: "card_runtime ?db ''b'' ''t_1'' = Some ?r"
    by (simp add: card_runtime_def sample_cards_def new_runtime_row_def sample_event_def)
  have 3: "current_attempt ?db ''b'' ''t_1'' = Some (sample_attempt ''running'')"
    unfolding current_attempt_iff [OF 1] rows by (simp add: one)
  from redispatch_counts_attempts [OF 1 2 3 refl refl, of 30 "''stale''" None None 40 "''stale''" None None] one
  show ?thesis by auto
qed

end
