(* ===== verification/Kanban_Bodies.thy ===== *)
theory Kanban_Bodies
  imports Json Store_Runs
begin

text \<open>
  The card bodies of kanban.py: the controller writes a record as a fenced JSON block
  below a marker and its prose (\<open>render_run_body\<close>, \<open>render_card_body\<close>,
  \<open>render_exception_body\<close>) and reads it back (\<open>_extract_json\<close>, \<open>parse_run_body\<close>,
  \<open>parse_run_protocol_version\<close>, \<open>parse_card_body\<close>). pydantic's \<open>model_dump\<close> and
  \<open>model_validate\<close> are parameters. A text is its UTF-8 encoding.
\<close>

section \<open>Searching a text\<close>

text \<open>\<open>s.find(p)\<close>, \<open>s.find(p, i)\<close> and \<open>s.rfind(p)\<close>; \<open>None\<close> is -1.\<close>

fun find_text :: "string \<Rightarrow> string \<Rightarrow> nat option" where
  "find_text p [] = (if p = [] then Some 0 else None)"
| "find_text p (c # s) = (if starts_with p (c # s) then Some 0 else map_option Suc (find_text p s))"

definition find_after :: "string \<Rightarrow> string \<Rightarrow> nat \<Rightarrow> nat option" where
  "find_after p s i = map_option ((+) i) (find_text p (drop i s))"

fun rfind_text :: "string \<Rightarrow> string \<Rightarrow> nat option" where
  "rfind_text p [] = (if p = [] then Some 0 else None)"
| "rfind_text p (c # s) = (case rfind_text p s of
     Some i \<Rightarrow> Some (Suc i)
   | None \<Rightarrow> if starts_with p (c # s) then Some 0 else None)"

section \<open>Writing a body\<close>

definition CARD_MARKER :: string where
  "CARD_MARKER = ''[hollysys-controller-card:v4]''"

definition EXCEPTION_MARKER :: string where
  "EXCEPTION_MARKER = ''[hollysys-controller-exception:v4]''"

definition RUN_MARKER :: string where
  "RUN_MARKER = ''[hollysys-controller-run:v4]''"

definition fence :: string where
  "fence =
     [CHR 0x60, CHR 0x60, CHR 0x60]"

definition new_line :: string where
  "new_line = [CHR 0x0A]"

text \<open>The payload in its block, the last paragraph of every body.\<close>

definition json_block :: "json \<Rightarrow> string" where
  "json_block v = fence @ ''json'' @ new_line @ dumps pretty v @ new_line @ fence @ new_line"

definition run_prose :: string where
  "run_prose =
     [CHR 0x0A, CHR 0x0A, CHR 0xE8, CHR 0xBF, CHR 0x99, CHR 0xE6, CHR 0x98, CHR 0xAF, CHR 0xE6,
     CHR 0x8E, CHR 0xA7, CHR 0xE5, CHR 0x88, CHR 0xB6, CHR 0xE5, CHR 0x99, CHR 0xA8, CHR 0xE7,
     CHR 0x94, CHR 0x9F, CHR 0xE6, CHR 0x88, CHR 0x90, CHR 0xE7, CHR 0x9A, CHR 0x84, CHR 0xE4,
     CHR 0xB8, CHR 0x8D, CHR 0xE5, CHR 0x8F, CHR 0xAF, CHR 0xE5, CHR 0x8F, CHR 0x98, CHR 0xE8,
     CHR 0xBF, CHR 0x90, CHR 0xE8, CHR 0xA1, CHR 0x8C, CHR 0xE6, CHR 0xA0, CHR 0xB9, CHR 0xE8,
     CHR 0xAE, CHR 0xB0, CHR 0xE5, CHR 0xBD, CHR 0x95, CHR 0xEF, CHR 0xBC, CHR 0x8C, CHR 0xE4,
     CHR 0xB8, CHR 0x8D, CHR 0xE7, CHR 0x94, CHR 0xB1] @ '' Agent '' @ [CHR 0xE6, CHR 0x89,
     CHR 0xA7, CHR 0xE8, CHR 0xA1, CHR 0x8C, CHR 0xE4, CHR 0xB8, CHR 0x9A, CHR 0xE5, CHR 0x8A,
     CHR 0xA1, CHR 0xE5, CHR 0xB7, CHR 0xA5, CHR 0xE4, CHR 0xBD, CHR 0x9C, CHR 0xE3, CHR 0x80,
     CHR 0x82, CHR 0x0A, CHR 0x0A]"

definition exception_prose :: string where
  "exception_prose =
     [CHR 0x0A, CHR 0x0A, CHR 0xE8, CHR 0xAF, CHR 0xA5, CHR 0xE5, CHR 0x8D, CHR 0xA1, CHR 0xE7,
     CHR 0x94, CHR 0xB1] @ '' Dispatcher '' @ [CHR 0xE4, CHR 0xBD, CHR 0x9C, CHR 0xE4, CHR 0xB8,
     CHR 0xBA, CHR 0xE5, CHR 0xBC, CHR 0x82, CHR 0xE5, CHR 0xB8, CHR 0xB8, CHR 0xE5, CHR 0x85,
     CHR 0xA5, CHR 0xE5, CHR 0x8F, CHR 0xA3, CHR 0xE5, CHR 0xA4, CHR 0x84, CHR 0xE7, CHR 0x90,
     CHR 0x86, CHR 0xEF, CHR 0xBC, CHR 0x9B, CHR 0xE4, CHR 0xB8, CHR 0x8D, CHR 0xE5, CHR 0xBE,
     CHR 0x97, CHR 0xE7, CHR 0x9B, CHR 0xB4, CHR 0xE6, CHR 0x8E, CHR 0xA5, CHR 0xE6, CHR 0x8E,
     CHR 0xA8, CHR 0xE8, CHR 0xBF, CHR 0x9B, CHR 0xE9, CHR 0x97, CHR 0xA8, CHR 0xE7, CHR 0xA6,
     CHR 0x81, CHR 0xE6, CHR 0x88, CHR 0x96, CHR 0xE5, CHR 0x90, CHR 0x88, CHR 0xE5, CHR 0xB9,
     CHR 0xB6, CHR 0xE3, CHR 0x80, CHR 0x82, CHR 0x0A, CHR 0x0A]"

fun mode_value :: "WorkMode \<Rightarrow> string" where
  "mode_value NORMAL = ''normal''"
| "mode_value FINALIZATION = ''finalization''"

definition stage_prose :: string where
  "stage_prose =
     [CHR 0x0A, CHR 0x0A, CHR 0xE6, CHR 0x89, CHR 0xA7, CHR 0xE8, CHR 0xA1, CHR 0x8C, CHR 0xE9,
     CHR 0x98, CHR 0xB6, CHR 0xE6, CHR 0xAE, CHR 0xB5, CHR 0xEF, CHR 0xBC, CHR 0x9A, CHR 0x60]"

definition mode_prose :: string where
  "mode_prose =
     [CHR 0x60, CHR 0xEF, CHR 0xBC, CHR 0x8C, CHR 0xE6, CHR 0xA8, CHR 0xA1, CHR 0xE5, CHR 0xBC,
     CHR 0x8F, CHR 0xEF, CHR 0xBC, CHR 0x9A, CHR 0x60]"

definition iteration_prose :: string where
  "iteration_prose =
     [CHR 0x60, CHR 0xEF, CHR 0xBC, CHR 0x8C, CHR 0xE8, CHR 0xBF, CHR 0xAD, CHR 0xE4, CHR 0xBB,
     CHR 0xA3, CHR 0xEF, CHR 0xBC, CHR 0x9A, CHR 0x60]"

definition opening_prose :: string where
  "opening_prose =
     [CHR 0x60, CHR 0xE3, CHR 0x80, CHR 0x82, CHR 0x0A, CHR 0x0A]"

definition evidence_prose :: string where
  "evidence_prose =
     [CHR 0xE5, CHR 0xBC, CHR 0x80, CHR 0xE5, CHR 0xA7, CHR 0x8B, CHR 0xE5, CHR 0x89, CHR 0x8D,
     CHR 0xE5, CHR 0xBF, CHR 0x85, CHR 0xE9, CHR 0xA1, CHR 0xBB, CHR 0xE8, CHR 0xAF, CHR 0xBB,
     CHR 0xE5, CHR 0x8F, CHR 0x96, CHR 0xE5, CHR 0xAE, CHR 0x8C, CHR 0xE6, CHR 0x95, CHR 0xB4] @
     '' JSON '' @ [CHR 0xE8, CHR 0xBE, CHR 0x93, CHR 0xE5, CHR 0x85, CHR 0xA5, CHR 0xE5, CHR 0x92,
     CHR 0x8C, CHR 0xE8, CHR 0xA7, CHR 0x92, CHR 0xE8, CHR 0x89, CHR 0xB2] @ '' Skill'' @
     [CHR 0xE3, CHR 0x80, CHR 0x82, CHR 0xE6, CHR 0x89, CHR 0x80, CHR 0xE6, CHR 0x9C, CHR 0x89,
     CHR 0xE5, CHR 0xB7, CHR 0xA5, CHR 0xE4, CHR 0xBD, CHR 0x9C, CHR 0xE5, CHR 0x86, CHR 0x99,
     CHR 0xE5, CHR 0x85, CHR 0xA5, CHR 0xE6, CHR 0x8C, CHR 0x87, CHR 0xE5, CHR 0xAE, CHR 0x9A,
     CHR 0xE5, CHR 0x85, CHR 0xB1, CHR 0xE4, CHR 0xBA, CHR 0xAB] @ '' worktree/branch/MR'' @
     [CHR 0xEF, CHR 0xBC, CHR 0x9B, CHR 0xE5, CHR 0xAE, CHR 0x8C, CHR 0xE6, CHR 0x88, CHR 0x90,
     CHR 0xE6, CHR 0x97, CHR 0xB6, CHR 0xE6, CHR 0x8F, CHR 0x90, CHR 0xE4, CHR 0xBA, CHR 0xA4,
     CHR 0xE7, CHR 0xAC, CHR 0xA6, CHR 0xE5, CHR 0x90, CHR 0x88] @ '' '' @ [CHR 0x60] @
     ''/opt/fleet/schemas/card-completion.schema.json'' @ [CHR 0x60] @ '' '' @ [CHR 0xE7,
     CHR 0x9A, CHR 0x84, CHR 0xE4, CHR 0xB8, CHR 0xA5, CHR 0xE6, CHR 0xA0, CHR 0xBC] @
     '' metadata'' @ [CHR 0xEF, CHR 0xBC, CHR 0x8C, CHR 0xE5, CHR 0xB9, CHR 0xB6, CHR 0xE5,
     CHR 0x85, CHR 0x88, CHR 0xE8, CHR 0xBF, CHR 0x90, CHR 0xE8, CHR 0xA1, CHR 0x8C] @ '' '' @
     [CHR 0x60] @ ''hollysysctl validate-completion --card-id <'' @ [CHR 0xE5, CHR 0xBD, CHR 0x93,
     CHR 0xE5, CHR 0x89, CHR 0x8D, CHR 0xE5, CHR 0x8D, CHR 0xA1] @ ''> --metadata <json>'' @
     [CHR 0x60, CHR 0xE3, CHR 0x80, CHR 0x82, CHR 0x0A, CHR 0x0A]"

definition gitlab_prose :: string where
  "gitlab_prose =
     ''GitLab API '' @ [CHR 0xE5, CHR 0x8F, CHR 0xAA, CHR 0xE4, CHR 0xBD, CHR 0xBF, CHR 0xE7,
     CHR 0x94, CHR 0xA8, CHR 0xE5, CHR 0xBD, CHR 0x93, CHR 0xE5, CHR 0x89, CHR 0x8D] @
     '' Profile '' @ [CHR 0xE7, CHR 0x8E, CHR 0xAF, CHR 0xE5, CHR 0xA2, CHR 0x83, CHR 0xE4,
     CHR 0xB8, CHR 0xAD, CHR 0xE7, CHR 0x9A, CHR 0x84] @ '' '' @ [CHR 0x60] @
     ''GITLAB_HOST/GITLAB_TOKEN'' @ [CHR 0x60] @ '' '' @ [CHR 0xE8, CHR 0xB0, CHR 0x83, CHR 0xE7,
     CHR 0x94, CHR 0xA8] @ '' '' @ [CHR 0x60] @ ''glab'' @ [CHR 0x60, CHR 0xEF, CHR 0xBC,
     CHR 0x8C, CHR 0xE4, CHR 0xB8, CHR 0x8D, CHR 0xE5, CHR 0xBE, CHR 0x97, CHR 0xE8, CHR 0xBF,
     CHR 0x90, CHR 0xE8, CHR 0xA1, CHR 0x8C] @ '' '' @ [CHR 0x60] @ ''glab auth login'' @
     [CHR 0x60, CHR 0xE3, CHR 0x80, CHR 0x82, CHR 0xE8, CHR 0xBF, CHR 0x9C, CHR 0xE7, CHR 0xA8,
     CHR 0x8B] @ '' Git '' @ [CHR 0xE5, CHR 0x8F, CHR 0xAA, CHR 0xE4, CHR 0xBD, CHR 0xBF,
     CHR 0xE7, CHR 0x94, CHR 0xA8] @ '' PATH '' @ [CHR 0xE4, CHR 0xB8, CHR 0xAD, CHR 0xE7,
     CHR 0x9A, CHR 0x84, CHR 0xE5, CHR 0x8F, CHR 0x97, CHR 0xE6, CHR 0x8E, CHR 0xA7] @ '' '' @
     [CHR 0x60] @ ''git'' @ [CHR 0x60] @ '' '' @ [CHR 0xE5, CHR 0x92, CHR 0x8C] @ '' '' @
     [CHR 0x60] @ ''https://green-git.hollysys.net/<allowed-group>/...'' @ [CHR 0x60, CHR 0xEF,
     CHR 0xBC, CHR 0x9B, CHR 0xE7, CHR 0xA6, CHR 0x81, CHR 0xE6, CHR 0xAD, CHR 0xA2] @ '' SSH'' @
     [CHR 0xE3, CHR 0x80, CHR 0x81, CHR 0xE6, CHR 0x98, CHR 0x8E, CHR 0xE6, CHR 0x96, CHR 0x87] @
     '' HTTP'' @ [CHR 0xE3, CHR 0x80, CHR 0x81, CHR 0xE5, CHR 0x90, CHR 0xAB] @ '' token '' @
     [CHR 0xE7, CHR 0x9A, CHR 0x84] @ '' remote'' @ [CHR 0xE3, CHR 0x80, CHR 0x81, CHR 0xE6,
     CHR 0x8C, CHR 0x81, CHR 0xE4, CHR 0xB9, CHR 0x85] @ '' credential '' @ [CHR 0xE6, CHR 0x88,
     CHR 0x96, CHR 0xE7, CHR 0xB3, CHR 0xBB, CHR 0xE7, CHR 0xBB, CHR 0x9F] @ '' Git '' @
     [CHR 0xE7, CHR 0xBB, CHR 0x95, CHR 0xE8, CHR 0xBF, CHR 0x87, CHR 0xE8, CHR 0xB7, CHR 0xAF,
     CHR 0xE5, CHR 0xBE, CHR 0x84, CHR 0xE3, CHR 0x80, CHR 0x82, CHR 0xE5, CHR 0x8F, CHR 0xAA,
     CHR 0xE8, CHR 0xAF, CHR 0xBB] @ '' Profile '' @ [CHR 0xE4, CHR 0xB8, CHR 0x8D, CHR 0xE5,
     CHR 0xBE, CHR 0x97] @ '' push'' @ [CHR 0xE3, CHR 0x80, CHR 0x82, CHR 0x0A, CHR 0x0A]"

definition human_prose :: string where
  "human_prose =
     [CHR 0xE7, CHR 0x9C, CHR 0x9F, CHR 0xE6, CHR 0xAD, CHR 0xA3, CHR 0xE9, CHR 0x9C, CHR 0x80,
     CHR 0xE8, CHR 0xA6, CHR 0x81, CHR 0xE4, CHR 0xBA, CHR 0xBA, CHR 0xE7, CHR 0xB1, CHR 0xBB,
     CHR 0xE6, CHR 0x97, CHR 0xB6, CHR 0xE5, CHR 0x85, CHR 0x88, CHR 0xE5, CHR 0x86, CHR 0x99] @
     '' '' @ [CHR 0x60] @ ''[human-block:v1]'' @ [CHR 0x60] @ '' '' @ [CHR 0xE8, CHR 0xAF,
     CHR 0x84, CHR 0xE8, CHR 0xAE, CHR 0xBA, CHR 0xE5, CHR 0x86, CHR 0x8D, CHR 0xE4, CHR 0xBD,
     CHR 0xBF, CHR 0xE7, CHR 0x94, CHR 0xA8] @ '' '' @ [CHR 0x60] @ ''kanban_block'' @ [CHR 0x60,
     CHR 0xEF, CHR 0xBC, CHR 0x9B] @ ''Controller outbox '' @ [CHR 0xE8, CHR 0xB4, CHR 0x9F,
     CHR 0xE8, CHR 0xB4, CHR 0xA3, CHR 0xE5, CHR 0x8E, CHR 0x9F, CHR 0xE6, CHR 0xB8, CHR 0xA0,
     CHR 0xE9, CHR 0x81, CHR 0x93, CHR 0xE9, CHR 0x80, CHR 0x9A, CHR 0xE7, CHR 0x9F, CHR 0xA5,
     CHR 0xE3, CHR 0x80, CHR 0x82, CHR 0xE4, CHR 0xB8, CHR 0x8D, CHR 0xE5, CHR 0xBE, CHR 0x97,
     CHR 0xE5, CHR 0x88, CHR 0x9B, CHR 0xE5, CHR 0xBB, CHR 0xBA, CHR 0xE3, CHR 0x80, CHR 0x81,
     CHR 0xE9, CHR 0x93, CHR 0xBE, CHR 0xE6, CHR 0x8E, CHR 0xA5, CHR 0xE6, CHR 0x88, CHR 0x96,
     CHR 0xE6, CHR 0x8E, CHR 0xA8, CHR 0xE8, CHR 0xBF, CHR 0x9B] @ '' '' @ [CHR 0xE5, CHR 0x85,
     CHR 0xB6, CHR 0xE4, CHR 0xBB, CHR 0x96, CHR 0xE6, CHR 0xAD, CHR 0xA3, CHR 0xE5, CHR 0xBC,
     CHR 0x8F, CHR 0xE5, CHR 0x8D, CHR 0xA1, CHR 0xE7, CHR 0x89, CHR 0x87, CHR 0xE3, CHR 0x80,
     CHR 0x82] @ ''environment/destructive_approval '' @ [CHR 0xE9, CHR 0x98, CHR 0xBB, CHR 0xE5,
     CHR 0xA1, CHR 0x9E, CHR 0xE8, CHR 0xBF, CHR 0x98, CHR 0xE5, CHR 0xBF, CHR 0x85, CHR 0xE9,
     CHR 0xA1, CHR 0xBB, CHR 0xE5, CHR 0x86, CHR 0x99, CHR 0xE6, CHR 0x98, CHR 0x8E] @ '' '' @
     [CHR 0x60] @ ''gate_phase'' @ [CHR 0x60, CHR 0xE3, CHR 0x80, CHR 0x81, CHR 0xE5, CHR 0x86,
     CHR 0xBB, CHR 0xE7, CHR 0xBB, CHR 0x93] @ '' '' @ [CHR 0x60] @ ''requirement_ids'' @
     [CHR 0x60] @ '' '' @ [CHR 0xE5, CHR 0x92, CHR 0x8C] @ '' '' @ [CHR 0x60] @
     ''contract_refs'' @ [CHR 0x60, CHR 0xE3, CHR 0x80, CHR 0x82, CHR 0x0A, CHR 0x0A]"

definition card_prose :: string where
  "card_prose = opening_prose @ evidence_prose @ gitlab_prose @ human_prose"

record record_json =
  dump_run :: "RunRecord \<Rightarrow> (string \<times> json) list"
  dump_card :: "CardRecord \<Rightarrow> (string \<times> json) list"
  dump_exception :: "ExceptionCardRecord \<Rightarrow> (string \<times> json) list"
  validate_run_json :: "json \<Rightarrow> RunRecord res"
  validate_card_json :: "json \<Rightarrow> CardRecord res"

definition render_run_body :: "record_json \<Rightarrow> RunRecord \<Rightarrow> string" where
  "render_run_body j run = RUN_MARKER @ run_prose @ json_block (JObj (dump_run j run))"

definition render_card_body :: "record_json \<Rightarrow> CardRecord \<Rightarrow> string" where
  "render_card_body j c = CARD_MARKER @ stage_prose @ stage_value (cr_stage c) @ mode_prose @
     mode_value (cr_mode c) @ iteration_prose @ int_str (cr_iteration c) @ card_prose @
     json_block (JObj (dump_card j c))"

definition render_exception_body :: "record_json \<Rightarrow> ExceptionCardRecord \<Rightarrow> string" where
  "render_exception_body j record1 =
     EXCEPTION_MARKER @ exception_prose @ json_block (JObj (dump_exception j record1))"

section \<open>Reading a body\<close>

definition extract_json :: "string option \<Rightarrow> string \<Rightarrow> json res" where
  "extract_json body marker =
     (case or_text body of
        None \<Rightarrow> Inl (ValueError (''missing '' @ marker))
      | Some s \<Rightarrow>
          (case find_text marker s of
             None \<Rightarrow> Inl (ValueError (''missing '' @ marker))
           | Some m \<Rightarrow>
               (case (find_after (fence @ ''json'') s m, rfind_text fence s) of
                  (Some start, Some stop) \<Rightarrow>
                    if strip (drop (stop + length fence) s) \<noteq> []
                    then Inl (ValueError ''unexpected content after JSON code block'')
                    else (case loads (strip (take (stop - (start + 7)) (drop (start + 7) s))) of
                        None \<Rightarrow> Inl (ValueError ''invalid JSON document'')
                      | Some v \<Rightarrow> Inr v)
                | _ \<Rightarrow> Inl (ValueError ''missing JSON code block''))))"

definition parse_run_body :: "record_json \<Rightarrow> string option \<Rightarrow> RunRecord res" where
  "parse_run_body j body = (case extract_json body RUN_MARKER of Inl e \<Rightarrow> Inl e
     | Inr v \<Rightarrow> validate_run_json j v)"

definition parse_card_body :: "record_json \<Rightarrow> string option \<Rightarrow> CardRecord res" where
  "parse_card_body j body = (case extract_json body CARD_MARKER of Inl e \<Rightarrow> Inl e
     | Inr v \<Rightarrow> validate_card_json j v)"

text \<open>Only a dict has \<open>get\<close>; \<open>py_str\<close> is \<open>str\<close> on a value that is not a text.\<close>

definition parse_run_protocol_version :: "(json \<Rightarrow> string) \<Rightarrow> string option \<Rightarrow> string res" where
  "parse_run_protocol_version py_str body = (case extract_json body RUN_MARKER of
     Inl e \<Rightarrow> Inl e
   | Inr (JObj kvs) \<Rightarrow> Inr (case map_of kvs ''protocol_version'' of
         None \<Rightarrow> [] | Some v \<Rightarrow> if truthy_json v then json_text py_str v else [])
   | Inr _ \<Rightarrow> Inl (PyAttributeError ''get''))"

section \<open>Reading what was written\<close>

abbreviation backtick :: char where
  "backtick \<equiv> CHR 0x60"

text \<open>Backticks stand alone: a prose with inline code but no fence.\<close>

fun lonely :: "string \<Rightarrow> bool" where
  "lonely (a # b # s) = (\<not> (a = backtick \<and> b = backtick) \<and> lonely (b # s))"
| "lonely s = True"

lemma lonely_append: "lonely (a @ b) \<longleftrightarrow> lonely a \<and> lonely b \<and>
    (a = [] \<or> b = [] \<or> last a \<noteq> backtick \<or> hd b \<noteq> backtick)"
proof (induction a)
  case (Cons c a)
  then show ?case by (cases a; cases b) auto
qed simp

lemma lonely_free: "backtick \<notin> set s \<Longrightarrow> lonely s"
  by (induction s rule: lonely.induct) auto

lemma fence_chars: "fence = [backtick, backtick, backtick]"
  by (simp add: fence_def)

lemma starts_with_append [simp]: "starts_with p (p @ s)"
  by (simp add: starts_with_def)

lemma find_text_here [simp]: "find_text p (p @ s) = Some 0"
  by (cases "p @ s") (auto simp del: append_is_Nil_conv simp: starts_with_def dest: sym)

lemma find_fence:
  "lonely a \<Longrightarrow> a = [] \<or> last a \<noteq> backtick \<Longrightarrow> find_text (fence @ ''json'') (a @ fence @ ''json'' @ s) = Some (length a)"
proof (induction a)
  case Nil
  have "find_text (fence @ ''json'') ((fence @ ''json'') @ s) = Some 0" by (rule find_text_here)
  then show ?case by simp
next
  case (Cons c a)
  have "\<not> starts_with (fence @ ''json'') ((c # a) @ fence @ ''json'' @ s)"
    using Cons.prems by (cases a) (auto simp: starts_with_def fence_chars)
  moreover have "lonely a" "a = [] \<or> last a \<noteq> backtick" using Cons.prems by (cases a; auto)+
  ultimately show ?case using Cons.IH by simp
qed

lemma rfind_fence: "rfind_text fence (a @ fence @ new_line) = Some (length a)"
proof (induction a)
  case Nil
  show ?case by (simp add: fence_chars new_line_def starts_with_def)
qed simp

lemma dumps_object: "\<exists>m. dumps st (JObj kvs) = CHR 0x7B # m @ [CHR 0x7D]"
  by (simp add: dumps_def bracketed_def)

lemma strip_object: "strip (new_line @ dumps st (JObj kvs) @ new_line) = dumps st (JObj kvs)"
proof -
  obtain m where m: "dumps st (JObj kvs) = CHR 0x7B # m @ [CHR 0x7D]" using dumps_object by blast
  show ?thesis unfolding m by (simp add: strip_def is_space_def new_line_def)
qed

lemma drop_two: "drop (length a + length b) (a @ b @ c) = c"
  by simp

lemma extract_block:
  assumes "lonely (marker @ p)" "last (marker @ p) \<noteq> backtick" "marker \<noteq> []" "json_wf (JObj kvs)"
  shows "extract_json (Some (marker @ p @ json_block (JObj kvs))) marker = Inr (JObj kvs)"
proof -
  let ?v = "dumps pretty (JObj kvs)" and ?a = "marker @ p"
  let ?s = "?a @ fence @ ''json'' @ new_line @ ?v @ new_line @ fence @ new_line"
  let ?b = "?a @ fence @ ''json'' @ new_line @ ?v @ new_line"
  have whole: "marker @ p @ json_block (JObj kvs) = ?s" by (simp add: json_block_def)
  have m: "find_text marker ?s = Some 0" using find_text_here [of marker] by simp
  have start: "find_after (fence @ ''json'') ?s 0 = Some (length ?a)"
    using find_fence [OF assms(1), of "new_line @ ?v @ new_line @ fence @ new_line"] assms(2)
    by (simp add: find_after_def)
  have stop: "rfind_text fence ?s = Some (length ?b)" using rfind_fence [of ?b] by simp
  have rest: "drop (length ?b + length fence) ?s = new_line"
    using drop_two [of ?b fence new_line] by (simp only: append_assoc)
  have inner: "take (length ?b - (length ?a + 7)) (drop (length ?a + 7) ?s) = new_line @ ?v @ new_line"
    by (simp add: fence_chars)
  have "loads (strip (new_line @ ?v @ new_line)) = Some (JObj kvs)"
    unfolding strip_object by (rule loads_dumps) (use assms(4) in simp_all)
  moreover have "strip new_line = []" by code_simp
  moreover have "or_text (Some ?s) = Some ?s" using assms(3) by (simp add: or_text_def truthy_str_def)
  ultimately show ?thesis
    unfolding whole extract_json_def by (simp only: m start stop rest inner option.case prod.case if_False simp_thms)
qed

lemma proses_lonely:
  "lonely (RUN_MARKER @ run_prose)" "last (RUN_MARKER @ run_prose) \<noteq> backtick"
  "lonely (CARD_MARKER @ stage_prose)" "lonely mode_prose" "lonely iteration_prose"
  by (simp_all add: RUN_MARKER_def CARD_MARKER_def run_prose_def stage_prose_def mode_prose_def iteration_prose_def)

lemma card_paragraphs:
  "lonely opening_prose" "last opening_prose \<noteq> backtick" "opening_prose \<noteq> []"
  "lonely evidence_prose" "last evidence_prose \<noteq> backtick" "evidence_prose \<noteq> []"
  "lonely gitlab_prose" "last gitlab_prose \<noteq> backtick" "gitlab_prose \<noteq> []"
  "lonely human_prose" "last human_prose \<noteq> backtick" "human_prose \<noteq> []"
  by (simp_all add: opening_prose_def evidence_prose_def gitlab_prose_def human_prose_def)

lemma card_prose_lonely: "lonely card_prose" "last card_prose \<noteq> backtick" "card_prose \<noteq> []"
  using card_paragraphs by (simp_all add: card_prose_def lonely_append)

lemma proses_ends: "stage_prose \<noteq> []" "mode_prose \<noteq> []" "iteration_prose \<noteq> []"
  by (simp_all add: stage_prose_def mode_prose_def iteration_prose_def)

lemma word_ends:
  assumes "backtick \<notin> set s" "s \<noteq> []"
  shows "lonely s" "hd s \<noteq> backtick" "last s \<noteq> backtick"
  using assms lonely_free by (auto dest: hd_in_set last_in_set)

lemma card_words: "backtick \<notin> set (stage_value s)" "stage_value s \<noteq> []"
    "backtick \<notin> set (mode_value m)" "mode_value m \<noteq> []"
  by (cases s; cases m; simp)+

lemma int_str_free: "backtick \<notin> set (int_str n)" "int_str n \<noteq> []"
proof -
  have "\<not> is_digit backtick" by (simp add: is_digit_def less_eq_char_def)
  then have "backtick \<notin> set (nat_str k)" for k using nat_str_digits [of k] by (auto simp: list_all_iff)
  then show "backtick \<notin> set (int_str n)" "int_str n \<noteq> []" by (simp_all add: int_str_def)
qed

lemma card_text_lonely:
  "lonely (CARD_MARKER @ stage_prose @ stage_value s @ mode_prose @ mode_value m @ iteration_prose @ int_str n @ card_prose)"
proof -
  note s = word_ends [OF card_words(1,2) [of s]] and m = word_ends [OF card_words(3,4) [of m]]
    and n = word_ends [OF int_str_free [of n]]
  have "lonely (w @ r)" if "lonely w" "last w \<noteq> backtick" "lonely r" for w r
    using that by (simp add: lonely_append)
  note word = this
  have prose: "lonely (p @ w @ r)" if "lonely p" "hd w \<noteq> backtick" "w \<noteq> []" "lonely (w @ r)" for p w r
    using that by (simp add: lonely_append)
  have "lonely (int_str n @ card_prose)" by (rule word [OF n(1,3) card_prose_lonely(1)])
  from prose [OF proses_lonely(5) n(2) int_str_free(2) this]
  have "lonely (mode_value m @ iteration_prose @ int_str n @ card_prose)" by (rule word [OF m(1,3)])
  from prose [OF proses_lonely(4) m(2) card_words(4) this]
  have "lonely (stage_value s @ mode_prose @ mode_value m @ iteration_prose @ int_str n @ card_prose)"
    by (rule word [OF s(1,3)])
  from prose [OF proses_lonely(3) s(2) card_words(2) this] show ?thesis by simp
qed

text \<open>
  C33. What the controller writes it reads back: a run or card body parses to the
  record it was rendered from, whatever texts the record holds, markers and fences
  included, and the run body names its protocol version.
\<close>

theorem bodies_round_trip:
  assumes "json_wf (JObj (dump_run j run))" and "validate_run_json j (JObj (dump_run j run)) = Inr run"
    and "json_wf (JObj (dump_card j c))" and "validate_card_json j (JObj (dump_card j c)) = Inr c"
    and "map_of (dump_run j run) ''protocol_version'' = Some (JStr version)"
  shows "parse_run_body j (Some (render_run_body j run)) = Inr run \<and>
    parse_card_body j (Some (render_card_body j c)) = Inr c \<and>
    parse_run_protocol_version py_str (Some (render_run_body j run)) = Inr version"
proof -
  have run: "extract_json (Some (render_run_body j run)) RUN_MARKER = Inr (JObj (dump_run j run))"
    unfolding render_run_body_def
    by (rule extract_block [OF proses_lonely(1,2) _ assms(1)]) (simp add: RUN_MARKER_def)
  have c: "extract_json (Some (render_card_body j c)) CARD_MARKER = Inr (JObj (dump_card j c))"
    using extract_block [OF card_text_lonely [of "cr_stage c" "cr_mode c" "cr_iteration c"] _ _ assms(3)]
      card_prose_lonely(2,3)
    by (simp add: render_card_body_def CARD_MARKER_def)
  from run c assms show ?thesis
    by (simp add: parse_run_body_def parse_card_body_def parse_run_protocol_version_def)
qed

definition sample_work :: CardRecord where
  "sample_work = \<lparr>cr_run = sample_run, cr_stage = SPEC_WRITE, cr_iteration = 2, cr_mode = NORMAL,
     cr_idempotency_key = ''k'', cr_parent_card_id = ''t_0'', cr_assignee = ''spec-writer'',
     cr_skills = [''a'', ''b''], cr_frozen_baselines = [], cr_repair_context = None,
     cr_resume_answer = None, cr_resumed_from_card_id = None, cr_expected_head_sha = None,
     cr_context_digest = ''d'', cr_scratch_dir = ''/opt/data/scratch/g1'', cr_delivery = None\<rparr>"

definition sample_record_json :: record_json where
  "sample_record_json = \<lparr>dump_run = (\<lambda>r. [(''protocol_version'', JStr ''hollysys-controller/v4''),
       (''run_key'', JStr (rr_run_key r))]),
     dump_card = (\<lambda>c. [(''iteration'', JInt (cr_iteration c)), (''skills'', JList (map JStr (cr_skills c)))]),
     dump_exception = (\<lambda>r. [(''reason'', JStr (xr_reason r))]),
     validate_run_json = (\<lambda>_. Inr sample_run), validate_card_json = (\<lambda>_. Inr sample_work)\<rparr>"

theorem bodies_round_trip_witness:
  "parse_run_body sample_record_json (Some (render_run_body sample_record_json sample_run)) = Inr sample_run \<and>
   parse_card_body sample_record_json (Some (render_card_body sample_record_json sample_work)) = Inr sample_work \<and>
   parse_run_protocol_version (\<lambda>_. []) (Some (render_run_body sample_record_json sample_run)) =
     Inr ''hollysys-controller/v4''"
  by (rule bodies_round_trip) (simp_all add: sample_record_json_def)

end
