(* ===== verification/Kanban.thy ===== *)
theory Kanban
  imports Kanban_Bodies Config
begin

text \<open>
  Hermes' Kanban boards as the controller sees them: \<open>KanbanReader\<close> reads a board's
  database, \<open>KanbanCLI\<close> changes it through Hermes' command line (kanban.py). Hermes is
  not part of the repository: the board found by each read and the effect of each
  command are parameters over an arbitrary world \<open>'w\<close>, which other processes may
  change between any two calls.
\<close>

section \<open>What a board holds\<close>

text \<open>The columns the reader selects.\<close>

record hermes_task =
  ht_id :: string
  ht_title :: string
  ht_body :: "string option"
  ht_assignee :: "string option"
  ht_status :: string
  ht_created_by :: "string option"
  ht_created_at :: int
  ht_completed_at :: "int option"
  ht_idempotency_key :: "string option"
  ht_tenant :: "string option"
  ht_workspace_path :: "string option"
  ht_branch_name :: "string option"
  ht_skills :: "string option"
  ht_current_run_id :: "int option"
  ht_worker_pid :: "int option"

record hermes_run =
  hr_id :: int
  hr_task_id :: string
  hr_summary :: "string option"
  hr_metadata :: "string option"
  hr_outcome :: "string option"

record hermes_comment =
  hc_id :: int
  hc_task_id :: string
  hc_author :: string
  hc_body :: string
  hc_created_at :: int

record hermes_event =
  he_id :: int
  he_task_id :: string
  he_run_id :: "int option"
  he_kind :: string
  he_payload :: "string option"
  he_created_at :: int

record hermes_board =
  hb_tasks :: "hermes_task list"
  hb_runs :: "hermes_run list"
  hb_links :: "(string \<times> string) list"
  hb_comments :: "hermes_comment list"
  hb_events :: "hermes_event list"

record EventRecord =
  er_id :: int
  er_task_id :: string
  er_run_id :: "int option"
  er_kind :: string
  er_payload :: "json option"
  er_created_at :: int

record TaskRecord =
  tk_id :: string
  tk_title :: string
  tk_body :: "string option"
  tk_assignee :: "string option"
  tk_status :: string
  tk_created_by :: "string option"
  tk_created_at :: int
  tk_completed_at :: "int option"
  tk_idempotency_key :: "string option"
  tk_tenant :: "string option"
  tk_workspace_path :: "string option"
  tk_branch_name :: "string option"
  tk_skills :: "string list"
  tk_current_run_id :: "int option"
  tk_latest_summary :: "string option"
  tk_latest_metadata :: "json option"
  tk_latest_outcome :: "string option"
  tk_parents :: "string list"
  tk_comments :: "hermes_comment list"
  tk_event_kinds :: "string list"
  tk_worker_pid :: "int option"

section \<open>The world\<close>

datatype board_access = BoardMissing | BoardError string | BoardOpen hermes_board

datatype process_result = Completed int string string | TimedOut | NotStarted

text \<open>
  \<open>ke_spawn\<close> runs a command with additional environment variables; \<open>ke_loads\<close> is
  \<open>json.loads\<close> (\<open>None\<close> its error) and \<open>ke_str\<close> is \<open>str\<close> on a value that is not a text.
\<close>

record 'w kanban_env =
  ke_board :: "string \<Rightarrow> 'w \<Rightarrow> board_access \<times> 'w"
  ke_spawn :: "string list \<Rightarrow> (string \<times> string) list \<Rightarrow> 'w \<Rightarrow> process_result \<times> 'w"
  ke_loads :: "string \<Rightarrow> json option"
  ke_str :: "json \<Rightarrow> string"

section \<open>Reading\<close>

definition kanban_context :: "string \<Rightarrow> string \<Rightarrow> error_context" where
  "kanban_context endpoint code = \<lparr>ec_dependency = ''kanban'', ec_endpoint = Some endpoint,
     ec_status_code = None, ec_retry_after_seconds = None, ec_error_code = Some code\<rparr>"

definition mentions :: "string list \<Rightarrow> string \<Rightarrow> bool" where
  "mentions markers summary \<longleftrightarrow> list_ex (\<lambda>m. contains_str m (map lower_char summary)) markers"

definition board_database_error :: "string \<Rightarrow> string \<Rightarrow> ctl_error" where
  "board_database_error board message =
     (let summary = take 1000 message; context = kanban_context (''board:'' @ board) ''database_error''
      in if mentions [''locked'', ''busy'', ''unable to open'', ''disk i/o'', ''temporarily unavailable''] summary
         then DependencyTransientError summary context else DependencyContractError summary context)"

definition connect_board :: "'w kanban_env \<Rightarrow> string \<Rightarrow> ('w, hermes_board) op" where
  "connect_board env board w = (case ke_board env board w of
     (BoardMissing, w') \<Rightarrow> (Inl (DependencyTransientError (''Kanban board database is missing: '' @ board)
         (kanban_context (''board:'' @ board) ''board_missing'')), w')
   | (BoardError message, w') \<Rightarrow> (Inl (board_database_error board message), w')
   | (BoardOpen b, w') \<Rightarrow> (Inr b, w'))"

text \<open>\<open>json.loads\<close> of a nullable column; an unreadable text gives nothing.\<close>

definition column_json :: "'w kanban_env \<Rightarrow> string option \<Rightarrow> json option" where
  "column_json env column = (case or_text column of None \<Rightarrow> None | Some t \<Rightarrow> ke_loads env t)"

definition event_of :: "'w kanban_env \<Rightarrow> hermes_event \<Rightarrow> EventRecord" where
  "event_of env e = \<lparr>er_id = he_id e, er_task_id = he_task_id e, er_run_id = he_run_id e,
     er_kind = he_kind e, er_payload = column_json env (he_payload e), er_created_at = he_created_at e\<rparr>"

definition events_after :: "'w kanban_env \<Rightarrow> string \<Rightarrow> int \<Rightarrow> nat \<Rightarrow> ('w, EventRecord list) op" where
  "events_after env board seen limit = then_do (connect_board env board) (\<lambda>b. give (map (event_of env)
     (take limit (order_by he_id (filter (\<lambda>e. seen < he_id e) (hb_events b))))))"

definition skills_of :: "'w kanban_env \<Rightarrow> string option \<Rightarrow> string list" where
  "skills_of env column = (case column_json env column of
     Some (JList items) \<Rightarrow> map (json_text (ke_str env)) items | _ \<Rightarrow> [])"

definition task_of :: "'w kanban_env \<Rightarrow> hermes_board \<Rightarrow> hermes_task \<Rightarrow> TaskRecord" where
  "task_of env b t =
     (let run = first_row (order_by (\<lambda>r. - hr_id r) (filter (\<lambda>r. hr_task_id r = ht_id t) (hb_runs b)))
      in \<lparr>tk_id = ht_id t, tk_title = ht_title t, tk_body = ht_body t, tk_assignee = ht_assignee t,
          tk_status = ht_status t, tk_created_by = ht_created_by t, tk_created_at = ht_created_at t,
          tk_completed_at = ht_completed_at t, tk_idempotency_key = ht_idempotency_key t,
          tk_tenant = ht_tenant t, tk_workspace_path = ht_workspace_path t,
          tk_branch_name = ht_branch_name t, tk_skills = skills_of env (ht_skills t),
          tk_current_run_id = ht_current_run_id t,
          tk_latest_summary = (case run of None \<Rightarrow> None | Some r \<Rightarrow> hr_summary r),
          tk_latest_metadata = (case run of None \<Rightarrow> None | Some r \<Rightarrow> column_json env (hr_metadata r)),
          tk_latest_outcome = (case run of None \<Rightarrow> None | Some r \<Rightarrow> hr_outcome r),
          tk_parents = order_by (\<lambda>p. p) (map fst (filter (\<lambda>l. snd l = ht_id t) (hb_links b))),
          tk_comments = order_by hc_id (filter (\<lambda>c. hc_task_id c = ht_id t) (hb_comments b)),
          tk_event_kinds = map he_kind (order_by he_id (filter (\<lambda>e. he_task_id e = ht_id t) (hb_events b))),
          tk_worker_pid = ht_worker_pid t\<rparr>)"

definition task :: "'w kanban_env \<Rightarrow> string \<Rightarrow> string \<Rightarrow> ('w, TaskRecord option) op" where
  "task env board task_id = then_do (connect_board env board) (\<lambda>b.
     give (map_option (task_of env b) (find (\<lambda>t. ht_id t = task_id) (hb_tasks b))))"

definition task_by_idempotency :: "'w kanban_env \<Rightarrow> string \<Rightarrow> string \<Rightarrow> ('w, TaskRecord option) op" where
  "task_by_idempotency env board key = then_do (connect_board env board) (\<lambda>b.
     case first_row (order_by (\<lambda>t. - ht_created_at t)
         (filter (\<lambda>t. ht_idempotency_key t = Some key \<and> ht_status t \<noteq> ''archived'') (hb_tasks b))) of
       None \<Rightarrow> give None
     | Some t \<Rightarrow> task env board (ht_id t))"

definition max_event_id :: "'w kanban_env \<Rightarrow> string \<Rightarrow> ('w, int) op" where
  "max_event_id env board = then_do (connect_board env board) (\<lambda>b.
     give (case map he_id (hb_events b) of [] \<Rightarrow> 0 | ids \<Rightarrow> Max (set ids)))"

section \<open>Running a command\<close>

definition execute :: "'w kanban_env \<Rightarrow> string list \<Rightarrow> string \<Rightarrow> (string \<times> string) list \<Rightarrow>
    ('w, int \<times> string \<times> string) op" where
  "execute env command endpoint vars w = (case ke_spawn env command vars w of
     (Completed rc out err, w') \<Rightarrow> (Inr (rc, out, err), w')
   | (TimedOut, w') \<Rightarrow> (Inl (DependencyTransientError ''Hermes Kanban command timed out''
         (kanban_context endpoint ''timeout'')), w')
   | (NotStarted, w') \<Rightarrow> (Inl (ControllerFatalError (''hermes_command_unavailable:'' @ hd command)), w'))"

definition raise_for_failure :: "string \<Rightarrow> int \<times> string \<times> string \<Rightarrow> unit res" where
  "raise_for_failure endpoint result = (case result of (rc, out, err) \<Rightarrow>
     if rc = 0 then Inr ()
     else let summary = take 1000 (if err \<noteq> [] then err else if out \<noteq> [] then out else ''command failed'');
              context = kanban_context endpoint ''command_failed''
       in if mentions [''database is locked'', ''database is busy'', ''temporarily unavailable'',
                       ''resource busy'', ''try again''] summary
          then Inl (DependencyTransientError summary context)
          else Inl (DependencyContractError summary context))"

definition checked :: "'a res \<Rightarrow> ('s, 'a) op" where
  "checked r s = (r, s)"

definition kanban_command :: "ControllerConfig \<Rightarrow> string option \<Rightarrow> string list \<Rightarrow> string list" where
  "kanban_command config board args = [cf_hermes_command config, ''-p'', cf_controller_profile config, ''kanban'']
     @ (case board of None \<Rightarrow> [] | Some b \<Rightarrow> [''--board'', b]) @ args"

text \<open>\<open>_run\<close> with \<open>tolerate=False\<close>; every caller passes at least one argument.\<close>

definition run_kanban ::
  "'w kanban_env \<Rightarrow> ControllerConfig \<Rightarrow> string list \<Rightarrow> string option \<Rightarrow> bool \<Rightarrow> ('w, json) op" where
  "run_kanban env config args board json_output =
     (let endpoint = ''kanban:'' @ (if args = [] then ''unknown'' else hd args)
      in then_do (execute env (kanban_command config board args) endpoint []) (\<lambda>result.
           then_do (checked (raise_for_failure endpoint result)) (\<lambda>_. case result of (rc, out, err) \<Rightarrow>
             if json_output \<and> strip out \<noteq> []
             then checked (case ke_loads env out of None \<Rightarrow> Inl (ValueError ''invalid JSON document'')
                | Some v \<Rightarrow> Inr v)
             else give (JObj [(''returncode'', JInt rc), (''stdout'', JStr (strip out)),
                (''stderr'', JStr (strip err))]))))"

definition run_on ::
  "'w kanban_env \<Rightarrow> ControllerConfig \<Rightarrow> string \<Rightarrow> string list \<Rightarrow> ('w, unit) op" where
  "run_on env config board args = then_do (run_kanban env config args (Some board) False) (\<lambda>_. give ())"

end
