(* ===== verification/Kanban_CLI.thy ===== *)
theory Kanban_CLI
  imports Kanban
begin

text \<open>
  \<open>KanbanCLI\<close> of kanban.py: creating, releasing, aborting, reclaiming and completing
  cards through Hermes' command line, with the reads that decide and confirm each step.
\<close>

definition card_status :: "TaskRecord option \<Rightarrow> string option" where
  "card_status t = map_option tk_status t"

definition with_task :: "ctl_error \<Rightarrow> TaskRecord option \<Rightarrow> (TaskRecord \<Rightarrow> ('w, 'a) op) \<Rightarrow> ('w, 'a) op" where
  "with_task missing t f = (case t of None \<Rightarrow> checked (Inl missing) | Some x \<Rightarrow> f x)"

section \<open>Boards\<close>

definition board_slugs :: "'w kanban_env \<Rightarrow> json \<Rightarrow> string list res" where
  "board_slugs env boards = (case boards of
     JList items \<Rightarrow> Inr (concat (map (\<lambda>item. case item of
         JObj kvs \<Rightarrow> (case map_of kvs ''slug'' of
             Some v \<Rightarrow> if truthy_json v then [json_text (ke_str env) v] else []
           | None \<Rightarrow> [])
       | _ \<Rightarrow> []) items))
   | JObj _ \<Rightarrow> Inr []
   | JStr _ \<Rightarrow> Inr []
   | _ \<Rightarrow> Inl (PyTypeError ''object is not iterable''))"

definition ensure_board ::
  "'w kanban_env \<Rightarrow> ControllerConfig \<Rightarrow> string \<Rightarrow> string \<Rightarrow> string \<Rightarrow> ('w, unit) op" where
  "ensure_board env config board name worktree =
     then_do (run_kanban env config [''boards'', ''list'', ''--json''] None True) (\<lambda>boards.
     then_do (checked (board_slugs env boards)) (\<lambda>slugs.
     then_do (if board \<in> set slugs then give JNull
              else run_kanban env config [''boards'', ''create'', board, ''--name'', name] None False) (\<lambda>_.
     then_do (run_kanban env config [''boards'', ''set-default-workdir'', board, worktree] None False) (\<lambda>_.
     give ()))))"

section \<open>Creating cards\<close>

text \<open>\<open>str(payload["id"])\<close>\<close>

definition created_id :: "'w kanban_env \<Rightarrow> json \<Rightarrow> string res" where
  "created_id env payload = (case payload of
     JObj kvs \<Rightarrow> (case map_of kvs ''id'' of None \<Rightarrow> Inl (PyKeyError ''id'')
       | Some v \<Rightarrow> Inr (json_text (ke_str env) v))
   | _ \<Rightarrow> Inl (PyTypeError ''payload is not subscriptable by a string''))"

definition create_task ::
  "'w kanban_env \<Rightarrow> ControllerConfig \<Rightarrow> string \<Rightarrow> string \<Rightarrow> string \<Rightarrow> string list \<Rightarrow> ('w, TaskRecord) op" where
  "create_task env config board key unreadable args =
     then_do (task_by_idempotency env board key) (\<lambda>existing. case existing of
       Some t \<Rightarrow> give t
     | None \<Rightarrow>
         then_do (run_kanban env config args (Some board) True) (\<lambda>payload.
         then_do (checked (created_id env payload)) (\<lambda>task_id.
         then_do (task env board task_id) (\<lambda>t. with_task (PyRuntimeError unreadable) t give))))"

definition create_root ::
  "'w kanban_env \<Rightarrow> ControllerConfig \<Rightarrow> record_json \<Rightarrow> RunRecord \<Rightarrow> ('w, TaskRecord) op" where
  "create_root env config j run =
     (let key = rr_run_key run @ '':run-init'' in
      create_task env config (wf_board (rr_workspace run)) key ''created run-init card was not readable''
        [''create'', ''['' @ rr_run_key run @ ''] RUN INIT'', ''--body'', render_run_body j run,
         ''--tenant'', rr_run_key run, ''--workspace'', ''dir:'' @ wf_worktree (rr_workspace run),
         ''--idempotency-key'', key, ''--created-by'', ''hollysys-controller'',
         ''--initial-status'', ''blocked'', ''--json''])"

definition upper_char :: "char \<Rightarrow> char" where
  "upper_char c = (if is_lower c then char_of (of_char c - 32 :: nat) else c)"

text \<open>Hermes counts the first attempt in its retries, the configuration only redispatches.\<close>

definition create_work ::
  "'w kanban_env \<Rightarrow> ControllerConfig \<Rightarrow> record_json \<Rightarrow> CardRecord \<Rightarrow> ('w, TaskRecord) op" where
  "create_work env config j c =
     (let run = cr_run c in
      create_task env config (wf_board (rr_workspace run)) (cr_idempotency_key c)
        ''created work card was not readable''
        ([''create'', ''['' @ rr_run_key run @ ''] '' @ map upper_char (stage_value (cr_stage c))
            @ '' iteration '' @ int_str (cr_iteration c),
          ''--body'', render_card_body j c, ''--assignee'', cr_assignee c,
          ''--parent'', cr_parent_card_id c, ''--tenant'', rr_run_key run,
          ''--workspace'', ''dir:'' @ wf_worktree (rr_workspace run),
          ''--idempotency-key'', cr_idempotency_key c, ''--created-by'', ''hollysys-controller'',
          ''--initial-status'', ''blocked'',
          ''--max-retries'', int_str (cf_worker_redispatch_limit config + 1)]
         @ concat (map (\<lambda>skill. [''--skill'', skill]) (cr_skills c)) @ [''--json'']))"

text \<open>
  The record of an exception card as its model builds it: texts are stripped and the
  fields and the scratch directory validated. \<open>sha256\<close> is the hex digest of a text.
\<close>

definition exception_record ::
  "(string \<Rightarrow> string) \<Rightarrow> RunRecord \<Rightarrow> string \<Rightarrow> string \<Rightarrow> string \<Rightarrow> ExceptionCardRecord res" where
  "exception_record sha256 run parent_card_id reason key =
     (let r = \<lparr>xr_run = run, xr_parent_card_id = strip parent_card_id, xr_idempotency_key = strip key,
          xr_reason = strip (take 1000 reason),
          xr_scratch_dir = ''/opt/data/scratch/'' @ rr_run_generation run @ ''/'' @ take 20 (sha256 key)\<rparr>
      in if exception_card_fields r
         then (case validate_scratch_dir (xr_scratch_dir r) of Inl e \<Rightarrow> Inl e | Inr _ \<Rightarrow> Inr r)
         else Inl (ValueError ''validation error for ExceptionCardRecord''))"

definition create_exception ::
  "'w kanban_env \<Rightarrow> ControllerConfig \<Rightarrow> record_json \<Rightarrow> (string \<Rightarrow> string) \<Rightarrow> RunRecord \<Rightarrow> string \<Rightarrow> string \<Rightarrow>
   string \<Rightarrow> ('w, TaskRecord) op" where
  "create_exception env config j sha256 run parent_card_id reason key =
     (let board = wf_board (rr_workspace run) in
      then_do (task_by_idempotency env board key) (\<lambda>existing. case existing of
        Some t \<Rightarrow> give t
      | None \<Rightarrow>
          then_do (checked (exception_record sha256 run parent_card_id reason key)) (\<lambda>r.
          then_do (run_kanban env config
            [''create'', ''['' @ rr_run_key run @ ''] CONTROLLER EXCEPTION'', ''--body'', render_exception_body j r,
             ''--assignee'', ''dispatcher'', ''--parent'', parent_card_id, ''--tenant'', rr_run_key run,
             ''--workspace'', ''dir:'' @ wf_worktree (rr_workspace run), ''--idempotency-key'', key,
             ''--created-by'', ''hollysys-controller'', ''--initial-status'', ''blocked'',
             ''--skill'', ''hollysys-dispatch-kanban'', ''--json''] (Some board) True) (\<lambda>payload.
          then_do (checked (created_id env payload)) (\<lambda>task_id.
          then_do (task env board task_id) (\<lambda>t.
            with_task (PyRuntimeError ''created exception card was not readable'') t give))))))"

section \<open>Completing cards\<close>

definition complete_task ::
  "'w kanban_env \<Rightarrow> ControllerConfig \<Rightarrow> string \<Rightarrow> string \<Rightarrow> string \<Rightarrow> json \<Rightarrow> ('w, unit) op" where
  "complete_task env config board task_id summary metadata =
     then_do (task env board task_id) (\<lambda>t.
       if card_status t = Some ''done'' then give ()
       else run_on env config board [''complete'', task_id, ''--summary'', summary,
              ''--metadata'', dumps compact metadata])"

definition complete_root ::
  "'w kanban_env \<Rightarrow> ControllerConfig \<Rightarrow> RunRecord \<Rightarrow> string \<Rightarrow> ('w, unit) op" where
  "complete_root env config run card_id =
     complete_task env config (wf_board (rr_workspace run)) card_id
       ''Controller accepted and validated the immutable run inputs.''
       (JObj [(''protocol_version'', JStr ''hollysys-controller/v4''), (''kind'', JStr ''run-init''),
          (''run_key'', JStr (rr_run_key run))])"

definition comment_task ::
  "'w kanban_env \<Rightarrow> ControllerConfig \<Rightarrow> string \<Rightarrow> string \<Rightarrow> string \<Rightarrow> string \<Rightarrow> ('w, unit) op" where
  "comment_task env config board task_id t author =
     run_on env config board [''comment'', task_id, t, ''--author'', author]"

section \<open>Releasing, aborting and reclaiming\<close>

definition released_statuses :: "string list" where
  "released_statuses = [''todo'', ''ready'', ''running'', ''done'']"

definition is_released :: "TaskRecord option \<Rightarrow> bool" where
  "is_released t \<longleftrightarrow> (case t of None \<Rightarrow> False | Some x \<Rightarrow> tk_status x \<in> set released_statuses)"

text \<open>\<open>try: m except DependencyError as exc: handle\<close>, then \<open>f\<close> when nothing was raised.\<close>

definition try_dependency ::
  "('s, 'a) op \<Rightarrow> (ctl_error \<Rightarrow> ('s, 'b) op) \<Rightarrow> ('a \<Rightarrow> ('s, 'b) op) \<Rightarrow> ('s, 'b) op" where
  "try_dependency m handle f s = (case m s of
     (Inl e, t) \<Rightarrow> if is_dependency_error e then handle e t else (Inl e, t)
   | (Inr v, t) \<Rightarrow> f v t)"

definition release_task :: "'w kanban_env \<Rightarrow> ControllerConfig \<Rightarrow> string \<Rightarrow> string \<Rightarrow> ('w, unit) op" where
  "release_task env config board task_id =
     then_do (task env board task_id) (\<lambda>t. with_task (PyRuntimeError (''unknown task '' @ task_id)) t (\<lambda>_.
       if is_released t then give ()
       else try_dependency (run_on env config board [''promote'', task_id])
         (\<lambda>e. then_do (task env board task_id) (\<lambda>r. if is_released r then give () else checked (Inl e)))
         (\<lambda>_. then_do (task env board task_id) (\<lambda>r. if is_released r then give ()
            else checked (Inl (PyRuntimeError (''card '' @ task_id @ '' did not leave controller hold'')))))))"

definition reclaim_command :: "string \<Rightarrow> string \<Rightarrow> int \<Rightarrow> int \<Rightarrow> bool \<Rightarrow> string list" where
  "reclaim_command task_id reason run_id pid archive =
     [''reclaim'', task_id, ''--reason'', take 500 reason, ''--expected-run-id'', int_str run_id,
      ''--expected-worker-pid'', int_str pid] @ (if archive then [''--archive''] else [])"

definition archive_command :: "string \<Rightarrow> string list" where
  "archive_command task_id = [''archive'', ''--expected-unclaimed'', task_id]"

text \<open>A running attempt is reclaimed only while it is the one the Supervisor confirmed.\<close>

definition reclaim_confirmed ::
  "'w kanban_env \<Rightarrow> ControllerConfig \<Rightarrow> string \<Rightarrow> string \<Rightarrow> string \<Rightarrow> int \<Rightarrow> int \<Rightarrow> bool \<Rightarrow> TaskRecord \<Rightarrow>
   ('w, unit) op" where
  "reclaim_confirmed env config board task_id reason run_id pid archive t =
     (if tk_status t \<noteq> ''running'' then give ()
      else if tk_current_run_id t \<noteq> Some run_id \<or> tk_worker_pid t \<noteq> Some pid
      then checked (Inl (ValueError ''stale_attempt''))
      else run_on env config board (reclaim_command task_id reason run_id pid archive))"

definition abort_task ::
  "'w kanban_env \<Rightarrow> ControllerConfig \<Rightarrow> string \<Rightarrow> string \<Rightarrow> string \<Rightarrow> int option \<Rightarrow> int option \<Rightarrow> ('w, unit) op" where
  "abort_task env config board task_id reason run_id pid =
     then_do (task env board task_id) (\<lambda>t. case t of
       None \<Rightarrow> give ()
     | Some x \<Rightarrow>
         if tk_status x = ''archived'' then give ()
         else then_do (if tk_status x \<noteq> ''running'' then give ()
             else case (run_id, pid) of
               (Some r, Some p) \<Rightarrow> reclaim_confirmed env config board task_id reason r p True x
             | _ \<Rightarrow> checked (Inl (ValueError ''running_task_requires_supervisor_evidence'')))
           (\<lambda>_. then_do (task env board task_id) (\<lambda>t.
              if card_status t = Some ''running'' then checked (Inl (ValueError ''stale_attempt''))
              else if card_status t \<in> {None, Some ''archived''} then give ()
              else then_do (run_on env config board (archive_command task_id))
                (\<lambda>_. then_do (task env board task_id) (\<lambda>archived.
                   if card_status archived \<in> {None, Some ''archived''} then give ()
                   else checked (Inl (ValueError ''stale_attempt'')))))))"

definition archive_controller_task ::
  "'w kanban_env \<Rightarrow> ControllerConfig \<Rightarrow> string \<Rightarrow> string \<Rightarrow> ('w, unit) op" where
  "archive_controller_task env config board task_id =
     then_do (task env board task_id) (\<lambda>t. case t of
       None \<Rightarrow> give ()
     | Some x \<Rightarrow>
         if tk_status x = ''archived'' then give ()
         else if tk_status x = ''running'' \<and> tk_worker_pid x \<noteq> None
         then checked (Inl (ValueError ''running_task_requires_supervisor_evidence''))
         else run_on env config board (archive_command task_id))"

definition redispatch_stale_worker ::
  "'w kanban_env \<Rightarrow> ControllerConfig \<Rightarrow> string \<Rightarrow> string \<Rightarrow> string \<Rightarrow> int \<Rightarrow> int \<Rightarrow> ('w, TaskRecord) op" where
  "redispatch_stale_worker env config board task_id reason run_id pid =
     then_do (task env board task_id) (\<lambda>t. with_task (ValueError (''unknown task '' @ task_id)) t (\<lambda>x.
     then_do (reclaim_confirmed env config board task_id reason run_id pid False x) (\<lambda>_.
     then_do (task env board task_id) (\<lambda>refreshed.
       if card_status refreshed = Some ''running'' then checked (Inl (ValueError ''stale_attempt''))
       else with_task (PyRuntimeError (''reclaimed task '' @ task_id @ '' disappeared'')) refreshed (\<lambda>y.
         then_do (if tk_status y = ''blocked''
             then then_do (release_task env config board task_id) (\<lambda>_. task env board task_id)
             else give (Some y)) (\<lambda>ready.
           if card_status ready \<in> {Some ''todo'', Some ''ready'', Some ''running''}
           then with_task (PyRuntimeError []) ready give
           else checked (Inl (PyRuntimeError (''reclaimed task '' @ task_id @ '' is not redispatchable: '' @
             (case card_status ready of Some st \<Rightarrow> st | None \<Rightarrow> ''missing''))))))))))"

definition quarantine_provider_tempfail ::
  "'w kanban_env \<Rightarrow> ControllerConfig \<Rightarrow> string \<Rightarrow> string \<Rightarrow> string \<Rightarrow> int \<Rightarrow> int \<Rightarrow> ('w, TaskRecord) op" where
  "quarantine_provider_tempfail env config board task_id reason run_id pid =
     then_do (task env board task_id) (\<lambda>t. with_task (ValueError (''unknown task '' @ task_id)) t (\<lambda>x.
     then_do (reclaim_confirmed env config board task_id reason run_id pid False x) (\<lambda>_.
     then_do (task env board task_id) (\<lambda>refreshed.
       with_task (PyRuntimeError (''reclaimed task '' @ task_id @ '' disappeared'')) refreshed (\<lambda>y.
         if tk_status y \<noteq> ''blocked''
         then checked (Inl (PyRuntimeError (''provider tempfail card '' @ task_id @
           '' did not enter cooldown block: '' @ tk_status y)))
         else give y)))))"

section \<open>Answering a human block\<close>

text \<open>\<open>repr\<close> of a text is a parameter; the script runs with the board in its environment.\<close>

definition triage_script :: "(string \<Rightarrow> string) \<Rightarrow> string \<Rightarrow> string" where
  "triage_script repr task_id = concat
     [''from hermes_cli import kanban_db as kb'' @ new_line,
      ''task_id = '' @ repr task_id @ new_line,
      ''with kb.connect_closing() as conn:'' @ new_line,
      ''    changed = kb.specify_triage_task('' @ new_line,
      ''        conn, task_id, author='' @ [CHR 0x27] @ ''hollysys-controller'' @ [CHR 0x27] @ new_line,
      ''    )'' @ new_line,
      ''raise SystemExit(0 if changed else 1)'']"

definition specify_triage ::
  "'w kanban_env \<Rightarrow> string \<Rightarrow> (string \<Rightarrow> string) \<Rightarrow> string \<Rightarrow> string \<Rightarrow> ('w, unit) op" where
  "specify_triage env python repr board task_id =
     (let endpoint = ''kanban:specify_triage_task'' in
      then_do (execute env [python, ''-c'', triage_script repr task_id] endpoint [(''HERMES_KANBAN_BOARD'', board)])
        (\<lambda>result. checked (raise_for_failure endpoint result)))"

definition prepare_human_block_for_completion ::
  "'w kanban_env \<Rightarrow> ControllerConfig \<Rightarrow> string \<Rightarrow> (string \<Rightarrow> string) \<Rightarrow> string \<Rightarrow> string \<Rightarrow> ('w, unit) op" where
  "prepare_human_block_for_completion env config python repr board task_id =
     then_do (task env board task_id) (\<lambda>t. with_task (PyRuntimeError (''unknown task '' @ task_id)) t (\<lambda>x.
     then_do (if tk_status x \<noteq> ''triage'' then give x
        else then_do (specify_triage env python repr board task_id) (\<lambda>_. then_do (task env board task_id)
          (\<lambda>t. with_task (PyRuntimeError (''triage card '' @ task_id @ '' disappeared'')) t give))) (\<lambda>y.
     then_do (if tk_status y \<noteq> ''todo'' then give y
        else then_do (run_on env config board [''promote'', task_id, ''--reason'',
             ''Controller accepted the matching human resolution.'']) (\<lambda>_. then_do (task env board task_id)
          (\<lambda>t. with_task (PyRuntimeError (''promoted card '' @ task_id @ '' disappeared'')) t give))) (\<lambda>z.
       if tk_status z \<in> {''ready'', ''blocked''} then give ()
       else checked (Inl (PyRuntimeError (''human-block card '' @ task_id @ '' cannot complete from '' @ tk_status z)))))))"

end
