(* ===== verification/Effects.thy ===== *)
theory Effects
  imports Kanban
begin

text \<open>
  Reasoning about operations on a world nobody controls: what an operation leaves alone
  whatever it returns, and what must have happened when it returns normally.
\<close>

section \<open>What an operation leaves alone\<close>

definition stable :: "('s \<Rightarrow> bool) \<Rightarrow> ('s, 'a) op \<Rightarrow> bool" where
  "stable P m \<longleftrightarrow> keeps (\<lambda>s t. P s \<longrightarrow> P t) m"

named_theorems stable_intros

lemma stableI: "(\<And>s. P s \<Longrightarrow> P (snd (m s))) \<Longrightarrow> stable P m"
  by (simp add: stable_def keeps_def)

lemma stableD: "stable P m \<Longrightarrow> P s \<Longrightarrow> P (snd (m s))"
  by (simp add: stable_def keeps_def)

lemma stable_then [stable_intros]: "stable P m \<Longrightarrow> (\<And>v. stable P (f v)) \<Longrightarrow> stable P (then_do m f)"
  unfolding stable_def by (rule keeps_then_do) blast+

lemma stable_pure [stable_intros]: "stable P (give v)" "stable P (checked r)"
  by (simp_all add: stable_def keeps_def checked_def)

lemma stable_if [stable_intros]: "(b \<Longrightarrow> stable P m) \<Longrightarrow> (\<not> b \<Longrightarrow> stable P n) \<Longrightarrow> stable P (if b then m else n)"
  by simp

lemma stable_option [stable_intros]:
  "(x = None \<Longrightarrow> stable P m) \<Longrightarrow> (\<And>v. x = Some v \<Longrightarrow> stable P (f v)) \<Longrightarrow>
    stable P (case x of None \<Rightarrow> m | Some v \<Rightarrow> f v)"
  by (cases x) simp_all

section \<open>What a normal return means\<close>

lemma then_do_ok: "then_do m f s = (Inr v, t) \<longleftrightarrow> (\<exists>x u. m s = (Inr x, u) \<and> f x u = (Inr v, t))"
  by (cases "m s"; cases "fst (m s)") (auto simp: then_do_def)

lemma pure_ok: "give x s = (Inr v, t) \<longleftrightarrow> x = v \<and> s = t" "checked r s = (Inr v, t) \<longleftrightarrow> r = Inr v \<and> s = t"
  by (auto simp: checked_def)

lemma guard_ok:
  "(if b then checked (Inl e) else m) s = (Inr v, t) \<longleftrightarrow> \<not> b \<and> m s = (Inr v, t)"
  "(if b then m else checked (Inl e)) s = (Inr v, t) \<longleftrightarrow> b \<and> m s = (Inr v, t)"
  by (simp_all add: checked_def)

lemmas ok_simps = then_do_ok guard_ok pure_ok

lemma try_do_ok:
  "try_do m handle f s = (Inr v, t) \<longleftrightarrow> (\<exists>x u. m s = (Inr x, u) \<and> f x u = (Inr v, t)) \<or>
     (\<exists>e u. m s = (Inl e, u) \<and> handle e u = (Inr v, t))"
  by (auto simp: try_do_def split: prod.splits sum.splits)

lemma stable_try_do [stable_intros]:
  assumes "stable P m" "\<And>e. stable P (handle e)" "\<And>v. stable P (f v)"
  shows "stable P (try_do m handle f)"
proof (rule stableI)
  fix s assume s: "P s"
  obtain r t where m: "m s = (r, t)" by fastforce
  have t: "P t" using stableD [OF assms(1) s] m by simp
  then show "P (snd (try_do m handle f s))"
    using m stableD [OF assms(2) t] stableD [OF assms(3) t] by (cases r) (simp_all add: try_do_def)
qed

lemma stable_loops [stable_intros]:
  "(\<And>x a. stable P (f x a)) \<Longrightarrow> stable P (fold_do f xs acc)"
  "(\<And>x. stable P (g x)) \<Longrightarrow> stable P (for_each g xs)"
  by (induction xs arbitrary: acc) (auto intro: stable_intros)

section \<open>Loops\<close>

lemma fold_do_inv:
  assumes "fold_do f xs acc w = (Inr r, w')" "I acc w"
    and "\<And>x a u b v. x \<in> set xs \<Longrightarrow> I a u \<Longrightarrow> f x a u = (Inr b, v) \<Longrightarrow> I b v"
  shows "I r w'"
  using assms
proof (induction xs arbitrary: acc w)
  case (Cons x xs)
  from Cons.prems(1) obtain b v where "f x acc w = (Inr b, v)" "fold_do f xs b v = (Inr r, w')"
    by (auto simp: then_do_ok)
  with Cons.IH [OF this(2)] Cons.prems(2,3) show ?case by (metis list.set_intros)
qed simp

lemma fold_do_prefix:
  assumes "fold_do f xs acc w = (Inr r, w')" "I D acc w"
    and "\<And>D x a u b v. x \<in> set xs \<Longrightarrow> I D a u \<Longrightarrow> f x a u = (Inr b, v) \<Longrightarrow> I (insert x D) b v"
  shows "I (D \<union> set xs) r w'"
  using assms
proof (induction xs arbitrary: acc w D)
  case (Cons x xs)
  from Cons.prems(1) obtain b v where b: "f x acc w = (Inr b, v)" "fold_do f xs b v = (Inr r, w')"
    by (auto simp: then_do_ok)
  have "I (insert x D) b v" by (rule Cons.prems(3) [OF _ Cons.prems(2) b(1)]) simp
  from Cons.IH [OF b(2) this] Cons.prems(3) show ?case by simp
qed simp

end
