(* ===== verification/Kanban_Properties.thy ===== *)
theory Kanban_Properties
  imports Kanban_CLI Effects
begin

text \<open>
  What the card operations do to a board, for every behaviour of Hermes: the only
  commands they issue against an attempt name the attempt the Supervisor confirmed,
  and they report success only after reading the state they promise.
\<close>

section \<open>What an operation leaves alone\<close>

lemma stable_with_task [stable_intros]: "(\<And>x. stable P (f x)) \<Longrightarrow> stable P (with_task e t f)"
  by (cases t) (simp_all add: with_task_def stable_pure)

lemma stable_try [stable_intros]:
  assumes "stable P m" "\<And>e. stable P (h e)" "\<And>v. stable P (f v)"
  shows "stable P (try_dependency m h f)"
proof (rule stableI)
  fix s assume s: "P s"
  obtain r t where m: "m s = (r, t)" by fastforce
  have t: "P t" using stableD [OF assms(1) s] m by simp
  then show "P (snd (try_dependency m h f s))"
    using m stableD [OF assms(2) t] stableD [OF assms(3) t]
    by (cases r) (simp_all add: try_dependency_def)
qed

text \<open>Reads of boards and the given commands keep \<open>P\<close>.\<close>

definition unharmed :: "'w kanban_env \<Rightarrow> ('w \<Rightarrow> bool) \<Rightarrow> string list set \<Rightarrow> bool" where
  "unharmed env P commands \<longleftrightarrow> (\<forall>b v. P v \<longrightarrow> P (snd (ke_board env b v))) \<and>
     (\<forall>c \<in> commands. \<forall>v. P v \<longrightarrow> P (snd (ke_spawn env c [] v)))"

lemma stable_connect: "unharmed env P cs \<Longrightarrow> stable P (connect_board env board)"
proof (rule stableI)
  fix s assume "unharmed env P cs" "P s"
  then have "P (snd (ke_board env board s))" by (simp add: unharmed_def)
  then show "P (snd (connect_board env board s))"
    by (cases "ke_board env board s"; cases "fst (ke_board env board s)") (simp_all add: connect_board_def)
qed

lemma stable_task: "unharmed env P cs \<Longrightarrow> stable P (task env board task_id)"
  unfolding task_def by (intro stable_intros stable_connect)

lemma stable_execute: "unharmed env P cs \<Longrightarrow> c \<in> cs \<Longrightarrow> stable P (execute env c endpoint [])"
proof (rule stableI)
  fix s assume "unharmed env P cs" "c \<in> cs" "P s"
  then have "P (snd (ke_spawn env c [] s))" by (simp add: unharmed_def)
  then show "P (snd (execute env c endpoint [] s))"
    by (cases "ke_spawn env c [] s"; cases "fst (ke_spawn env c [] s)") (simp_all add: execute_def)
qed

lemma stable_run:
  assumes "unharmed env P cs" "kanban_command config (Some board) args \<in> cs"
  shows "stable P (run_on env config board args)"
  unfolding run_on_def run_kanban_def Let_def
  by (intro stable_intros stable_execute [OF assms(1)])
    (use assms(2) in \<open>auto simp: case_prod_unfold intro: stable_intros\<close>)

lemma stable_release:
  assumes "unharmed env P cs" "kanban_command config (Some board) [''promote'', task_id] \<in> cs"
  shows "stable P (release_task env config board task_id)"
  unfolding release_task_def by (intro stable_intros stable_task [OF assms(1)] stable_run [OF assms])

lemma stable_reclaim:
  assumes "unharmed env P cs"
    and "kanban_command config (Some board) (reclaim_command task_id reason run_id pid archive) \<in> cs"
  shows "stable P (reclaim_confirmed env config board task_id reason run_id pid archive t)"
  unfolding reclaim_confirmed_def by (intro stable_intros stable_run [OF assms])

section \<open>What success means\<close>

text \<open>The operation ended with a read of the task in a state \<open>Q\<close>.\<close>

definition last_read :: "'w kanban_env \<Rightarrow> string \<Rightarrow> string \<Rightarrow> (TaskRecord option \<Rightarrow> bool) \<Rightarrow> 'w \<Rightarrow> bool" where
  "last_read env board task_id Q w \<longleftrightarrow> (\<exists>v t. task env board task_id v = (Inr t, w) \<and> Q t)"

lemma with_task_ok: "with_task e t f s = (Inr v, s') \<longleftrightarrow> (\<exists>x. t = Some x \<and> f x s = (Inr v, s'))"
  by (cases t) (simp_all add: with_task_def checked_def)

lemma abort_task_success:
  assumes "abort_task env config board task_id reason run_id pid w = (Inr (), w')"
  shows "last_read env board task_id (\<lambda>t. card_status t \<in> {None, Some ''archived''}) w'"
proof -
  let ?Q = "\<lambda>t. card_status t \<in> {None, Some ''archived''}"
  obtain t u where t: "task env board task_id w = (Inr t, u)"
    and rest: "(case t of None \<Rightarrow> give () | Some x \<Rightarrow> if tk_status x = ''archived'' then give ()
         else then_do (if tk_status x \<noteq> ''running'' then give ()
             else case (run_id, pid) of
               (Some r, Some p) \<Rightarrow> reclaim_confirmed env config board task_id reason r p True x
             | _ \<Rightarrow> checked (Inl (ValueError ''running_task_requires_supervisor_evidence'')))
           (\<lambda>_. then_do (task env board task_id) (\<lambda>t.
              if card_status t = Some ''running'' then checked (Inl (ValueError ''stale_attempt''))
              else if card_status t \<in> {None, Some ''archived''} then give ()
              else then_do (run_on env config board (archive_command task_id))
                (\<lambda>_. then_do (task env board task_id) (\<lambda>archived.
                   if card_status archived \<in> {None, Some ''archived''} then give ()
                   else checked (Inl (ValueError ''stale_attempt''))))))) u = (Inr (), w')"
    using assms unfolding abort_task_def then_do_ok by blast
  show ?thesis
  proof (cases "?Q t")
    case True
    with rest have "u = w'" by (cases t) (auto simp: card_status_def split: if_splits)
    with t True show ?thesis unfolding last_read_def by blast
  next
    case False
    then obtain x where x: "t = Some x" "tk_status x \<noteq> ''archived''" by (cases t) (auto simp: card_status_def)
    from rest obtain v y u2 where "task env board task_id v = (Inr y, u2)"
      and y: "(if card_status y = Some ''running'' then checked (Inl (ValueError ''stale_attempt''))
         else if ?Q y then give () else then_do (run_on env config board (archive_command task_id))
           (\<lambda>_. then_do (task env board task_id) (\<lambda>archived. if ?Q archived then give ()
              else checked (Inl (ValueError ''stale_attempt''))))) u2 = (Inr (), w')"
      unfolding x(1) option.case if_not_P [OF x(2)] then_do_ok by blast
    then show ?thesis unfolding last_read_def
      by (cases "card_status y = Some ''running''"; cases "?Q y")
        (fastforce simp: pure_ok then_do_ok split: if_splits)+
  qed
qed

lemma redispatch_success:
  assumes "redispatch_stale_worker env config board task_id reason run_id pid w = (Inr y, w')"
  shows "tk_status y \<in> {''todo'', ''ready'', ''running''}"
  using assms unfolding redispatch_stale_worker_def ok_simps with_task_ok card_status_def by fastforce

lemma quarantine_success:
  assumes "quarantine_provider_tempfail env config board task_id reason run_id pid w = (Inr y, w')"
  shows "tk_status y = ''blocked'' \<and> last_read env board task_id (\<lambda>t. t = Some y) w'"
  using assms unfolding quarantine_provider_tempfail_def ok_simps with_task_ok last_read_def by fastforce

section \<open>A small Hermes\<close>

text \<open>One board; a reclaim must name the claimed run, an archived card must be unclaimed.\<close>

definition change_task :: "string \<Rightarrow> (hermes_task \<Rightarrow> bool) \<Rightarrow> (hermes_task \<Rightarrow> hermes_task) \<Rightarrow>
    hermes_board \<Rightarrow> process_result \<times> hermes_board" where
  "change_task task_id allowed f b =
     (if list_ex (\<lambda>t. ht_id t = task_id \<and> allowed t) (hb_tasks b)
      then (Completed 0 [] [], b\<lparr>hb_tasks := map (\<lambda>t. if ht_id t = task_id then f t else t) (hb_tasks b)\<rparr>)
      else (Completed 1 [] ''refused'', b))"

definition unclaim :: "string \<Rightarrow> hermes_task \<Rightarrow> hermes_task" where
  "unclaim status t = t\<lparr>ht_status := status, ht_current_run_id := None, ht_worker_pid := None\<rparr>"

definition small_spawn :: "string list \<Rightarrow> (string \<times> string) list \<Rightarrow> hermes_board \<Rightarrow>
    process_result \<times> hermes_board" where
  "small_spawn command vars b = (case drop 6 command of
     verb # task_id # rest \<Rightarrow>
       if verb = ''reclaim''
       then change_task task_id (\<lambda>t. map_option int_str (ht_current_run_id t) = Some (rest ! 3))
              (unclaim (if ''--archive'' \<in> set rest then ''archived'' else ''ready'')) b
       else if verb = ''archive''
       then change_task (hd rest) (\<lambda>t. ht_current_run_id t = None) (unclaim ''archived'') b
       else (Completed 1 [] ''refused'', b)
   | _ \<Rightarrow> (Completed 1 [] ''refused'', b))"

definition small_hermes :: "hermes_board kanban_env" where
  "small_hermes = \<lparr>ke_board = (\<lambda>_ b. (BoardOpen b, b)), ke_spawn = small_spawn,
     ke_loads = (\<lambda>_. None), ke_str = (\<lambda>_. [])\<rparr>"

text \<open>The card \<open>t_1\<close> is claimed by run 9, which worker 50 executes.\<close>

definition claimed_board :: hermes_board where
  "claimed_board = \<lparr>hb_tasks = [\<lparr>ht_id = ''t_1'', ht_title = [], ht_body = None, ht_assignee = None,
       ht_status = ''running'', ht_created_by = None, ht_created_at = 1, ht_completed_at = None,
       ht_idempotency_key = None, ht_tenant = None, ht_workspace_path = None, ht_branch_name = None,
       ht_skills = None, ht_current_run_id = Some 9, ht_worker_pid = Some 50\<rparr>],
     hb_runs = [], hb_links = [], hb_comments = [], hb_events = []\<rparr>"

section \<open>Fencing\<close>

text \<open>The commands against an attempt of a card: reclaim the confirmed one, archive an unclaimed card, promote.\<close>

definition fenced_commands :: "ControllerConfig \<Rightarrow> string \<Rightarrow> string \<Rightarrow> string \<Rightarrow> int \<Rightarrow> int \<Rightarrow> string list set" where
  "fenced_commands config board task_id reason run_id pid = kanban_command config (Some board) `
     {reclaim_command task_id reason run_id pid True, reclaim_command task_id reason run_id pid False,
      archive_command task_id, [''promote'', task_id]}"

lemma operations_are_stable:
  assumes "unharmed env P (fenced_commands config board task_id reason run_id pid)"
  shows "stable P (abort_task env config board task_id reason (Some run_id) (Some pid))"
    and "stable P (redispatch_stale_worker env config board task_id reason run_id pid)"
    and "stable P (quarantine_provider_tempfail env config board task_id reason run_id pid)"
proof -
  note intros = stable_intros stable_task [OF assms] stable_run [OF assms]
    stable_reclaim [OF assms] stable_release [OF assms]
  show "stable P (abort_task env config board task_id reason (Some run_id) (Some pid))"
    unfolding abort_task_def by (intro intros) (simp_all add: fenced_commands_def intros)
  show "stable P (redispatch_stale_worker env config board task_id reason run_id pid)"
    unfolding redispatch_stale_worker_def by (intro intros) (simp_all add: fenced_commands_def intros)
  show "stable P (quarantine_provider_tempfail env config board task_id reason run_id pid)"
    unfolding quarantine_provider_tempfail_def by (intro intros) (simp_all add: fenced_commands_def intros)
qed

text \<open>
  C21. A card operation is fenced to the confirmed attempt: whatever Hermes does,
  aborting, redispatching or quarantining a card reads the board and issues nothing but
  reclaims naming the confirmed run and process, the archiving of an unclaimed card and
  its promotion, so what those leave alone stays as it was; and success was read from the
  board: the aborted card is gone or archived, the redispatched one can run, the
  quarantined one is blocked.
\<close>

theorem attempts_are_fenced:
  assumes "unharmed env P (fenced_commands config board task_id reason run_id pid)" and "P w"
  shows "P (snd (abort_task env config board task_id reason (Some run_id) (Some pid) w)) \<and>
    P (snd (redispatch_stale_worker env config board task_id reason run_id pid w)) \<and>
    P (snd (quarantine_provider_tempfail env config board task_id reason run_id pid w)) \<and>
    (\<forall>w'. abort_task env config board task_id reason (Some run_id) (Some pid) w = (Inr (), w') \<longrightarrow>
      last_read env board task_id (\<lambda>t. card_status t \<in> {None, Some ''archived''}) w') \<and>
    (\<forall>t w'. redispatch_stale_worker env config board task_id reason run_id pid w = (Inr t, w') \<longrightarrow>
      tk_status t \<in> {''todo'', ''ready'', ''running''}) \<and>
    (\<forall>t w'. quarantine_provider_tempfail env config board task_id reason run_id pid w = (Inr t, w') \<longrightarrow>
      tk_status t = ''blocked'' \<and> last_read env board task_id (\<lambda>x. x = Some t) w')"
  by (intro conjI allI impI operations_are_stable [OF assms(1), THEN stableD, OF assms(2)])
    (erule abort_task_success redispatch_success quarantine_success [THEN conjunct1]
      quarantine_success [THEN conjunct2])+

text \<open>An abort confirmed for run 7 leaves the card that run 9 has claimed since; one for run 9 archives it.\<close>

theorem attempts_are_fenced_witness:
  "snd (abort_task small_hermes sample_config ''b'' ''t_1'' ''stop'' (Some 7) (Some 42) claimed_board) = claimed_board \<and>
   fst (abort_task small_hermes sample_config ''b'' ''t_1'' ''stop'' (Some 9) (Some 50) claimed_board) = Inr ()"
proof
  have "list_all (\<lambda>c. snd (small_spawn (kanban_command sample_config (Some ''b'') c) [] claimed_board) = claimed_board)
      [reclaim_command ''t_1'' ''stop'' 7 42 True, reclaim_command ''t_1'' ''stop'' 7 42 False,
       archive_command ''t_1'', [''promote'', ''t_1'']]"
    by code_simp
  then have "unharmed small_hermes (\<lambda>b. b = claimed_board)
      (fenced_commands sample_config ''b'' ''t_1'' ''stop'' 7 42)"
    by (simp add: unharmed_def fenced_commands_def small_hermes_def)
  from attempts_are_fenced [OF this refl]
  show "snd (abort_task small_hermes sample_config ''b'' ''t_1'' ''stop'' (Some 7) (Some 42) claimed_board) = claimed_board"
    by (rule conjunct1)
  show "fst (abort_task small_hermes sample_config ''b'' ''t_1'' ''stop'' (Some 9) (Some 50) claimed_board) = Inr ()"
    by code_simp
qed

end
