(* ===== verification/Supervisor.thy ===== *)
theory Supervisor
  imports Kanban
begin

text \<open>
  \<open>WorkerSupervisorServer\<close> (worker_supervisor.py): the service that checks a worker's
  identity against the board and \<open>/proc\<close>, finds every process of an attempt, and stops
  the whole tree. The host is a parameter over an arbitrary world \<open>'w\<close>: a system call
  answers with a value or an errno and may find the world changed by anyone.
\<close>

section \<open>Processes and the host\<close>

record ProcessIdentity =
  pi_pid :: int
  pi_parent_pid :: int
  pi_process_group :: int
  pi_state :: string
  pi_start_ticks :: int

definition exited :: "ProcessIdentity \<Rightarrow> bool" where
  "exited p \<longleftrightarrow> pi_state p = ''Z''"

record WorkerIdentity =
  wi_board :: string
  wi_card_id :: string
  wi_run_id :: int
  wi_worker_pid :: int

type_synonym ('w, 'a) syscall = "'w \<Rightarrow> ((int \<times> string) + 'a) \<times> 'w"

text \<open>
  \<open>ho_stat\<close> and \<open>ho_environ\<close> are the bytes of the files of a process under \<open>/proc\<close>,
  \<open>ho_owner\<close> the owner of its directory. \<open>ho_utf8\<close> says whether bytes are UTF-8 and
  \<open>ho_replace\<close> decodes with replacement; \<open>ho_uuid\<close> whether \<open>uuid.UUID\<close> accepts a text.
  Times are seconds. \<open>ho_dumps\<close> is \<open>json.dumps\<close> with ASCII output.
\<close>

record 'w host =
  ho_board :: "string \<Rightarrow> 'w \<Rightarrow> board_access \<times> 'w"
  ho_proc :: "('w, string list) syscall"
  ho_stat :: "int \<Rightarrow> ('w, string) syscall"
  ho_owner :: "int \<Rightarrow> ('w, int) syscall"
  ho_environ :: "int \<Rightarrow> ('w, string) syscall"
  ho_has_pidfd :: bool
  ho_pidfd_open :: "int \<Rightarrow> ('w, int) syscall"
  ho_pidfd_send :: "int \<Rightarrow> int \<Rightarrow> ('w, unit) syscall"
  ho_close :: "int \<Rightarrow> ('w, unit) syscall"
  ho_kill :: "int \<Rightarrow> int \<Rightarrow> ('w, unit) syscall"
  ho_time :: "('w, int) syscall"
  ho_monotonic :: "('w, rat) syscall"
  ho_sleep :: "rat \<Rightarrow> ('w, unit) syscall"
  ho_utf8 :: "string \<Rightarrow> bool"
  ho_replace :: "string \<Rightarrow> string"
  ho_uuid :: "string \<Rightarrow> bool"
  ho_loads :: "string \<Rightarrow> json option"
  ho_dumps :: "json \<Rightarrow> string"
  ho_str :: "json \<Rightarrow> string"

record supervisor_config =
  sc_hermes_home :: string
  sc_expected_uid :: int
  sc_expected_gid :: int
  sc_term_grace_seconds :: rat
  sc_kill_grace_seconds :: rat

definition sys_call :: "('w, 'a) syscall \<Rightarrow> ('w, 'a) op" where
  "sys_call f w = (case f w of (Inl (n, t), w') \<Rightarrow> (Inl (OsError n t), w') | (Inr v, w') \<Rightarrow> (Inr v, w'))"

definition os_errno :: "ctl_error \<Rightarrow> int option" where
  "os_errno e = (case e of OsError n _ \<Rightarrow> Some n | _ \<Rightarrow> None)"

text \<open>ENOENT, ESRCH, EINVAL, ENOSYS, ETIMEDOUT and the signals used.\<close>

definition ENOENT :: int where "ENOENT = 2"
definition ESRCH :: int where "ESRCH = 3"
definition EINVAL :: int where "EINVAL = 22"
definition ENOSYS :: int where "ENOSYS = 38"
definition ETIMEDOUT :: int where "ETIMEDOUT = 110"
definition SIGKILL :: int where "SIGKILL = 9"
definition SIGTERM :: int where "SIGTERM = 15"
definition SIGCONT :: int where "SIGCONT = 18"
definition SIGSTOP :: int where "SIGSTOP = 19"

definition rejected :: "string \<Rightarrow> ('w, 'a) op" where
  "rejected code = checked (Inl (SupervisorRequestError code))"

section \<open>Reading a process\<close>

fun split_on :: "char \<Rightarrow> string \<Rightarrow> string list" where
  "split_on c [] = [[]]"
| "split_on c (d # s) = (if d = c then [] # split_on c s
     else case split_on c s of x # xs \<Rightarrow> (d # x) # xs | [] \<Rightarrow> [[d]])"

text \<open>\<open>s.split()\<close>\<close>

definition split_words :: "string \<Rightarrow> string list" where
  "split_words s = filter (\<lambda>x. x \<noteq> []) (split_on (CHR '' '') (map (\<lambda>c. if is_space c then CHR '' '' else c) s))"

text \<open>\<open>int(s)\<close>: spaces around, a sign, digits with single underscores between them.\<close>

fun spaced_digits :: "string \<Rightarrow> bool" where
  "spaced_digits [] = False"
| "spaced_digits [c] = is_digit c"
| "spaced_digits (c # d # s) = (is_digit c \<and> (if d = CHR ''_'' then spaced_digits s else spaced_digits (d # s)))"

definition int_of_text :: "string \<Rightarrow> int option" where
  "int_of_text s =
     (let t = strip s;
          negative = starts_with ''-'' t;
          ds = (if negative \<or> starts_with ''+'' t then tl t else t)
      in if spaced_digits ds
         then Some ((if negative then - 1 else 1) * int (digits_value (filter is_digit ds))) else None)"

definition parse_stat :: "int \<Rightarrow> string \<Rightarrow> ProcessIdentity res" where
  "parse_stat pid raw = (case rfind_text '')'' raw of
     None \<Rightarrow> Inl (SupervisorRequestError ''invalid_process_stat'')
   | Some i \<Rightarrow>
       (let fields = split_words (strip (drop (Suc i) raw))
        in if length fields \<le> 19 then Inl (SupervisorRequestError ''invalid_process_stat'')
           else case (int_of_text (fields ! 1), int_of_text (fields ! 2), int_of_text (fields ! 19)) of
             (Some parent, Some grp, Some ticks) \<Rightarrow>
               Inr \<lparr>pi_pid = pid, pi_parent_pid = parent, pi_process_group = grp,
                    pi_state = fields ! 0, pi_start_ticks = ticks\<rparr>
           | _ \<Rightarrow> Inl (SupervisorRequestError ''invalid_process_stat'')))"

text \<open>A file that is no UTF-8 raises Python's UnicodeDecodeError, which is a ValueError.\<close>

definition read_process :: "'w host \<Rightarrow> int \<Rightarrow> ('w, ProcessIdentity option) op" where
  "read_process h pid = try_do (sys_call (ho_stat h pid))
     (\<lambda>e. if os_errno e = Some ENOENT then give None else rejected ''process_evidence_unavailable'')
     (\<lambda>raw. if ho_utf8 h raw then then_do (checked (parse_stat pid raw)) (\<lambda>p. give (Some p))
        else checked (Inl (ValueError ''invalid utf-8'')))"

definition environment_of :: "'w host \<Rightarrow> string \<Rightarrow> string \<Rightarrow> string option" where
  "environment_of h raw = map_of (rev (map
       (\<lambda>item. (ho_replace h (takeWhile (\<lambda>c. c \<noteq> CHR ''='') item),
          ho_replace h (tl (dropWhile (\<lambda>c. c \<noteq> CHR ''='') item))))
       (filter (\<lambda>item. CHR ''='' \<in> set item) (split_on (CHR 0x00) raw))))"

definition read_environment :: "'w host \<Rightarrow> int \<Rightarrow> ('w, string \<Rightarrow> string option) op" where
  "read_environment h pid = then_do (sys_call (ho_environ h pid)) (\<lambda>raw. give (environment_of h raw))"

definition expected_environment :: "WorkerIdentity \<Rightarrow> (string \<times> string) list" where
  "expected_environment i = [(''HERMES_KANBAN_BOARD'', wi_board i), (''HERMES_KANBAN_TASK'', wi_card_id i),
     (''HERMES_KANBAN_RUN_ID'', int_str (wi_run_id i))]"

definition names_attempt :: "WorkerIdentity \<Rightarrow> (string \<Rightarrow> string option) \<Rightarrow> bool" where
  "names_attempt i environment \<longleftrightarrow> list_all (\<lambda>(key, value). environment key = Some value) (expected_environment i)"

section \<open>Finding the processes of an attempt\<close>

text \<open>A dict from pids to processes, in the order of insertion.\<close>

definition put_process :: "ProcessIdentity \<Rightarrow> ProcessIdentity list \<Rightarrow> ProcessIdentity list" where
  "put_process p d = (if pi_pid p \<in> pi_pid ` set d then map (\<lambda>q. if pi_pid q = pi_pid p then p else q) d
     else d @ [p])"

definition pid_name :: "string \<Rightarrow> bool" where
  "pid_name name \<longleftrightarrow> name \<noteq> [] \<and> list_all is_digit name"

definition live_owned ::
  "'w host \<Rightarrow> int \<Rightarrow> int \<Rightarrow> ('w, (ProcessIdentity \<times> (string \<Rightarrow> string option)) option) op" where
  "live_owned h uid pid =
     then_do (sys_call (ho_owner h pid)) (\<lambda>owner.
       if owner \<noteq> uid then give None
       else then_do (read_process h pid) (\<lambda>p. case p of
           None \<Rightarrow> give None
         | Some q \<Rightarrow> if exited q then give None
             else then_do (read_environment h pid) (\<lambda>environment. give (Some (q, environment)))))"

definition match_process ::
  "'w host \<Rightarrow> int \<Rightarrow> WorkerIdentity \<Rightarrow> string \<Rightarrow> ProcessIdentity list \<Rightarrow> ('w, ProcessIdentity list) op" where
  "match_process h uid i name matches =
     (if \<not> pid_name name then give matches
      else try_do (live_owned h uid (int (digits_value name)))
        (\<lambda>e. if os_errno e = Some ENOENT then give matches
           else if os_errno e \<noteq> None then rejected ''process_evidence_unavailable''
           else checked (Inl e))
        (\<lambda>r. give (case r of None \<Rightarrow> matches
           | Some (q, environment) \<Rightarrow> if names_attempt i environment then put_process q matches else matches)))"

definition matching_attempt_processes ::
  "'w host \<Rightarrow> int \<Rightarrow> WorkerIdentity \<Rightarrow> ('w, ProcessIdentity list) op" where
  "matching_attempt_processes h uid i =
     try_do (sys_call (ho_proc h)) (\<lambda>_. rejected ''process_evidence_unavailable'')
       (\<lambda>names. fold_do (match_process h uid i) names [])"

definition add_entry :: "'w host \<Rightarrow> string \<Rightarrow> ProcessIdentity list \<Rightarrow> ('w, ProcessIdentity list) op" where
  "add_entry h name ps =
     (if \<not> pid_name name then give ps
      else then_do (read_process h (int (digits_value name))) (\<lambda>p. give (case p of
          Some q \<Rightarrow> if exited q then ps else put_process q ps | None \<Rightarrow> ps)))"

definition process_table :: "'w host \<Rightarrow> ('w, ProcessIdentity list) op" where
  "process_table h = then_do (sys_call (ho_proc h)) (\<lambda>names. fold_do (add_entry h) names [])"

text \<open>One pass of the loop over the table; \<open>selected\<close> is a set, in some order.\<close>

fun sweep :: "ProcessIdentity list \<Rightarrow> int list \<Rightarrow> int list" where
  "sweep [] selected = selected"
| "sweep (p # ps) selected = sweep ps
     (if pi_parent_pid p \<in> set selected \<and> pi_pid p \<notin> set selected then selected @ [pi_pid p] else selected)"

lemma sweep_grows: "\<exists>new. sweep ps selected = selected @ new \<and> set new \<subseteq> pi_pid ` set ps - set selected"
proof (induction ps arbitrary: selected)
  case (Cons p ps)
  show ?case
    using Cons.IH [of "selected @ [pi_pid p]"] Cons.IH [of selected] by (cases "pi_parent_pid p \<in> set selected \<and>
      pi_pid p \<notin> set selected") (fastforce, auto)
qed simp

function select :: "ProcessIdentity list \<Rightarrow> int list \<Rightarrow> int list" where
  "select ps selected = (if sweep ps selected = selected then selected else select ps (sweep ps selected))"
  by pat_completeness auto
termination
proof (relation "measure (\<lambda>(ps, selected). card (pi_pid ` set ps - set selected))")
  fix ps selected assume change: "sweep ps selected \<noteq> selected"
  obtain new where new: "sweep ps selected = selected @ new" "set new \<subseteq> pi_pid ` set ps - set selected"
    using sweep_grows by blast
  with change have "new \<noteq> []" by auto
  with new(2) have "pi_pid ` set ps - (set selected \<union> set new) \<subset> pi_pid ` set ps - set selected"
    by (cases new) auto
  then show "((ps, sweep ps selected), ps, selected) \<in> measure (\<lambda>(ps, selected). card (pi_pid ` set ps - set selected))"
    by (simp add: new(1) psubset_card_mono)
qed simp

declare select.simps [simp del]

definition tree_of :: "ProcessIdentity list \<Rightarrow> int list \<Rightarrow> ProcessIdentity list" where
  "tree_of ps roots = List.map_filter (\<lambda>pid. find (\<lambda>p. pi_pid p = pid) ps) (select ps roots)"

definition descendants :: "'w host \<Rightarrow> int list \<Rightarrow> ('w, ProcessIdentity list) op" where
  "descendants h roots = then_do (process_table h) (\<lambda>ps. give (tree_of ps roots))"

section \<open>Signals\<close>

definition still_there :: "ProcessIdentity \<Rightarrow> ProcessIdentity option \<Rightarrow> bool" where
  "still_there expected current \<longleftrightarrow> (case current of None \<Rightarrow> False
     | Some p \<Rightarrow> \<not> exited p \<and> pi_start_ticks p = pi_start_ticks expected)"

definition undo_stop :: "'w host \<Rightarrow> int \<Rightarrow> int \<Rightarrow> ('w, unit) op" where
  "undo_stop h pid sig = (if sig \<noteq> SIGSTOP then give ()
     else try_do (sys_call (ho_kill h pid SIGCONT)) (\<lambda>_. give ()) give)"

definition signal_process_by_start_ticks :: "'w host \<Rightarrow> ProcessIdentity \<Rightarrow> int \<Rightarrow> ('w, bool) op" where
  "signal_process_by_start_ticks h expected sig =
     then_do (read_process h (pi_pid expected)) (\<lambda>current.
       if \<not> still_there expected current then give False
       else try_do (sys_call (ho_kill h (pi_pid expected) sig))
         (\<lambda>e. if os_errno e = Some ESRCH then give False else checked (Inl e))
         (\<lambda>_. then_do (read_process h (pi_pid expected)) (\<lambda>after. case after of
             None \<Rightarrow> give True
           | Some p \<Rightarrow> if pi_start_ticks p = pi_start_ticks expected then give True
               else then_do (undo_stop h (pi_pid p) sig) (\<lambda>_. rejected ''pid_reused_during_signal''))))"

text \<open>\<open>try: m finally: os.close(fd)\<close>\<close>

definition closing :: "'w host \<Rightarrow> int \<Rightarrow> ('w, 'a) op \<Rightarrow> ('w, 'a) op" where
  "closing h fd m w = (case m w of (r, w') \<Rightarrow>
     then_do (sys_call (ho_close h fd)) (\<lambda>_. checked r) w')"

definition signal_process :: "'w host \<Rightarrow> ProcessIdentity \<Rightarrow> int \<Rightarrow> ('w, bool) op" where
  "signal_process h expected sig =
     (if \<not> ho_has_pidfd h then signal_process_by_start_ticks h expected sig
      else try_do (sys_call (ho_pidfd_open h (pi_pid expected)))
        (\<lambda>e. if os_errno e = Some ESRCH then give False
           else if os_errno e \<in> {Some ENOSYS, Some EINVAL} then signal_process_by_start_ticks h expected sig
           else checked (Inl e))
        (\<lambda>fd. closing h fd (then_do (read_process h (pi_pid expected)) (\<lambda>current.
           if \<not> still_there expected current then give False
           else try_do (sys_call (ho_pidfd_send h fd sig))
             (\<lambda>e. if os_errno e \<in> {Some ENOSYS, Some EINVAL} then signal_process_by_start_ticks h expected sig
                else checked (Inl e))
             (\<lambda>_. give True)))))"

definition resume_tree :: "'w host \<Rightarrow> ProcessIdentity list \<Rightarrow> ('w, unit) op" where
  "resume_tree h ps = for_each (\<lambda>p. try_do (signal_process h p SIGCONT)
     (\<lambda>e. case e of OsError _ _ \<Rightarrow> give () | SupervisorRequestError _ \<Rightarrow> give () | _ \<Rightarrow> checked (Inl e))
     (\<lambda>_. give ())) ps"

definition signal_tree :: "'w host \<Rightarrow> ProcessIdentity list \<Rightarrow> int \<Rightarrow> ('w, unit) op" where
  "signal_tree h ps sig = for_each (\<lambda>p. try_do (signal_process h p sig)
     (\<lambda>e. if os_errno e = Some ESRCH then give ()
        else if os_errno e \<noteq> None then rejected ''process_tree_signal_failed'' else checked (Inl e))
     (\<lambda>_. give ())) (order_by (\<lambda>p. - pi_pid p) ps)"

definition remaining :: "'w host \<Rightarrow> ProcessIdentity list \<Rightarrow> ('w, ProcessIdentity list) op" where
  "remaining h ps = fold_do (\<lambda>expected found. then_do (read_process h (pi_pid expected)) (\<lambda>current.
     give (case current of None \<Rightarrow> found
       | Some p \<Rightarrow> if still_there expected current then put_process p found else found))) ps []"

section \<open>Freezing and stopping the tree\<close>

definition stop_processes :: "'w host \<Rightarrow> ProcessIdentity list \<Rightarrow> ProcessIdentity list \<Rightarrow> ('w, unit) op" where
  "stop_processes h frozen ps = for_each (\<lambda>p. try_do (signal_process h p SIGSTOP)
     (\<lambda>e. if os_errno e \<in> {Some ESRCH, Some ENOENT} then give ()
        else if os_errno e \<noteq> None
        then then_do (resume_tree h frozen) (\<lambda>_. rejected ''process_tree_signal_failed'')
        else checked (Inl e))
     (\<lambda>_. give ())) ps"

text \<open>\<open>rounds\<close> is what is left of \<open>range(8)\<close>.\<close>

fun freeze_rounds ::
  "'w host \<Rightarrow> int \<Rightarrow> WorkerIdentity \<Rightarrow> ProcessIdentity list \<Rightarrow> nat \<Rightarrow> ProcessIdentity list \<Rightarrow>
   ('w, ProcessIdentity list) op" where
  "freeze_rounds h uid i initial 0 frozen =
     then_do (resume_tree h frozen) (\<lambda>_. rejected ''process_tree_unstable'')"
| "freeze_rounds h uid i initial (Suc rounds) frozen =
     then_do (remaining h initial) (\<lambda>seeds.
     then_do (matching_attempt_processes h uid i) (\<lambda>matches.
     then_do (descendants h (map pi_pid (fold put_process matches seeds))) (\<lambda>current.
       let new_processes = filter (\<lambda>p. pi_pid p \<notin> pi_pid ` set frozen) current
       in then_do (stop_processes h frozen new_processes) (\<lambda>_.
            if new_processes = [] then give frozen
            else freeze_rounds h uid i initial rounds (frozen @ new_processes)))))"

definition freeze_tree ::
  "'w host \<Rightarrow> int \<Rightarrow> WorkerIdentity \<Rightarrow> ProcessIdentity list \<Rightarrow> ('w, ProcessIdentity list) op" where
  "freeze_tree h uid i initial = freeze_rounds h uid i initial 8 []"

text \<open>The polling loop; \<open>fuel\<close> bounds the polls before the clock passes the deadline.\<close>

fun wait_loop :: "'w host \<Rightarrow> nat \<Rightarrow> rat \<Rightarrow> ProcessIdentity list \<Rightarrow> ('w, ProcessIdentity list) op" where
  "wait_loop h fuel deadline ps =
     (if ps = [] then give ps
      else then_do (sys_call (ho_monotonic h)) (\<lambda>now.
        if \<not> now < deadline then give ps
        else case fuel of
          0 \<Rightarrow> checked (Inl (PyRuntimeError ''out of fuel''))
        | Suc n \<Rightarrow> then_do (sys_call (ho_sleep h (1 / 20))) (\<lambda>_.
            then_do (remaining h ps) (wait_loop h n deadline))))"

declare wait_loop.simps [simp del]

definition wait_for_exit ::
  "'w host \<Rightarrow> nat \<Rightarrow> ProcessIdentity list \<Rightarrow> rat \<Rightarrow> ('w, ProcessIdentity list) op" where
  "wait_for_exit h fuel ps timeout_seconds =
     then_do (sys_call (ho_monotonic h)) (\<lambda>start.
     then_do (remaining h ps) (wait_loop h fuel (start + timeout_seconds)))"

definition optional_ticks :: "ProcessIdentity option \<Rightarrow> json" where
  "optional_ticks leader = (case leader of None \<Rightarrow> JNull | Some p \<Rightarrow> JInt (pi_start_ticks p))"

definition observed :: "string \<Rightarrow> int \<Rightarrow> WorkerIdentity \<Rightarrow> ProcessIdentity option \<Rightarrow> nat \<Rightarrow> json" where
  "observed state observed_at i leader count = JObj [(''state'', JStr state), (''observed_at'', JInt observed_at),
     (''worker_pid'', JInt (wi_worker_pid i)), (''process_start_ticks'', optional_ticks leader),
     (''process_count'', JInt (int count))]"

definition terminated :: "int \<Rightarrow> WorkerIdentity \<Rightarrow> ProcessIdentity option \<Rightarrow> bool \<Rightarrow> nat \<Rightarrow> json" where
  "terminated observed_at i leader sigkill count = JObj [(''state'', JStr ''terminated''),
     (''observed_at'', JInt observed_at), (''worker_pid'', JInt (wi_worker_pid i)),
     (''process_start_ticks'', optional_ticks leader), (''signal'', JStr (if sigkill then ''SIGKILL'' else ''SIGTERM'')),
     (''sigkill'', JBool sigkill), (''process_count'', JInt (int count))]"

text \<open>SIGTERM and SIGCONT, then SIGKILL for what is left; says whether SIGKILL was used.\<close>

definition stop_tree :: "'w host \<Rightarrow> supervisor_config \<Rightarrow> nat \<Rightarrow> ProcessIdentity list \<Rightarrow> ('w, bool) op" where
  "stop_tree h sc fuel ps =
     then_do (signal_tree h ps SIGTERM) (\<lambda>_.
     then_do (resume_tree h ps) (\<lambda>_.
     then_do (wait_for_exit h fuel ps (sc_term_grace_seconds sc)) (\<lambda>left.
     then_do (if left = [] then give []
        else then_do (signal_tree h left SIGKILL) (\<lambda>_.
          wait_for_exit h fuel left (sc_kill_grace_seconds sc))) (\<lambda>unkilled.
       if unkilled \<noteq> [] then rejected ''termination_failed'' else give (left \<noteq> [])))))"

definition terminate_attempt ::
  "'w host \<Rightarrow> supervisor_config \<Rightarrow> nat \<Rightarrow> WorkerIdentity \<Rightarrow> ProcessIdentity option \<Rightarrow> ProcessIdentity list \<Rightarrow>
   ('w, json) op" where
  "terminate_attempt h sc fuel i leader attempt_processes =
     then_do (freeze_tree h (sc_expected_uid sc) i attempt_processes) (\<lambda>ps.
       if ps = [] then then_do (sys_call (ho_time h)) (\<lambda>now. give (observed ''exited'' now i leader 0))
       else then_do (stop_tree h sc fuel ps) (\<lambda>used_sigkill.
         then_do (sys_call (ho_time h)) (\<lambda>now. give (terminated now i leader used_sigkill (length ps)))))"

section \<open>Requests\<close>

definition is_lower_or_digit :: "char \<Rightarrow> bool" where
  "is_lower_or_digit c \<longleftrightarrow> is_lower c \<or> is_digit c"

definition board_pattern :: "string \<Rightarrow> bool" where
  "board_pattern s \<longleftrightarrow> s = ''default'' \<or> (case s of [] \<Rightarrow> False
     | c # cs \<Rightarrow> is_lower_or_digit c \<and> length cs \<le> 62 \<and> list_all (\<lambda>d. is_lower_or_digit d \<or> d = CHR ''-'') cs)"

definition card_pattern :: "string \<Rightarrow> bool" where
  "card_pattern s \<longleftrightarrow> s \<noteq> [] \<and> length s \<le> 160 \<and>
     list_all (\<lambda>c. is_word_char c \<or> c \<in> {CHR ''.'', CHR '':'', CHR ''-''}) s"

definition parse_identity :: "(string \<times> json) list \<Rightarrow> WorkerIdentity res" where
  "parse_identity params = (case map_of params ''board'' of
     Some (JStr board) \<Rightarrow>
       if \<not> board_pattern board then Inl (SupervisorRequestError ''invalid_board'')
       else (case map_of params ''card_id'' of
         Some (JStr card_id) \<Rightarrow>
           if \<not> card_pattern card_id then Inl (SupervisorRequestError ''invalid_card_id'')
           else (case map_of params ''run_id'' of
             Some (JInt run_id) \<Rightarrow>
               if run_id \<le> 0 then Inl (SupervisorRequestError ''invalid_run_id'')
               else (case map_of params ''worker_pid'' of
                 Some (JInt worker_pid) \<Rightarrow>
                   if worker_pid \<le> 1 then Inl (SupervisorRequestError ''invalid_worker_pid'')
                   else Inr \<lparr>wi_board = board, wi_card_id = card_id, wi_run_id = run_id, wi_worker_pid = worker_pid\<rparr>
               | _ \<Rightarrow> Inl (SupervisorRequestError ''invalid_worker_pid''))
           | _ \<Rightarrow> Inl (SupervisorRequestError ''invalid_run_id''))
       | _ \<Rightarrow> Inl (SupervisorRequestError ''invalid_card_id''))
   | _ \<Rightarrow> Inl (SupervisorRequestError ''invalid_board''))"

definition board_db :: "string \<Rightarrow> string \<Rightarrow> string" where
  "board_db hermes_home board = (if board = ''default'' then hermes_home @ ''/kanban.db''
     else hermes_home @ ''/kanban/boards/'' @ board @ ''/kanban.db'')"

definition claimed_by :: "WorkerIdentity \<Rightarrow> hermes_task \<Rightarrow> bool" where
  "claimed_by i t \<longleftrightarrow> ht_created_by t = Some ''hollysys-controller'' \<and> ht_status t = ''running'' \<and>
     ht_current_run_id t = Some (wi_run_id i) \<and> ht_worker_pid t = Some (wi_worker_pid i)"

definition read_claim :: "'w host \<Rightarrow> supervisor_config \<Rightarrow> WorkerIdentity \<Rightarrow> ('w, unit) op" where
  "read_claim h sc i w = (case ho_board h (board_db (sc_hermes_home sc) (wi_board i)) w of
     (BoardMissing, w') \<Rightarrow> (Inl (SupervisorRequestError ''board_missing''), w')
   | (BoardError _, w') \<Rightarrow> (Inl (SupervisorRequestError ''board_unavailable''), w')
   | (BoardOpen b, w') \<Rightarrow> (case find (\<lambda>t. ht_id t = wi_card_id i) (hb_tasks b) of
       None \<Rightarrow> (Inl (SupervisorRequestError ''task_missing''), w')
     | Some t \<Rightarrow> if claimed_by i t then (Inr (), w') else (Inl (SupervisorRequestError ''identity_mismatch''), w')))"

definition process_evidence :: "'w host \<Rightarrow> int \<Rightarrow> ('w, int \<times> (string \<Rightarrow> string option)) op" where
  "process_evidence h pid = try_do
     (then_do (sys_call (ho_owner h pid)) (\<lambda>owner. then_do (read_environment h pid) (\<lambda>environment.
        give (owner, environment))))
     (\<lambda>e. if os_errno e \<noteq> None then rejected ''process_evidence_unavailable'' else checked (Inl e)) give"

definition validate_identity ::
  "'w host \<Rightarrow> supervisor_config \<Rightarrow> WorkerIdentity \<Rightarrow> ('w, ProcessIdentity option) op" where
  "validate_identity h sc i =
     then_do (read_claim h sc i) (\<lambda>_.
     then_do (read_process h (wi_worker_pid i)) (\<lambda>process. case process of
       None \<Rightarrow> give None
     | Some p \<Rightarrow> if exited p then give (Some p)
         else then_do (process_evidence h (wi_worker_pid i)) (\<lambda>(owner, environment).
           if owner \<noteq> sc_expected_uid sc \<or> \<not> names_attempt i environment
           then rejected ''process_identity_mismatch'' else give (Some p))))"

definition parse_request :: "'w host \<Rightarrow> json \<Rightarrow> (string \<times> WorkerIdentity) res" where
  "parse_request h request = (case request of
     JObj kvs \<Rightarrow>
       if set (map fst kvs) \<noteq> {''v'', ''id'', ''method'', ''params''}
       then Inl (SupervisorRequestError ''invalid_request_fields'')
       else (case (map_of kvs ''v'', map_of kvs ''id'') of
         (Some v, Some (JStr request_id)) \<Rightarrow>
           if v \<notin> {JInt 1, JBool True} then Inl (SupervisorRequestError ''invalid_request_version'')
           else if \<not> ho_uuid h request_id then Inl (SupervisorRequestError ''invalid_request_id'')
           else (case map_of kvs ''method'' of
             Some (JStr method) \<Rightarrow>
               if method \<notin> {''probe'', ''terminate''} then Inl (SupervisorRequestError ''unknown_method'')
               else (case map_of kvs ''params'' of
                 Some (JObj params) \<Rightarrow>
                   if set (map fst params) \<noteq> {''board'', ''card_id'', ''run_id'', ''worker_pid''}
                   then Inl (SupervisorRequestError ''invalid_params'')
                   else map_sum id (Pair method) (parse_identity params)
               | _ \<Rightarrow> Inl (SupervisorRequestError ''invalid_params''))
           | Some (JList _) \<Rightarrow> Inl (PyTypeError ''unhashable type'')
           | Some (JObj _) \<Rightarrow> Inl (PyTypeError ''unhashable type'')
           | _ \<Rightarrow> Inl (SupervisorRequestError ''unknown_method''))
       | _ \<Rightarrow> Inl (SupervisorRequestError ''invalid_request_version''))
   | _ \<Rightarrow> Inl (SupervisorRequestError ''invalid_request''))"

definition handle_request ::
  "'w host \<Rightarrow> supervisor_config \<Rightarrow> nat \<Rightarrow> json \<Rightarrow> ('w, json) op" where
  "handle_request h sc fuel request =
     then_do (checked (parse_request h request)) (\<lambda>(method, i).
     then_do (validate_identity h sc i) (\<lambda>process.
     then_do (matching_attempt_processes h (sc_expected_uid sc) i) (\<lambda>attempt_processes.
     then_do (sys_call (ho_time h)) (\<lambda>observed_at.
       if attempt_processes = [] then give (observed ''exited'' observed_at i process 0)
       else if method = ''probe''
       then give (observed ''running'' observed_at i process (length attempt_processes))
       else terminate_attempt h sc fuel i process attempt_processes))))"

end
