(* ===== verification/Supervisor_Client.thy ===== *)
theory Supervisor_Client
  imports Supervisor
begin

text \<open>
  The messages between the controller and the supervisor: how the server reads a
  request and answers it (worker_supervisor.py), how the client sends one and trusts an
  answer, and the coordinator that probes before it terminates (worker_recovery.py).
\<close>

section \<open>Framing\<close>

definition MAX_SUPERVISOR_MESSAGE_BYTES :: nat where
  "MAX_SUPERVISOR_MESSAGE_BYTES = 4096"

text \<open>What successive \<open>recv\<close> calls give: errors or bytes, none at the end of the stream.\<close>

type_synonym recv_results = "((int \<times> string) + string) list"

fun receive_line :: "ctl_error \<Rightarrow> string \<Rightarrow> recv_results \<Rightarrow> string res" where
  "receive_line too_large raw [] = Inr raw"
| "receive_line too_large raw (Inl (n, t) # rest) = Inl (OsError n t)"
| "receive_line too_large raw (Inr chunk # rest) =
     (if chunk = [] then Inr raw
      else if MAX_SUPERVISOR_MESSAGE_BYTES < length (raw @ chunk) then Inl too_large
      else if CHR 0x0A \<in> set chunk then Inr (raw @ chunk)
      else receive_line too_large (raw @ chunk) rest)"

definition one_line :: "string \<Rightarrow> bool" where
  "one_line raw \<longleftrightarrow> raw \<noteq> [] \<and> last raw = CHR 0x0A \<and> count_list raw (CHR 0x0A) = 1"

section \<open>The server's side\<close>

definition read_request :: "'w host \<Rightarrow> recv_results \<Rightarrow> json res" where
  "read_request h chunks = (case receive_line (SupervisorRequestError ''request_too_large'') [] chunks of
     Inl e \<Rightarrow> Inl e
   | Inr raw \<Rightarrow>
       if \<not> one_line raw then Inl (SupervisorRequestError ''invalid_framing'')
       else (case ho_loads h (butlast raw) of
         None \<Rightarrow> Inl (SupervisorRequestError ''invalid_json'')
       | Some (JObj kvs) \<Rightarrow> Inr (JObj kvs)
       | Some _ \<Rightarrow> Inl (SupervisorRequestError ''invalid_request'')))"

definition request_id_of :: "'w host \<Rightarrow> json \<Rightarrow> string" where
  "request_id_of h request = (case request of
     JObj kvs \<Rightarrow> (case map_of kvs ''id'' of
         Some v \<Rightarrow> take 128 (if truthy_json v then json_text (ho_str h) v else ''unknown'')
       | None \<Rightarrow> ''unknown'')
   | _ \<Rightarrow> ''unknown'')"

definition accepted :: "string \<Rightarrow> json \<Rightarrow> json" where
  "accepted request_id result = JObj [(''v'', JInt 1), (''id'', JStr request_id), (''ok'', JBool True), (''result'', result)]"

definition refused :: "string \<Rightarrow> string \<Rightarrow> json" where
  "refused request_id code = JObj [(''v'', JInt 1), (''id'', JStr request_id), (''ok'', JBool False),
     (''error'', JObj [(''code'', JStr code)])]"

text \<open>TimeoutError is the operating system error ETIMEDOUT; the socket's timeout is one.\<close>

definition refusal_code :: "ctl_error \<Rightarrow> string" where
  "refusal_code e = (case e of SupervisorRequestError code \<Rightarrow> code
     | _ \<Rightarrow> if os_errno e = Some ETIMEDOUT then ''request_timeout'' else ''internal_error'')"

definition answer_request ::
  "'w host \<Rightarrow> supervisor_config \<Rightarrow> nat \<Rightarrow> int \<Rightarrow> int \<Rightarrow> recv_results \<Rightarrow> 'w \<Rightarrow> json \<times> 'w" where
  "answer_request h sc fuel peer_uid peer_gid chunks w =
     (if peer_uid \<noteq> sc_expected_uid sc \<or> peer_gid \<noteq> sc_expected_gid sc
      then (refused ''unknown'' ''peer_not_authorized'', w)
      else case read_request h chunks of
        Inl e \<Rightarrow> (refused ''unknown'' (refusal_code e), w)
      | Inr request \<Rightarrow> (case handle_request h sc fuel request w of
          (Inl e, w') \<Rightarrow> (refused (request_id_of h request) (refusal_code e), w')
        | (Inr result, w') \<Rightarrow> (accepted (request_id_of h request) result, w')))"

definition serve_connection ::
  "'w host \<Rightarrow> supervisor_config \<Rightarrow> nat \<Rightarrow> int \<Rightarrow> int \<Rightarrow> recv_results \<Rightarrow> 'w \<Rightarrow> string \<times> 'w" where
  "serve_connection h sc fuel peer_uid peer_gid chunks w =
     (case answer_request h sc fuel peer_uid peer_gid chunks w of (response, w') \<Rightarrow>
        (take MAX_SUPERVISOR_MESSAGE_BYTES (ho_dumps h response @ [CHR 0x0A]), w'))"

section \<open>The client's side\<close>

record SupervisorObservation =
  so_state :: string
  so_observed_at :: int
  so_worker_pid :: int
  so_process_start_ticks :: "int option"
  so_signal :: "string option"
  so_sigkill :: bool
  so_process_count :: int
  so_error_code :: "string option"

definition exit_confirmed :: "SupervisorObservation \<Rightarrow> bool" where
  "exit_confirmed o1 \<longleftrightarrow> so_state o1 \<in> {''exited'', ''terminated''}"

record SupervisorReadiness =
  sr_ready :: bool
  sr_observed_at :: int
  sr_error_code :: "string option"

text \<open>
  \<open>wr_uuid\<close> draws a request id; \<open>wr_exchange\<close> connects, sends and receives within the
  timeout: no socket, an error, or what \<open>recv\<close> gave.
\<close>

record 'w wire =
  wr_uuid :: "'w \<Rightarrow> string \<times> 'w"
  wr_exchange :: "rat \<Rightarrow> string \<Rightarrow> 'w \<Rightarrow> ((int \<times> string) + recv_results) \<times> 'w"
  wr_time :: "'w \<Rightarrow> int \<times> 'w"
  wr_loads :: "string \<Rightarrow> json option"
  wr_dumps :: "json \<Rightarrow> string"
  wr_str :: "json \<Rightarrow> string"
  wr_utf8 :: "string \<Rightarrow> bool"
  wr_probe_timeout_seconds :: rat
  wr_terminate_timeout_seconds :: rat

definition request_json :: "string \<Rightarrow> string \<Rightarrow> WorkerIdentity \<Rightarrow> json" where
  "request_json request_id method i = JObj [(''v'', JInt 1), (''id'', JStr request_id), (''method'', JStr method),
     (''params'', JObj [(''board'', JStr (wi_board i)), (''card_id'', JStr (wi_card_id i)),
        (''run_id'', JInt (wi_run_id i)), (''worker_pid'', JInt (wi_worker_pid i))])]"

definition unavailable :: "WorkerIdentity \<Rightarrow> string \<Rightarrow> int \<Rightarrow> SupervisorObservation" where
  "unavailable i code now = \<lparr>so_state = ''unavailable'', so_observed_at = now, so_worker_pid = wi_worker_pid i,
     so_process_start_ticks = None, so_signal = None, so_sigkill = False, so_process_count = 0,
     so_error_code = Some code\<rparr>"

definition read_line :: "'w wire \<Rightarrow> recv_results \<Rightarrow> string res" where
  "read_line c chunks = (case receive_line (OsError 0 ''supervisor response too large'') [] chunks of
     Inl e \<Rightarrow> Inl e
   | Inr raw \<Rightarrow>
       if \<not> one_line raw then Inl (OsError 0 ''invalid supervisor response framing'')
       else if wr_utf8 c (butlast raw) then Inr (butlast raw) else Inl (ValueError ''invalid utf-8''))"

text \<open>\<open>int(v)\<close> of a value of a response; \<open>None\<close> for its TypeError and ValueError.\<close>

fun int_of_json :: "json \<Rightarrow> int option" where
  "int_of_json (JInt n) = Some n"
| "int_of_json (JBool b) = Some (if b then 1 else 0)"
| "int_of_json (JStr s) = int_of_text s"
| "int_of_json _ = None"

definition given :: "(string \<times> json) list \<Rightarrow> string \<Rightarrow> json option" where
  "given kvs key = (case map_of kvs key of Some JNull \<Rightarrow> None | v \<Rightarrow> v)"

text \<open>The observation of a result, \<open>None\<close> where the checks raise.\<close>

definition parse_observation ::
  "'w wire \<Rightarrow> WorkerIdentity \<Rightarrow> (string \<times> json) list \<Rightarrow> SupervisorObservation option" where
  "parse_observation c i result = (case map_of result ''state'' of
     Some (JStr state) \<Rightarrow>
       if state \<notin> {''running'', ''exited'', ''terminated''} then None
       else (case (Option.bind (map_of result ''observed_at'') int_of_json,
                   Option.bind (map_of result ''worker_pid'') int_of_json,
                   case map_of result ''process_count'' of None \<Rightarrow> Some 0
                   | Some v \<Rightarrow> if truthy_json v then int_of_json v else Some 0) of
         (Some observed_at, Some worker_pid, Some process_count) \<Rightarrow>
           if observed_at \<le> 0 \<or> worker_pid \<noteq> wi_worker_pid i \<or> process_count < 0 \<or>
              (state \<in> {''running'', ''terminated''} \<and> process_count < 1) then None
           else (case map_option int_of_json (given result ''process_start_ticks'') of
             Some None \<Rightarrow> None
           | ticks \<Rightarrow> Some \<lparr>so_state = state, so_observed_at = observed_at, so_worker_pid = worker_pid,
               so_process_start_ticks = Option.bind ticks (\<lambda>t. t),
               so_signal = map_option (json_text (wr_str c)) (given result ''signal''),
               so_sigkill = (case map_of result ''sigkill'' of None \<Rightarrow> False | Some v \<Rightarrow> truthy_json v),
               so_process_count = process_count, so_error_code = None\<rparr>)
       | _ \<Rightarrow> None)
   | _ \<Rightarrow> None)"

definition envelope_ok :: "string \<Rightarrow> (string \<times> json) list \<Rightarrow> bool" where
  "envelope_ok request_id kvs \<longleftrightarrow> map_of kvs ''v'' \<in> {Some (JInt 1), Some (JBool True)} \<and>
     map_of kvs ''id'' = Some (JStr request_id) \<and> map_of kvs ''ok'' \<in> {Some (JBool True), Some (JBool False)}"

definition response_code :: "'w wire \<Rightarrow> (string \<times> json) list \<Rightarrow> string" where
  "response_code c kvs = (case map_of kvs ''error'' of
     Some (JObj error) \<Rightarrow> (case map_of error ''code'' of
         Some code \<Rightarrow> if truthy_json code then json_text (wr_str c) code else ''supervisor_rejected''
       | None \<Rightarrow> ''supervisor_rejected'')
   | _ \<Rightarrow> ''supervisor_rejected'')"

definition parse_response ::
  "'w wire \<Rightarrow> string \<Rightarrow> WorkerIdentity \<Rightarrow> string \<Rightarrow> string + SupervisorObservation" where
  "parse_response c request_id i raw = (case wr_loads c raw of
     Some (JObj kvs) \<Rightarrow>
       if \<not> envelope_ok request_id kvs then Inl ''invalid_supervisor_response''
       else if map_of kvs ''ok'' = Some (JBool False) then Inl (response_code c kvs)
       else (case map_of kvs ''result'' of
         Some (JObj result) \<Rightarrow> (case parse_observation c i result of
             None \<Rightarrow> Inl ''invalid_supervisor_response'' | Some x \<Rightarrow> Inr x)
       | _ \<Rightarrow> Inl ''invalid_supervisor_response'')
   | _ \<Rightarrow> Inl ''invalid_supervisor_response'')"

definition transport_code :: "ctl_error \<Rightarrow> string option" where
  "transport_code e = (case os_errno e of None \<Rightarrow> None
     | Some n \<Rightarrow> Some (if n = ENOENT then ''socket_missing'' else if n = ETIMEDOUT then ''supervisor_timeout''
         else ''supervisor_unavailable''))"

definition supervisor_call ::
  "'w wire \<Rightarrow> string \<Rightarrow> WorkerIdentity \<Rightarrow> rat \<Rightarrow> ('w, SupervisorObservation) op" where
  "supervisor_call c method i timeout_seconds w =
     (let (request_id, w1) = wr_uuid c w;
          encoded = wr_dumps c (request_json request_id method i) @ [CHR 0x0A];
          failed = (\<lambda>code v. case wr_time c v of (now, v') \<Rightarrow> (Inr (unavailable i code now), v'))
      in if MAX_SUPERVISOR_MESSAGE_BYTES < length encoded then failed ''request_too_large'' w1
         else case wr_exchange c timeout_seconds encoded w1 of (received, w2) \<Rightarrow>
           (case (case received of Inl (n, t) \<Rightarrow> Inl (OsError n t) | Inr chunks \<Rightarrow> read_line c chunks) of
              Inl e \<Rightarrow> (case transport_code e of Some code \<Rightarrow> failed code w2 | None \<Rightarrow> (Inl e, w2))
            | Inr raw \<Rightarrow> (case parse_response c request_id i raw of
                Inl code \<Rightarrow> failed code w2 | Inr x \<Rightarrow> (Inr x, w2))))"

definition probe :: "'w wire \<Rightarrow> WorkerIdentity \<Rightarrow> ('w, SupervisorObservation) op" where
  "probe c i = supervisor_call c ''probe'' i (wr_probe_timeout_seconds c)"

definition terminate :: "'w wire \<Rightarrow> WorkerIdentity \<Rightarrow> ('w, SupervisorObservation) op" where
  "terminate c i = supervisor_call c ''terminate'' i (wr_terminate_timeout_seconds c)"

definition readiness :: "'w wire \<Rightarrow> ('w, SupervisorReadiness) op" where
  "readiness c =
     then_do (probe c \<lparr>wi_board = ''default'', wi_card_id = ''_supervisor_ready'', wi_run_id = 1, wi_worker_pid = 2\<rparr>)
       (\<lambda>seen. give \<lparr>sr_ready = so_state seen \<in> {''running'', ''exited''} \<or>
            so_error_code seen \<in> {Some ''board_missing'', Some ''task_missing'', Some ''identity_mismatch'',
              Some ''process_identity_mismatch''},
          sr_observed_at = so_observed_at seen, sr_error_code = so_error_code seen\<rparr>)"

section \<open>The coordinator\<close>

definition observe :: "'w wire \<Rightarrow> WorkerIdentity \<Rightarrow> bool \<Rightarrow> ('w, SupervisorObservation) op" where
  "observe c i terminate_running = then_do (probe c i) (\<lambda>seen.
     if so_state seen \<noteq> ''running'' \<or> \<not> terminate_running then give seen else terminate c i)"

end
