(* ===== verification/Supervisor_Properties.thy ===== *)
theory Supervisor_Properties
  imports Supervisor_Client Kanban_Properties
begin

text \<open>
  What the supervisor's answers mean: the processes it stops are those of the attempt
  with all their descendants, and an exit it reports has happened.
\<close>

section \<open>The tree of a set of processes\<close>

definition parent_edges :: "ProcessIdentity list \<Rightarrow> (int \<times> int) set" where
  "parent_edges ps = (\<lambda>p. (pi_parent_pid p, pi_pid p)) ` set ps"

lemma sweep_within: "set (sweep ps selected) \<subseteq> (parent_edges ps)\<^sup>* `` set selected"
proof (induction ps arbitrary: selected)
  case (Cons p ps)
  let ?next = "if pi_parent_pid p \<in> set selected \<and> pi_pid p \<notin> set selected then selected @ [pi_pid p] else selected"
  have "(parent_edges ps)\<^sup>* \<subseteq> (parent_edges (p # ps))\<^sup>*"
    by (rule rtrancl_mono) (auto simp: parent_edges_def)
  moreover have "set ?next \<subseteq> (parent_edges (p # ps))\<^sup>* `` set selected"
    by (auto simp: parent_edges_def Image_iff intro!: bexI [of _ "pi_parent_pid p"] r_into_rtrancl)
  ultimately have "(parent_edges ps)\<^sup>* `` set ?next \<subseteq> (parent_edges (p # ps))\<^sup>* `` set selected"
    by (auto simp: Image_iff) (meson rtrancl_trans subsetD)+
  with Cons.IH [of ?next] show ?case by simp
qed auto

lemma sweep_fixed: "sweep ps selected = selected \<Longrightarrow> parent_edges ps `` set selected \<subseteq> set selected"
proof (induction ps)
  case (Cons p ps)
  obtain new where "sweep ps (selected @ [pi_pid p]) = (selected @ [pi_pid p]) @ new" using sweep_grows by blast
  with Cons.prems have stay: "\<not> (pi_parent_pid p \<in> set selected \<and> pi_pid p \<notin> set selected)"
    by (auto split: if_splits)
  with Cons.prems have "sweep ps selected = selected" by (simp split: if_splits)
  from Cons.IH [OF this] stay show ?case by (auto simp: parent_edges_def)
qed (simp add: parent_edges_def)

lemma select_closure: "set (select ps roots) = (parent_edges ps)\<^sup>* `` set roots"
proof (induction ps roots rule: select.induct)
  case (1 ps selected)
  show ?case
  proof (cases "sweep ps selected = selected")
    case True
    have "(parent_edges ps)\<^sup>* `` set selected = set selected"
      using sweep_fixed [OF True] by (rule Image_closed_trancl)
    with True show ?thesis by (subst select.simps) simp
  next
    case False
    have "set selected \<subseteq> set (sweep ps selected)" using sweep_grows [of ps selected] by auto
    with sweep_within [of ps selected]
    have "(parent_edges ps)\<^sup>* `` set (sweep ps selected) = (parent_edges ps)\<^sup>* `` set selected"
      by (auto simp: Image_iff) (meson ImageE rtrancl_trans subsetD)
    with 1 [OF False] False show ?thesis by (subst select.simps) simp
  qed
qed

lemma tree_of_members:
  assumes "distinct (map pi_pid ps)"
  shows "set (tree_of ps roots) = {p \<in> set ps. pi_pid p \<in> (parent_edges ps)\<^sup>* `` set roots}"
proof -
  have find_it: "find (\<lambda>q. pi_pid q = pid) ps = Some p \<longleftrightarrow> p \<in> set ps \<and> pi_pid p = pid" for pid p
    using assms by (induction ps) (auto simp: image_iff)
  have "set (tree_of ps roots) = {p. \<exists>pid \<in> set (select ps roots). find (\<lambda>q. pi_pid q = pid) ps = Some p}"
    unfolding tree_of_def by (force simp: List.map_filter_def)
  then show ?thesis by (auto simp: find_it select_closure)
qed

lemma put_process_distinct: "distinct (map pi_pid d) \<Longrightarrow> distinct (map pi_pid (put_process p d))"
  by (auto simp: put_process_def o_def if_distrib cong: map_cong)


lemma process_table_distinct: "process_table h w = (Inr ps, w') \<Longrightarrow> distinct (map pi_pid ps)"
  unfolding process_table_def then_do_ok
  by (elim exE conjE, erule fold_do_inv [where I = "\<lambda>d _. distinct (map pi_pid d)"])
    (auto simp: add_entry_def then_do_ok pure_ok put_process_distinct split: if_splits option.splits)

text \<open>
  C35. The descendants that the supervisor freezes are computed by sweeping the process
  table until nothing changes. That loop ends, and its result is the reflexive and
  transitive closure of the parent relation of the table from the given processes,
  restricted to the live processes, whatever the order of the table; it is an error
  exactly when the table cannot be read, with the same error.
\<close>

theorem descendants_are_the_tree:
  "map_prod (map_sum id set) id (descendants h roots w) =
   map_prod (map_sum id (\<lambda>table. {p \<in> set table. pi_pid p \<in> (parent_edges table)\<^sup>* `` set roots})) id
     (process_table h w)"
proof (cases "process_table h w")
  case (Pair r w')
  then show ?thesis
    by (cases r) (simp_all add: descendants_def tree_of_members [OF process_table_distinct])
qed

section \<open>What the supervisor's operations leave alone\<close>

definition inert :: "'w host \<Rightarrow> ('w \<Rightarrow> bool) \<Rightarrow> bool" where
  "inert h P \<longleftrightarrow> (\<forall>b w. P w \<longrightarrow> P (snd (ho_board h b w))) \<and> stable P (sys_call (ho_proc h)) \<and>
     (\<forall>pid. stable P (sys_call (ho_stat h pid)) \<and> stable P (sys_call (ho_owner h pid)) \<and>
        stable P (sys_call (ho_environ h pid)) \<and> stable P (sys_call (ho_pidfd_open h pid)) \<and>
        stable P (sys_call (ho_close h pid))) \<and>
     (\<forall>x sig. stable P (sys_call (ho_pidfd_send h x sig)) \<and> stable P (sys_call (ho_kill h x sig))) \<and>
     stable P (sys_call (ho_time h)) \<and> stable P (sys_call (ho_monotonic h)) \<and>
     (\<forall>s. stable P (sys_call (ho_sleep h s)))"

lemma stable_host:
  assumes "inert h P"
  shows "stable P (sys_call (ho_proc h))" "stable P (sys_call (ho_stat h pid))"
    "stable P (sys_call (ho_owner h pid))" "stable P (sys_call (ho_environ h pid))"
    "stable P (sys_call (ho_pidfd_open h pid))" "stable P (sys_call (ho_close h pid))"
    "stable P (sys_call (ho_pidfd_send h x sig))" "stable P (sys_call (ho_kill h x sig))"
    "stable P (sys_call (ho_time h))" "stable P (sys_call (ho_monotonic h))" "stable P (sys_call (ho_sleep h t))"
  using assms by (simp_all add: inert_def)

lemma stable_cases [stable_intros]:
  "(\<And>a b. stable P (f a b)) \<Longrightarrow> stable P (case_prod f x)"
  "(\<And>n t. stable P (k1 n t)) \<Longrightarrow> (\<And>c. stable P (k2 c)) \<Longrightarrow> stable P k3 \<Longrightarrow>
    stable P (case e of OsError n t \<Rightarrow> k1 n t | SupervisorRequestError c \<Rightarrow> k2 c | _ \<Rightarrow> k3)"
  by (cases x, simp) (cases e; simp)

lemma stable_rejected [stable_intros]: "stable P (rejected code)"
  by (simp add: rejected_def stable_pure)

lemma stable_closing: "inert h P \<Longrightarrow> stable P m \<Longrightarrow> stable P (closing h fd m)"
proof (rule stableI)
  fix s assume h: "inert h P" and m: "stable P m" and s: "P s"
  obtain r t where rt: "m s = (r, t)" by fastforce
  with stableD [OF m s] have "P t" by simp
  with stableD [OF stable_then [OF stable_host(6) [OF h] stable_pure(2)]]
  show "P (snd (closing h fd m s))" by (simp add: closing_def rt)
qed

lemma stable_read_process: "inert h P \<Longrightarrow> stable P (read_process h pid)"
  unfolding read_process_def by (intro stable_intros stable_host)

lemma stable_read_environment: "inert h P \<Longrightarrow> stable P (read_environment h pid)"
  unfolding read_environment_def by (intro stable_intros stable_host)

lemma stable_matching: "inert h P \<Longrightarrow> stable P (matching_attempt_processes h uid i)"
  unfolding matching_attempt_processes_def match_process_def live_owned_def
  by (intro stable_intros stable_host stable_read_process stable_read_environment)

lemma stable_process_table: "inert h P \<Longrightarrow> stable P (process_table h)"
  unfolding process_table_def add_entry_def by (intro stable_intros stable_host stable_read_process)

lemma stable_remaining: "inert h P \<Longrightarrow> stable P (remaining h ps)"
  unfolding remaining_def by (intro stable_intros stable_read_process)

lemma stable_signal_by_ticks: "inert h P \<Longrightarrow> stable P (signal_process_by_start_ticks h p sig)"
  unfolding signal_process_by_start_ticks_def undo_stop_def
  by (intro stable_intros stable_host stable_read_process)

lemma stable_signal: "inert h P \<Longrightarrow> stable P (signal_process h p sig)"
  unfolding signal_process_def
  by (intro stable_intros stable_closing stable_host stable_signal_by_ticks stable_read_process)

lemma stable_resume: "inert h P \<Longrightarrow> stable P (resume_tree h ps)"
  unfolding resume_tree_def by (intro stable_intros stable_signal)

lemma stable_signal_tree: "inert h P \<Longrightarrow> stable P (signal_tree h ps sig)"
  unfolding signal_tree_def by (intro stable_intros stable_signal)

lemma stable_stop: "inert h P \<Longrightarrow> stable P (stop_processes h frozen ps)"
  unfolding stop_processes_def by (intro stable_intros stable_signal stable_resume)

lemma stable_wait_loop: "inert h P \<Longrightarrow> stable P (wait_loop h fuel deadline ps)"
proof (induction fuel arbitrary: ps)
  case 0 then show ?case by (subst wait_loop.simps) (auto intro!: stable_intros stable_host)
next
  case (Suc fuel)
  then show ?case by (subst wait_loop.simps) (auto intro!: stable_intros stable_host stable_remaining)
qed

lemma stable_wait: "inert h P \<Longrightarrow> stable P (wait_for_exit h fuel ps timeout)"
  unfolding wait_for_exit_def by (intro stable_intros stable_host stable_remaining stable_wait_loop)

section \<open>Processes that have gone\<close>

text \<open>
  What proc(5) documents of the kernel: a pid with a start time names one process for
  ever. \<open>started\<close> and \<open>gone\<close> of a process stay true; a process that was read has
  started; a started one that a read does not show alive, or the listing does not name,
  has gone.
\<close>

definition lawful_host :: "'w host \<Rightarrow> (int \<Rightarrow> int \<Rightarrow> 'w \<Rightarrow> bool) \<Rightarrow> (int \<Rightarrow> int \<Rightarrow> 'w \<Rightarrow> bool) \<Rightarrow> bool" where
  "lawful_host h started gone \<longleftrightarrow> (\<forall>pid t. inert h (started pid t) \<and> inert h (gone pid t)) \<and>
     (\<forall>pid w p w'. read_process h pid w = (Inr (Some p), w') \<longrightarrow> started pid (pi_start_ticks p) w') \<and>
     (\<forall>pid t w r w'. started pid t w \<and> read_process h pid w = (Inr r, w') \<longrightarrow>
        gone pid t w' \<or> (\<exists>p. r = Some p \<and> \<not> exited p \<and> pi_start_ticks p = t)) \<and>
     (\<forall>pid t w names w'. started pid t w \<and> sys_call (ho_proc h) w = (Inr names, w') \<longrightarrow>
        gone pid t w' \<or> (\<exists>name \<in> set names. pid_name name \<and> int (digits_value name) = pid))"

definition holds_of :: "(int \<Rightarrow> int \<Rightarrow> 'w \<Rightarrow> bool) \<Rightarrow> 'w \<Rightarrow> ProcessIdentity \<Rightarrow> bool" where
  "holds_of P w p \<longleftrightarrow> P (pi_pid p) (pi_start_ticks p) w"

definition same_process :: "ProcessIdentity \<Rightarrow> ProcessIdentity \<Rightarrow> bool" where
  "same_process p q \<longleftrightarrow> pi_pid p = pi_pid q \<and> pi_start_ticks p = pi_start_ticks q"

lemma same_holds: "same_process p q \<Longrightarrow> holds_of P w p \<longleftrightarrow> holds_of P w q"
  by (simp add: same_process_def holds_of_def)

lemma lawful_inert:
  assumes "lawful_host h started gone"
  shows "inert h (started pid t)" "inert h (gone pid t)"
    "inert h (\<lambda>w. holds_of started w p)" "inert h (\<lambda>w. holds_of gone w p)"
  using assms by (simp_all add: lawful_host_def holds_of_def)

lemma stays: "stable P m \<Longrightarrow> m w = (r, w') \<Longrightarrow> P w \<Longrightarrow> P w'"
  using stableD [of P m w] by simp

lemma read_process_pid: "read_process h pid w = (Inr (Some p), w') \<Longrightarrow> pi_pid p = pid"
  by (auto simp: read_process_def try_do_def rejected_def checked_def give_def then_do_def parse_stat_def Let_def
      split: prod.splits sum.splits if_splits option.splits)

lemma lawful_read:
  assumes "lawful_host h started gone" "read_process h pid w = (Inr r, w')"
  shows "r = Some p \<Longrightarrow> holds_of started w' p"
    "started pid t w \<Longrightarrow> gone pid t w' \<or> (\<exists>p. r = Some p \<and> \<not> exited p \<and> pi_start_ticks p = t \<and> pi_pid p = pid)"
proof -
  show "holds_of started w' p" if r: "r = Some p"
    using assms read_process_pid [OF assms(2) [unfolded r]] unfolding r lawful_host_def holds_of_def by blast
  show "gone pid t w' \<or> (\<exists>p. r = Some p \<and> \<not> exited p \<and> pi_start_ticks p = t \<and> pi_pid p = pid)"
    if "started pid t w"
  proof -
    have "gone pid t w' \<or> (\<exists>p. r = Some p \<and> \<not> exited p \<and> pi_start_ticks p = t)"
      using assms that unfolding lawful_host_def by blast
    moreover have "pi_pid p = pid" if "r = Some p" for p
      using assms(2) unfolding that by (rule read_process_pid)
    ultimately show ?thesis by blast
  qed
qed

text \<open>An entry that a newer reading of the same pid replaces has gone.\<close>

lemma put_process_members:
  "p \<in> set (put_process q d) \<Longrightarrow> p = q \<or> p \<in> set d"
  "q \<in> set (put_process q d)"
  "p \<in> set d \<Longrightarrow> pi_pid p \<noteq> pi_pid q \<Longrightarrow> p \<in> set (put_process q d)"
  by (auto simp: put_process_def split: if_splits)

lemma put_process_here:
  "pi_pid p = pi_pid q \<Longrightarrow> pi_start_ticks p = pi_start_ticks q \<Longrightarrow> \<exists>y \<in> set (put_process q d). same_process p y"
  using put_process_members(2) by (auto simp: same_process_def)

lemma put_keeps:
  assumes "lawful_host h started gone" "read_process h pid u = (Inr (Some q), v)"
    and "holds_of started u p" "x \<in> set found" "same_process p x"
  shows "holds_of gone v p \<or> (\<exists>y \<in> set (put_process q found). same_process p y)"
proof (cases "pi_pid x = pi_pid q")
  case True
  have pid: "pi_pid q = pid" by (rule read_process_pid [OF assms(2)])
  with True assms(5) have px: "pi_pid p = pid" by (simp add: same_process_def)
  from assms(3) have "started pid (pi_start_ticks p) u" by (simp add: holds_of_def px)
  from lawful_read(2) [OF assms(1,2) this]
  show ?thesis
  proof
    assume "\<exists>r. Some q = Some r \<and> \<not> exited r \<and> pi_start_ticks r = pi_start_ticks p \<and> pi_pid r = pid"
    with px show ?thesis by (intro disjI2 put_process_here) simp_all
  qed (simp add: holds_of_def px)
qed (use assms(4,5) put_process_members(3) in blast)

definition accounted ::
  "(int \<Rightarrow> int \<Rightarrow> 'w \<Rightarrow> bool) \<Rightarrow> (int \<Rightarrow> int \<Rightarrow> 'w \<Rightarrow> bool) \<Rightarrow> 'w \<Rightarrow> ProcessIdentity set \<Rightarrow>
   ProcessIdentity list \<Rightarrow> bool" where
  "accounted started gone w ps found \<longleftrightarrow> (\<forall>p \<in> ps. holds_of gone w p \<or> (\<exists>q \<in> set found. same_process p q)) \<and>
     (\<forall>q \<in> set found. holds_of started w q)"

lemma accounted_stays:
  assumes "lawful_host h started gone" "m u = (r, v)" "accounted started gone u ps found"
    and "\<And>P. inert h P \<Longrightarrow> stable P m"
  shows "accounted started gone v ps found"
  unfolding accounted_def
proof (intro conjI ballI)
  fix p assume "p \<in> ps"
  with assms(3) stays [OF assms(4) [OF lawful_inert(4) [OF assms(1)]] assms(2), of p]
  show "holds_of gone v p \<or> (\<exists>q \<in> set found. same_process p q)" unfolding accounted_def by blast
next
  fix q assume "q \<in> set found"
  with assms(3) stays [OF assms(4) [OF lawful_inert(3) [OF assms(1)]] assms(2), of q]
  show "holds_of started v q" unfolding accounted_def by blast
qed

lemma accounted_trans:
  assumes "accounted started gone v ps found" "accounted started gone v (set found) rest"
  shows "accounted started gone v ps rest"
  unfolding accounted_def
proof (intro conjI ballI)
  fix p assume "p \<in> ps"
  with assms(1) consider "holds_of gone v p" | q where "q \<in> set found" "same_process p q"
    unfolding accounted_def by blast
  then show "holds_of gone v p \<or> (\<exists>q \<in> set rest. same_process p q)"
  proof cases
    case (2 q)
    with assms(2) show ?thesis unfolding accounted_def by (metis same_holds same_process_def)
  qed blast
qed (use assms(2) in \<open>simp add: accounted_def\<close>)

lemma accounted_put:
  assumes "lawful_host h started gone" "read_process h pid u = (Inr (Some q), v)"
    and "accounted started gone u ps found" "\<And>p. p \<in> ps \<Longrightarrow> holds_of started u p"
  shows "accounted started gone v ps (put_process q found)"
proof -
  have rd: "\<And>P. inert h P \<Longrightarrow> stable P (read_process h pid)" by (rule stable_read_process)
  have old: "accounted started gone v ps found" by (rule accounted_stays [OF assms(1,2,3) rd])
  have "holds_of started v q" by (rule lawful_read(1) [OF assms(1,2) refl])
  with old have "\<forall>x \<in> set (put_process q found). holds_of started v x"
    unfolding accounted_def using put_process_members(1) by metis
  with old put_keeps [OF assms(1,2) assms(4)] show ?thesis unfolding accounted_def by metis
qed

lemma remaining_accounted:
  assumes law: "lawful_host h started gone" and run: "remaining h ps w = (Inr found, w')"
    and known: "\<And>p. p \<in> set ps \<Longrightarrow> holds_of started w p"
  shows "accounted started gone w' (set ps) found"
proof -
  let ?I = "\<lambda>D found u. D \<subseteq> set ps \<and> (\<forall>p \<in> set ps. holds_of started u p) \<and> accounted started gone u D found"
  have rd: "\<And>P pid. inert h P \<Longrightarrow> stable P (read_process h pid)" by (rule stable_read_process)
  have "?I ({} \<union> set ps) found w'"
  proof (rule fold_do_prefix [where I = ?I, OF run [unfolded remaining_def]])
    show "?I {} [] w" using known by (simp add: accounted_def)
  next
    fix D x a u b v
    assume x: "x \<in> set ps" and I: "?I D a u"
      and "then_do (read_process h (pi_pid x)) (\<lambda>current. give (case current of None \<Rightarrow> a
        | Some p \<Rightarrow> if still_there x current then put_process p a else a)) u = (Inr b, v)"
    then obtain cur where cur: "read_process h (pi_pid x) u = (Inr cur, v)"
      and b: "b = (case cur of None \<Rightarrow> a | Some p \<Rightarrow> if still_there x cur then put_process p a else a)"
      by (auto simp: then_do_ok pure_ok)
    have known: "\<forall>p \<in> set ps. holds_of started v p"
      using I stays [OF rd [OF lawful_inert(3) [OF law]] cur] by blast
    have "started (pi_pid x) (pi_start_ticks x) u" using I x by (simp add: holds_of_def)
    from lawful_read(2) [OF law cur this]
    have new: "holds_of gone v x \<or> (\<exists>q \<in> set b. same_process x q)"
    proof
      assume "\<exists>p. cur = Some p \<and> \<not> exited p \<and> pi_start_ticks p = pi_start_ticks x \<and> pi_pid p = pi_pid x"
      then obtain p where p: "cur = Some p" "still_there x cur" "pi_start_ticks p = pi_start_ticks x" "pi_pid p = pi_pid x"
        by (auto simp: still_there_def)
      from put_process_here [OF p(4,3) [symmetric]] p(1,2) show ?thesis by (simp add: b)
    qed (simp add: holds_of_def)
    have "accounted started gone v D b"
    proof (cases "\<exists>p. cur = Some p \<and> still_there x cur")
      case True
      then obtain p where p: "cur = Some p" "still_there x cur" by blast
      have "accounted started gone v D (put_process p a)"
        by (rule accounted_put [OF law cur [unfolded p(1)]]) (use I in auto)
      with p show ?thesis by (simp add: b)
    next
      case False
      with accounted_stays [OF law cur _ rd] I show ?thesis by (auto simp: b split: option.split)
    qed
    with new known I x show "?I (insert x D) b v" by (auto simp: accounted_def)
  qed
  then show ?thesis by simp
qed

lemma entry_accounted:
  assumes law: "lawful_host h started gone" and step: "add_entry h name a u = (Inr b, v)"
    and known: "\<And>p. p \<in> ps \<Longrightarrow> holds_of started u p" and old: "accounted started gone u ps a"
  shows "accounted started gone v ps b"
    and "pid_name name \<Longrightarrow> int (digits_value name) = pi_pid p \<Longrightarrow> holds_of started u p \<Longrightarrow>
      accounted started gone v {p} b"
proof -
  have rd: "\<And>P pid. inert h P \<Longrightarrow> stable P (read_process h pid)" by (rule stable_read_process)
  show ps: "accounted started gone v ps b"
  proof (cases "pid_name name")
    case False
    with step old show ?thesis by (simp add: add_entry_def pure_ok)
  next
    case True
    with step obtain cur where cur: "read_process h (int (digits_value name)) u = (Inr cur, v)"
      and b: "b = (case cur of Some q \<Rightarrow> if exited q then a else put_process q a | None \<Rightarrow> a)"
      by (auto simp: add_entry_def then_do_ok pure_ok)
    from accounted_stays [OF law cur old rd] accounted_put [OF law _ old known] cur show ?thesis
      by (auto simp: b split: option.split)
  qed
  assume name: "pid_name name" "int (digits_value name) = pi_pid p" and p: "holds_of started u p"
  with step obtain cur where cur: "read_process h (pi_pid p) u = (Inr cur, v)"
    and b: "b = (case cur of Some q \<Rightarrow> if exited q then a else put_process q a | None \<Rightarrow> a)"
    by (auto simp: add_entry_def then_do_ok pure_ok)
  from p have "started (pi_pid p) (pi_start_ticks p) u" by (simp add: holds_of_def)
  from lawful_read(2) [OF law cur this] have "holds_of gone v p \<or> (\<exists>q \<in> set b. same_process p q)"
    by (auto simp: b holds_of_def) (metis put_process_here)
  with ps show "accounted started gone v {p} b" by (simp add: accounted_def)
qed

lemma stable_entry: "inert h P \<Longrightarrow> stable P (add_entry h name ps)"
  unfolding add_entry_def by (intro stable_intros stable_read_process)

lemma table_accounted:
  assumes law: "lawful_host h started gone" and run: "process_table h w = (Inr table, w')"
    and known: "holds_of started w p"
  shows "accounted started gone w' {p} table"
proof -
  from run obtain names u where names: "sys_call (ho_proc h) w = (Inr names, u)"
    and fold: "fold_do (add_entry h) names [] u = (Inr table, w')"
    by (auto simp: process_table_def then_do_ok)
  let ?named = "\<lambda>D. \<exists>name \<in> D. pid_name name \<and> int (digits_value name) = pi_pid p"
  let ?I = "\<lambda>D found u. holds_of started u p \<and> accounted started gone u (if ?named D then {p} else {}) found"
  have "?I ({} \<union> set names) table w'"
  proof (rule fold_do_prefix [where I = ?I, OF fold])
    show "?I {} [] u"
      using stays [OF stable_host(1) [OF lawful_inert(3) [OF law]] names] known by (simp add: accounted_def)
  next
    fix D name a u b v
    assume I: "?I D a u" and step: "add_entry h name a u = (Inr b, v)"
    have p: "holds_of started v p" using I stays [OF stable_entry [OF lawful_inert(3) [OF law]] step] by blast
    have "accounted started gone v (if ?named D then {p} else {}) b"
      by (rule entry_accounted(1) [OF law step]) (use I in \<open>auto split: if_splits\<close>)
    with entry_accounted(2) [OF law step _ _ , of "{}"] I p show "?I (insert name D) b v"
      by (auto simp: accounted_def split: if_splits)
  qed
  then have I: "?I (set names) table w'" by simp
  have "started (pi_pid p) (pi_start_ticks p) w" using known by (simp add: holds_of_def)
  with law names consider "gone (pi_pid p) (pi_start_ticks p) u" | "?named (set names)"
    unfolding lawful_host_def by blast
  then show ?thesis
  proof cases
    case 1
    have "stable (gone (pi_pid p) (pi_start_ticks p)) (fold_do (add_entry h) names [])"
      by (intro stable_intros stable_entry lawful_inert(2) [OF law])
    from stays [OF this fold 1] I show ?thesis by (auto simp: accounted_def holds_of_def split: if_splits)
  qed (use I in simp)
qed

lemma live_owned_known:
  assumes "lawful_host h started gone" "live_owned h uid pid u = (Inr (Some (q, e)), v)"
  shows "holds_of started v q"
proof -
  from assms(2) obtain w1 w2 where "read_process h pid w1 = (Inr (Some q), w2)"
    and "read_environment h pid w2 = (Inr e, v)"
    by (auto simp: live_owned_def then_do_ok pure_ok split: if_splits option.splits)
  with lawful_read(1) [OF assms(1)] stays [OF stable_read_environment [OF lawful_inert(3) [OF assms(1)]]]
  show ?thesis by metis
qed

lemma stable_match: "inert h P \<Longrightarrow> stable P (match_process h uid i name matches)"
  unfolding match_process_def live_owned_def
  by (intro stable_intros stable_host stable_read_process stable_read_environment)

lemma rejected_fails [simp]: "rejected code s = (Inr v, t) \<longleftrightarrow> False"
  by (simp add: rejected_def checked_def)

lemma matching_known:
  assumes law: "lawful_host h started gone" and run: "matching_attempt_processes h uid i w = (Inr m, w')"
  shows "\<forall>p \<in> set m. holds_of started w' p"
proof -
  let ?I = "\<lambda>found u. \<forall>p \<in> set found. holds_of started u p"
  from run obtain names u where "fold_do (match_process h uid i) names [] u = (Inr m, w')"
    by (auto simp: matching_attempt_processes_def try_do_ok)
  then show ?thesis
  proof (rule fold_do_inv [where I = ?I])
    fix name a u b v assume I: "?I a u" and step: "match_process h uid i name a u = (Inr b, v)"
    have old: "?I a v" using I stays [OF stable_match [OF lawful_inert(3) [OF law]] step] by blast
    from step consider "b = a" | q e where "b = put_process q a"
        "live_owned h uid (int (digits_value name)) u = (Inr (Some (q, e)), v)"
      by (auto simp: match_process_def try_do_ok pure_ok split: if_splits option.splits)
    then show "?I b v"
    proof cases
      case (2 q e)
      with old live_owned_known [OF law 2(2)] put_process_members(1) show ?thesis by metis
    qed (use old in simp)
  qed simp
qed

section \<open>An exit that the supervisor reports\<close>

text \<open>
  \<open>tree\<close> accounts for one scan of the host: the processes that name the attempt and,
  in the process table read next, all their descendants.
\<close>

definition scanned :: "'w host \<Rightarrow> int \<Rightarrow> WorkerIdentity \<Rightarrow> ProcessIdentity list \<Rightarrow> bool" where
  "scanned h uid i tree \<longleftrightarrow> (\<exists>v m u. matching_attempt_processes h uid i v = (Inr m, u) \<and>
     (m = [] \<or> (\<exists>table u'. process_table h u = (Inr table, u') \<and>
        {p \<in> set table. pi_pid p \<in> (parent_edges table)\<^sup>* `` (pi_pid ` set m)} \<subseteq>
        {p. pi_pid p \<in> pi_pid ` set tree})))"

lemma put_all_pids: "pi_pid ` set (fold put_process ms d) = pi_pid ` set d \<union> pi_pid ` set ms"
proof (induction ms arbitrary: d)
  case (Cons m ms)
  have "pi_pid ` set (put_process m d) = insert (pi_pid m) (pi_pid ` set d)"
    by (auto simp: put_process_def image_iff)
  with Cons show ?case by simp
qed simp

text \<open>What a round of the freezing loop finds and what it leaves accounted for.\<close>

definition tracked ::
  "(int \<Rightarrow> int \<Rightarrow> 'w \<Rightarrow> bool) \<Rightarrow> (int \<Rightarrow> int \<Rightarrow> 'w \<Rightarrow> bool) \<Rightarrow> 'w \<Rightarrow> ProcessIdentity list \<Rightarrow>
   ProcessIdentity list \<Rightarrow> bool" where
  "tracked started gone w initial frozen \<longleftrightarrow> (\<forall>f \<in> set frozen. holds_of started w f) \<and>
     (\<forall>p \<in> set initial. holds_of started w p \<and>
        (\<forall>f \<in> set frozen. pi_pid f = pi_pid p \<longrightarrow> same_process p f \<or> holds_of gone w p))"

lemma tracked_stays:
  assumes "lawful_host h started gone" "m u = (r, v)" "tracked started gone u initial frozen"
    and "\<And>P. inert h P \<Longrightarrow> stable P m"
  shows "tracked started gone v initial frozen"
proof -
  have "\<And>p. holds_of started u p \<Longrightarrow> holds_of started v p" "\<And>p. holds_of gone u p \<Longrightarrow> holds_of gone v p"
    by (auto intro: stays [OF assms(4) [OF lawful_inert(3) [OF assms(1)]] assms(2)]
        stays [OF assms(4) [OF lawful_inert(4) [OF assms(1)]] assms(2)])
  with assms(3) show ?thesis unfolding tracked_def by blast
qed

lemma stable_descendants: "inert h P \<Longrightarrow> stable P (descendants h roots)"
  unfolding descendants_def by (intro stable_intros stable_process_table)

lemma table_known:
  assumes law: "lawful_host h started gone" and run: "process_table h w = (Inr table, w')"
  shows "\<forall>q \<in> set table. holds_of started w' q"
proof -
  from run obtain names u where "fold_do (add_entry h) names [] u = (Inr table, w')"
    by (auto simp: process_table_def then_do_ok)
  then have "accounted started gone w' {} table"
    by (rule fold_do_inv [where I = "\<lambda>found u. accounted started gone u {} found"])
      (simp add: accounted_def, rule entry_accounted(1) [OF law], auto)
  then show ?thesis by (simp add: accounted_def)
qed

lemma round_finds:
  assumes law: "lawful_host h started gone" and t: "tracked started gone w initial frozen"
    and seeds: "remaining h initial w = (Inr seeds, u1)"
    and m: "matching_attempt_processes h uid i u1 = (Inr m, u2)"
    and current: "descendants h (map pi_pid (fold put_process m seeds)) u2 = (Inr current, u3)"
  shows "tracked started gone u3 initial (frozen @ current)"
    and "\<forall>p \<in> set initial. holds_of gone u3 p \<or> (\<exists>q \<in> set current. same_process p q)"
    and "pi_pid ` set current \<subseteq> pi_pid ` set tree \<Longrightarrow> scanned h uid i tree"
proof -
  from current obtain table where table: "process_table h u2 = (Inr table, u3)"
    and tree: "current = tree_of table (map pi_pid (fold put_process m seeds))"
    by (auto simp: descendants_def then_do_ok pure_ok)
  have dist: "distinct (map pi_pid table)" by (rule process_table_distinct [OF table])
  let ?roots = "pi_pid ` set seeds \<union> pi_pid ` set m"
  have members: "set current = {p \<in> set table. pi_pid p \<in> (parent_edges table)\<^sup>* `` ?roots}"
    by (simp add: tree tree_of_members [OF dist] put_all_pids)
  have acc: "accounted started gone u1 (set initial) seeds"
    by (rule remaining_accounted [OF law seeds]) (use t in \<open>simp add: tracked_def\<close>)
  note acc = accounted_stays [OF law table accounted_stays [OF law m acc stable_matching] stable_process_table]
  have t1: "tracked started gone u2 initial frozen"
    by (rule tracked_stays [OF law m tracked_stays [OF law seeds t stable_remaining] stable_matching])
  have t3: "tracked started gone u3 initial frozen" by (rule tracked_stays [OF law table t1 stable_process_table])
  have in_table: "holds_of gone u3 p \<or> (\<exists>q \<in> set table. same_process p q)" if "p \<in> set initial" for p
    using table_accounted [OF law table, of p] t1 that by (auto simp: tracked_def accounted_def)
  have one: "x = y" if "x \<in> set table" "y \<in> set table" "pi_pid x = pi_pid y" for x y
    using dist that by (auto simp: distinct_map inj_on_def)
  show found: "\<forall>p \<in> set initial. holds_of gone u3 p \<or> (\<exists>q \<in> set current. same_process p q)"
  proof
    fix p assume p: "p \<in> set initial"
    with acc consider "holds_of gone u3 p" | q where "q \<in> set seeds" "same_process p q" unfolding accounted_def by blast
    then show "holds_of gone u3 p \<or> (\<exists>q \<in> set current. same_process p q)"
    proof cases
      case (2 q)
      then have root: "pi_pid p \<in> ?roots" by (auto simp: same_process_def)
      have "q' \<in> set current" if "q' \<in> set table" "same_process p q'" for q'
        using that root ImageI [OF rtrancl_refl, of "pi_pid p" ?roots] by (simp add: members same_process_def)
      with in_table [OF p] show ?thesis by blast
    qed blast
  qed
  have "same_process p f \<or> holds_of gone u3 p" if "p \<in> set initial" "f \<in> set current" "pi_pid f = pi_pid p" for p f
  proof -
    have "f \<in> set table" using that(2) by (simp add: members)
    then have "t = f" if "t \<in> set table" "same_process p t" for t
      using one [OF that(1)] that(2) \<open>pi_pid f = pi_pid p\<close> by (simp add: same_process_def)
    with in_table [OF that(1)] show ?thesis by blast
  qed
  moreover have "set current \<subseteq> set table" by (auto simp: members)
  ultimately show "tracked started gone u3 initial (frozen @ current)"
    using t3 table_known [OF law table] by (auto simp: tracked_def)
  show "scanned h uid i tree" if covered: "pi_pid ` set current \<subseteq> pi_pid ` set tree"
  proof -
    have "{p \<in> set table. pi_pid p \<in> (parent_edges table)\<^sup>* `` (pi_pid ` set m)} \<subseteq> set current"
      by (auto simp: members)
    with covered have "{p \<in> set table. pi_pid p \<in> (parent_edges table)\<^sup>* `` (pi_pid ` set m)} \<subseteq>
        {p. pi_pid p \<in> pi_pid ` set tree}" by blast
    with m table show ?thesis unfolding scanned_def by blast
  qed
qed

lemma freeze_accounted:
  assumes law: "lawful_host h started gone" and "tracked started gone w initial frozen"
    and "freeze_rounds h uid i initial rounds frozen w = (Inr tree, w')"
  shows "accounted started gone w' (set initial) tree \<and> scanned h uid i tree"
  using assms(2,3)
proof (induction rounds arbitrary: frozen w)
  case 0
  then show ?case by (simp add: then_do_ok)
next
  case (Suc rounds)
  let ?new = "\<lambda>current. filter (\<lambda>p. pi_pid p \<notin> pi_pid ` set frozen) current"
  from Suc.prems(2) obtain seeds u1 m u2 current u3 u4 where seeds: "remaining h initial w = (Inr seeds, u1)"
    and m: "matching_attempt_processes h uid i u1 = (Inr m, u2)"
    and current: "descendants h (map pi_pid (fold put_process m seeds)) u2 = (Inr current, u3)"
    and stop: "stop_processes h frozen (?new current) u3 = (Inr (), u4)"
    and rest: "(if ?new current = [] then give frozen
      else freeze_rounds h uid i initial rounds (frozen @ ?new current)) u4 = (Inr tree, w')"
    unfolding freeze_rounds.simps then_do_ok Let_def by auto
  note finds = round_finds [OF law Suc.prems(1) seeds m current]
  have t4: "tracked started gone u4 initial (frozen @ current)"
    by (rule tracked_stays [OF law stop finds(1) stable_stop])
  show ?case
  proof (cases "?new current = []")
    case True
    with rest have tree: "tree = frozen" "w' = u4" by (simp_all add: pure_ok)
    have covered: "pi_pid ` set current \<subseteq> pi_pid ` set tree"
      using True by (auto simp: tree filter_empty_conv)
    have "holds_of gone u4 p \<or> (\<exists>f \<in> set frozen. same_process p f)" if p: "p \<in> set initial" for p
    proof -
      from finds(2) p consider "holds_of gone u3 p" | q where "q \<in> set current" "same_process p q" by blast
      then show ?thesis
      proof cases
        case 1
        from stays [OF stable_stop [OF lawful_inert(4) [OF law]] stop 1] show ?thesis by blast
      next
        case (2 q)
        with covered obtain f where "f \<in> set frozen" "pi_pid f = pi_pid p" by (auto simp: tree same_process_def)
        with t4 p show ?thesis by (auto simp: tracked_def)
      qed
    qed
    with t4 finds(3) [OF covered] show ?thesis by (auto simp: tree accounted_def tracked_def)
  next
    case False
    have "tracked started gone u4 initial (frozen @ ?new current)" using t4 by (auto simp: tracked_def)
    from Suc.IH [OF this] rest False show ?thesis by simp
  qed
qed

lemma wait_loop_cases:
  assumes "wait_loop h fuel deadline ps w = (Inr left, w')"
  obtains "left = ps" "w' = w"
  | now where "left = ps" "sys_call (ho_monotonic h) w = (Inr now, w')"
  | n now u v1 found v2 where "fuel = Suc n" "sys_call (ho_monotonic h) w = (Inr now, u)"
      "sys_call (ho_sleep h (1 / 20)) u = (Inr (), v1)" "remaining h ps v1 = (Inr found, v2)"
      "wait_loop h n deadline found v2 = (Inr left, w')"
proof (cases "ps = []")
  case True
  with assms that(1) show ?thesis by (subst (asm) wait_loop.simps) (simp add: pure_ok)
next
  case False
  with assms obtain now u where now: "sys_call (ho_monotonic h) w = (Inr now, u)"
    and rest: "(if \<not> now < deadline then give ps
        else case fuel of
          0 \<Rightarrow> checked (Inl (PyRuntimeError ''out of fuel''))
        | Suc n \<Rightarrow> then_do (sys_call (ho_sleep h (1 / 20))) (\<lambda>_.
            then_do (remaining h ps) (wait_loop h n deadline))) u = (Inr left, w')"
    by (subst (asm) wait_loop.simps) (auto simp: then_do_ok)
  show ?thesis
  proof (cases "now < deadline")
    case False
    with rest now that(2) show ?thesis by (simp add: pure_ok)
  next
    case True
    with rest obtain n where "fuel = Suc n" by (cases fuel) (auto simp: checked_def)
    with True rest now that(3) show ?thesis by (auto simp: then_do_ok)
  qed
qed

lemma wait_loop_accounted:
  assumes law: "lawful_host h started gone"
  shows "wait_loop h fuel deadline ps w = (Inr left, w') \<Longrightarrow> \<forall>p \<in> set ps. holds_of started w p \<Longrightarrow>
    accounted started gone w' (set ps) left"
proof (induction fuel arbitrary: ps w rule: less_induct)
  case (less fuel)
  have all: "accounted started gone v (set ps) ps" if "\<forall>p \<in> set ps. holds_of started v p" for v
    using that by (auto simp: accounted_def same_process_def)
  note keep = stays [OF stable_host(10) [OF lawful_inert(3) [OF law]]]
    stays [OF stable_host(11) [OF lawful_inert(3) [OF law]]]
  from less.prems(1) show ?case
  proof (cases rule: wait_loop_cases)
    case 1
    with all less.prems(2) show ?thesis by simp
  next
    case (2 now)
    with all keep(1) less.prems(2) show ?thesis by blast
  next
    case (3 n now u v1 found v2)
    have "holds_of started v1 p" if "p \<in> set ps" for p using 3(2,3) keep less.prems(2) that by blast
    from remaining_accounted [OF law 3(4) this] have found: "accounted started gone v2 (set ps) found" .
    then have "accounted started gone w' (set found) left"
      using less.IH [OF _ 3(5)] 3(1) by (simp add: accounted_def)
    with accounted_stays [OF law 3(5) found stable_wait_loop] show ?thesis by (rule accounted_trans)
  qed
qed

lemma wait_accounted:
  assumes law: "lawful_host h started gone" and run: "wait_for_exit h fuel ps timeout w = (Inr left, w')"
    and known: "\<forall>p \<in> set ps. holds_of started w p"
  shows "accounted started gone w' (set ps) left"
proof -
  from run obtain now u found v where now: "sys_call (ho_monotonic h) w = (Inr now, u)"
    and found: "remaining h ps u = (Inr found, v)" and loop: "wait_loop h fuel (now + timeout) found v = (Inr left, w')"
    by (auto simp: wait_for_exit_def then_do_ok)
  have "holds_of started u p" if "p \<in> set ps" for p
    using stays [OF stable_host(10) [OF lawful_inert(3) [OF law]] now] known that by blast
  from remaining_accounted [OF law found this] have acc: "accounted started gone v (set ps) found" .
  then have "accounted started gone w' (set found) left"
    by (intro wait_loop_accounted [OF law loop]) (simp add: accounted_def)
  with accounted_stays [OF law loop acc stable_wait_loop] show ?thesis by (rule accounted_trans)
qed

lemma accounted_none: "accounted started gone w ps [] \<longleftrightarrow> (\<forall>p \<in> ps. holds_of gone w p)"
  by (simp add: accounted_def)

lemma stop_tree_confirms:
  assumes law: "lawful_host h started gone" and known: "\<forall>p \<in> set ps. holds_of started u p"
    and run: "stop_tree h sc fuel ps u = (Inr used, v)"
  shows "\<forall>p \<in> set ps. holds_of gone v p"
proof -
  from run obtain v1 v2 left v3 unkilled v4 where s1: "signal_tree h ps SIGTERM u = (Inr (), v1)"
    and s2: "resume_tree h ps v1 = (Inr (), v2)"
    and wait: "wait_for_exit h fuel ps (sc_term_grace_seconds sc) v2 = (Inr left, v3)"
    and kill: "(if left = [] then give [] else then_do (signal_tree h left SIGKILL) (\<lambda>_.
       wait_for_exit h fuel left (sc_kill_grace_seconds sc))) v3 = (Inr unkilled, v4)"
    and last: "(if unkilled \<noteq> [] then rejected ''termination_failed'' else give (left \<noteq> [])) v4 = (Inr used, v)"
    unfolding stop_tree_def then_do_ok by auto
  from last have none: "unkilled = []" and v: "v4 = v" by (auto simp: pure_ok split: if_splits)
  note kill = kill [unfolded v]
  have "holds_of started v2 p" if "p \<in> set ps" for p
    using known that stays [OF stable_signal_tree [OF lawful_inert(3) [OF law]] s1]
      stays [OF stable_resume [OF lawful_inert(3) [OF law]] s2] by blast
  then have left: "accounted started gone v3 (set ps) left" by (intro wait_accounted [OF law wait]) blast
  show ?thesis
  proof (cases "left = []")
    case True
    with left kill show ?thesis by (simp add: accounted_none pure_ok)
  next
    case False
    with kill obtain v4 where s3: "signal_tree h left SIGKILL v3 = (Inr (), v4)"
      and wait2: "wait_for_exit h fuel left (sc_kill_grace_seconds sc) v4 = (Inr unkilled, v)"
      by (auto simp: then_do_ok)
    have acc: "accounted started gone v4 (set ps) left" by (rule accounted_stays [OF law s3 left stable_signal_tree])
    then have "accounted started gone v (set left) unkilled"
      by (intro wait_accounted [OF law wait2]) (simp add: accounted_def)
    with accounted_stays [OF law wait2 acc stable_wait] have "accounted started gone v (set ps) unkilled"
      by (rule accounted_trans)
    then show ?thesis by (simp add: none accounted_none)
  qed
qed

lemma terminate_confirms:
  assumes law: "lawful_host h started gone" and known: "\<forall>p \<in> set initial. holds_of started w p"
    and run: "terminate_attempt h sc fuel i leader initial w = (Inr answer, w')"
  shows "\<exists>tree. scanned h (sc_expected_uid sc) i tree \<and> (\<forall>p \<in> set initial \<union> set tree. holds_of gone w' p)"
proof -
  note dead = stays [OF stable_host(9) [OF lawful_inert(4) [OF law]]]
  from run obtain tree u where freeze: "freeze_tree h (sc_expected_uid sc) i initial w = (Inr tree, u)"
    and rest: "(if tree = [] then then_do (sys_call (ho_time h)) (\<lambda>now. give (observed ''exited'' now i leader 0))
       else then_do (stop_tree h sc fuel tree) (\<lambda>used_sigkill.
         then_do (sys_call (ho_time h)) (\<lambda>now. give (terminated now i leader used_sigkill (length tree))))) u
       = (Inr answer, w')"
    unfolding terminate_attempt_def then_do_ok by blast
  from freeze_accounted [OF law _ freeze [unfolded freeze_tree_def]] known
  have acc: "accounted started gone u (set initial) tree" and scan: "scanned h (sc_expected_uid sc) i tree"
    by (simp_all add: tracked_def)
  show ?thesis
  proof (cases "tree = []")
    case True
    with rest obtain now where "sys_call (ho_time h) u = (Inr now, w')" by (auto simp: then_do_ok pure_ok)
    from dead [OF this] acc True scan show ?thesis by (auto simp: accounted_none)
  next
    case False
    with rest obtain used v now where stop: "stop_tree h sc fuel tree u = (Inr used, v)"
      and time: "sys_call (ho_time h) v = (Inr now, w')" by (auto simp: then_do_ok pure_ok)
    have gone: "\<forall>p \<in> set tree. holds_of gone v p"
      by (rule stop_tree_confirms [OF law _ stop]) (use acc in \<open>simp add: accounted_def\<close>)
    have "inert h P \<Longrightarrow> stable P (stop_tree h sc fuel tree)" for P
      unfolding stop_tree_def by (intro stable_intros stable_signal_tree stable_resume stable_wait)
    from accounted_stays [OF law stop acc this] gone have "\<forall>p \<in> set initial. holds_of gone v p"
      unfolding accounted_def using same_holds by metis
    with gone dead [OF time] scan show ?thesis by blast
  qed
qed

definition answer_state :: "json \<Rightarrow> string option" where
  "answer_state answer = (case answer of JObj kvs \<Rightarrow> (case map_of kvs ''state'' of Some (JStr s) \<Rightarrow> Some s | _ \<Rightarrow> None)
     | _ \<Rightarrow> None)"


section \<open>The polling loop ends\<close>

text \<open>A clock that never goes back and that a sleep advances; other calls may take any time.\<close>

definition clock_of :: "'w host \<Rightarrow> ('w \<Rightarrow> rat) \<Rightarrow> bool" where
  "clock_of h clock \<longleftrightarrow> (\<forall>w now w'. sys_call (ho_monotonic h) w = (Inr now, w') \<longrightarrow> clock w \<le> now \<and> now \<le> clock w') \<and>
     (\<forall>t w w'. sys_call (ho_sleep h t) w = (Inr (), w') \<longrightarrow> clock w + t \<le> clock w') \<and>
     (\<forall>pid t. stable (\<lambda>w. t \<le> clock w) (sys_call (ho_stat h pid)))"

definition out_of_fuel :: ctl_error where
  "out_of_fuel = PyRuntimeError ''out of fuel''"

lemma fold_do_error: "(\<And>x a u. fst (f x a u) \<noteq> Inl e) \<Longrightarrow> fst (fold_do f xs acc w) \<noteq> Inl e"
proof (induction xs arbitrary: acc w)
  case (Cons x xs)
  then show ?case by (cases "f x acc w"; cases "fst (f x acc w)") (auto simp: then_do_def, metis fst_conv)
qed simp

lemma read_process_error: "fst (read_process h pid w) \<noteq> Inl out_of_fuel"
  by (auto simp: read_process_def try_do_def sys_call_def rejected_def checked_def give_def then_do_def parse_stat_def
      Let_def out_of_fuel_def split: prod.splits sum.splits if_splits option.splits)

lemma remaining_error: "fst (remaining h ps w) \<noteq> Inl out_of_fuel"
  unfolding remaining_def
proof (rule fold_do_error)
  fix x a u
  show "fst (then_do (read_process h (pi_pid x)) (\<lambda>current. give (case current of None \<Rightarrow> a
      | Some p \<Rightarrow> if still_there x current then put_process p a else a)) u) \<noteq> Inl out_of_fuel"
    using read_process_error [of h "pi_pid x" u]
    by (cases "read_process h (pi_pid x) u"; cases "fst (read_process h (pi_pid x) u)") simp_all
qed

lemma sys_call_error: "fst (sys_call f w) \<noteq> Inl out_of_fuel"
  by (auto simp: sys_call_def out_of_fuel_def split: prod.splits sum.splits)

lemma wait_loop_ends:
  assumes clock: "clock_of h clock" and fuel: "deadline - clock w \<le> of_nat fuel / 20"
  shows "fst (wait_loop h fuel deadline ps w) \<noteq> Inl out_of_fuel"
  using fuel
proof (induction fuel arbitrary: ps w)
  case 0
  then show ?case using sys_call_error [of "ho_monotonic h" w] clock
    by (subst wait_loop.simps)
      (auto simp: then_do_def clock_of_def split: prod.splits sum.splits, fastforce)
next
  case (Suc n)
  show ?case
  proof
    assume bad: "fst (wait_loop h (Suc n) deadline ps w) = Inl out_of_fuel"
    then obtain now u where now: "sys_call (ho_monotonic h) w = (Inr now, u)" "now < deadline"
      and rest: "fst (then_do (sys_call (ho_sleep h (1 / 20))) (\<lambda>_. then_do (remaining h ps) (wait_loop h n deadline)) u)
        = Inl out_of_fuel"
      using sys_call_error [of "ho_monotonic h" w]
      by (subst (asm) wait_loop.simps) (auto simp: then_do_def [of "sys_call (ho_monotonic h)"]
          split: prod.splits sum.splits if_splits)
    from rest sys_call_error [of "ho_sleep h (1 / 20)" u] obtain v1 where
      slept: "sys_call (ho_sleep h (1 / 20)) u = (Inr (), v1)"
      and rest: "fst (then_do (remaining h ps) (wait_loop h n deadline) v1) = Inl out_of_fuel"
      by (auto simp: then_do_def [of "sys_call _"] split: prod.splits sum.splits)
    from rest remaining_error [of h ps v1] obtain found v2 where
      found: "remaining h ps v1 = (Inr found, v2)"
      and rest: "fst (wait_loop h n deadline found v2) = Inl out_of_fuel"
      by (auto simp: then_do_def split: prod.splits sum.splits)
    have "stable (\<lambda>w. clock v1 \<le> clock w) (remaining h ps)"
      unfolding remaining_def read_process_def by (intro stable_intros) (use clock in \<open>simp add: clock_of_def\<close>)
    from stays [OF this found] have "clock v1 \<le> clock v2" by simp
    moreover have "clock w \<le> clock u" "clock u + 1 / 20 \<le> clock v1"
      using clock now(1) slept unfolding clock_of_def by (force, blast)
    ultimately have "deadline - clock v2 \<le> of_nat n / 20" using Suc.prems by (simp add: field_simps)
    from Suc.IH [OF this] rest show False by blast
  qed
qed

text \<open>Polling every 50 ms, the grace period needs at most 20 polls a second.\<close>

lemma wait_for_exit_ends:
  assumes clock: "clock_of h clock" and fuel: "timeout * 20 \<le> of_nat fuel"
  shows "fst (wait_for_exit h fuel ps timeout w) \<noteq> Inl out_of_fuel"
proof
  assume "fst (wait_for_exit h fuel ps timeout w) = Inl out_of_fuel"
  with sys_call_error [of "ho_monotonic h" w] obtain now u where now: "sys_call (ho_monotonic h) w = (Inr now, u)"
    and "fst (then_do (remaining h ps) (wait_loop h fuel (now + timeout)) u) = Inl out_of_fuel"
    unfolding wait_for_exit_def by (auto simp: then_do_def [of "sys_call _"] split: prod.splits sum.splits)
  moreover from this(2) remaining_error [of h ps u] obtain found v where found: "remaining h ps u = (Inr found, v)"
    and bad: "fst (wait_loop h fuel (now + timeout) found v) = Inl out_of_fuel"
    by (auto simp: then_do_def split: prod.splits sum.splits)
  moreover have "now \<le> clock u" using clock now unfolding clock_of_def by blast
  moreover have "stable (\<lambda>w. clock u \<le> clock w) (remaining h ps)"
    unfolding remaining_def read_process_def by (intro stable_intros) (use clock in \<open>simp add: clock_of_def\<close>)
  from stays [OF this found] have "clock u \<le> clock v" by simp
  ultimately have "now + timeout - clock v \<le> of_nat fuel / 20" using fuel by (simp add: field_simps)
  from wait_loop_ends [OF clock this] bad show False by blast
qed

section \<open>A small host\<close>

text \<open>
  The world is the list of live pids: 50 is the worker of the claimed card, 51 a child of
  it that ignores SIGTERM.
\<close>

definition small_stat :: "int \<Rightarrow> string" where
  "small_stat pid = (if pid = 50 then ''50 (hermes) S 1 50 50 0 0 0 0 0 0 0 0 0 0 0 20 0 1 0 1000 0''
     else ''51 (git) R 50 50 50 0 0 0 0 0 0 0 0 0 0 0 20 0 1 0 1001 0'')"

definition small_environ :: "int \<Rightarrow> string" where
  "small_environ pid = (if pid = 50 then concat (map (\<lambda>(k, v). k @ ''='' @ v @ [CHR 0x00])
     [(''HERMES_KANBAN_BOARD'', ''b''), (''HERMES_KANBAN_TASK'', ''t_1''), (''HERMES_KANBAN_RUN_ID'', ''9'')]) else [])"

definition of_live :: "(int \<Rightarrow> 'a) \<Rightarrow> int \<Rightarrow> (int list, 'a) syscall" where
  "of_live f pid w = (if pid \<in> set w \<and> pid \<in> {50, 51} then (Inr (f pid), w) else (Inl (ENOENT, []), w))"

definition small_signal :: "int \<Rightarrow> int \<Rightarrow> (int list, unit) syscall" where
  "small_signal pid sig w = (if sig = SIGKILL \<or> (sig = SIGTERM \<and> pid = 50)
     then (Inr (), filter (\<lambda>x. x \<noteq> pid) w) else (Inr (), w))"

definition small_host :: "int list host" where
  "small_host = \<lparr>ho_board = (\<lambda>_ w. (BoardOpen (claimed_board\<lparr>hb_tasks := map (\<lambda>t.
       t\<lparr>ht_created_by := Some ''hollysys-controller''\<rparr>) (hb_tasks claimed_board)\<rparr>), w)),
     ho_proc = (\<lambda>w. (Inr (''self'' # map int_str w), w)),
     ho_stat = of_live small_stat, ho_owner = of_live (\<lambda>_. 1000), ho_environ = of_live small_environ,
     ho_has_pidfd = True, ho_pidfd_open = of_live (\<lambda>pid. pid), ho_pidfd_send = small_signal,
     ho_close = (\<lambda>_ w. (Inr (), w)), ho_kill = small_signal, ho_time = (\<lambda>w. (Inr 1700000000, w)),
     ho_monotonic = (\<lambda>w. (Inr 0, w)), ho_sleep = (\<lambda>_ w. (Inr (), w)), ho_utf8 = (\<lambda>_. True),
     ho_replace = (\<lambda>s. s), ho_uuid = (\<lambda>_. True), ho_loads = (\<lambda>_. None), ho_dumps = (\<lambda>_. []),
     ho_str = (\<lambda>_. [])\<rparr>"

definition small_config :: supervisor_config where
  "small_config = \<lparr>sc_hermes_home = ''/opt/data'', sc_expected_uid = 1000, sc_expected_gid = 1000,
     sc_term_grace_seconds = 0, sc_kill_grace_seconds = 0\<rparr>"

definition small_request :: "string \<Rightarrow> json" where
  "small_request how = request_json ''0'' how
     \<lparr>wi_board = ''b'', wi_card_id = ''t_1'', wi_run_id = 9, wi_worker_pid = 50\<rparr>"

definition small_started :: "int \<Rightarrow> int \<Rightarrow> int list \<Rightarrow> bool" where
  "small_started pid ticks w \<longleftrightarrow> (pid, ticks) \<in> {(50, 1000), (51, 1001)}"

definition small_gone :: "int \<Rightarrow> int \<Rightarrow> int list \<Rightarrow> bool" where
  "small_gone pid ticks w \<longleftrightarrow> pid \<notin> set w"

lemma small_parsed:
  "parse_stat 50 (small_stat 50) = Inr \<lparr>pi_pid = 50, pi_parent_pid = 1, pi_process_group = 50,
     pi_state = ''S'', pi_start_ticks = 1000\<rparr>"
  "parse_stat 51 (small_stat 51) = Inr \<lparr>pi_pid = 51, pi_parent_pid = 50, pi_process_group = 50,
     pi_state = ''R'', pi_start_ticks = 1001\<rparr>"
  "pid_name (int_str 50)" "digits_value (int_str 50) = 50" "pid_name (int_str 51)" "digits_value (int_str 51) = 51"
  by code_simp+

lemma small_read:
  "read_process small_host pid w = (Inr (if pid \<in> set w \<and> pid = 50 then Some \<lparr>pi_pid = 50, pi_parent_pid = 1,
       pi_process_group = 50, pi_state = ''S'', pi_start_ticks = 1000\<rparr>
     else if pid \<in> set w \<and> pid = 51 then Some \<lparr>pi_pid = 51, pi_parent_pid = 50, pi_process_group = 50,
       pi_state = ''R'', pi_start_ticks = 1001\<rparr> else None), w)"
  by (cases "pid = 50"; cases "pid = 51") (simp_all add: read_process_def try_do_def sys_call_def small_host_def
      of_live_def os_errno_def checked_def small_parsed then_do_def)

lemma small_host_lawful: "lawful_host small_host small_started small_gone"
proof -
  have "inert small_host (\<lambda>w. pid \<notin> set w)" "inert small_host (\<lambda>w. c)" for pid :: int and c
    by (simp_all add: inert_def small_host_def stable_def keeps_def sys_call_def of_live_def small_signal_def)
  then have "inert small_host (small_gone pid t)" "inert small_host (small_started pid t)" for pid t
    unfolding small_gone_def small_started_def by blast+
  moreover have "sys_call (ho_proc small_host) w = (Inr (''self'' # map int_str w), w)" for w
    by (simp add: sys_call_def small_host_def)
  moreover have "50 \<in> set w \<Longrightarrow> \<exists>n \<in> set w. pid_name (int_str n) \<and> digits_value (int_str n) = 50" for w
    by (rule bexI [of _ 50]) (simp_all add: small_parsed)
  moreover have "51 \<in> set w \<Longrightarrow> \<exists>n \<in> set w. pid_name (int_str n) \<and> digits_value (int_str n) = 51" for w
    by (rule bexI [of _ 51]) (simp_all add: small_parsed)
  ultimately show ?thesis
    unfolding lawful_host_def small_read by (auto simp: small_started_def small_gone_def exited_def split: if_splits)
qed


end
