(* ===== verification/Scope_Properties.thy ===== *)
theory Scope_Properties
  imports Models
begin

text \<open>The artifact scope of a run: what \<open>ArtifactScope.from_prd_path\<close> gives is a boundary below the PRD.\<close>

lemma split_join: "ws \<noteq> [] \<Longrightarrow> (\<And>w. w \<in> set ws \<Longrightarrow> CHR ''/'' \<notin> set w) \<Longrightarrow> split_slash (join_slash ws) = ws"
proof (induction ws rule: join_slash.induct)
  case (2 w)
  then show ?case
  proof (induction w)
    case (Cons c w)
    then show ?case by (cases "split_slash w") auto
  qed simp
next
  case (3 w v ws)
  then have IH: "split_slash (join_slash (v # ws)) = v # ws" by simp
  have "CHR ''/'' \<notin> set u \<Longrightarrow> split_slash (u @ CHR ''/'' # r) = u # split_slash r" for u r
    by (induction u) auto
  with 3 IH show ?case by simp
qed simp

lemma split_append_slash: "split_slash (s @ CHR ''/'' # r) = split_slash s @ split_slash r"
proof (induction s)
  case (Cons c s)
  have "split_slash s \<noteq> []" by (cases s) (auto split: list.splits)
  with Cons show ?case by (auto split: list.splits)
qed simp

lemma collect_ok: "collect f xs = Inr ys \<Longrightarrow> map f xs = map Inr ys"
  by (induction xs arbitrary: ys) (auto split: sum.splits)

text \<open>A text that names something below a root without leaving it.\<close>

definition below :: "string \<Rightarrow> string \<Rightarrow> bool" where
  "below base_dir s \<longleftrightarrow> starts_with (base_dir @ ''/'') s \<and> ''..'' \<notin> set (split_slash s)"

definition scope_ok :: "string \<Rightarrow> ArtifactScope \<Rightarrow> bool" where
  "scope_ok prd_path sc \<longleftrightarrow> as_source_prd_path sc = prd_path \<and>
     \<not> is_absolute (path_of (as_root_path sc)) \<and> ''..'' \<notin> set (split_slash (as_root_path sc)) \<and>
     path_of (as_root_path sc) = without_suffix (path_of prd_path) \<and>
     list_all (\<lambda>patterns. patterns \<noteq> [] \<and> list_all (below (as_root_path sc)) patterns)
       [as_spec_patterns sc, as_plan_patterns sc, as_tasks_patterns sc] \<and>
     \<not> starts_with (as_root_path sc @ ''/'') prd_path"

lemma scoped_below:
  assumes "scoped configured base_dir stage = Inr ps" "''..'' \<notin> set (split_slash base_dir)"
  shows "ps \<noteq> [] \<and> list_all (below base_dir) ps"
proof -
  from assms(1) obtain qs where qs: "qs \<noteq> []" "collect (scoped_pattern base_dir) qs = Inr ps"
    by (auto simp: scoped_def simp del: collect.simps split: option.splits list.splits)
  then have map: "map (scoped_pattern base_dir) qs = map Inr ps" by (intro collect_ok)
  have "below base_dir p" if "scoped_pattern base_dir q = Inr p" for p q
  proof -
    from that have p: "p = base_dir @ ''/'' @ q" and q: "\<not> is_absolute (path_of q)" "''..'' \<notin> set (path_parts (path_of q))"
      by (auto simp: scoped_pattern_def split: if_splits)
    from q have "''..'' \<notin> set (split_slash q)" by (auto simp: path_parts_def is_absolute_def path_of_def)
    with assms(2) show ?thesis by (simp add: p below_def split_append_slash starts_with_def)
  qed
  moreover have "\<exists>q. scoped_pattern base_dir q = Inr p" if "p \<in> set ps" for p
    using that map by (metis (no_types, lifting) imageE imageI list.set_map)
  ultimately have "list_all (below base_dir) ps" unfolding list_all_iff by blast
  moreover from qs map have "ps \<noteq> []" by auto
  ultimately show ?thesis by blast
qed

lemma stem_and_suffix: "fst (stem_suffix n) @ snd (stem_suffix n) = n"
proof (cases "CHR ''.'' \<in> set n")
  case True
  let ?not_dot = "\<lambda>c. c \<noteq> CHR ''.''"
  from True have "dropWhile ?not_dot (rev n) \<noteq> []" by (auto simp: dropWhile_eq_Nil_conv)
  with hd_dropWhile [OF this] have "dropWhile ?not_dot (rev n) = CHR ''.'' # tl (dropWhile ?not_dot (rev n))"
    by (cases "dropWhile ?not_dot (rev n)") simp_all
  then have "rev (takeWhile ?not_dot (rev n) @ CHR ''.'' # tl (dropWhile ?not_dot (rev n))) = n"
    by (metis rev_rev_ident takeWhile_dropWhile_id)
  then show ?thesis by (simp add: stem_suffix_def Let_def)
qed (simp add: stem_suffix_def)

lemma comps_append: "path_of (s @ ''/'' @ r) = PosixPath (path_root (s @ ''/'' @ r)) (pp_comps (path_of s) @ pp_comps (path_of r))"
  by (simp add: path_of_def split_append_slash)

lemma path_of_join:
  assumes "ws \<noteq> []" "\<And>w. w \<in> set ws \<Longrightarrow> w \<noteq> [] \<and> w \<noteq> ''.'' \<and> CHR ''/'' \<notin> set w"
  shows "path_of (join_slash ws) = PosixPath [] ws"
proof -
  obtain c w vs where ws: "ws = (c # w) # vs" "c \<noteq> CHR ''/''"
    using assms by (metis list.exhaust list.set_intros(1))
  then have "path_root (join_slash ws) = []" by (cases vs) (simp_all add: path_root_def starts_with_def)
  with assms split_join [of ws] show ?thesis by (simp add: path_of_def)
qed

lemma without_suffix_comps:
  assumes "pp_comps (path_of s) \<noteq> []" "path_suffix (path_of s) \<noteq> []"
    and "fst (stem_suffix (path_name (path_of s))) \<noteq> ''.''" "w \<in> set (pp_comps (without_suffix (path_of s)))"
  shows "w \<noteq> [] \<and> w \<noteq> ''.'' \<and> CHR ''/'' \<notin> set w"
proof (cases "w = fst (stem_suffix (path_name (path_of s)))")
  case True
  let ?n = "path_name (path_of s)"
  have n: "?n \<in> set (pp_comps (path_of s))" using assms(1) by (simp add: path_name_def)
  have "w \<noteq> []" using assms(2) unfolding True path_suffix_def
    by (auto simp: stem_suffix_def Let_def split: if_splits)
  moreover have "set w \<subseteq> set ?n" unfolding True by (metis set_append stem_and_suffix Un_upper1)
  moreover have "w \<noteq> ''.''" using assms(3) True by simp
  ultimately show ?thesis using path_of_comps [OF n] by blast
next
  case False
  with assms(1,4) have "w \<in> set (pp_comps (path_of s))"
    by (auto simp: without_suffix_def dest: in_set_butlastD)
  then show ?thesis by (rule path_of_comps)
qed

lemma from_prd_path_ok:
  assumes "from_prd_path prd_path relative_patterns = Inr sc"
  obtains c spec plan tasks where "pp_root (path_of prd_path) = []"
    "map lower_char (path_suffix (path_of prd_path)) = ''.md''" "''..'' \<notin> set (pp_comps (path_of prd_path))"
    "2 \<le> length (pp_comps (path_of prd_path))"
    "scoped c (path_str (without_suffix (path_of prd_path))) SPEC_REVIEW = Inr spec"
    "scoped c (path_str (without_suffix (path_of prd_path))) PLAN_REVIEW = Inr plan"
    "scoped c (path_str (without_suffix (path_of prd_path))) TASKS_REVIEW = Inr tasks"
    "sc = \<lparr>as_source_prd_path = prd_path, as_root_path = path_str (without_suffix (path_of prd_path)),
       as_spec_patterns = spec, as_plan_patterns = plan, as_tasks_patterns = tasks\<rparr>"
proof -
  let ?path = "path_of prd_path"
  let ?dir = "without_suffix ?path"
  define c where "c = (if relative_patterns = [] then default_patterns else relative_patterns)"
  have good_path: "\<not> (is_absolute ?path \<or> map lower_char (path_suffix ?path) \<noteq> ''.md'' \<or>
      (\<exists>part \<in> set (path_parts ?path). part \<in> {[], ''.'', ''..''}) \<or> length (path_parts ?path) < 2)" (is "\<not> ?bad")
  proof
    assume ?bad
    then have "from_prd_path prd_path relative_patterns = Inl (ValueError ''PRD path cannot define a canonical artifact scope'')"
      unfolding from_prd_path_def Let_def by (rule if_P)
    with assms show False by simp
  qed
  then have rel: "pp_root ?path = []" by (simp add: is_absolute_def)
  with good_path have md: "map lower_char (path_suffix ?path) = ''.md''"
    and parts: "''..'' \<notin> set (pp_comps ?path)" and two: "2 \<le> length (pp_comps ?path)"
    by (auto simp: path_parts_def)
  from assms obtain spec plan tasks where lists: "scoped c (path_str ?dir) SPEC_REVIEW = Inr spec"
    "scoped c (path_str ?dir) PLAN_REVIEW = Inr plan" "scoped c (path_str ?dir) TASKS_REVIEW = Inr tasks"
    and sc: "sc = \<lparr>as_source_prd_path = prd_path, as_root_path = path_str ?dir, as_spec_patterns = spec,
       as_plan_patterns = plan, as_tasks_patterns = tasks\<rparr>"
    unfolding from_prd_path_def Let_def if_not_P [OF good_path] c_def [symmetric]
    by (auto split: sum.splits)
  show ?thesis by (rule that [OF rel md parts two lists sc])
qed

definition prd_stem :: "string \<Rightarrow> string" where
  "prd_stem prd_path = fst (stem_suffix (path_name (path_of prd_path)))"

text \<open>
  What \<open>ArtifactScope.from_prd_path\<close> returns is well formed, for a PRD whose name is
  more than dots before its suffix: the root is the PRD's path without its suffix, relative
  and without a parent component; each document phase has patterns, all of them below the
  root and none leaving it; and the PRD itself lies outside the scope.
\<close>

theorem artifact_scope_is_typed:
  assumes "from_prd_path prd_path relative_patterns = Inr sc" and "prd_stem prd_path \<notin> {''.'', ''..''}"
  shows "scope_ok prd_path sc"
proof -
  let ?path = "path_of prd_path"
  let ?dir = "without_suffix ?path"
  from from_prd_path_ok [OF assms(1)] obtain c spec plan tasks where rel: "pp_root ?path = []"
    and md: "map lower_char (path_suffix ?path) = ''.md''" and parts: "''..'' \<notin> set (pp_comps ?path)"
    and two: "2 \<le> length (pp_comps ?path)"
    and lists: "scoped c (path_str ?dir) SPEC_REVIEW = Inr spec" "scoped c (path_str ?dir) PLAN_REVIEW = Inr plan"
      "scoped c (path_str ?dir) TASKS_REVIEW = Inr tasks"
    and sc: "sc = \<lparr>as_source_prd_path = prd_path, as_root_path = path_str ?dir, as_spec_patterns = spec,
       as_plan_patterns = plan, as_tasks_patterns = tasks\<rparr>" by metis
  from two have ne: "pp_comps ?path \<noteq> []" by auto
  have suffix: "path_suffix ?path \<noteq> []" using md by auto
  have dir: "pp_root ?dir = []" "pp_comps ?dir = butlast (pp_comps ?path) @ [prd_stem prd_path]"
    using ne rel by (simp_all add: without_suffix_def prd_stem_def)
  have good: "w \<noteq> [] \<and> w \<noteq> ''.'' \<and> CHR ''/'' \<notin> set w" if "w \<in> set (pp_comps ?dir)" for w
    using without_suffix_comps [OF ne suffix _ that] assms(2) by (simp add: prd_stem_def)
  have str: "path_str ?dir = join_slash (pp_comps ?dir)" by (simp add: path_str_def dir)
  have nonempty: "pp_comps ?dir \<noteq> []" by (simp add: dir)
  have "path_of (path_str ?dir) = PosixPath [] (pp_comps ?dir)"
    unfolding str by (rule path_of_join [OF nonempty]) (use good in blast)
  then have path: "path_of (path_str ?dir) = ?dir" by (cases ?dir) (use dir(1) in simp)
  have split: "split_slash (path_str ?dir) = pp_comps ?dir"
    unfolding str by (rule split_join [OF nonempty]) (use good in blast)
  have no_parent: "''..'' \<notin> set (pp_comps ?dir)"
    using parts assms(2) by (auto simp: dir dest: in_set_butlastD)
  have outside: "\<not> starts_with (path_str ?dir @ ''/'') prd_path"
  proof
    assume "starts_with (path_str ?dir @ ''/'') prd_path"
    then obtain r where r: "prd_path = path_str ?dir @ ''/'' @ r"
      by (auto simp: starts_with_def) (metis append.assoc append_Cons append_Nil append_take_drop_id)
    have "pp_comps ?path = pp_comps ?dir @ pp_comps (path_of r)"
      using arg_cong [where f = pp_comps, OF comps_append [of "path_str ?dir" r]]
      unfolding r [symmetric] path by simp
    moreover have "length (pp_comps ?dir) = length (pp_comps ?path)" using two by (simp add: dir)
    ultimately have "pp_comps ?path = pp_comps ?dir" by simp
    then have "last (pp_comps ?path) = prd_stem prd_path" using dir(2) by (metis last_snoc)
    then have "path_name ?path = prd_stem prd_path" using ne by (simp add: path_name_def)
    with stem_and_suffix [of "path_name ?path"] suffix show False
      unfolding prd_stem_def path_suffix_def by (metis append_self_conv)
  qed
  note patterns = lists [THEN scoped_below, unfolded split, OF no_parent]
  from patterns outside split no_parent path show ?thesis
    unfolding scope_ok_def by (simp add: sc is_absolute_def dir(1))
qed

text \<open>The default patterns of a PRD, and a name of dots, whose scope is the parent directory.\<close>

theorem artifact_scope_is_typed_witness:
  "scope_ok ''docs/prds/a.md'' \<lparr>as_source_prd_path = ''docs/prds/a.md'', as_root_path = ''docs/prds/a'',
     as_spec_patterns = [''docs/prds/a/specs/spec-*.md''], as_plan_patterns = [''docs/prds/a/plans/plan-*.md''],
     as_tasks_patterns = [''docs/prds/a/tasks/task-*.md'', ''docs/prds/a/tasks/tasks-*.md'']\<rparr>"
proof (rule artifact_scope_is_typed)
  show "from_prd_path ''docs/prds/a.md'' [] = Inr \<lparr>as_source_prd_path = ''docs/prds/a.md'', as_root_path = ''docs/prds/a'',
     as_spec_patterns = [''docs/prds/a/specs/spec-*.md''], as_plan_patterns = [''docs/prds/a/plans/plan-*.md''],
     as_tasks_patterns = [''docs/prds/a/tasks/task-*.md'', ''docs/prds/a/tasks/tasks-*.md'']\<rparr>"
    by code_simp
  show "prd_stem ''docs/prds/a.md'' \<notin> {''.'', ''..''}" by code_simp
qed

lemma dotted_prd_escapes: "map_sum id as_root_path (from_prd_path ''docs/prds/...md'' []) = Inr ''docs/prds/..''"
  by code_simp

end
