(* ===== verification/History.thy ===== *)
theory History
  imports Kanban_CLI Attempts Workflow
begin

text \<open>
  What the controller concludes from a run's cards (service.py: \<open>_history\<close>,
  \<open>_frozen_baselines\<close>, the validation of completions) and the validation runs its
  store keeps (store.py). The store's tables and the boards are parts of a world
  \<open>'w\<close>; GitLab's checks are parameters.
\<close>

section \<open>Validation runs\<close>

record validation_row =
  va_validation_id :: string
  va_run_key :: string
  va_card_id :: string
  va_validator :: string
  va_validator_version :: string
  va_input_digest :: string
  va_result_digest :: string
  va_passed :: bool
  va_error_codes :: string
  va_timing_json :: string
  va_created_at :: int

text \<open>\<open>uuid\<close> is the fresh id; the run's row must exist (foreign key).\<close>

definition record_validation ::
  "string \<Rightarrow> int \<Rightarrow> (string \<Rightarrow> bool) \<Rightarrow> string \<Rightarrow> string \<Rightarrow> DeterministicCheck \<Rightarrow> (string \<times> int) list \<Rightarrow>
   (validation_row list, string) op" where
  "record_validation uuid now known_run run_key card_id check timing = connect (\<lambda>tbl.
     if uuid \<in> va_validation_id ` set tbl
     then (Inl (DatabaseError ''UNIQUE constraint failed: validation_runs.validation_id''), tbl)
     else if \<not> known_run run_key then (Inl (DatabaseError ''FOREIGN KEY constraint failed''), tbl)
     else (Inr uuid, tbl @ [\<lparr>va_validation_id = uuid, va_run_key = run_key, va_card_id = card_id,
       va_validator = dc_validator check, va_validator_version = dc_validator_version check,
       va_input_digest = dc_input_digest check, va_result_digest = dc_result_digest check,
       va_passed = dc_passed check, va_error_codes = dumps compact (JList (map JStr (dc_error_codes check))),
       va_timing_json = dumps compact (JObj (order_by fst (map (map_prod (\<lambda>k. k) JInt) timing))),
       va_created_at = now\<rparr>]))"

definition validation_runs ::
  "validation_row list \<Rightarrow> string \<Rightarrow> string option \<Rightarrow> (validation_row \<times> json option) list" where
  "validation_runs tbl run_key card_id = map (\<lambda>r. (r, loads (va_error_codes r)))
     (order_by (\<lambda>r. (va_created_at r, va_validation_id r))
       (filter (\<lambda>r. va_run_key r = run_key \<and> (case card_id of None \<Rightarrow> True | Some c \<Rightarrow> va_card_id r = c)) tbl))"

definition accepted_check :: "DeterministicCheck \<Rightarrow> validation_row \<times> json option \<Rightarrow> bool" where
  "accepted_check check e \<longleftrightarrow> (case e of (r, codes) \<Rightarrow>
     va_validator r = dc_validator check \<and> va_validator_version r = dc_validator_version check \<and>
     va_input_digest r = dc_input_digest check \<and> va_result_digest r = dc_result_digest check \<and>
     va_passed r = dc_passed check \<and> codes = Some (JList (map JStr (dc_error_codes check))))"

section \<open>The history of a run\<close>

record HistoryItem =
  hi_managed :: managed_row
  hi_task :: TaskRecord

text \<open>
  \<open>hv_binding_at\<close> is \<open>validate_delivery_binding\<close>, which returns the merge request;
  \<open>hv_gate_at\<close> is \<open>validate_semantic_gate\<close>, \<open>hv_baseline_at\<close> \<open>validate_baseline_at_ref\<close>.
\<close>

record 'w history_env =
  hv_kanban :: "'w kanban_env"
  hv_json :: record_json
  hv_validate :: "json \<Rightarrow> CompletionMetadata res"
  hv_load_binding :: "string \<Rightarrow> DeliveryBinding option"
  hv_cards :: "'w \<Rightarrow> cards_db"
  hv_validations :: "'w \<Rightarrow> validation_row list"
  hv_binding_at :: "RunRecord \<Rightarrow> DeliveryBinding \<Rightarrow> ('w, (string \<times> json) list) op"
  hv_gate_at :: "RunRecord \<Rightarrow> CompletionMetadata \<Rightarrow> ('w, unit) op"
  hv_baseline_at :: "RunRecord \<Rightarrow> ArtifactBaseline \<Rightarrow> string \<Rightarrow> ('w, unit) op"
  hv_sha256 :: "string \<Rightarrow> string"
  hv_time :: "'w \<Rightarrow> rat"
  hv_config :: ControllerConfig

definition is_work :: "HistoryItem \<Rightarrow> bool" where
  "is_work item \<longleftrightarrow> mc_purpose (hi_managed item) = ''work''"

definition item_body :: "'w history_env \<Rightarrow> HistoryItem \<Rightarrow> CardRecord res" where
  "item_body env item = parse_card_body (hv_json env) (tk_body (hi_task item))"

definition verify_work :: "record_json \<Rightarrow> TaskRecord \<Rightarrow> CardRecord \<Rightarrow> unit res" where
  "verify_work j t c =
     (if tk_created_by t \<noteq> Some ''hollysys-controller'' \<or>
         tk_idempotency_key t \<noteq> Some (cr_idempotency_key c) \<or> tk_tenant t \<noteq> Some (rr_run_key (cr_run c)) \<or>
         tk_assignee t \<noteq> Some (cr_assignee c) \<or> tk_parents t \<noteq> [cr_parent_card_id c] \<or>
         sort (tk_skills t) \<noteq> sort (cr_skills c)
      then Inl (ValueError (''created card '' @ tk_id t @ '' does not match controller intent''))
      else case parse_card_body j (tk_body t) of
        Inl e \<Rightarrow> Inl e
      | Inr parsed \<Rightarrow> if parsed \<noteq> c
          then Inl (ValueError (''created card '' @ tk_id t @ '' body changed during creation'')) else Inr ())"

definition verify_root :: "record_json \<Rightarrow> TaskRecord \<Rightarrow> RunRecord \<Rightarrow> unit res" where
  "verify_root j t run =
     (let bad = Inl (ValueError (''created run root '' @ tk_id t @ '' does not match intent'')) in
      if tk_created_by t \<noteq> Some ''hollysys-controller'' \<or>
         tk_idempotency_key t \<noteq> Some (rr_run_key run @ '':run-init'') \<or>
         tk_tenant t \<noteq> Some (rr_run_key run) \<or> tk_parents t \<noteq> []
      then bad
      else case parse_run_body j (tk_body t) of Inl e \<Rightarrow> Inl e | Inr r \<Rightarrow> if r \<noteq> run then bad else Inr ())"

definition read_item :: "'w history_env \<Rightarrow> managed_row \<Rightarrow> HistoryItem list \<Rightarrow> ('w, HistoryItem list) op" where
  "read_item env c items = then_do (task (hv_kanban env) (mc_board c) (mc_card_id c)) (\<lambda>t. case t of
     None \<Rightarrow> checked (Inl (PyRuntimeError (''managed card disappeared: '' @ mc_card_id c)))
   | Some x \<Rightarrow> give (items @ [\<lparr>hi_managed = c, hi_task = x\<rparr>]))"

definition verify_item :: "'w history_env \<Rightarrow> RunRecord \<Rightarrow> HistoryItem \<Rightarrow> unit res" where
  "verify_item env run item =
     (let m = hi_managed item in
      if \<not> is_work item then Inr ()
      else case item_body env item of
        Inl e \<Rightarrow> Inl e
      | Inr c \<Rightarrow>
          if cr_run c \<noteq> run \<or> stage_value (cr_stage c) \<noteq> mc_stage m \<or> cr_iteration c \<noteq> mc_iteration m \<or>
             cr_idempotency_key c \<noteq> mc_idempotency_key m \<or> Some (cr_parent_card_id c) \<noteq> mc_parent_card_id m
          then Inl (ValueError (''managed card '' @ tk_id (hi_task item) @ '' body was modified''))
          else verify_work (hv_json env) (hi_task item) c)"

definition history :: "'w history_env \<Rightarrow> string \<Rightarrow> ('w, HistoryItem list \<times> RunRecord) op" where
  "history env run_key =
     then_do (read_state (\<lambda>w. cards_for_run (hv_cards env w) run_key)) (\<lambda>cards.
       if cards = [] then checked (Inl (ValueError (''unknown run '' @ run_key)))
       else then_do (fold_do (read_item env) cards []) (\<lambda>items.
         case find (\<lambda>item. mc_purpose (hi_managed item) = ''root'') items of
           None \<Rightarrow> checked (Inl (PyRuntimeError (''run '' @ run_key @ '' has no managed root'')))
         | Some r \<Rightarrow>
             then_do (checked (parse_run_body (hv_json env) (tk_body (hi_task r)))) (\<lambda>run.
             then_do (checked (verify_root (hv_json env) (hi_task r) run)) (\<lambda>_.
               if mc_run_key (hi_managed r) \<noteq> rr_run_key run
               then checked (Inl (ValueError (''managed run root '' @ tk_id (hi_task r) @ '' was modified'')))
               else then_do (for_each (\<lambda>item. checked (verify_item env run item)) items) (\<lambda>_.
                 give (items, run))))))"

definition delivery_mr :: "'w history_env \<Rightarrow> RunRecord \<Rightarrow> ('w, (string \<times> json) list option) op" where
  "delivery_mr env run =
     then_do (\<lambda>w. (delivery_binding (hv_load_binding env) (cd_runs (hv_cards env w)) (rr_run_key run), w)) (\<lambda>binding.
       case binding of None \<Rightarrow> give None
       | Some b \<Rightarrow> then_do (hv_binding_at env run b) (\<lambda>mr. give (Some mr)))"

section \<open>Counting attempts\<close>

definition protocol_marker :: string where
  "protocol_marker = ''[controller-protocol-error:v4]''"

definition protocol_marked :: "HistoryItem \<Rightarrow> bool" where
  "protocol_marked item \<longleftrightarrow> list_ex (\<lambda>c. contains_str protocol_marker (hc_body c)) (tk_comments (hi_task item))"

text \<open>A dict from stages to counts, read with \<open>get(stage, 0)\<close>; \<open>Stage(value)\<close> may raise.\<close>

fun count_stages :: "(HistoryItem \<Rightarrow> bool) \<Rightarrow> HistoryItem list \<Rightarrow> (Stage \<Rightarrow> int) res" where
  "count_stages counted [] = Inr (\<lambda>_. 0)"
| "count_stages counted (item # items) =
     (if \<not> counted item then count_stages counted items
      else case stage_of_value (mc_stage (hi_managed item)) of
        None \<Rightarrow> Inl (ValueError ''not a valid Stage'')
      | Some s \<Rightarrow> (case count_stages counted items of Inl e \<Rightarrow> Inl e | Inr n \<Rightarrow> Inr (n(s := n s + 1))))"

definition attempts_by_stage :: "HistoryItem list \<Rightarrow> (Stage \<Rightarrow> int) res" where
  "attempts_by_stage items =
     (if list_ex (\<lambda>item. is_work item \<and> stage_of_value (mc_stage (hi_managed item)) = None) items
      then Inl (ValueError ''not a valid Stage'')
      else count_stages (\<lambda>item. is_work item \<and> \<not> protocol_marked item) items)"

definition protocol_failures_by_stage :: "HistoryItem list \<Rightarrow> (Stage \<Rightarrow> int) res" where
  "protocol_failures_by_stage items = count_stages (\<lambda>item. is_work item \<and> protocol_marked item) items"

definition item_metadata :: "'w history_env \<Rightarrow> HistoryItem \<Rightarrow> CompletionMetadata res" where
  "item_metadata env item = validate_persisted_completion_metadata (hv_validate env)
     (case tk_latest_metadata (hi_task item) of None \<Rightarrow> JNull | Some v \<Rightarrow> v)"

text \<open>\<open>except ValueError\<close> (pydantic's ValidationError is one) and
  \<open>except (ValidationError, ValueError, TypeError)\<close>.\<close>

fun is_value_error :: "ctl_error \<Rightarrow> bool" where
  "is_value_error (ValueError _) = True"
| "is_value_error (CheckedHeadConflict _) = True"
| "is_value_error (SupervisorRequestError _) = True"
| "is_value_error _ = False"

fun is_type_error :: "ctl_error \<Rightarrow> bool" where
  "is_type_error (PyTypeError _) = True"
| "is_type_error _ = False"

definition malformed :: "ctl_error \<Rightarrow> bool" where
  "malformed e \<longleftrightarrow> is_value_error e \<or> is_type_error e"

text \<open>Reading the metadata of an item: \<open>None\<close> where the loop continues.\<close>

definition readable_metadata :: "'w history_env \<Rightarrow> HistoryItem \<Rightarrow> CompletionMetadata option res" where
  "readable_metadata env item = (case item_metadata env item of
     Inl e \<Rightarrow> if malformed e then Inr None else Inl e | Inr md \<Rightarrow> Inr (Some md))"

definition review_candidate :: "HistoryItem \<Rightarrow> bool" where
  "review_candidate item \<longleftrightarrow> is_work item \<and>
     mc_stage (hi_managed item) \<in> stage_value ` {SPEC_REVIEW, PLAN_REVIEW, TASKS_REVIEW} \<and>
     tk_status (hi_task item) = ''done'' \<and> \<not> protocol_marked item"

fun review_attempts_by_stage :: "'w history_env \<Rightarrow> HistoryItem list \<Rightarrow> (Stage \<Rightarrow> int) res" where
  "review_attempts_by_stage env [] = Inr (\<lambda>_. 0)"
| "review_attempts_by_stage env (item # items) =
     (if \<not> review_candidate item then review_attempts_by_stage env items
      else case readable_metadata env item of
        Inl e \<Rightarrow> Inl e
      | Inr md \<Rightarrow>
         if md = None \<or> map_option cm_outcome md = Some CANCELLED then review_attempts_by_stage env items
         else case stage_of_value (mc_stage (hi_managed item)) of
           None \<Rightarrow> Inl (ValueError ''not a valid Stage'')
         | Some s \<Rightarrow> (case review_attempts_by_stage env items of Inl e \<Rightarrow> Inl e | Inr n \<Rightarrow> Inr (n(s := n s + 1))))"

definition document_round :: "'w history_env \<Rightarrow> HistoryItem list \<Rightarrow> Stage \<Rightarrow> bool \<Rightarrow> int option res" where
  "document_round env items stage accepted_completion =
     (let is_review = (DOCUMENT_REVIEW_FOR_PRODUCER stage = None \<and> stage \<in> {SPEC_REVIEW, PLAN_REVIEW, TASKS_REVIEW});
          review_stage = (if is_review then Some stage else DOCUMENT_REVIEW_FOR_PRODUCER stage)
      in case review_stage of
        None \<Rightarrow> Inr None
      | Some s \<Rightarrow> (case review_attempts_by_stage env items of
          Inl e \<Rightarrow> Inl e
        | Inr n \<Rightarrow>
            (let used = (if is_review \<and> accepted_completion then n s else n s + 1)
             in Inr (Some (min (cf_document_review_limit (hv_config env)) (max 1 used))))))"

end
