(* ===== verification/Completion_Checks.thy ===== *)
theory Completion_Checks
  imports History
begin

text \<open>
  When the controller believes a completion (service.py): it must be bound to its card,
  run, merge request and recomputed checks; a document becomes a frozen baseline only
  through such a completion; a finalization must cite the review that exhausted the limit.
\<close>

section \<open>Identity\<close>

text \<open>The keys the completion must agree on with the run and its card, in sorted order.\<close>

definition identity_checks ::
  "RunRecord \<Rightarrow> CardRecord \<Rightarrow> HistoryItem \<Rightarrow> CompletionMetadata \<Rightarrow> (bool \<times> string) list" where
  "identity_checks run c item md =
     [(cm_branch md = wf_branch (rr_workspace run), ''branch''),
      (cm_checkout md = wf_checkout (rr_workspace run), ''checkout''),
      (cm_context_digest md = cr_context_digest c, ''context_digest''),
      (cm_head_before_sha md = cr_expected_head_sha c, ''head_before_sha''),
      (cm_iteration md = mc_iteration (hi_managed item), ''iteration''),
      (cm_kanban_card_id md = tk_id (hi_task item), ''kanban_card_id''),
      (cm_mode md = cr_mode c, ''mode''),
      (cm_prd_blob_sha md = sf_prd_blob_sha (rr_source run), ''prd_blob_sha''),
      (cm_prd_commit_sha md = sf_prd_commit_sha (rr_source run), ''prd_commit_sha''),
      (cm_prd_mr_url md = sf_prd_mr_url (rr_source run), ''prd_mr_url''),
      (cm_prd_path md = sf_prd_path (rr_source run), ''prd_path''),
      (cm_project_id md = pf_project_id (rr_project run), ''project_id''),
      (cm_project_path md = pf_project_path (rr_project run), ''project_path''),
      (cm_run_generation md = rr_run_generation run, ''run_generation''),
      (cm_run_key md = rr_run_key run, ''run_key''),
      (cm_source_key md = rr_source_key run, ''source_key''),
      (stage_value (cm_stage md) = mc_stage (hi_managed item), ''stage''),
      (cm_target_branch md = wf_target_branch (rr_workspace run), ''target_branch''),
      (cm_worktree md = wf_worktree (rr_workspace run), ''worktree'')]"

definition mismatches :: "(bool \<times> string) list \<Rightarrow> string list" where
  "mismatches checks = map snd (filter (\<lambda>c. \<not> fst c) checks)"

definition binding_error :: "DeliveryBinding option \<Rightarrow> CompletionMetadata \<Rightarrow> string option" where
  "binding_error binding md = (case binding of
     Some b \<Rightarrow> if cm_mr_iid md \<noteq> Some (db_mr_iid b) \<or> cm_mr_url md \<noteq> Some (db_mr_url b)
       then Some ''completion MR does not match persisted delivery binding'' else None
   | None \<Rightarrow> if cm_mr_iid md \<noteq> None \<or> cm_mr_url md \<noteq> None
       then Some ''completion references an unbound delivery MR'' else None)"

definition read_binding :: "'w history_env \<Rightarrow> RunRecord \<Rightarrow> ('w, DeliveryBinding option) op" where
  "read_binding env run w = (delivery_binding (hv_load_binding env) (cd_runs (hv_cards env w)) (rr_run_key run), w)"

definition raise_text :: "string option \<Rightarrow> unit res" where
  "raise_text e = (case e of None \<Rightarrow> Inr () | Some m \<Rightarrow> Inl (ValueError m))"

definition checks_recomputed ::
  "'w history_env \<Rightarrow> RunRecord \<Rightarrow> HistoryItem \<Rightarrow> CompletionMetadata \<Rightarrow> 'w \<Rightarrow> bool" where
  "checks_recomputed env run item md w \<longleftrightarrow>
     (let persisted = validation_runs (hv_validations env w) (rr_run_key run) (Some (tk_id (hi_task item)))
      in list_all (\<lambda>check. list_ex (accepted_check check) persisted) (cm_deterministic_checks md))"

definition validate_completion_identity ::
  "'w history_env \<Rightarrow> RunRecord \<Rightarrow> HistoryItem \<Rightarrow> CompletionMetadata \<Rightarrow> ('w, unit) op" where
  "validate_completion_identity env run item md =
     then_do (checked (item_body env item)) (\<lambda>c.
     then_do (checked (case mismatches (identity_checks run c item md) of [] \<Rightarrow> Inr ()
        | ms \<Rightarrow> Inl (ValueError (''completion context mismatch: '' @ separated '', '' ms)))) (\<lambda>_.
     then_do (read_binding env run) (\<lambda>binding.
     then_do (checked (raise_text (binding_error binding md))) (\<lambda>_.
     then_do (read_state (checks_recomputed env run item md)) (\<lambda>ok.
     then_do (checked (if ok then Inr ()
        else Inl (ValueError ''deterministic check was not recomputed by Controller''))) (\<lambda>_.
     checked (case cm_repository_evidence md of
        Some e \<Rightarrow> if re_repository_base_sha e \<noteq> wf_repository_base_sha (rr_workspace run)
          then Inl (ValueError ''repository evidence is not bound to the run base commit'') else Inr ()
      | None \<Rightarrow> Inr ())))))))"

section \<open>Scope and head\<close>

text \<open>\<open>re.findall\<close> of a document path in a text, each without its trailing punctuation.\<close>

definition path_char :: "char \<Rightarrow> bool" where
  "path_char c \<longleftrightarrow> is_lower c \<or> is_upper c \<or> is_digit c \<or> c \<in> set ''._/-''"

definition rstrip :: "string \<Rightarrow> string \<Rightarrow> string" where
  "rstrip chars s = rev (dropWhile (\<lambda>c. c \<in> set chars) (rev s))"

function document_paths :: "string \<Rightarrow> string list" where
  "document_paths s = (if s = [] then []
     else let rest = drop 10 s; name = takeWhile path_char rest
       in if starts_with ''docs/prds/'' s \<and> name \<noteq> []
          then rstrip ''.,;:)]}'' (''docs/prds/'' @ name) # document_paths (drop (length name) rest)
          else document_paths (tl s))"
  by pat_completeness auto
termination by (relation "measure length") (auto simp: Let_def)

declare document_paths.simps [simp del]

definition outside_scope :: "RunRecord \<Rightarrow> CompletionMetadata \<Rightarrow> string list" where
  "outside_scope run md = order_by (\<lambda>p. p) (remdups (filter
     (\<lambda>p. p \<noteq> sf_prd_path (rr_source run) \<and> \<not> starts_with (as_root_path (rr_artifact_scope run) @ ''/'') p)
     (concat (map document_paths (cm_issues md)))))"

definition review_scope_error :: "RunRecord \<Rightarrow> CompletionMetadata \<Rightarrow> string option" where
  "review_scope_error run md =
     (if cm_stage md \<in> {SPEC_REVIEW, PLAN_REVIEW, TASKS_REVIEW} \<and> cm_outcome md = FAIL \<and> outside_scope run md \<noteq> []
      then Some (''review findings reference documents outside current PRD scope; '' @
        ''report them as observations in a separate run: '' @ separated '', '' (outside_scope run md))
      else None)"

text \<open>\<open>str(mr.get("sha") or "")\<close>\<close>

definition mr_head :: "'w history_env \<Rightarrow> (string \<times> json) list \<Rightarrow> string" where
  "mr_head env mr = (case map_of mr ''sha'' of
     Some v \<Rightarrow> if truthy_json v then json_text (ke_str (hv_kanban env)) v else [] | None \<Rightarrow> [])"

definition validate_completion_context ::
  "'w history_env \<Rightarrow> RunRecord \<Rightarrow> HistoryItem \<Rightarrow> CompletionMetadata \<Rightarrow> bool \<Rightarrow> ('w, unit) op" where
  "validate_completion_context env run item md require_current_head =
     then_do (validate_completion_identity env run item md) (\<lambda>_.
     then_do (checked (raise_text (review_scope_error run md))) (\<lambda>_.
     then_do (read_binding env run) (\<lambda>binding. case binding of
       None \<Rightarrow> give ()
     | Some b \<Rightarrow> then_do (hv_binding_at env run b) (\<lambda>mr.
         if require_current_head \<and> cm_head_sha md \<noteq> None \<and> cm_head_sha md \<noteq> Some (mr_head env mr)
         then checked (Inl (ValueError ''completion head is not the bound current MR head''))
         else give ()))))"

section \<open>Frozen baselines\<close>

text \<open>Phase, producer and reviewer.\<close>

definition phase_contracts :: "(string \<times> Stage \<times> Stage) list" where
  "phase_contracts = [(''spec'', SPEC_WRITE, SPEC_REVIEW), (''plan'', PLAN_WRITE, PLAN_REVIEW),
     (''tasks'', TASKS_WRITE, TASKS_REVIEW)]"

definition freezes :: "Stage \<Rightarrow> Stage \<Rightarrow> CompletionMetadata \<Rightarrow> bool" where
  "freezes producer reviewer md \<longleftrightarrow>
     cm_stage md = reviewer \<and> cm_outcome md = PASS \<and> cm_baseline_disposition md = Some REVIEWED \<or>
     cm_stage md = producer \<and> cm_mode md = FINALIZATION \<and> cm_outcome md = PASS \<and>
       cm_baseline_disposition md = Some FORCED_AFTER_REVIEW_LIMIT"

definition freeze_candidate ::
  "'w history_env \<Rightarrow> RunRecord \<Rightarrow> Stage \<Rightarrow> Stage \<Rightarrow> HistoryItem \<Rightarrow> CompletionMetadata option \<Rightarrow>
   ('w, CompletionMetadata option) op" where
  "freeze_candidate env run producer reviewer item candidate =
     (if \<not> is_work item \<or> tk_status (hi_task item) \<noteq> ''done'' \<or>
         mc_stage (hi_managed item) \<notin> {stage_value producer, stage_value reviewer}
      then give candidate
      else try_do
        (then_do (checked (item_metadata env item)) (\<lambda>md.
         then_do (validate_completion_context env run item md False) (\<lambda>_. give md)))
        (\<lambda>e. if malformed e then give candidate else checked (Inl e))
        (\<lambda>md. give (if freezes producer reviewer md then Some md else candidate)))"

text \<open>\<open>ArtifactBaseline(...)\<close>\<close>

definition make_baseline :: "ArtifactBaseline \<Rightarrow> ArtifactBaseline res" where
  "make_baseline b = (if baseline_fields b then Inr b else Inl (ValueError ''validation error for ArtifactBaseline''))"

definition decision_urls_of :: "CompletionMetadata \<Rightarrow> string list" where
  "decision_urls_of md = cm_gitlab_urls md @ (case cm_forced_advance md of
     Some f \<Rightarrow> if fa_decision_url f \<in> set (cm_gitlab_urls md) then [] else [fa_decision_url f] | None \<Rightarrow> [])"

definition baseline_of :: "string \<Rightarrow> CompletionMetadata \<Rightarrow> ArtifactBaseline res" where
  "baseline_of phase md = (case (cm_artifact_digest md, cm_artifact_commit_sha md, cm_baseline_disposition md) of
     (Some digest, Some commit, Some disposition) \<Rightarrow>
       if digest = [] \<or> commit = [] then Inl (PyAssertionError [])
       else make_baseline \<lparr>bl_phase = phase, bl_disposition = disposition, bl_artifact_paths = cm_artifact_paths md,
         bl_artifact_digest = digest, bl_artifact_commit_sha = commit, bl_source_card_id = cm_kanban_card_id md,
         bl_decision_urls = decision_urls_of md, bl_key_decisions = cm_key_decisions md,
         bl_unresolved_findings = (case cm_forced_advance md of Some f \<Rightarrow> fa_unresolved_findings f | None \<Rightarrow> []),
         bl_residual_risk = cm_residual_risk md\<rparr>
   | _ \<Rightarrow> Inl (PyAssertionError []))"

fun frozen_phases ::
  "'w history_env \<Rightarrow> HistoryItem list \<Rightarrow> RunRecord \<Rightarrow> (string \<times> Stage \<times> Stage) list \<Rightarrow> ArtifactBaseline list \<Rightarrow>
   ('w, ArtifactBaseline list) op" where
  "frozen_phases env items run [] baselines = give baselines"
| "frozen_phases env items run ((phase, producer, reviewer) # contracts) baselines =
     then_do (fold_do (freeze_candidate env run producer reviewer) items None) (\<lambda>candidate. case candidate of
       None \<Rightarrow> give baselines
     | Some md \<Rightarrow> then_do (checked (baseline_of phase md)) (\<lambda>b.
         frozen_phases env items run contracts (baselines @ [b])))"

text \<open>\<open>next\<close> without a root raises StopIteration; \<open>_history\<close> has checked that there is one.\<close>

definition prd_baseline :: "'w history_env \<Rightarrow> HistoryItem list \<Rightarrow> RunRecord \<Rightarrow> ArtifactBaseline res" where
  "prd_baseline env items run = (case find (\<lambda>item. mc_purpose (hi_managed item) = ''root'') items of
     None \<Rightarrow> Inl (PyRuntimeError ''StopIteration'')
   | Some r \<Rightarrow> make_baseline \<lparr>bl_phase = ''prd'', bl_disposition = SOURCE,
       bl_artifact_paths = [sf_prd_path (rr_source run)],
       bl_artifact_digest = hv_sha256 env (sf_prd_path (rr_source run) @ [CHR 0x00] @
         sf_prd_blob_sha (rr_source run) @ [CHR 0x0A]),
       bl_artifact_commit_sha = sf_prd_commit_sha (rr_source run), bl_source_card_id = tk_id (hi_task r),
       bl_decision_urls = [], bl_key_decisions = [], bl_unresolved_findings = [], bl_residual_risk = []\<rparr>)"

definition frozen_baselines ::
  "'w history_env \<Rightarrow> HistoryItem list \<Rightarrow> RunRecord \<Rightarrow> ('w, ArtifactBaseline list) op" where
  "frozen_baselines env items run =
     then_do (checked (prd_baseline env items run)) (\<lambda>prd. frozen_phases env items run phase_contracts [prd])"

fun first_violation ::
  "'w history_env \<Rightarrow> RunRecord \<Rightarrow> string \<Rightarrow> ArtifactBaseline list \<Rightarrow> ('w, string option) op" where
  "first_violation env run ref [] = give None"
| "first_violation env run ref (b # bs) = try_do (hv_baseline_at env run b ref)
     (\<lambda>e. if is_value_error e then give (Some (bl_phase b @ '': '' @ error_message e)) else checked (Inl e))
     (\<lambda>_. first_violation env run ref bs)"

definition frozen_violation ::
  "'w history_env \<Rightarrow> RunRecord \<Rightarrow> HistoryItem list \<Rightarrow> string \<Rightarrow> ('w, string option) op" where
  "frozen_violation env run items ref =
     then_do (frozen_baselines env items run) (first_violation env run ref)"

section \<open>Attempts, gates and finalization\<close>

definition validate_worker_attempt :: "'w history_env \<Rightarrow> HistoryItem \<Rightarrow> ('w, unit) op" where
  "validate_worker_attempt env item w =
     (case card_runtime (hv_cards env w) (mc_board (hi_managed item)) (mc_card_id (hi_managed item)) of
        None \<Rightarrow> (Inr (), w)
      | Some r \<Rightarrow> (case or_text (rt_worker_session_id r) of
          None \<Rightarrow> (Inr (), w)
        | Some session \<Rightarrow>
            if (case tk_latest_metadata (hi_task item) of Some (JObj kvs) \<Rightarrow> map_of kvs ''worker_session_id'' | _ \<Rightarrow> None)
               = Some (JStr session)
            then (Inr (), w)
            else (Inl (ValueError ''completion worker_session_id does not match current attempt''), w)))"

definition binds_baseline :: "CompletionMetadata \<Rightarrow> ArtifactBaseline \<Rightarrow> bool" where
  "binds_baseline md b \<longleftrightarrow> bl_phase b = ''tasks'' \<and> bl_artifact_paths b = sort (cm_gate_artifact_paths md) \<and>
     Some (bl_artifact_commit_sha b) = cm_gate_artifact_commit_sha md \<and>
     Some (bl_artifact_digest b) = cm_gate_artifact_digest md"

definition gate_artifact_error :: "'w history_env \<Rightarrow> HistoryItem \<Rightarrow> CompletionMetadata \<Rightarrow> unit res" where
  "gate_artifact_error env item md =
     (if cm_stage md = TASKS_REVIEW
      then if sort (cm_gate_artifact_paths md) \<noteq> sort (cm_artifact_paths md) \<or>
              cm_gate_artifact_commit_sha md \<noteq> cm_artifact_commit_sha md \<or>
              cm_gate_artifact_digest md \<noteq> cm_artifact_digest md
           then Inl (ValueError ''implementation_entry gate must bind the reviewed TASKS artifact'') else Inr ()
      else case item_body env item of
        Inl e \<Rightarrow> Inl e
      | Inr c \<Rightarrow> if length (filter (binds_baseline md) (cr_frozen_baselines c)) \<noteq> 1
          then Inl (ValueError ''semantic gate must bind exactly one frozen TASKS baseline'') else Inr ())"

definition validate_semantic_gate ::
  "'w history_env \<Rightarrow> RunRecord \<Rightarrow> HistoryItem \<Rightarrow> CompletionMetadata \<Rightarrow> ('w, unit) op" where
  "validate_semantic_gate env run item md =
     (if cm_gate_phase md = None then give ()
      else then_do (read_state (hv_time env)) (\<lambda>now.
        if (case cm_gate_reviewed_at md of None \<Rightarrow> True | Some t \<Rightarrow> of_int (dt_epoch t) > now + 300)
        then checked (Inl (ValueError ''gate reviewed_at is missing or in the future''))
        else then_do (checked (gate_artifact_error env item md)) (\<lambda>_. hv_gate_at env run md)))"

definition validate_gate_reviewer :: "CompletionMetadata \<Rightarrow> string \<Rightarrow> unit res" where
  "validate_gate_reviewer md gate_author =
     (if cm_gate_reviewer md \<noteq> None \<and> cm_gate_reviewer md \<noteq> Some gate_author
      then Inl (ValueError ''semantic gate reviewer does not match GitLab gate author'') else Inr ())"

definition limits_cited :: "int \<Rightarrow> RepairContext \<Rightarrow> ForcedAdvance \<Rightarrow> bool" where
  "limits_cited limit p f \<longleftrightarrow> rp_review_attempt p = Some limit \<and> rp_review_limit p = Some limit \<and>
     fa_review_limit f = limit \<and> fa_final_review_card_id f = rp_trigger_card_id p"

text \<open>The checks of a finalization against the review \<open>r\<close> it cites, at \<open>index\<close> of the history.\<close>

definition final_review_error ::
  "'w history_env \<Rightarrow> HistoryItem list \<Rightarrow> CompletionMetadata \<Rightarrow> ForcedAdvance \<Rightarrow> HistoryItem \<Rightarrow> nat \<Rightarrow> unit res" where
  "final_review_error env items md f r index = (case item_metadata env r of
     Inl e \<Rightarrow> Inl e
   | Inr review \<Rightarrow> (case DOCUMENT_REVIEW_FOR_PRODUCER (cm_stage md) of
       None \<Rightarrow> Inl (PyKeyError (stage_value (cm_stage md)))
     | Some expected \<Rightarrow> (case review_attempts_by_stage env (take (index + 1) items) of
         Inl e \<Rightarrow> Inl e
       | Inr n \<Rightarrow> first_error
           [(mc_stage (hi_managed r) \<noteq> stage_value expected \<or> cm_stage review \<noteq> expected \<or>
               cm_outcome review \<noteq> FAIL \<or> n expected \<noteq> cf_document_review_limit (hv_config env),
             ''finalization source is not the third valid failed review''),
            (fa_final_review_url f \<notin> set (cm_gitlab_urls review), ''final_review_url is not evidence from the third review''),
            (fa_decision_url f \<notin> set (cm_gitlab_urls md), ''decision_url must also appear in gitlab_urls'')])))"

definition validate_finalization_context ::
  "'w history_env \<Rightarrow> HistoryItem list \<Rightarrow> HistoryItem \<Rightarrow> CompletionMetadata \<Rightarrow> unit res" where
  "validate_finalization_context env items item md =
     (if cm_mode md \<noteq> FINALIZATION then Inr ()
      else case item_body env item of
        Inl e \<Rightarrow> Inl e
      | Inr c \<Rightarrow> (case (cr_repair_context c, cm_forced_advance md) of
          (Some p, Some f) \<Rightarrow>
            if rp_kind p \<noteq> REVIEW_FAILURE
            then Inl (ValueError ''finalization card is missing review failure context'')
            else if \<not> limits_cited (cf_document_review_limit (hv_config env)) p f
            then Inl (ValueError ''finalization review-limit evidence does not match card'')
            else (case find (\<lambda>x. tk_id (hi_task x) = rp_trigger_card_id p) items of
                None \<Rightarrow> Inl (ValueError ''finalization source review card was not found'')
              | Some r \<Rightarrow> final_review_error env items md f r
                  (length (takeWhile (\<lambda>x. tk_id (hi_task x) \<noteq> rp_trigger_card_id p) items)))
        | _ \<Rightarrow> Inl (ValueError ''finalization card is missing review failure context'')))"

section \<open>The latest relevant gate\<close>

text \<open>The position after the last work item of the producer, 0 without one.\<close>

definition after_producer :: "HistoryItem list \<Rightarrow> Stage \<Rightarrow> nat" where
  "after_producer items producer = length items - length (takeWhile
     (\<lambda>item. \<not> (mc_stage (hi_managed item) = stage_value producer \<and> is_work item)) (rev items))"

fun latest_in :: "'w history_env \<Rightarrow> Stage \<Rightarrow> Outcome set \<Rightarrow> HistoryItem list \<Rightarrow> CompletionMetadata option res" where
  "latest_in env stage outcomes [] = Inr None"
| "latest_in env stage outcomes (item # items) =
     (if mc_stage (hi_managed item) \<noteq> stage_value stage \<or> tk_status (hi_task item) \<noteq> ''done''
      then latest_in env stage outcomes items
      else case readable_metadata env item of
        Inl e \<Rightarrow> Inl e
      | Inr (Some md) \<Rightarrow> if cm_outcome md \<in> outcomes then Inr (Some md) else latest_in env stage outcomes items
      | Inr None \<Rightarrow> latest_in env stage outcomes items)"

text \<open>The table of producers of this function is the one of the workflow's reviews.\<close>

definition latest_valid_completion ::
  "'w history_env \<Rightarrow> HistoryItem list \<Rightarrow> Stage \<Rightarrow> Outcome set \<Rightarrow> CompletionMetadata option res" where
  "latest_valid_completion env items stage outcomes = (case PRODUCER_FOR_REVIEW stage of
     None \<Rightarrow> Inl (PyKeyError (stage_value stage))
   | Some producer \<Rightarrow> latest_in env stage outcomes (rev (drop (after_producer items producer) items)))"

definition latest_valid_pass :: "'w history_env \<Rightarrow> HistoryItem list \<Rightarrow> Stage \<Rightarrow> CompletionMetadata option res" where
  "latest_valid_pass env items stage = latest_valid_completion env items stage {PASS}"

definition counts_version :: "'w history_env \<Rightarrow> HistoryItem \<Rightarrow> int \<Rightarrow> ('w, int) op" where
  "counts_version env item versions =
     (if \<not> is_work item \<or> mc_stage (hi_managed item) \<noteq> stage_value IMPLEMENT \<or> tk_status (hi_task item) \<noteq> ''done''
      then give versions
      else then_do (read_state (\<lambda>w. card_runtime (hv_cards env w) (mc_board (hi_managed item)) (mc_card_id (hi_managed item))))
        (\<lambda>runtime. if map_option rt_attempt_status runtime \<noteq> Some ''completed_accepted'' then give versions
          else try_do (then_do (checked (item_metadata env item)) (\<lambda>md.
              then_do (checked (item_body env item)) (\<lambda>c.
              then_do (validate_completion_identity env (cr_run c) item md) (\<lambda>_. give md))))
            (\<lambda>e. if malformed e then give versions else checked (Inl e))
            (\<lambda>md. give (if cm_outcome md = PASS then versions + 1 else versions))))"

definition code_modification_count :: "'w history_env \<Rightarrow> HistoryItem list \<Rightarrow> ('w, int) op" where
  "code_modification_count env items =
     then_do (fold_do (counts_version env) items 0) (\<lambda>versions. give (max 0 (versions - 1)))"

end
