(* ===== verification/History_Properties.thy ===== *)
theory History_Properties
  imports Completion_Checks Effects Workflow_Properties
begin

text \<open>What freezes a document, and what the counters of a run's history mean.\<close>

section \<open>Frozen baselines\<close>

text \<open>The completion of a done card of the run, accepted as bound to it, that passed or was forced.\<close>

definition freezing_completion ::
  "'w history_env \<Rightarrow> HistoryItem list \<Rightarrow> RunRecord \<Rightarrow> Stage \<Rightarrow> Stage \<Rightarrow> CompletionMetadata \<Rightarrow> bool" where
  "freezing_completion env items run producer reviewer md \<longleftrightarrow> (\<exists>item v u. item \<in> set items \<and> is_work item \<and>
     tk_status (hi_task item) = ''done'' \<and> item_metadata env item = Inr md \<and>
     validate_completion_context env run item md False v = (Inr (), u) \<and> freezes producer reviewer md)"

definition supported :: "'w history_env \<Rightarrow> HistoryItem list \<Rightarrow> RunRecord \<Rightarrow> ArtifactBaseline \<Rightarrow> bool" where
  "supported env items run b \<longleftrightarrow> (\<exists>producer reviewer md. (bl_phase b, producer, reviewer) \<in> set phase_contracts \<and>
     freezing_completion env items run producer reviewer md \<and> baseline_of (bl_phase b) md = Inr b)"

lemma candidate_freezes:
  assumes "fold_do (freeze_candidate env run producer reviewer) items None w = (Inr (Some md), w')"
  shows "freezing_completion env items run producer reviewer md"
proof -
  let ?I = "\<lambda>c (u::'a). c = None \<or> (\<exists>md. c = Some md \<and> freezing_completion env items run producer reviewer md)"
  from assms have "?I (Some md) w'"
  proof (rule fold_do_inv [where I = ?I])
    fix item c u d v
    assume item: "item \<in> set items" and c: "?I c u"
      and step: "freeze_candidate env run producer reviewer item c u = (Inr d, v)"
    show "?I d v"
    proof (cases "d = c")
      case False
      with step obtain md' x y where "d = Some md'" "is_work item" "tk_status (hi_task item) = ''done''"
        "item_metadata env item = Inr md'" "validate_completion_context env run item md' False x = (Inr (), y)"
        "freezes producer reviewer md'"
        by (auto simp: freeze_candidate_def try_do_ok then_do_ok pure_ok split: if_splits)
      with item show ?thesis unfolding freezing_completion_def by blast
    qed (use c in simp)
  qed simp
  then show ?thesis by simp
qed

lemma make_baseline_ok: "make_baseline b = Inr c \<longleftrightarrow> b = c \<and> baseline_fields b"
  by (auto simp: make_baseline_def)

lemma baseline_of_phase: "baseline_of phase md = Inr b \<Longrightarrow> bl_phase b = phase \<and> baseline_fields b"
  by (auto simp: baseline_of_def make_baseline_ok split: option.splits if_splits)

lemma frozen_phases_supported:
  assumes "frozen_phases env items run contracts bs w = (Inr cs, w')" "set contracts \<subseteq> set phase_contracts"
  shows "\<exists>n new. cs = bs @ new \<and> map bl_phase new = take n (map fst contracts) \<and>
    list_all (\<lambda>b. supported env items run b \<and> baseline_fields b) new"
  using assms
proof (induction contracts arbitrary: bs w)
  case Nil
  then show ?case by (auto simp: pure_ok)
next
  case (Cons k contracts)
  obtain phase producer reviewer where k: "k = (phase, producer, reviewer)" by (cases k) auto
  from Cons.prems(1) obtain c u where c: "fold_do (freeze_candidate env run producer reviewer) items None w = (Inr c, u)"
    and rest: "(case c of None \<Rightarrow> give bs | Some md \<Rightarrow> then_do (checked (baseline_of phase md)) (\<lambda>b.
         frozen_phases env items run contracts (bs @ [b]))) u = (Inr cs, w')"
    by (auto simp: k then_do_ok)
  show ?case
  proof (cases c)
    case None
    with rest show ?thesis by (intro exI [of _ 0] exI [of _ "[]"]) (simp add: pure_ok)
  next
    case (Some md)
    with rest obtain b where b: "baseline_of phase md = Inr b"
      and more: "frozen_phases env items run contracts (bs @ [b]) u = (Inr cs, w')"
      by (auto simp: then_do_ok pure_ok)
    from Cons.IH [OF more] Cons.prems(2) obtain n new where new: "cs = (bs @ [b]) @ new"
      "map bl_phase new = take n (map fst contracts)" "list_all (\<lambda>b. supported env items run b \<and> baseline_fields b) new"
      by auto
    have "supported env items run b \<and> baseline_fields b"
      using candidate_freezes [OF c [unfolded Some]] baseline_of_phase [OF b] b Cons.prems(2)
      unfolding supported_def k by fastforce
    with new baseline_of_phase [OF b] show ?thesis
      by (intro exI [of _ "Suc n"] exI [of _ "b # new"]) (simp add: k)
  qed
qed

text \<open>
  C7. A document is frozen only by evidence. The baselines of a run are the PRD followed
  by the first of spec, plan and tasks, in that order and without a gap, all of them
  well-formed; and each one after the PRD has the artifact, commit and decisions of a
  completion of a done card of the run that the controller accepted as bound to run, card,
  merge request and recomputed checks, and that either passed the phase's review or was
  the producer's finalization after the review limit.
\<close>

theorem frozen_needs_evidence:
  assumes "frozen_baselines env items run w = (Inr baselines, w')"
  shows "(\<exists>n. map bl_phase baselines = ''prd'' # take n [''spec'', ''plan'', ''tasks'']) \<and>
    {b \<in> set baselines. \<not> baseline_fields b} = {} \<and>
    {b \<in> set (tl baselines). \<not> supported env items run b} = {}"
proof -
  from assms obtain prd where prd: "prd_baseline env items run = Inr prd"
    and phases: "frozen_phases env items run phase_contracts [prd] w = (Inr baselines, w')"
    by (auto simp: frozen_baselines_def then_do_ok pure_ok)
  from frozen_phases_supported [OF phases] obtain n new where "baselines = prd # new"
    "map bl_phase new = take n (map fst phase_contracts)" "list_all (\<lambda>b. supported env items run b \<and> baseline_fields b) new"
    by auto
  moreover from prd have "bl_phase prd = ''prd''" "baseline_fields prd"
    by (auto simp: prd_baseline_def make_baseline_ok split: option.splits)
  ultimately show ?thesis by (auto simp: phase_contracts_def list_all_iff)
qed

section \<open>Stale gates\<close>

lemma latest_in_ok:
  assumes "latest_in env stage outcomes items = Inr (Some md)"
  shows "\<exists>item \<in> set items. mc_stage (hi_managed item) = stage_value stage \<and> tk_status (hi_task item) = ''done'' \<and>
    item_metadata env item = Inr md \<and> cm_outcome md \<in> outcomes"
  using assms
proof (induction items)
  case (Cons item items)
  then show ?case
    by (auto simp: readable_metadata_def split: if_splits sum.splits option.splits)
qed simp

lemma no_producer_after:
  assumes "item \<in> set (drop (after_producer items producer) items)"
  shows "\<not> (mc_stage (hi_managed item) = stage_value producer \<and> is_work item)"
proof -
  let ?other = "\<lambda>item. \<not> (mc_stage (hi_managed item) = stage_value producer \<and> is_work item)"
  have "drop (length items - length (takeWhile ?other (rev items))) items = rev (takeWhile ?other (rev items))"
    by (metis (no_types, lifting) length_rev rev_rev_ident rev_take takeWhile_eq_take)
  with assms show ?thesis by (auto simp: after_producer_def dest: set_takeWhileD)
qed

text \<open>
  C8. A gate is believed only for the code it looked at: what \<open>_latest_valid_completion\<close>
  returns for a review or test is the completion of a done card of that stage which comes
  after every card of the stage it judges.
\<close>

theorem gate_follows_its_producer:
  assumes "latest_valid_completion env items stage outcomes = Inr (Some md)"
  shows "\<exists>before item after. items = before @ item # after \<and> mc_stage (hi_managed item) = stage_value stage \<and>
    tk_status (hi_task item) = ''done'' \<and> item_metadata env item = Inr md \<and> cm_outcome md \<in> outcomes \<and>
    {x \<in> set (item # after). is_work x \<and> Some (mc_stage (hi_managed x)) =
       map_option stage_value (PRODUCER_FOR_REVIEW stage)} = {}"
proof -
  from assms obtain producer where producer: "PRODUCER_FOR_REVIEW stage = Some producer"
    and latest: "latest_in env stage outcomes (rev (drop (after_producer items producer) items)) = Inr (Some md)"
    by (auto simp: latest_valid_completion_def split: option.splits)
  from latest_in_ok [OF latest] obtain item where item: "item \<in> set (drop (after_producer items producer) items)"
    "mc_stage (hi_managed item) = stage_value stage" "tk_status (hi_task item) = ''done''"
    "item_metadata env item = Inr md" "cm_outcome md \<in> outcomes" by auto
  from split_list [OF item(1)] obtain xs ys where xs: "drop (after_producer items producer) items = xs @ item # ys" by blast
  have "items = (take (after_producer items producer) items @ xs) @ item # ys"
    using append_take_drop_id [of "after_producer items producer" items] xs by simp
  moreover have "\<not> (mc_stage (hi_managed x) = stage_value producer \<and> is_work x)" if "x \<in> set (item # ys)" for x
    by (rule no_producer_after [of _ items]) (use that in \<open>auto simp: xs\<close>)
  ultimately show ?thesis using item(2-5) producer by fastforce
qed

section \<open>A small history\<close>

definition review_run :: RunRecord where
  "review_run = sample_run\<lparr>rr_source := (rr_source sample_run)\<lparr>sf_prd_commit_sha := sha_b, sf_prd_blob_sha := sha_b\<rparr>\<rparr>"

definition review_card :: CardRecord where
  "review_card = sample_work\<lparr>cr_run := review_run, cr_stage := SPEC_REVIEW, cr_iteration := 1,
     cr_context_digest := sample_digest\<rparr>"

definition review_md :: CompletionMetadata where
  "review_md = (sample_md SPEC_REVIEW NORMAL PASS)\<lparr>cm_run_key := ''hollysys-1'', cm_source_key := ''source-1'',
     cm_run_generation := ''g1'', cm_branch := ''br'', cm_mr_iid := None, cm_mr_url := None\<rparr>"

definition small_item :: "string \<Rightarrow> string \<Rightarrow> Stage \<Rightarrow> HistoryItem" where
  "small_item task_id purpose stage = \<lparr>
     hi_managed = \<lparr>mc_board = ''b'', mc_card_id = task_id, mc_run_key = ''hollysys-1'', mc_stage = stage_value stage,
       mc_iteration = 1, mc_idempotency_key = task_id, mc_parent_card_id = None, mc_purpose = purpose, mc_created_at = 1\<rparr>,
     hi_task = \<lparr>tk_id = task_id, tk_title = [], tk_body = Some (CARD_MARKER @ json_block (JObj [])),
       tk_assignee = None, tk_status = ''done'', tk_created_by = None, tk_created_at = 1, tk_completed_at = None,
       tk_idempotency_key = None, tk_tenant = None, tk_workspace_path = None, tk_branch_name = None, tk_skills = [],
       tk_current_run_id = None, tk_latest_summary = None, tk_latest_metadata = None, tk_latest_outcome = None,
       tk_parents = [], tk_comments = [], tk_event_kinds = [], tk_worker_pid = None\<rparr>\<rparr>"

definition small_history :: "HistoryItem list" where
  "small_history = [small_item ''t_0'' ''root'' SPEC_WRITE, small_item ''t_w'' ''work'' SPEC_WRITE,
     small_item ''t_1'' ''work'' SPEC_REVIEW]"

definition small_env :: "unit history_env" where
  "small_env = \<lparr>hv_kanban = \<lparr>ke_board = (\<lambda>_ w. (BoardMissing, w)), ke_spawn = (\<lambda>_ _ w. (NotStarted, w)),
       ke_loads = (\<lambda>_. None), ke_str = (\<lambda>_. [])\<rparr>,
     hv_json = sample_record_json\<lparr>validate_card_json := (\<lambda>_. Inr review_card)\<rparr>,
     hv_validate = (\<lambda>_. Inr review_md), hv_load_binding = (\<lambda>_. None),
     hv_cards = (\<lambda>_. \<lparr>cd_runs = empty_runs, managed_tbl = [], runtime_tbl = [], attempts_tbl = [], metrics_tbl = []\<rparr>),
     hv_validations = (\<lambda>_. []), hv_binding_at = (\<lambda>_ _. give []),
     hv_gate_at = (\<lambda>_ _. give ()), hv_baseline_at = (\<lambda>_ _ _. give ()), hv_sha256 = (\<lambda>_. sample_digest),
     hv_time = (\<lambda>_. 0), hv_config = sample_config\<rparr>"

text \<open>The passed review freezes the spec; plan and tasks are not frozen yet.\<close>

theorem frozen_needs_evidence_witness:
  "map_sum id (map (\<lambda>b. (bl_phase b, bl_disposition b, bl_source_card_id b)))
      (fst (frozen_baselines small_env small_history review_run ())) =
     Inr [(''prd'', SOURCE, ''t_0''), (''spec'', REVIEWED, ''t_1'')] \<and>
   (\<exists>baselines. frozen_baselines small_env small_history review_run () = (Inr baselines, ()) \<and>
     {b \<in> set (tl baselines). \<not> supported small_env small_history review_run b} = {})"
proof
  show result: "map_sum id (map (\<lambda>b. (bl_phase b, bl_disposition b, bl_source_card_id b)))
      (fst (frozen_baselines small_env small_history review_run ())) =
     Inr [(''prd'', SOURCE, ''t_0''), (''spec'', REVIEWED, ''t_1'')]"
    by code_simp
  obtain r where r: "frozen_baselines small_env small_history review_run () = (r, ())"
    by (cases "frozen_baselines small_env small_history review_run ()") simp
  with result obtain baselines where b: "r = Inr baselines" by (cases r) auto
  from frozen_needs_evidence [OF r [unfolded b]] r b
  show "\<exists>baselines. frozen_baselines small_env small_history review_run () = (Inr baselines, ()) \<and>
     {b \<in> set (tl baselines). \<not> supported small_env small_history review_run b} = {}" by blast
qed

text \<open>The passed spec review follows the only spec card.\<close>

theorem gate_follows_its_producer_witness:
  "\<exists>before item after. small_history = before @ item # after \<and>
     mc_stage (hi_managed item) = stage_value SPEC_REVIEW \<and> item_metadata small_env item = Inr review_md \<and>
     {x \<in> set (item # after). is_work x \<and> Some (mc_stage (hi_managed x)) = Some (stage_value SPEC_WRITE)} = {}"
proof -
  have "latest_valid_completion small_env small_history SPEC_REVIEW {PASS} = Inr (Some review_md)"
    by code_simp
  from gate_follows_its_producer [OF this] show ?thesis by auto
qed

end
