(* ===== verification/Boots.thy ===== *)
theory Boots
  imports Json
begin

text \<open>
  The controller's starts and the credential checks it keeps: the tables
  controller_boots, profile_preflight and deployment_preflight of store.py. A start
  closes every boot that was left open and marks it as a crash, so at most one is
  running.
\<close>

section \<open>Tables\<close>

record boot_row =
  bo_boot_id :: string
  bo_started_at :: int
  bo_stopped_at :: "int option"
  bo_exit_reason :: "string option"
  bo_fatal :: bool

record profile_row =
  pk_profile :: string
  pk_role :: string
  pk_api_ok :: "bool option"
  pk_repository_read_ok :: "bool option"
  pk_repository_write_ok :: "string option"
  pk_https_username_ok :: "bool option"
  pk_remote_protocol :: "string option"
  pk_error_code :: "string option"
  pk_deep :: bool
  pk_wrapper_checked_at :: "int option"
  pk_checked_at :: int

record deployment_row =
  dp_ok :: bool
  dp_deep :: bool
  dp_credential_contract_digest :: string
  dp_checked_at :: int

record admin_db =
  boots_tbl :: "boot_row list"
  profile_tbl :: "profile_row list"
  deployment_tbl :: "deployment_row option"

section \<open>Boots\<close>

definition is_open :: "boot_row \<Rightarrow> bool" where
  "is_open r \<longleftrightarrow> bo_stopped_at r = None"

definition begin_boot :: "int \<Rightarrow> string \<Rightarrow> (admin_db, unit) op" where
  "begin_boot now boot_id = connect (\<lambda>db.
     let closed = update_where is_open (\<lambda>r. r\<lparr>bo_stopped_at := Some now,
           bo_exit_reason := Some ''unclean_restart_detected'', bo_fatal := True\<rparr>) (boots_tbl db)
     in if boot_id \<in> bo_boot_id ` set closed
        then (Inl (DatabaseError ''UNIQUE constraint failed: controller_boots.boot_id''), db\<lparr>boots_tbl := closed\<rparr>)
        else (Inr (), db\<lparr>boots_tbl := closed @ [\<lparr>bo_boot_id = boot_id, bo_started_at = now,
          bo_stopped_at = None, bo_exit_reason = None, bo_fatal = False\<rparr>]\<rparr>))"

definition finish_boot :: "int \<Rightarrow> string \<Rightarrow> string \<Rightarrow> bool \<Rightarrow> (admin_db, unit) op" where
  "finish_boot now boot_id exit_reason fatal = connect (\<lambda>db. (Inr (), db\<lparr>boots_tbl :=
     update_where (\<lambda>r. bo_boot_id r = boot_id) (\<lambda>r. r\<lparr>bo_stopped_at := Some now,
       bo_exit_reason := Some (take 1000 exit_reason), bo_fatal := fatal\<rparr>) (boots_tbl db)\<rparr>))"

text \<open>The columns of \<open>boot_health\<close>; the list is in rowid order.\<close>

record boot_report =
  br_boot_id :: "string option"
  br_started_at :: "int option"
  br_restart_count :: int
  br_last_exit_reason :: "string option"
  br_last_exit_fatal :: "bool option"

definition latest_boot :: "admin_db \<Rightarrow> boot_row option" where
  "latest_boot db = first_row (order_by (\<lambda>r. - bo_started_at r) (rev (boots_tbl db)))"

definition previous_exit :: "admin_db \<Rightarrow> boot_row option" where
  "previous_exit db = first_row (order_by (\<lambda>r. - (case bo_stopped_at r of Some t \<Rightarrow> t | None \<Rightarrow> 0))
     (filter (\<lambda>r. \<not> is_open r) (rev (boots_tbl db))))"

definition boot_health :: "admin_db \<Rightarrow> boot_report" where
  "boot_health db = \<lparr>br_boot_id = map_option bo_boot_id (latest_boot db),
     br_started_at = map_option bo_started_at (latest_boot db),
     br_restart_count = max (int (length (boots_tbl db)) - 1) 0,
     br_last_exit_reason = Option.bind (previous_exit db) bo_exit_reason,
     br_last_exit_fatal = map_option bo_fatal (previous_exit db)\<rparr>"

section \<open>Preflight results\<close>

text \<open>A value bound to a TEXT column; SQLite takes no list or object.\<close>

fun text_column :: "json \<Rightarrow> string option res" where
  "text_column JNull = Inr None"
| "text_column (JBool b) = Inr (Some (if b then ''1'' else ''0''))"
| "text_column (JInt n) = Inr (Some (int_str n))"
| "text_column (JStr s) = Inr (Some s)"
| "text_column _ = Inl (DatabaseError ''type is not supported'')"

definition get_json :: "(string \<times> json) list \<Rightarrow> string \<Rightarrow> json" where
  "get_json kvs key = (case map_of kvs key of Some v \<Rightarrow> v | None \<Rightarrow> JNull)"

definition flag_column :: "json \<Rightarrow> bool option" where
  "flag_column v = (if v = JNull then None else Some (truthy_json v))"

definition profile_row_of ::
  "(json \<Rightarrow> string) \<Rightarrow> int \<Rightarrow> (string \<times> json) list \<Rightarrow> bool \<Rightarrow> profile_row res" where
  "profile_row_of py_str now kvs deep = (case map_of kvs ''profile'' of
     None \<Rightarrow> Inl (PyKeyError ''profile'')
   | Some profile \<Rightarrow>
       (case (text_column (get_json kvs ''remote_protocol''), text_column (get_json kvs ''error_code'')) of
          (Inr protocol, Inr code) \<Rightarrow> Inr
            \<lparr>pk_profile = json_text py_str profile,
             pk_role = (let r = get_json kvs ''role'' in if truthy_json r then json_text py_str r else ''unknown''),
             pk_api_ok = flag_column (get_json kvs ''api_ok''),
             pk_repository_read_ok = flag_column (get_json kvs ''repository_read_ok''),
             pk_repository_write_ok = (let w = get_json kvs ''repository_write_ok''
               in if w = JNull then None else Some (map lower_char (json_text py_str w))),
             pk_https_username_ok = flag_column (get_json kvs ''https_username_ok''),
             pk_remote_protocol = protocol, pk_error_code = code, pk_deep = deep,
             pk_wrapper_checked_at = (if deep then Some now else None), pk_checked_at = now\<rparr>
        | (Inl e, _) \<Rightarrow> Inl e | (_, Inl e) \<Rightarrow> Inl e))"

definition record_profile_preflight ::
  "(json \<Rightarrow> string) \<Rightarrow> int \<Rightarrow> (string \<times> json) list \<Rightarrow> bool \<Rightarrow> (admin_db, unit) op" where
  "record_profile_preflight py_str now result deep = connect (\<lambda>db.
     case profile_row_of py_str now result deep of
       Inl e \<Rightarrow> (Inl e, db)
     | Inr new \<Rightarrow> (Inr (), db\<lparr>profile_tbl :=
         (if \<exists>r \<in> set (profile_tbl db). pk_profile r = pk_profile new
          then update_where (\<lambda>r. pk_profile r = pk_profile new)
            (\<lambda>r. new\<lparr>pk_wrapper_checked_at := coalesce (pk_wrapper_checked_at new) (pk_wrapper_checked_at r)\<rparr>)
            (profile_tbl db)
          else profile_tbl db @ [new])\<rparr>))"

definition record_deployment_preflight :: "int \<Rightarrow> bool \<Rightarrow> bool \<Rightarrow> string \<Rightarrow> (admin_db, unit) op" where
  "record_deployment_preflight now ok deep digest = connect (\<lambda>db. (Inr (), db\<lparr>deployment_tbl :=
     Some \<lparr>dp_ok = ok, dp_deep = deep, dp_credential_contract_digest = digest, dp_checked_at = now\<rparr>\<rparr>))"

text \<open>Without \<open>include_digest\<close> the digest is left out of the result.\<close>

definition deployment_preflight :: "bool \<Rightarrow> admin_db \<Rightarrow> (deployment_row \<times> string option) option" where
  "deployment_preflight include_digest db = map_option
     (\<lambda>r. (r\<lparr>dp_credential_contract_digest := []\<rparr>,
        if include_digest then Some (dp_credential_contract_digest r) else None)) (deployment_tbl db)"

text \<open>The rows with \<open>repository_write_ok\<close> as a boolean where it is one.\<close>

definition profile_preflight_health :: "admin_db \<Rightarrow> (profile_row \<times> json) list" where
  "profile_preflight_health db = map (\<lambda>r. (r, case pk_repository_write_ok r of
       None \<Rightarrow> JNull | Some w \<Rightarrow> if w \<in> {''true'', ''false''} then JBool (w = ''true'') else JStr w))
     (order_by pk_profile (profile_tbl db))"

section \<open>One running boot\<close>

inductive admin_step :: "admin_db \<Rightarrow> admin_db \<Rightarrow> bool" where
  begin_boot: "admin_step db (snd (begin_boot now boot_id db))"
| finish_boot: "admin_step db (snd (finish_boot now boot_id reason fatal db))"
| profile: "admin_step db (snd (record_profile_preflight py_str now result deep db))"
| deployment: "admin_step db (snd (record_deployment_preflight now ok deep digest db))"

definition no_admin :: "admin_db \<Rightarrow> bool" where
  "no_admin db \<longleftrightarrow> boots_tbl db = [] \<and> profile_tbl db = [] \<and> deployment_tbl db = None"

definition open_boots :: "admin_db \<Rightarrow> boot_row list" where
  "open_boots db = filter is_open (boots_tbl db)"

text \<open>Only the last row can be open, and the tables are keyed.\<close>

definition admin_ok :: "admin_db \<Rightarrow> bool" where
  "admin_ok db \<longleftrightarrow> unique_on bo_boot_id (boots_tbl db) \<and> unique_on pk_profile (profile_tbl db) \<and>
     filter is_open (butlast (boots_tbl db)) = []"

lemma closed_all: "filter is_open (update_where is_open (\<lambda>r. r\<lparr>bo_stopped_at := Some now, bo_exit_reason := x, bo_fatal := f\<rparr>) t) = []"
  by (induction t) (auto simp: is_open_def)

lemma begin_boot_result:
  "begin_boot now boot_id db =
     (if boot_id \<in> bo_boot_id ` set (boots_tbl db)
      then (Inl (ControllerFatalError ''controller_store_database_error''), db)
      else (Inr (), db\<lparr>boots_tbl := update_where is_open (\<lambda>r. r\<lparr>bo_stopped_at := Some now,
           bo_exit_reason := Some ''unclean_restart_detected'', bo_fatal := True\<rparr>) (boots_tbl db) @
         [\<lparr>bo_boot_id = boot_id, bo_started_at = now, bo_stopped_at = None, bo_exit_reason = None,
           bo_fatal = False\<rparr>]\<rparr>))"
proof -
  have "bo_boot_id ` set (update_where is_open (\<lambda>r. r\<lparr>bo_stopped_at := Some now,
      bo_exit_reason := Some ''unclean_restart_detected'', bo_fatal := True\<rparr>) (boots_tbl db)) =
    bo_boot_id ` set (boots_tbl db)"
    by (simp flip: set_map add: map_update_where)
  then show ?thesis by (simp add: begin_boot_def connect_def Let_def)
qed

lemma closing_keeps_closed:
  "(\<And>r. bo_stopped_at (f r) \<noteq> None) \<Longrightarrow> filter is_open t = [] \<Longrightarrow> filter is_open (update_where p f t) = []"
  by (induction t) (auto simp: is_open_def split: if_splits)

lemma butlast_update_where: "butlast (update_where p f t) = update_where p f (butlast t)"
  by (simp add: update_where_def map_butlast)

lemma admin_ok_step: "admin_step s t \<Longrightarrow> admin_ok s \<Longrightarrow> admin_ok t"
proof (induction rule: admin_step.induct)
  case (begin_boot db now boot_id)
  then show ?case
    by (auto simp: begin_boot_result admin_ok_def closed_all table_simps
        intro!: unique_on_update_where split: if_splits)
next
  case (finish_boot db now boot_id reason fatal)
  then show ?case
    by (auto simp: finish_boot_def connect_def admin_ok_def butlast_update_where
        intro!: unique_on_update_where closing_keeps_closed)
next
  case (profile db py_str now result deep)
  show ?case
  proof (cases "profile_row_of py_str now result deep")
    case (Inl e)
    with profile show ?thesis by (simp add: record_profile_preflight_def)
  next
    case (Inr new)
    then have "unique_on pk_profile (profile_tbl (snd (record_profile_preflight py_str now result deep db)))"
      using profile by (auto simp: record_profile_preflight_def connect_def admin_ok_def table_simps
          intro!: unique_on_update_where)
    with profile Inr show ?thesis by (auto simp: record_profile_preflight_def connect_def admin_ok_def)
  qed
next
  case (deployment db now ok deep digest)
  then show ?case by (simp add: record_deployment_preflight_def admin_ok_def)
qed

interpretation admin_inv: inductive_invariant no_admin admin_step admin_ok
  by unfold_locales (simp add: no_admin_def admin_ok_def unique_on_def, rule admin_ok_step)

lemma first_row_max:
  assumes "\<And>r. r \<in> set t \<Longrightarrow> (k r :: int) \<le> k x" "k x = m"
  shows "first_row (order_by (\<lambda>r. - k r) (x # t)) = Some x"
proof -
  have "\<And>r. r \<in> set t \<Longrightarrow> - k x \<le> - k r" using assms(1) by simp
  then have "insort_key (\<lambda>r. - k r) x (sort_key (\<lambda>r. - k r) t) = x # sort_key (\<lambda>r. - k r) t"
    by (cases "sort_key (\<lambda>r. - k r) t") (auto dest: arg_cong [of _ _ set])
  then show ?thesis by (simp add: order_by_def first_row_def)
qed

lemma last_open:
  assumes "admin_ok db" "open_boots db \<noteq> []"
  obtains old r where "boots_tbl db = old @ [r]" "is_open r" "filter is_open old = []"
proof (cases "boots_tbl db" rule: rev_cases)
  case Nil with assms show ?thesis by (simp add: open_boots_def)
next
  case (snoc old r)
  with assms have "filter is_open old = []" "is_open r" by (auto simp: admin_ok_def open_boots_def split: if_splits)
  with snoc that show ?thesis by blast
qed

text \<open>
  A start after a crash is seen: when the clock has not gone back and a boot was
  left open, the next start under a fresh id closes it as fatal, is the only open boot,
  and \<open>boot_health\<close> reports the new boot, the number of restarts and the crash.
\<close>

theorem unclean_restart_is_reported:
  assumes "reachable no_admin admin_step db" "open_boots db \<noteq> []"
    and "boot_id \<notin> bo_boot_id ` set (boots_tbl db)"
    and "\<forall>r \<in> set (boots_tbl db). bo_started_at r \<le> now \<and> (case bo_stopped_at r of Some t \<Rightarrow> t \<le> now | None \<Rightarrow> True)"
  shows "map bo_boot_id (open_boots (snd (begin_boot now boot_id db))) = [boot_id] \<and>
    boot_health (snd (begin_boot now boot_id db)) = \<lparr>br_boot_id = Some boot_id, br_started_at = Some now,
      br_restart_count = int (length (boots_tbl db)), br_last_exit_reason = Some ''unclean_restart_detected'',
      br_last_exit_fatal = Some True\<rparr>"
proof -
  let ?close = "\<lambda>r. r\<lparr>bo_stopped_at := Some now, bo_exit_reason := Some ''unclean_restart_detected'', bo_fatal := True\<rparr>"
  let ?new = "\<lparr>bo_boot_id = boot_id, bo_started_at = now, bo_stopped_at = None, bo_exit_reason = None, bo_fatal = False\<rparr>"
  obtain old r where r: "boots_tbl db = old @ [r]" "is_open r" "filter is_open old = []"
    using last_open [OF admin_inv.reachable_inv [OF assms(1)] assms(2)] by blast
  have closed: "update_where is_open ?close old = old" "filter (\<lambda>r. \<not> is_open r) (rev old) = rev old"
    using r(3) by (induction old) (auto split: if_splits)
  have stopped: "(case bo_stopped_at q of Some t \<Rightarrow> t | None \<Rightarrow> 0) \<le> now" if "q \<in> set old" for q
    using that r(1,3) assms(4) by (auto simp: filter_empty_conv is_open_def split: option.splits)
  have db: "boots_tbl (snd (begin_boot now boot_id db)) = old @ [?close r, ?new]"
    using assms(3) r closed by (simp add: begin_boot_result)
  have "latest_boot (snd (begin_boot now boot_id db)) = Some ?new"
    unfolding latest_boot_def db by (simp, rule first_row_max) (use assms(4) r in auto)
  moreover have "previous_exit (snd (begin_boot now boot_id db)) = Some (?close r)"
    unfolding previous_exit_def db using closed
    by (simp add: is_open_def, intro first_row_max) (use stopped in auto)
  ultimately show ?thesis using r
    by (simp add: boot_health_def db open_boots_def is_open_def)
qed

theorem unclean_restart_is_reported_witness:
  "\<exists>db. reachable no_admin admin_step db \<and>
     br_last_exit_reason (boot_health (snd (begin_boot 20 ''b2'' db))) = Some ''unclean_restart_detected''"
proof -
  let ?empty = "\<lparr>boots_tbl = [], profile_tbl = [], deployment_tbl = None\<rparr>"
  let ?db = "snd (begin_boot 10 ''b1'' ?empty)"
  have "reachable no_admin admin_step ?db"
    by (rule reach_step [of no_admin admin_step ?empty]) (rule reach_init, simp add: no_admin_def, rule admin_step.begin_boot)
  moreover have "boots_tbl ?db = [\<lparr>bo_boot_id = ''b1'', bo_started_at = 10, bo_stopped_at = None,
      bo_exit_reason = None, bo_fatal = False\<rparr>]"
    by (simp add: begin_boot_result)
  ultimately show ?thesis
    using unclean_restart_is_reported [of ?db "''b2''" 20] by (intro exI [of _ ?db]) (simp add: open_boots_def is_open_def)
qed

end
