(* ===== verification/Flow.thy ===== *)
theory Flow
  imports Completion_Checks Circuit Controller_Ops Supervisor_Client Boots
begin

text \<open>
  What the handlers of service.py work on: the store's tables, the in-memory error, and
  a world of boards, GitLab, workers and files. The journal of operations is apart from
  the rest, as in \<open>Controller_Ops\<close>. Then the handlers' shared parts: notices, the
  workers behind cards, scratch directories.
\<close>

section \<open>State\<close>

record 'w sides =
  si_outages :: outage_db
  si_outbox :: outbox_db
  si_last_reconcile_error :: "string option"
  si_cards :: cards_db
  si_validations :: "validation_row list"
  si_admin :: admin_db
  si_guards :: guards
  si_outside :: 'w

type_synonym 'w shared = "control_db \<times> 'w sides"
type_synonym 'w flow = "'w sides ctl_state"

definition on_ctl :: "(control_db, 'a) op \<Rightarrow> ('w shared, 'a) op" where
  "on_ctl = on_part fst (\<lambda>c (_, w). (c, w))"

definition on_cards :: "(cards_db, 'a) op \<Rightarrow> ('w shared, 'a) op" where
  "on_cards = on_part (si_cards \<circ> snd) (\<lambda>d (c, w). (c, w\<lparr>si_cards := d\<rparr>))"

definition on_queue :: "(outbox_db, 'a) op \<Rightarrow> ('w shared, 'a) op" where
  "on_queue = on_part (si_outbox \<circ> snd) (\<lambda>d (c, w). (c, w\<lparr>si_outbox := d\<rparr>))"

definition on_admin :: "(admin_db, 'a) op \<Rightarrow> ('w shared, 'a) op" where
  "on_admin = on_part (si_admin \<circ> snd) (\<lambda>d (c, w). (c, w\<lparr>si_admin := d\<rparr>))"

definition on_guards :: "(guards \<Rightarrow> 'a \<times> guards) \<Rightarrow> ('w shared, 'a) op" where
  "on_guards f s = (case s of (c, w) \<Rightarrow> (case f (si_guards w) of (r, g) \<Rightarrow> (Inr r, (c, w\<lparr>si_guards := g\<rparr>))))"

definition on_service :: "(service_db, 'a) op \<Rightarrow> ('w shared, 'a) op" where
  "on_service = on_part
     (\<lambda>(c, w). \<lparr>sd_control = c, sd_outages = si_outages w, sd_outbox = si_outbox w,
        sd_last_reconcile_error = si_last_reconcile_error w\<rparr>)
     (\<lambda>d (_, w). (sd_control d, w\<lparr>si_outages := sd_outages d, si_outbox := sd_outbox d,
        si_last_reconcile_error := sd_last_reconcile_error d\<rparr>))"

definition on_shared :: "('w shared, 'a) op \<Rightarrow> ('w flow, 'a) op" where
  "on_shared = on_part (\<lambda>s. (cs_control s, cs_world s)) (\<lambda>(c, w) s. s\<lparr>cs_control := c, cs_world := w\<rparr>)"

section \<open>Environment\<close>

datatype NotificationLevel = MINIMAL | STANDARD | VERBOSE

text \<open>The messages whose texts messages.py renders.\<close>

datatype notice =
    PreflightFrozenRepair Phase string
  | FrozenRepair Phase string
  | ReviewFailed CompletionMetadata int WorkMode
  | PhaseStarted Phase TaskRecord
  | PhaseFrozen Phase CompletionMetadata int
  | CodeRetry CompletionMetadata "CompletionMetadata option" int
  | TestSkipped CompletionMetadata
  | HumanBlock HistoryItem string string string
  | AgentCompleted HistoryItem CompletionMetadata "int option" int
  | AgentRejected HistoryItem string "int option" int
  | CodeFlowCompleted string CompletionMetadata "CompletionMetadata option" "(string \<times> json) list" int "Stage \<Rightarrow> int"
  | MergeWaiting merge_blocker mw_row "(string \<times> json) list"
  | ExceptionRaised string string
  | TerminationPending string
  | RunAborted string string string "(string \<times> json) list"
  | RunMerged "(string \<times> json) list"
  | MergedBeforeAbort "(string \<times> json) list" int
  | PolicyViolation "(string \<times> json) list" int string

text \<open>
  Files under the Hermes home; a path is the list of its components, an error an errno.
\<close>

record 'w file_ops =
  fo_makedirs :: "string list \<Rightarrow> 'w \<Rightarrow> (int \<times> string) option \<times> 'w"
  fo_mkdir :: "string list \<Rightarrow> 'w \<Rightarrow> (int \<times> string) option \<times> 'w"
  fo_is_symlink :: "string list \<Rightarrow> 'w \<Rightarrow> bool"
  fo_is_dir :: "string list \<Rightarrow> 'w \<Rightarrow> bool"
  fo_resolve :: "string list \<Rightarrow> 'w \<Rightarrow> (int \<times> string) + string list"

text \<open>
  GitLab's operations (gitlab.py) on the delivery of a run: the checks of
  \<open>_reconcile_run\<close>, the merge request at its head, the transition to ready, the abort.
\<close>

record 'w gitlab_ops =
  gl_repository_evidence :: "RunRecord \<Rightarrow> CompletionMetadata \<Rightarrow> ('w, unit) op"
  gl_author_completion :: "RunRecord \<Rightarrow> CompletionMetadata \<Rightarrow> ('w, unit) op"
  gl_gate :: "RunRecord \<Rightarrow> CompletionMetadata \<Rightarrow> ('w, string) op"
  gl_artifact_completion :: "RunRecord \<Rightarrow> CompletionMetadata \<Rightarrow> ('w, unit) op"
  gl_artifact_gate_at_ref :: "RunRecord \<Rightarrow> CompletionMetadata \<Rightarrow> string \<Rightarrow> ('w, unit) op"
  gl_delivery_mr :: "RunRecord \<Rightarrow> int option \<Rightarrow> ('w, (string \<times> json) list option) op"
  gl_mark_ready :: "RunRecord \<Rightarrow> DeliveryBinding \<Rightarrow> ('w, unit) op"
  gl_abort_delivery :: "RunRecord \<Rightarrow> int option \<Rightarrow> string \<Rightarrow> string \<Rightarrow> ('w, (string \<times> json) list) op"

text \<open>
  \<open>fl_fields\<close> builds \<open>CompletionMetadata\<close> from a document before its model validator
  runs; \<open>fl_admission\<close> is git_auth.py's deep \<open>profile_preflight\<close> for a role, a project
  and a branch; \<open>fl_later\<close> is the clock at the end of an action, seen from its start,
  \<open>fl_fresh\<close> the identifiers the store draws.
\<close>

record 'w flow_env =
  fl_config :: ControllerConfig
  fl_level :: NotificationLevel
  fl_history :: "'w shared history_env"
  fl_fields :: "json \<Rightarrow> CompletionMetadata res"
  fl_circuit :: circuit_env
  fl_wire :: "'w shared wire"
  fl_files :: "'w shared file_ops"
  fl_gitlab :: "'w shared gitlab_ops"
  fl_delivery :: "'w delivery"
  fl_py :: py_env
  fl_now :: "'w shared \<Rightarrow> int"
  fl_later :: "'w shared \<Rightarrow> int"
  fl_fresh :: "'w shared \<Rightarrow> string \<times> string"
  fl_monotonic :: "'w shared \<Rightarrow> rat"
  fl_payload :: "RunRecord \<Rightarrow> notice \<Rightarrow> json"
  fl_admission :: "string \<Rightarrow> string \<Rightarrow> string \<Rightarrow> ('w shared, (string \<times> json) list) op"
  fl_dump_binding :: "DeliveryBinding \<Rightarrow> json"
  fl_dump_baseline :: "ArtifactBaseline \<Rightarrow> json"
  fl_dump_repair :: "RepairContext \<Rightarrow> json"
  fl_utf8_json :: "json \<Rightarrow> string"

text \<open>pydantic runs \<open>validate_stage_contract\<close> after it has built the fields.\<close>

definition completion_model :: "(json \<Rightarrow> CompletionMetadata res) \<Rightarrow> json \<Rightarrow> CompletionMetadata res" where
  "completion_model build raw = (case build raw of
     Inl e \<Rightarrow> Inl e
   | Inr md \<Rightarrow> (case validate_stage_contract md of Inl e \<Rightarrow> Inl e | Inr _ \<Rightarrow> Inr md))"

definition hist :: "'w flow_env \<Rightarrow> 'w shared history_env" where
  "hist env = (fl_history env)\<lparr>hv_cards := si_cards \<circ> snd, hv_validations := si_validations \<circ> snd,
     hv_config := fl_config env, hv_validate := completion_model (fl_fields env)\<rparr>"

definition circ :: "'w flow_env \<Rightarrow> circuit_env" where
  "circ env = (fl_circuit env)\<lparr>ce_config := fl_config env, ce_minimal := (fl_level env = MINIMAL)\<rparr>"

definition kb :: "'w flow_env \<Rightarrow> 'w shared kanban_env" where
  "kb env = hv_kanban (fl_history env)"

text \<open>\<open>int(time.time())\<close> is read when the operation runs.\<close>

definition timed :: "'w flow_env \<Rightarrow> (int \<Rightarrow> ('w shared, 'a) op) \<Rightarrow> ('w shared, 'a) op" where
  "timed env f s = f (fl_now env s) s"

definition read_json :: "'w flow_env \<Rightarrow> (string \<times> json) list \<Rightarrow> string \<Rightarrow> string" where
  "read_json env kvs key = (let v = get_json kvs key in if truthy_json v then json_text (ke_str (kb env)) v else [])"

section \<open>Guards and notices\<close>

definition ACTIVE_STATUSES :: "string set" where
  "ACTIVE_STATUSES = {''triage'', ''todo'', ''ready'', ''running'', ''blocked''}"

definition is_active :: "HistoryItem \<Rightarrow> bool" where
  "is_active item \<longleftrightarrow> tk_status (hi_task item) \<in> ACTIVE_STATUSES"

text \<open>\<open>_assert_reconcile_mutable\<close>; the result is the state version.\<close>

definition assert_mutable :: "string \<Rightarrow> ('w shared, int) op" where
  "assert_mutable run_key s = (assert_reconcile_mutable (fst s) run_key, s)"

text \<open>\<open>_run_control\<close>: a run without a row is active and has no version.\<close>

definition run_state :: "'w shared \<Rightarrow> string \<Rightarrow> string" where
  "run_state s run_key = (case run_control (fst s) run_key of Some r \<Rightarrow> rc_state r | None \<Rightarrow> ''active'')"

definition version_of :: "'w shared \<Rightarrow> string \<Rightarrow> int res" where
  "version_of s run_key = (case run_control (fst s) run_key of Some r \<Rightarrow> Inr (rc_state_version r)
     | None \<Rightarrow> Inl (PyKeyError ''state_version''))"

text \<open>\<open>int(control.get("state_version") or 1)\<close>\<close>

definition version_or_one :: "'w shared \<Rightarrow> string \<Rightarrow> int" where
  "version_or_one s run_key = (case run_control (fst s) run_key of
     Some r \<Rightarrow> if rc_state_version r = 0 then 1 else rc_state_version r | None \<Rightarrow> 1)"

definition send_notice ::
  "'w flow_env \<Rightarrow> RunRecord \<Rightarrow> string \<Rightarrow> string \<Rightarrow> notice \<Rightarrow> ('w shared, unit) op" where
  "send_notice env run key event n = timed env (\<lambda>now. on_queue
     (enqueue now (rr_run_key run @ '':'' @ key) (rr_run_key run) event (fl_payload env run n)))"

definition enqueue_progress ::
  "'w flow_env \<Rightarrow> RunRecord \<Rightarrow> string \<Rightarrow> notice \<Rightarrow> bool \<Rightarrow> ('w shared, unit) op" where
  "enqueue_progress env run event_key n allow_minimal =
     (if fl_level env = MINIMAL \<and> \<not> allow_minimal then give ()
      else send_notice env run (''progress:'' @ event_key) ''progress'' n)"

text \<open>\<open>try: m except Exception: log\<close>\<close>

definition quietly :: "('s, 'a) op \<Rightarrow> ('s, unit) op" where
  "quietly m s = (Inr (), snd (m s))"

section \<open>Workers behind cards\<close>

definition runtime_attempt_run_id :: "runtime_row \<Rightarrow> int option" where
  "runtime_attempt_run_id r = (let session = (case rt_worker_session_id r of Some s \<Rightarrow> s | None \<Rightarrow> []) in
     if \<not> starts_with ''kanban-run:'' session then None
     else case int_of_text (drop (length ''kanban-run:'') session) of
       None \<Rightarrow> None | Some n \<Rightarrow> if 0 < n then Some n else None)"

definition worker_identity :: "runtime_row \<Rightarrow> TaskRecord \<Rightarrow> WorkerIdentity option" where
  "worker_identity r t = (case (runtime_attempt_run_id r, rt_worker_pid r) of
     (Some run_id, Some pid) \<Rightarrow>
       if pid \<le> 1 \<or> tk_current_run_id t \<noteq> Some run_id \<or> tk_worker_pid t \<noteq> Some pid then None
       else Some \<lparr>wi_board = rt_board r, wi_card_id = rt_card_id r, wi_run_id = run_id, wi_worker_pid = pid\<rparr>
   | _ \<Rightarrow> None)"

definition attempt_run_id :: "WorkerIdentity \<Rightarrow> string" where
  "attempt_run_id i = wi_board i @ '':'' @ int_str (wi_run_id i)"

definition observe_worker ::
  "'w flow_env \<Rightarrow> WorkerIdentity \<Rightarrow> bool \<Rightarrow> ('w shared, SupervisorObservation) op" where
  "observe_worker env i terminate_running =
     then_do (read_state (fl_monotonic env)) (\<lambda>started.
     then_do (observe (fl_wire env) i terminate_running) (\<lambda>seen.
     then_do (read_state (\<lambda>s. current_attempt (si_cards (snd s)) (wi_board i) (wi_card_id i))) (\<lambda>attempt.
     then_do (if map_option at_run_id attempt \<noteq> Some (attempt_run_id i) then give ()
        else then_do (read_state (fl_monotonic env)) (\<lambda>ended. timed env (\<lambda>now. on_cards
          (record_supervisor_observation (py_dump (fl_py env)) now (attempt_run_id i) (so_state seen)
            (max 0 \<lfloor>(ended - started) * 1000\<rfloor>) (so_observed_at seen) (so_error_code seen))))) (\<lambda>_.
     give seen))))"

definition record_reclaimed_attempt :: "'w flow_env \<Rightarrow> WorkerIdentity \<Rightarrow> ('w shared, unit) op" where
  "record_reclaimed_attempt env i = timed env (\<lambda>now. on_cards (record_card_runtime_event (fl_py env) now
     \<lparr>ev_board = wi_board i, ev_card_id = wi_card_id i, ev_kind = ''reclaimed'', ev_created_at = now,
      ev_worker_session_id = Some (''kanban-run:'' @ int_str (wi_run_id i)),
      ev_worker_pid = Some (wi_worker_pid i),
      ev_lease_seconds = cf_worker_progress_lease_seconds (fl_config env),
      ev_run_id = Some (attempt_run_id i), ev_runtime_metrics = None, ev_progress_summary = None\<rparr>))"

text \<open>The runtime row and the task, read again after the worker's exit was seen.\<close>

definition same_attempt ::
  "'w flow_env \<Rightarrow> string \<Rightarrow> string \<Rightarrow> WorkerIdentity \<Rightarrow> ('w shared, bool) op" where
  "same_attempt env board card_id i =
     then_do (task (kb env) board card_id) (\<lambda>t.
     then_do (read_state (\<lambda>s. card_runtime (si_cards (snd s)) board card_id)) (\<lambda>r.
     give (case (t, r) of (Some t, Some r) \<Rightarrow> worker_identity r t = Some i | _ \<Rightarrow> False)))"

definition stop_worker ::
  "'w flow_env \<Rightarrow> string \<Rightarrow> string \<Rightarrow> string \<Rightarrow> WorkerIdentity \<Rightarrow> ('w shared, bool) op" where
  "stop_worker env board card_id reason i =
     then_do (observe_worker env i True) (\<lambda>seen.
       if \<not> exit_confirmed seen then give False
       else then_do (same_attempt env board card_id i) (\<lambda>same.
         if \<not> same then give False
         else then_do (abort_task (kb env) (fl_config env) board card_id reason (Some (wi_run_id i))
             (Some (wi_worker_pid i))) (\<lambda>_.
           then_do (record_reclaimed_attempt env i) (\<lambda>_. give True))))"

definition abort_managed_task ::
  "'w flow_env \<Rightarrow> string \<Rightarrow> string \<Rightarrow> string \<Rightarrow> ('w shared, bool) op" where
  "abort_managed_task env board card_id reason =
     then_do (task (kb env) board card_id) (\<lambda>t. case t of
       None \<Rightarrow> give True
     | Some x \<Rightarrow>
         if tk_status x = ''archived'' then give True
         else if tk_status x \<noteq> ''running''
         then then_do (abort_task (kb env) (fl_config env) board card_id reason None None) (\<lambda>_. give True)
         else then_do (read_state (\<lambda>s. managed_card (si_cards (snd s)) board card_id)) (\<lambda>managed.
           if map_option mc_purpose managed = Some ''root'' \<and> tk_worker_pid x = None
           then then_do (archive_controller_task (kb env) (fl_config env) board card_id) (\<lambda>_. give True)
           else then_do (read_state (\<lambda>s. card_runtime (si_cards (snd s)) board card_id)) (\<lambda>runtime.
             case Option.bind runtime (\<lambda>r. worker_identity r x) of
               None \<Rightarrow> give False
             | Some i \<Rightarrow> stop_worker env board card_id reason i)))"

section \<open>Scratch directories\<close>

definition EEXIST :: int where
  "EEXIST = 17"

definition scratch_step :: "'w file_ops \<Rightarrow> string \<Rightarrow> string list \<Rightarrow> ('w, string list) op" where
  "scratch_step fs part current w =
     (let next = current @ [part] in case fo_mkdir fs next w of (failed, w') \<Rightarrow>
       (if (case failed of None \<Rightarrow> False | Some (n, _) \<Rightarrow> n \<noteq> EEXIST)
        then (Inl (RunPolicyError ''scratch_dir_unavailable''), w')
        else if fo_is_symlink fs next w' \<or> \<not> fo_is_dir fs next w'
        then (Inl (RunPolicyError ''unsafe_scratch_component''), w')
        else (Inr next, w')))"

definition proper_parent :: "string list \<Rightarrow> string list \<Rightarrow> bool" where
  "proper_parent p q \<longleftrightarrow> length p < length q \<and> take (length p) q = p"

definition resolved_path :: "'w file_ops \<Rightarrow> string list \<Rightarrow> ('w, string list) op" where
  "resolved_path fs p w = ((case fo_resolve fs p w of Inl (n, t) \<Rightarrow> Inl (OsError n t) | Inr q \<Rightarrow> Inr q), w)"

definition make_root :: "'w file_ops \<Rightarrow> string list \<Rightarrow> ('w, unit) op" where
  "make_root fs p w = (case fo_makedirs fs p w of (failed, w') \<Rightarrow>
     (if failed \<noteq> None then (Inl (RunPolicyError ''scratch_root_unavailable''), w')
      else if fo_is_symlink fs p w' \<or> \<not> fo_is_dir fs p w' then (Inl (RunPolicyError ''unsafe_scratch_root''), w')
      else (Inr (), w')))"

definition prepare_scratch_dir :: "'w file_ops \<Rightarrow> string \<Rightarrow> ('w, string list) op" where
  "prepare_scratch_dir fs scratch_dir =
     (let parts = path_parts (path_of scratch_dir); base = path_parts scratch_root; top = [''scratch''] in
      if take (length base) parts \<noteq> base then checked (Inl (RunPolicyError ''unsafe_card_scratch_dir''))
      else then_do (make_root fs top) (\<lambda>_.
        then_do (fold_do (scratch_step fs) (drop (length base) parts) top) (\<lambda>current.
        then_do (resolved_path fs top) (\<lambda>resolved_root.
        then_do (resolved_path fs current) (\<lambda>resolved.
          if proper_parent resolved_root resolved then give current
          else checked (Inl (RunPolicyError ''unsafe_card_scratch_dir'')))))))"

definition scratch_dir_of :: "'w flow_env \<Rightarrow> RunRecord \<Rightarrow> string \<Rightarrow> string" where
  "scratch_dir_of env run key =
     ''/opt/data/scratch/'' @ rr_run_generation run @ ''/'' @ take 20 (hv_sha256 (fl_history env) key)"

definition prepare_exception_scratch_dir ::
  "'w flow_env \<Rightarrow> RunRecord \<Rightarrow> string \<Rightarrow> ('w shared, string list) op" where
  "prepare_exception_scratch_dir env run key = prepare_scratch_dir (fl_files env) (scratch_dir_of env run key)"

end
