(* ===== verification/Controller_Cards.thy ===== *)
theory Controller_Cards
  imports Flow
begin

text \<open>
  The cards the controller puts on a board (service.py): a work card with the frozen
  baselines and the head it starts from, its publication, the repair and retry cards,
  and the exception card that stops a run.
\<close>

section \<open>Journalled actions\<close>

definition is_superseded :: "ctl_error \<Rightarrow> bool" where
  "is_superseded e \<longleftrightarrow> (case e of ReconcileSuperseded _ \<Rightarrow> True | _ \<Rightarrow> False)"

definition shared_of :: "'w flow \<Rightarrow> 'w shared" where
  "shared_of s = (cs_control s, cs_world s)"

text \<open>\<open>_operation\<close> with the run and its state version.\<close>

definition journalled ::
  "'w flow_env \<Rightarrow> string \<Rightarrow> string \<Rightarrow> json \<Rightarrow> ('w shared, json) op \<Rightarrow> string \<Rightarrow> int \<Rightarrow> string option \<Rightarrow>
   ('w flow, json) op" where
  "journalled env key kind payload action run_key version head s =
     operation (fl_now env (shared_of s)) (fl_later env (shared_of s)) key kind payload action
       (Some run_key) (Some version) head s"

text \<open>\<open>try: m except ReconcileSuperseded: cleanup; raise\<close>\<close>

definition or_cleanup :: "('s, 'a) op \<Rightarrow> ('s, unit) op \<Rightarrow> ('s, 'a) op" where
  "or_cleanup m cleanup = try_do m
     (\<lambda>e. if is_superseded e then then_do cleanup (\<lambda>_. checked (Inl e)) else checked (Inl e)) give"

definition cancel_card :: "'w flow_env \<Rightarrow> RunRecord \<Rightarrow> string \<Rightarrow> string \<Rightarrow> ('w shared, unit) op" where
  "cancel_card env run card_id reason =
     quietly (abort_managed_task env (wf_board (rr_workspace run)) card_id reason)"

definition card_task ::
  "'w flow_env \<Rightarrow> RunRecord \<Rightarrow> string \<Rightarrow> ctl_error \<Rightarrow> ('w shared, TaskRecord) op" where
  "card_task env run card_id missing = then_do (task (kb env) (wf_board (rr_workspace run)) card_id)
     (\<lambda>t. with_task missing t give)"

definition ensure_work_published :: "'w flow_env \<Rightarrow> RunRecord \<Rightarrow> TaskRecord \<Rightarrow> ('w flow, TaskRecord) op" where
  "ensure_work_published env run t =
     (let board = wf_board (rr_workspace run) in
      then_do (on_shared (assert_mutable (rr_run_key run))) (\<lambda>version.
      then_do (checked (parse_card_body (hv_json (hist env)) (tk_body t))) (\<lambda>c.
      then_do (journalled env (cr_idempotency_key c @ '':release'') ''release''
          (JObj [(''board'', JStr board), (''card_id'', JStr (tk_id t))])
          (then_do (release_task (kb env) (fl_config env) board (tk_id t))
             (\<lambda>_. give (JObj [(''card_id'', JStr (tk_id t))])))
          (rr_run_key run) version None) (\<lambda>_.
      on_shared (card_task env run (tk_id t)
        (PyRuntimeError (''released card '' @ tk_id t @ '' disappeared'')))))))"

section \<open>Repair contexts and cards\<close>

text \<open>\<open>RepairContext(...)\<close>: texts are stripped, then fields and contract checked.\<close>

definition make_repair :: "RepairContext \<Rightarrow> RepairContext res" where
  "make_repair p =
     (let q = p\<lparr>rp_trigger_card_id := strip (rp_trigger_card_id p), rp_issues := map strip (rp_issues p),
          rp_related_card_ids := map strip (rp_related_card_ids p), rp_head_sha := map_option strip (rp_head_sha p)\<rparr>
      in if \<not> repair_fields q then Inl (ValueError ''validation error for RepairContext'')
         else case validate_repair_contract q of Inl e \<Rightarrow> Inl e | Inr _ \<Rightarrow> Inr q)"

definition finalize_prefix :: string where
  "finalize_prefix = ''restore the frozen artifact before the finalization. ''"

definition restore_prefix :: string where
  "restore_prefix = ''restore the frozen artifact to the baseline. ''"

text \<open>\<open>model_copy(update=...)\<close> checks nothing.\<close>

definition with_issue :: "RepairContext \<Rightarrow> string \<Rightarrow> RepairContext" where
  "with_issue p issue = p\<lparr>rp_issues := rp_issues p @ [issue]\<rparr>"

definition frozen_context :: "string \<Rightarrow> string list \<Rightarrow> RepairContext" where
  "frozen_context parent issues =
     \<lparr>rp_kind = FROZEN_ARTIFACT_VIOLATION, rp_trigger_card_id = parent, rp_issues = issues,
      rp_review_attempt = None, rp_review_limit = None, rp_related_card_ids = [], rp_head_sha = None,
      rp_code_modification = None, rp_code_modification_limit = None, rp_frozen_baselines = []\<rparr>"

definition violation_key :: "'w flow_env \<Rightarrow> string \<Rightarrow> string" where
  "violation_key env violation = take 12 (hv_sha256 (fl_history env) violation)"

fun phase_value :: "Phase \<Rightarrow> string" where
  "phase_value SPEC_PHASE = ''spec''"
| "phase_value PLAN_PHASE = ''plan''"
| "phase_value TASKS_PHASE = ''tasks''"
| "phase_value CODE_PHASE = ''code''"

text \<open>What kind of card is asked for: its stage, mode and repair context.\<close>

type_synonym card_plan = "Stage \<times> WorkMode \<times> RepairContext option"

definition redirected :: "string \<Rightarrow> string \<Rightarrow> card_plan \<Rightarrow> card_plan res" where
  "redirected parent violation plan = (case plan of (stage, mode, repair) \<Rightarrow>
     let target = PRODUCER_FOR_PHASE (PHASE_FOR_STAGE stage) in
     case (mode, repair) of
       (FINALIZATION, Some p) \<Rightarrow> Inr (target, mode, Some (with_issue p (finalize_prefix @ violation)))
     | _ \<Rightarrow> (case make_repair (frozen_context parent ((case repair of Some p \<Rightarrow> rp_issues p | None \<Rightarrow> []) @
              [restore_prefix @ violation])) of
           Inl e \<Rightarrow> Inl e
         | Inr p \<Rightarrow> Inr (target, NORMAL, Some p)))"

text \<open>A changed frozen artifact turns any other card into a repair of its phase.\<close>

definition preflight_repair ::
  "'w flow_env \<Rightarrow> RunRecord \<Rightarrow> HistoryItem list \<Rightarrow> string \<Rightarrow> (string \<times> json) list option \<Rightarrow> card_plan \<Rightarrow>
   ('w shared, card_plan) op" where
  "preflight_repair env run items parent mr plan =
     (let head = (case mr of None \<Rightarrow> [] | Some kvs \<Rightarrow> mr_head (hist env) kvs);
          frozen_repair = (case plan of (_, _, Some p) \<Rightarrow> rp_kind p = FROZEN_ARTIFACT_VIOLATION | _ \<Rightarrow> False)
      in if head = [] \<or> frozen_repair then give plan
         else then_do (frozen_violation (hist env) run items head) (\<lambda>found. case found of
           None \<Rightarrow> give plan
         | Some violation \<Rightarrow> then_do (checked (redirected parent violation plan)) (\<lambda>plan'.
             let phase = PHASE_FOR_STAGE (fst plan) in
             then_do (enqueue_progress env run
                (phase_value phase @ '':preflight-frozen-repair:'' @ violation_key env violation)
                (PreflightFrozenRepair phase violation) False) (\<lambda>_. give plan'))))"

section \<open>Admission of a profile\<close>

definition admission_states :: "string set" where
  "admission_states = {''active'', ''transition_pending'', ''dependency_degraded'', ''merge_wait'', ''retry_wait''}"

definition admission_args :: "string \<Rightarrow> string \<Rightarrow> string \<Rightarrow> int \<Rightarrow> int \<Rightarrow> transition_args" where
  "admission_args state assignee code version retry_at =
     (let transient = (code \<in> {''dependency_unavailable'', ''rate_limited''}) in
      \<lparr>ta_expected_states = [state], ta_new_state = (if transient then ''retry_wait'' else ''human_blocked''),
       ta_reason = ''profile_admission:'' @ assignee @ '':'' @ code, ta_expected_version = Some version,
       ta_next_retry_at = (if transient then Some retry_at else None), ta_compliance = None,
       ta_completion_source = None, ta_checked_head = None, ta_merge_commit_sha = None\<rparr>)"

definition refuse_profile :: "'w flow_env \<Rightarrow> RunRecord \<Rightarrow> string \<Rightarrow> string \<Rightarrow> ('w shared, unit) op" where
  "refuse_profile env run assignee code =
     then_do (read_state (\<lambda>s. run_state s (rr_run_key run))) (\<lambda>state.
     then_do (if state \<notin> admission_states then give ()
        else then_do (\<lambda>s. (version_of s (rr_run_key run), s)) (\<lambda>version. timed env (\<lambda>now. ignore_result (on_ctl
          (transition_run now (rr_run_key run) (admission_args state assignee code version
             (now + \<lfloor>cf_dependency_backoff_initial_seconds (fl_config env)\<rfloor>))))))) (\<lambda>_.
     checked (Inl (RunPolicyError (''profile_admission_failed:'' @ assignee @ '':'' @ code)))))"

definition admit_profile :: "'w flow_env \<Rightarrow> RunRecord \<Rightarrow> string \<Rightarrow> ('w shared, unit) op" where
  "admit_profile env run assignee =
     then_do (read_state (\<lambda>s. deployment_preflight True (si_admin (snd s)))) (\<lambda>accepted.
       if (case accepted of Some (r, _) \<Rightarrow> \<not> (dp_ok r \<and> dp_deep r) | None \<Rightarrow> True) then give ()
       else then_do (fl_admission env assignee (pf_project_path (rr_project run)) (wf_branch (rr_workspace run)))
         (\<lambda>admission.
         then_do (timed env (\<lambda>now. on_admin (record_profile_preflight (ke_str (kb env)) now admission True))) (\<lambda>_.
         if truthy_json (get_json admission ''ok'') then give ()
         else refuse_profile env run assignee (let c = read_json env admission ''error_code''
           in if c = [] then ''profile_admission_failed'' else c))))"

section \<open>Creating a work card\<close>

definition opt_field :: "('a \<Rightarrow> json) \<Rightarrow> 'a option \<Rightarrow> json" where
  "opt_field f x = (case x of None \<Rightarrow> JNull | Some v \<Rightarrow> f v)"

text \<open>The payload whose digest binds a completion to its card.\<close>

definition context_payload :: "'w flow_env \<Rightarrow> CardRecord \<Rightarrow> json" where
  "context_payload env c =
     (let run = cr_run c in JObj
       [(''protocol_version'', JStr ''hollysys-controller/v4''), (''run_key'', JStr (rr_run_key run)),
        (''source_key'', JStr (rr_source_key run)), (''run_generation'', JStr (rr_run_generation run)),
        (''stage'', JStr (stage_value (cr_stage c))), (''iteration'', JInt (cr_iteration c)),
        (''mode'', JStr (mode_value (cr_mode c))), (''idempotency_key'', JStr (cr_idempotency_key c)),
        (''parent_card_id'', JStr (cr_parent_card_id c)), (''assignee'', JStr (cr_assignee c)),
        (''skills'', JList (map JStr (cr_skills c))),
        (''expected_head_sha'', opt_json (cr_expected_head_sha c)),
        (''delivery'', opt_field (fl_dump_binding env) (cr_delivery c)),
        (''frozen_baselines'', JList (map (fl_dump_baseline env) (cr_frozen_baselines c))),
        (''repair_context'', opt_field (fl_dump_repair env) (cr_repair_context c)),
        (''resume_answer'', opt_json (cr_resume_answer c)),
        (''resumed_from_card_id'', opt_json (cr_resumed_from_card_id c))])"

text \<open>\<open>CardRecord(...)\<close>: its own texts are stripped and checked; nested models are not revalidated.\<close>

definition make_card :: "CardRecord \<Rightarrow> CardRecord res" where
  "make_card c =
     (let d = c\<lparr>cr_idempotency_key := strip (cr_idempotency_key c), cr_parent_card_id := strip (cr_parent_card_id c),
          cr_assignee := strip (cr_assignee c), cr_skills := map strip (cr_skills c),
          cr_resume_answer := map_option strip (cr_resume_answer c),
          cr_resumed_from_card_id := map_option strip (cr_resumed_from_card_id c),
          cr_expected_head_sha := map_option strip (cr_expected_head_sha c),
          cr_context_digest := strip (cr_context_digest c), cr_scratch_dir := strip (cr_scratch_dir c)\<rparr>
      in if 1 \<le> cr_iteration d \<and> is_card_id (cr_parent_card_id d) \<and> opt_all valid_sha (cr_expected_head_sha d) \<and>
            is_digest (cr_context_digest d)
         then (case validate_scratch_dir (cr_scratch_dir d) of Inl e \<Rightarrow> Inl e | Inr _ \<Rightarrow> Inr d)
         else Inl (ValueError ''validation error for CardRecord''))"

definition work_key :: "RunRecord \<Rightarrow> Stage \<Rightarrow> int \<Rightarrow> WorkMode \<Rightarrow> string" where
  "work_key run stage iteration mode = rr_run_key run @ '':'' @ stage_value stage @ '':'' @
     int_str iteration @ '':'' @ mode_value mode @ '':work''"

definition stage_cards :: "managed_row list \<Rightarrow> Stage \<Rightarrow> nat" where
  "stage_cards cards stage = length (filter (\<lambda>m. mc_purpose m = ''work'' \<and> mc_stage m = stage_value stage) cards)"

definition config_for :: "(Stage \<times> 'a) list \<Rightarrow> Stage \<Rightarrow> 'a res" where
  "config_for table stage = (case map_of table stage of None \<Rightarrow> Inl (PyKeyError (stage_value stage)) | Some v \<Rightarrow> Inr v)"

text \<open>The record of the next card; the digest is over the record without it.\<close>

definition card_record ::
  "'w flow_env \<Rightarrow> RunRecord \<Rightarrow> card_plan \<Rightarrow> string \<Rightarrow> string option \<Rightarrow> string option \<Rightarrow> ArtifactBaseline list \<Rightarrow>
   int \<Rightarrow> string \<Rightarrow> string list \<Rightarrow> string \<Rightarrow> DeliveryBinding option \<Rightarrow> CardRecord res" where
  "card_record env run plan parent answer resumed_from baselines iteration assignee skills head binding =
     (case plan of (stage, mode, repair) \<Rightarrow>
       let key = work_key run stage iteration mode;
           c = \<lparr>cr_run = run, cr_stage = stage, cr_iteration = iteration, cr_mode = mode,
             cr_idempotency_key = key, cr_parent_card_id = parent, cr_assignee = assignee, cr_skills = skills,
             cr_frozen_baselines = baselines,
             cr_repair_context = map_option (\<lambda>p. p\<lparr>rp_frozen_baselines := baselines\<rparr>) repair,
             cr_resume_answer = answer, cr_resumed_from_card_id = resumed_from,
             cr_expected_head_sha = Some head, cr_context_digest = [],
             cr_scratch_dir = scratch_dir_of env run key, cr_delivery = binding\<rparr>
       in make_card (c\<lparr>cr_context_digest := hv_sha256 (fl_history env) (fl_utf8_json env (canon (context_payload env c)))\<rparr>))"

definition managed_work :: "CardRecord \<Rightarrow> TaskRecord \<Rightarrow> managed_row" where
  "managed_work c t = \<lparr>mc_board = wf_board (rr_workspace (cr_run c)), mc_card_id = tk_id t,
     mc_run_key = rr_run_key (cr_run c), mc_stage = stage_value (cr_stage c), mc_iteration = cr_iteration c,
     mc_idempotency_key = cr_idempotency_key c, mc_parent_card_id = Some (cr_parent_card_id c),
     mc_purpose = ''work'', mc_created_at = tk_created_at t\<rparr>"

text \<open>The card is created and registered; a run that left its state cancels it.\<close>

definition register_work :: "'w flow_env \<Rightarrow> CardRecord \<Rightarrow> ('w shared, TaskRecord) op" where
  "register_work env c =
     (let run = cr_run c; w = rr_workspace run in
      then_do (prepare_scratch_dir (fl_files env) (cr_scratch_dir c)) (\<lambda>_.
      then_do (create_work (kb env) (fl_config env) (hv_json (hist env)) c) (\<lambda>t.
      then_do (checked (verify_work (hv_json (hist env)) t c)) (\<lambda>_.
      then_do (timed env (\<lambda>now. on_cards (add_managed_card now (managed_work c t) (Some (tk_created_at t))))) (\<lambda>_.
      then_do (or_cleanup (assert_mutable (rr_run_key run))
          (cancel_card env run (tk_id t) ''run state changed before card publication'')) (\<lambda>_.
      then_do (timed env (\<lambda>now. on_cards (register_card_attempt now (wf_board w) (tk_id t) (cr_assignee c)
          (cr_idempotency_key c) (wf_worktree w) (wf_branch w)))) (\<lambda>_. give t)))))))"

text \<open>
  The card that \<open>_create_work\<close> is going to register: frozen baselines and head are read
  from the run's history and merge request, the plan redirected when they disagree.
\<close>

definition plan_work ::
  "'w flow_env \<Rightarrow> RunRecord \<Rightarrow> string \<Rightarrow> string option \<Rightarrow> string option \<Rightarrow> card_plan \<Rightarrow> ('w shared, CardRecord) op" where
  "plan_work env run parent answer resumed_from plan =
     then_do (assert_mutable (rr_run_key run)) (\<lambda>_.
     then_do (history (hist env) (rr_run_key run)) (\<lambda>(items, _).
     then_do (frozen_baselines (hist env) items run) (\<lambda>baselines.
     then_do (delivery_mr (hist env) run) (\<lambda>mr.
     then_do (assert_mutable (rr_run_key run)) (\<lambda>_.
     then_do (preflight_repair env run items parent mr plan) (\<lambda>plan'.
     then_do (read_state (\<lambda>s. int (stage_cards (cards_for_run (si_cards (snd s)) (rr_run_key run)) (fst plan')) + 1))
       (\<lambda>iteration.
     then_do (checked (config_for (cf_stage_assignees (fl_config env)) (fst plan'))) (\<lambda>assignee.
     then_do (checked (config_for (cf_stage_skills (fl_config env)) (fst plan'))) (\<lambda>skills.
     then_do (admit_profile env run assignee) (\<lambda>_.
     then_do (read_binding (hist env) run) (\<lambda>binding.
       let head = (case mr of None \<Rightarrow> [] | Some kvs \<Rightarrow> mr_head (hist env) kvs) in
       checked (card_record env run plan' parent answer resumed_from baselines iteration assignee skills
         (if head = [] then wf_repository_base_sha (rr_workspace run) else head) binding))))))))))))"

definition create_card ::
  "'w flow_env \<Rightarrow> RunRecord \<Rightarrow> card_plan \<Rightarrow> string \<Rightarrow> string option \<Rightarrow> string option \<Rightarrow> bool \<Rightarrow>
   ('w flow, TaskRecord) op" where
  "create_card env run plan parent answer resumed_from publish =
     then_do (on_shared (plan_work env run parent answer resumed_from plan)) (\<lambda>c.
     then_do (on_shared (register_work env c)) (\<lambda>t.
       if \<not> publish then give t
       else or_cleanup (ensure_work_published env run t)
         (on_shared (cancel_card env run (tk_id t) ''run state changed during card publication''))))"

text \<open>\<open>_create_work(run, stage, parent)\<close> with the defaults.\<close>

definition next_card :: "'w flow_env \<Rightarrow> RunRecord \<Rightarrow> card_plan \<Rightarrow> string \<Rightarrow> ('w flow, unit) op" where
  "next_card env run plan parent = then_do (create_card env run plan parent None None True) (\<lambda>_. give ())"

section \<open>The exception card\<close>

definition exception_key :: "'w flow_env \<Rightarrow> RunRecord \<Rightarrow> string \<Rightarrow> string" where
  "exception_key env run reason = rr_run_key run @ '':exception:'' @ violation_key env reason"

text \<open>An active parent is stopped first; without a confirmed exit the exception waits.\<close>

definition stop_parent :: "'w flow_env \<Rightarrow> RunRecord \<Rightarrow> string \<Rightarrow> string \<Rightarrow> ('w shared, unit) op" where
  "stop_parent env run parent_id reason =
     then_do (task (kb env) (wf_board (rr_workspace run)) parent_id) (\<lambda>parent.
       if \<not> (case parent of None \<Rightarrow> False | Some t \<Rightarrow> tk_status t \<in> ACTIVE_STATUSES) then give ()
       else then_do (abort_managed_task env (wf_board (rr_workspace run)) parent_id
           (''Controller entered exception: '' @ take 400 reason)) (\<lambda>stopped.
         if stopped then give () else checked (Inl (RunPolicyError ''worker_recovery_pending''))))"

definition exception_matches :: "RunRecord \<Rightarrow> string \<Rightarrow> string \<Rightarrow> TaskRecord \<Rightarrow> bool" where
  "exception_matches run parent_id key t \<longleftrightarrow> tk_created_by t = Some ''hollysys-controller'' \<and>
     tk_idempotency_key t = Some key \<and> tk_tenant t = Some (rr_run_key run) \<and>
     tk_assignee t = Some ''dispatcher'' \<and> tk_parents t = [parent_id] \<and>
     ''hollysys-dispatch-kanban'' \<in> set (tk_skills t)"

definition create_exception_card ::
  "'w flow_env \<Rightarrow> RunRecord \<Rightarrow> string \<Rightarrow> string \<Rightarrow> ('w shared, TaskRecord) op" where
  "create_exception_card env run parent_id reason =
     (let key = exception_key env run reason @ '':work'' in
      then_do (prepare_exception_scratch_dir env run key) (\<lambda>_.
      then_do (create_exception (kb env) (fl_config env) (hv_json (hist env)) (hv_sha256 (fl_history env)) run
          parent_id reason key) (\<lambda>t.
      then_do (checked (if exception_matches run parent_id key t then Inr ()
         else Inl (ValueError (''created exception card '' @ tk_id t @ '' does not match intent'')))) (\<lambda>_.
      then_do (timed env (\<lambda>now. on_cards (add_managed_card now
         \<lparr>mc_board = wf_board (rr_workspace run), mc_card_id = tk_id t, mc_run_key = rr_run_key run,
          mc_stage = ''exception'', mc_iteration = 1, mc_idempotency_key = key,
          mc_parent_card_id = Some parent_id, mc_purpose = ''exception'', mc_created_at = tk_created_at t\<rparr>
         (Some (tk_created_at t))))) (\<lambda>_.
      give t)))))"

definition exception_sources :: "string set" where
  "exception_sources = {''active'', ''dependency_degraded'', ''merge_wait'', ''exception''}"

text \<open>A state that was left meanwhile discards the exception card.\<close>

definition enter_exception :: "'w flow_env \<Rightarrow> RunRecord \<Rightarrow> string \<Rightarrow> string \<Rightarrow> ('w shared, unit) op" where
  "enter_exception env run card_id reason = try_do
     (timed env (\<lambda>now. on_ctl (set_run_exception now (rr_run_key run) reason)))
     (\<lambda>e. if \<not> is_value_error e then checked (Inl e)
        else then_do (read_state (\<lambda>s. run_state s (rr_run_key run))) (\<lambda>state.
          if state \<in> exception_sources then checked (Inl e)
          else then_do (cancel_card env run card_id ''run state superseded exception transition'') (\<lambda>_.
            checked (Inl (ReconcileSuperseded (''exception_transition_superseded:'' @ rr_run_key run @ '':'' @ state))))))
     (\<lambda>_. give ())"

definition raise_exception ::
  "'w flow_env \<Rightarrow> RunRecord \<Rightarrow> string \<Rightarrow> string \<Rightarrow> ('w shared, TaskRecord) op" where
  "raise_exception env run parent_id reason =
     then_do (assert_mutable (rr_run_key run)) (\<lambda>_.
     then_do (stop_parent env run parent_id reason) (\<lambda>_.
     then_do (create_exception_card env run parent_id reason) (\<lambda>t.
     then_do (or_cleanup (assert_mutable (rr_run_key run))
        (cancel_card env run (tk_id t) ''run state changed while exception was being recorded'')) (\<lambda>_.
     then_do (enter_exception env run (tk_id t) reason) (\<lambda>_.
     then_do (send_notice env run (''exception:'' @ violation_key env reason) ''exception''
        (ExceptionRaised (tk_id t) reason)) (\<lambda>_. give t))))))"

definition stop_run :: "'w flow_env \<Rightarrow> RunRecord \<Rightarrow> string \<Rightarrow> string \<Rightarrow> ('w flow, unit) op" where
  "stop_run env run parent_id reason =
     on_shared (then_do (raise_exception env run parent_id reason) (\<lambda>_. give ()))"

section \<open>Judged completions\<close>

definition record_completion ::
  "'w flow_env \<Rightarrow> HistoryItem \<Rightarrow> bool \<Rightarrow> int option \<Rightarrow> string option \<Rightarrow> string option \<Rightarrow> ('w shared, unit) op" where
  "record_completion env item ok mr_iid head_sha reason = timed env (\<lambda>now. on_cards
     (record_attempt_completion now (mc_board (hi_managed item)) (mc_card_id (hi_managed item)) ok
        mr_iid head_sha reason))"

text \<open>\<open>int((runtime or {}).get("attempt") or 1)\<close>\<close>

definition worker_attempt :: "'w shared \<Rightarrow> HistoryItem \<Rightarrow> int" where
  "worker_attempt s item = (case card_runtime (si_cards (snd s)) (mc_board (hi_managed item)) (mc_card_id (hi_managed item)) of
     Some r \<Rightarrow> if rt_attempt r = 0 then 1 else rt_attempt r | None \<Rightarrow> 1)"

text \<open>\<open>control.get("state_version", 1)\<close>\<close>

definition shown_version :: "'w shared \<Rightarrow> string \<Rightarrow> int" where
  "shown_version s run_key = (case run_control (fst s) run_key of Some r \<Rightarrow> rc_state_version r | None \<Rightarrow> 1)"

fun outcome_value :: "Outcome \<Rightarrow> string" where
  "outcome_value PASS = ''pass''"
| "outcome_value FAIL = ''fail''"
| "outcome_value CANCELLED = ''cancelled''"

text \<open>Both notices count the document round; a history that cannot be read raises.\<close>

definition agent_notice ::
  "'w flow_env \<Rightarrow> RunRecord \<Rightarrow> HistoryItem \<Rightarrow> HistoryItem list \<Rightarrow> Stage \<Rightarrow> bool \<Rightarrow> string \<Rightarrow>
   (int option \<Rightarrow> int \<Rightarrow> notice) \<Rightarrow> ('w shared, unit) op" where
  "agent_notice env run item items stage was_accepted verdict n =
     then_do (read_state (\<lambda>s. worker_attempt s item)) (\<lambda>attempt.
     then_do (checked (document_round (hist env) items stage was_accepted)) (\<lambda>round_no.
     then_do (read_state (\<lambda>s. shown_version s (rr_run_key run))) (\<lambda>version.
     enqueue_progress env run (''agent:'' @ tk_id (hi_task item) @ '':'' @ int_str attempt @ '':'' @ verdict @
       '':'' @ int_str version) (n round_no attempt) False)))"

definition enqueue_agent_completed ::
  "'w flow_env \<Rightarrow> RunRecord \<Rightarrow> HistoryItem \<Rightarrow> CompletionMetadata \<Rightarrow> HistoryItem list \<Rightarrow> ('w shared, unit) op" where
  "enqueue_agent_completed env run item md items =
     (if fl_level env \<noteq> VERBOSE then give ()
      else agent_notice env run item items (cm_stage md) True
        (''completed-accepted:'' @ outcome_value (cm_outcome md)) (AgentCompleted item md))"

definition stage_of_item :: "HistoryItem \<Rightarrow> Stage res" where
  "stage_of_item item = (case stage_of_value (mc_stage (hi_managed item)) of
     None \<Rightarrow> Inl (ValueError ''not a valid Stage'') | Some s \<Rightarrow> Inr s)"

definition enqueue_agent_completion_rejected ::
  "'w flow_env \<Rightarrow> RunRecord \<Rightarrow> HistoryItem \<Rightarrow> string \<Rightarrow> HistoryItem list \<Rightarrow> ('w shared, unit) op" where
  "enqueue_agent_completion_rejected env run item reason items =
     (if fl_level env \<noteq> VERBOSE then give ()
      else then_do (checked (stage_of_item item)) (\<lambda>stage.
        agent_notice env run item items stage False ''completed-rejected'' (AgentRejected item reason)))"

definition reject_agent_completion ::
  "'w flow_env \<Rightarrow> RunRecord \<Rightarrow> HistoryItem \<Rightarrow> string \<Rightarrow> HistoryItem list \<Rightarrow> int option \<Rightarrow> string option \<Rightarrow>
   ('w shared, unit) op" where
  "reject_agent_completion env run item reason items mr_iid head_sha =
     then_do (record_completion env item False mr_iid head_sha (Some reason)) (\<lambda>_.
       enqueue_agent_completion_rejected env run item reason items)"

section \<open>Repairs\<close>

definition enqueue_review_failed ::
  "'w flow_env \<Rightarrow> RunRecord \<Rightarrow> CompletionMetadata \<Rightarrow> int \<Rightarrow> WorkMode \<Rightarrow> ('w shared, unit) op" where
  "enqueue_review_failed env run md attempt mode = enqueue_progress env run
     (phase_value (PHASE_FOR_STAGE (cm_stage md)) @ '':review-failed:'' @ int_str attempt @ '':'' @
        cm_kanban_card_id md) (ReviewFailed md attempt mode) False"

definition create_review_repair ::
  "'w flow_env \<Rightarrow> RunRecord \<Rightarrow> HistoryItem list \<Rightarrow> CompletionMetadata \<Rightarrow> string \<Rightarrow> string list \<Rightarrow> ('w flow, unit) op" where
  "create_review_repair env run items md parent issues =
     (let limit = cf_document_review_limit (fl_config env) in
      then_do (checked (review_attempts_by_stage (hist env) items)) (\<lambda>n.
      let attempt = n (cm_stage md); mode = (if attempt \<ge> limit then FINALIZATION else NORMAL) in
      then_do (checked (make_repair (review_repair_context (md\<lparr>cm_issues := issues\<rparr>) parent attempt (fl_config env)))) (\<lambda>p.
      then_do (on_shared (enqueue_review_failed env run md attempt mode)) (\<lambda>_.
      next_card env run (PRODUCER_FOR_PHASE (PHASE_FOR_STAGE (cm_stage md)), mode, Some p) parent))))"

text \<open>The review failure a finalization card was created for, with the violation added.\<close>

definition finalization_context ::
  "'w flow_env \<Rightarrow> HistoryItem list \<Rightarrow> string \<Rightarrow> RepairContext option res" where
  "finalization_context env items violation = (if items = [] then Inl (PyRuntimeError ''list index out of range'')
     else case item_body (hist env) (last items) of
       Inl e \<Rightarrow> Inl e
     | Inr c \<Rightarrow> Inr (case cr_repair_context c of
         Some p \<Rightarrow> if rp_kind p = REVIEW_FAILURE then Some (with_issue p (finalize_prefix @ violation)) else None
       | None \<Rightarrow> None))"

definition create_frozen_repair ::
  "'w flow_env \<Rightarrow> RunRecord \<Rightarrow> HistoryItem list \<Rightarrow> Phase \<Rightarrow> string \<Rightarrow> string \<Rightarrow> WorkMode \<Rightarrow> ('w flow, unit) op" where
  "create_frozen_repair env run items phase parent violation mode =
     then_do (checked (if mode = FINALIZATION then finalization_context env items violation else Inr None)) (\<lambda>found.
     then_do (checked (case found of Some p \<Rightarrow> Inr p
        | None \<Rightarrow> make_repair (frozen_context parent [restore_prefix @ violation]))) (\<lambda>p.
     then_do (on_shared (enqueue_progress env run
        (phase_value phase @ '':frozen-repair:'' @ violation_key env violation) (FrozenRepair phase violation) False)) (\<lambda>_.
     next_card env run (PRODUCER_FOR_PHASE phase, mode, Some p) parent)))"

definition mark_protocol_error ::
  "'w flow_env \<Rightarrow> RunRecord \<Rightarrow> HistoryItem \<Rightarrow> string \<Rightarrow> ('w shared, unit) op" where
  "mark_protocol_error env run item reason =
     (if protocol_marked item then give ()
      else comment_task (kb env) (fl_config env) (wf_board (rr_workspace run)) (tk_id (hi_task item))
        (protocol_marker @ new_line @ ''reason: '' @ take 1200 reason) ''hollysys-controller'')"

text \<open>A malformed completion is retried in the same mode until the budget is used up.\<close>

definition protocol_failure ::
  "'w flow_env \<Rightarrow> RunRecord \<Rightarrow> HistoryItem list \<Rightarrow> HistoryItem \<Rightarrow> string \<Rightarrow> ('w flow, unit) op" where
  "protocol_failure env run items latest reason =
     then_do (on_shared (assert_mutable (rr_run_key run))) (\<lambda>_.
     then_do (on_shared (reject_agent_completion env run latest reason items None None)) (\<lambda>_.
     then_do (on_shared (mark_protocol_error env run latest reason)) (\<lambda>_.
     then_do (checked (protocol_failures_by_stage items)) (\<lambda>failures.
     then_do (checked (stage_of_item latest)) (\<lambda>stage.
       if protocol_retry_allowed (failures stage + (if protocol_marked latest then 0 else 1)) (fl_config env)
       then then_do (checked (item_body (hist env) latest)) (\<lambda>c.
         next_card env run (stage, cr_mode c, cr_repair_context c) (tk_id (hi_task latest)))
       else stop_run env run (tk_id (hi_task latest))
         (''metadata/gate protocol retry budget exhausted: '' @ reason))))))"

end
