(* ===== verification/Finalize.thy ===== *)
theory Finalize
  imports Controller_Cards
begin

text \<open>
  How a run ends (service.py): a merged merge request completes it, the code flow reaches
  one of its terminal states, a merge blocker makes it wait, a confirmed abort stops its
  cards and closes its delivery.
\<close>

section \<open>A merged merge request\<close>

definition json_obj :: "json \<Rightarrow> (string \<times> json) list" where
  "json_obj v = (case v of JObj kvs \<Rightarrow> kvs | _ \<Rightarrow> [])"

definition invalid_merged_mr :: ctl_error where
  "invalid_merged_mr = DependencyContractError ''merged MR response lacks a valid iid/checked head''
     \<lparr>ec_dependency = ''gitlab'', ec_endpoint = Some ''merge_requests'', ec_status_code = None,
      ec_retry_after_seconds = None, ec_error_code = Some ''invalid_merged_mr_identity''\<rparr>"

definition merged_mr_identity ::
  "'w flow_env \<Rightarrow> (string \<times> json) list \<Rightarrow> (int \<times> string \<times> string option) res" where
  "merged_mr_identity env mr =
     (case (let v = get_json mr ''iid'' in if truthy_json v then int_of_json v else Some 0) of
        None \<Rightarrow> Inl invalid_merged_mr
      | Some iid \<Rightarrow>
          let head = read_json env mr ''sha''; merge_sha = or_text (Some (read_json env mr ''merge_commit_sha'')) in
          if iid \<le> 0 \<or> \<not> valid_sha head \<or> (case merge_sha of None \<Rightarrow> False | Some m \<Rightarrow> \<not> valid_sha m)
          then Inl invalid_merged_mr else Inr (iid, head, merge_sha))"

definition CONTROLLER_MERGE_SUBMITTED_FIELD :: string where
  "CONTROLLER_MERGE_SUBMITTED_FIELD = ''_hollysys_controller_merge_submitted_v4''"

text \<open>The journal shows that the controller itself submitted the merge of this head.\<close>

definition managed_merge :: "journal_db \<Rightarrow> string \<Rightarrow> string \<Rightarrow> bool" where
  "managed_merge j key head = (case operation_record j key of
     None \<Rightarrow> False
   | Some r \<Rightarrow> op_status r = ''done'' \<and> op_expected_head_sha r = Some head \<and>
       (case op_result r of
          Some v \<Rightarrow> map_of (json_obj v) CONTROLLER_MERGE_SUBMITTED_FIELD = Some (JBool True)
        | None \<Rightarrow> False))"

definition gates_cover :: "CompletionMetadata \<Rightarrow> CompletionMetadata \<Rightarrow> int \<Rightarrow> string \<Rightarrow> bool" where
  "gates_cover test review mr_iid head \<longleftrightarrow> cm_head_sha test = Some head \<and> cm_head_sha review = Some head \<and>
     cm_mr_iid test = Some mr_iid \<and> cm_mr_iid review = Some mr_iid"

definition is_policy_violation :: "ctl_error \<Rightarrow> bool" where
  "is_policy_violation e \<longleftrightarrow> is_value_error e \<or> is_type_error e"

text \<open>Compliance and its reason.\<close>

definition merge_compliance ::
  "'w flow_env \<Rightarrow> RunRecord \<Rightarrow> HistoryItem list \<Rightarrow> bool \<Rightarrow> int \<Rightarrow> string \<Rightarrow> ('w shared, string \<times> string) op" where
  "merge_compliance env run items managed mr_iid head =
     (let reason = (if managed then ''merged_without_current_controller_gate_evidence''
        else ''merged_without_controller_checked_head_operation'') in
      then_do (checked (latest_valid_pass (hist env) items TEST)) (\<lambda>test.
      then_do (checked (latest_valid_pass (hist env) items CODE_REVIEW)) (\<lambda>review.
        case (test, review) of
          (Some t, Some r) \<Rightarrow>
            if \<not> managed \<or> \<not> gates_cover t r mr_iid head then give (''unverified'', reason)
            else try_do
              (then_do (gl_gate (fl_gitlab env) run t) (\<lambda>test_author.
               then_do (gl_gate (fl_gitlab env) run r) (\<lambda>review_author. give (test_author = review_author))))
              (\<lambda>e. if is_policy_violation e then give (''unverified'', ''gate_evidence_invalid:'' @ error_message e)
                 else checked (Inl e))
              (\<lambda>same. give (if same then (''unverified'', ''test_and_code_review_author_must_differ'')
                 else (''verified'', ''checked_head_gates_verified'')))
        | _ \<Rightarrow> give (''unverified'', reason))))"

definition id_text :: "string option \<Rightarrow> int \<Rightarrow> string" where
  "id_text merge_sha mr_iid = (case merge_sha of Some m \<Rightarrow> m | None \<Rightarrow> int_str mr_iid)"

definition on_control_db :: "(int \<Rightarrow> (control_db, 'a) op) \<Rightarrow> 'w flow_env \<Rightarrow> ('w shared, unit) op" where
  "on_control_db f env = timed env (\<lambda>now. ignore_result (on_ctl (f now)))"

definition close_aborted_merge ::
  "'w flow_env \<Rightarrow> RunRecord \<Rightarrow> (string \<times> json) list \<Rightarrow> int \<Rightarrow> string \<Rightarrow> string option \<Rightarrow> ('w shared, unit) op" where
  "close_aborted_merge env run mr mr_iid head merge_sha =
     (let k = rr_run_key run in
      then_do (on_ctl (clear_merge_wait k)) (\<lambda>_.
      then_do (on_control_db (\<lambda>now. finish_abort now k ''completed_before_abort'' (or_text (Some head)) merge_sha) env) (\<lambda>_.
      send_notice env run (''completed-before-abort:'' @ id_text merge_sha mr_iid) ''completed-before-abort''
        (MergedBeforeAbort mr mr_iid))))"

definition complete_merged ::
  "'w flow_env \<Rightarrow> RunRecord \<Rightarrow> (string \<times> json) list \<Rightarrow> bool \<Rightarrow> int \<Rightarrow> string \<Rightarrow> string option \<Rightarrow> string \<times> string \<Rightarrow>
   ('w shared, unit) op" where
  "complete_merged env run mr managed mr_iid head merge_sha judged =
     (case judged of (compliance, reason) \<Rightarrow> let k = rr_run_key run in
      then_do (on_ctl (clear_merge_wait k)) (\<lambda>_.
      then_do (on_control_db (\<lambda>now. mark_completed now k (\<not> managed) compliance
         (if head = [] then ''unknown'' else head) merge_sha reason) env) (\<lambda>_.
      if compliance = ''verified''
      then send_notice env run (''merged:'' @ (let m = read_json env mr ''merge_commit_sha'' in
             if m = [] then json_text (ke_str (kb env)) (get_json mr ''iid'') else m)) ''merged'' (RunMerged mr)
      else send_notice env run (''merged-policy-violation:'' @ id_text merge_sha mr_iid)
             ''merged-policy-violation'' (PolicyViolation mr mr_iid reason))))"

definition complete_merged_run ::
  "'w flow_env \<Rightarrow> RunRecord \<Rightarrow> HistoryItem list \<Rightarrow> (string \<times> json) list \<Rightarrow> int \<Rightarrow> string \<Rightarrow> string option \<Rightarrow>
   string option \<Rightarrow> ('w flow, unit) op" where
  "complete_merged_run env run items mr mr_iid head merge_sha operation_key =
     then_do (read_state (\<lambda>s. managed_merge (cs_journal s)
        (case operation_key of Some k \<Rightarrow> k | None \<Rightarrow> rr_run_key run @ '':merge:'' @ head) head)) (\<lambda>managed.
     on_shared (then_do (merge_compliance env run items managed mr_iid head) (\<lambda>judged.
       then_do (read_state (\<lambda>s. run_state s (rr_run_key run))) (\<lambda>state.
         if state \<in> set abort_states then close_aborted_merge env run mr mr_iid head merge_sha
         else if state \<in> set TERMINAL_RUN_STATES then give ()
         else complete_merged env run mr managed mr_iid head merge_sha judged))))"

definition finalize_merged ::
  "'w flow_env \<Rightarrow> RunRecord \<Rightarrow> HistoryItem list \<Rightarrow> (string \<times> json) list \<Rightarrow> string option \<Rightarrow> ('w flow, unit) op" where
  "finalize_merged env run items mr operation_key =
     then_do (checked (merged_mr_identity env mr)) (\<lambda>(mr_iid, head, merge_sha).
       complete_merged_run env run items mr mr_iid head merge_sha operation_key)"

section \<open>The end of the code flow\<close>

definition is_draft :: "(string \<times> json) list \<Rightarrow> bool" where
  "is_draft mr \<longleftrightarrow> truthy_json (get_json mr ''draft'') \<or> truthy_json (get_json mr ''work_in_progress'')"

definition at_head :: "'w flow_env \<Rightarrow> (string \<times> json) list option \<Rightarrow> string \<Rightarrow> bool" where
  "at_head env mr head \<longleftrightarrow> (case mr of None \<Rightarrow> False | Some kvs \<Rightarrow> mr_head (hist env) kvs = head)"

definition ready_not_confirmed :: ctl_error where
  "ready_not_confirmed = DependencyContractError ''GitLab did not confirm delivery MR is ready''
     \<lparr>ec_dependency = ''gitlab'', ec_endpoint = Some ''merge_requests'', ec_status_code = None,
      ec_retry_after_seconds = None, ec_error_code = Some ''delivery_ready_not_confirmed''\<rparr>"

definition mark_and_verify ::
  "'w flow_env \<Rightarrow> RunRecord \<Rightarrow> DeliveryBinding \<Rightarrow> string \<Rightarrow> ('w shared, json) op" where
  "mark_and_verify env run binding head =
     then_do (gl_delivery_mr (fl_gitlab env) run (Some (db_mr_iid binding))) (\<lambda>before.
       if \<not> at_head env before head
       then checked (Inl (CheckedHeadConflict ''MR head changed before delivery-ready transition''))
       else then_do (gl_mark_ready (fl_gitlab env) run binding) (\<lambda>_.
         then_do (gl_delivery_mr (fl_gitlab env) run (Some (db_mr_iid binding))) (\<lambda>after.
           if \<not> at_head env after head
           then checked (Inl (CheckedHeadConflict ''MR head changed during delivery-ready transition''))
           else case after of
             None \<Rightarrow> checked (Inl ready_not_confirmed)
           | Some kvs \<Rightarrow> if is_draft kvs then checked (Inl ready_not_confirmed) else give (JObj kvs))))"

definition mark_delivery_ready_at_head ::
  "'w flow_env \<Rightarrow> RunRecord \<Rightarrow> DeliveryBinding \<Rightarrow> string \<Rightarrow> ('w flow, unit) op" where
  "mark_delivery_ready_at_head env run binding head =
     then_do (read_state (\<lambda>s. version_or_one (shared_of s) (rr_run_key run))) (\<lambda>version.
     then_do (journalled env (rr_run_key run @ '':delivery-ready:'' @ head) ''delivery-ready''
        (JObj [(''run_key'', JStr (rr_run_key run)), (''mr_iid'', JInt (db_mr_iid binding)), (''checked_head'', JStr head)])
        (mark_and_verify env run binding head) (rr_run_key run) version (Some head)) (\<lambda>_. give ()))"

definition ready_states :: "string set" where
  "ready_states = {''completed_ready'', ''completed_with_findings''}"

definition gate_pair ::
  "string \<Rightarrow> CompletionMetadata \<Rightarrow> CompletionMetadata option \<Rightarrow> (CompletionMetadata \<times> CompletionMetadata option) res" where
  "gate_pair terminal_state md paired_test =
     (if terminal_state = ''completed_test_failed''
      then if cm_stage md \<noteq> TEST \<or> cm_outcome md \<noteq> FAIL
           then Inl (ValueError ''test-failed terminal requires a failed test'') else Inr (md, None)
      else case paired_test of
        Some t \<Rightarrow> if cm_stage md \<noteq> CODE_REVIEW \<or> cm_outcome t \<noteq> PASS
          then Inl (ValueError ''ready terminal requires a passed paired test'') else Inr (t, Some md)
      | None \<Rightarrow> Inl (ValueError ''ready terminal requires a passed paired test''))"

definition delivered_head :: "CompletionMetadata \<Rightarrow> CompletionMetadata \<Rightarrow> string" where
  "delivered_head md test = (case or_text (cm_head_sha md) of Some h \<Rightarrow> h
     | None \<Rightarrow> (case cm_head_sha test of Some h \<Rightarrow> h | None \<Rightarrow> []))"

text \<open>\<open>metadata.mr_iid or test.mr_iid\<close>\<close>

definition delivered_iid :: "CompletionMetadata \<Rightarrow> CompletionMetadata \<Rightarrow> int option" where
  "delivered_iid md test = (case cm_mr_iid md of Some n \<Rightarrow> if n = 0 then cm_mr_iid test else Some n | None \<Rightarrow> cm_mr_iid test)"

definition make_ready ::
  "'w flow_env \<Rightarrow> RunRecord \<Rightarrow> int \<Rightarrow> string \<Rightarrow> (string \<times> json) list \<Rightarrow> ('w flow, (string \<times> json) list) op" where
  "make_ready env run mr_iid head live_mr =
     then_do (on_shared (read_binding (hist env) run)) (\<lambda>binding. case binding of
       None \<Rightarrow> checked (Inl (ValueError ''CODE terminal MR does not match delivery binding''))
     | Some b \<Rightarrow>
         if db_mr_iid b \<noteq> mr_iid then checked (Inl (ValueError ''CODE terminal MR does not match delivery binding''))
         else then_do (mark_delivery_ready_at_head env run b head) (\<lambda>_.
           then_do (on_shared (gl_delivery_mr (fl_gitlab env) run (Some mr_iid))) (\<lambda>mr.
             case mr of
               None \<Rightarrow> checked (Inl (CheckedHeadConflict ''delivery-ready verification changed before terminal commit''))
             | Some kvs \<Rightarrow> if mr_head (hist env) kvs \<noteq> head \<or> is_draft kvs
                 then checked (Inl (CheckedHeadConflict ''delivery-ready verification changed before terminal commit''))
                 else give kvs)))"

definition terminal_reason ::
  "ControllerConfig \<Rightarrow> string \<Rightarrow> string \<Rightarrow> CompletionMetadata \<Rightarrow> CompletionMetadata option \<Rightarrow> int \<Rightarrow> string" where
  "terminal_reason config terminal_state head test review mods =
     ''code_flow_terminal:'' @ terminal_state @ '';head='' @ head @ '';tester='' @ outcome_value (cm_outcome test) @
     '';code-reviewer='' @ (case review of Some r \<Rightarrow> outcome_value (cm_outcome r) | None \<Rightarrow> ''not_run'') @
     '';modifications='' @ int_str mods @ ''/'' @ int_str (cf_code_modification_limit config) @
     '';mr_ready='' @ (if terminal_state \<in> ready_states then ''True'' else ''False'')"

definition commit_terminal ::
  "'w flow_env \<Rightarrow> RunRecord \<Rightarrow> HistoryItem list \<Rightarrow> string \<Rightarrow> string \<Rightarrow> CompletionMetadata \<Rightarrow> CompletionMetadata option \<Rightarrow>
   (string \<times> json) list \<Rightarrow> int \<Rightarrow> ('w shared, unit) op" where
  "commit_terminal env run items terminal_state head test review mr mods =
     then_do (on_ctl (clear_merge_wait (rr_run_key run))) (\<lambda>_.
     then_do (on_control_db (\<lambda>now. mark_flow_completed now (rr_run_key run) terminal_state head
        (terminal_reason (fl_config env) terminal_state head test review mods)) env) (\<lambda>_.
     then_do (checked (attempts_by_stage items)) (\<lambda>attempts.
     enqueue_progress env run (''code:terminal:'' @ terminal_state @ '':'' @ the_text (cm_head_sha test))
       (CodeFlowCompleted terminal_state test review mr mods attempts) True)))"

definition finalize_code_flow ::
  "'w flow_env \<Rightarrow> RunRecord \<Rightarrow> HistoryItem list \<Rightarrow> HistoryItem \<Rightarrow> CompletionMetadata \<Rightarrow> string \<Rightarrow>
   CompletionMetadata option \<Rightarrow> int \<Rightarrow> ('w flow, unit) op" where
  "finalize_code_flow env run items latest md terminal_state paired_test mods =
     then_do (checked (gate_pair terminal_state md paired_test)) (\<lambda>(test, review).
       let head = delivered_head md test in
       case delivered_iid md test of
         None \<Rightarrow> checked (Inl (ValueError ''CODE terminal requires MR/head evidence''))
       | Some iid \<Rightarrow>
           if head = [] then checked (Inl (ValueError ''CODE terminal requires MR/head evidence''))
           else then_do (on_shared (gl_delivery_mr (fl_gitlab env) run (Some iid))) (\<lambda>live.
             case (if at_head env live head then live else None) of
               None \<Rightarrow> next_card env run (TEST, NORMAL, None) (tk_id (hi_task latest))
             | Some mr \<Rightarrow> then_do (on_shared (frozen_violation (hist env) run items head)) (\<lambda>violation.
                 case violation of
                   Some v \<Rightarrow> stop_run env run (tk_id (hi_task latest)) (''terminal frozen baseline violation: '' @ v)
                 | None \<Rightarrow> then_do (if terminal_state \<in> ready_states then make_ready env run iid head mr else give mr)
                     (\<lambda>mr'. on_shared (commit_terminal env run items terminal_state head test review mr' mods)))))"

section \<open>Merge blockers\<close>

definition wait_args :: "string \<Rightarrow> string \<Rightarrow> int \<Rightarrow> int \<Rightarrow> string \<Rightarrow> transition_args" where
  "wait_args state kind version retry_at head =
     \<lparr>ta_expected_states = [state], ta_new_state = ''merge_wait'', ta_reason = ''merge_blocked:'' @ kind,
      ta_expected_version = Some version, ta_next_retry_at = Some retry_at, ta_compliance = None,
      ta_completion_source = None, ta_checked_head = Some head, ta_merge_commit_sha = None\<rparr>"

definition enter_merge_wait ::
  "'w flow_env \<Rightarrow> RunRecord \<Rightarrow> merge_blocker \<Rightarrow> mw_row \<Rightarrow> string \<Rightarrow> ('w shared, unit) op" where
  "enter_merge_wait env run b waiting head =
     then_do (read_state (\<lambda>s. run_state s (rr_run_key run))) (\<lambda>state.
       if state \<notin> set mutable_states then give ()
       else then_do (read_state (\<lambda>s. version_or_one s (rr_run_key run))) (\<lambda>version.
         on_control_db (\<lambda>now. transition_run now (rr_run_key run)
           (wait_args state (mb_kind b) version (mw_next_retry_at waiting) head)) env))"

definition link_text :: "'w flow_env \<Rightarrow> merge_blocker \<Rightarrow> (string \<times> json) list \<Rightarrow> string" where
  "link_text env b live_mr = (case or_text (mb_url b) of Some u \<Rightarrow> u
     | None \<Rightarrow> json_text (ke_str (kb env)) (get_json live_mr ''web_url''))"

definition blocker_reason :: "'w flow_env \<Rightarrow> merge_blocker \<Rightarrow> (string \<times> json) list \<Rightarrow> string \<Rightarrow> string" where
  "blocker_reason env b live_mr head = ''merge blocker '' @ mb_kind b @ '' '' @
     (if mb_immediate_exception b then ''requires immediate action'' else ''timed out'') @
     ''; head='' @ head @ ''; url='' @ link_text env b live_mr @ ''; owner='' @
     (case or_text (mb_owner b) of Some w \<Rightarrow> w | None \<Rightarrow> ''unknown'') @ ''; evidence='' @ mb_message b"

definition quiet_blockers :: "string set" where
  "quiet_blockers = {''draft'', ''approval_missing'', ''discussion_unresolved'', ''not_mergeable''}"

definition handle_merge_blocker ::
  "'w flow_env \<Rightarrow> RunRecord \<Rightarrow> string \<Rightarrow> (string \<times> json) list \<Rightarrow> int \<Rightarrow> string \<Rightarrow> merge_blocker \<Rightarrow> ('w shared, unit) op" where
  "handle_merge_blocker env run parent live_mr mr_iid head b =
     then_do (timed env (\<lambda>now. on_ctl (set_merge_wait now (rr_run_key run) mr_iid (Some head) b
        (cf_merge_wait_retry_seconds (fl_config env))))) (\<lambda>(waiting, changed).
     then_do (enter_merge_wait env run b waiting head) (\<lambda>_.
     then_do (if \<not> changed \<and> \<not> mb_immediate_exception b then give ()
        else then_do (\<lambda>s. (version_of s (rr_run_key run), s)) (\<lambda>version.
          enqueue_progress env run (''merge-wait:'' @ mb_kind b @ '':'' @ head @ '':'' @ int_str version)
            (MergeWaiting b waiting live_mr) (mb_kind b \<in> quiet_blockers))) (\<lambda>_.
     then_do (read_state (fl_now env)) (\<lambda>now.
       let timeout = (if mb_kind b = ''draft'' then cf_merge_draft_grace_seconds (fl_config env)
             else cf_merge_blocker_timeout_seconds (fl_config env)) in
       if mb_immediate_exception b \<or> timeout \<le> now - mw_first_seen_at waiting
       then then_do (raise_exception env run parent (blocker_reason env b live_mr head)) (\<lambda>_. give ())
       else give ()))))"

section \<open>Aborting\<close>

definition flush_queue :: "'w flow_env \<Rightarrow> ('w shared, unit) op" where
  "flush_queue env = timed env (\<lambda>now (c, w). case flush_outbox (fl_delivery env) (fl_config env) now (si_outbox w, si_outside w) of
     (b, out) \<Rightarrow> (Inr (), (c, w\<lparr>si_outbox := b, si_outside := out\<rparr>)))"

definition abort_candidate :: "HistoryItem \<Rightarrow> bool" where
  "abort_candidate item \<longleftrightarrow> mc_purpose (hi_managed item) \<in> {''root'', ''work'', ''exception''} \<and> is_active item"

text \<open>The cards are stopped in order; the first worker that does not exit is announced and waited for.\<close>

fun stop_cards :: "'w flow_env \<Rightarrow> RunRecord \<Rightarrow> string \<Rightarrow> HistoryItem list \<Rightarrow> ('w shared, bool) op" where
  "stop_cards env run reason [] = give True"
| "stop_cards env run reason (item # items) =
     (if \<not> abort_candidate item then stop_cards env run reason items
      else then_do (abort_managed_task env (wf_board (rr_workspace run)) (tk_id (hi_task item))
          (''run aborted by human: '' @ reason)) (\<lambda>stopped.
        if stopped then stop_cards env run reason items
        else then_do (enqueue_progress env run (''abort:worker-termination-pending:'' @ tk_id (hi_task item))
            (TerminationPending (tk_id (hi_task item))) False) (\<lambda>_. give False)))"

definition finish_delivery ::
  "'w flow_env \<Rightarrow> RunRecord \<Rightarrow> string \<Rightarrow> string \<Rightarrow> string \<Rightarrow> ('w shared, unit) op" where
  "finish_delivery env run run_key requested_by reason =
     then_do (\<lambda>s. (delivery_binding (hv_load_binding (hist env)) (cd_runs (si_cards (snd s))) run_key, s)) (\<lambda>binding.
     then_do (gl_abort_delivery (fl_gitlab env) run (map_option db_mr_iid binding) requested_by reason) (\<lambda>mr.
       let merged = (get_json mr ''state'' = JStr ''merged'');
           terminal = (if merged then ''completed_before_abort'' else ''aborted'') in
     then_do (if merged then then_do (checked (merged_mr_identity env mr)) (\<lambda>(_, h, m). give (Some h, m))
        else give (None, None)) (\<lambda>(head, merge_sha).
     then_do (on_control_db (\<lambda>now. finish_abort now run_key terminal head merge_sha) env) (\<lambda>_.
     then_do (send_notice env run (''aborted:'' @ terminal) ''aborted'' (RunAborted terminal requested_by reason mr)) (\<lambda>_.
     flush_queue env)))))"

definition abort_text :: "string \<Rightarrow> string option \<Rightarrow> string" where
  "abort_text fallback column = (case or_text column of Some t \<Rightarrow> t | None \<Rightarrow> fallback)"

definition continue_abort_once :: "'w flow_env \<Rightarrow> string \<Rightarrow> ('w shared, unit) op" where
  "continue_abort_once env run_key =
     then_do (read_state (\<lambda>s. run_control (fst s) run_key)) (\<lambda>found. case found of
       None \<Rightarrow> give ()
     | Some control \<Rightarrow>
         if rc_state control \<notin> set abort_states then give ()
         else then_do (history (hist env) run_key) (\<lambda>(items, run).
           then_do (timed env (\<lambda>now. on_ctl (mark_aborting now run_key))) (\<lambda>_.
             let reason = abort_text ''human requested abort'' (rc_abort_reason control) in
             then_do (stop_cards env run reason items) (\<lambda>stopped.
               if stopped then finish_delivery env run run_key (abort_text ''unknown'' (rc_abort_requested_by control)) reason
               else give ()))))"

text \<open>\<open>try: m finally: f\<close> on a guard.\<close>

definition guarded :: "('w shared, 'a) op \<Rightarrow> (guards \<Rightarrow> guards) \<Rightarrow> ('w shared, 'a) op" where
  "guarded m f s = (case m s of (r, (c, w)) \<Rightarrow> (r, (c, w\<lparr>si_guards := f (si_guards w)\<rparr>)))"

definition continue_abort :: "'w flow_env \<Rightarrow> string \<Rightarrow> ('w shared, bool) op" where
  "continue_abort env run_key = then_do (on_guards (begin_abort run_key)) (\<lambda>entered.
     if \<not> entered then give False
     else guarded (then_do (continue_abort_once env run_key) (\<lambda>_. give True)) (finish_abort_guard run_key))"

end
