(* ===== verification/Reconcile.thy ===== *)
theory Reconcile
  imports Finalize
begin

text \<open>
  \<open>_reconcile_run\<close> of service.py: reads a run's cards, stops where a human or another
  component has to act, judges the completion of the last card and creates the card that
  follows, ends the run or hands it to a human. \<open>reconcile_run\<close> guards it,
  \<open>reconcile_run_with_policy\<close> classifies what it raises.
\<close>

section \<open>Human blocks\<close>

definition is_line_break :: "char \<Rightarrow> bool" where
  "is_line_break c \<longleftrightarrow> c \<in> set [CHR 0x0A, CHR 0x0B, CHR 0x0C, CHR 0x0D, CHR 0x1C, CHR 0x1D, CHR 0x1E, CHR 0x85]"

text \<open>\<open>str.splitlines()\<close> on code points below 256.\<close>

function split_lines :: "string \<Rightarrow> string list" where
  "split_lines s = (if s = [] then []
     else let line = takeWhile (\<lambda>c. \<not> is_line_break c) s in
       case drop (length line) s of
         [] \<Rightarrow> [line]
       | c # rest \<Rightarrow> line # split_lines (if c = CHR 0x0D \<and> starts_with [CHR 0x0A] rest then tl rest else rest))"
  by pat_completeness auto
termination
proof (relation "measure length", goal_cases)
  case 1
  show ?case by simp
next
  case (2 s line c rest)
  then have "length rest < length s" by (metis Suc_le_eq length_Cons length_drop diff_le_self)
  then show ?case by (auto intro: le_less_trans [OF diff_le_self])
qed

declare split_lines.simps [simp del]

definition REQUIRED_HUMAN_BLOCK_FIELDS :: "string list" where
  "REQUIRED_HUMAN_BLOCK_FIELDS = [''block_id'', ''evidence'', ''kind'', ''required_action'', ''resume_check'', ''summary'']"

definition GATED_HUMAN_BLOCK_FIELDS :: "string list" where
  "GATED_HUMAN_BLOCK_FIELDS = [''gate_phase'', ''requirement_ids'', ''contract_refs'']"

definition ALLOWED_HUMAN_BLOCK_KINDS :: "string set" where
  "ALLOWED_HUMAN_BLOCK_KINDS = {''permission'', ''credential'', ''environment'', ''unsafe_retry'', ''destructive_approval''}"

definition block_field :: "string \<Rightarrow> (string \<times> string) list" where
  "block_field line =
     (let raw = takeWhile (\<lambda>c. c \<noteq> CHR '':'') line; key = strip raw in
      if CHR '':'' \<in> set line \<and> key \<in> set (REQUIRED_HUMAN_BLOCK_FIELDS @ GATED_HUMAN_BLOCK_FIELDS)
      then [(key, strip (drop (length raw + 1) line))] else [])"

text \<open>The last line of a key wins.\<close>

definition human_block_fields :: "string \<Rightarrow> string \<rightharpoonup> string" where
  "human_block_fields comment = map_of (rev (concat (map block_field (split_lines comment))))"

definition missing_fields :: "(string \<rightharpoonup> string) \<Rightarrow> string list \<Rightarrow> string list" where
  "missing_fields fs required = filter (\<lambda>k. fs k = None) required"

definition gate_phases :: "string set" where
  "gate_phases = {''implementation_entry'', ''implementation_completion'', ''migration_execution'',
     ''deployment_entry'', ''release_acceptance''}"

definition operator_phases :: "string set" where
  "operator_phases = {''migration_execution'', ''deployment_entry'', ''release_acceptance''}"

definition valid_human_block :: "(string \<rightharpoonup> string) \<Rightarrow> Stage option \<Rightarrow> bool" where
  "valid_human_block fs stage =
     (if missing_fields fs REQUIRED_HUMAN_BLOCK_FIELDS \<noteq> [] \<or>
         (case fs ''kind'' of None \<Rightarrow> True | Some k \<Rightarrow> k \<notin> ALLOWED_HUMAN_BLOCK_KINDS) then False
      else if fs ''kind'' \<in> {Some ''environment'', Some ''destructive_approval''}
      then if missing_fields fs GATED_HUMAN_BLOCK_FIELDS \<noteq> [] then False
        else case fs ''gate_phase'' of
          None \<Rightarrow> False
        | Some phase \<Rightarrow>
            phase \<in> gate_phases \<and> truthy_str (fs ''requirement_ids'') \<and> truthy_str (fs ''contract_refs'') \<and>
            \<not> (stage \<in> {Some IMPLEMENT, Some TEST, Some CODE_REVIEW} \<and> phase \<in> operator_phases)
      else True)"

definition field_or :: "string option \<Rightarrow> string \<Rightarrow> string" where
  "field_or v other = (case or_text v of Some t \<Rightarrow> t | None \<Rightarrow> other)"

text \<open>The fixed Chinese texts are stood for by their English meaning.\<close>

definition enqueue_human_block ::
  "'w flow_env \<Rightarrow> RunRecord \<Rightarrow> HistoryItem \<Rightarrow> string \<Rightarrow> ('w shared, unit) op" where
  "enqueue_human_block env run item comment =
     (let fs = human_block_fields comment; t = hi_task item;
          token = field_or (fs ''block_id'')
            (take 20 (hv_sha256 (fl_history env) (tk_id t @ [CHR 0x00] @ comment)));
          summary = field_or (fs ''summary'') (field_or (tk_latest_summary t) ''the card is paused'');
          evidence = field_or (fs ''evidence'') ''see the comment on the board'';
          action = field_or (fs ''required_action'') ''do what the comment asks for''
      in send_notice env run (''human-block:'' @ token) ''human-block'' (HumanBlock item summary evidence action))"

section \<open>Blocked cards\<close>

definition human_block_marker :: string where
  "human_block_marker = ''[human-block:v1]''"

definition block_comment :: "TaskRecord \<Rightarrow> string option" where
  "block_comment t = find (contains_str human_block_marker) (map hc_body (rev (tk_comments t)))"

definition fuse_kinds :: "string set" where
  "fuse_kinds = {''gave_up'', ''spawn_auto_blocked''}"

definition failure_kind :: "TaskRecord \<Rightarrow> string option" where
  "failure_kind t = find (\<lambda>k. k \<in> fuse_kinds) (rev (tk_event_kinds t))"

definition blown_fuse ::
  "'w flow_env \<Rightarrow> RunRecord \<Rightarrow> HistoryItem \<Rightarrow> string \<Rightarrow> ('w shared, unit) op" where
  "blown_fuse env run item kind =
     then_do (assert_mutable (rr_run_key run)) (\<lambda>_.
     then_do (abort_managed_task env (wf_board (rr_workspace run)) (tk_id (hi_task item))
        (''worker redispatch budget exhausted: '' @ kind)) (\<lambda>stopped.
       if \<not> stopped then checked (Inl (RunPolicyError ''worker_recovery_pending''))
       else then_do (raise_exception env run (tk_id (hi_task item))
          (''worker redispatch budget exhausted; stage='' @ mc_stage (hi_managed item) @ ''; card='' @
           tk_id (hi_task item) @ ''; event='' @ kind @ ''; limit='' @
           int_str (cf_worker_redispatch_limit (fl_config env)))) (\<lambda>_. give ())))"

definition rejected_marker :: string where
  "rejected_marker = ''[controller-block-rejected:v4]''"

definition reject_human_block ::
  "'w flow_env \<Rightarrow> RunRecord \<Rightarrow> HistoryItem \<Rightarrow> string list \<Rightarrow> ('w shared, unit) op" where
  "reject_human_block env run item missing =
     (let t = hi_task item;
          reason = ''unsupported human block; business ambiguity must be resolved autonomously'' @
            (if missing = [] then [] else ''; missing='' @ separated '','' missing)
      in then_do (if list_ex (\<lambda>c. contains_str rejected_marker (hc_body c)) (tk_comments t) then give ()
           else then_do (assert_mutable (rr_run_key run)) (\<lambda>_.
             comment_task (kb env) (fl_config env) (wf_board (rr_workspace run)) (tk_id t)
               (rejected_marker @ new_line @ ''reason: '' @ reason) ''hollysys-controller'')) (\<lambda>_.
         then_do (raise_exception env run (tk_id t) reason) (\<lambda>_. give ())))"

definition block_args :: "string \<Rightarrow> int \<Rightarrow> transition_args" where
  "block_args card_id version =
     \<lparr>ta_expected_states = [''active'', ''dependency_degraded'', ''merge_wait'', ''transition_pending'', ''retry_wait''],
      ta_new_state = ''human_blocked'', ta_reason = ''human_block:'' @ card_id, ta_expected_version = Some version,
      ta_next_retry_at = None, ta_compliance = None, ta_completion_source = None, ta_checked_head = None,
      ta_merge_commit_sha = None\<rparr>"

definition wait_for_human ::
  "'w flow_env \<Rightarrow> RunRecord \<Rightarrow> string \<Rightarrow> HistoryItem \<Rightarrow> string \<Rightarrow> ('w shared, unit) op" where
  "wait_for_human env run run_key item comment =
     then_do (enqueue_human_block env run item comment) (\<lambda>_.
     then_do (read_state (\<lambda>s. run_state s run_key)) (\<lambda>state.
       if state = ''human_blocked'' then give ()
       else then_do (\<lambda>s. (version_of s run_key, s)) (\<lambda>version.
         on_control_db (\<lambda>now. transition_run now run_key (block_args (tk_id (hi_task item)) version)) env)))"

definition human_block ::
  "'w flow_env \<Rightarrow> RunRecord \<Rightarrow> string \<Rightarrow> HistoryItem \<Rightarrow> string \<Rightarrow> ('w shared, unit) op" where
  "human_block env run run_key item comment =
     (let fs = human_block_fields comment in
      then_do (checked (stage_of_item item)) (\<lambda>stage.
        if \<not> valid_human_block fs (Some stage)
        then reject_human_block env run item (missing_fields fs REQUIRED_HUMAN_BLOCK_FIELDS)
        else wait_for_human env run run_key item comment))"

definition unexplained_block :: "'w flow_env \<Rightarrow> RunRecord \<Rightarrow> HistoryItem \<Rightarrow> ('w shared, unit) op" where
  "unexplained_block env run item =
     then_do (timed env (\<lambda>now. on_service (enqueue_controller_failure (circ env) now (rr_run_key run)
        (ValueError (''blocked card '' @ tk_id (hi_task item) @ '' has no [human-block:v1] comment''))))) (\<lambda>_.
     then_do (raise_exception env run (tk_id (hi_task item)) ''blocked card has no valid human block contract'') (\<lambda>_.
     give ()))"

text \<open>The result tells whether the card was dealt with and reconciliation ends.\<close>

definition blocked_card ::
  "'w flow_env \<Rightarrow> RunRecord \<Rightarrow> string \<Rightarrow> HistoryItem \<Rightarrow> ('w flow, bool) op" where
  "blocked_card env run run_key item =
     (let t = hi_task item in
      if \<not> is_work item \<or> tk_status t \<noteq> ''blocked'' then give False
      else case failure_kind t of
        Some kind \<Rightarrow> then_do (on_shared (blown_fuse env run item kind)) (\<lambda>_. give True)
      | None \<Rightarrow>
          if tk_latest_outcome t = None
          then then_do (on_shared (assert_mutable run_key)) (\<lambda>_.
            then_do (ensure_work_published env run t) (\<lambda>_. give True))
          else if tk_latest_outcome t \<noteq> Some ''blocked'' then give False
          else case block_comment t of
            Some comment \<Rightarrow> then_do (on_shared (human_block env run run_key item comment)) (\<lambda>_. give True)
          | None \<Rightarrow> then_do (on_shared (unexplained_block env run item)) (\<lambda>_. give True))"

fun blocked_cards ::
  "'w flow_env \<Rightarrow> RunRecord \<Rightarrow> string \<Rightarrow> HistoryItem list \<Rightarrow> ('w flow, bool) op" where
  "blocked_cards env run run_key [] = give False"
| "blocked_cards env run run_key (item # items) =
     then_do (blocked_card env run run_key item) (\<lambda>handled.
       if handled then give True else blocked_cards env run run_key items)"

section \<open>Promotions\<close>

definition resolution_comment :: "string \<Rightarrow> bool" where
  "resolution_comment body \<longleftrightarrow> contains_str ''[human-resolution:v1]'' body \<and>
     contains_str ''resolved_by:'' body \<and> contains_str ''new_card_id:'' body"

definition promotion_is_authorized :: "journal_db \<Rightarrow> HistoryItem \<Rightarrow> bool" where
  "promotion_is_authorized j item =
     (if list_ex (\<lambda>c. resolution_comment (hc_body c)) (tk_comments (hi_task item)) then True
      else if count_list (tk_event_kinds (hi_task item)) ''promoted_manual'' \<noteq> 1 then False
      else case operation_record j (mc_idempotency_key (hi_managed item) @ '':release'') of
        None \<Rightarrow> False
      | Some r \<Rightarrow> op_kind r = ''release'' \<and> op_status r \<in> {''executing'', ''uncertain'', ''done''} \<and>
          op_payload r = canon (JObj [(''board'', JStr (mc_board (hi_managed item))),
            (''card_id'', JStr (tk_id (hi_task item)))]))"

definition unauthorized_promotion :: "journal_db \<Rightarrow> HistoryItem list \<Rightarrow> HistoryItem option" where
  "unauthorized_promotion j items = find (\<lambda>item.
     ''promoted_manual'' \<in> set (tk_event_kinds (hi_task item)) \<and> \<not> promotion_is_authorized j item) items"

section \<open>Judging the last completion\<close>

definition completion_checks ::
  "'w flow_env \<Rightarrow> RunRecord \<Rightarrow> HistoryItem list \<Rightarrow> HistoryItem \<Rightarrow> ('w shared, CompletionMetadata) op" where
  "completion_checks env run items latest =
     then_do (validate_worker_attempt (hist env) latest) (\<lambda>_.
     then_do (checked (item_metadata (hist env) latest)) (\<lambda>md.
     then_do (validate_completion_context (hist env) run latest md True) (\<lambda>_.
     then_do (checked (validate_finalization_context (hist env) items latest md)) (\<lambda>_.
     then_do (validate_semantic_gate (hist env) run latest md) (\<lambda>_. give md)))))"

definition gate_stages :: "Stage set" where
  "gate_stages = {SPEC_REVIEW, PLAN_REVIEW, TASKS_REVIEW, TEST, CODE_REVIEW}"

definition checked_gate :: "'w flow_env \<Rightarrow> RunRecord \<Rightarrow> CompletionMetadata \<Rightarrow> ('w shared, unit) op" where
  "checked_gate env run md = then_do (gl_gate (fl_gitlab env) run md) (\<lambda>author.
     checked (validate_gate_reviewer md author))"

text \<open>A push invalidates a test or code review, other mismatches are protocol failures.\<close>

definition gate_failure ::
  "'w flow_env \<Rightarrow> RunRecord \<Rightarrow> HistoryItem list \<Rightarrow> HistoryItem \<Rightarrow> CompletionMetadata \<Rightarrow> ctl_error \<Rightarrow> ('w flow, unit) op" where
  "gate_failure env run items latest md e =
     (if \<not> is_value_error e then checked (Inl e)
      else if cm_stage md \<in> {TEST, CODE_REVIEW} \<and>
        (contains_str ''current MR head'' (error_message e) \<or> contains_str ''not bound'' (error_message e))
      then then_do (on_shared (reject_agent_completion env run latest (error_message e) items (cm_mr_iid md) (cm_head_sha md)))
        (\<lambda>_. next_card env run (TEST, NORMAL, None) (tk_id (hi_task latest)))
      else protocol_failure env run items latest (error_message e))"

text \<open>\<open>except ValueError as exc: self._protocol_failure(...); return\<close>\<close>

definition or_protocol_failure ::
  "'w flow_env \<Rightarrow> RunRecord \<Rightarrow> HistoryItem list \<Rightarrow> HistoryItem \<Rightarrow> ('w shared, unit) op \<Rightarrow> ('w flow, unit) op \<Rightarrow>
   ('w flow, unit) op" where
  "or_protocol_failure env run items latest m next = try_do (on_shared m)
     (\<lambda>e. if is_value_error e then protocol_failure env run items latest (error_message e) else checked (Inl e))
     (\<lambda>_. next)"

definition gitlab_checks ::
  "'w flow_env \<Rightarrow> RunRecord \<Rightarrow> HistoryItem list \<Rightarrow> HistoryItem \<Rightarrow> CompletionMetadata \<Rightarrow> ('w flow, unit) op \<Rightarrow>
   ('w flow, unit) op" where
  "gitlab_checks env run items latest md next =
     (let gl = fl_gitlab env;
          finalization = (if cm_mode md \<noteq> FINALIZATION then next
            else or_protocol_failure env run items latest (gl_artifact_completion gl run md) next);
          gate = (if cm_stage md \<in> gate_stages \<and> cm_outcome md \<in> {PASS, FAIL}
            then try_do (on_shared (checked_gate env run md)) (gate_failure env run items latest md) (\<lambda>_. finalization)
            else finalization)
      in if cm_repository_evidence md = None then gate
         else or_protocol_failure env run items latest
           (then_do (gl_repository_evidence gl run md) (\<lambda>_. gl_author_completion gl run md)) gate)"

definition reject_at_head ::
  "'w flow_env \<Rightarrow> RunRecord \<Rightarrow> HistoryItem list \<Rightarrow> HistoryItem \<Rightarrow> CompletionMetadata \<Rightarrow> string \<Rightarrow> string \<Rightarrow>
   ('w flow, unit) op" where
  "reject_at_head env run items latest md reason head =
     on_shared (reject_agent_completion env run latest reason items (cm_mr_iid md) (Some head))"

text \<open>The artifacts at the head of the merge request, for a review that passed and a finalization.\<close>

definition artifact_checks ::
  "'w flow_env \<Rightarrow> RunRecord \<Rightarrow> HistoryItem list \<Rightarrow> HistoryItem \<Rightarrow> CompletionMetadata \<Rightarrow> string \<Rightarrow> ('w flow, unit) op \<Rightarrow>
   ('w flow, unit) op" where
  "artifact_checks env run items latest md head next =
     (let gate_at = on_shared (gl_artifact_gate_at_ref (fl_gitlab env) run md head); parent = tk_id (hi_task latest);
          finalization = (if cm_mode md \<noteq> FINALIZATION then next
            else try_do gate_at
              (\<lambda>e. if \<not> is_value_error e then checked (Inl e)
                 else then_do (reject_at_head env run items latest md (error_message e) head) (\<lambda>_.
                   create_frozen_repair env run items (PHASE_FOR_STAGE (cm_stage md)) parent (error_message e) FINALIZATION))
              (\<lambda>_. next))
      in if cm_stage md \<in> {SPEC_REVIEW, PLAN_REVIEW, TASKS_REVIEW} \<and> cm_outcome md = PASS
         then try_do gate_at
           (\<lambda>e. if \<not> is_value_error e then checked (Inl e)
              else then_do (reject_at_head env run items latest md (error_message e) head) (\<lambda>_.
                create_review_repair env run items md parent [error_message e]))
           (\<lambda>_. finalization)
         else finalization)"

definition head_checks ::
  "'w flow_env \<Rightarrow> RunRecord \<Rightarrow> HistoryItem list \<Rightarrow> HistoryItem \<Rightarrow> CompletionMetadata \<Rightarrow> ('w flow, unit) op \<Rightarrow>
   ('w flow, unit) op" where
  "head_checks env run items latest md next =
     then_do (on_shared (gl_delivery_mr (fl_gitlab env) run (cm_mr_iid md))) (\<lambda>live.
       let head = (case live of None \<Rightarrow> [] | Some kvs \<Rightarrow> mr_head (hist env) kvs) in
       if head = [] then next
       else then_do (on_shared (frozen_violation (hist env) run items head)) (\<lambda>violation. case violation of
         Some v \<Rightarrow> then_do (reject_at_head env run items latest md v head) (\<lambda>_.
           create_frozen_repair env run items (PHASE_FOR_STAGE (cm_stage md)) (tk_id (hi_task latest)) v
             (if cm_mode md = FINALIZATION then FINALIZATION else NORMAL))
       | None \<Rightarrow> artifact_checks env run items latest md head next))"

section \<open>Routing an accepted completion\<close>

definition enqueue_phase_frozen ::
  "'w flow_env \<Rightarrow> RunRecord \<Rightarrow> CompletionMetadata \<Rightarrow> int \<Rightarrow> ('w shared, unit) op" where
  "enqueue_phase_frozen env run md attempt =
     (let phase = PHASE_FOR_STAGE (cm_stage md) in enqueue_progress env run
        (phase_value phase @ '':frozen:'' @ (case cm_baseline_disposition md of
           Some d \<Rightarrow> (case d of SOURCE \<Rightarrow> ''source'' | REVIEWED \<Rightarrow> ''reviewed''
              | FORCED_AFTER_REVIEW_LIMIT \<Rightarrow> ''forced_after_review_limit'') | None \<Rightarrow> ''None'') @ '':'' @
         the_text (cm_artifact_digest md)) (PhaseFrozen phase md attempt) False)"

definition enqueue_code_retry ::
  "'w flow_env \<Rightarrow> RunRecord \<Rightarrow> CompletionMetadata \<Rightarrow> CompletionMetadata option \<Rightarrow> int \<Rightarrow> ('w shared, unit) op" where
  "enqueue_code_retry env run test review next_modification = enqueue_progress env run
     (''code:gates-failed:'' @ the_text (cm_head_sha (case review of Some r \<Rightarrow> r | None \<Rightarrow> test)) @
      '':modification:'' @ int_str next_modification) (CodeRetry test review next_modification) False"

definition enqueue_test_skipped ::
  "'w flow_env \<Rightarrow> RunRecord \<Rightarrow> CompletionMetadata \<Rightarrow> ('w shared, unit) op" where
  "enqueue_test_skipped env run md = enqueue_progress env run
     (''code:test-skipped:'' @ the_text (cm_head_sha md) @ '':'' @ cm_kanban_card_id md) (TestSkipped md) False"

definition enqueue_phase_started ::
  "'w flow_env \<Rightarrow> RunRecord \<Rightarrow> Phase \<Rightarrow> TaskRecord \<Rightarrow> ('w shared, unit) op" where
  "enqueue_phase_started env run phase t = enqueue_progress env run (phase_value phase @ '':started'')
     (PhaseStarted phase t) False"

text \<open>The repair context of the next card, checked by its model, and its notice.\<close>

definition repair_notice ::
  "'w flow_env \<Rightarrow> RunRecord \<Rightarrow> CompletionMetadata \<Rightarrow> (Stage \<Rightarrow> int) \<Rightarrow> CompletionMetadata option \<Rightarrow> int \<Rightarrow> WorkMode \<Rightarrow>
   ('w shared, unit) op" where
  "repair_notice env run md attempts paired_test mods mode =
     (if cm_stage md = TEST then enqueue_code_retry env run md None (mods + 1)
      else case (if cm_stage md = CODE_REVIEW then paired_test else None) of
        Some t \<Rightarrow> enqueue_code_retry env run t (Some md) (mods + 1)
      | None \<Rightarrow> enqueue_review_failed env run md (attempts (cm_stage md)) mode)"

definition repair_for_next ::
  "'w flow_env \<Rightarrow> RunRecord \<Rightarrow> HistoryItem \<Rightarrow> CompletionMetadata \<Rightarrow> (Stage \<Rightarrow> int) \<Rightarrow> CompletionMetadata option \<Rightarrow> int \<Rightarrow>
   WorkMode \<Rightarrow> ('w shared, RepairContext option) op" where
  "repair_for_next env run latest md attempts paired_test mods mode =
     (case next_repair_context md (tk_id (hi_task latest)) attempts paired_test mods (fl_config env) of
        None \<Rightarrow> give None
      | Some p \<Rightarrow> then_do (checked (make_repair p)) (\<lambda>q.
          then_do (repair_notice env run md attempts paired_test mods mode) (\<lambda>_. give (Some q))))"

definition frozen_notices ::
  "'w flow_env \<Rightarrow> RunRecord \<Rightarrow> CompletionMetadata \<Rightarrow> (Stage \<Rightarrow> int) \<Rightarrow> ('w shared, unit) op" where
  "frozen_notices env run md attempts =
     then_do (if cm_stage md \<in> {SPEC_REVIEW, PLAN_REVIEW, TASKS_REVIEW} \<and> cm_outcome md = PASS
        then enqueue_phase_frozen env run md (attempts (cm_stage md)) else give ()) (\<lambda>_.
     if cm_mode md \<noteq> FINALIZATION then give ()
     else case DOCUMENT_REVIEW_FOR_PRODUCER (cm_stage md) of
       None \<Rightarrow> checked (Inl (PyKeyError (stage_value (cm_stage md))))
     | Some review \<Rightarrow> enqueue_phase_frozen env run md (attempts review))"

definition go_to_stage ::
  "'w flow_env \<Rightarrow> RunRecord \<Rightarrow> HistoryItem \<Rightarrow> CompletionMetadata \<Rightarrow> (Stage \<Rightarrow> int) \<Rightarrow> CompletionMetadata option \<Rightarrow> int \<Rightarrow>
   Stage \<Rightarrow> WorkMode \<Rightarrow> ('w flow, unit) op" where
  "go_to_stage env run latest md attempts paired_test mods stage mode =
     then_do (on_shared (if cm_stage md = TEST \<and> cm_test_disposition md = Some SKIPPED_UNAVAILABLE
        then enqueue_test_skipped env run md else give ())) (\<lambda>_.
     then_do (on_shared (repair_for_next env run latest md attempts paired_test mods mode)) (\<lambda>repair.
     then_do (on_shared (frozen_notices env run md attempts)) (\<lambda>_.
     then_do (create_card env run (stage, mode, repair) (tk_id (hi_task latest)) None None True) (\<lambda>t.
     on_shared (if PHASE_FOR_STAGE stage = PHASE_FOR_STAGE (cm_stage md) then give ()
       else enqueue_phase_started env run (PHASE_FOR_STAGE stage) t)))))"

definition blocked_text :: "string \<Rightarrow> CompletionMetadata \<Rightarrow> CompletionMetadata option \<Rightarrow> string" where
  "blocked_text reason md paired_test = reason @
     (case (if cm_stage md = CODE_REVIEW then paired_test else None) of
        None \<Rightarrow> []
      | Some t \<Rightarrow> ''; head='' @ the_text (cm_head_sha md) @ ''; tester='' @ outcome_value (cm_outcome t) @
          ''; code-reviewer='' @ outcome_value (cm_outcome md) @ ''; findings='' @
          separated '' | '' (take 6 (code_gate_issues t md)) @
          ''; required_action=human must decide whether to continue with a new modification budget or stop delivery'')"

end
