(* ===== verification/Reconcile_Run.thy ===== *)
theory Reconcile_Run
  imports Reconcile
begin

text \<open>
  The second half of \<open>_reconcile_run\<close> (service.py): what follows an accepted completion,
  the merge it could route to, and the whole handler with its guard and its policy for
  what it raises. The two calls that merge are an argument of their own.
\<close>

section \<open>Merging\<close>

text \<open>\<open>validate_merge\<close> gives the merge request and its checked head; \<open>merge\<close> merges it there.\<close>

record 'w merge_ops =
  mo_validate :: "RunRecord \<Rightarrow> int \<Rightarrow> CompletionMetadata \<Rightarrow> CompletionMetadata \<Rightarrow> ('w, (string \<times> json) list \<times> string) op"
  mo_merge :: "RunRecord \<Rightarrow> int \<Rightarrow> string \<Rightarrow> ('w, (string \<times> json) list) op"

definition is_merged :: "(string \<times> json) list \<Rightarrow> bool" where
  "is_merged mr \<longleftrightarrow> get_json mr ''state'' = JStr ''merged''"

definition merge_after_revalidation ::
  "'w shared merge_ops \<Rightarrow> RunRecord \<Rightarrow> int \<Rightarrow> CompletionMetadata \<Rightarrow> CompletionMetadata \<Rightarrow> string \<Rightarrow> ('w shared, json) op" where
  "merge_after_revalidation mo run mr_iid test review head = try_do (mo_validate mo run mr_iid test review)
     (\<lambda>e. checked (Inl (if is_value_error e
        then CheckedHeadConflict ''merge evidence changed before checked-head merge'' else e)))
     (\<lambda>(current, current_head).
       if is_merged current then give (JObj current)
       else if current_head \<noteq> head
       then checked (Inl (CheckedHeadConflict ''MR head changed before checked-head merge''))
       else then_do (mo_merge mo run mr_iid head) (\<lambda>mr. give (JObj mr)))"

definition merge_error_restarts :: "string \<Rightarrow> bool" where
  "merge_error_restarts m \<longleftrightarrow> contains_str ''current MR head'' m \<or>
     contains_str ''not valid for current MR head'' m \<or> contains_str ''refer to another MR'' m"

definition restart_test :: "'w flow_env \<Rightarrow> RunRecord \<Rightarrow> HistoryItem \<Rightarrow> ('w flow, unit) op" where
  "restart_test env run latest = next_card env run (TEST, NORMAL, None) (tk_id (hi_task latest))"

definition clear_and_restart :: "'w flow_env \<Rightarrow> RunRecord \<Rightarrow> HistoryItem \<Rightarrow> ('w flow, unit) op" where
  "clear_and_restart env run latest = then_do (on_shared (on_ctl (clear_merge_wait (rr_run_key run))))
     (\<lambda>_. restart_test env run latest)"

definition cleared_args :: "int \<Rightarrow> string \<Rightarrow> transition_args" where
  "cleared_args version head = \<lparr>ta_expected_states = [''merge_wait''], ta_new_state = ''active'',
     ta_reason = ''merge_blockers_cleared'', ta_expected_version = Some version, ta_next_retry_at = None,
     ta_compliance = None, ta_completion_source = None, ta_checked_head = Some head, ta_merge_commit_sha = None\<rparr>"

definition leave_merge_wait :: "'w flow_env \<Rightarrow> RunRecord \<Rightarrow> string \<Rightarrow> ('w shared, unit) op" where
  "leave_merge_wait env run head =
     then_do (on_ctl (clear_merge_wait (rr_run_key run))) (\<lambda>_.
     then_do (read_state (\<lambda>s. run_state s (rr_run_key run))) (\<lambda>state.
       if state \<noteq> ''merge_wait'' then give ()
       else then_do (\<lambda>s. (version_of s (rr_run_key run), s)) (\<lambda>version.
         on_control_db (\<lambda>now. transition_run now (rr_run_key run) (cleared_args version head)) env)))"

text \<open>\<open>except MergeBlocked\<close> and \<open>except CheckedHeadConflict\<close> of the journalled merge.\<close>

definition merge_failed ::
  "'w flow_env \<Rightarrow> RunRecord \<Rightarrow> HistoryItem \<Rightarrow> (string \<times> json) list \<Rightarrow> int \<Rightarrow> string \<Rightarrow> ctl_error \<Rightarrow> ('w flow, unit) op" where
  "merge_failed env run latest mr mr_iid head e = (case e of
     MergeBlocked b \<Rightarrow> on_shared (handle_merge_blocker env run (tk_id (hi_task latest)) mr mr_iid head b)
   | CheckedHeadConflict _ \<Rightarrow> restart_test env run latest
   | _ \<Rightarrow> checked (Inl e))"

text \<open>\<open>int(mr[key])\<close>\<close>

definition int_item :: "(string \<times> json) list \<Rightarrow> string \<Rightarrow> int res" where
  "int_item kvs key = (case map_of kvs key of
     None \<Rightarrow> Inl (PyKeyError key)
   | Some v \<Rightarrow> (case int_of_json v of
       Some n \<Rightarrow> Inr n
     | None \<Rightarrow> Inl (case v of JStr _ \<Rightarrow> ValueError ''invalid literal for int()'' | _ \<Rightarrow> PyTypeError ''int()'')))"

definition submit_merge ::
  "'w flow_env \<Rightarrow> 'w shared merge_ops \<Rightarrow> RunRecord \<Rightarrow> HistoryItem list \<Rightarrow> HistoryItem \<Rightarrow> CompletionMetadata \<Rightarrow>
   CompletionMetadata \<Rightarrow> int \<Rightarrow> (string \<times> json) list \<Rightarrow> string \<Rightarrow> ('w flow, unit) op" where
  "submit_merge env mo run items latest test review mr_iid mr head =
     then_do (on_shared (leave_merge_wait env run head)) (\<lambda>_.
     then_do (read_state (\<lambda>s. version_or_one (shared_of s) (rr_run_key run))) (\<lambda>version.
     then_do (checked (int_item mr ''iid'')) (\<lambda>iid.
       let key = rr_run_key run @ '':merge:'' @ head in
       try_do (journalled env key ''checked-head-merge''
           (JObj [(''project_id'', JInt (pf_project_id (rr_project run))), (''mr_iid'', JInt iid), (''checked_head'', JStr head)])
           (merge_after_revalidation mo run iid test review head) (rr_run_key run) version (Some head))
         (merge_failed env run latest mr mr_iid head)
         (\<lambda>merged. finalize_merged env run items (json_obj merged) (Some key)))))"

definition validation_failed ::
  "'w flow_env \<Rightarrow> RunRecord \<Rightarrow> HistoryItem \<Rightarrow> (string \<times> json) list \<Rightarrow> int \<Rightarrow> string \<Rightarrow> ctl_error \<Rightarrow> ('w flow, unit) op" where
  "validation_failed env run latest live mr_iid head e = (case e of
     MergeBlocked b \<Rightarrow> on_shared (handle_merge_blocker env run (tk_id (hi_task latest)) live mr_iid head b)
   | _ \<Rightarrow> if \<not> is_value_error e then checked (Inl e)
       else if merge_error_restarts (error_message e) then clear_and_restart env run latest
       else checked (Inl (RunPolicyError (''merge_validation_contract:'' @ error_message e))))"

definition validated_merge ::
  "'w flow_env \<Rightarrow> 'w shared merge_ops \<Rightarrow> RunRecord \<Rightarrow> HistoryItem list \<Rightarrow> HistoryItem \<Rightarrow> CompletionMetadata \<Rightarrow>
   CompletionMetadata \<Rightarrow> int \<Rightarrow> (string \<times> json) list \<Rightarrow> string \<Rightarrow> ('w flow, unit) op" where
  "validated_merge env mo run items latest test review mr_iid live head =
     try_do (on_shared (mo_validate mo run mr_iid test review)) (validation_failed env run latest live mr_iid head)
       (\<lambda>(mr, checked_head). if is_merged mr then finalize_merged env run items mr None
          else submit_merge env mo run items latest test review mr_iid mr checked_head)"

definition undraft ::
  "'w flow_env \<Rightarrow> RunRecord \<Rightarrow> int \<Rightarrow> (string \<times> json) list \<Rightarrow> string \<Rightarrow> ('w flow, (string \<times> json) list option) op" where
  "undraft env run mr_iid live head =
     (if \<not> is_draft live then give (Some live)
      else then_do (on_shared (read_binding (hist env) run)) (\<lambda>binding. case binding of
        None \<Rightarrow> checked (Inl (ValueError ''merge-ready delivery has no binding''))
      | Some b \<Rightarrow> then_do (mark_delivery_ready_at_head env run b head) (\<lambda>_.
          then_do (on_shared (gl_delivery_mr (fl_gitlab env) run (Some mr_iid))) (\<lambda>mr.
            give (if at_head env mr head then mr else None)))))"

definition both_gates ::
  "'w flow_env \<Rightarrow> RunRecord \<Rightarrow> CompletionMetadata \<Rightarrow> CompletionMetadata \<Rightarrow> ('w shared, unit) op" where
  "both_gates env run test review = then_do (gl_gate (fl_gitlab env) run test)
     (\<lambda>_. then_do (gl_gate (fl_gitlab env) run review) (\<lambda>_. give ()))"

text \<open>The branch of \<open>_reconcile_run\<close> for \<open>route.merge\<close>.\<close>

definition merge_delivery ::
  "'w flow_env \<Rightarrow> 'w shared merge_ops \<Rightarrow> RunRecord \<Rightarrow> HistoryItem list \<Rightarrow> HistoryItem \<Rightarrow> ('w flow, unit) op" where
  "merge_delivery env mo run items latest =
     then_do (checked (latest_valid_pass (hist env) items TEST)) (\<lambda>found_test.
     then_do (checked (latest_valid_pass (hist env) items CODE_REVIEW)) (\<lambda>found_review.
       case (found_test, found_review, Option.bind found_test cm_mr_iid) of
         (Some test, Some review, Some mr_iid) \<Rightarrow>
           then_do (on_shared (gl_delivery_mr (fl_gitlab env) run (Some mr_iid))) (\<lambda>live.
             let head = (case live of None \<Rightarrow> [] | Some kvs \<Rightarrow> mr_head (hist env) kvs) in
             if head = [] then give ()
             else then_do (on_shared (frozen_violation (hist env) run items head)) (\<lambda>violation. case violation of
               Some v \<Rightarrow> create_frozen_repair env run items CODE_PHASE (tk_id (hi_task latest)) v NORMAL
             | None \<Rightarrow> try_do (on_shared (both_gates env run test review))
                 (\<lambda>e. if is_value_error e then restart_test env run latest else checked (Inl e))
                 (\<lambda>_. then_do (undraft env run mr_iid (case live of Some kvs \<Rightarrow> kvs | None \<Rightarrow> []) head) (\<lambda>ready.
                    case ready of
                      None \<Rightarrow> clear_and_restart env run latest
                    | Some mr \<Rightarrow> validated_merge env mo run items latest test review mr_iid mr head))))
       | _ \<Rightarrow> restart_test env run latest))"

section \<open>After an accepted completion\<close>

text \<open>The test a code review is paired with: \<open>None\<close> sends the delivery back to it.\<close>

definition paired_test_of ::
  "'w flow_env \<Rightarrow> RunRecord \<Rightarrow> HistoryItem list \<Rightarrow> CompletionMetadata \<Rightarrow> ('w shared, CompletionMetadata option) op" where
  "paired_test_of env run items md =
     then_do (checked (latest_valid_completion (hist env) items TEST {PASS, FAIL})) (\<lambda>found. case found of
       None \<Rightarrow> give None
     | Some t \<Rightarrow> if \<not> same_delivery t md then give None
         else try_do (checked_gate env run t)
           (\<lambda>e. if is_value_error e then give None else checked (Inl e)) (\<lambda>_. give (Some t)))"

definition follow_route ::
  "'w flow_env \<Rightarrow> 'w shared merge_ops \<Rightarrow> RunRecord \<Rightarrow> HistoryItem list \<Rightarrow> HistoryItem \<Rightarrow> CompletionMetadata \<Rightarrow>
   (Stage \<Rightarrow> int) \<Rightarrow> int \<Rightarrow> CompletionMetadata option \<Rightarrow> ('w flow, unit) op" where
  "follow_route env mo run items latest md attempts mods paired_test =
     (let route = route_completion md attempts (fl_config env) paired_test mods in
      case rt_terminal_state route of
        Some terminal_state \<Rightarrow> finalize_code_flow env run items latest md terminal_state paired_test mods
      | None \<Rightarrow> (case rt_blocked_reason route of
          Some reason \<Rightarrow> stop_run env run (tk_id (hi_task latest)) (blocked_text reason md paired_test)
        | None \<Rightarrow> (case rt_next_stage route of
            Some stage \<Rightarrow> go_to_stage env run latest md attempts paired_test mods stage (rt_next_mode route)
          | None \<Rightarrow> if rt_merge route then merge_delivery env mo run items latest else give ())))"

definition accept_completion ::
  "'w flow_env \<Rightarrow> RunRecord \<Rightarrow> HistoryItem list \<Rightarrow> HistoryItem \<Rightarrow> CompletionMetadata \<Rightarrow> ('w shared, unit) op" where
  "accept_completion env run items latest md =
     then_do (assert_mutable (rr_run_key run)) (\<lambda>_.
     then_do (record_completion env latest True (cm_mr_iid md) (cm_head_sha md) None) (\<lambda>_.
     enqueue_agent_completed env run latest md items))"

definition after_acceptance ::
  "'w flow_env \<Rightarrow> 'w shared merge_ops \<Rightarrow> RunRecord \<Rightarrow> HistoryItem list \<Rightarrow> HistoryItem \<Rightarrow> CompletionMetadata \<Rightarrow>
   ('w flow, unit) op" where
  "after_acceptance env mo run items latest md =
     then_do (on_shared (accept_completion env run items latest md)) (\<lambda>_.
     then_do (checked (review_attempts_by_stage (hist env) items)) (\<lambda>attempts.
     then_do (on_shared (code_modification_count (hist env) items)) (\<lambda>mods.
       if cm_stage md = CODE_REVIEW \<and> cm_outcome md \<in> {PASS, FAIL}
       then then_do (on_shared (paired_test_of env run items md)) (\<lambda>paired. case paired of
         None \<Rightarrow> restart_test env run latest
       | Some t \<Rightarrow> follow_route env mo run items latest md attempts mods (Some t))
       else follow_route env mo run items latest md attempts mods None)))"

text \<open>The last card is done: its completion is judged, then accepted.\<close>

definition judge_latest ::
  "'w flow_env \<Rightarrow> 'w shared merge_ops \<Rightarrow> RunRecord \<Rightarrow> HistoryItem list \<Rightarrow> HistoryItem \<Rightarrow> ('w flow, unit) op" where
  "judge_latest env mo run items latest = try_do (on_shared (completion_checks env run items latest))
     (\<lambda>e. if malformed e then protocol_failure env run items latest (error_message e) else checked (Inl e))
     (\<lambda>md. gitlab_checks env run items latest md
        (head_checks env run items latest md (after_acceptance env mo run items latest md)))"

section \<open>The handler\<close>

definition first_root :: "HistoryItem list \<Rightarrow> HistoryItem option" where
  "first_root items = find (\<lambda>item. mc_purpose (hi_managed item) = ''root'') items"

text \<open>Two active cards are allowed while a human block is being resolved.\<close>

definition resolution_window :: "HistoryItem list \<Rightarrow> bool" where
  "resolution_window active \<longleftrightarrow> (case active of
     [a, b] \<Rightarrow> tk_status (hi_task a) = ''blocked'' \<and> tk_status (hi_task b) \<in> {''todo'', ''blocked''} \<and>
       mc_parent_card_id (hi_managed b) = Some (tk_id (hi_task a))
   | _ \<Rightarrow> False)"

definition reconcile_idle ::
  "'w flow_env \<Rightarrow> 'w shared merge_ops \<Rightarrow> RunRecord \<Rightarrow> HistoryItem list \<Rightarrow> ('w flow, unit) op" where
  "reconcile_idle env mo run items =
     (case filter is_work items of
        [] \<Rightarrow> (case first_root items of
            None \<Rightarrow> checked (Inl (PyRuntimeError ''StopIteration''))
          | Some r \<Rightarrow> next_card env run (SPEC_WRITE, NORMAL, None) (tk_id (hi_task r)))
      | w # ws \<Rightarrow> (let latest = last (w # ws) in
          if tk_status (hi_task latest) \<noteq> ''done'' then give () else judge_latest env mo run items latest))"

definition reconcile_active ::
  "'w flow_env \<Rightarrow> 'w shared merge_ops \<Rightarrow> RunRecord \<Rightarrow> string \<Rightarrow> HistoryItem list \<Rightarrow> ('w flow, unit) op" where
  "reconcile_active env mo run run_key items =
     (let active = filter is_active items in
      then_do (blocked_cards env run run_key active) (\<lambda>handled.
        if handled then give ()
        else if 1 < length active
        then if resolution_window active then give ()
          else stop_run env run (tk_id (hi_task (last items))) ''more than one managed card is active''
        else if active \<noteq> [] then give ()
        else reconcile_idle env mo run items))"

definition start_run_cards :: "'w flow_env \<Rightarrow> RunRecord \<Rightarrow> string \<Rightarrow> HistoryItem \<Rightarrow> ('w flow, unit) op" where
  "start_run_cards env run run_key root_item =
     then_do (on_shared (assert_mutable run_key)) (\<lambda>_.
     then_do (on_shared (complete_root (kb env) (fl_config env) run (tk_id (hi_task root_item)))) (\<lambda>_.
     next_card env run (SPEC_WRITE, NORMAL, None) (tk_id (hi_task root_item))))"

definition reconcile_cards ::
  "'w flow_env \<Rightarrow> 'w shared merge_ops \<Rightarrow> RunRecord \<Rightarrow> string \<Rightarrow> HistoryItem list \<Rightarrow> ('w flow, unit) op" where
  "reconcile_cards env mo run run_key items =
     then_do (on_shared (delivery_mr (hist env) run)) (\<lambda>mr.
       case (case mr of Some kvs \<Rightarrow> if is_merged kvs then Some kvs else None | None \<Rightarrow> None) of
         Some kvs \<Rightarrow> finalize_merged env run items kvs None
       | None \<Rightarrow> then_do (on_shared (assert_mutable run_key)) (\<lambda>_.
           case find (\<lambda>item. is_active item \<and> mc_purpose (hi_managed item) = ''root'' \<and>
               tk_status (hi_task item) = ''blocked'') items of
             Some root_item \<Rightarrow> start_run_cards env run run_key root_item
           | None \<Rightarrow> reconcile_active env mo run run_key items))"

definition settled_states :: "string set" where
  "settled_states = set TERMINAL_RUN_STATES \<union> {''exception'', ''human_blocked''}"

definition retry_blocked :: "'w flow_env \<Rightarrow> string \<Rightarrow> 'w shared \<Rightarrow> bool" where
  "retry_blocked env dependency s = (case s of (c, w) \<Rightarrow> dependency_retry_blocked (fl_now env s) dependency
     \<lparr>sd_control = c, sd_outages = si_outages w, sd_outbox = si_outbox w,
      sd_last_reconcile_error = si_last_reconcile_error w\<rparr>)"

definition reconcile_body ::
  "'w flow_env \<Rightarrow> 'w shared merge_ops \<Rightarrow> string \<Rightarrow> ('w flow, unit) op" where
  "reconcile_body env mo run_key =
     then_do (read_state (\<lambda>s. run_state (shared_of s) run_key)) (\<lambda>state.
       if state \<in> set abort_states then on_shared (then_do (continue_abort env run_key) (\<lambda>_. give ()))
       else if state \<in> settled_states then give ()
       else then_do (read_state (\<lambda>s. retry_blocked env ''gitlab'' (shared_of s))) (\<lambda>blocked.
         if blocked then give ()
         else then_do (on_shared (history (hist env) run_key)) (\<lambda>(items, run).
         then_do (read_state (\<lambda>s. unauthorized_promotion (cs_journal s) items)) (\<lambda>unauthorized.
           case unauthorized of
             Some item \<Rightarrow> stop_run env run (tk_id (hi_task item))
               ''unknown promoted_manual event without matching human resolve''
           | None \<Rightarrow> reconcile_cards env mo run run_key items))))"

text \<open>A result that another transition overtook is dropped; the guard is left in every case.\<close>

definition reconcile_run ::
  "'w flow_env \<Rightarrow> 'w shared merge_ops \<Rightarrow> string \<Rightarrow> ('w flow, bool) op" where
  "reconcile_run env mo run_key =
     then_do (on_shared (on_guards (begin_reconcile run_key))) (\<lambda>entered.
       if \<not> entered then give False
       else (\<lambda>s. case try_do (reconcile_body env mo run_key)
           (\<lambda>e. if is_superseded e then give False else checked (Inl e)) (\<lambda>_. give True) s of
         (r, t) \<Rightarrow> (r, snd (on_shared (on_guards (\<lambda>g. ((), finish_reconcile_guard run_key g))) t))))"

definition reconcile_failed :: "'w flow_env \<Rightarrow> string \<Rightarrow> ctl_error \<Rightarrow> ('w shared, unit) op" where
  "reconcile_failed env run_key e =
     (if is_contract e \<or> is_run_policy_error e \<or> malformed e
      then timed env (\<lambda>now. on_service (record_run_exception (circ env) now run_key e))
      else if is_dependency_error e
      then timed env (\<lambda>now s. case fl_fresh env s of (a, b) \<Rightarrow>
        on_service (ignore_result (handle_dependency_error (circ env) now a b run_key e)) s)
      else checked (Inl (case e of ControllerFatalError _ \<Rightarrow> e
        | _ \<Rightarrow> ControllerFatalError (''run_reconcile_failed:'' @ run_key @ '':'' @ error_message e))))"

definition recover_after ::
  "'w flow_env \<Rightarrow> string \<Rightarrow> string \<Rightarrow> ('w shared, unit) op" where
  "recover_after env run_key dependency =
     timed env (\<lambda>now. on_service (recover_run_dependency (circ env) now run_key dependency))"

definition reconcile_run_with_policy ::
  "'w flow_env \<Rightarrow> 'w shared merge_ops \<Rightarrow> string \<Rightarrow> ('w flow, unit) op" where
  "reconcile_run_with_policy env mo run_key =
     then_do (read_state (\<lambda>s. retry_blocked env ''gitlab'' (shared_of s))) (\<lambda>blocked.
       if blocked then give ()
       else try_do
         (then_do (reconcile_run env mo run_key) (\<lambda>finished.
            if \<not> finished then give ()
            else on_shared (then_do (recover_after env run_key ''kanban'') (\<lambda>_. recover_after env run_key ''gitlab''))))
         (\<lambda>e. on_shared (reconcile_failed env run_key e)) give)"

end
