(* ===== verification/GitLab.thy ===== *)
theory GitLab
  imports Reconcile_Run Task_Graph
begin

text \<open>
  The client of gitlab.py: glab and git as processes, the classification of their
  failures, redaction of the token, endpoints, paging, and the texts it looks for in
  notes. A text is a list of code points below 256.
\<close>

section \<open>Texts\<close>

text \<open>
  \<open>re.sub\<close>: \<open>m\<close> is the match at a position, its length and what stands for it; the rest of
  a match is skipped.
\<close>

fun substitute :: "(string \<Rightarrow> (nat \<times> string) option) \<Rightarrow> nat \<Rightarrow> string \<Rightarrow> string" where
  "substitute m k [] = []"
| "substitute m k (c # s) = (if 0 < k then substitute m (k - 1) s
     else case m (c # s) of
       None \<Rightarrow> c # substitute m 0 s
     | Some (n, r) \<Rightarrow> r @ substitute m (n - 1) s)"

definition redacted :: string where
  "redacted = ''[REDACTED]''"

text \<open>\<open>safe.replace(token, "[REDACTED]")\<close>\<close>

definition match_token :: "string \<Rightarrow> string \<Rightarrow> (nat \<times> string) option" where
  "match_token token s = (if starts_with token s then Some (length token, redacted) else None)"

text \<open>\<open>prefix\<close> in any case, then what follows it.\<close>

definition after_word :: "string \<Rightarrow> string \<Rightarrow> string option" where
  "after_word word s = (if starts_with word (map lower_char (take (length word) s))
     then Some (drop (length word) s) else None)"

definition after_spaces :: "string \<Rightarrow> string option" where
  "after_spaces s = (case s of c # t \<Rightarrow> if is_space c then Some (dropWhile is_space t) else None | [] \<Rightarrow> None)"

text \<open>\<open>(?i)(authorization\\s*:\\s*(?:bearer|basic)\\s+)\\S+\<close>\<close>

definition match_authorization :: "string \<Rightarrow> (nat \<times> string) option" where
  "match_authorization s =
     (case after_word ''authorization'' s of None \<Rightarrow> None | Some t \<Rightarrow>
     (case dropWhile is_space t of [] \<Rightarrow> None | c # u \<Rightarrow> if c \<noteq> CHR '':'' then None else
     (let v = dropWhile is_space u in
      case (case after_word ''bearer'' v of Some x \<Rightarrow> Some x | None \<Rightarrow> after_word ''basic'' v) of None \<Rightarrow> None | Some x \<Rightarrow>
     (case after_spaces x of None \<Rightarrow> None | Some y \<Rightarrow>
      let credential = takeWhile (\<lambda>c. \<not> is_space c) y; start = length s - length y in
      if credential = [] then None
      else Some (start + length credential, take start s @ redacted)))))"

text \<open>A character of a word, \<open>\\w\<close>, among the code points below 256.\<close>

definition in_word :: "char \<Rightarrow> bool" where
  "in_word c \<longleftrightarrow> is_word_char c \<or> (let n = of_char c :: nat in n \<in> {0xAA, 0xB2, 0xB3, 0xB5, 0xB9, 0xBA, 0xBC, 0xBD, 0xBE} \<or>
     0xC0 \<le> n \<and> n \<noteq> 0xD7 \<and> n \<noteq> 0xF7)"

definition words_of :: "string \<Rightarrow> string list" where
  "words_of s = filter (\<lambda>w. w \<noteq> []) (split_on (CHR '' '') (map (\<lambda>c. if in_word c then c else CHR '' '') s))"

text \<open>\<open>_http_status\<close>: the last word of three digits that is an error status.\<close>

definition status_word :: "string \<Rightarrow> nat option" where
  "status_word w = (if length w = 3 \<and> list_all is_digit w \<and> hd w \<in> set ''12345'' then Some (digits_value w) else None)"

definition http_status :: "string \<Rightarrow> int option" where
  "http_status text = (case filter (\<lambda>n. 400 \<le> n \<and> n \<le> 599) (List.map_filter status_word (words_of text)) of
     [] \<Rightarrow> None | ns \<Rightarrow> Some (int (last ns)))"

text \<open>\<open>retry-after(?:\\s*[:=]\\s*|\\s+)([0-9]+)\<close>, in any case\<close>

definition leading_number :: "string \<Rightarrow> int option" where
  "leading_number s = (case takeWhile is_digit s of [] \<Rightarrow> None | ds \<Rightarrow> Some (int (digits_value ds)))"

definition retry_after_here :: "string \<Rightarrow> int option" where
  "retry_after_here s = (case after_word ''retry-after'' s of None \<Rightarrow> None | Some t \<Rightarrow>
     (case dropWhile is_space t of [] \<Rightarrow> None | c # u \<Rightarrow>
        if c \<in> set '':='' then leading_number (dropWhile is_space u)
        else case after_spaces t of None \<Rightarrow> None | Some v \<Rightarrow> leading_number v))"

text \<open>\<open>re.search\<close>: the leftmost position with a match.\<close>

fun search :: "(string \<Rightarrow> 'a option) \<Rightarrow> string \<Rightarrow> 'a option" where
  "search m [] = m []"
| "search m (c # s) = (case m (c # s) of Some x \<Rightarrow> Some x | None \<Rightarrow> search m s)"

definition retry_after :: "string \<Rightarrow> int option" where
  "retry_after text = search retry_after_here text"

text \<open>\<open>quote(s, safe='')\<close>\<close>

definition unreserved :: "char \<Rightarrow> bool" where
  "unreserved c \<longleftrightarrow> is_word_char c \<or> c \<in> set ''.-~''"

definition upper_hex :: "nat \<Rightarrow> char" where
  "upper_hex d = char_of (if d < 10 then 48 + d else 55 + d)"

definition quote_byte :: "char \<Rightarrow> string" where
  "quote_byte b = [CHR ''%'', upper_hex (of_char b div 16), upper_hex (of_char b mod 16)]"

definition quote_char :: "char \<Rightarrow> string" where
  "quote_char c = (if unreserved c then [c] else concat (map quote_byte (utf8_char (of_char c))))"

definition quote :: "string \<Rightarrow> string" where
  "quote s = concat (map quote_char s)"

section \<open>Processes\<close>

text \<open>
  \<open>ge_token\<close> is config.py's \<open>read_token\<close>. \<open>ge_glab\<close> and \<open>ge_git\<close> run a
  command, the latter in a directory with the token in its environment. \<open>ge_port\<close> reads the
  port of a URL, which may raise, \<open>ge_http_url\<close> is pydantic's, and \<open>ge_task_blocks\<close> is what the regular expressions of
  validators.py match. \<open>ge_pages\<close> bounds the pages of a list.
\<close>

record 'w gitlab_env =
  ge_config :: ControllerConfig
  ge_hostname :: string
  ge_base_url :: string
  ge_token :: "'w \<Rightarrow> string res"
  ge_glab :: "string list \<Rightarrow> 'w \<Rightarrow> process_result \<times> 'w"
  ge_git :: "string \<Rightarrow> string list \<Rightarrow> 'w \<Rightarrow> process_result \<times> 'w"
  ge_git_command :: string
  ge_is_dir :: "string \<Rightarrow> 'w \<Rightarrow> bool"
  ge_loads :: "string \<Rightarrow> json option"
  ge_str :: "json \<Rightarrow> string"
  ge_int :: "string \<Rightarrow> int option"
  ge_sha256 :: "string \<Rightarrow> string"
  ge_base64_text :: "string \<Rightarrow> string option"
  ge_fromisoformat :: "string \<Rightarrow> py_datetime option"
  ge_isoformat :: "py_datetime \<Rightarrow> string"
  ge_urlparse :: "string \<Rightarrow> parsed_url res"
  ge_http_url :: "string \<Rightarrow> string res"
  ge_port :: "string \<Rightarrow> int option res"
  ge_unquote :: "string \<Rightarrow> string"
  ge_task_blocks :: "string list \<Rightarrow> task_block list list"
  ge_pages :: nat

definition gitlab_context :: "string \<Rightarrow> string option \<Rightarrow> error_context" where
  "gitlab_context endpoint code = \<lparr>ec_dependency = ''gitlab'', ec_endpoint = Some endpoint, ec_status_code = None,
     ec_retry_after_seconds = None, ec_error_code = code\<rparr>"

definition contract_error :: "string \<Rightarrow> string \<Rightarrow> string \<Rightarrow> ctl_error" where
  "contract_error message endpoint code = DependencyContractError message (gitlab_context endpoint (Some code))"

definition redact :: "string res \<Rightarrow> string \<Rightarrow> string" where
  "redact token text = substitute match_authorization 0
     (case token of Inl _ \<Rightarrow> text | Inr t \<Rightarrow> if t = [] then text else substitute (match_token t) 0 text)"

definition failure_summary :: "string \<Rightarrow> string \<Rightarrow> string" where
  "failure_summary out err = (if err \<noteq> [] then err else if out \<noteq> [] then out else ''GitLab command failed'')"

definition api_error :: "'w gitlab_env \<Rightarrow> 'w \<Rightarrow> string \<Rightarrow> string \<Rightarrow> string \<Rightarrow> ctl_error" where
  "api_error env w endpoint out err =
     (let summary = strip (failure_summary out err); status = http_status summary;
          context = (gitlab_context endpoint None)\<lparr>ec_status_code := status, ec_retry_after_seconds := retry_after summary\<rparr>;
          safe = take 1000 (redact (ge_token env w) summary)
      in case status of
           None \<Rightarrow> DependencyTransientError safe context
         | Some n \<Rightarrow> if n \<in> {401, 403} then DependencyAuthError safe context
             else if n = 429 then DependencyRateLimitedError safe context
             else if n \<in> {400, 404, 409, 422} then DependencyContractError safe context
             else DependencyTransientError safe context)"

definition is_api :: "'w gitlab_env \<Rightarrow> string list \<Rightarrow> bool" where
  "is_api env command \<longleftrightarrow> 3 \<le> length command \<and> command ! 0 = cf_glab_command (ge_config env) \<and> command ! 1 = ''api''"

definition run_glab :: "'w gitlab_env \<Rightarrow> string list \<Rightarrow> bool \<Rightarrow> ('w, int \<times> string \<times> string) op" where
  "run_glab env command tolerate w =
     (case ge_token env w of Inl _ \<Rightarrow> (Inl (ControllerFatalError ''controller_gitlab_token_invalid''), w)
      | Inr _ \<Rightarrow> (case ge_glab env command w of
        (TimedOut, w') \<Rightarrow> (let endpoint = (if is_api env command then command ! 2 else hd command)
          in (Inl (DependencyTransientError (''GitLab command timed out: '' @ endpoint)
               (gitlab_context endpoint (Some ''timeout''))), w'))
      | (NotStarted, w') \<Rightarrow> (Inl (ControllerFatalError (''gitlab_command_unavailable:'' @ hd command)), w')
      | (Completed code out err, w') \<Rightarrow>
          if code \<noteq> 0 \<and> \<not> tolerate
          then (Inl (if is_api env command then api_error env w' (command ! 2) out err
                     else ControllerFatalError (''unclassified_gitlab_command_failure:'' @ hd command)), w')
          else (Inr (code, out, err), w')))"

section \<open>The API\<close>

fun field_text :: "'w gitlab_env \<Rightarrow> json \<Rightarrow> string" where
  "field_text env (JBool b) = (if b then ''true'' else ''false'')"
| "field_text env v = json_text (ge_str env) v"

definition api_command :: "'w gitlab_env \<Rightarrow> string \<Rightarrow> string \<Rightarrow> (string \<times> json) list \<Rightarrow> string list" where
  "api_command env endpoint verb kvs =
     [cf_glab_command (ge_config env), ''api'', endpoint, ''--hostname'', ge_hostname env, ''--method'', verb] @
     concat (map (\<lambda>(key, v). [''--field'', key @ ''='' @ field_text env v]) kvs)"

definition api :: "'w gitlab_env \<Rightarrow> string \<Rightarrow> string \<Rightarrow> (string \<times> json) list \<Rightarrow> ('w, json) op" where
  "api env endpoint verb kvs =
     then_do (run_glab env (api_command env endpoint verb kvs) True) (\<lambda>(code, out, err) w.
       if code \<noteq> 0 then (Inl (api_error env w endpoint out err), w)
       else case ge_loads env out of
         Some v \<Rightarrow> (Inr v, w)
       | None \<Rightarrow> (Inl (contract_error (''GitLab returned invalid JSON for '' @ endpoint) endpoint ''invalid_json''), w))"

abbreviation api_get :: "'w gitlab_env \<Rightarrow> string \<Rightarrow> ('w, json) op" where
  "api_get env endpoint \<equiv> api env endpoint ''GET'' []"

definition project_endpoint :: "string \<Rightarrow> string" where
  "project_endpoint project_id = ''projects/'' @ quote project_id"

definition run_project :: "RunRecord \<Rightarrow> string" where
  "run_project run = project_endpoint (int_str (pf_project_id (rr_project run)))"

definition require_object :: "string \<Rightarrow> json \<Rightarrow> (string \<times> json) list res" where
  "require_object endpoint v = (case v of JObj kvs \<Rightarrow> Inr kvs
     | _ \<Rightarrow> Inl (contract_error (''GitLab returned a non-object response for '' @ endpoint) endpoint
         ''invalid_object_response''))"

definition api_object :: "'w gitlab_env \<Rightarrow> string \<Rightarrow> string \<Rightarrow> (string \<times> json) list \<Rightarrow> ('w, (string \<times> json) list) op" where
  "api_object env endpoint verb kvs = then_do (api env endpoint verb kvs) (\<lambda>v. checked (require_object endpoint v))"

definition objects_of :: "json list \<Rightarrow> (string \<times> json) list list" where
  "objects_of xs = List.map_filter (\<lambda>v. case v of JObj kvs \<Rightarrow> Some kvs | _ \<Rightarrow> None) xs"

definition page_endpoint :: "string \<Rightarrow> nat \<Rightarrow> string" where
  "page_endpoint endpoint page =
     endpoint @ (if CHR ''?'' \<in> set endpoint then ''&'' else ''?'') @ ''per_page=100&page='' @ nat_str page"

fun list_pages ::
  "'w gitlab_env \<Rightarrow> string \<Rightarrow> nat \<Rightarrow> nat \<Rightarrow> (string \<times> json) list list \<Rightarrow> ('w, (string \<times> json) list list) op" where
  "list_pages env endpoint 0 page items = checked (Inl (PyRuntimeError ''out of fuel''))"
| "list_pages env endpoint (Suc fuel) page items =
     then_do (api_get env (page_endpoint endpoint page)) (\<lambda>response. case response of
       JList xs \<Rightarrow> (let items' = items @ objects_of xs in
         if length xs < 100 then give items' else list_pages env endpoint fuel (Suc page) items')
     | _ \<Rightarrow> checked (Inl (contract_error (''GitLab list response is invalid for '' @ endpoint) endpoint
         ''invalid_list_response'')))"

definition paginated_list :: "'w gitlab_env \<Rightarrow> string \<Rightarrow> ('w, (string \<times> json) list list) op" where
  "paginated_list env endpoint = list_pages env endpoint (ge_pages env) 1 []"

text \<open>\<open>str(x or "")\<close> and \<open>int(x or 0)\<close>\<close>

definition or_empty :: "'w gitlab_env \<Rightarrow> json \<Rightarrow> string" where
  "or_empty env v = (if truthy_json v then json_text (ge_str env) v else [])"

definition or_zero :: "'w gitlab_env \<Rightarrow> json \<Rightarrow> int res" where
  "or_zero env v = (if truthy_json v then json_int (ge_int env) v else Inr 0)"

definition gl_file :: "'w gitlab_env \<Rightarrow> RunRecord \<Rightarrow> string \<Rightarrow> string \<Rightarrow> ('w, (string \<times> json) list) op" where
  "gl_file env run path ref =
     then_do (api_get env (run_project run @ ''/repository/files/'' @ quote path @ ''?ref='' @ quote ref)) (\<lambda>v. case v of
       JObj kvs \<Rightarrow> give kvs
     | _ \<Rightarrow> checked (Inl (contract_error (''unexpected file response for '' @ path) ''repository/files''
         ''invalid_file_response'')))"

section \<open>The delivery\<close>

definition iid_text :: "int option \<Rightarrow> string" where
  "iid_text iid = (case iid of None \<Rightarrow> ''None'' | Some n \<Rightarrow> int_str n)"

definition mr_endpoint :: "RunRecord \<Rightarrow> string \<Rightarrow> string" where
  "mr_endpoint run iid = run_project run @ ''/merge_requests/'' @ iid"

definition fetch_mr :: "'w gitlab_env \<Rightarrow> RunRecord \<Rightarrow> int option \<Rightarrow> ('w, (string \<times> json) list) op" where
  "fetch_mr env run iid =
     then_do (api_object env (mr_endpoint run (iid_text iid)) ''GET'' []) (\<lambda>mr.
       if get_json mr ''source_branch'' \<noteq> JStr (wf_branch (rr_workspace run)) \<or>
          get_json mr ''target_branch'' \<noteq> JStr (wf_target_branch (rr_workspace run))
       then checked (Inl (ValueError ''delivery MR does not belong to the run branch/target''))
       else give mr)"

text \<open>\<open>mr.get("author") if isinstance(.., dict) else {}\<close>, and its identity\<close>

definition object_or_empty :: "json \<Rightarrow> (string \<times> json) list" where
  "object_or_empty v = (case v of JObj kvs \<Rightarrow> kvs | _ \<Rightarrow> [])"

definition identity_of :: "'w gitlab_env \<Rightarrow> (string \<times> json) list \<Rightarrow> string" where
  "identity_of env user = strip (if truthy_json (get_json user ''username'') then json_text (ge_str env) (get_json user ''username'')
     else or_empty env (get_json user ''id''))"

end
