(* ===== verification/GitLab_Gates.thy ===== *)
theory GitLab_Gates
  imports GitLab
begin

text \<open>
  What gitlab.py accepts as evidence: gate notes on the merge request, document
  artifacts at a commit and frozen baselines, and the markers of the other kinds of note.
\<close>

section \<open>Markers in notes\<close>

text \<open>
  The marker expressions: a header, then fields \<open>key=value\<close> after spaces. A value is a
  maximal text without spaces that the expression allows, or so many hexadecimal digits.
\<close>

datatype marker_field = Text string "string \<Rightarrow> bool" | Hex string nat

fun field_key :: "marker_field \<Rightarrow> string" where
  "field_key (Text key _) = key"
| "field_key (Hex key _) = key"

fun field_value :: "marker_field \<Rightarrow> string \<Rightarrow> string option" where
  "field_value (Text _ ok) s = (let w = takeWhile (\<lambda>c. \<not> is_space c) s in if ok w then Some w else None)"
| "field_value (Hex _ n) s = (let w = take n s in if length w = n \<and> list_all is_lower_hex w then Some w else None)"

fun read_fields :: "marker_field list \<Rightarrow> string \<Rightarrow> string list option" where
  "read_fields [] s = Some []"
| "read_fields (f # fs) s = (case after_spaces s of None \<Rightarrow> None | Some t \<Rightarrow>
     (let key = field_key f @ ''='' in
      if \<not> starts_with key t then None
      else case field_value f (drop (length key) t) of None \<Rightarrow> None | Some w \<Rightarrow>
        map_option ((#) w) (read_fields fs (drop (length key + length w) t))))"

definition read_marker :: "string \<Rightarrow> marker_field list \<Rightarrow> string \<Rightarrow> string list option" where
  "read_marker header fs s =
     (if starts_with header s then read_fields fs (drop (length header) s) else None)"

definition any_text :: "string \<Rightarrow> bool" where
  "any_text w \<longleftrightarrow> w \<noteq> []"

definition positive_number :: "string \<Rightarrow> bool" where
  "positive_number w \<longleftrightarrow> w \<noteq> [] \<and> list_all is_digit w \<and> hd w \<noteq> CHR ''0''"

definition gate_fields :: "marker_field list" where
  "gate_fields = Text ''v'' (\<lambda>w. w = ''5'') # map (\<lambda>key. Text key any_text)
     [''run'', ''stage'', ''result'', ''digest'', ''artifact'', ''head'', ''test'', ''task'']"

definition GATE_RE :: "string \<Rightarrow> string list option" where
  "GATE_RE body = map_option tl (search (read_marker ''HOLLYSYS-GATE:'' gate_fields) body)"

definition semantic_fields :: "marker_field list" where
  "semantic_fields = [Text ''v'' (\<lambda>w. w = ''1''), Text ''run'' any_text, Text ''phase'' any_text,
     Text ''decision'' any_text, Hex ''artifact'' 40, Hex ''digest'' 64]"

definition SEMANTIC_GATE_RE :: "string \<Rightarrow> string list option" where
  "SEMANTIC_GATE_RE body = map_option tl (search (read_marker ''HOLLYSYS-SEMANTIC-GATE:'' semantic_fields) body)"

definition forced_marker_fields :: "marker_field list" where
  "forced_marker_fields = [Text ''v'' (\<lambda>w. w = ''1''), Text ''run'' any_text,
     Text ''phase'' (\<lambda>w. w \<in> {''spec'', ''plan'', ''tasks''}), Text ''review_limit'' positive_number, Text ''task'' any_text]"

definition FORCED_ADVANCE_RE :: "string \<Rightarrow> string list option" where
  "FORCED_ADVANCE_RE body = map_option tl (search (read_marker ''HOLLYSYS-FORCED-ADVANCE:'' forced_marker_fields) body)"

section \<open>Authors\<close>

text \<open>\<open>note.get("author") or {}\<close>; what is no dict has no \<open>get\<close>.\<close>

definition author_of :: "(string \<times> json) list \<Rightarrow> (string \<times> json) list res" where
  "author_of note = (let v = get_json note ''author'' in
     if \<not> truthy_json v then Inr [] else case v of JObj kvs \<Rightarrow> Inr kvs | _ \<Rightarrow> Inl (PyAttributeError ''get''))"

definition author_values :: "'w gitlab_env \<Rightarrow> (string \<times> json) list \<Rightarrow> string set" where
  "author_values env author = {or_empty env (get_json author ''id''), or_empty env (get_json author ''username''),
     or_empty env (get_json author ''name'')}"

definition reviewers :: "'w gitlab_env \<Rightarrow> string \<Rightarrow> string set" where
  "reviewers env stage = (case map_of (cf_reviewer_identities (ge_config env)) stage of
     None \<Rightarrow> {} | Some xs \<Rightarrow> set xs)"

fun test_value :: "TestDisposition \<Rightarrow> string" where
  "test_value EXECUTED = ''executed''"
| "test_value SKIPPED_UNAVAILABLE = ''skipped_unavailable''"

definition or_na :: "string option \<Rightarrow> string" where
  "or_na x = (case or_text x of None \<Rightarrow> ''na'' | Some t \<Rightarrow> t)"

definition expected_marker :: "RunRecord \<Rightarrow> CompletionMetadata \<Rightarrow> string list" where
  "expected_marker run md = [rr_run_key run, stage_value (cm_stage md), outcome_value (cm_outcome md),
     or_na (cm_artifact_digest md), or_na (cm_artifact_commit_sha md), or_na (cm_head_sha md),
     (case cm_test_disposition md of None \<Rightarrow> ''na'' | Some d \<Rightarrow> test_value d), cm_kanban_card_id md]"

definition author_label :: "'w gitlab_env \<Rightarrow> (string \<times> json) list \<Rightarrow> string" where
  "author_label env author = (if get_json author ''id'' \<noteq> JNull
     then ''id:'' @ json_text (ge_str env) (get_json author ''id'')
     else ''username:'' @ json_text (ge_str env) (get_json author ''username''))"

fun gate_note :: "'w gitlab_env \<Rightarrow> string set \<Rightarrow> string list \<Rightarrow> (string \<times> json) list list \<Rightarrow> string option res" where
  "gate_note env identities expected [] = Inr None"
| "gate_note env identities expected (note # notes) =
     (case GATE_RE (or_empty env (get_json note ''body'')) of
        None \<Rightarrow> gate_note env identities expected notes
      | Some found \<Rightarrow> (case author_of note of Inl e \<Rightarrow> Inl e | Inr author \<Rightarrow>
          if identities \<inter> author_values env author = {} then gate_note env identities expected notes
          else if found = expected then Inr (Some (author_label env author))
          else gate_note env identities expected notes))"

definition notes_endpoint :: "RunRecord \<Rightarrow> string \<Rightarrow> string" where
  "notes_endpoint run iid = mr_endpoint run iid @ ''/notes''"

definition validate_gate_note :: "'w gitlab_env \<Rightarrow> RunRecord \<Rightarrow> int \<Rightarrow> CompletionMetadata \<Rightarrow> ('w, string) op" where
  "validate_gate_note env run iid md =
     (let stage = stage_value (cm_stage md); identities = reviewers env stage in
      if identities = {} then checked (Inl (ValueError (''no allowed identities configured for '' @ stage)))
      else then_do (paginated_list env (notes_endpoint run (int_str iid))) (\<lambda>notes.
        then_do (checked (gate_note env identities (expected_marker run md) notes)) (\<lambda>found. case found of
          Some author \<Rightarrow> give author
        | None \<Rightarrow> checked (Inl (ValueError (''no valid '' @ stage @ '' gate note by an allowed GitLab identity''))))))"

section \<open>Artifacts\<close>

text \<open>
  \<open>fnmatch.translate\<close>: where a character class ends, its chunks between the hyphens of
  ranges, and the removal of empty ranges.
\<close>

definition class_end :: "string \<Rightarrow> nat option" where
  "class_end p = (let j = (if starts_with ''!'' p then 1 else 0); j' = (if starts_with '']'' (drop j p) then j + 1 else j);
       n = j' + length (takeWhile (\<lambda>c. c \<noteq> CHR '']'') (drop j' p))
     in if length p \<le> n then None else Some n)"

function chunks :: "nat \<Rightarrow> string \<Rightarrow> string list" where
  "chunks k s = (let n = k + length (takeWhile (\<lambda>c. c \<noteq> CHR ''-'') (drop k s)) in
     if length s \<le> n then [s] else take n s # chunks 2 (drop (Suc n) s))"
  by pat_completeness auto
termination by (relation "measure (\<lambda>(k, s). length s)") auto

declare chunks.simps [simp del]

definition closed_chunks :: "string list \<Rightarrow> string list" where
  "closed_chunks cs = (if 1 < length cs \<and> last cs = []
     then butlast (butlast cs) @ [last (butlast cs) @ ''-''] else cs)"

fun without_empty_ranges :: "string list \<Rightarrow> string list" where
  "without_empty_ranges [] = []"
| "without_empty_ranges (c # cs) = (case without_empty_ranges cs of
     [] \<Rightarrow> [c]
   | d # ds \<Rightarrow> if c \<noteq> [] \<and> d \<noteq> [] \<and> hd d < last c then (butlast c @ tl d) # ds else c # d # ds)"

fun in_ranges :: "string list \<Rightarrow> char \<Rightarrow> bool" where
  "in_ranges (c # d # cs) x = (x \<in> set c \<or> (last c \<le> x \<and> x \<le> hd d) \<or> in_ranges (d # cs) x)"
| "in_ranges [c] x = (x \<in> set c)"
| "in_ranges [] x = False"

definition in_class :: "string \<Rightarrow> char \<Rightarrow> bool" where
  "in_class p x = (let negated = starts_with ''!'' p; stuff = (if negated then tl p else p);
       members = without_empty_ranges (closed_chunks (chunks 1 stuff))
     in in_ranges members x \<noteq> negated)"

function fnmatchcase :: "string \<Rightarrow> string \<Rightarrow> bool" where
  "fnmatchcase [] s = (s = [])"
| "fnmatchcase (c # p) s =
     (if c = CHR ''*'' then fnmatchcase p s \<or> (if s = [] then False else fnmatchcase (c # p) (tl s))
      else if s = [] then False
      else if c = CHR ''?'' then fnmatchcase p (tl s)
      else if c = CHR ''['' then (case class_end p of
          None \<Rightarrow> hd s = c \<and> fnmatchcase p (tl s)
        | Some n \<Rightarrow> in_class (take n p) (hd s) \<and> fnmatchcase (drop (Suc n) p) (tl s))
      else hd s = c \<and> fnmatchcase p (tl s))"
  by pat_completeness auto
termination by (relation "measure (\<lambda>(p, s). length p + length s)") auto

declare fnmatchcase.simps(2) [simp del]

definition phase_contains :: "ArtifactScope \<Rightarrow> Stage \<Rightarrow> string \<Rightarrow> bool res" where
  "phase_contains sc stage path = map_sum id (list_ex (\<lambda>pattern. fnmatchcase pattern path)) (patterns_for sc stage)"

text \<open>The repository tree: one JSON document a line, an item or a page of items.\<close>

definition tree_items :: "'w gitlab_env \<Rightarrow> string \<Rightarrow> json list res" where
  "tree_items env line = (case ge_loads env line of
     None \<Rightarrow> Inl (ValueError ''invalid JSON document'') | Some (JList xs) \<Rightarrow> Inr xs | Some v \<Rightarrow> Inr [v])"

definition tree_path :: "'w gitlab_env \<Rightarrow> string list \<Rightarrow> json \<Rightarrow> string list \<Rightarrow> string list res" where
  "tree_path env patterns item paths = (case item of
     JObj kvs \<Rightarrow> if get_json kvs ''type'' \<noteq> JStr ''blob'' then Inr paths
       else (case map_of kvs ''path'' of None \<Rightarrow> Inl (PyKeyError ''path'')
         | Some v \<Rightarrow> let path = json_text (ge_str env) v in
             Inr (if list_ex (\<lambda>pattern. fnmatchcase pattern path) patterns then paths @ [path] else paths))
   | _ \<Rightarrow> Inr paths)"

definition tree_line :: "'w gitlab_env \<Rightarrow> string list \<Rightarrow> string \<Rightarrow> string list \<Rightarrow> ('w, string list) op" where
  "tree_line env patterns line paths = then_do (checked (tree_items env line)) (\<lambda>items.
     fold_do (\<lambda>item paths. checked (tree_path env patterns item paths)) items paths)"

definition tree_command :: "'w gitlab_env \<Rightarrow> RunRecord \<Rightarrow> string \<Rightarrow> string list" where
  "tree_command env run ref = [cf_glab_command (ge_config env), ''api'',
     run_project run @ ''/repository/tree?ref='' @ quote ref @ ''&recursive=true&per_page=100'',
     ''--hostname'', ge_hostname env, ''--paginate'', ''--output'', ''ndjson'']"

definition artifact_paths :: "'w gitlab_env \<Rightarrow> RunRecord \<Rightarrow> string \<Rightarrow> string list \<Rightarrow> ('w, string list) op" where
  "artifact_paths env run ref patterns =
     (if patterns = [] then checked (Inl (ValueError ''artifact patterns are not configured''))
      else then_do (run_glab env (tree_command env run ref) False) (\<lambda>(code, out, err).
        then_do (fold_do (tree_line env patterns) (split_lines out) []) (\<lambda>paths.
          if paths = [] then checked (Inl (ValueError ''configured artifact patterns matched no files''))
          else give (sort paths))))"

definition changed_paths :: "'w gitlab_env \<Rightarrow> RunRecord \<Rightarrow> string option \<Rightarrow> string \<Rightarrow> ('w, string list) op" where
  "changed_paths env run from_ref to_ref =
     (if from_ref = Some to_ref then give []
      else then_do (case from_ref of None \<Rightarrow> checked (Inl (PyTypeError ''quote_from_bytes() expected bytes''))
          | Some r \<Rightarrow> api_object env (run_project run @ ''/repository/compare?from='' @ quote r @ ''&to='' @ quote to_ref
              @ ''&straight=true'') ''GET'' []) (\<lambda>result.
        if truthy_json (get_json result ''compare_timeout'') \<or> truthy_json (get_json result ''overflow'')
        then checked (Inl (contract_error ''GitLab compare response is incomplete'' ''repository/compare''
          ''incomplete_compare_response''))
        else case get_json result ''diffs'' of
          JList ds \<Rightarrow> give (sort (remdups (filter (\<lambda>p. p \<noteq> []) (concat (map (\<lambda>d.
            [or_empty env (get_json d ''old_path''), or_empty env (get_json d ''new_path'')]) (objects_of ds))))))
        | _ \<Rightarrow> checked (Inl (contract_error ''GitLab compare response lacks diffs'' ''repository/compare''
            ''invalid_compare_response''))))"

definition blob_line :: "'w gitlab_env \<Rightarrow> RunRecord \<Rightarrow> string \<Rightarrow> string \<Rightarrow> string \<Rightarrow> ('w, string) op" where
  "blob_line env run ref path text = then_do (gl_file env run path ref) (\<lambda>f.
     if \<not> truthy_json (get_json f ''blob_id'')
     then checked (Inl (ValueError (''GitLab returned no blob id for '' @ path @ ''@'' @ ref)))
     else give (text @ path @ [CHR 0x00] @ json_text (ge_str env) (get_json f ''blob_id'') @ [CHR 0x0A]))"

definition artifact_digest :: "'w gitlab_env \<Rightarrow> RunRecord \<Rightarrow> string \<Rightarrow> string list \<Rightarrow> ('w, string) op" where
  "artifact_digest env run ref paths =
     then_do (fold_do (blob_line env run ref) (sort paths) []) (\<lambda>text. give (ge_sha256 env text))"

text \<open>The review whose patterns a stage's documents fall under.\<close>

fun pattern_stage :: "Stage \<Rightarrow> Stage option" where
  "pattern_stage SPEC_WRITE = Some SPEC_REVIEW"
| "pattern_stage SPEC_REVIEW = Some SPEC_REVIEW"
| "pattern_stage PLAN_WRITE = Some PLAN_REVIEW"
| "pattern_stage PLAN_REVIEW = Some PLAN_REVIEW"
| "pattern_stage TASKS_WRITE = Some TASKS_REVIEW"
| "pattern_stage TASKS_REVIEW = Some TASKS_REVIEW"
| "pattern_stage _ = None"

text \<open>The set and the digest of the artifacts at a commit are the ones that were frozen.\<close>

definition same_artifacts ::
  "'w gitlab_env \<Rightarrow> RunRecord \<Rightarrow> string \<Rightarrow> Stage \<Rightarrow> string \<Rightarrow> string list \<Rightarrow> string option \<Rightarrow> ('w, unit) op" where
  "same_artifacts env run what stage ref paths digest =
     then_do (checked (patterns_for (rr_artifact_scope run) stage)) (\<lambda>patterns.
     then_do (artifact_paths env run ref patterns) (\<lambda>current_paths.
       if current_paths \<noteq> sort paths
       then checked (Inl (ValueError (what @ '' artifact set changed after it was frozen'')))
       else then_do (artifact_digest env run ref current_paths) (\<lambda>current_digest.
         if Some current_digest \<noteq> digest
         then checked (Inl (ValueError (what @ '' artifacts changed after they were frozen''))) else give ())))"

definition validate_artifact_gate_at_ref ::
  "'w gitlab_env \<Rightarrow> RunRecord \<Rightarrow> CompletionMetadata \<Rightarrow> string \<Rightarrow> ('w, unit) op" where
  "validate_artifact_gate_at_ref env run md ref = (case pattern_stage (cm_stage md) of
     None \<Rightarrow> give ()
   | Some stage \<Rightarrow> same_artifacts env run (stage_value (cm_stage md)) stage ref (cm_artifact_paths md)
       (cm_artifact_digest md))"

definition phase_review :: "string \<Rightarrow> Stage res" where
  "phase_review phase = (case map_of [(''spec'', SPEC_REVIEW), (''plan'', PLAN_REVIEW), (''tasks'', TASKS_REVIEW)] phase of
     None \<Rightarrow> Inl (PyKeyError phase) | Some s \<Rightarrow> Inr s)"

definition validate_baseline_at_ref ::
  "'w gitlab_env \<Rightarrow> RunRecord \<Rightarrow> ArtifactBaseline \<Rightarrow> string \<Rightarrow> ('w, unit) op" where
  "validate_baseline_at_ref env run b ref =
     (if bl_phase b = ''prd''
      then then_do (gl_file env run (sf_prd_path (rr_source run)) ref) (\<lambda>f.
        if get_json f ''blob_id'' \<noteq> JStr (sf_prd_blob_sha (rr_source run))
        then checked (Inl (ValueError ''PRD changed after the run source was frozen'')) else give ())
      else then_do (checked (phase_review (bl_phase b))) (\<lambda>stage.
        same_artifacts env run (bl_phase b) stage ref (bl_artifact_paths b) (Some (bl_artifact_digest b))))"

end
