(* ===== verification/GitLab_Delivery.thy ===== *)
theory GitLab_Delivery
  imports GitLab_Gates
begin

text \<open>
  The checks of gitlab.py on what a completion claims: the repository it inspected, the
  delivery it wrote to, its documents, a forced advance, its gate. And git as a process.
\<close>

section \<open>Claims of a completion\<close>

definition git_endpoint :: "string \<Rightarrow> string" where
  "git_endpoint verb = ''git:'' @ verb"

definition remote_git :: "string set" where
  "remote_git = {''clone'', ''fetch'', ''pull'', ''push'', ''ls-remote''}"

definition git_operation :: "string list \<Rightarrow> string" where
  "git_operation args = (case args of [] \<Rightarrow> ''unknown'' | a # _ \<Rightarrow> a)"

definition git_error :: "'w gitlab_env \<Rightarrow> 'w \<Rightarrow> string list \<Rightarrow> string \<Rightarrow> string \<Rightarrow> ctl_error" where
  "git_error env w args out err =
     (let verb = git_operation args;
          summary = take 1000 (redact (ge_token env w)
            (if err \<noteq> [] then err else if out \<noteq> [] then out else ''Git operation failed''));
          context = gitlab_context (git_endpoint verb) (Some ''git_https_failed'')
      in if verb \<notin> remote_git then ControllerFatalError (''local_git_operation_failed:'' @ verb)
         else if mentions [''authentication failed'', ''access denied'', ''401'', ''403''] summary
         then DependencyAuthError summary context
         else if mentions [''429'', ''too many requests''] summary
         then DependencyRateLimitedError summary ((gitlab_context (git_endpoint verb) (Some ''rate_limited''))
           \<lparr>ec_retry_after_seconds := retry_after summary\<rparr>)
         else if mentions [''could not resolve host'', ''failed to connect'', ''connection timed out'',
             ''connection reset'', ''tls'', ''ssl'', ''unexpected eof'', ''gnutls'', ''500'', ''502'', ''503'', ''504''] summary
         then DependencyTransientError summary context
         else DependencyContractError summary context)"

definition git :: "'w gitlab_env \<Rightarrow> string \<Rightarrow> string list \<Rightarrow> bool \<Rightarrow> ('w, int \<times> string \<times> string) op" where
  "git env directory args tolerate w =
     (case ge_token env w of Inl e \<Rightarrow> (Inl e, w) | Inr _ \<Rightarrow> (case ge_git env directory args w of
        (TimedOut, w') \<Rightarrow>
          (Inl (if args \<noteq> [] \<and> hd args \<in> remote_git
             then DependencyTransientError (''Git HTTPS operation timed out: '' @ hd args)
               (gitlab_context (git_endpoint (hd args)) (Some ''timeout''))
             else ControllerFatalError (''local_git_operation_timed_out:'' @ git_operation args)), w')
      | (NotStarted, w') \<Rightarrow> (Inl (ControllerFatalError (''system_git_unavailable:'' @ ge_git_command env)), w')
      | (Completed code out err, w') \<Rightarrow>
          if code \<noteq> 0 \<and> \<not> tolerate then (Inl (git_error env w' args out err), w') else (Inr (code, out, err), w')))"

definition validate_repository_evidence :: "'w gitlab_env \<Rightarrow> RunRecord \<Rightarrow> CompletionMetadata \<Rightarrow> ('w, unit) op" where
  "validate_repository_evidence env run md = (case cm_repository_evidence md of
     None \<Rightarrow> give ()
   | Some evidence \<Rightarrow> (let base = wf_repository_base_sha (rr_workspace run) in
       if re_repository_base_sha evidence \<noteq> base
       then checked (Inl (ValueError ''repository evidence uses another base commit''))
       else for_each (\<lambda>path. then_do (git env (wf_worktree (rr_workspace run))
             [''cat-file'', ''-e'', base @ '':'' @ path] True) (\<lambda>(code, _).
           if code \<noteq> 0 then checked (Inl (ValueError (''repository evidence path does not exist at base: '' @ path)))
           else give ())) (re_inspected_paths evidence)))"

definition validate_author_completion :: "'w gitlab_env \<Rightarrow> RunRecord \<Rightarrow> CompletionMetadata \<Rightarrow> ('w, (string \<times> json) list) op" where
  "validate_author_completion env run md =
     (if cm_stage md \<notin> {SPEC_WRITE, PLAN_WRITE, TASKS_WRITE, IMPLEMENT} \<or> cm_outcome md \<noteq> PASS
      then checked (Inl (ValueError ''completion is not an authoring pass''))
      else if cm_mr_iid md = None \<or> cm_mr_url md = None \<or> cm_head_sha md = None
      then checked (Inl (ValueError ''authoring pass lacks delivery MR/head identity''))
      else then_do (fetch_mr env run (cm_mr_iid md)) (\<lambda>mr.
        if get_json mr ''state'' \<noteq> JStr ''opened'' \<or>
           get_json mr ''source_branch'' \<noteq> JStr (wf_branch (rr_workspace run)) \<or>
           get_json mr ''target_branch'' \<noteq> JStr (wf_target_branch (rr_workspace run)) \<or>
           Some (or_empty env (get_json mr ''web_url'')) \<noteq> cm_mr_url md \<or>
           Some (or_empty env (get_json mr ''sha'')) \<noteq> cm_head_sha md
        then checked (Inl (ValueError ''authoring pass is not bound to the current shared delivery MR/head''))
        else give mr))"

section \<open>Document artifacts\<close>

definition branch_ref :: "RunRecord \<Rightarrow> (string \<times> json) list \<Rightarrow> bool" where
  "branch_ref run ref \<longleftrightarrow> get_json ref ''type'' = JStr ''branch'' \<and> get_json ref ''name'' = JStr (wf_branch (rr_workspace run))"

definition join_paths :: "string list \<Rightarrow> string" where
  "join_paths paths = separated '', '' (sort paths)"

fun outside_phase :: "ArtifactScope \<Rightarrow> Stage \<Rightarrow> string list \<Rightarrow> string list res" where
  "outside_phase sc stage [] = Inr []"
| "outside_phase sc stage (p # ps) = (case phase_contains sc stage p of Inl e \<Rightarrow> Inl e
     | Inr inside \<Rightarrow> map_sum id (\<lambda>out. if inside then out else p # out) (outside_phase sc stage ps))"

text \<open>A phase changes its own documents only, a reviewer nothing.\<close>

definition phase_changes :: "'w gitlab_env \<Rightarrow> RunRecord \<Rightarrow> CompletionMetadata \<Rightarrow> string \<Rightarrow> ('w, unit) op" where
  "phase_changes env run md commit =
     then_do (changed_paths env run (cm_head_before_sha md) commit) (\<lambda>changed.
       if cm_stage md \<in> {SPEC_WRITE, PLAN_WRITE, TASKS_WRITE}
       then then_do (checked (outside_phase (rr_artifact_scope run) (cm_stage md) changed)) (\<lambda>outside.
         if outside \<noteq> []
         then checked (Inl (ValueError (stage_value (cm_stage md) @ '' changed paths outside current PRD scope: ''
           @ join_paths outside)))
         else give ())
       else if changed \<noteq> []
       then checked (Inl (ValueError (stage_value (cm_stage md) @ '' reviewer changed repository head'')))
       else give ())"

text \<open>The run changes no document outside its PRD's scope.\<close>

definition cross_scope :: "RunRecord \<Rightarrow> string list \<Rightarrow> string list" where
  "cross_scope run changed = filter (\<lambda>p. starts_with ''docs/prds/'' p \<and>
     \<not> run_allows_document_path (rr_artifact_scope run) p) changed"

definition run_changes :: "'w gitlab_env \<Rightarrow> RunRecord \<Rightarrow> string \<Rightarrow> ('w, unit) op" where
  "run_changes env run commit =
     then_do (changed_paths env run (Some (wf_repository_base_sha (rr_workspace run))) commit) (\<lambda>changed.
       if cross_scope run changed \<noteq> []
       then checked (Inl (ValueError (''delivery changed documents outside current PRD scope: ''
         @ join_paths (cross_scope run changed))))
       else give ())"

section \<open>Forced advances\<close>

definition note_url :: "'w gitlab_env \<Rightarrow> (string \<times> json) list \<Rightarrow> (string \<times> json) list \<Rightarrow> string" where
  "note_url env mr note = (if get_json note ''id'' = JNull then []
     else json_text (ge_str env) (get_json mr ''web_url'') @ ''#note_'' @ json_text (ge_str env) (get_json note ''id''))"

definition final_review ::
  "'w gitlab_env \<Rightarrow> RunRecord \<Rightarrow> string \<Rightarrow> ForcedAdvance \<Rightarrow> string \<Rightarrow> (string \<times> json) list \<Rightarrow> (string \<times> json) list \<Rightarrow> bool" where
  "final_review env run review forced url note author \<longleftrightarrow>
     url = fa_final_review_url forced \<and>
     (case GATE_RE (or_empty env (get_json note ''body'')) of
        Some [r, stage, result, _, _, _, _, task_id] \<Rightarrow> r = rr_run_key run \<and> stage = review \<and> result = ''fail'' \<and>
          task_id = fa_final_review_card_id forced \<and> reviewers env review \<inter> author_values env author \<noteq> {}
      | _ \<Rightarrow> False)"

definition decision_note :: "'w gitlab_env \<Rightarrow> RunRecord \<Rightarrow> string \<Rightarrow> ForcedAdvance \<Rightarrow> CompletionMetadata \<Rightarrow> (string \<times> json) list \<Rightarrow> bool" where
  "decision_note env run phase forced md note \<longleftrightarrow>
     (case FORCED_ADVANCE_RE (or_empty env (get_json note ''body'')) of
        Some [r, p, most, task_id] \<Rightarrow> r = rr_run_key run \<and> p = phase \<and> int (digits_value most) = fa_review_limit forced \<and>
          task_id = cm_kanban_card_id md
      | _ \<Rightarrow> False)"

text \<open>Whether the failed review was found, and the urls of the decisions.\<close>

fun forced_notes ::
  "'w gitlab_env \<Rightarrow> RunRecord \<Rightarrow> string \<Rightarrow> ForcedAdvance \<Rightarrow> CompletionMetadata \<Rightarrow> (string \<times> json) list \<Rightarrow>
   (string \<times> json) list list \<Rightarrow> (bool \<times> string list) res" where
  "forced_notes env run phase forced md mr [] = Inr (False, [])"
| "forced_notes env run phase forced md mr (note # notes) =
     (case author_of note of Inl e \<Rightarrow> Inl e | Inr author \<Rightarrow>
       (case forced_notes env run phase forced md mr notes of Inl e \<Rightarrow> Inl e | Inr (found, urls) \<Rightarrow>
         let url = note_url env mr note in
         Inr (final_review env run (phase @ ''-review'') forced url note author \<or> found,
              (if decision_note env run phase forced md note then [url] else []) @ urls)))"

definition producer_phase :: "Stage \<Rightarrow> string" where
  "producer_phase stage = (case stage of SPEC_WRITE \<Rightarrow> ''spec'' | PLAN_WRITE \<Rightarrow> ''plan'' | TASKS_WRITE \<Rightarrow> ''tasks''
     | _ \<Rightarrow> ''None'')"

definition validate_forced_advance :: "'w gitlab_env \<Rightarrow> RunRecord \<Rightarrow> CompletionMetadata \<Rightarrow> ('w, unit) op" where
  "validate_forced_advance env run md = (case (cm_forced_advance md, cm_mr_iid md) of
     (Some forced, Some iid) \<Rightarrow>
       then_do (fetch_mr env run (Some iid)) (\<lambda>mr.
       then_do (paginated_list env (notes_endpoint run (int_str iid))) (\<lambda>notes.
       then_do (checked (forced_notes env run (producer_phase (cm_stage md)) forced md mr notes)) (\<lambda>(found, urls).
         if \<not> found then checked (Inl (ValueError ''final_review_url is not the third failed review gate note''))
         else if urls \<noteq> [fa_decision_url forced]
         then checked (Inl (ValueError ''expected exactly one idempotent HOLLYSYS-FORCED-ADVANCE decision note''))
         else give ())))
   | _ \<Rightarrow> checked (Inl (ValueError ''finalization is missing forced-advance evidence'')))"

definition validate_artifact_completion :: "'w gitlab_env \<Rightarrow> RunRecord \<Rightarrow> CompletionMetadata \<Rightarrow> ('w, unit) op" where
  "validate_artifact_completion env run md =
     (let stage = stage_value (cm_stage md) in
      case (pattern_stage (cm_stage md), cm_artifact_commit_sha md, cm_artifact_digest md) of
        (None, _) \<Rightarrow> checked (Inl (ValueError (stage @ '' has no document artifact contract'')))
      | (Some review, Some commit, Some digest) \<Rightarrow>
          then_do (paginated_list env (run_project run @ ''/repository/commits/'' @ commit @ ''/refs?type=branch'')) (\<lambda>refs.
            if \<not> list_ex (branch_ref run) refs
            then checked (Inl (ValueError (stage @ '' artifact commit is not on the delivery branch'')))
            else then_do (checked (patterns_for (rr_artifact_scope run) review)) (\<lambda>patterns.
              then_do (artifact_paths env run commit patterns) (\<lambda>actual.
              if sort (cm_artifact_paths md) \<noteq> actual
              then checked (Inl (ValueError (stage @ '' artifact path set differs from repository tree'')))
              else then_do (artifact_digest env run commit actual) (\<lambda>found.
                if found \<noteq> digest then checked (Inl (ValueError (stage @ '' artifact digest mismatch'')))
                else then_do (phase_changes env run md commit) (\<lambda>_.
                  then_do (run_changes env run commit) (\<lambda>_.
                    if cm_mode md = FINALIZATION then validate_forced_advance env run md else give ()))))))
      | _ \<Rightarrow> checked (Inl (ValueError ''document artifact metadata is incomplete'')))"

section \<open>Gates\<close>

definition review_stages :: "Stage set" where
  "review_stages = {SPEC_REVIEW, PLAN_REVIEW, TASKS_REVIEW}"

text \<open>\<open>int(mr["iid"])\<close>\<close>

definition mr_iid_of :: "'w gitlab_env \<Rightarrow> (string \<times> json) list \<Rightarrow> int res" where
  "mr_iid_of env mr = (case map_of mr ''iid'' of None \<Rightarrow> Inl (PyKeyError ''iid'') | Some v \<Rightarrow> json_int (ge_int env) v)"

definition validate_gate :: "'w gitlab_env \<Rightarrow> RunRecord \<Rightarrow> CompletionMetadata \<Rightarrow> ('w, string option) op" where
  "validate_gate env run md =
     (if cm_stage md \<notin> review_stages \<union> {TEST, CODE_REVIEW} then give None
      else then_do (fetch_mr env run (cm_mr_iid md)) (\<lambda>mr.
        if truthy_str (cm_mr_url md) \<and> cm_mr_url md \<noteq> Some (json_text (ge_str env) (get_json mr ''web_url''))
        then checked (Inl (ValueError ''metadata MR URL does not match GitLab''))
        else then_do (if cm_stage md \<in> review_stages then validate_artifact_completion env run md
            else if (case cm_head_sha md of None \<Rightarrow> JNull | Some h \<Rightarrow> JStr h) \<noteq> get_json mr ''sha''
            then checked (Inl (ValueError (stage_value (cm_stage md) @ '' is not bound to current MR head'')))
            else give ()) (\<lambda>_.
          then_do (checked (mr_iid_of env mr)) (\<lambda>iid.
          then_do (validate_gate_note env run iid md) (\<lambda>author. give (Some author))))))"

end
