(* ===== verification/GitLab_Merge.thy ===== *)
theory GitLab_Merge
  imports GitLab_Delivery
begin

text \<open>
  The writes of gitlab.py: the delivery branch and its merge request, the transition to
  ready, the abort, the merge of a checked head; and the checks before a merge.
\<close>

section \<open>The binding of a delivery\<close>

definition same_time :: "py_datetime \<Rightarrow> py_datetime \<Rightarrow> bool" where
  "same_time a b \<longleftrightarrow> (dt_tzinfo a = None \<longleftrightarrow> dt_tzinfo b = None) \<and> dt_epoch a = dt_epoch b"

definition earlier :: "py_datetime \<Rightarrow> py_datetime \<Rightarrow> bool res" where
  "earlier a b = (if (dt_tzinfo a = None) \<noteq> (dt_tzinfo b = None)
     then Inl (PyTypeError ''can't compare offset-naive and offset-aware datetimes'') else Inr (dt_epoch a < dt_epoch b))"

definition match_zulu :: "string \<Rightarrow> (nat \<times> string) option" where
  "match_zulu s = (if starts_with ''Z'' s then Some (1, ''+00:00'') else None)"

definition created_at_of :: "'w gitlab_env \<Rightarrow> (string \<times> json) list \<Rightarrow> py_datetime res" where
  "created_at_of env mr = (case ge_fromisoformat env (substitute match_zulu 0 (or_empty env (get_json mr ''created_at''))) of
     None \<Rightarrow> Inl (ValueError ''Invalid isoformat string'') | Some t \<Rightarrow> Inr t)"

definition run_claim :: "RunRecord \<Rightarrow> string \<Rightarrow> string" where
  "run_claim run head = ''[hollysys-run-claim:v4] run='' @ rr_run_key run @ '' source='' @ rr_source_key run
     @ '' generation='' @ rr_run_generation run @ '' initial_head='' @ head"

definition bound_by :: "RunRecord \<Rightarrow> DeliveryBinding \<Rightarrow> string \<Rightarrow> py_datetime \<Rightarrow> bool res" where
  "bound_by run b creator created = (if creator \<noteq> db_creator b \<or> \<not> same_time created (db_created_at b) then Inr False
     else map_sum id Not (earlier created (rr_started_at run)))"

definition validate_delivery_binding :: "'w gitlab_env \<Rightarrow> RunRecord \<Rightarrow> DeliveryBinding \<Rightarrow> ('w, (string \<times> json) list) op" where
  "validate_delivery_binding env run b =
     then_do (fetch_mr env run (Some (db_mr_iid b))) (\<lambda>mr.
       let creator = identity_of env (object_or_empty (get_json mr ''author'')) in
     then_do (checked (created_at_of env mr)) (\<lambda>created.
     then_do (checked (bound_by run b creator created)) (\<lambda>bound.
       if \<not> bound then checked (Inl (ValueError ''delivery binding creator/time mismatch''))
       else then_do (api_object env (notes_endpoint run (int_str (db_mr_iid b)) @ ''/'' @ int_str (db_claim_note_id b))
           ''GET'' []) (\<lambda>note.
         if \<not> contains_str (run_claim run (db_initial_head_sha b)) (or_empty env (get_json note ''body'')) \<or>
            identity_of env (object_or_empty (get_json note ''author'')) \<noteq> creator
         then checked (Inl (ValueError ''delivery binding claim note mismatch''))
         else give mr))))"

text \<open>\<open>^(?:Draft:|WIP:)\\s*\<close> is taken off the title.\<close>

definition without_draft :: "string \<Rightarrow> string" where
  "without_draft title = (if starts_with ''Draft:'' title then dropWhile is_space (drop 6 title)
     else if starts_with ''WIP:'' title then dropWhile is_space (drop 4 title) else title)"

definition mark_delivery_ready :: "'w gitlab_env \<Rightarrow> RunRecord \<Rightarrow> DeliveryBinding \<Rightarrow> ('w, (string \<times> json) list) op" where
  "mark_delivery_ready env run b =
     then_do (fetch_mr env run (Some (db_mr_iid b))) (\<lambda>mr.
       let title = or_empty env (get_json mr ''title''); ready = strip (without_draft title) in
       api_object env (mr_endpoint run (int_str (db_mr_iid b))) ''PUT''
         [(''title'', JStr (if ready = [] then title else ready))])"

section \<open>Publication\<close>

record workspace_state =
  ws_ok :: bool
  ws_branch :: "string option"
  ws_head_sha :: "string option"
  ws_clean :: "bool option"
  ws_error_code :: "string option"

definition local_workspace_state :: "'w gitlab_env \<Rightarrow> RunRecord \<Rightarrow> ('w, workspace_state) op" where
  "local_workspace_state env run w =
     (let worktree = wf_worktree (rr_workspace run) in
      if \<not> ge_is_dir env worktree w
      then (Inr \<lparr>ws_ok = False, ws_branch = None, ws_head_sha = None, ws_clean = None,
              ws_error_code = Some ''worktree_missing''\<rparr>, w)
      else then_do (git env worktree [''branch'', ''--show-current''] True) (\<lambda>(branch_code, branch_out, _).
        then_do (git env worktree [''rev-parse'', ''HEAD''] True) (\<lambda>(head_code, head_out, _).
        then_do (git env worktree [''status'', ''--porcelain''] True) (\<lambda>(status_code, status_out, _).
          let branch = strip branch_out; head = strip head_out;
              ok = (branch_code = 0 \<and> head_code = 0 \<and> status_code = 0 \<and>
                branch = wf_branch (rr_workspace run) \<and> valid_sha head)
          in give \<lparr>ws_ok = ok, ws_branch = or_text (Some branch), ws_head_sha = or_text (Some head),
               ws_clean = Some (status_code = 0 \<and> strip status_out = []),
               ws_error_code = (if ok then None else Some ''workspace_identity_mismatch'')\<rparr>))) w)"

text \<open>A list answer in which no object has the name or source branch.\<close>

definition no_collision ::
  "'w gitlab_env \<Rightarrow> string \<Rightarrow> string \<Rightarrow> string \<Rightarrow> string \<Rightarrow> string \<Rightarrow> ('w, unit) op" where
  "no_collision env endpoint what key branch taken = then_do (api_get env endpoint) (\<lambda>v. case v of
     JList xs \<Rightarrow> if list_ex (\<lambda>kvs. get_json kvs key = JStr branch) (objects_of xs)
       then checked (Inl (ValueError (taken @ '':'' @ branch))) else give ()
   | _ \<Rightarrow> checked (Inl (contract_error (''GitLab '' @ what @ '' collision response is not an array'') endpoint
       ''invalid_list_response'')))"

definition mr_collision_endpoint :: "RunRecord \<Rightarrow> string" where
  "mr_collision_endpoint run = run_project run @ ''/merge_requests?source_branch='' @ quote (wf_branch (rr_workspace run))
     @ ''&scope=all&per_page=100''"

text \<open>\<open>str(created["commit"]["id"])\<close>; subscripts raise KeyError or TypeError, which become a contract error.\<close>

definition commit_id :: "'w gitlab_env \<Rightarrow> (string \<times> json) list \<Rightarrow> string option" where
  "commit_id env kvs = (case map_of kvs ''commit'' of
     Some (JObj c) \<Rightarrow> map_option (json_text (ge_str env)) (map_of c ''id'') | _ \<Rightarrow> None)"

definition create_delivery_branch :: "'w gitlab_env \<Rightarrow> RunRecord \<Rightarrow> ('w, string \<times> string) op" where
  "create_delivery_branch env run =
     (let branch = wf_branch (rr_workspace run); base = wf_repository_base_sha (rr_workspace run);
          endpoint = run_project run @ ''/repository/branches'' in
      then_do (no_collision env (endpoint @ ''?search='' @ quote (''^'' @ branch @ ''$'') @ ''&per_page=100'') ''branch'' ''name''
        branch ''delivery_branch_already_exists'') (\<lambda>_.
      then_do (no_collision env (mr_collision_endpoint run) ''MR'' ''source_branch'' branch ''historical_delivery_mr_exists'') (\<lambda>_.
      then_do (api_object env endpoint ''POST'' [(''branch'', JStr branch), (''ref'', JStr base)]) (\<lambda>created.
        case commit_id env created of
          None \<Rightarrow> checked (Inl (contract_error ''GitLab created branch response lacks commit id'' endpoint ''invalid_branch_response''))
        | Some head \<Rightarrow> if get_json created ''name'' \<noteq> JStr branch \<or> head \<noteq> base
            then checked (Inl (contract_error ''GitLab created branch does not match run identity'' endpoint ''created_branch_mismatch''))
            else give (branch, head)))))"

definition make_binding :: "'w gitlab_env \<Rightarrow> DeliveryBinding \<Rightarrow> DeliveryBinding res" where
  "make_binding env b = (case ge_http_url env (db_mr_url b) of Inl e \<Rightarrow> Inl e | Inr url \<Rightarrow>
     let b' = b\<lparr>db_mr_url := url, db_creator := strip (db_creator b), db_initial_head_sha := strip (db_initial_head_sha b)\<rparr> in
     if \<not> delivery_fields b' then Inl (ValueError ''validation error for DeliveryBinding'')
     else map_sum id (\<lambda>_. b') (validate_delivery b'))"

definition remote_head :: "'w gitlab_env \<Rightarrow> (string \<times> json) list \<Rightarrow> string" where
  "remote_head env branch = (case get_json branch ''commit'' of
     JObj c \<Rightarrow> json_text (ge_str env) (get_json c ''id'') | _ \<Rightarrow> [])"

definition publishable :: "'w gitlab_env \<Rightarrow> RunRecord \<Rightarrow> string \<Rightarrow> ('w, unit) op" where
  "publishable env run head =
     then_do (local_workspace_state env run) (\<lambda>state.
       if \<not> ws_ok state \<or> ws_head_sha state \<noteq> Some head \<or> ws_branch state \<noteq> Some (wf_branch (rr_workspace run))
       then checked (Inl (ValueError ''publish_delivery local head/branch mismatch''))
       else then_do (api_object env (run_project run @ ''/repository/branches/'' @ quote (wf_branch (rr_workspace run))) ''GET'' [])
         (\<lambda>branch. if remote_head env branch \<noteq> head
           then checked (Inl (ValueError (''publish_delivery remote head mismatch:'' @ remote_head env branch)))
           else no_collision env (mr_collision_endpoint run) ''MR'' ''source_branch'' (wf_branch (rr_workspace run))
             ''unbound_delivery_mr_exists''))"

definition current_identity :: "'w gitlab_env \<Rightarrow> ('w, string) op" where
  "current_identity env = then_do (api_object env ''user'' ''GET'' []) (\<lambda>user.
     if identity_of env user = []
     then checked (Inl (contract_error ''GitLab current user response lacks identity'' ''user'' ''invalid_user_response''))
     else give (identity_of env user))"

definition delivery_title :: "RunRecord \<Rightarrow> string" where
  "delivery_title run = ''Draft: Hollysys '' @ fst (stem_suffix (path_name (path_of (sf_prd_path (rr_source run)))))
     @ '' ['' @ rr_run_key run @ '']''"

definition open_mr :: "'w gitlab_env \<Rightarrow> RunRecord \<Rightarrow> string \<Rightarrow> string \<Rightarrow> string \<Rightarrow> ('w, (string \<times> json) list) op" where
  "open_mr env run creator head description =
     (let endpoint = run_project run @ ''/merge_requests''; w = rr_workspace run in
      then_do (api_object env endpoint ''POST'' [(''source_branch'', JStr (wf_branch w)),
        (''target_branch'', JStr (wf_target_branch w)), (''title'', JStr (delivery_title run)),
        (''description'', JStr description), (''remove_source_branch'', JBool False)]) (\<lambda>mr.
        if identity_of env (object_or_empty (get_json mr ''author'')) \<noteq> creator
        then checked (Inl (contract_error ''created MR author is not the Controller identity'' endpoint ''mr_creator_mismatch''))
        else if get_json mr ''source_branch'' \<noteq> JStr (wf_branch w) \<or> get_json mr ''target_branch'' \<noteq> JStr (wf_target_branch w) \<or>
          or_empty env (get_json mr ''sha'') \<noteq> head
        then checked (Inl (contract_error ''created MR does not match run branch/head'' endpoint ''created_mr_mismatch''))
        else give mr))"

definition publish_delivery :: "'w gitlab_env \<Rightarrow> RunRecord \<Rightarrow> string \<Rightarrow> string \<Rightarrow> ('w, DeliveryBinding) op" where
  "publish_delivery env run head description =
     (if \<not> valid_sha head then checked (Inl (ValueError ''publish_delivery requires a full head SHA''))
      else then_do (publishable env run head) (\<lambda>_.
        then_do (current_identity env) (\<lambda>creator.
        then_do (open_mr env run creator head description) (\<lambda>mr.
        then_do (checked (or_zero env (get_json mr ''iid''))) (\<lambda>iid.
        then_do (api_object env (notes_endpoint run (int_str iid)) ''POST'' [(''body'',
          JStr (run_claim run head @ '' started_at='' @ ge_isoformat env (rr_started_at run)))]) (\<lambda>note.
        then_do (checked (created_at_of env mr)) (\<lambda>created.
        then_do (checked (or_zero env (get_json note ''id''))) (\<lambda>claim.
          checked (make_binding env \<lparr>db_mr_iid = iid, db_mr_url = or_empty env (get_json mr ''web_url''), db_creator = creator,
            db_created_at = created, db_initial_head_sha = head, db_claim_note_id = claim\<rparr>)))))))))"

section \<open>The abort\<close>

definition abort_marker :: "RunRecord \<Rightarrow> string" where
  "abort_marker run = ''[hollysys-aborted:v4] run='' @ rr_run_key run"

definition abort_note :: "RunRecord \<Rightarrow> string \<Rightarrow> string \<Rightarrow> string" where
  "abort_note run requested_by reason = abort_marker run @ [CHR 0x0A] @ ''requested_by='' @ requested_by @ [CHR 0x0A]
     @ ''reason='' @ take 1000 reason @ [CHR 0x0A]
     @ ''Controller stopped all managed work and preserved the branch/worktree for human inspection.''"

definition close_mr :: "'w gitlab_env \<Rightarrow> RunRecord \<Rightarrow> int \<Rightarrow> ('w, (string \<times> json) list) op" where
  "close_mr env run iid =
     (let endpoint = mr_endpoint run (int_str iid) in
      then_do (fetch_mr env run (Some iid)) (\<lambda>current.
      then_do (if get_json current ''state'' = JStr ''opened''
         then api_object env endpoint ''PUT'' [(''state_event'', JStr ''close'')] else give current) (\<lambda>current.
        if get_json current ''state'' \<notin> {JStr ''closed'', JStr ''merged''}
        then checked (Inl (contract_error ''GitLab did not confirm delivery MR closure'' endpoint ''abort_close_not_confirmed''))
        else give current)))"

definition abort_delivery ::
  "'w gitlab_env \<Rightarrow> RunRecord \<Rightarrow> int option \<Rightarrow> string \<Rightarrow> string \<Rightarrow> ('w, (string \<times> json) list) op" where
  "abort_delivery env run mr_iid requested_by reason =
     (if mr_iid = None then give [(''state'', JStr ''absent''), (''iid'', JNull), (''web_url'', JNull)]
      else then_do (fetch_mr env run mr_iid) (\<lambda>mr.
        if get_json mr ''state'' = JStr ''merged''
        then give (map (\<lambda>key. (key, get_json mr key)) [''state'', ''iid'', ''web_url'', ''sha'', ''merge_commit_sha''])
        else then_do (checked (mr_iid_of env mr)) (\<lambda>iid.
          then_do (paginated_list env (notes_endpoint run (int_str iid))) (\<lambda>notes.
          then_do (if list_ex (\<lambda>note. contains_str (abort_marker run) (or_empty env (get_json note ''body''))) notes
            then give JNull
            else api env (notes_endpoint run (int_str iid)) ''POST'' [(''body'', JStr (abort_note run requested_by reason))]) (\<lambda>_.
            close_mr env run iid)))))"

section \<open>The merge\<close>

definition blocker :: "string \<Rightarrow> string \<Rightarrow> string option \<Rightarrow> merge_blocker" where
  "blocker kind message url = \<lparr>mb_kind = kind, mb_message = message, mb_url = url, mb_owner = None, mb_updated_at = None,
     mb_immediate_exception = False\<rparr>"

definition web_url :: "'w gitlab_env \<Rightarrow> (string \<times> json) list \<Rightarrow> string option" where
  "web_url env kvs = or_text (Some (or_empty env (get_json kvs ''web_url'')))"

text \<open>The latest pipeline of the head has to have succeeded.\<close>

definition pipeline_check :: "'w gitlab_env \<Rightarrow> RunRecord \<Rightarrow> string \<Rightarrow> json list \<Rightarrow> unit res" where
  "pipeline_check env run head pipelines =
     (let pipeline = (case pipelines of JObj kvs # _ \<Rightarrow> Some kvs | _ \<Rightarrow> None);
          status = (case pipeline of None \<Rightarrow> [] | Some p \<Rightarrow> or_empty env (get_json p ''status''));
          url = Option.bind pipeline (web_url env) in
      if (case pipeline of None \<Rightarrow> False | Some p \<Rightarrow> or_empty env (get_json p ''sha'') \<noteq> head \<or>
          or_empty env (get_json p ''ref'') \<noteq> wf_branch (rr_workspace run))
      then Inl (contract_error ''GitLab pipeline response is not bound to the delivery head/ref'' ''pipelines''
        ''pipeline_identity_mismatch'')
      else if status \<in> {''failed'', ''canceled''}
      then Inl (MergeBlocked ((blocker ''pipeline_failed'' (''checked-head pipeline is '' @ status) url)\<lparr>mb_immediate_exception := True\<rparr>))
      else if status = ''skipped''
      then Inl (MergeBlocked ((blocker ''pipeline_skipped'' ''checked-head pipeline is skipped'' url)\<lparr>mb_immediate_exception := True\<rparr>))
      else if status \<noteq> ''success''
      then Inl (MergeBlocked (blocker ''pipeline_pending'' (if status = [] then ''checked-head pipeline does not exist''
        else ''checked-head pipeline is '' @ status) url))
      else Inr ())"

definition unresolved :: "(string \<times> json) list \<Rightarrow> bool" where
  "unresolved note \<longleftrightarrow> truthy_json (get_json note ''resolvable'') \<and> \<not> truthy_json (get_json note ''resolved'')"

definition discussion_blocker :: "'w gitlab_env \<Rightarrow> (string \<times> json) list \<Rightarrow> (string \<times> json) list \<Rightarrow> ctl_error" where
  "discussion_blocker env mr note = (case author_of note of Inl e \<Rightarrow> e | Inr author \<Rightarrow>
     let base = or_empty env (get_json mr ''web_url'') in
     MergeBlocked ((blocker ''discussion_unresolved'' ''MR has unresolved blocking discussions''
       (if base \<noteq> [] \<and> get_json note ''id'' \<noteq> JNull
        then Some (base @ ''#note_'' @ json_text (ge_str env) (get_json note ''id'')) else or_text (Some base)))
       \<lparr>mb_owner := or_text (Some (or_empty env (get_json author ''username''))),
        mb_updated_at := or_text (Some (or_empty env (get_json note ''updated_at'')))\<rparr>))"

text \<open>\<open>discussion.get("notes", [])\<close>; what cannot be iterated raises TypeError.\<close>

definition notes_of :: "(string \<times> json) list \<Rightarrow> (string \<times> json) list list res" where
  "notes_of discussion = (case map_of discussion ''notes'' of
     None \<Rightarrow> Inr []
   | Some (JList xs) \<Rightarrow> Inr (objects_of xs)
   | Some (JStr _) \<Rightarrow> Inr []
   | Some (JObj _) \<Rightarrow> Inr []
   | Some _ \<Rightarrow> Inl (PyTypeError ''object is not iterable''))"

fun discussions_check :: "'w gitlab_env \<Rightarrow> (string \<times> json) list \<Rightarrow> (string \<times> json) list list \<Rightarrow> unit res" where
  "discussions_check env mr [] = Inr ()"
| "discussions_check env mr (d # ds) = (case notes_of d of Inl e \<Rightarrow> Inl e | Inr notes \<Rightarrow>
     (case find unresolved notes of Some note \<Rightarrow> Inl (discussion_blocker env mr note)
      | None \<Rightarrow> discussions_check env mr ds))"

definition mergeable :: "'w gitlab_env \<Rightarrow> (string \<times> json) list \<Rightarrow> unit res" where
  "mergeable env mr =
     (let detailed = get_json mr ''detailed_merge_status'';
          status = json_text (ge_str env) (if truthy_json detailed then detailed else get_json mr ''merge_status'')
      in if status \<in> {''mergeable'', ''can_be_merged''} then Inr ()
         else Inl (MergeBlocked (blocker (if status \<in> {''not_approved'', ''approvals_missing''} then ''approval_missing''
           else ''not_mergeable'') (''MR is not mergeable: '' @ status) (web_url env mr))))"

definition independent_gates ::
  "'w gitlab_env \<Rightarrow> RunRecord \<Rightarrow> CompletionMetadata \<Rightarrow> CompletionMetadata \<Rightarrow> ('w, unit) op" where
  "independent_gates env run test review =
     then_do (validate_gate env run test) (\<lambda>tester.
     then_do (validate_gate env run review) (\<lambda>reviewer.
       if tester = None \<or> reviewer = None then checked (Inl (ValueError ''test/code-review gate author is missing''))
       else if tester = reviewer
       then checked (Inl (ValueError ''test and code-review must be published by independent GitLab users''))
       else give ()))"

definition pipelines_endpoint :: "RunRecord \<Rightarrow> string \<Rightarrow> string" where
  "pipelines_endpoint run head = run_project run @ ''/pipelines?sha='' @ quote head @ ''&ref=''
     @ quote (wf_branch (rr_workspace run)) @ ''&order_by=id&sort=desc&per_page=1''"

definition validate_merge ::
  "'w gitlab_env \<Rightarrow> RunRecord \<Rightarrow> int \<Rightarrow> CompletionMetadata \<Rightarrow> CompletionMetadata \<Rightarrow>
   ('w, (string \<times> json) list \<times> string) op" where
  "validate_merge env run iid test review =
     then_do (fetch_mr env run (Some iid)) (\<lambda>mr.
       let head = or_empty env (get_json mr ''sha''); state = get_json mr ''state'' in
       if state = JStr ''merged'' then give (mr, head)
       else if state \<noteq> JStr ''opened'' then checked (Inl (MergeBlocked (blocker ''not_mergeable''
         (''delivery MR state is '' @ (if truthy_json state then json_text (ge_str env) state else ''unknown'')) (web_url env mr))))
       else if truthy_json (get_json mr ''draft'') \<or> truthy_json (get_json mr ''work_in_progress'')
       then checked (Inl (MergeBlocked (blocker ''draft'' ''delivery MR is still draft'' (web_url env mr))))
       else if head = [] \<or> cm_head_sha test \<noteq> Some head \<or> cm_head_sha review \<noteq> Some head
       then checked (Inl (ValueError ''test and code-review are not valid for current MR head''))
       else if cm_mr_iid test \<noteq> Some iid \<or> cm_mr_iid review \<noteq> Some iid
       then checked (Inl (ValueError ''test/code-review refer to another MR''))
       else then_do (independent_gates env run test review) (\<lambda>_.
         then_do (api_get env (pipelines_endpoint run head)) (\<lambda>pipelines. case pipelines of
           JList xs \<Rightarrow> then_do (checked (pipeline_check env run head xs)) (\<lambda>_.
             then_do (paginated_list env (mr_endpoint run (int_str iid) @ ''/discussions'')) (\<lambda>discussions.
             then_do (checked (discussions_check env mr discussions)) (\<lambda>_.
             then_do (checked (mergeable env mr)) (\<lambda>_. give (mr, head)))))
         | _ \<Rightarrow> checked (Inl (contract_error ''GitLab pipeline list is not an array'' ''pipelines'' ''invalid_pipeline_response'')))))"

definition submitted :: "bool \<Rightarrow> (string \<times> json) list \<Rightarrow> (string \<times> json) list" where
  "submitted b mr = AList.update CONTROLLER_MERGE_SUBMITTED_FIELD (JBool b) mr"

text \<open>The merge may have happened although its answer was lost: GitLab is read again.\<close>

definition merge_again :: "'w gitlab_env \<Rightarrow> RunRecord \<Rightarrow> int \<Rightarrow> string \<Rightarrow> ctl_error \<Rightarrow> ('w, (string \<times> json) list) op" where
  "merge_again env run iid head e =
     (if \<not> is_dependency_error e then checked (Inl e)
      else try_do (fetch_mr env run (Some iid)) (\<lambda>e'. checked (Inl (if is_dependency_error e' then e else e'))) (\<lambda>current.
        if current = [] then checked (Inl e)
        else if get_json current ''state'' = JStr ''merged''
        then if or_empty env (get_json current ''sha'') \<noteq> head
          then checked (Inl (CheckedHeadConflict ''merged MR head differs from checked head''))
          else give (submitted True current)
        else if or_empty env (get_json current ''sha'') \<noteq> head
        then checked (Inl (CheckedHeadConflict ''MR head changed during checked-head merge''))
        else checked (Inl e)))"

definition merge_result :: "'w gitlab_env \<Rightarrow> int \<Rightarrow> string \<Rightarrow> json \<Rightarrow> (string \<times> json) list res" where
  "merge_result env iid head result = (case result of
     JObj kvs \<Rightarrow> if get_json kvs ''state'' \<noteq> JStr ''merged''
       then Inl (contract_error ''GitLab did not confirm the checked-head merge'' ''merge_requests/merge'' ''merge_response_not_confirmed'')
       else if or_empty env (get_json kvs ''sha'') \<noteq> head
       then Inl (CheckedHeadConflict ''GitLab merged a different MR head than the checked head'')
       else (case or_zero env (get_json kvs ''iid'') of Inl e \<Rightarrow> Inl e | Inr n \<Rightarrow>
         if n \<noteq> iid then Inl (CheckedHeadConflict ''GitLab merged a different MR head than the checked head'')
         else Inr (submitted True kvs))
   | _ \<Rightarrow> Inl (contract_error ''GitLab did not confirm the checked-head merge'' ''merge_requests/merge'' ''merge_response_not_confirmed''))"

definition merge :: "'w gitlab_env \<Rightarrow> RunRecord \<Rightarrow> int \<Rightarrow> string \<Rightarrow> ('w, (string \<times> json) list) op" where
  "merge env run iid head =
     then_do (fetch_mr env run (Some iid)) (\<lambda>mr.
       if get_json mr ''state'' = JStr ''merged''
       then if or_empty env (get_json mr ''sha'') \<noteq> head
         then checked (Inl (CheckedHeadConflict ''merged MR head differs from checked head''))
         else give (submitted False mr)
       else try_do (api env (mr_endpoint run (int_str iid) @ ''/merge'') ''PUT'' [(''sha'', JStr head)])
         (merge_again env run iid head) (\<lambda>result. checked (merge_result env iid head result)))"

definition gitlab_health :: "'w gitlab_env \<Rightarrow> ('w, bool \<times> json \<times> json) op" where
  "gitlab_health env = then_do (api_get env ''user'') (\<lambda>user. give (case user of
     JObj kvs \<Rightarrow> (truthy_json (get_json kvs ''id''), get_json kvs ''id'', get_json kvs ''username'')
   | _ \<Rightarrow> (False, JNull, JNull)))"

end
