(* ===== verification/GitLab_Semantic.thy ===== *)
theory GitLab_Semantic
  imports GitLab_Merge
begin

text \<open>
  \<open>validate_semantic_gate\<close> of gitlab.py: the frozen documents of a gate, the requirements
  and contracts it names, and the notes it refers to.
\<close>

section \<open>References\<close>

fun gate_phase_value :: "GatePhase \<Rightarrow> string" where
  "gate_phase_value IMPLEMENTATION_ENTRY = ''implementation_entry''"
| "gate_phase_value IMPLEMENTATION_COMPLETION = ''implementation_completion''"
| "gate_phase_value MIGRATION_EXECUTION = ''migration_execution''"
| "gate_phase_value DEPLOYMENT_ENTRY = ''deployment_entry''"
| "gate_phase_value RELEASE_ACCEPTANCE = ''release_acceptance''"

fun decision_value :: "GateDecision \<Rightarrow> string" where
  "decision_value APPROVED = ''approved''"
| "decision_value REJECTED = ''rejected''"

definition reference_char :: "char \<Rightarrow> bool" where
  "reference_char c \<longleftrightarrow> is_word_char c \<or> c \<in> set ''.:/-''"

text \<open>\<open>b\<close> says whether a reference character comes before the text.\<close>

fun reference_after :: "bool \<Rightarrow> string \<Rightarrow> string \<Rightarrow> bool" where
  "reference_after b ref [] \<longleftrightarrow> \<not> b \<and> ref = []"
| "reference_after b ref (c # s) \<longleftrightarrow>
     (\<not> b \<and> starts_with ref (c # s) \<and> (case drop (length ref) (c # s) of [] \<Rightarrow> True | d # _ \<Rightarrow> \<not> reference_char d)) \<or>
     reference_after (reference_char c) ref s"

definition contains_reference :: "string \<Rightarrow> string \<Rightarrow> bool" where
  "contains_reference text ref = reference_after False ref text"

text \<open>\<open>id:([1-9][0-9]*)\<close>, and the numbers in the path and the fragment of a note's url.\<close>

definition number_after :: "string \<Rightarrow> string \<Rightarrow> int option" where
  "number_after prefix s = (if starts_with prefix s \<and> positive_number (drop (length prefix) s)
     then Some (int (digits_value (drop (length prefix) s))) else None)"

definition mr_of_path :: "string \<Rightarrow> string \<Rightarrow> int option" where
  "mr_of_path prefix path = number_after (prefix @ ''-/merge_requests/'')
     (if path \<noteq> [] \<and> last path = CHR ''/'' then butlast path else path)"

section \<open>The documents\<close>

definition document_text :: "'w gitlab_env \<Rightarrow> RunRecord \<Rightarrow> string \<Rightarrow> string \<Rightarrow> ('w, string) op" where
  "document_text env run ref path = then_do (gl_file env run path ref) (\<lambda>f.
     if truthy_json (get_json f ''encoding'') \<and> json_text (ge_str env) (get_json f ''encoding'') \<noteq> ''base64''
     then checked (Inl (ValueError (''unsupported GitLab file encoding for '' @ path)))
     else case ge_base64_text env (filter (\<lambda>c. \<not> is_space c) (or_empty env (get_json f ''content''))) of
       None \<Rightarrow> checked (Inl (ValueError (''semantic gate artifact is not valid UTF-8: '' @ path)))
     | Some t \<Rightarrow> give t)"

definition validate_task_graph :: "'w gitlab_env \<Rightarrow> string list \<Rightarrow> unit res" where
  "validate_task_graph env documents =
     (let result = validate_task_documents (\<lambda>_ _. []) [] (ge_task_blocks env documents) in
      if vr_passed result then Inr ()
      else Inl (ValueError (''TASKS_VALIDATION_FAILED:'' @ separated '','' (vr_error_codes result))))"

definition names_all :: "string \<Rightarrow> string \<Rightarrow> string list \<Rightarrow> unit res" where
  "names_all what text refs = (case find (\<lambda>r. \<not> contains_reference text r) refs of
     Some r \<Rightarrow> Inl (ValueError (''semantic gate '' @ what @ '' does not exist: '' @ r)) | None \<Rightarrow> Inr ())"

section \<open>The evidence\<close>

definition unsafe_url :: "'w gitlab_env \<Rightarrow> RunRecord \<Rightarrow> string \<Rightarrow> parsed_url \<Rightarrow> bool res" where
  "unsafe_url env run ref url =
     (let path = path_of (pu_path url); parts = (if is_absolute path then pp_comps path else tl (path_parts path));
          prefix = ''/'' @ pf_project_path (rr_project run) @ ''/'' in
      if pu_scheme url \<noteq> ''https'' \<or> pu_hostname url \<noteq> Some (pf_host (rr_project run)) \<or>
         truthy_str (pu_username url) \<or> truthy_str (pu_password url) then Inr True
      else map_sum id (\<lambda>port. port \<noteq> None \<or> ge_unquote env (pu_path url) \<noteq> pu_path url \<or>
        list_ex (\<lambda>part. part \<in> {[], ''.'', ''..''}) parts \<or> \<not> starts_with prefix (pu_path url)) (ge_port env ref))"

text \<open>The note is by the reviewer and its marker repeats the frozen identity.\<close>

definition note_confirms :: "'w gitlab_env \<Rightarrow> RunRecord \<Rightarrow> CompletionMetadata \<Rightarrow> GatePhase \<Rightarrow> int \<Rightarrow> (string \<times> json) list \<Rightarrow> bool res" where
  "note_confirms env run md phase reviewer note = (case get_json note ''author'' of
     JObj author \<Rightarrow> (case or_zero env (get_json author ''id'') of Inl e \<Rightarrow> Inl e | Inr n \<Rightarrow>
       if n \<noteq> reviewer then Inr False
       else (case SEMANTIC_GATE_RE (or_empty env (get_json note ''body'')) of
         Some [r, p, decision, artifact, digest] \<Rightarrow>
           if r \<noteq> rr_run_key run \<or> p \<noteq> gate_phase_value phase then Inr False
           else (case cm_gate_decision md of None \<Rightarrow> Inl (PyAttributeError ''value'')
             | Some d \<Rightarrow> Inr (decision = decision_value d \<and> Some artifact = cm_gate_artifact_commit_sha md \<and>
                 Some digest = cm_gate_artifact_digest md))
       | _ \<Rightarrow> Inr False))
   | _ \<Rightarrow> Inr False)"

definition check_note ::
  "'w gitlab_env \<Rightarrow> RunRecord \<Rightarrow> CompletionMetadata \<Rightarrow> GatePhase \<Rightarrow> int \<Rightarrow> int \<Rightarrow> int \<Rightarrow> ('w, bool) op" where
  "check_note env run md phase reviewer iid note_id =
     then_do (fetch_mr env run (Some iid)) (\<lambda>_.
     then_do (api_object env (notes_endpoint run (int_str iid) @ ''/'' @ int_str note_id) ''GET'' []) (\<lambda>note.
     then_do (checked (note_confirms env run md phase reviewer note)) (\<lambda>confirmed.
       if confirmed then give True
       else checked (Inl (ValueError ''semantic gate note author or frozen identity does not match'')))))"

definition url_evidence ::
  "'w gitlab_env \<Rightarrow> RunRecord \<Rightarrow> CompletionMetadata \<Rightarrow> GatePhase \<Rightarrow> int \<Rightarrow> string \<Rightarrow> parsed_url \<Rightarrow> ('w, bool) op" where
  "url_evidence env run md phase reviewer ref url =
     then_do (checked (unsafe_url env run ref url)) (\<lambda>unsafe.
       if unsafe then checked (Inl (ValueError ''semantic gate external evidence must be a validated project HTTPS reference''))
       else case (mr_of_path (''/'' @ pf_project_path (rr_project run) @ ''/'') (pu_path url), number_after ''note_'' (pu_fragment url)) of
         (Some iid, Some note_id) \<Rightarrow> check_note env run md phase reviewer iid note_id
       | _ \<Rightarrow> checked (Inl (ValueError ''semantic gate external evidence must reference an exact delivery MR note'')))"

definition path_evidence :: "'w gitlab_env \<Rightarrow> RunRecord \<Rightarrow> string \<Rightarrow> string \<Rightarrow> ('w, bool) op" where
  "path_evidence env run commit ref =
     (if is_absolute (path_of ref) \<or> ''..'' \<in> set (path_parts (path_of ref)) \<or> ref \<in> {[], ''.''}
      then checked (Inl (ValueError ''semantic gate evidence path is unsafe''))
      else then_do (gl_file env run ref commit) (\<lambda>_. give False))"

text \<open>The result is whether the reference is the reviewer's note.\<close>

definition check_evidence ::
  "'w gitlab_env \<Rightarrow> RunRecord \<Rightarrow> CompletionMetadata \<Rightarrow> GatePhase \<Rightarrow> string \<Rightarrow> int \<Rightarrow> string \<Rightarrow> ('w, bool) op" where
  "check_evidence env run md phase commit reviewer ref =
     then_do (checked (ge_urlparse env ref)) (\<lambda>url.
       if pu_scheme url \<noteq> [] then url_evidence env run md phase reviewer ref url else path_evidence env run commit ref)"

definition check_all_evidence ::
  "'w gitlab_env \<Rightarrow> RunRecord \<Rightarrow> CompletionMetadata \<Rightarrow> GatePhase \<Rightarrow> string \<Rightarrow> int \<Rightarrow> ('w, bool) op" where
  "check_all_evidence env run md phase commit reviewer = fold_do (\<lambda>ref found.
     then_do (check_evidence env run md phase commit reviewer ref) (\<lambda>here. give (here \<or> found)))
     (cm_gate_evidence_refs md) False"

section \<open>The gate\<close>

definition gate_documents :: "'w gitlab_env \<Rightarrow> RunRecord \<Rightarrow> CompletionMetadata \<Rightarrow> GatePhase \<Rightarrow> string \<Rightarrow> ('w, unit) op" where
  "gate_documents env run md phase ref =
     then_do (fold_do (\<lambda>path texts. then_do (document_text env run ref path) (\<lambda>t. give (texts @ [t])))
       (sort (cm_gate_artifact_paths md)) []) (\<lambda>documents.
     then_do (if phase = IMPLEMENTATION_ENTRY then checked (validate_task_graph env documents) else give ()) (\<lambda>_.
     then_do (checked (names_all ''requirement'' (separated [CHR 0x0A] documents) (cm_requirement_ids md))) (\<lambda>_.
     checked (names_all ''contract'' (separated [CHR 0x0A] documents) (cm_contract_refs md)))))"

definition reviewer_confirms :: "'w gitlab_env \<Rightarrow> RunRecord \<Rightarrow> CompletionMetadata \<Rightarrow> GatePhase \<Rightarrow> string \<Rightarrow> ('w, unit) op" where
  "reviewer_confirms env run md phase ref = (case number_after ''id:'' (case cm_gate_reviewer md of None \<Rightarrow> [] | Some r \<Rightarrow> r) of
     None \<Rightarrow> checked (Inl (ValueError ''semantic gate reviewer must use stable id:<numeric-id>''))
   | Some reviewer \<Rightarrow> then_do (check_all_evidence env run md phase ref reviewer) (\<lambda>confirmed.
       if confirmed then give ()
       else checked (Inl (ValueError ''semantic gate requires an authored delivery MR note reference''))))"

definition gitlab_semantic_gate :: "'w gitlab_env \<Rightarrow> RunRecord \<Rightarrow> CompletionMetadata \<Rightarrow> ('w, unit) op" where
  "gitlab_semantic_gate env run md = (case cm_gate_phase md of
     None \<Rightarrow> give ()
   | Some phase \<Rightarrow> (case (cm_gate_artifact_commit_sha md, cm_gate_artifact_digest md) of
       (Some ref, Some digest) \<Rightarrow>
         then_do (artifact_digest env run ref (cm_gate_artifact_paths md)) (\<lambda>found.
           if found \<noteq> digest then checked (Inl (ValueError ''semantic gate artifact digest drifted''))
           else then_do (gate_documents env run md phase ref) (\<lambda>_. reviewer_confirms env run md phase ref))
     | _ \<Rightarrow> checked (Inl (ValueError ''semantic gate is missing frozen artifact identity''))))"

end
