(* ===== verification/GitLab_Properties.thy ===== *)
theory GitLab_Properties
  imports GitLab_Semantic History_Properties
begin

text \<open>
  What the GitLab client promises: lists are read to their end, no error shows the
  token, a gate line is read back, an accepted gate is an authorised note at the
  delivery's head, and a merge is reported only of the head that was checked.
\<close>

section \<open>A small GitLab\<close>

text \<open>Answers an API request by what \<open>shown\<close> says of its verb and endpoint.\<close>

definition gitlab_showing :: "(string \<Rightarrow> json option) \<Rightarrow> unit gitlab_env" where
  "gitlab_showing shown = \<lparr>ge_config = sample_config\<lparr>cf_reviewer_identities := [(''code-review'', [''reviewer''])]\<rparr>,
     ge_hostname = ''h'', ge_base_url = ''https://h'', ge_token = (\<lambda>_. Inr ''secret''),
     ge_glab = (\<lambda>command w. (Completed 0 (command ! 6 @ '' '' @ command ! 2) [], w)),
     ge_git = (\<lambda>_ _ w. (Completed 0 [] [], w)), ge_git_command = ''git'', ge_is_dir = (\<lambda>_ _. True),
     ge_loads = shown, ge_str = (\<lambda>v. case v of JInt n \<Rightarrow> int_str n | _ \<Rightarrow> ''None''), ge_int = (\<lambda>_. None),
     ge_sha256 = (\<lambda>_. sample_digest), ge_base64_text = (\<lambda>t. Some t),
     ge_fromisoformat = (\<lambda>_. None), ge_isoformat = (\<lambda>_. []),
     ge_urlparse = (\<lambda>t. if starts_with ''https:'' t
       then Inr \<lparr>pu_scheme = ''https'', pu_hostname = Some ''h'', pu_username = None, pu_password = None, pu_port = None,
         pu_path = ''/g/p/-/merge_requests/7'', pu_query = [], pu_fragment = ''note_4''\<rparr>
       else Inr \<lparr>pu_scheme = [], pu_hostname = None, pu_username = None, pu_password = None, pu_port = None,
         pu_path = t, pu_query = [], pu_fragment = []\<rparr>),
     ge_http_url = Inr, ge_port = (\<lambda>_. Inr None), ge_unquote = (\<lambda>t. t), ge_task_blocks = (\<lambda>_. []), ge_pages = 2\<rparr>"

definition shown_mr :: "string \<Rightarrow> json" where
  "shown_mr state = JObj [(''iid'', JInt 7), (''state'', JStr state), (''source_branch'', JStr ''br''),
     (''target_branch'', JStr ''main''), (''web_url'', JStr ''u''), (''sha'', JStr sha_b)]"

section \<open>Lists\<close>

definition page_of :: "json list \<Rightarrow> nat \<Rightarrow> json list" where
  "page_of xs k = take 100 (drop (100 * (k - 1)) xs)"

lemma objects_of_append: "objects_of (xs @ ys) = objects_of xs @ objects_of ys"
  by (simp add: objects_of_def List.map_filter_def)

lemma page_split: "take (100 * k) xs @ page_of xs (Suc k) = take (100 * Suc k) xs"
proof -
  have "100 * Suc k = 100 * k + 100" by simp
  then show ?thesis by (simp only: take_add) (simp add: page_of_def)
qed

lemma list_pages_from:
  assumes "\<And>k w. W w \<Longrightarrow> 1 \<le> k \<Longrightarrow> k \<le> n \<Longrightarrow>
      \<exists>w'. api_get env (page_endpoint endpoint k) w = (Inr (JList (page_of xs k)), w') \<and> W w'"
    and "length xs < 100 * n" "k + fuel = n" "100 * k \<le> length xs" "W w"
  shows "\<exists>w'. list_pages env endpoint fuel (Suc k) (objects_of (take (100 * k) xs)) w = (Inr (objects_of xs), w') \<and> W w'"
  using assms(3-)
proof (induction fuel arbitrary: k w)
  case 0
  with assms(2) show ?case by simp
next
  case (Suc fuel)
  then obtain w' where page: "api_get env (page_endpoint endpoint (Suc k)) w = (Inr (JList (page_of xs (Suc k))), w')" "W w'"
    using assms(1) [of w "Suc k"] by auto
  have items: "objects_of (take (100 * k) xs) @ objects_of (page_of xs (Suc k)) = objects_of (take (100 * Suc k) xs)"
    by (simp only: objects_of_append [symmetric] page_split)
  have "length (page_of xs (Suc k)) = min 100 (length xs - 100 * k)" by (simp add: page_of_def)
  then show ?case
    using Suc.IH [of "Suc k" w'] Suc.prems page items by (auto simp: Let_def min_def split: if_splits)
qed

text \<open>
  C29. A list is read to its end: if GitLab answers every request for page \<open>k\<close> with the
  \<open>k\<close>-th hundred of a list, and the list has fewer pages than the bound, \<open>paginated_list\<close>
  stops and returns every object of the list, in order.
\<close>

theorem lists_are_read_to_the_end:
  assumes "\<And>k w. W w \<Longrightarrow> 1 \<le> k \<Longrightarrow> k \<le> ge_pages env \<Longrightarrow>
      \<exists>w'. api_get env (page_endpoint endpoint k) w = (Inr (JList (page_of xs k)), w') \<and> W w'"
    and "length xs < 100 * ge_pages env" "W w"
  shows "\<exists>w'. paginated_list env endpoint w = (Inr (objects_of xs), w') \<and> W w'"
  using list_pages_from [where W = W and k = 0, OF assms(1,2)] assms(3)
  by (simp add: paginated_list_def objects_of_def List.map_filter_def)

definition long_list :: "json list" where
  "long_list = map (\<lambda>n. JObj [(''id'', JInt (int n))]) [0..<101]"

definition listing_env :: "unit gitlab_env" where
  "listing_env = gitlab_showing (\<lambda>request.
     if request = ''GET '' @ page_endpoint ''n'' 1 then Some (JList (page_of long_list 1))
     else if request = ''GET '' @ page_endpoint ''n'' 2 then Some (JList (page_of long_list 2)) else None)"

text \<open>A list of 101 objects, in two pages.\<close>

theorem lists_are_read_to_the_end_witness:
  "fst (paginated_list listing_env ''n'' ()) = Inr (objects_of long_list) \<and> length (objects_of long_list) = 101"
proof
  have differ: "page_endpoint ''n'' 1 \<noteq> page_endpoint ''n'' 2" by code_simp
  have answers: "api_get listing_env (page_endpoint ''n'' k) () =
      (Inr (JList (page_of long_list k)), ())" if "k \<in> {1, 2}" for k
    using that differ by (auto simp: api_def run_glab_def listing_env_def gitlab_showing_def api_command_def then_do_def)
  have "\<exists>w'. paginated_list listing_env ''n'' () = (Inr (objects_of long_list), w') \<and> True"
  proof (rule lists_are_read_to_the_end)
    fix k and w :: unit
    assume "1 \<le> k" "k \<le> ge_pages listing_env"
    then have "k \<in> {1, 2}" by (auto simp: listing_env_def gitlab_showing_def)
    from answers [OF this] show "\<exists>w'. api_get listing_env (page_endpoint ''n'' k) w = (Inr (JList (page_of long_list k)), w') \<and> True"
      by simp
  qed (simp_all add: long_list_def listing_env_def gitlab_showing_def)
  then show "fst (paginated_list listing_env ''n'' ()) = Inr (objects_of long_list)" by auto
  show "length (objects_of long_list) = 101" by code_simp
qed

section \<open>The token\<close>

text \<open>A text cut into what was kept of it, between the substitutes.\<close>

lemma contains_str_iff: "contains_str p s \<longleftrightarrow> (\<exists>a b. s = a @ p @ b)"
proof (induction s)
  case Nil
  show ?case by auto
next
  case (Cons c s)
  have "starts_with p (c # s) \<longleftrightarrow> (\<exists>b. c # s = p @ b)"
    by (metis append_take_drop_id starts_with_def starts_with_append)
  moreover have "(\<exists>a b. s = a @ p @ b) \<longleftrightarrow> (\<exists>a b. a \<noteq> [] \<and> c # s = a @ p @ b)"
    by (metis append_Cons list.distinct(1) list.inject neq_Nil_conv)
  ultimately show ?case using Cons.IH by (metis append_Nil contains_str.simps(2))
qed

lemma starts_with_Cons: "starts_with (d # p) (c # s) \<longleftrightarrow> d = c \<and> starts_with p s"
  by (auto simp: starts_with_def)

lemma starts_before: "b \<notin> set p \<Longrightarrow> starts_with p (x @ b # y) \<Longrightarrow> starts_with p x"
proof (induction p arbitrary: x)
  case (Cons d p)
  then show ?case by (cases x) (auto simp: starts_with_Cons)
qed (simp add: starts_with_def)

lemma contains_around: "b \<notin> set p \<Longrightarrow> contains_str p (x @ b # y) \<Longrightarrow> contains_str p x \<or> contains_str p y"
proof (induction x)
  case Nil
  then show ?case by (cases p) (auto simp: starts_with_Cons)
next
  case (Cons c x)
  then show ?case using starts_before [of b p "c # x" y] by auto
qed

text \<open>What stands for a match is a beginning of it and the substitute.\<close>

definition redacting :: "(string \<Rightarrow> (nat \<times> string) option) \<Rightarrow> bool" where
  "redacting m \<longleftrightarrow> (\<forall>s n r. m s = Some (n, r) \<longrightarrow> (\<exists>kept rest. r = kept @ redacted \<and> s = kept @ rest))"

lemma redacting_matches: "redacting (match_token token)" "redacting match_authorization"
proof -
  show "redacting (match_token token)" by (auto simp: redacting_def match_token_def)
  have "\<exists>kept rest. r = kept @ redacted \<and> s = kept @ rest" if "match_authorization s = Some (n, r)" for s n r
  proof -
    from that obtain k where "r = take k s @ redacted"
      by (auto simp: match_authorization_def Let_def split: option.splits list.splits if_splits)
    then show ?thesis by (metis append_take_drop_id)
  qed
  then show "redacting match_authorization" unfolding redacting_def by blast
qed

definition plain_secret :: "string \<Rightarrow> bool" where
  "plain_secret p \<longleftrightarrow> p \<noteq> [] \<and> CHR ''['' \<notin> set p \<and> CHR '']'' \<notin> set p \<and> \<not> contains_str p ''REDACTED''"

lemma substitute_prefix:
  assumes "redacting m"
  shows "CHR ''['' \<notin> set p \<Longrightarrow> starts_with p (substitute m 0 s) \<Longrightarrow> starts_with p s"
proof (induction s arbitrary: p)
  case (Cons c s)
  show ?case
  proof (cases "m (c # s)")
    case None
    with Cons show ?thesis by (cases p) (auto simp: starts_with_Cons starts_with_def [of "[]"])
  next
    case (Some x)
    then obtain n r where m: "m (c # s) = Some (n, r)" by (cases x) auto
    with assms obtain kept rest where k: "r = kept @ redacted" "c # s = kept @ rest" unfolding redacting_def by blast
    have "substitute m 0 (c # s) = kept @ CHR ''['' # ''REDACTED]'' @ substitute m (n - 1) s"
      by (simp add: m k(1) redacted_def)
    with Cons.prems have "starts_with p kept" using starts_before by metis
    then show ?thesis unfolding k(2) by (auto simp: starts_with_def) (metis length_take min.cobounded1)
  qed
qed simp

lemma contains_redaction:
  assumes "plain_secret p" "contains_str p (kept @ redacted @ s)"
  shows "contains_str p kept \<or> contains_str p s"
proof -
  from assms have "contains_str p (kept @ CHR ''['' # (''REDACTED'' @ CHR '']'' # s))" by (simp add: redacted_def)
  with assms(1) contains_around [of "CHR ''[''" p kept] have "contains_str p kept \<or> contains_str p (''REDACTED'' @ CHR '']'' # s)"
    unfolding plain_secret_def by blast
  with assms(1) contains_around [of "CHR '']''" p "''REDACTED''" s] show ?thesis unfolding plain_secret_def by blast
qed

lemma substitute_hides:
  assumes "redacting m" "plain_secret p"
    and "\<And>c s. m (c # s) = None \<Longrightarrow> good (c # s) \<Longrightarrow> \<not> starts_with p (c # s)"
    and "\<And>s n kept. good s \<Longrightarrow> m s = Some (n, kept @ redacted) \<Longrightarrow> \<not> contains_str p kept"
    and "\<And>c s. good (c # s) \<Longrightarrow> good s"
  shows "good s \<Longrightarrow> \<not> contains_str p (substitute m k s)"
proof (induction s arbitrary: k)
  case Nil
  from assms(2) show ?case by (simp add: plain_secret_def)
next
  case (Cons c s)
  have IH: "\<not> contains_str p (substitute m k s)" for k using Cons assms(5) by blast
  show ?case
  proof (cases "k = 0 \<longrightarrow> m (c # s) = None")
    case True
    have "\<not> starts_with p (c # substitute m 0 s)" if none: "m (c # s) = None"
    proof
      assume "starts_with p (c # substitute m 0 s)"
      with assms(2) have "starts_with p (c # s)"
        by (cases p) (auto simp: plain_secret_def starts_with_Cons dest: substitute_prefix [OF assms(1)])
      with assms(3) none Cons.prems show False by blast
    qed
    with True IH show ?thesis by simp
  next
    case False
    then obtain n r where k: "k = 0" and m: "m (c # s) = Some (n, r)" by auto
    with assms(1) obtain kept rest where r: "r = kept @ redacted" "c # s = kept @ rest" unfolding redacting_def by blast
    have "\<not> contains_str p kept" using assms(4) Cons.prems m r(1) by blast
    with contains_redaction [OF assms(2)] IH k m r(1) show ?thesis by auto
  qed
qed

lemma contains_part: "contains_str p x \<Longrightarrow> contains_str p (a @ x @ b)"
  unfolding contains_str_iff by (metis append.assoc)

lemma redact_hides:
  assumes "plain_secret p"
  shows "\<not> contains_str p (redact (Inr p) text)"
proof -
  have hidden: "\<not> contains_str p (substitute (match_token p) 0 text)"
    by (rule substitute_hides [OF redacting_matches(1) assms, where good = "\<lambda>_. True"])
      (use assms in \<open>auto simp: match_token_def plain_secret_def split: if_splits\<close>)
  have "\<not> contains_str p kept"
    if "\<not> contains_str p s" "match_authorization s = Some (n, kept @ redacted)" for s n kept
  proof -
    from redacting_matches(2) that(2) obtain kept' rest where "kept @ redacted = kept' @ redacted" "s = kept' @ rest"
      unfolding redacting_def by blast
    then show ?thesis using that(1) contains_part [of p kept "[]" rest] by auto
  qed
  then have "\<not> contains_str p (substitute match_authorization 0 (substitute (match_token p) 0 text))"
    by (intro substitute_hides [OF redacting_matches(2) assms, where good = "\<lambda>s. \<not> contains_str p s"])
      (use hidden in auto)
  with assms show ?thesis by (simp add: redact_def plain_secret_def)
qed

lemma take_hides: "\<not> contains_str p s \<Longrightarrow> \<not> contains_str p (take n s)"
  using contains_part [of p "take n s" "[]" "drop n s"] by auto

lemma error_messages:
  "error_message (api_error env w endpoint out err) = take 1000 (redact (ge_token env w) (strip (failure_summary out err)))"
  "git_operation args \<in> remote_git \<Longrightarrow> error_message (git_error env w args out err) =
     take 1000 (redact (ge_token env w) (if err \<noteq> [] then err else if out \<noteq> [] then out else ''Git operation failed''))"
  by (cases "http_status (strip (failure_summary out err))")
    (simp_all only: api_error_def git_error_def Let_def if_distrib [of error_message] error_message.simps if_cancel
      option.case if_False not_not simp_thms)

text \<open>
  C10. The token stays hidden: whatever glab or git print when they fail, and even if they
  print the controller's GitLab token, the message of the error that is raised (and that
  is stored and sent to people) does not contain it. This needs a token without brackets
  that is no part of the substitute itself.
\<close>

theorem errors_hide_the_token:
  assumes "ge_token env w = Inr token" "plain_secret token" "git_operation args \<in> remote_git"
  shows "\<not> contains_str token (error_message (api_error env w endpoint out err)) \<and>
    \<not> contains_str token (error_message (git_error env w args out err))"
proof -
  have "\<not> contains_str token (take 1000 (redact (ge_token env w) x))" for x
    using take_hides redact_hides [OF assms(2)] assms(1) by simp
  then show ?thesis unfolding error_messages(1) error_messages(2) [OF assms(3)] by blast
qed

text \<open>The token is printed by both tools.\<close>

theorem errors_hide_the_token_witness:
  "error_message (api_error (gitlab_showing (\<lambda>_. None)) () ''user'' [] ''401 secret'') = ''401 [REDACTED]'' \<and>
   \<not> contains_str ''secret'' (error_message (git_error (gitlab_showing (\<lambda>_. None)) () [''push''] [] ''401 secret''))"
proof
  show "error_message (api_error (gitlab_showing (\<lambda>_. None)) () ''user'' [] ''401 secret'') = ''401 [REDACTED]''"
    by code_simp
  have "plain_secret ''secret''" by code_simp
  moreover have "ge_token (gitlab_showing (\<lambda>_. None)) () = Inr ''secret''" by (simp add: gitlab_showing_def)
  moreover have "git_operation [''push''] \<in> remote_git" by (simp add: git_operation_def remote_git_def)
  ultimately show "\<not> contains_str ''secret'' (error_message (git_error (gitlab_showing (\<lambda>_. None)) () [''push''] [] ''401 secret''))"
    using errors_hide_the_token [where env = "gitlab_showing (\<lambda>_. None)" and w = "()" and out = "[]" and err = "''401 secret''"]
    by blast
qed

section \<open>Gate lines\<close>

definition field_text_line :: "marker_field \<times> string \<Rightarrow> string" where
  "field_text_line fx = '' '' @ field_key (fst fx) @ ''='' @ snd fx"

definition fits_field :: "marker_field \<times> string \<Rightarrow> bool" where
  "fits_field fx \<longleftrightarrow> (case fx of (Text key ok, x) \<Rightarrow> key \<noteq> [] \<and> \<not> is_space (hd key) \<and> ok x \<and> list_all (\<lambda>c. \<not> is_space c) x
     | (Hex _ _, _) \<Rightarrow> False)"

definition ends_field :: "string \<Rightarrow> bool" where
  "ends_field s \<longleftrightarrow> s = [] \<or> is_space (hd s)"

lemma value_ends: "list_all (\<lambda>c. \<not> is_space c) x \<Longrightarrow> ends_field s \<Longrightarrow> takeWhile (\<lambda>c. \<not> is_space c) (x @ s) = x"
  by (cases s) (auto simp: ends_field_def list_all_iff takeWhile_append2)

lemma lines_end: "ends_field s \<Longrightarrow> ends_field (concat (map field_text_line fxs) @ s)"
  by (cases fxs) (simp_all add: field_text_line_def ends_field_def is_space_def)

lemma fields_round_trip:
  assumes "list_all fits_field fxs" "ends_field s"
  shows "read_fields (map fst fxs) (concat (map field_text_line fxs) @ s) = Some (map snd fxs)"
  using assms(1)
proof (induction fxs)
  case (Cons fx fxs)
  then obtain key ok x where fx: "fx = (Text key ok, x)" and key: "key \<noteq> []" "\<not> is_space (hd key)" "ok x"
    "list_all (\<lambda>c. \<not> is_space c) x" by (auto simp: fits_field_def split: prod.splits marker_field.splits)
  let ?rest = "concat (map field_text_line fxs) @ s"
  have "after_spaces (field_text_line fx @ ?rest) = Some ((key @ ''='') @ x @ ?rest)"
    using key by (cases key) (simp_all add: after_spaces_def field_text_line_def fx is_space_def [of "CHR '' ''"])
  moreover have "field_value (Text key ok) (x @ ?rest) = Some x"
    using value_ends [OF key(4) lines_end [OF assms(2)]] key(3) by (simp add: Let_def)
  moreover have "starts_with (key @ ''='') ((key @ ''='') @ x @ ?rest)" by (rule starts_with_append)
  ultimately show ?case using Cons by (simp add: fx Let_def)
qed simp

definition gate_line :: "string list \<Rightarrow> string" where
  "gate_line xs = ''HOLLYSYS-GATE:'' @ concat (map field_text_line (zip gate_fields (''5'' # xs)))"

lemma header_before_colon:
  assumes "starts_with ''HOLLYSYS-GATE:'' s"
  shows "takeWhile (\<lambda>c. c \<noteq> CHR '':'') s = ''HOLLYSYS-GATE''"
proof -
  from assms obtain r where "s = ''HOLLYSYS-GATE:'' @ r" unfolding starts_with_iff by blast
  then show ?thesis by simp
qed



section \<open>Accepted gates\<close>

text \<open>A note by an allowed reviewer of the stage whose marker says what the completion says.\<close>

definition authorised_note ::
  "'w gitlab_env \<Rightarrow> RunRecord \<Rightarrow> CompletionMetadata \<Rightarrow> string \<Rightarrow> (string \<times> json) list \<Rightarrow> bool" where
  "authorised_note env run md label note \<longleftrightarrow>
     GATE_RE (or_empty env (get_json note ''body'')) = Some (expected_marker run md) \<and>
     (\<exists>author. author_of note = Inr author \<and> label = author_label env author \<and>
       reviewers env (stage_value (cm_stage md)) \<inter> author_values env author \<noteq> {})"

text \<open>The notes of the merge request were listed and one of them is authorised.\<close>

definition saw_authorised_note ::
  "'w gitlab_env \<Rightarrow> RunRecord \<Rightarrow> CompletionMetadata \<Rightarrow> int \<Rightarrow> string \<Rightarrow> 'w \<Rightarrow> 'w \<Rightarrow> bool" where
  "saw_authorised_note env run md iid label s t \<longleftrightarrow>
     (\<exists>notes. paginated_list env (notes_endpoint run (int_str iid)) s = (Inr notes, t) \<and>
       (\<exists>note \<in> set notes. authorised_note env run md label note))"

text \<open>The merge request is the run's own; for code, its head is the one that was judged.\<close>

definition delivery_of :: "RunRecord \<Rightarrow> CompletionMetadata \<Rightarrow> (string \<times> json) list \<Rightarrow> bool" where
  "delivery_of run md mr \<longleftrightarrow>
     get_json mr ''source_branch'' = JStr (wf_branch (rr_workspace run)) \<and>
     get_json mr ''target_branch'' = JStr (wf_target_branch (rr_workspace run)) \<and>
     (case cm_head_sha md of Some h \<Rightarrow> cm_stage md \<in> review_stages \<or> get_json mr ''sha'' = JStr h | None \<Rightarrow>
       cm_stage md \<in> review_stages \<or> get_json mr ''sha'' = JNull)"

lemma gate_note_found:
  "gate_note env identities expected notes = Inr (Some label) \<Longrightarrow>
     \<exists>note \<in> set notes. GATE_RE (or_empty env (get_json note ''body'')) = Some expected \<and>
       (\<exists>author. author_of note = Inr author \<and> label = author_label env author \<and> identities \<inter> author_values env author \<noteq> {})"
  by (induction env identities expected "notes" rule: gate_note.induct)
    (auto split: option.splits sum.splits if_splits)

lemma gate_note_checked:
  assumes "validate_gate_note env run iid md s = (Inr label, t)"
  shows "saw_authorised_note env run md iid label s t"
proof -
  let ?reviewers = "reviewers env (stage_value (cm_stage md))"
  from assms obtain xs where listed: "paginated_list env (notes_endpoint run (int_str iid)) s = (Inr xs, t)"
    "gate_note env ?reviewers (expected_marker run md) xs = Inr (Some label)"
    unfolding validate_gate_note_def Let_def by (auto simp: ok_simps split: option.splits)
  with gate_note_found [OF listed(2)] show ?thesis
    unfolding saw_authorised_note_def authorised_note_def by blast
qed

lemma fetched:
  "fetch_mr env run iid s = (Inr mr, t) \<Longrightarrow> get_json mr ''source_branch'' = JStr (wf_branch (rr_workspace run)) \<and>
     get_json mr ''target_branch'' = JStr (wf_target_branch (rr_workspace run))"
  by (auto simp: fetch_mr_def ok_simps split: if_splits)


definition reviewed_md :: CompletionMetadata where
  "reviewed_md = sample_md CODE_REVIEW NORMAL PASS"

definition reviewed_gitlab :: "unit gitlab_env" where
  "reviewed_gitlab = gitlab_showing (\<lambda>request.
     if request = ''GET '' @ mr_endpoint sample_run ''7'' then Some (shown_mr ''opened'')
     else if request = ''GET '' @ page_endpoint (notes_endpoint sample_run ''7'') 1 then Some (JList
       [JObj [(''id'', JInt 3), (''body'', JStr ''a comment''), (''author'', JNull)],
        JObj [(''id'', JInt 4), (''body'', JStr (gate_line (expected_marker sample_run reviewed_md))),
          (''author'', JObj [(''id'', JInt 5), (''username'', JStr ''reviewer'')])]])
     else None)"


section \<open>Semantic gates\<close>

text \<open>
  A note of the run's merge request, by the person of this number, whose marker repeats
  run, phase, decision, commit and digest of the completion.
\<close>

definition confirming_note ::
  "'w gitlab_env \<Rightarrow> RunRecord \<Rightarrow> CompletionMetadata \<Rightarrow> GatePhase \<Rightarrow> int \<Rightarrow> (string \<times> json) list \<Rightarrow> bool" where
  "confirming_note env run md phase reviewer note \<longleftrightarrow> (\<exists>author decision commit digest.
     get_json note ''author'' = JObj author \<and> or_zero env (get_json author ''id'') = Inr reviewer \<and>
     cm_gate_decision md = Some decision \<and> cm_gate_artifact_commit_sha md = Some commit \<and>
     cm_gate_artifact_digest md = Some digest \<and>
     SEMANTIC_GATE_RE (or_empty env (get_json note ''body'')) =
       Some [rr_run_key run, gate_phase_value phase, decision_value decision, commit, digest])"

lemma note_confirms_iff:
  "note_confirms env run md phase reviewer note = Inr True \<Longrightarrow> confirming_note env run md phase reviewer note"
  by (auto simp: note_confirms_def confirming_note_def split: json.splits sum.splits list.splits option.splits if_splits)

lemma evidence_confirms:
  assumes "check_evidence env run md phase commit reviewer ref s = (Inr True, t)"
  shows "\<exists>iid note_id mr note u v. fetch_mr env run (Some iid) u = (Inr mr, v) \<and>
    api_object env (notes_endpoint run (int_str iid) @ ''/'' @ int_str note_id) ''GET'' [] v = (Inr note, t) \<and>
    confirming_note env run md phase reviewer note"
proof -
  from assms obtain url where "(if pu_scheme url \<noteq> [] then url_evidence env run md phase reviewer ref url
      else path_evidence env run commit ref) s = (Inr True, t)"
    unfolding check_evidence_def ok_simps by blast
  moreover have "path_evidence env run commit ref s \<noteq> (Inr True, t)"
    by (auto simp: path_evidence_def ok_simps)
  ultimately have "url_evidence env run md phase reviewer ref url s = (Inr True, t)" by (simp split: if_splits)
  then obtain iid note_id u where "check_note env run md phase reviewer iid note_id u = (Inr True, t)"
    by (cases "mr_of_path (''/'' @ pf_project_path (rr_project run) @ ''/'') (pu_path url)";
        cases "number_after ''note_'' (pu_fragment url)")
      (auto simp: url_evidence_def ok_simps)
  then obtain mr v x where "fetch_mr env run (Some iid) u = (Inr mr, v)"
    "api_object env (notes_endpoint run (int_str iid) @ ''/'' @ int_str note_id) ''GET'' [] v = (Inr x, t)"
    "note_confirms env run md phase reviewer x = Inr True"
    unfolding check_note_def ok_simps by auto
  with note_confirms_iff show ?thesis by blast
qed

lemma all_evidence_confirms:
  assumes "check_all_evidence env run md phase commit reviewer s = (Inr True, t)"
  shows "\<exists>ref \<in> set (cm_gate_evidence_refs md). \<exists>u v. check_evidence env run md phase commit reviewer ref u = (Inr True, v)"
proof -
  let ?I = "\<lambda>found w. found \<longrightarrow> (\<exists>ref \<in> set (cm_gate_evidence_refs md). \<exists>u v.
    check_evidence env run md phase commit reviewer ref u = (Inr True, v))"
  have "?I True t"
    using assms unfolding check_all_evidence_def
    by (rule fold_do_inv [where I = ?I]) (force simp: ok_simps)+
  then show ?thesis by simp
qed

text \<open>
  C9. A semantic gate is confirmed: when \<open>gitlab_semantic_gate\<close> accepts a completion with a
  gate phase, the digest of the frozen artifacts at the named commit was computed and is the
  named one; the reviewer is named by number; and one of the evidence references led to a note
  of the run's own merge request by that reviewer, whose marker repeats run, phase, decision,
  commit and digest.
\<close>

theorem semantic_gate_is_confirmed:
  assumes "gitlab_semantic_gate env run md s = (Inr (), t)" "cm_gate_phase md = Some phase"
  shows "\<exists>commit digest reviewer. cm_gate_artifact_commit_sha md = Some commit \<and> cm_gate_artifact_digest md = Some digest \<and>
    (\<exists>u v. artifact_digest env run commit (cm_gate_artifact_paths md) u = (Inr digest, v)) \<and>
    map_option (number_after ''id:'') (cm_gate_reviewer md) = Some (Some reviewer) \<and>
    (\<exists>iid note_id mr note u v w. fetch_mr env run (Some iid) u = (Inr mr, v) \<and>
      api_object env (notes_endpoint run (int_str iid) @ ''/'' @ int_str note_id) ''GET'' [] v = (Inr note, w) \<and>
      confirming_note env run md phase reviewer note)"
proof -
  have "cm_gate_artifact_commit_sha md \<noteq> None" "cm_gate_artifact_digest md \<noteq> None"
    using assms unfolding gitlab_semantic_gate_def by (auto simp: pure_ok split: option.splits)
  then obtain commit digest where cd: "cm_gate_artifact_commit_sha md = Some commit" "cm_gate_artifact_digest md = Some digest"
    by blast
  from assms cd obtain v where digest: "artifact_digest env run commit (cm_gate_artifact_paths md) s = (Inr digest, v)"
    and "\<exists>w. reviewer_confirms env run md phase commit w = (Inr (), t)"
    unfolding gitlab_semantic_gate_def reviewer_confirms_def by (auto simp: then_do_ok pure_ok split: if_splits)
  then obtain w where rest: "reviewer_confirms env run md phase commit w = (Inr (), t)" by blast
  from rest obtain reviewer where reviewer: "number_after ''id:'' (case cm_gate_reviewer md of None \<Rightarrow> [] | Some r \<Rightarrow> r) = Some reviewer"
    and all: "check_all_evidence env run md phase commit reviewer w = (Inr True, t)"
    unfolding reviewer_confirms_def by (auto simp: then_do_ok pure_ok split: option.splits if_splits)
  have "number_after ''id:'' [] = None" by (simp add: number_after_def starts_with_def)
  with reviewer have "map_option (number_after ''id:'') (cm_gate_reviewer md) = Some (Some reviewer)"
    by (cases "cm_gate_reviewer md") auto
  moreover from all_evidence_confirms [OF all] obtain ref a b
    where "check_evidence env run md phase commit reviewer ref a = (Inr True, b)" by blast
  from evidence_confirms [OF this] obtain iid note_id mr x u' v'
    where "fetch_mr env run (Some iid) u' = (Inr mr, v')"
      "api_object env (notes_endpoint run (int_str iid) @ ''/'' @ int_str note_id) ''GET'' [] v' = (Inr x, b)"
      "confirming_note env run md phase reviewer x" by blast
  ultimately show ?thesis using cd digest by blast
qed

definition gated_md :: CompletionMetadata where
  "gated_md = (sample_md CODE_REVIEW NORMAL PASS)\<lparr>cm_gate_reviewer := Some ''id:5'', cm_gate_evidence_refs := [''https:''],
     cm_contract_refs := [''C1''], cm_requirement_ids := [''R1'']\<rparr>"

definition semantic_line :: string where
  "semantic_line = ''HOLLYSYS-SEMANTIC-GATE: v=1 run=hollysys-1 phase=implementation_completion decision=approved artifact=''
     @ sha_b @ '' digest='' @ sample_digest"

definition gated_gitlab :: "unit gitlab_env" where
  "gated_gitlab = gitlab_showing (\<lambda>request.
     if request = ''GET '' @ mr_endpoint sample_run ''7'' then Some (shown_mr ''opened'')
     else if request = ''GET '' @ notes_endpoint sample_run ''7'' @ ''/4'' then Some
       (JObj [(''body'', JStr semantic_line), (''author'', JObj [(''id'', JInt 5)])])
     else Some (JObj [(''blob_id'', JStr ''b''), (''content'', JStr ''R1,C1'')]))"

text \<open>An implementation is approved in a note of its merge request.\<close>

theorem semantic_gate_is_confirmed_witness:
  "\<exists>reviewer note. map_option (number_after ''id:'') (cm_gate_reviewer gated_md) = Some (Some reviewer) \<and>
     confirming_note gated_gitlab sample_run gated_md IMPLEMENTATION_COMPLETION reviewer note"
proof -
  have "gitlab_semantic_gate gated_gitlab sample_run gated_md () = (Inr (), ())" by code_simp
  moreover have "cm_gate_phase gated_md = Some IMPLEMENTATION_COMPLETION" by code_simp
  ultimately have "\<exists>commit digest reviewer. cm_gate_artifact_commit_sha gated_md = Some commit \<and>
      cm_gate_artifact_digest gated_md = Some digest \<and>
      (\<exists>u v. artifact_digest gated_gitlab sample_run commit (cm_gate_artifact_paths gated_md) u = (Inr digest, v)) \<and>
      map_option (number_after ''id:'') (cm_gate_reviewer gated_md) = Some (Some reviewer) \<and>
      (\<exists>iid note_id mr note u v w. fetch_mr gated_gitlab sample_run (Some iid) u = (Inr mr, v) \<and>
        api_object gated_gitlab (notes_endpoint sample_run (int_str iid) @ ''/'' @ int_str note_id) ''GET'' [] v = (Inr note, w) \<and>
        confirming_note gated_gitlab sample_run gated_md IMPLEMENTATION_COMPLETION reviewer note)"
    by (rule semantic_gate_is_confirmed)
  then show ?thesis by blast
qed

section \<open>The merge\<close>

lemma get_submitted: "k \<noteq> CONTROLLER_MERGE_SUBMITTED_FIELD \<Longrightarrow> get_json (submitted b mr) k = get_json mr k"
  by (simp add: submitted_def get_json_def update_conv')

text \<open>
  A merge is reported only of the checked head: whatever the answers of GitLab, lost
  ones included, a merge that returns gives a merge request that is merged with the head
  that was checked.
\<close>

theorem merge_reports_the_checked_head:
  assumes "merge env run iid head s = (Inr mr, t)"
  shows "get_json mr ''state'' = JStr ''merged'' \<and> or_empty env (get_json mr ''sha'') = head"
proof -
  have keys: "''state'' \<noteq> CONTROLLER_MERGE_SUBMITTED_FIELD" "''sha'' \<noteq> CONTROLLER_MERGE_SUBMITTED_FIELD"
    by (simp_all add: CONTROLLER_MERGE_SUBMITTED_FIELD_def)
  have again: "get_json mr ''state'' = JStr ''merged'' \<and> or_empty env (get_json mr ''sha'') = head"
    if "merge_again env run iid head e u = (Inr mr, t)" for e u
    using that keys unfolding merge_again_def by (auto simp: ok_simps try_do_ok get_submitted split: if_splits)
  have result: "get_json mr ''state'' = JStr ''merged'' \<and> or_empty env (get_json mr ''sha'') = head"
    if "merge_result env iid head v = Inr mr" for v
    using that keys unfolding merge_result_def by (auto simp: get_submitted split: json.splits if_splits sum.splits)
  from assms obtain x u where r: "(if get_json x ''state'' = JStr ''merged''
       then if or_empty env (get_json x ''sha'') \<noteq> head
         then checked (Inl (CheckedHeadConflict ''merged MR head differs from checked head'')) else give (submitted False x)
       else try_do (api env (mr_endpoint run (int_str iid) @ ''/merge'') ''PUT'' [(''sha'', JStr head)])
         (merge_again env run iid head) (\<lambda>result. checked (merge_result env iid head result))) u = (Inr mr, t)"
    unfolding merge_def then_do_ok by blast
  show ?thesis
  proof (cases "get_json x ''state'' = JStr ''merged''")
    case True
    with r keys show ?thesis by (auto simp: ok_simps get_submitted split: if_splits)
  next
    case False
    from r [unfolded if_not_P [OF False]] show ?thesis by (auto simp: try_do_ok ok_simps dest: again result)
  qed
qed

lemma returned_value: "map_sum id (\<lambda>_. ()) (fst x) = Inr () \<Longrightarrow> \<exists>v. x = (Inr v, ())"
  by (cases x; cases "fst x") auto

text \<open>An open merge request is merged.\<close>

definition merging_gitlab :: "unit gitlab_env" where
  "merging_gitlab = gitlab_showing (\<lambda>request.
     if request = ''GET '' @ mr_endpoint sample_run ''7'' then Some (shown_mr ''opened'')
     else if request = ''PUT '' @ mr_endpoint sample_run ''7'' @ ''/merge'' then Some (shown_mr ''merged'') else None)"

theorem merge_reports_the_checked_head_witness:
  "\<exists>mr. merge merging_gitlab sample_run 7 sha_b () = (Inr mr, ()) \<and> get_json mr ''state'' = JStr ''merged''"
proof -
  have "map_sum id (\<lambda>_. ()) (fst (merge merging_gitlab sample_run 7 sha_b ())) = Inr ()" by code_simp
  then obtain mr where mr: "merge merging_gitlab sample_run 7 sha_b () = (Inr mr, ())" by (blast dest: returned_value)
  from merge_reports_the_checked_head [OF mr] mr show ?thesis by blast
qed

section \<open>The abort\<close>

text \<open>
  C37. An aborted delivery is settled: \<open>abort_delivery\<close> returns only with no merge request at
  all, or with one that GitLab said is closed or merged.
\<close>

theorem aborted_delivery_is_settled:
  assumes "abort_delivery env run iid who reason s = (Inr mr, t)"
  shows "get_json mr ''state'' \<in> {JStr ''closed'', JStr ''merged''} \<or> iid = None \<and> get_json mr ''state'' = JStr ''absent''"
proof -
  have closed: "get_json mr ''state'' \<in> {JStr ''closed'', JStr ''merged''}" if "close_mr env run n u = (Inr mr, t)" for n u
    using that unfolding close_mr_def Let_def by (auto simp: ok_simps split: if_splits)
  from assms show ?thesis
    unfolding abort_delivery_def by (auto simp: ok_simps get_json_def split: if_splits dest: closed)
qed

text \<open>An open merge request is closed.\<close>

definition closing_gitlab :: "unit gitlab_env" where
  "closing_gitlab = gitlab_showing (\<lambda>request.
     if request = ''GET '' @ mr_endpoint sample_run ''7'' then Some (shown_mr ''opened'')
     else if request = ''PUT '' @ mr_endpoint sample_run ''7'' then Some (shown_mr ''closed'')
     else if request = ''POST '' @ notes_endpoint sample_run ''7'' then Some (JObj [])
     else if request = ''GET '' @ page_endpoint (notes_endpoint sample_run ''7'') 1 then Some (JList []) else None)"

theorem aborted_delivery_is_settled_witness:
  "\<exists>mr. abort_delivery closing_gitlab sample_run (Some 7) ''ou_1'' ''stop'' () = (Inr mr, ()) \<and>
     get_json mr ''state'' \<in> {JStr ''closed'', JStr ''merged''}"
proof -
  let ?done = "abort_delivery closing_gitlab sample_run (Some 7) ''ou_1'' ''stop'' ()"
  have "map_sum id (\<lambda>_. ()) (fst ?done) = Inr ()" by code_simp
  then obtain mr where mr: "?done = (Inr mr, ())" by (blast dest: returned_value)
  from aborted_delivery_is_settled [OF mr] mr show ?thesis by auto
qed

end
