(* ===== verification/Flow_Stable.thy ===== *)
theory Flow_Stable
  imports Reconcile_Run Kanban_Properties Run_Machine
begin

text \<open>
  Which handlers leave a run out of a given terminal state, whatever boards, GitLab,
  workers and other threads do in between as long as they do not put it there.
\<close>

section \<open>More stable operations\<close>

lemma stable_read [stable_intros]: "stable P (read_state f)" "stable P (\<lambda>s. (g s, s))"
  by (simp_all add: stable_def keeps_def)

lemma stable_let [stable_intros]: "stable P (f a) \<Longrightarrow> stable P (Let a f)"
  by simp

lemma stable_prod [stable_intros]: "(\<And>a b. x = (a, b) \<Longrightarrow> stable P (f a b)) \<Longrightarrow> stable P (case x of (a, b) \<Rightarrow> f a b)"
  by (cases x) simp

lemma stable_quietly [stable_intros]: "stable P m \<Longrightarrow> stable P (quietly m)"
  by (simp add: stable_def keeps_def quietly_def)

lemma stable_ignore [stable_intros]: "stable P m \<Longrightarrow> stable P (ignore_result m)"
  unfolding ignore_result_def by (intro stable_intros)

lemma stable_timed [stable_intros]: "(\<And>now. stable P (f now)) \<Longrightarrow> stable P (timed env f)"
  by (simp add: stable_def keeps_def timed_def)

lemma stable_cleanup [stable_intros]: "stable P m \<Longrightarrow> stable P c \<Longrightarrow> stable P (or_cleanup m c)"
  unfolding or_cleanup_def by (intro stable_intros)

text \<open>What is known of the value an operation gave.\<close>

lemma stable_then_known:
  assumes "stable P m" "\<And>v. \<exists>s t. m s = (Inr v, t) \<Longrightarrow> stable P (f v)"
  shows "stable P (then_do m f)"
proof (rule stableI)
  fix s assume s: "P s"
  obtain r t where m: "m s = (r, t)" by fastforce
  have t: "P t" using stableD [OF assms(1) s] m by simp
  show "P (snd (then_do m f s))"
  proof (cases r)
    case (Inl e) with m t show ?thesis by simp
  next
    case (Inr v)
    then have "stable P (f v)" using m assms(2) by blast
    from stableD [OF this t] show ?thesis using m Inr by simp
  qed
qed

lemma stable_try_known:
  assumes "stable P m" "\<And>e. stable P (h e)" "\<And>v. \<exists>s t. m s = (Inr v, t) \<Longrightarrow> stable P (f v)"
  shows "stable P (try_do m h f)"
proof (rule stableI)
  fix s assume s: "P s"
  obtain r t where m: "m s = (r, t)" by fastforce
  have t: "P t" using stableD [OF assms(1) s] m by simp
  show "P (snd (try_do m h f s))"
  proof (cases r)
    case (Inl e) with m stableD [OF assms(2) t] show ?thesis by (simp add: try_do_def)
  next
    case (Inr v)
    then have "stable P (f v)" using m assms(3) by blast
    from stableD [OF this t] show ?thesis using m Inr by (simp add: try_do_def)
  qed
qed

lemma stable_or: "stable P m \<Longrightarrow> stable (\<lambda>s. E \<or> P s) m"
  by (auto simp: stable_def keeps_def)

section \<open>What the control tables keep\<close>

text \<open>
  \<open>R\<close> holds of the control tables, unless the outside world carries the mark \<open>E\<close> of
  something that has happened.
\<close>

definition unless :: "('w \<Rightarrow> bool) \<Rightarrow> (control_db \<Rightarrow> bool) \<Rightarrow> 'w shared \<Rightarrow> bool" where
  "unless E R s \<longleftrightarrow> E (si_outside (snd s)) \<or> R (fst s)"

lemma stable_parts [stable_intros]:
  "stable (unless E R) (on_cards m1)" "stable (unless E R) (on_queue m2)"
  "stable (unless E R) (on_admin m3)" "stable (unless E R) (on_guards m4)"
  by (simp_all add: stable_def keeps_def unless_def on_cards_def on_queue_def on_admin_def on_guards_def on_part_def
      split: prod.splits)

lemma stable_on_ctl:
  assumes "\<And>c. R c \<Longrightarrow> R (snd (m c))"
  shows "stable (unless E R) (on_ctl m)"
proof (rule stableI)
  fix s
  assume "unless E R s"
  with assms [of "fst s"] show "unless E R (snd (on_ctl m s))"
    by (auto simp: unless_def on_ctl_def on_part_def split: prod.splits)
qed

lemma stable_on_service:
  assumes "stable (\<lambda>d. R (sd_control d)) m"
  shows "stable (unless E R) (on_service m)"
proof (rule stableI)
  fix s
  assume s: "unless E R s"
  show "unless E R (snd (on_service m s))"
    using s stableD [OF assms, of "\<lparr>sd_control = fst s, sd_outages = si_outages (snd s), sd_outbox = si_outbox (snd s),
      sd_last_reconcile_error = si_last_reconcile_error (snd s)\<rparr>"]
    by (auto simp: unless_def on_service_def on_part_def split: prod.splits)
qed

text \<open>Predicates that only a transition into a terminal state can break.\<close>

definition passing :: "(control_db \<Rightarrow> bool) \<Rightarrow> bool" where
  "passing R \<longleftrightarrow>
     (\<forall>now j a c. ta_new_state a \<notin> set TERMINAL_RUN_STATES \<longrightarrow> R c \<longrightarrow> R (snd (transition_run now j a c))) \<and>
     (\<forall>j c. R c \<longrightarrow> R (snd (clear_merge_wait j c))) \<and>
     (\<forall>now j iid head b secs c. R c \<longrightarrow> R (snd (set_merge_wait now j iid head b secs c))) \<and>
     (\<forall>now j c. R c \<longrightarrow> R (snd (mark_aborting now j c)))"

lemma passing_ctl [stable_intros]:
  assumes "passing R"
  shows "ta_new_state a \<notin> set TERMINAL_RUN_STATES \<Longrightarrow> stable (unless E R) (on_ctl (transition_run now j a))"
    "stable (unless E R) (on_ctl (clear_merge_wait j))"
    "stable (unless E R) (on_ctl (set_merge_wait now j iid head b secs))"
    "stable (unless E R) (on_ctl (mark_aborting now j))"
    "stable (unless E R) (on_ctl (set_run_exception now j reason))"
proof -
  have "''exception'' \<notin> set TERMINAL_RUN_STATES" by (simp add: TERMINAL_RUN_STATES_def)
  then show "stable (unless E R) (on_ctl (set_run_exception now j reason))"
    using set_run_exception_state [of now j reason] assms
    by (intro stable_on_ctl) (metis exception_args_def passing_def transition_args.select_convs(2))
qed (use assms in \<open>auto simp: passing_def intro!: stable_on_ctl\<close>)

lemma passing_never [simp]: "passing (\<lambda>_. False)"
  by (simp add: passing_def)

section \<open>A run that has not reached a state\<close>

definition away :: "string \<Rightarrow> string \<Rightarrow> control_db \<Rightarrow> bool" where
  "away st k c \<longleftrightarrow> (\<forall>r \<in> set (run_control_tbl c). rc_run_key r = k \<longrightarrow> rc_state r \<noteq> st)"

lemma away_update:
  assumes "away st k c" "run_control_tbl c' = update_where p f (run_control_tbl c)"
    and "\<And>r. p r \<Longrightarrow> rc_run_key (f r) = k \<Longrightarrow> rc_state (f r) = st \<Longrightarrow> rc_run_key r = k \<and> rc_state r = st"
  shows "away st k c'"
  using assms by (fastforce simp: away_def table_simps split: if_splits)

lemma away_transition:
  assumes "away st k c" "ta_new_state a \<noteq> st \<or> j \<noteq> k"
  shows "away st k (snd (transition_run now j a c))"
proof -
  have written: "away st k (snd (transition_write now j a version c))" for version
    by (rule away_update [OF assms(1), of _ "\<lambda>r. rc_run_key r = j \<and> rc_state_version r = version"])
      (use assms(2) in \<open>auto simp: transition_write_def apply_transition_def Let_def split: option.splits\<close>)
  have "snd (transition_run now j a c) = c \<or> (\<exists>v. snd (transition_run now j a c) = snd (transition_write now j a v c))"
    unfolding transition_run_def transition_body_def connect_def
    by (auto split: prod.splits sum.splits option.splits if_splits) (metis snd_conv)+
  with written assms show ?thesis by auto
qed

lemma passing_away: "st \<in> set TERMINAL_RUN_STATES \<Longrightarrow> passing (away st k)"
proof -
  assume st: "st \<in> set TERMINAL_RUN_STATES"
  then have "st \<noteq> ''aborting''" by (auto simp: TERMINAL_RUN_STATES_def)
  then have "away st k (snd (mark_aborting now j c))" if "away st k c" for now j c
    by (intro away_update [OF that, of _ "\<lambda>r. rc_run_key r = j \<and> rc_state r = ''abort_requested''"])
      (auto simp: mark_aborting_def)
  moreover have "away st k (snd (clear_merge_wait j c)) = away st k c"
    "away st k (snd (set_merge_wait now j iid head b secs c)) = away st k c" for now j iid head b secs c
    by (simp_all add: away_def clear_merge_wait_def set_merge_wait_def Let_def)
  moreover have "ta_new_state a \<noteq> st" if "ta_new_state a \<notin> set TERMINAL_RUN_STATES" for a
    using st that by auto
  ultimately show ?thesis unfolding passing_def using away_transition by blast
qed

text \<open>The operations that commit a terminal state.\<close>

lemma away_finish_abort:
  assumes "away st k c" "st \<noteq> state \<or> j \<noteq> k"
  shows "away st k (snd (finish_abort now j state head sha c))"
proof (cases "snd (finish_abort now j state head sha c) = c")
  case True
  with assms show ?thesis by simp
next
  case False
  then have "run_control_tbl (snd (finish_abort now j state head sha c)) =
      update_where (\<lambda>r. rc_run_key r = j \<and> rc_state r \<in> set abort_states)
        (apply_finish_abort now state head sha) (run_control_tbl c)"
    by (auto simp: finish_abort_def Let_def split: if_splits option.splits)
  from away_update [OF assms(1) this] assms(2) show ?thesis by (auto simp: apply_finish_abort_def)
qed

lemma away_commits:
  assumes "away st k c"
  shows "st \<noteq> ''completed'' \<or> j \<noteq> k \<Longrightarrow> away st k (snd (mark_completed now j x compliance head sha reason c))"
    "st \<noteq> state \<or> j \<noteq> k \<Longrightarrow> away st k (snd (mark_flow_completed now j state head' reason c))"
  using mark_completed_state [of now j x compliance head sha reason c]
    mark_flow_completed_state [of now j state head' reason c] away_transition [OF assms, of _ j now] assms
  by (metis completed_args_def transition_args.select_convs(2), metis flow_args_def transition_args.select_convs(2))

lemma stable_commits:
  "R = (\<lambda>_. False) \<or> R = away st k \<and> (st \<noteq> state \<or> j \<noteq> k) \<Longrightarrow>
    stable (unless E R) (on_ctl (finish_abort now j state head sha))"
  "R = (\<lambda>_. False) \<or> R = away st k \<and> (st \<noteq> ''completed'' \<or> j \<noteq> k) \<Longrightarrow>
    stable (unless E R) (on_ctl (mark_completed now j x compliance head' sha reason))"
  "R = (\<lambda>_. False) \<or> R = away st k \<and> (st \<noteq> state \<or> j \<noteq> k) \<Longrightarrow>
    stable (unless E R) (on_ctl (mark_flow_completed now j state head'' reason))"
  by (auto intro!: stable_on_ctl away_finish_abort away_commits)

end
