(* ===== verification/Quiet.thy ===== *)
theory Quiet
  imports Flow_Stable
begin

text \<open>
  What reconciliation leaves alone when the programs around it do: boards, Hermes, the
  worker supervisor, GitLab, the file system and every other thread may change the
  world, but no call to one of them breaks \<open>P\<close>. No handler but the ones that commit a
  terminal state then breaks \<open>P\<close>, where \<open>P\<close> says that a run has not reached that state.
\<close>

section \<open>The programs around the controller\<close>

definition calm :: "('s \<Rightarrow> bool) \<Rightarrow> ('s \<Rightarrow> 'a \<times> 's) \<Rightarrow> bool" where
  "calm P f \<longleftrightarrow> (\<forall>s. P s \<longrightarrow> P (snd (f s)))"

text \<open>The notifier delivers a message to the outside.\<close>

definition notified ::
  "'w flow_env \<Rightarrow> string \<Rightarrow> outbox_message \<Rightarrow> ('w shared, unit) op" where
  "notified env key m s = (case s of (c, w) \<Rightarrow> (case dl_send (fl_delivery env) key m (si_outside w) of
     (r, v) \<Rightarrow> (r, (c, w\<lparr>si_outside := v\<rparr>))))"

definition quiet :: "'w flow_env \<Rightarrow> ('w shared \<Rightarrow> bool) \<Rightarrow> bool" where
  "quiet env P \<longleftrightarrow>
     (\<forall>b. calm P (ke_board (kb env) b)) \<and>
     (\<forall>c e. calm P (ke_spawn (kb env) c e)) \<and>
     (\<forall>run b. stable P (hv_binding_at (fl_history env) run b)) \<and>
     (\<forall>run md. stable P (hv_gate_at (fl_history env) run md)) \<and>
     (\<forall>run b ref. stable P (hv_baseline_at (fl_history env) run b ref)) \<and>
     calm P (wr_uuid (fl_wire env)) \<and>
     (\<forall>t x. calm P (wr_exchange (fl_wire env) t x)) \<and>
     calm P (wr_time (fl_wire env)) \<and>
     (\<forall>p. calm P (fo_makedirs (fl_files env) p)) \<and>
     (\<forall>p. calm P (fo_mkdir (fl_files env) p)) \<and>
     (\<forall>run md. stable P (gl_repository_evidence (fl_gitlab env) run md)) \<and>
     (\<forall>run md. stable P (gl_author_completion (fl_gitlab env) run md)) \<and>
     (\<forall>run md. stable P (gl_gate (fl_gitlab env) run md)) \<and>
     (\<forall>run md. stable P (gl_artifact_completion (fl_gitlab env) run md)) \<and>
     (\<forall>run md ref. stable P (gl_artifact_gate_at_ref (fl_gitlab env) run md ref)) \<and>
     (\<forall>run iid. stable P (gl_delivery_mr (fl_gitlab env) run iid)) \<and>
     (\<forall>run b. stable P (gl_mark_ready (fl_gitlab env) run b)) \<and>
     (\<forall>run iid who why. stable P (gl_abort_delivery (fl_gitlab env) run iid who why)) \<and>
     (\<forall>role path branch. stable P (fl_admission env role path branch)) \<and>
     (\<forall>key m. calm P (notified env key m))"

lemma calmD: "calm P f \<Longrightarrow> P s \<Longrightarrow> P (snd (f s))"
  unfolding calm_def by blast

lemma quiet_calm:
  "quiet env P \<Longrightarrow> calm P (ke_board (kb env) b)"
  "quiet env P \<Longrightarrow> calm P (ke_spawn (kb env) c e)"
  "quiet env P \<Longrightarrow> calm P (wr_uuid (fl_wire env))"
  "quiet env P \<Longrightarrow> calm P (wr_exchange (fl_wire env) t x)"
  "quiet env P \<Longrightarrow> calm P (wr_time (fl_wire env))"
  "quiet env P \<Longrightarrow> calm P (fo_makedirs (fl_files env) p)"
  "quiet env P \<Longrightarrow> calm P (fo_mkdir (fl_files env) p)"
  "quiet env P \<Longrightarrow> calm P (notified env key m)"
  by (simp_all add: quiet_def)

lemmas quiet_raw = quiet_calm [THEN calmD]

lemma quiet_gitlab [stable_intros]:
  "quiet env P \<Longrightarrow> stable P (gl_repository_evidence (fl_gitlab env) run md)"
  "quiet env P \<Longrightarrow> stable P (gl_author_completion (fl_gitlab env) run md)"
  "quiet env P \<Longrightarrow> stable P (gl_gate (fl_gitlab env) run md)"
  "quiet env P \<Longrightarrow> stable P (gl_artifact_completion (fl_gitlab env) run md)"
  "quiet env P \<Longrightarrow> stable P (gl_artifact_gate_at_ref (fl_gitlab env) run md ref)"
  "quiet env P \<Longrightarrow> stable P (gl_delivery_mr (fl_gitlab env) run iid)"
  "quiet env P \<Longrightarrow> stable P (gl_mark_ready (fl_gitlab env) run b)"
  "quiet env P \<Longrightarrow> stable P (gl_abort_delivery (fl_gitlab env) run iid who why)"
  "quiet env P \<Longrightarrow> stable P (fl_admission env role path branch)"
  by (simp_all add: quiet_def)

lemma quiet_history [stable_intros]:
  "quiet env P \<Longrightarrow> stable P (hv_binding_at (hist env) run b)"
  "quiet env P \<Longrightarrow> stable P (hv_gate_at (hist env) run md)"
  "quiet env P \<Longrightarrow> stable P (hv_baseline_at (hist env) run bl ref)"
  by (simp_all add: quiet_def hist_def)

lemma hist_kanban [simp]: "hv_kanban (hist env) = kb env"
  by (simp add: hist_def kb_def)

section \<open>Boards and the history\<close>

lemma stable_sum [stable_intros]:
  "(\<And>a. x = Inl a \<Longrightarrow> stable P (f a)) \<Longrightarrow> (\<And>b. x = Inr b \<Longrightarrow> stable P (g b)) \<Longrightarrow>
    stable P (case x of Inl a \<Rightarrow> f a | Inr b \<Rightarrow> g b)"
  by (cases x) simp_all

lemma stable_list [stable_intros]:
  "(x = [] \<Longrightarrow> stable P m) \<Longrightarrow> (\<And>a b. x = a # b \<Longrightarrow> stable P (f a b)) \<Longrightarrow>
    stable P (case x of [] \<Rightarrow> m | a # b \<Rightarrow> f a b)"
  by (cases x) simp_all

lemma quiet_connect [stable_intros]: "quiet env P \<Longrightarrow> stable P (connect_board (kb env) board)"
  by (rule stable_connect [of _ _ "{}"]) (use quiet_raw in \<open>auto simp: unharmed_def\<close>)

lemma quiet_task [stable_intros]: "quiet env P \<Longrightarrow> stable P (task (kb env) board card_id)"
  unfolding task_def by (intro stable_intros)

lemma quiet_task_by [stable_intros]: "quiet env P \<Longrightarrow> stable P (task_by_idempotency (kb env) board key)"
  unfolding task_by_idempotency_def by (intro stable_intros)

lemma quiet_execute [stable_intros]: "quiet env P \<Longrightarrow> stable P (execute (kb env) c endpoint vars)"
proof (rule stableI)
  fix s assume "quiet env P" "P s"
  then have "P (snd (ke_spawn (kb env) c vars s))" by (rule quiet_raw)
  then show "P (snd (execute (kb env) c endpoint vars s))"
    by (cases "ke_spawn (kb env) c vars s"; cases "fst (ke_spawn (kb env) c vars s)") (simp_all add: execute_def)
qed

lemma quiet_kanban [stable_intros]:
  "quiet env P \<Longrightarrow> stable P (run_kanban (kb env) config args on_board json_output)"
  unfolding run_kanban_def by (intro stable_intros)

lemma quiet_run_on [stable_intros]: "quiet env P \<Longrightarrow> stable P (run_on (kb env) config board args)"
  unfolding run_on_def by (intro stable_intros)

lemma quiet_card_operations [stable_intros]:
  "quiet env P \<Longrightarrow> stable P (create_task (kb env) config board key unreadable args)"
  "quiet env P \<Longrightarrow> stable P (complete_task (kb env) config board card_id summary v)"
  "quiet env P \<Longrightarrow> stable P (comment_task (kb env) config board card_id t author)"
  "quiet env P \<Longrightarrow> stable P (reclaim_confirmed (kb env) config board card_id reason run_id pid archive x)"
  "quiet env P \<Longrightarrow> stable P (archive_controller_task (kb env) config board card_id)"
  "quiet env P \<Longrightarrow> stable P (create_exception (kb env) config j sha run parent reason key)"
  "quiet env P \<Longrightarrow> stable P (release_task (kb env) config board card_id)"
  unfolding create_task_def complete_task_def comment_task_def reclaim_confirmed_def archive_controller_task_def
    create_exception_def release_task_def
  by (intro stable_intros; assumption?)+

lemma quiet_more_card_operations [stable_intros]:
  "quiet env P \<Longrightarrow> stable P (create_work (kb env) config j c)"
  "quiet env P \<Longrightarrow> stable P (complete_root (kb env) config run card_id)"
  "quiet env P \<Longrightarrow> stable P (abort_task (kb env) config board card_id reason run_id pid)"
  unfolding create_work_def complete_root_def abort_task_def
  by (intro stable_intros; assumption?)+

lemma quiet_history_reads [stable_intros]:
  "quiet env P \<Longrightarrow> stable P (history (hist env) run_key)"
  "quiet env P \<Longrightarrow> stable P (delivery_mr (hist env) run)"
  "quiet env P \<Longrightarrow> stable P (read_binding (hist env) run)"
  unfolding history_def delivery_mr_def read_item_def read_binding_def hist_kanban
  by (intro stable_intros; assumption?)+

lemma quiet_identity [stable_intros]:
  "quiet env P \<Longrightarrow> stable P (validate_completion_identity (hist env) run item md)"
  "quiet env P \<Longrightarrow> stable P (validate_semantic_gate (hist env) run item md)"
  unfolding validate_completion_identity_def validate_semantic_gate_def
  by (intro stable_intros; assumption?)+

lemma stable_worker_attempt [stable_intros]: "stable P (validate_worker_attempt henv item)"
  by (simp add: stable_def keeps_def validate_worker_attempt_def split: option.splits)

lemma quiet_context [stable_intros]:
  "quiet env P \<Longrightarrow> stable P (validate_completion_context (hist env) run item md current)"
  unfolding validate_completion_context_def by (intro stable_intros; assumption?)

lemma quiet_frozen_phases: "quiet env P \<Longrightarrow> stable P (frozen_phases (hist env) items run contracts baselines)"
proof (induction "hist env" items run contracts baselines rule: frozen_phases.induct)
  case (2 items run phase producer reviewer contracts baselines)
  show ?case unfolding frozen_phases.simps freeze_candidate_def
    by (intro stable_intros 2; (rule 2)?)
qed (simp add: stable_pure)

lemma quiet_first_violation: "quiet env P \<Longrightarrow> stable P (first_violation (hist env) run ref bs)"
  by (induction bs) (auto intro!: stable_intros)

lemma quiet_frozen [stable_intros]:
  "quiet env P \<Longrightarrow> stable P (frozen_baselines (hist env) items run)"
  "quiet env P \<Longrightarrow> stable P (frozen_violation (hist env) run items ref)"
  unfolding frozen_violation_def frozen_baselines_def
  by (intro stable_intros quiet_frozen_phases quiet_first_violation; assumption?)+

lemma quiet_modifications [stable_intros]:
  "quiet env P \<Longrightarrow> stable P (code_modification_count (hist env) items)"
  unfolding code_modification_count_def counts_version_def by (intro stable_intros)

section \<open>Workers, files and notices\<close>

lemma quiet_call [stable_intros]: "quiet env P \<Longrightarrow> stable P (supervisor_call (fl_wire env) method i secs)"
proof (rule stableI)
  fix s assume q: "quiet env P" "P s"
  note raw = quiet_raw [OF q(1)]
  have u: "P (snd (wr_uuid (fl_wire env) s))" by (rule raw(3) [OF q(2)])
  note x = raw(4) [OF u]
  show "P (snd (supervisor_call (fl_wire env) method i secs s))"
    using u x raw(5) [OF u] raw(5) [OF x]
    by (simp add: supervisor_call_def Let_def case_prod_unfold split: sum.split option.split)
qed

lemma quiet_observe [stable_intros]: "quiet env P \<Longrightarrow> stable P (observe (fl_wire env) i terminate_running)"
  unfolding observe_def probe_def terminate_def by (intro stable_intros)

lemma quiet_scratch [stable_intros]:
  "quiet env P \<Longrightarrow> stable P (prepare_scratch_dir (fl_files env) d)"
proof -
  assume q: "quiet env P"
  have "stable P (make_root (fl_files env) p)" "stable P (resolved_path (fl_files env) p)"
    "stable P (scratch_step (fl_files env) part current)" for p part current
    using quiet_raw(6,7) [OF q]
    by (auto simp: stable_def keeps_def make_root_def resolved_path_def scratch_step_def Let_def
        split: prod.splits) (metis snd_conv)+
  then show ?thesis unfolding prepare_scratch_dir_def Let_def by (intro stable_intros)
qed

lemma quiet_exception_scratch [stable_intros]:
  "quiet env P \<Longrightarrow> stable P (prepare_exception_scratch_dir env run key)"
  unfolding prepare_exception_scratch_dir_def by (intro stable_intros)

lemma stable_notices [stable_intros]:
  "stable (unless E R) (send_notice env run key event n)"
  "stable (unless E R) (enqueue_progress env run key n allow)"
  unfolding send_notice_def enqueue_progress_def by (intro stable_intros)+

lemma stable_assert [stable_intros]: "stable P (assert_mutable run_key)"
  by (simp add: stable_def keeps_def assert_mutable_def)

lemma quiet_same_attempt [stable_intros]:
  "quiet env P \<Longrightarrow> stable P (same_attempt env board card_id i)"
  unfolding same_attempt_def by (intro stable_intros)

lemma quiet_observe_worker [stable_intros]:
  "quiet env (unless E R) \<Longrightarrow> stable (unless E R) (observe_worker env i terminate_running)"
  unfolding observe_worker_def by (intro stable_intros)

lemma quiet_workers [stable_intros]:
  "quiet env (unless E R) \<Longrightarrow> stable (unless E R) (abort_managed_task env board card_id reason)"
  unfolding abort_managed_task_def stop_worker_def record_reclaimed_attempt_def by (intro stable_intros; assumption?)

section \<open>Cards\<close>

lemma quiet_cancel [stable_intros]:
  "quiet env (unless E R) \<Longrightarrow> stable (unless E R) (cancel_card env run card_id reason)"
  unfolding cancel_card_def by (intro stable_intros)

lemma quiet_card_task [stable_intros]:
  "quiet env P \<Longrightarrow> stable P (card_task env run card_id e)"
  unfolding card_task_def by (intro stable_intros)

lemma quiet_repair [stable_intros]:
  "quiet env (unless E R) \<Longrightarrow> stable (unless E R) (preflight_repair env run items parent mr plan)"
  unfolding preflight_repair_def Let_def by (intro stable_intros)

lemma quiet_admission [stable_intros]:
  assumes "quiet env (unless E R)" "passing R"
  shows "stable (unless E R) (admit_profile env run assignee)"
proof -
  have "ta_new_state (admission_args state assignee code version t) \<notin> set TERMINAL_RUN_STATES"
    for state code version t
    by (auto simp: TERMINAL_RUN_STATES_def admission_args_def Let_def)
  then show ?thesis unfolding admit_profile_def refuse_profile_def
    by (intro stable_intros assms)
qed

lemma quiet_plan [stable_intros]:
  assumes "quiet env (unless E R)" "passing R"
  shows "stable (unless E R) (plan_work env run parent answer resumed_from plan)"
  unfolding plan_work_def by (intro stable_intros assms)

lemma quiet_register [stable_intros]:
  "quiet env (unless E R) \<Longrightarrow> stable (unless E R) (register_work env c)"
  unfolding register_work_def Let_def by (intro stable_intros; assumption?)

section \<open>The journal\<close>

text \<open>The same of a whole state.\<close>

definition unless_flow :: "('w \<Rightarrow> bool) \<Rightarrow> (control_db \<Rightarrow> bool) \<Rightarrow> 'w flow \<Rightarrow> bool" where
  "unless_flow E R s \<longleftrightarrow> unless E R (shared_of s)"

lemma stable_on_shared [stable_intros]: "stable (unless E R) m \<Longrightarrow> stable (unless_flow E R) (on_shared m)"
  by (auto simp: stable_def keeps_def unless_flow_def on_shared_def on_part_def shared_of_def split: prod.splits)
    (metis snd_conv)

lemma stable_journalled [stable_intros]:
  assumes "stable (unless E R) action"
  shows "stable (unless_flow E R) (journalled env key kind payload action run_key version head)"
proof (rule stableI)
  fix s :: "'a flow"
  assume s: "unless_flow E R s"
  obtain r c w where a: "action (cs_control s, cs_world s) = (r, (c, w))" by (metis prod.collapse)
  have "unless E R (c, w)" using stableD [OF assms, of "(cs_control s, cs_world s)"] s a
    by (simp add: unless_flow_def shared_of_def)
  then have ran: "unless_flow E R (snd (run_action now key kind action rk v (s\<lparr>cs_journal := j\<rparr>)))" for now rk v j
    using a by (auto simp: run_action_def Let_def unless_flow_def shared_of_def split: sum.splits prod.splits)
  have "unless_flow E R (s\<lparr>cs_journal := j\<rparr>)" for j
    using s by (simp add: unless_flow_def shared_of_def)
  with s ran show "unless_flow E R (snd (journalled env key kind payload action run_key version head s))"
    by (auto simp: journalled_def operation_def split: sum.split prod.split option.split)
qed

lemma quiet_published [stable_intros]:
  "quiet env (unless E R) \<Longrightarrow> stable (unless_flow E R) (ensure_work_published env run t)"
  unfolding ensure_work_published_def Let_def by (intro stable_intros; assumption?)

lemma quiet_create_card [stable_intros]:
  assumes "quiet env (unless E R)" "passing R"
  shows "stable (unless_flow E R) (create_card env run plan parent answer resumed_from publish)"
    "stable (unless_flow E R) (next_card env run plan parent)"
  unfolding next_card_def create_card_def by (intro stable_intros assms)+

section \<open>Exceptions\<close>

lemma quiet_exception_card [stable_intros]:
  "quiet env (unless E R) \<Longrightarrow> stable (unless E R) (create_exception_card env run parent reason)"
  "quiet env (unless E R) \<Longrightarrow> stable (unless E R) (stop_parent env run parent reason)"
  unfolding create_exception_card_def stop_parent_def Let_def by (intro stable_intros; assumption?)+

lemma quiet_exception [stable_intros]:
  assumes "quiet env (unless E R)" "passing R"
  shows "stable (unless E R) (raise_exception env run parent reason)"
  unfolding raise_exception_def enter_exception_def by (intro stable_intros assms)

lemma quiet_stop_run [stable_intros]:
  "quiet env (unless E R) \<Longrightarrow> passing R \<Longrightarrow> stable (unless_flow E R) (stop_run env run parent reason)"
  unfolding stop_run_def by (intro stable_intros; assumption?)

section \<open>Judged completions and repairs\<close>

lemma stable_judged [stable_intros]:
  "stable (unless E R) (record_completion env item was_accepted iid head reason)"
  "stable (unless E R) (enqueue_agent_completed env run item md items)"
  "stable (unless E R) (reject_agent_completion env run item why items iid head)"
  "stable (unless E R) (enqueue_review_failed env run md attempt mode)"
  unfolding reject_agent_completion_def enqueue_agent_completed_def enqueue_agent_completion_rejected_def
    agent_notice_def record_completion_def enqueue_review_failed_def
  by (intro stable_intros)+

lemma quiet_repairs [stable_intros]:
  assumes "quiet env (unless E R)" "passing R"
  shows "stable (unless_flow E R) (create_review_repair env run items md parent issues)"
    "stable (unless_flow E R) (create_frozen_repair env run items phase parent violation mode)"
    "stable (unless_flow E R) (protocol_failure env run items latest reason)"
  unfolding create_review_repair_def create_frozen_repair_def protocol_failure_def mark_protocol_error_def Let_def
  by (intro stable_intros assms)+

section \<open>The dependency circuit\<close>

definition unreached :: "(control_db \<Rightarrow> bool) \<Rightarrow> service_db \<Rightarrow> bool" where
  "unreached R d \<longleftrightarrow> R (sd_control d)"

lemma stable_circuit: "stable (unreached R) m \<Longrightarrow> stable (unless E R) (on_service m)"
  by (rule stable_on_service) (simp add: stable_def keeps_def unreached_def)

lemma service_parts [stable_intros]:
  "stable (unreached R) (on_outages m1)" "stable (unreached R) (on_outbox m2)"
  by (auto simp: stable_def keeps_def unreached_def on_outages_def on_outbox_def on_part_def split: prod.splits)

lemma service_same_state:
  assumes "passing R" "ta_new_state a \<notin> set TERMINAL_RUN_STATES"
    and "\<And>c. snd (f c) = c \<or> snd (f c) = snd (transition_run now j a c)"
  shows "stable (unreached R) (on_control f)"
proof (rule stableI)
  fix s assume s: "unreached R s"
  then have "R (snd (f (sd_control s)))"
    using assms by (metis passing_def unreached_def)
  then show "unreached R (snd (on_control f s))"
    by (auto simp: unreached_def on_control_def on_part_def split: prod.splits dest: arg_cong [where f = snd])
qed

lemma service_transition:
  assumes "passing R" "ta_new_state a \<notin> set TERMINAL_RUN_STATES"
  shows "stable (unreached R) (on_control (transition_run now j a))"
  by (rule service_same_state [OF assms, of _ now j]) simp

lemma service_notices [stable_intros]:
  "stable (unreached R) (enqueue_dependency_outage env now j outage)"
  "stable (unreached R) (enqueue_dependency_recovered env now j outage)"
  "stable (unreached R) (enqueue_controller_failure env now j e)"
  unfolding enqueue_dependency_outage_def enqueue_dependency_recovered_def enqueue_controller_failure_def
  by (intro stable_intros stable_prod)+

lemma service_moved:
  "passing R \<Longrightarrow> unreached R s \<Longrightarrow> state \<notin> set TERMINAL_RUN_STATES \<Longrightarrow>
    unreached R (snd (ignore_result (on_control (transition_run now j (move_args control state reason t))) s))"
  by (rule stableD [OF stable_ignore [OF service_transition]]) (simp_all add: move_args_def)

lemma not_terminal [simp]:
  "state \<in> set abort_states \<Longrightarrow> state \<notin> set TERMINAL_RUN_STATES" "''dependency_degraded'' \<notin> set TERMINAL_RUN_STATES"
  "''active'' \<notin> set TERMINAL_RUN_STATES" "''exception'' \<notin> set TERMINAL_RUN_STATES"
  "''merge_wait'' \<notin> set TERMINAL_RUN_STATES" "''human_blocked'' \<notin> set TERMINAL_RUN_STATES"
  by (auto simp: TERMINAL_RUN_STATES_def abort_states_def)

lemma service_moves [stable_intros]:
  assumes "passing R"
  shows "stable (unreached R) (degrade_run now j reason t)"
    "stable (unreached R) (reactivate_run now dependency j)"
  using service_moved [OF assms] not_terminal(1-3)
  by (auto simp: degrade_run_def reactivate_run_def simp del: not_terminal intro!: stableI split: option.split list.split)

lemma service_loop: "(\<And>x. stable P (g x)) \<Longrightarrow> P s \<Longrightarrow> P (snd (for_each g xs s))"
  by (rule stableD) (intro stable_intros)

lemma service_recovery [stable_intros]:
  assumes "passing R"
  shows "stable (unreached R) (finish_dependency_recovery env now dependency r)"
  unfolding finish_dependency_recovery_def
  by (rule stableI, rule service_loop) (intro stable_intros assms)

lemma service_recover [stable_intros]:
  assumes "passing R"
  shows "stable (unreached R) (recover_run_dependency env now j dependency)"
proof (rule stableI)
  fix s assume s: "unreached R s"
  have "stable (unreached R) (then_do (on_outages (recover_dependency now scope))
      (\<lambda>recovered. case recovered of None \<Rightarrow> give () | Some r \<Rightarrow> finish_dependency_recovery env now scope r))" for scope
    by (intro stable_intros assms)
  from stableD [OF this s] s show "unreached R (snd (recover_run_dependency env now j dependency s))"
    by (simp add: recover_run_dependency_def Let_def split: option.split)
qed

lemma service_exception [stable_intros]:
  assumes "passing R"
  shows "stable (unreached R) (record_run_exception env now j e)"
proof (rule stableI)
  fix s assume s: "unreached R s"
  have "stable (unreached R) (on_control (set_run_exception now j reason))" for reason
    by (rule service_same_state [of _ "exception_args reason" _ now j, OF assms _ set_run_exception_state])
      (simp add: exception_args_def)
  then have "stable (unreached R) (then_do (on_control (set_run_exception now j (error_message e)))
      (\<lambda>_. enqueue_controller_failure env now j e))"
    by (intro stable_intros)
  from stableD [OF this s] s show "unreached R (snd (record_run_exception env now j e s))"
    by (simp add: record_run_exception_def split: option.split)
qed

lemma service_open_circuit [stable_intros]:
  "stable (unreached R) (open_gitlab_circuit env now fresh e)"
proof (rule stableI)
  fix s assume s: "unreached R s"
  have "stable (unreached R) (then_do (on_outages (record_dependency_failure now fresh ''gitlab'' (failure_of env e)))
      (\<lambda>global. for_each (\<lambda>k. on_outages (associate_outage_run now ''gitlab'' (ou_outage_id global) k)) runs))" for runs
    by (intro stable_intros)
  from stableD [OF this s] s show "unreached R (snd (open_gitlab_circuit env now fresh e s))"
    by (simp add: open_gitlab_circuit_def Let_def)
qed

lemma service_last_error [stable_intros]: "stable (unreached R) (\<lambda>s. (Inr v, s\<lparr>sd_last_reconcile_error := x\<rparr>))"
  by (simp add: stable_def keeps_def unreached_def)

lemma service_handle [stable_intros]:
  assumes "passing R"
  shows "stable (unreached R) (handle_dependency_error env now a b j e)"
proof (rule stableI)
  fix s assume s: "unreached R s"
  show "unreached R (snd (handle_dependency_error env now a b j e s))"
  proof (cases "is_contract e")
    case True
    with s show ?thesis by (simp add: handle_dependency_error_def)
  next
    case False
    show ?thesis unfolding handle_dependency_error_def Let_def if_not_P [OF False]
      by (rule stableD [where P = "unreached R", OF _ s]) (intro stable_intros assms)
  qed
qed

section \<open>Blocked cards\<close>

lemma stable_control_db [stable_intros]:
  "(\<And>now. stable (unless E R) (on_ctl (f now))) \<Longrightarrow> stable (unless E R) (on_control_db f env)"
  unfolding on_control_db_def by (intro stable_intros)

lemma quiet_blocked [stable_intros]:
  assumes "quiet env (unless E R)" "passing R"
  shows "stable (unless E R) (blown_fuse env run item kind)"
    "stable (unless E R) (reject_human_block env run item missing)"
    "stable (unless E R) (unexplained_block env run item)"
  unfolding blown_fuse_def reject_human_block_def unexplained_block_def Let_def
  by (intro stable_intros stable_circuit assms)+

lemma quiet_human_block [stable_intros]:
  assumes "quiet env (unless E R)" "passing R"
  shows "stable (unless E R) (human_block env run j item comment)"
proof -
  have "ta_new_state (block_args card_id version) \<notin> set TERMINAL_RUN_STATES" for card_id version
    by (simp add: block_args_def)
  then show ?thesis unfolding human_block_def wait_for_human_def enqueue_human_block_def Let_def
    by (intro stable_intros assms)
qed

lemma quiet_blocked_cards [stable_intros]:
  assumes "quiet env (unless E R)" "passing R"
  shows "stable (unless_flow E R) (blocked_cards env run j items)"
proof (induction items)
  case (Cons item items)
  then show ?case unfolding blocked_cards.simps blocked_card_def Let_def
    by (intro stable_intros assms)
qed (simp only: blocked_cards.simps, rule stable_pure)

section \<open>Checks of a completion and the cards that follow it\<close>

lemma quiet_checks [stable_intros]:
  assumes "quiet env (unless E R)" "passing R"
  shows "stable (unless E R) (completion_checks env run items latest)"
    "stable (unless E R) (checked_gate env run md)"
    "stable (unless_flow E R) (gate_failure env run items latest md e)"
    "stable (unless_flow E R) (reject_at_head env run items latest md reason head)"
    "stable (unless E R) (accept_completion env run items latest md)"
  unfolding completion_checks_def checked_gate_def gate_failure_def reject_at_head_def accept_completion_def
  by (intro stable_intros assms)+

lemma quiet_or_failure [stable_intros]:
  assumes "quiet env (unless E R)" "passing R" "stable (unless E R) m" "stable (unless_flow E R) next"
  shows "stable (unless_flow E R) (or_protocol_failure env run items latest m next)"
  unfolding or_protocol_failure_def by (intro stable_intros assms)

lemma quiet_gitlab_checks:
  assumes "quiet env (unless E R)" "passing R" "stable (unless_flow E R) next"
  shows "stable (unless_flow E R) (gitlab_checks env run items latest md next)"
  unfolding gitlab_checks_def Let_def by (intro stable_intros assms)

lemma quiet_head_checks:
  assumes "quiet env (unless E R)" "passing R" "stable (unless_flow E R) next"
  shows "stable (unless_flow E R) (head_checks env run items latest md next)"
  unfolding head_checks_def artifact_checks_def Let_def by (intro stable_intros assms)

lemma quiet_next_stage [stable_intros]:
  assumes "quiet env (unless E R)" "passing R"
  shows "stable (unless_flow E R) (go_to_stage env run latest md attempts paired mods stage mode)"
    "stable (unless_flow E R) (restart_test env run latest)"
    "stable (unless E R) (paired_test_of env run items md)"
  unfolding go_to_stage_def restart_test_def paired_test_of_def repair_for_next_def repair_notice_def
    frozen_notices_def enqueue_test_skipped_def enqueue_code_retry_def enqueue_phase_frozen_def
    enqueue_phase_started_def Let_def
  by (intro stable_intros assms)+

section \<open>Endings\<close>

lemma quiet_ready [stable_intros]:
  assumes "quiet env (unless E R)"
  shows "stable (unless_flow E R) (mark_delivery_ready_at_head env run binding head)"
    "stable (unless_flow E R) (make_ready env run iid head mr)"
  unfolding make_ready_def mark_delivery_ready_at_head_def mark_and_verify_def Let_def
  by (intro stable_intros assms)+

lemma quiet_commit:
  assumes "quiet env (unless E R)" "passing R"
    and "\<And>now head reason. stable (unless E R) (on_ctl (mark_flow_completed now (rr_run_key run) ts head reason))"
  shows "stable (unless E R) (commit_terminal env run items ts head test review mr mods)"
  unfolding commit_terminal_def by (intro stable_intros assms)

lemma quiet_code_flow:
  assumes "quiet env (unless E R)" "passing R"
    and "\<And>now head reason. stable (unless E R) (on_ctl (mark_flow_completed now (rr_run_key run) ts head reason))"
  shows "stable (unless_flow E R) (finalize_code_flow env run items latest md ts paired mods)"
  unfolding finalize_code_flow_def Let_def by (intro stable_intros quiet_commit stable_prod assms)

lemma quiet_merged:
  assumes "quiet env (unless E R)" "passing R"
    and "\<And>now x compliance head sha reason.
      stable (unless E R) (on_ctl (mark_completed now (rr_run_key run) x compliance head sha reason))"
    and "\<And>now head sha. stable (unless E R) (on_ctl (finish_abort now (rr_run_key run) ''completed_before_abort'' head sha))"
  shows "stable (unless_flow E R) (finalize_merged env run items mr key)"
  unfolding finalize_merged_def complete_merged_run_def merge_compliance_def close_aborted_merge_def
    complete_merged_def Let_def
  by (intro stable_intros stable_prod assms)

lemma quiet_stop_cards [stable_intros]:
  "quiet env (unless E R) \<Longrightarrow> stable (unless E R) (stop_cards env run reason items)"
  by (induction items) (auto intro!: stable_intros)

text \<open>\<open>returned m v\<close>: an execution of \<open>m\<close> gave \<open>v\<close>.\<close>

definition returned :: "('s, 'a) op \<Rightarrow> 'a \<Rightarrow> bool" where
  "returned m v \<longleftrightarrow> (\<exists>s t. m s = (Inr v, t))"

lemma returned_shared: "\<exists>s t. on_shared m s = (Inr v, t) \<Longrightarrow> returned m v"
proof (elim exE)
  fix s t
  assume "on_shared m s = (Inr v, t)"
  then have "fst (m (cs_control s, cs_world s)) = Inr v"
    by (simp add: on_shared_def on_part_def case_prod_unfold)
  then show "returned m v" unfolding returned_def by (metis prod.collapse)
qed

text \<open>From where an operation leaves a mark, the mark is enough.\<close>

lemma stable_then_marked:
  assumes "stable P m" "\<And>s. Q s \<Longrightarrow> P s"
    and "\<And>v. returned m v \<Longrightarrow> stable P (f v) \<or> (\<forall>s t. m s = (Inr v, t) \<longrightarrow> Q t) \<and> stable Q (f v)"
  shows "stable P (then_do m f)"
proof (rule stableI)
  fix s assume s: "P s"
  obtain r t where m: "m s = (r, t)" by fastforce
  have t: "P t" using stableD [OF assms(1) s] m by simp
  show "P (snd (then_do m f s))"
  proof (cases r)
    case (Inl e)
    with m t show ?thesis by simp
  next
    case (Inr v)
    then have "returned m v" using m by (auto simp: returned_def)
    from assms(3) [OF this] have "P (snd (f v t))"
      using m t Inr assms(2) by (auto dest: stableD)
    then show ?thesis using m Inr by simp
  qed
qed

lemma stable_then_marked_by:
  assumes "stable P m" "\<And>s. Q s \<Longrightarrow> P s" "\<And>v. v \<noteq> w \<Longrightarrow> stable P (f v)"
    and "\<And>s t. m s = (Inr w, t) \<Longrightarrow> Q t" "stable Q (f w)"
  shows "stable P (then_do m f)"
proof (rule stable_then_marked [where Q = Q])
  fix v
  show "stable P (f v) \<or> (\<forall>s t. m s = (Inr v, t) \<longrightarrow> Q t) \<and> stable Q (f v)"
    using assms(3-5) by (cases "v = w") auto
qed (use assms in auto)

lemma stable_try_marked:
  assumes "stable P m" "\<And>s. Q s \<Longrightarrow> P s" "\<And>e. stable P (h e)"
    and "\<And>v. returned m v \<Longrightarrow> stable P (f v) \<or> (\<forall>s t. m s = (Inr v, t) \<longrightarrow> Q t) \<and> stable Q (f v)"
  shows "stable P (try_do m h f)"
proof (rule stableI)
  fix s assume s: "P s"
  obtain r t where m: "m s = (r, t)" by fastforce
  have t: "P t" using stableD [OF assms(1) s] m by simp
  show "P (snd (try_do m h f s))"
  proof (cases r)
    case (Inl e)
    with m stableD [OF assms(3) t] show ?thesis by (simp add: try_do_def)
  next
    case (Inr v)
    then have "returned m v" using m by (auto simp: returned_def)
    from assms(4) [OF this] have "P (snd (f v t))"
      using m t Inr assms(2) by (auto dest: stableD)
    then show ?thesis using m Inr by (simp add: try_do_def)
  qed
qed

section \<open>Aborting\<close>

lemma quiet_sent:
  assumes "quiet env (unless E R)" "E v \<or> R c"
  shows "E (snd (dl_send (fl_delivery env) key m v)) \<or> R c"
proof -
  have "unless E R (c, w\<lparr>si_outside := v\<rparr>)" for w using assms(2) by (simp add: unless_def)
  from quiet_raw(8) [OF assms(1) this, of key m] show ?thesis
    by (simp add: unless_def notified_def case_prod_unfold)
qed

lemma quiet_flush:
  assumes "quiet env (unless E R)" "E (snd s) \<or> R c"
  shows "E (snd (flush_outbox (fl_delivery env) config now s)) \<or> R c"
proof -
  have item: "E (snd (flush_item (fl_delivery env) config now i t)) \<or> R c" if "E (snd t) \<or> R c" for i t
    using that quiet_sent [OF assms(1) that]
    by (simp add: flush_item_def case_prod_unfold split: sum.split)
  have "E (snd (fold (flush_item (fl_delivery env) config now) items s)) \<or> R c" for items
    using assms(2)
  proof (induction items arbitrary: s)
    case (Cons i items)
    show ?case using Cons.IH [OF item [OF Cons.prems]] by simp
  qed simp
  then show ?thesis by (simp add: flush_outbox_def)
qed

lemma quiet_flush_queue [stable_intros]:
  assumes "quiet env (unless E R)"
  shows "stable (unless E R) (flush_queue env)"
proof (rule stableI)
  fix s assume "unless E R s"
  with quiet_flush [OF assms, of "(si_outbox (snd s), si_outside (snd s))" "fst s" "fl_config env" "fl_now env s"]
  show "unless E R (snd (flush_queue env s))"
    by (cases s) (simp add: flush_queue_def timed_def unless_def case_prod_unfold)
qed

lemma quiet_finish_delivery:
  assumes "quiet env (unless E R)"
    and "\<And>now ts head sha. ts \<in> {''aborted'', ''completed_before_abort''} \<Longrightarrow>
      stable (unless E R) (on_ctl (finish_abort now j ts head sha))"
  shows "stable (unless E R) (finish_delivery env run j who reason)"
  unfolding finish_delivery_def Let_def by (intro stable_intros stable_prod assms) simp_all

lemma quiet_abort_once:
  assumes "quiet env (unless E R)" "passing R"
    and "\<And>items run reason who. returned (history (hist env) j) (items, run) \<Longrightarrow>
      stable (unless E R) (then_do (stop_cards env run reason items) (\<lambda>stopped.
        if stopped then finish_delivery env run j who reason else give ()))"
  shows "stable (unless E R) (continue_abort_once env j)"
proof -
  have "stable (unless E R) (then_do (history (hist env) j) (\<lambda>(items, run).
      then_do (timed env (\<lambda>now. on_ctl (mark_aborting now j))) (\<lambda>_.
        then_do (stop_cards env run reason items) (\<lambda>stopped.
          if stopped then finish_delivery env run j who reason else give ()))))" for reason who
  proof (rule stable_then_known)
    fix v
    assume v: "\<exists>s t. history (hist env) j s = (Inr v, t)"
    obtain items run where "v = (items, run)" by (cases v)
    with v have "returned (history (hist env) j) (items, run)" by (simp add: returned_def)
    note rest = assms(3) [OF this]
    show "stable (unless E R) (case v of (items, run) \<Rightarrow>
        then_do (timed env (\<lambda>now. on_ctl (mark_aborting now j))) (\<lambda>_.
          then_do (stop_cards env run reason items) (\<lambda>stopped.
            if stopped then finish_delivery env run j who reason else give ())))"
      using \<open>v = (items, run)\<close> by (simp del: if_split) (intro stable_then rest stable_timed passing_ctl assms)
  qed (intro stable_intros assms)
  note inner = this
  show ?thesis unfolding continue_abort_once_def Let_def
    by (rule stable_then, rule stable_read, rule stable_option, rule stable_pure, rule stable_if, rule stable_pure, rule inner)
qed

lemma stable_guarded [stable_intros]: "stable (unless E R) m \<Longrightarrow> stable (unless E R) (guarded m f)"
  by (auto simp: stable_def keeps_def guarded_def unless_def split: prod.splits) (metis snd_conv fst_conv)+

lemma quiet_abort:
  "stable (unless E R) (continue_abort_once env j) \<Longrightarrow> stable (unless E R) (continue_abort env j)"
  unfolding continue_abort_def by (intro stable_intros)

section \<open>The handler\<close>

lemma quiet_active:
  assumes "quiet env (unless E R)" "passing R"
    and "\<And>latest. latest \<in> set items \<Longrightarrow> is_work latest \<Longrightarrow> tk_status (hi_task latest) = ''done'' \<Longrightarrow>
      stable (unless_flow E R) (judge_latest env mo run items latest)"
  shows "stable (unless_flow E R) (reconcile_active env mo run j items)"
proof -
  have "stable (unless_flow E R) (reconcile_idle env mo run items)"
  proof (cases "filter is_work items")
    case Nil
    then show ?thesis unfolding reconcile_idle_def by (simp split: option.split) (intro conjI allI impI stable_intros assms)
  next
    case (Cons w ws)
    have "last (w # ws) \<in> set (filter is_work items)" unfolding Cons by (rule last_in_set) simp
    then have "last (w # ws) \<in> set items" "is_work (last (w # ws))" unfolding set_filter by blast+
    then show ?thesis using Cons assms(3)
      unfolding reconcile_idle_def by (simp add: stable_pure Let_def del: last.simps)
  qed
  then show ?thesis unfolding reconcile_active_def Let_def by (intro stable_intros assms)
qed

lemma quiet_unmerged:
  assumes "quiet env (unless E R)" "passing R" "stable (unless_flow E R) (reconcile_active env mo run j items)"
  shows "stable (unless_flow E R) (then_do (on_shared (assert_mutable j)) (\<lambda>_. case x of
     Some root_item \<Rightarrow> start_run_cards env run j root_item | None \<Rightarrow> reconcile_active env mo run j items))"
  unfolding start_run_cards_def by (intro stable_intros assms)

lemma quiet_cards:
  assumes "quiet env (unless E R)" "passing R" "stable (unless_flow E R) (reconcile_active env mo run j items)"
    and "\<And>mr. stable (unless_flow E R) (finalize_merged env run items mr None)"
  shows "stable (unless_flow E R) (reconcile_cards env mo run j items)"
  unfolding reconcile_cards_def by (intro stable_intros quiet_unmerged assms)

lemma quiet_failed [stable_intros]:
  assumes "passing R"
  shows "stable (unless E R) (reconcile_failed env j e)"
proof -
  have handled: "stable (unless E R) (timed env (\<lambda>now s. case fl_fresh env s of (a, b) \<Rightarrow>
      on_service (ignore_result (handle_dependency_error (circ env) now a b j e)) s))"
  proof (rule stable_timed, rule stableI)
    fix now s assume s: "unless E R s"
    obtain a b where "fl_fresh env s = (a, b)" by fastforce
    moreover have "stable (unless E R) (on_service (ignore_result (handle_dependency_error (circ env) now a b j e)))"
      by (intro stable_circuit stable_intros assms)
    ultimately show "unless E R (snd (case fl_fresh env s of (a, b) \<Rightarrow>
        on_service (ignore_result (handle_dependency_error (circ env) now a b j e)) s))"
      using s by (auto dest: stableD)
  qed
  show ?thesis unfolding reconcile_failed_def by (intro stable_intros handled stable_circuit assms)
qed

lemma quiet_recover [stable_intros]: "passing R \<Longrightarrow> stable (unless E R) (recover_after env j dependency)"
  unfolding recover_after_def by (intro stable_intros stable_circuit)

lemma stable_finally:
  "stable P m \<Longrightarrow> stable P c \<Longrightarrow> stable P (\<lambda>s. case m s of (r, t) \<Rightarrow> (r, snd (c t)))"
  by (simp add: stable_def keeps_def case_prod_unfold)

text \<open>Reconciling a run keeps what its abort and its cards keep.\<close>

lemma quiet_reconcile:
  assumes "quiet env (unless E R)" "passing R" "stable (unless E R) (continue_abort_once env j)"
    and "\<And>run items. returned (history (hist env) j) (items, run) \<Longrightarrow>
      stable (unless_flow E R) (reconcile_cards env mo run j items)"
  shows "stable (unless_flow E R) (reconcile_run_with_policy env mo j)"
proof -
  have cards: "stable (unless_flow E R) (then_do (on_shared (history (hist env) j)) (\<lambda>(items, run).
      then_do (read_state (\<lambda>s. unauthorized_promotion (cs_journal s) items)) (\<lambda>unauthorized. case unauthorized of
        Some item \<Rightarrow> stop_run env run (tk_id (hi_task item)) ''unknown promoted_manual event without matching human resolve''
      | None \<Rightarrow> reconcile_cards env mo run j items)))"
  proof (rule stable_then_known)
    fix v
    assume "\<exists>s t. on_shared (history (hist env) j) s = (Inr v, t)"
    then have "returned (history (hist env) j) v" by (rule returned_shared)
    then show "stable (unless_flow E R) (case v of (items, run) \<Rightarrow>
        then_do (read_state (\<lambda>s. unauthorized_promotion (cs_journal s) items)) (\<lambda>unauthorized. case unauthorized of
          Some item \<Rightarrow> stop_run env run (tk_id (hi_task item)) ''unknown promoted_manual event without matching human resolve''
        | None \<Rightarrow> reconcile_cards env mo run j items))"
      by (cases v) (simp, intro stable_intros assms, assumption)
  qed (intro stable_intros assms)
  have body: "stable (unless_flow E R) (reconcile_body env mo j)"
    unfolding reconcile_body_def by (intro stable_if cards stable_then stable_read stable_pure stable_on_shared quiet_abort assms)
  have "stable (unless_flow E R) (reconcile_run env mo j)"
    unfolding reconcile_run_def by (intro stable_intros stable_finally body)
  then show ?thesis unfolding reconcile_run_with_policy_def by (intro stable_intros assms)
qed

end
