(* ===== verification/Reconcile_Properties.thy ===== *)
theory Reconcile_Properties
  imports Quiet Circuit_Properties History_Properties
begin

text \<open>
  What the reconciliation of a run promises: the controller never merges on its own,
  a run ends as ready only with the evidence for it, as aborted only with its cards
  stopped, as completed only with its merge request merged.
\<close>

section \<open>Accepted completions\<close>

lemma then_do_cong:
  "(\<And>v t. m s = (Inr v, t) \<Longrightarrow> f v t = g v t) \<Longrightarrow> then_do m f s = then_do m g s"
  by (auto simp: then_do_def split: prod.splits sum.splits)

lemma try_do_cong:
  "(\<And>v t. m s = (Inr v, t) \<Longrightarrow> f v t = g v t) \<Longrightarrow> try_do m h f s = try_do m h g s"
  by (auto simp: try_do_def split: prod.splits sum.splits)

lemma on_shared_ok:
  "on_shared m s = (Inr v, t) \<longleftrightarrow>
     (\<exists>u. m (shared_of s) = (Inr v, u) \<and> t = s\<lparr>cs_control := fst u, cs_world := snd u\<rparr>)"
  by (auto simp: on_shared_def on_part_def shared_of_def split: prod.splits)

lemma completion_model_contract: "completion_model build raw = Inr md \<Longrightarrow> stage_contract md"
  by (auto simp: completion_model_def validate_stage_contract_iff split: sum.splits)

lemma item_metadata_contract: "item_metadata (hist env) item = Inr md \<Longrightarrow> stage_contract md"
  by (auto simp: item_metadata_def validate_persisted_completion_metadata_def hist_def
      split: json.splits option.splits if_splits dest: completion_model_contract)

lemma completion_checks_contract:
  "completion_checks env run items latest s = (Inr md, t) \<Longrightarrow> stage_contract md"
  unfolding completion_checks_def ok_simps by (auto dest: item_metadata_contract)

section \<open>The controller does not merge\<close>

lemma no_merge_route:
  assumes "stage_contract md"
  shows "\<not> rt_merge (route_completion md attempts config paired mods)"
proof (cases "cm_outcome md = CANCELLED")
  case True
  then show ?thesis by (simp add: route_completion_def route0_def)
next
  case False
  with route_valid [OF assms] show ?thesis by blast
qed

lemma acceptance_never_merges:
  assumes "stage_contract md"
  shows "after_acceptance env mo run items latest md = after_acceptance env mo' run items latest md"
proof -
  have eq: "follow_route env mo run items latest md attempts mods p =
      follow_route env mo' run items latest md attempts mods p" for attempts mods p
    using no_merge_route [OF assms] by (simp add: follow_route_def Let_def)
  show ?thesis unfolding after_acceptance_def eq ..
qed

lemma judge_never_merges: "judge_latest env mo run items latest = judge_latest env mo' run items latest"
proof
  fix s
  show "judge_latest env mo run items latest s = judge_latest env mo' run items latest s"
    unfolding judge_latest_def
  proof (rule try_do_cong)
    fix md t
    assume "on_shared (completion_checks env run items latest) s = (Inr md, t)"
    then have "stage_contract md" by (auto simp: on_shared_ok dest: completion_checks_contract)
    from acceptance_never_merges [OF this, of env mo run items latest mo']
    show "gitlab_checks env run items latest md
        (head_checks env run items latest md (after_acceptance env mo run items latest md)) t =
      gitlab_checks env run items latest md
        (head_checks env run items latest md (after_acceptance env mo' run items latest md)) t"
      by simp
  qed
qed

lemma cards_never_merge: "reconcile_cards env mo run k items = reconcile_cards env mo' run k items"
  unfolding reconcile_cards_def reconcile_active_def reconcile_idle_def judge_never_merges [of env mo _ _ _ mo'] ..

text \<open>
  C1. The controller never merges: whatever the two operations that would merge a
  delivery do (\<open>validate_merge\<close> and \<open>merge\<close> of gitlab.py), reconciling a run has the
  same effect, because a completion that passes its checks never routes to a merge.
\<close>

theorem controller_never_merges:
  "reconcile_run_with_policy env mo run_key s = reconcile_run_with_policy env mo' run_key s"
proof -
  have eq: "reconcile_body env mo run_key = reconcile_body env mo' run_key"
    unfolding reconcile_body_def cards_never_merge [of env mo _ _ _ mo'] ..
  show ?thesis unfolding reconcile_run_with_policy_def reconcile_run_def eq ..
qed

section \<open>What a completion leads to\<close>

lemma then_checked: "then_do (checked (Inr v)) f = f v"
  by (rule ext) (simp add: then_do_def checked_def)

lemma on_shared_marks:
  "on_shared m s = (Inr v, t) \<Longrightarrow> (\<And>a b. m a = (Inr v, b) \<Longrightarrow> unless E R b) \<Longrightarrow> unless_flow E R t"
  by (auto simp: on_shared_ok unless_flow_def shared_of_def)

lemma marked_weaker: "unless E (\<lambda>_. False) s \<Longrightarrow> unless E R s" "unless_flow E (\<lambda>_. False) t \<Longrightarrow> unless_flow E R t"
  by (simp_all add: unless_flow_def unless_def)

lemma route_terminal:
  assumes "rt_terminal_state (route_completion md attempts config paired mods) = Some ts"
  shows "ts \<in> {''completed_ready'', ''completed_with_findings'', ''completed_test_failed''}"
    "ts = ''completed_ready'' \<Longrightarrow> cm_stage md = CODE_REVIEW \<and> cm_outcome md = PASS \<and>
      (\<exists>x. paired = Some x \<and> cm_outcome x = PASS \<and> same_delivery x md)"
  using assms by (auto simp: route_completion_def route0_def split: if_splits option.splits)

lemma quiet_route:
  assumes "quiet env (unless E R)" "passing R" "stage_contract md"
    and "\<And>ts. rt_terminal_state (route_completion md attempts (fl_config env) paired mods) = Some ts \<Longrightarrow>
      stable (unless_flow E R) (finalize_code_flow env run items latest md ts paired mods)"
  shows "stable (unless_flow E R) (follow_route env mo run items latest md attempts mods paired)"
  unfolding follow_route_def Let_def if_not_P [OF no_merge_route [OF assms(3)]]
  by (intro stable_option stable_pure quiet_stop_run quiet_next_stage assms)

lemma quiet_acceptance:
  assumes "quiet env (unless E R)" "passing R"
    and "\<And>attempts mods paired. stable (unless_flow E R) (follow_route env mo run items latest md attempts mods paired)"
  shows "stable (unless_flow E R) (after_acceptance env mo run items latest md)"
  unfolding after_acceptance_def by (intro stable_intros assms)

lemma quiet_judge:
  assumes "quiet env (unless E R)" "passing R"
    and "\<And>md. returned (completion_checks env run items latest) md \<Longrightarrow> stage_contract md \<Longrightarrow>
      stable (unless_flow E R) (gitlab_checks env run items latest md
        (head_checks env run items latest md (after_acceptance env mo run items latest md)))"
  shows "stable (unless_flow E R) (judge_latest env mo run items latest)"
  unfolding judge_latest_def
proof (rule stable_try_known)
  fix md
  assume "\<exists>s t. on_shared (completion_checks env run items latest) s = (Inr md, t)"
  then have r: "returned (completion_checks env run items latest) md" by (rule returned_shared)
  then have "stage_contract md" by (auto simp: returned_def dest: completion_checks_contract)
  with r show "stable (unless_flow E R) (gitlab_checks env run items latest md
      (head_checks env run items latest md (after_acceptance env mo run items latest md)))"
    by (rule assms(3))
qed (intro stable_intros assms)+

text \<open>Once the mark is there, nothing of a reconciliation takes it away.\<close>

lemma commits_keep_marks:
  "stable (unless E (\<lambda>_. False)) (on_ctl (mark_flow_completed now j ts head reason))"
  "stable (unless E (\<lambda>_. False)) (on_ctl (mark_completed now j x compliance head' sha reason))"
  "stable (unless E (\<lambda>_. False)) (on_ctl (finish_abort now j ts head'' sha))"
  by (rule stable_on_ctl, simp)+

lemma marked_route:
  assumes "quiet env (unless E (\<lambda>_. False))" "stage_contract md"
  shows "stable (unless_flow E (\<lambda>_. False)) (follow_route env mo run items latest md attempts mods paired)"
  by (intro quiet_route quiet_code_flow commits_keep_marks passing_never assms)

lemma marked_acceptance:
  assumes "quiet env (unless E (\<lambda>_. False))" "stage_contract md"
  shows "stable (unless_flow E (\<lambda>_. False)) (after_acceptance env mo run items latest md)"
  by (intro quiet_acceptance marked_route passing_never assms)

text \<open>A completion that does not make this run ready.\<close>

lemma unready_code_flow:
  assumes "quiet env (unless E (away st k))" "st \<in> set TERMINAL_RUN_STATES" "ts \<noteq> st \<or> rr_run_key run \<noteq> k"
  shows "stable (unless_flow E (away st k)) (finalize_code_flow env run items latest md ts paired mods)"
  by (intro quiet_code_flow assms passing_away stable_commits) (use assms(3) in auto)

section \<open>Observations\<close>

text \<open>
  What has to be seen before a run of key \<open>k\<close> is ready: GitLab accepts the gate of the
  passed code review of its last card, and of the passed test of the same delivery, the
  frozen documents are intact at the head, the merge request is at this head and no
  draft. \<open>s\<close> and \<open>t\<close> are the states before and after.
\<close>

definition approved :: "RunRecord \<Rightarrow> string \<Rightarrow> CompletionMetadata \<Rightarrow> CompletionMetadata \<Rightarrow> bool" where
  "approved run k md x \<longleftrightarrow> rr_run_key run = k \<and> cm_stage md = CODE_REVIEW \<and> cm_outcome md = PASS \<and>
     cm_outcome x = PASS \<and> same_delivery x md"

definition review_passed :: "'w flow_env \<Rightarrow> string \<Rightarrow> 'w shared \<Rightarrow> 'w shared \<Rightarrow> bool" where
  "review_passed env k s t \<longleftrightarrow> (\<exists>run items latest md. rr_run_key run = k \<and> latest \<in> set items \<and> is_work latest \<and>
     tk_status (hi_task latest) = ''done'' \<and> returned (completion_checks env run items latest) md \<and>
     cm_stage md = CODE_REVIEW \<and> cm_outcome md = PASS \<and> checked_gate env run md s = (Inr (), t))"

definition test_passed :: "'w flow_env \<Rightarrow> string \<Rightarrow> 'w shared \<Rightarrow> 'w shared \<Rightarrow> bool" where
  "test_passed env k s t \<longleftrightarrow> (\<exists>run items md x. approved run k md x \<and>
     latest_valid_completion (hist env) items TEST {PASS, FAIL} = Inr (Some x) \<and>
     checked_gate env run x s = (Inr (), t))"

definition documents_intact :: "'w flow_env \<Rightarrow> string \<Rightarrow> 'w shared \<Rightarrow> 'w shared \<Rightarrow> bool" where
  "documents_intact env k s t \<longleftrightarrow> (\<exists>run items md x. approved run k md x \<and>
     frozen_violation (hist env) run items (delivered_head md x) s = (Inr None, t))"

definition merge_request_ready :: "'w flow_env \<Rightarrow> string \<Rightarrow> 'w shared \<Rightarrow> 'w shared \<Rightarrow> bool" where
  "merge_request_ready env k s t \<longleftrightarrow> (\<exists>run md x iid mr. approved run k md x \<and> delivered_iid md x = Some iid \<and>
     gl_delivery_mr (fl_gitlab env) run (Some iid) s = (Inr (Some mr), t) \<and>
     mr_head (hist env) mr = delivered_head md x \<and> \<not> is_draft mr)"

text \<open>An observation that leaves the mark \<open>E\<close> in the outside world.\<close>

definition marks :: "('w shared \<Rightarrow> 'w shared \<Rightarrow> bool) \<Rightarrow> ('w \<Rightarrow> bool) \<Rightarrow> bool" where
  "marks observation E \<longleftrightarrow> (\<forall>s t. observation s t \<longrightarrow> E (si_outside (snd t)))"

abbreviation ready_st :: string where
  "ready_st \<equiv> ''completed_ready''"

lemma ready_passing: "passing (away ready_st k)"
  by (rule passing_away) (simp add: TERMINAL_RUN_STATES_def)

lemma unready_route:
  assumes "quiet env (unless E (away ready_st k))" "stage_contract md"
    and "\<And>x. paired = Some x \<Longrightarrow> approved run k md x \<Longrightarrow>
      stable (unless_flow E (away ready_st k)) (finalize_code_flow env run items latest md ready_st (Some x) mods)"
  shows "stable (unless_flow E (away ready_st k)) (follow_route env mo run items latest md attempts mods paired)"
proof (rule quiet_route [OF assms(1) ready_passing assms(2)])
  fix ts
  assume ts: "rt_terminal_state (route_completion md attempts (fl_config env) paired mods) = Some ts"
  show "stable (unless_flow E (away ready_st k)) (finalize_code_flow env run items latest md ts paired mods)"
  proof (cases "ts = ready_st \<and> rr_run_key run = k")
    case True
    with route_terminal(2) [OF ts] obtain x where "paired = Some x" "approved run k md x"
      by (auto simp: approved_def)
    with assms(3) True show ?thesis by blast
  next
    case False
    then show ?thesis by (intro unready_code_flow assms(1)) (auto simp: TERMINAL_RUN_STATES_def)
  qed
qed

text \<open>The frozen documents are checked and the merge request read before the state is written.\<close>

lemma intact_before_ready:
  assumes "quiet env (unless E (away ready_st k))" "quiet env (unless E (\<lambda>_. False))"
    and "marks (documents_intact env k) E" "approved run k md x"
  shows "stable (unless_flow E (away ready_st k)) (finalize_code_flow env run items latest md ready_st (Some x) mods)"
proof -
  have gates: "gate_pair ready_st md (Some x) = Inr (x, Some md)"
    using assms(4) by (simp add: gate_pair_def approved_def)
  have checked: "stable (unless_flow E (away ready_st k))
      (then_do (on_shared (frozen_violation (hist env) run items (delivered_head md x))) (\<lambda>violation. case violation of
         Some v \<Rightarrow> stop_run env run (tk_id (hi_task latest)) (''terminal frozen baseline violation: '' @ v)
       | None \<Rightarrow> then_do (if ready_st \<in> ready_states then make_ready env run iid (delivered_head md x) mr else give mr)
          (\<lambda>mr'. on_shared (commit_terminal env run items ready_st (delivered_head md x) x (Some md) mr' mods))))" for iid mr
  proof (rule stable_then_marked_by [where Q = "unless_flow E (\<lambda>_. False)" and w = None])
    fix s t
    assume "on_shared (frozen_violation (hist env) run items (delivered_head md x)) s = (Inr None, t)"
    then show "unless_flow E (\<lambda>_. False) t"
      by (rule on_shared_marks) (use assms(3,4) in \<open>unfold marks_def documents_intact_def unless_def, blast\<close>)
  qed (auto intro!: stable_intros quiet_commit commits_keep_marks ready_passing assms(1,2) marked_weaker)
  show ?thesis unfolding finalize_code_flow_def Let_def gates then_checked prod.case
    by (intro stable_option stable_pure stable_if checked stable_then stable_on_shared quiet_gitlab
        quiet_frozen quiet_create_card ready_passing assms(1))
qed

lemma seen_ready_before_ready:
  assumes "quiet env (unless E (away ready_st k))" "quiet env (unless E (\<lambda>_. False))"
    and "marks (merge_request_ready env k) E" "approved run k md x"
  shows "stable (unless_flow E (away ready_st k)) (finalize_code_flow env run items latest md ready_st (Some x) mods)"
proof -
  have gates: "gate_pair ready_st md (Some x) = Inr (x, Some md)"
    using assms(4) by (simp add: gate_pair_def approved_def)
  let ?head = "delivered_head md x"
  have made: "unless_flow E (\<lambda>_. False) t"
    if iid: "delivered_iid md x = Some iid" and ok: "make_ready env run iid ?head mr s = (Inr mr', t)" for iid mr mr' s t
  proof -
    from ok obtain u where "on_shared (gl_delivery_mr (fl_gitlab env) run (Some iid)) u = (Inr (Some mr'), t)"
      and mr: "mr_head (hist env) mr' = ?head" "\<not> is_draft mr'"
      unfolding make_ready_def then_do_ok
      by (auto simp: then_do_ok pure_ok split: option.splits if_splits)
    then show ?thesis
      by (elim on_shared_marks)
        (use assms(3,4) iid mr in \<open>unfold marks_def merge_request_ready_def unless_def, blast\<close>)
  qed
  have ready: "stable (unless_flow E (away ready_st k))
      (then_do (if ready_st \<in> ready_states then make_ready env run iid ?head mr else give mr)
        (\<lambda>mr'. on_shared (commit_terminal env run items ready_st ?head x (Some md) mr' mods)))"
    if "delivered_iid md x = Some iid" for iid mr
    by (rule stable_then_marked [where Q = "unless_flow E (\<lambda>_. False)"])
      (auto intro!: stable_intros quiet_commit commits_keep_marks assms(1,2) marked_weaker
        simp: ready_states_def dest!: made [OF that])
  show ?thesis unfolding finalize_code_flow_def Let_def gates then_checked prod.case
    by (intro stable_option stable_pure stable_if ready stable_then stable_on_shared quiet_gitlab
        quiet_frozen quiet_create_card quiet_stop_run ready_passing assms(1))
qed

lemma reviewed_before_ready:
  assumes "quiet env (unless E (away ready_st k))" "quiet env (unless E (\<lambda>_. False))"
    and "marks (review_passed env k) E" "stage_contract md" "cm_stage md = CODE_REVIEW" "cm_outcome md = PASS"
    and "rr_run_key run = k" "latest \<in> set items" "is_work latest" "tk_status (hi_task latest) = ''done''"
    and "returned (completion_checks env run items latest) md"
  shows "stable (unless_flow E (away ready_st k)) (gitlab_checks env run items latest md
    (head_checks env run items latest md (after_acceptance env mo run items latest md)))"
proof -
  let ?Q = "unless_flow E (\<lambda>_. False)" and ?P = "unless_flow E (away ready_st k)"
  let ?next = "head_checks env run items latest md (after_acceptance env mo run items latest md)"
  have "stable ?Q ?next"
    by (intro quiet_head_checks marked_acceptance passing_never assms(2,4))
  then have rest: "stable ?Q (if cm_mode md \<noteq> FINALIZATION then ?next
      else or_protocol_failure env run items latest (gl_artifact_completion (fl_gitlab env) run md) ?next)"
    by (intro stable_if quiet_or_failure quiet_gitlab passing_never assms(2))
  have gate: "cm_stage md \<in> gate_stages \<and> cm_outcome md \<in> {PASS, FAIL}"
    using assms(5,6) by (simp add: gate_stages_def)
  have marked: "?Q t" if "on_shared (checked_gate env run md) s = (Inr (), t)" for s t
    using that by (rule on_shared_marks)
      (use assms(3,5-11) in \<open>unfold marks_def review_passed_def unless_def, blast\<close>)
  have "stable ?P (try_do (on_shared (checked_gate env run md)) (gate_failure env run items latest md)
      (\<lambda>_. if cm_mode md \<noteq> FINALIZATION then ?next
         else or_protocol_failure env run items latest (gl_artifact_completion (fl_gitlab env) run md) ?next))"
  proof (rule stable_try_marked [where Q = ?Q])
    show "stable ?P (on_shared (checked_gate env run md))" "stable ?P (gate_failure env run items latest md e)" for e
      by (intro stable_on_shared quiet_checks ready_passing assms(1))+
  qed (use marked rest marked_weaker(2) in auto)
  then show ?thesis unfolding gitlab_checks_def Let_def if_P [OF gate]
    by (intro stable_if quiet_or_failure stable_then quiet_gitlab ready_passing assms(1))
qed

lemma tested_before_ready:
  assumes "quiet env (unless E (away ready_st k))" "quiet env (unless E (\<lambda>_. False))"
    and "marks (test_passed env k) E" "stage_contract md"
  shows "stable (unless_flow E (away ready_st k)) (after_acceptance env mo run items latest md)"
proof -
  let ?Q = "unless_flow E (\<lambda>_. False)" and ?P = "unless_flow E (away ready_st k)"
  have marked: "?Q t"
    if a: "approved run k md x" and ok: "on_shared (paired_test_of env run items md) s = (Inr (Some x), t)" for x s t
  proof (rule on_shared_marks [OF ok])
    fix a b
    assume "paired_test_of env run items md a = (Inr (Some x), b)"
    then obtain found where found: "latest_valid_completion (hist env) items TEST {PASS, FAIL} = Inr found"
      "(case found of None \<Rightarrow> give None | Some t \<Rightarrow> if \<not> same_delivery t md then give None
         else try_do (checked_gate env run t)
           (\<lambda>e. if is_value_error e then give None else checked (Inl e)) (\<lambda>_. give (Some t))) a = (Inr (Some x), b)"
      unfolding paired_test_of_def then_do_ok pure_ok by blast
    then obtain y where y: "found = Some y" by (cases found) simp_all
    with found(2) have "try_do (checked_gate env run y)
        (\<lambda>e. if is_value_error e then give None else checked (Inl e)) (\<lambda>_. give (Some y)) a = (Inr (Some x), b)"
      by (cases "same_delivery y md") simp_all
    then have "y = x \<and> checked_gate env run x a = (Inr (), b)"
      by (cases "checked_gate env run y a"; cases "fst (checked_gate env run y a)")
        (auto simp: try_do_def checked_def split: if_splits)
    with y found(1) have "latest_valid_completion (hist env) items TEST {PASS, FAIL} = Inr (Some x)"
      "checked_gate env run x a = (Inr (), b)" by simp_all
    then show "unless E (\<lambda>_. False) b"
      using assms(3) a unfolding marks_def test_passed_def unless_def by blast
  qed
  have route: "stable ?P (follow_route env mo run items latest md attempts mods paired)"
    if "\<And>x. paired = Some x \<Longrightarrow> \<not> approved run k md x" for attempts mods paired
    by (rule unready_route [OF assms(1,4)]) (use that in blast)
  have paired: "stable ?P (then_do (on_shared (paired_test_of env run items md)) (\<lambda>paired. case paired of
      None \<Rightarrow> restart_test env run latest | Some x \<Rightarrow> follow_route env mo run items latest md attempts mods (Some x)))"
    for attempts mods
  proof (rule stable_then_marked [where Q = ?Q])
    fix v
    show "stable ?P (case v of None \<Rightarrow> restart_test env run latest
        | Some x \<Rightarrow> follow_route env mo run items latest md attempts mods (Some x)) \<or>
      (\<forall>s t. on_shared (paired_test_of env run items md) s = (Inr v, t) \<longrightarrow> ?Q t) \<and>
      stable ?Q (case v of None \<Rightarrow> restart_test env run latest
        | Some x \<Rightarrow> follow_route env mo run items latest md attempts mods (Some x))"
    proof (cases "\<exists>x. v = Some x \<and> approved run k md x")
      case True
      with marked show ?thesis by (auto intro!: marked_route [OF assms(2,4)])
    next
      case False
      then have "stable ?P (case v of None \<Rightarrow> restart_test env run latest
          | Some x \<Rightarrow> follow_route env mo run items latest md attempts mods (Some x))"
        by (cases v) (auto intro!: route quiet_next_stage assms(1) ready_passing)
      then show ?thesis ..
    qed
  qed (use marked_weaker(2) in \<open>auto intro!: stable_intros assms(1) ready_passing\<close>)
  show ?thesis unfolding after_acceptance_def
    by (intro paired stable_if stable_then stable_on_shared stable_pure quiet_checks quiet_modifications route
        ready_passing assms(1)) simp_all
qed

lemma ready_judge:
  assumes "quiet env (unless E (away ready_st k))" "quiet env (unless E (\<lambda>_. False))"
    and "observation \<in> {review_passed env k, test_passed env k, documents_intact env k, merge_request_ready env k}"
    and "marks observation E" "latest \<in> set items" "is_work latest" "tk_status (hi_task latest) = ''done''"
  shows "stable (unless_flow E (away ready_st k)) (judge_latest env mo run items latest)"
proof (rule quiet_judge [OF assms(1) ready_passing])
  fix md
  assume r: "returned (completion_checks env run items latest) md" and c: "stage_contract md"
  have checks: "stable (unless_flow E (away ready_st k)) (gitlab_checks env run items latest md
      (head_checks env run items latest md (after_acceptance env mo run items latest md)))"
    if "stable (unless_flow E (away ready_st k)) (after_acceptance env mo run items latest md)"
    by (intro quiet_gitlab_checks quiet_head_checks that ready_passing assms(1))
  have routes: "stable (unless_flow E (away ready_st k)) (after_acceptance env mo run items latest md)"
    if "\<And>x mods. approved run k md x \<Longrightarrow>
      stable (unless_flow E (away ready_st k)) (finalize_code_flow env run items latest md ready_st (Some x) mods)"
    by (intro quiet_acceptance unready_route that ready_passing assms(1) c)
  show "stable (unless_flow E (away ready_st k)) (gitlab_checks env run items latest md
      (head_checks env run items latest md (after_acceptance env mo run items latest md)))"
  proof (cases "observation = review_passed env k")
    case True
    show ?thesis
    proof (cases "rr_run_key run = k \<and> cm_stage md = CODE_REVIEW \<and> cm_outcome md = PASS")
      case reviewed: True
      with True assms r c show ?thesis by (intro reviewed_before_ready) auto
    next
      case False
      then show ?thesis by (intro checks routes) (auto simp: approved_def)
    qed
  next
    case False
    then consider "observation = test_passed env k" | "observation = documents_intact env k"
      | "observation = merge_request_ready env k" using assms(3) by blast
    then show ?thesis
    proof cases
      case 1
      with assms c show ?thesis by (intro checks tested_before_ready) auto
    next
      case 2
      with assms show ?thesis by (intro checks routes intact_before_ready) auto
    next
      case 3
      with assms show ?thesis by (intro checks routes seen_ready_before_ready) auto
    qed
  qed
qed

section \<open>A small controller\<close>

text \<open>Every program around this controller only notes in the outside world that it was called.\<close>

definition noting :: "'a \<Rightarrow> bool shared \<Rightarrow> 'a \<times> bool shared" where
  "noting r s = (r, (fst s, (snd s)\<lparr>si_outside := True\<rparr>))"

definition noting_history :: "bool shared history_env" where
  "noting_history = \<lparr>hv_kanban = \<lparr>ke_board = (\<lambda>_. noting (BoardOpen claimed_board)), ke_spawn = (\<lambda>_ _. noting NotStarted),
       ke_loads = (\<lambda>_. None), ke_str = (\<lambda>_. [])\<rparr>,
     hv_json = sample_record_json, hv_validate = (\<lambda>_. Inr review_md), hv_load_binding = (\<lambda>_. None),
     hv_cards = si_cards \<circ> snd, hv_validations = si_validations \<circ> snd, hv_binding_at = (\<lambda>_ _. noting (Inr [])),
     hv_gate_at = (\<lambda>_ _. noting (Inr ())), hv_baseline_at = (\<lambda>_ _ _. noting (Inr ())), hv_sha256 = (\<lambda>_. sample_digest),
     hv_time = (\<lambda>_. 0), hv_config = sample_config\<rparr>"

definition noting_gitlab :: "bool shared gitlab_ops" where
  "noting_gitlab = \<lparr>gl_repository_evidence = (\<lambda>_ _. noting (Inr ())), gl_author_completion = (\<lambda>_ _. noting (Inr ())),
     gl_gate = (\<lambda>_ _. noting (Inr ''reviewer'')), gl_artifact_completion = (\<lambda>_ _. noting (Inr ())),
     gl_artifact_gate_at_ref = (\<lambda>_ _ _. noting (Inr ())), gl_delivery_mr = (\<lambda>_ _. noting (Inr None)),
     gl_mark_ready = (\<lambda>_ _. noting (Inr ())), gl_abort_delivery = (\<lambda>_ _ _ _. noting (Inr []))\<rparr>"

definition noting_env :: "bool flow_env" where
  "noting_env = \<lparr>fl_config = sample_config, fl_level = MINIMAL, fl_history = noting_history,
     fl_fields = (\<lambda>_. Inr review_md),
     fl_circuit = \<lparr>ce_config = sample_config, ce_minimal = True, ce_outage_notice = (\<lambda>_ _. None),
       ce_recovered_notice = (\<lambda>_ _ _. None), ce_failure_notice = (\<lambda>_ _. None)\<rparr>,
     fl_wire = \<lparr>wr_uuid = noting ''id'', wr_exchange = (\<lambda>_ _. noting (Inr [])), wr_time = noting 1,
       wr_loads = (\<lambda>_. None), wr_dumps = (\<lambda>_. []), wr_str = (\<lambda>_. []), wr_utf8 = (\<lambda>_. True),
       wr_probe_timeout_seconds = 1, wr_terminate_timeout_seconds = 5\<rparr>,
     fl_files = \<lparr>fo_makedirs = (\<lambda>_. noting None), fo_mkdir = (\<lambda>_. noting None), fo_is_symlink = (\<lambda>_ _. False),
       fo_is_dir = (\<lambda>_ _. True), fo_resolve = (\<lambda>p _. Inr p)\<rparr>,
     fl_gitlab = noting_gitlab,
     fl_delivery = \<lparr>dl_validate = (\<lambda>_. Inl (ValueError [])), dl_str = (\<lambda>_. []), dl_send = (\<lambda>_ _ _. (Inr (), True))\<rparr>,
     fl_py = \<lparr>py_dump = (\<lambda>_. []), py_int_text = (\<lambda>_. None), py_ms = (\<lambda>_. 0)\<rparr>,
     fl_now = (\<lambda>_. 9), fl_later = (\<lambda>_. 9), fl_fresh = (\<lambda>_. (''a'', ''b'')), fl_monotonic = (\<lambda>_. 0),
     fl_payload = (\<lambda>_ _. JNull), fl_admission = (\<lambda>_ _ _. noting (Inr [])), fl_dump_binding = (\<lambda>_. JNull),
     fl_dump_baseline = (\<lambda>_. JNull), fl_dump_repair = (\<lambda>_. JNull), fl_utf8_json = (\<lambda>_. [])\<rparr>"

definition noting_merge :: "bool shared merge_ops" where
  "noting_merge = \<lparr>mo_validate = (\<lambda>_ _ _ _. noting (Inl (ValueError []))), mo_merge = (\<lambda>_ _ _. noting (Inl (ValueError [])))\<rparr>"

definition noting_state :: "bool flow" where
  "noting_state = \<lparr>cs_journal = \<lparr>requests_tbl = [], operations_tbl = []\<rparr>, cs_control = sd_control sample_service,
     cs_world = \<lparr>si_outages = empty_outages, si_outbox = [], si_last_reconcile_error = None,
       si_cards = \<lparr>cd_runs = empty_runs, managed_tbl = [], runtime_tbl = [], attempts_tbl = [], metrics_tbl = []\<rparr>,
       si_validations = [], si_admin = \<lparr>boots_tbl = [], profile_tbl = [], deployment_tbl = None\<rparr>,
       si_guards = \<lparr>g_reconciling_runs = [], g_aborting_runs = [], g_active_requests = []\<rparr>, si_outside = False\<rparr>\<rparr>"

definition noted :: "bool \<Rightarrow> bool" where
  "noted b \<longleftrightarrow> b"

lemma unless_noting: "unless noted R (snd (noting r s))"
  by (simp add: unless_def noting_def noted_def)

lemma noting_calm: "calm (unless noted R) (noting r)" "stable (unless noted R) (noting r')"
  by (rule calm_def [THEN iffD2], simp add: unless_noting) (rule stableI, rule unless_noting)

lemma quiet_noting: "quiet noting_env (unless noted R)"
proof -
  have "calm (unless noted R) (notified noting_env key m)" for key m
    by (simp add: calm_def notified_def noting_env_def unless_def noted_def case_prod_unfold)
  then show ?thesis
    by (simp add: quiet_def kb_def noting_calm) (simp add: noting_env_def noting_history_def noting_gitlab_def noting_calm)
qed

lemma noting_away: "st \<noteq> ''active'' \<Longrightarrow> away st k (cs_control noting_state)"
  by (simp add: away_def noting_state_def sample_service_def sample_row_def)

section \<open>Ready only with evidence\<close>

text \<open>The branches that end a run in another way.\<close>

lemma ready_endings:
  assumes "quiet env (unless E (away ready_st k))"
  shows "stable (unless E (away ready_st k)) (continue_abort_once env j)"
    "stable (unless_flow E (away ready_st k)) (finalize_merged env run items mr key)"
proof -
  have "stable (unless E (away ready_st k)) (finish_delivery env run j who reason)" for run who reason
    by (rule quiet_finish_delivery [OF assms]) (auto intro: stable_commits)
  then show "stable (unless E (away ready_st k)) (continue_abort_once env j)"
    by (intro quiet_abort_once stable_intros ready_passing assms)
  show "stable (unless_flow E (away ready_st k)) (finalize_merged env run items mr key)"
    by (rule quiet_merged [OF assms ready_passing]) (auto intro: stable_commits)
qed

lemma ready_stable:
  assumes "observation \<in> {review_passed env k, test_passed env k, documents_intact env k, merge_request_ready env k}"
    and "marks observation E"
    and "quiet env (unless E (away ready_st k))" and "quiet env (unless E (\<lambda>_. False))"
  shows "stable (unless_flow E (away ready_st k)) (reconcile_run_with_policy env mo j)"
  by (intro quiet_reconcile quiet_cards quiet_active ready_endings ready_judge [OF assms(3,4,1,2)] ready_passing assms(3))


lemma gate_noted: "checked_gate noting_env run md s = (Inr (), t) \<Longrightarrow> noted (si_outside (snd t))"
  by (auto simp: checked_gate_def ok_simps noting_env_def noting_gitlab_def noting_def noted_def case_prod_unfold)


section \<open>Aborted only when the cards are stopped\<close>

lemma other_judge:
  assumes "quiet env (unless E (away st k))" "st \<in> set TERMINAL_RUN_STATES"
    and "st \<notin> {''completed_ready'', ''completed_with_findings'', ''completed_test_failed''}"
  shows "stable (unless_flow E (away st k)) (judge_latest env mo run items latest)"
proof (rule quiet_judge [OF assms(1) passing_away [OF assms(2)]])
  fix md
  assume c: "stage_contract md"
  have "stable (unless_flow E (away st k)) (follow_route env mo run items latest md attempts mods paired)"
    for attempts mods paired
  proof (rule quiet_route [OF assms(1) passing_away [OF assms(2)] c])
    fix ts
    assume "rt_terminal_state (route_completion md attempts (fl_config env) paired mods) = Some ts"
    from route_terminal(1) [OF this] assms(3)
    show "stable (unless_flow E (away st k)) (finalize_code_flow env run items latest md ts paired mods)"
      by (intro unready_code_flow assms) auto
  qed
  then show "stable (unless_flow E (away st k)) (gitlab_checks env run items latest md
      (head_checks env run items latest md (after_acceptance env mo run items latest md)))"
    by (intro quiet_gitlab_checks quiet_head_checks quiet_acceptance passing_away assms(1,2))
qed

text \<open>
  The whole history of the run of key \<open>k\<close> was read, and every card of it that was not done
  stopped.
\<close>

definition cards_stopped :: "'w flow_env \<Rightarrow> string \<Rightarrow> 'w shared \<Rightarrow> 'w shared \<Rightarrow> bool" where
  "cards_stopped env k s t \<longleftrightarrow> (\<exists>items run reason u c. history (hist env) k s = (Inr (items, run), u) \<and>
     stop_cards env run reason items (c, snd u) = (Inr True, t))"

lemma aborting_keeps_sides: "snd (snd (timed env (\<lambda>now. on_ctl (mark_aborting now j)) s)) = snd s"
  by (simp add: timed_def on_ctl_def on_part_def case_prod_unfold)

lemma abort_once_marked:
  assumes "quiet env (unless E R)" "passing R" "quiet env (unless E (\<lambda>_. False))" "marks (cards_stopped env j) E"
  shows "stable (unless E R) (continue_abort_once env j)"
proof -
  let ?P = "unless E R" and ?Q = "unless E (\<lambda>_. False)"
  let ?stop = "\<lambda>run who reason items. then_do (stop_cards env run reason items) (\<lambda>stopped.
      if stopped then finish_delivery env run j who reason else give ())"
  have stop: "?P (snd (?stop run who reason items (c, snd u)))"
    if h: "history (hist env) j s = (Inr (items, run), u)" and v: "?P (c, snd u)" for s items run u c who reason
  proof -
    obtain r t where st: "stop_cards env run reason items (c, snd u) = (r, t)" by (metis prod.collapse)
    have t: "?P t" using stableD [OF quiet_stop_cards [OF assms(1)] v] st by (metis snd_conv)
    show ?thesis
    proof (cases "r = Inr True")
      case True
      with h st assms(4) have "?Q t" unfolding marks_def cards_stopped_def unless_def by blast
      moreover have "stable ?Q (finish_delivery env run j who reason)"
        by (intro quiet_finish_delivery commits_keep_marks assms(3))
      ultimately have "?Q (snd (finish_delivery env run j who reason t))" by (blast dest: stableD)
      then show ?thesis using st True marked_weaker(1) by simp
    next
      case False
      with st t show ?thesis by (cases r) simp_all
    qed
  qed
  have "stable ?P (then_do (history (hist env) j) (\<lambda>(items, run).
      then_do (timed env (\<lambda>now. on_ctl (mark_aborting now j))) (\<lambda>_. ?stop run who reason items)))" for who reason
  proof (rule stableI)
    fix s assume s: "?P s"
    obtain r u where u: "history (hist env) j s = (r, u)" by (metis prod.collapse)
    have pu: "?P u" using stableD [OF quiet_history_reads(1) [OF assms(1)] s, of j] u by simp
    show "?P (snd (then_do (history (hist env) j) (\<lambda>(items, run).
        then_do (timed env (\<lambda>now. on_ctl (mark_aborting now j))) (\<lambda>_. ?stop run who reason items)) s))"
    proof (cases r)
      case (Inr v)
      obtain items run where v: "v = (items, run)" by (cases v)
      obtain e c d where c: "timed env (\<lambda>now. on_ctl (mark_aborting now j)) u = (e, (c, d))" by (metis prod.collapse)
      with aborting_keeps_sides [of env j u] have d: "d = snd u" by simp
      have "stable ?P (timed env (\<lambda>now. on_ctl (mark_aborting now j)))"
        by (intro stable_timed passing_ctl assms)
      from stableD [OF this pu] c d have "?P (c, snd u)" by simp
      with stop [OF u [unfolded Inr v]] u Inr v c d show ?thesis by (cases e) simp_all
    qed (use u pu in simp)
  qed
  note rest = this
  show ?thesis unfolding continue_abort_once_def Let_def
    by (rule stable_then, rule stable_read, rule stable_option, rule stable_pure, rule stable_if, rule stable_pure, rule rest)
qed


text \<open>The boards of the run are read, and it is the reading that leaves the mark.\<close>

lemma task_noted: "task (kb noting_env) board card_id s = (r, t) \<Longrightarrow> noted (si_outside (snd t))"
  by (auto simp: task_def connect_board_def kb_def noting_env_def noting_history_def noting_def noted_def
      then_do_def split: prod.splits)

lemma items_noted:
  "fold_do (read_item (hist noting_env)) cards items s = (Inr v, t) \<Longrightarrow> cards \<noteq> [] \<Longrightarrow> noted (si_outside (snd t))"
proof (induction cards arbitrary: items s)
  case (Cons c cards)
  then obtain x u where x: "read_item (hist noting_env) c items s = (Inr x, u)"
    "fold_do (read_item (hist noting_env)) cards x u = (Inr v, t)"
    by (auto simp: then_do_ok)
  show ?case
  proof (cases "cards = []")
    case True
    with x show ?thesis by (auto simp: read_item_def ok_simps dest: task_noted split: option.splits)
  next
    case False
    with Cons.IH x show ?thesis by blast
  qed
qed simp

lemma checks_keep: "for_each (\<lambda>x. checked (f x)) xs s = (Inr v, t) \<Longrightarrow> t = s"
  by (induction xs) (auto simp: ok_simps)

lemma history_noted: "history (hist noting_env) k s = (Inr v, u) \<Longrightarrow> noted (si_outside (snd u))"
  by (auto simp: history_def ok_simps dest!: items_noted checks_keep split: option.splits if_splits)


section \<open>Completed only when GitLab has merged\<close>

definition seen_merged :: "'w flow_env \<Rightarrow> string \<Rightarrow> 'w shared \<Rightarrow> 'w shared \<Rightarrow> bool" where
  "seen_merged env k s t \<longleftrightarrow> (\<exists>run mr. rr_run_key run = k \<and>
     delivery_mr (hist env) run s = (Inr (Some mr), t) \<and> is_merged mr)"

text \<open>
  C16. A run is completed only when its merge request was seen merged: take any mark that
  reading the run's delivery as merged leaves in the outside world. If nothing the
  controller calls completes the run without the mark or removes it, then no
  reconciliation of any run leaves the run completed without the mark.
\<close>

theorem completed_needs_merge:
  assumes "marks (seen_merged env k) E"
    and "quiet env (unless E (away ''completed'' k))" and "quiet env (unless E (\<lambda>_. False))"
    and "away ''completed'' k (cs_control s)"
  shows "away ''completed'' k (cs_control (snd (reconcile_run_with_policy env mo j s))) \<or>
    E (si_outside (cs_world (snd (reconcile_run_with_policy env mo j s))))"
proof -
  let ?P = "unless_flow E (away ''completed'' k)" and ?Q = "unless_flow E (\<lambda>_. False)"
  have t: "''completed'' \<in> set TERMINAL_RUN_STATES" by (simp add: TERMINAL_RUN_STATES_def)
  note p = passing_away [OF t]
  have finish: "stable (unless E (away ''completed'' k)) (finish_delivery env run j who reason)" for run who reason
    by (rule quiet_finish_delivery [OF assms(2)]) (auto intro: stable_commits)
  have active: "stable ?P (reconcile_active env mo run j items)" for run items
    by (intro quiet_active other_judge p t assms(2)) auto
  have cards: "stable ?P (reconcile_cards env mo run j items)" for run items
    unfolding reconcile_cards_def
  proof (rule stable_then_marked [where Q = ?Q])
    fix v
    let ?rest = "case (case v of Some kvs \<Rightarrow> if is_merged kvs then Some kvs else None | None \<Rightarrow> None) of
         Some kvs \<Rightarrow> finalize_merged env run items kvs None
       | None \<Rightarrow> then_do (on_shared (assert_mutable j)) (\<lambda>_.
           case find (\<lambda>item. is_active item \<and> mc_purpose (hi_managed item) = ''root'' \<and>
               tk_status (hi_task item) = ''blocked'') items of
             Some root_item \<Rightarrow> start_run_cards env run j root_item
           | None \<Rightarrow> reconcile_active env mo run j items)"
    show "stable ?P ?rest \<or> (\<forall>s t. on_shared (delivery_mr (hist env) run) s = (Inr v, t) \<longrightarrow> ?Q t) \<and> stable ?Q ?rest"
    proof (cases "\<exists>kvs. v = Some kvs \<and> is_merged kvs \<and> rr_run_key run = k")
      case True
      then obtain kvs where v: "v = Some kvs" "is_merged kvs" "rr_run_key run = k" by blast
      have "?Q t" if "on_shared (delivery_mr (hist env) run) s = (Inr v, t)" for s t
        using that by (rule on_shared_marks)
          (use assms(1) v in \<open>unfold marks_def seen_merged_def unless_def, blast\<close>)
      moreover have "stable ?Q ?rest" using v
        by (simp add: quiet_merged [OF assms(3) passing_never commits_keep_marks(2,3)])
      ultimately show ?thesis by blast
    next
      case False
      have "stable ?P (finalize_merged env run items kvs None)" if "rr_run_key run \<noteq> k" for kvs
        by (rule quiet_merged [OF assms(2) p]) (use that in \<open>auto intro: stable_commits\<close>)
      with False have "stable ?P ?rest"
        by (cases v) (auto intro!: quiet_unmerged active p assms(2))
      then show ?thesis ..
    qed
  qed (use marked_weaker(2) in \<open>auto intro!: stable_intros assms(2)\<close>)
  have "stable ?P (reconcile_run_with_policy env mo j)"
    by (intro quiet_reconcile quiet_abort_once stable_intros finish cards p assms(2))
  from stableD [OF this, of s] assms(4) show ?thesis
    by (auto simp: unless_flow_def unless_def shared_of_def)
qed

theorem completed_needs_merge_witness:
  "away ''completed'' ''r'' (cs_control (snd (reconcile_run_with_policy noting_env noting_merge ''r'' noting_state))) \<or>
   noted (si_outside (cs_world (snd (reconcile_run_with_policy noting_env noting_merge ''r'' noting_state))))"
proof (rule completed_needs_merge [where E = noted])
  show "marks (seen_merged noting_env ''r'') noted"
    by (auto simp: marks_def seen_merged_def delivery_mr_def then_do_ok hist_def noting_env_def noting_history_def
        noting_def noted_def split: option.splits)
qed (simp_all add: quiet_noting noting_away)

end
