(* ===== verification/Delivery_Properties.thy ===== *)
theory Delivery_Properties
  imports GitLab_Properties Reconcile_Properties
begin

text \<open>
  The controller with its GitLab client: the operations the handlers call are those of
  gitlab.py, so that what reconciliation promises becomes a promise about the notes and
  merge requests glab shows.
\<close>

section \<open>The client in its place\<close>

text \<open>\<open>validate_gate\<close> answers \<open>None\<close> only for stages without a gate; \<open>_mark_delivery_ready\<close> drops the answer.\<close>

definition gitlab_client :: "'w gitlab_env \<Rightarrow> 'w gitlab_ops" where
  "gitlab_client ge = \<lparr>
     gl_repository_evidence = validate_repository_evidence ge,
     gl_author_completion = (\<lambda>run md. then_do (validate_author_completion ge run md) (\<lambda>_. give ())),
     gl_gate = (\<lambda>run md. then_do (validate_gate ge run md) (\<lambda>author. give (case author of Some a \<Rightarrow> a | None \<Rightarrow> ''None''))),
     gl_artifact_completion = validate_artifact_completion ge,
     gl_artifact_gate_at_ref = validate_artifact_gate_at_ref ge,
     gl_delivery_mr = (\<lambda>run iid. then_do (fetch_mr ge run iid) (\<lambda>mr. give (Some mr))),
     gl_mark_ready = (\<lambda>run b. then_do (mark_delivery_ready ge run b) (\<lambda>_. give ())),
     gl_abort_delivery = abort_delivery ge\<rparr>"

definition with_client :: "'w shared gitlab_env \<Rightarrow> 'w flow_env \<Rightarrow> 'w flow_env" where
  "with_client ge env = env\<lparr>fl_gitlab := gitlab_client ge,
     fl_history := (fl_history env)\<lparr>hv_binding_at := validate_delivery_binding ge,
       hv_gate_at := gitlab_semantic_gate ge, hv_baseline_at := validate_baseline_at_ref ge\<rparr>\<rparr>"

definition client_merge :: "'w shared gitlab_env \<Rightarrow> 'w shared merge_ops" where
  "client_merge ge = \<lparr>mo_validate = validate_merge ge, mo_merge = merge ge\<rparr>"

section \<open>The client leaves alone what glab and git leave alone\<close>

definition calm_tools :: "'w gitlab_env \<Rightarrow> ('w \<Rightarrow> bool) \<Rightarrow> bool" where
  "calm_tools ge P \<longleftrightarrow> (\<forall>command. calm P (ge_glab ge command)) \<and> (\<forall>directory args. calm P (ge_git ge directory args))"

lemma calm_glab [stable_intros]:
  assumes "calm_tools ge P"
  shows "stable P (run_glab ge command tolerate)"
proof (rule stableI)
  fix s assume "P s"
  with assms have "P (snd (ge_glab ge command s))" unfolding calm_tools_def calm_def by blast
  with \<open>P s\<close> show "P (snd (run_glab ge command tolerate s))"
    by (cases "ge_glab ge command s"; cases "fst (ge_glab ge command s)")
      (auto simp: run_glab_def Let_def split: sum.splits)
qed

lemma calm_git [stable_intros]:
  assumes "calm_tools ge P"
  shows "stable P (git ge directory args tolerate)"
proof (rule stableI)
  fix s assume "P s"
  with assms have "P (snd (ge_git ge directory args s))" unfolding calm_tools_def calm_def by blast
  with \<open>P s\<close> show "P (snd (git ge directory args tolerate s))"
    by (cases "ge_git ge directory args s"; cases "fst (ge_git ge directory args s)")
      (auto simp: git_def Let_def split: sum.splits)
qed

lemma calm_api [stable_intros]:
  assumes "calm_tools ge P"
  shows "stable P (api ge endpoint verb kvs)" "stable P (api_object ge endpoint verb kvs)"
proof -
  have "stable P (\<lambda>w. if code \<noteq> 0 then (Inl (api_error ge w endpoint out err), w)
       else case ge_loads ge out of Some v \<Rightarrow> (Inr v, w) | None \<Rightarrow> (Inl e, w))" for code :: int and out err e
    by (rule stableI) (auto split: option.split)
  then have "stable P (case x of (code, out, err) \<Rightarrow> \<lambda>w. if code \<noteq> 0 then (Inl (api_error ge w endpoint out err), w)
       else case ge_loads ge out of Some v \<Rightarrow> (Inr v, w)
       | None \<Rightarrow> (Inl (contract_error (''GitLab returned invalid JSON for '' @ endpoint) endpoint ''invalid_json''), w))"
    for x :: "int \<times> string \<times> string"
    by (cases x) simp
  then show api: "stable P (api ge endpoint verb kvs)"
    unfolding api_def by (intro stable_then calm_glab assms) simp
  show "stable P (api_object ge endpoint verb kvs)"
    unfolding api_object_def by (intro stable_intros api)
qed

lemma stable_json [stable_intros]:
  assumes "stable P a" "\<And>b. stable P (f b)" "\<And>n. stable P (g n)" "\<And>t. stable P (h t)" "\<And>xs. stable P (l xs)"
    "\<And>kvs. stable P (obj kvs)"
  shows "stable P (case v of JNull \<Rightarrow> a | JBool b \<Rightarrow> f b | JInt n \<Rightarrow> g n | JStr t \<Rightarrow> h t | JList xs \<Rightarrow> l xs | JObj kvs \<Rightarrow> obj kvs)"
  using assms by (cases v) simp_all

lemma calm_pages [stable_intros]: "calm_tools ge P \<Longrightarrow> stable P (paginated_list ge endpoint)"
proof -
  assume ge: "calm_tools ge P"
  have "stable P (list_pages ge endpoint fuel page items)" for fuel page items
    by (induction fuel arbitrary: page items) (auto simp: Let_def intro!: stable_intros ge)
  then show ?thesis by (simp add: paginated_list_def)
qed

lemma stable_prod_case [stable_intros]: "(\<And>a b. x = (a, b) \<Longrightarrow> stable P (f a b)) \<Longrightarrow> stable P (case x of (a, b) \<Rightarrow> f a b)"
  by (cases x) simp

lemma calm_reads [stable_intros]:
  "calm_tools ge P \<Longrightarrow> stable P (fetch_mr ge run iid)"
  "calm_tools ge P \<Longrightarrow> stable P (gl_file ge run path ref)"
  "calm_tools ge P \<Longrightarrow> stable P (artifact_paths ge run ref patterns)"
  "calm_tools ge P \<Longrightarrow> stable P (changed_paths ge run from_ref to_ref)"
  "calm_tools ge P \<Longrightarrow> stable P (artifact_digest ge run ref paths)"
  unfolding fetch_mr_def gl_file_def artifact_paths_def changed_paths_def artifact_digest_def tree_line_def blob_line_def
  by (intro stable_intros; assumption?)+

lemma calm_frozen [stable_intros]:
  "calm_tools ge P \<Longrightarrow> stable P (same_artifacts ge run what stage ref paths digest)"
  "calm_tools ge P \<Longrightarrow> stable P (validate_artifact_gate_at_ref ge run md ref)"
  "calm_tools ge P \<Longrightarrow> stable P (validate_baseline_at_ref ge run b ref)"
  unfolding validate_artifact_gate_at_ref_def validate_baseline_at_ref_def same_artifacts_def
  by (intro stable_intros; assumption?)+

lemma calm_artifacts [stable_intros]:
  "calm_tools ge P \<Longrightarrow> stable P (validate_forced_advance ge run md)"
  "calm_tools ge P \<Longrightarrow> stable P (phase_changes ge run md commit)"
  "calm_tools ge P \<Longrightarrow> stable P (run_changes ge run commit)"
  unfolding validate_forced_advance_def phase_changes_def run_changes_def
  by (intro stable_intros; assumption?)+

lemma calm_artifact_completion [stable_intros]: "calm_tools ge P \<Longrightarrow> stable P (validate_artifact_completion ge run md)"
  unfolding validate_artifact_completion_def Let_def by (intro stable_intros; assumption?)+

lemma calm_gate [stable_intros]:
  "calm_tools ge P \<Longrightarrow> stable P (validate_gate_note ge run iid md)"
  "calm_tools ge P \<Longrightarrow> stable P (validate_gate ge run md)"
  unfolding validate_gate_def validate_gate_note_def Let_def by (intro stable_intros; assumption?)+

lemma calm_claims [stable_intros]:
  "calm_tools ge P \<Longrightarrow> stable P (validate_repository_evidence ge run md)"
  "calm_tools ge P \<Longrightarrow> stable P (validate_author_completion ge run md)"
  "calm_tools ge P \<Longrightarrow> stable P (validate_delivery_binding ge run b)"
  "calm_tools ge P \<Longrightarrow> stable P (mark_delivery_ready ge run b)"
  "calm_tools ge P \<Longrightarrow> stable P (abort_delivery ge run iid who reason)"
  unfolding validate_repository_evidence_def validate_author_completion_def validate_delivery_binding_def
    mark_delivery_ready_def abort_delivery_def close_mr_def Let_def
  by (intro stable_intros; assumption?)+

lemma calm_semantic [stable_intros]: "calm_tools ge P \<Longrightarrow> stable P (gitlab_semantic_gate ge run md)"
  unfolding gitlab_semantic_gate_def reviewer_confirms_def gate_documents_def document_text_def check_all_evidence_def check_evidence_def
    url_evidence_def path_evidence_def check_note_def
  by (intro stable_intros; assumption?)+

lemma with_client_parts [simp]:
  "kb (with_client ge env) = kb env" "fl_wire (with_client ge env) = fl_wire env"
  "fl_files (with_client ge env) = fl_files env" "fl_admission (with_client ge env) = fl_admission env"
  "fl_gitlab (with_client ge env) = gitlab_client ge" "notified (with_client ge env) = notified env"
  "hv_binding_at (fl_history (with_client ge env)) = validate_delivery_binding ge"
  "hv_gate_at (fl_history (with_client ge env)) = gitlab_semantic_gate ge"
  "hv_baseline_at (fl_history (with_client ge env)) = validate_baseline_at_ref ge"
  by (simp_all add: with_client_def kb_def notified_def fun_eq_iff)

lemma quiet_client:
  assumes "quiet env P" "calm_tools ge P"
  shows "quiet (with_client ge env) P"
proof -
  have "stable P (gl_author_completion (gitlab_client ge) run md)" "stable P (gl_gate (gitlab_client ge) run md)"
    "stable P (gl_delivery_mr (gitlab_client ge) run iid)" "stable P (gl_mark_ready (gitlab_client ge) run b)" for run md iid b
    unfolding gitlab_client_def by (simp_all, (intro stable_intros assms)+)
  with assms show ?thesis
    unfolding quiet_def by (simp add: gitlab_client_def calm_claims calm_artifact_completion calm_frozen calm_semantic)
qed

section \<open>Ready only with an authorised review\<close>

text \<open>
  An authorised note was seen that accepts the code review of a run of key \<open>k\<close>; a note that
  rejects it has another marker.
\<close>

definition review_note_seen :: "'w shared gitlab_env \<Rightarrow> string \<Rightarrow> 'w shared \<Rightarrow> 'w shared \<Rightarrow> bool" where
  "review_note_seen ge k s t \<longleftrightarrow> (\<exists>run md iid label u. rr_run_key run = k \<and> cm_stage md = CODE_REVIEW \<and>
     cm_outcome md = PASS \<and> saw_authorised_note ge run md iid label u t)"

lemma review_needs_a_note:
  assumes "review_passed (with_client ge env) k s t"
  shows "\<exists>u. review_note_seen ge k u t"
proof -
  from assms obtain run md where run: "rr_run_key run = k" "cm_stage md = CODE_REVIEW" "cm_outcome md = PASS"
    and gate: "checked_gate (with_client ge env) run md s = (Inr (), t)" unfolding review_passed_def by blast
  from gate obtain a where "validate_gate ge run md s = (Inr a, t)"
    by (auto simp: checked_gate_def gitlab_client_def ok_simps)
  moreover have "a \<noteq> None" if "validate_gate ge run md s = (Inr a, t)" for a
    using that run(2) by (auto simp: validate_gate_def ok_simps split: if_splits)
  ultimately obtain label where "validate_gate ge run md s = (Inr (Some label), t)" by (cases a) auto
  then obtain iid v where "validate_gate_note ge run iid md v = (Inr label, t)"
    by (auto simp: validate_gate_def ok_simps split: if_splits)
  from gate_note_checked [OF this] run show ?thesis unfolding review_note_seen_def by blast
qed


section \<open>A small controller with its client\<close>

definition noting_gitlab_env :: "bool shared gitlab_env" where
  "noting_gitlab_env = \<lparr>ge_config = sample_config, ge_hostname = ''h'', ge_base_url = ''https://h'',
     ge_token = (\<lambda>_. Inr ''secret''), ge_glab = (\<lambda>_. noting (Completed 0 [] [])),
     ge_git = (\<lambda>_ _. noting (Completed 0 [] [])), ge_git_command = ''git'', ge_is_dir = (\<lambda>_ _. True),
     ge_loads = (\<lambda>_. Some (JList [])), ge_str = (\<lambda>_. []), ge_int = (\<lambda>_. None), ge_sha256 = (\<lambda>_. sample_digest),
     ge_base64_text = (\<lambda>t. Some t), ge_fromisoformat = (\<lambda>_. None), ge_isoformat = (\<lambda>_. []),
     ge_urlparse = (\<lambda>_. Inl (ValueError [])), ge_http_url = Inr, ge_port = (\<lambda>_. Inr None), ge_unquote = (\<lambda>t. t),
     ge_task_blocks = (\<lambda>_. []), ge_pages = 2\<rparr>"

lemma calm_noting: "calm_tools noting_gitlab_env (unless noted R)"
  by (simp add: calm_tools_def noting_gitlab_env_def noting_calm)

lemma pages_noted: "list_pages noting_gitlab_env endpoint fuel page items s = (Inr xs, t) \<Longrightarrow> noted (si_outside (snd t))"
  by (induction fuel arbitrary: page items s)
    (auto simp: ok_simps api_def run_glab_def noting_gitlab_env_def noting_def noted_def Let_def
      split: json.splits if_splits)


end
