(* ===== verification/Requests.thy ===== *)
theory Requests
  imports Reconcile_Run
begin

text \<open>
  What a human asks for in a chat (service.py): \<open>start\<close>, \<open>abort_request\<close>,
  \<open>abort_confirm\<close>, \<open>resolve\<close>, \<open>recover\<close>, and \<open>_recover_sensitive_request\<close>, which closes
  an abort request that a crash interrupted. A request is a row of the journal: a second
  message with its key gets the recorded response.
\<close>

section \<open>Parameters\<close>

text \<open>
  The rest of the service and of gitlab.py that a start or a recovery calls, pydantic's
  dumps, and the rendering of the notices.
\<close>

datatype request_notice = RunAccepted TaskRecord | Resumed Stage string string | ExceptionRecovered string string

record 'w request_env =
  rq_validate_start :: "StartRequest \<Rightarrow> ('w shared, RunRecord \<times> string) op"
  rq_create_branch :: "RunRecord \<Rightarrow> ('w shared, json) op"
  rq_ensure_workspace :: "RunRecord \<Rightarrow> string \<Rightarrow> ('w shared, unit) op"
  rq_prepare_caches :: "RunRecord \<Rightarrow> ('w shared, json) op"
  rq_status_summary :: "string \<Rightarrow> ('w flow, (string \<times> json) list) op"
  rq_dump_run :: "RunRecord \<Rightarrow> string"
  rq_load_run :: "string \<Rightarrow> RunRecord option"
  rq_dump_completion :: "CompletionMetadata \<Rightarrow> json"
  rq_notice :: "RunRecord \<Rightarrow> request_notice \<Rightarrow> json"
  rq_python :: string
  rq_repr :: "string \<Rightarrow> string"

section \<open>The journal of requests\<close>

definition on_journal :: "(journal_db, 'a) op \<Rightarrow> ('w flow, 'a) op" where
  "on_journal = on_part cs_journal (\<lambda>j s. s\<lparr>cs_journal := j\<rparr>)"

definition flow_timed :: "'w flow_env \<Rightarrow> (int \<Rightarrow> ('w flow, 'a) op) \<Rightarrow> ('w flow, 'a) op" where
  "flow_timed env f s = f (fl_now env (shared_of s)) s"

definition begun :: "'w flow_env \<Rightarrow> string \<Rightarrow> string \<Rightarrow> json \<Rightarrow> ('w flow, json option) op" where
  "begun env key kind payload = flow_timed env (\<lambda>now. on_journal (begin_request now key kind payload))"

definition answered :: "'w flow_env \<Rightarrow> string \<Rightarrow> (string \<times> json) list \<Rightarrow> ('w flow, unit) op" where
  "answered env key response = flow_timed env (\<lambda>now. on_journal (finish_request now key (JObj response)))"

definition failed_with :: "'w flow_env \<Rightarrow> string \<Rightarrow> ctl_error \<Rightarrow> ('w flow, 'a) op" where
  "failed_with env key e =
     then_do (flow_timed env (\<lambda>now. on_journal (fail_request now key (error_message e)))) (\<lambda>_. checked (Inl e))"

text \<open>A dependency's failure leaves the request running, to be tried again.\<close>

definition abort_failed :: "'w flow_env \<Rightarrow> string \<Rightarrow> string option \<Rightarrow> ctl_error \<Rightarrow> ('w flow, 'a) op" where
  "abort_failed env key run_key e =
     (if is_dependency_error e \<and> \<not> is_contract e
      then then_do (on_shared (timed env (\<lambda>now s. case fl_fresh env s of (a, b) \<Rightarrow>
          on_service (record_request_dependency_error (circ env) now a b run_key e) s))) (\<lambda>_. checked (Inl e))
      else failed_with env key e)"

definition in_progress :: "string \<Rightarrow> ctl_error" where
  "in_progress key = RunPolicyError (''request_in_progress:'' @ key)"

definition request_failed :: "'w flow_env \<Rightarrow> string \<Rightarrow> string option \<Rightarrow> ctl_error \<Rightarrow> ('w flow, 'a) op" where
  "request_failed env key run_key e =
     (if is_run_policy_error e \<and> starts_with ''request_in_progress:'' (error_message e) then checked (Inl e)
      else abort_failed env key run_key e)"

text \<open>\<open>try: m finally: leave the guard\<close>\<close>

definition leaving :: "(guards \<Rightarrow> guards) \<Rightarrow> ('w flow, 'a) op \<Rightarrow> ('w flow, 'a) op" where
  "leaving finish m s = (case m s of (r, t) \<Rightarrow> (r, snd (on_shared (on_guards (\<lambda>g. ((), finish g))) t)))"

text \<open>
  What the handlers have in common: the guard of the key, the row of the request, and a
  response that was recorded before, given as \<open>again\<close> says.
\<close>

definition executing ::
  "'w flow_env \<Rightarrow> string \<Rightarrow> string \<Rightarrow> json \<Rightarrow> (json \<Rightarrow> (string \<times> json) list) \<Rightarrow> ('w flow, (string \<times> json) list) op \<Rightarrow>
   ('w flow, (string \<times> json) list) op \<Rightarrow> ('w flow, (string \<times> json) list) op" where
  "executing env key kind payload again busy body =
     then_do (on_shared (on_guards (begin_request_execution key))) (\<lambda>entered.
       if \<not> entered then busy
       else leaving (finish_request_execution key) (then_do (begun env key kind payload) (\<lambda>previous. case previous of
         Some response \<Rightarrow> give (again response) | None \<Rightarrow> body)))"

text \<open>The run is claimed for the rest of the request.\<close>

definition claiming ::
  "string \<Rightarrow> string \<Rightarrow> (ctl_error \<Rightarrow> ('w flow, 'a) op) \<Rightarrow> ('w flow, 'a) op \<Rightarrow> ('w flow, 'a) op" where
  "claiming run_key key handle m =
     then_do (on_shared (on_guards (begin_reconcile run_key))) (\<lambda>entered.
       if \<not> entered then handle (in_progress key)
       else leaving (finish_reconcile_guard run_key) (try_do m handle give))"

definition active_mode :: "'w flow_env \<Rightarrow> unit res" where
  "active_mode env = (if cf_controller_mode (fl_config env) \<noteq> ''active'' then Inl (ValueError ''controller_preflight_mode'')
     else Inr ())"

definition object_of :: "json \<Rightarrow> (string \<times> json) list" where
  "object_of v = (case v of JObj kvs \<Rightarrow> kvs | _ \<Rightarrow> [])"

section \<open>Requests\<close>

text \<open>pydantic strips the texts and checks the fields.\<close>

definition stripped :: "'a ChatRequest_scheme \<Rightarrow> 'a ChatRequest_scheme" where
  "stripped q = q\<lparr>ch_run_key := strip (ch_run_key q), ch_message_id := strip (ch_message_id q),
     ch_sender := strip (ch_sender q), ch_chat_id := strip (ch_chat_id q), ch_thread_id := map_option strip (ch_thread_id q)\<rparr>"

definition bad_request :: ctl_error where
  "bad_request = ValueError ''validation error for the request''"

definition make_reason :: "ReasonRequest \<Rightarrow> ReasonRequest res" where
  "make_reason raw = (let q = (stripped raw)\<lparr>rq_reason := strip (rq_reason raw)\<rparr> in
     if reason_request_fields q then Inr q else Inl bad_request)"

definition make_confirm :: "AbortConfirmRequest \<Rightarrow> AbortConfirmRequest res" where
  "make_confirm raw = (let q = (stripped raw)\<lparr>rq_token := strip (rq_token raw)\<rparr> in
     if abort_confirm_fields q then Inr q else Inl bad_request)"

definition make_resolve :: "ResolveRequest \<Rightarrow> ResolveRequest res" where
  "make_resolve raw = (let q = (stripped raw)\<lparr>rq_card_id := strip (rq_card_id raw), rq_block_id := strip (rq_block_id raw),
       rq_answer := strip (rq_answer raw)\<rparr> in
     if resolve_request_fields q then Inr q else Inl bad_request)"

text \<open>The urls are checked by pydantic's \<open>AnyHttpUrl\<close> before.\<close>

definition make_start :: "StartRequest \<Rightarrow> StartRequest res" where
  "make_start raw = (let q = raw\<lparr>sq_message_id := strip (sq_message_id raw), sq_chat_id := strip (sq_chat_id raw),
       sq_thread_id := map_option strip (sq_thread_id raw), sq_initiator := strip (sq_initiator raw)\<rparr> in
     if start_request_fields q then Inr q else Inl bad_request)"

definition chat_payload :: "'a ChatRequest_scheme \<Rightarrow> (string \<times> json) list" where
  "chat_payload q = [(''run_key'', JStr (ch_run_key q)), (''message_id'', JStr (ch_message_id q)),
     (''sender'', JStr (ch_sender q)), (''chat_id'', JStr (ch_chat_id q)), (''thread_id'', opt_json (ch_thread_id q))]"

definition start_payload :: "StartRequest \<Rightarrow> json" where
  "start_payload q = JObj [(''prd_blob_url'', JStr (sq_prd_blob_url q)), (''prd_mr_url'', JStr (sq_prd_mr_url q)),
     (''message_id'', JStr (sq_message_id q)), (''chat_id'', JStr (sq_chat_id q)), (''thread_id'', opt_json (sq_thread_id q)),
     (''chat_type'', JStr (sq_chat_type q)), (''initiator'', JStr (sq_initiator q))]"

definition same_channel :: "RunRecord \<Rightarrow> 'a ChatRequest_scheme \<Rightarrow> bool" where
  "same_channel run q \<longleftrightarrow> ch_chat_id q = fo_chat_id (rr_origin run) \<and>
     or_text (ch_thread_id q) = or_text (fo_thread_id (rr_origin run))"

definition may_command :: "'w flow_env \<Rightarrow> RunRecord \<Rightarrow> string \<Rightarrow> bool" where
  "may_command env run sender \<longleftrightarrow> sender = fo_initiator_open_id (rr_origin run) \<or>
     sender \<in> set (cf_abort_admin_open_ids (fl_config env))"

text \<open>The two checks of a request that concerns a run, with what they raise.\<close>

definition authorised :: "'w flow_env \<Rightarrow> RunRecord \<Rightarrow> 'a ChatRequest_scheme \<Rightarrow> string \<Rightarrow> string \<Rightarrow> unit res" where
  "authorised env run q wrong_sender wrong_channel =
     (if \<not> may_command env run (ch_sender q) then Inl (PyPermissionError wrong_sender)
      else if \<not> same_channel run q then Inl (PyPermissionError wrong_channel)
      else Inr ())"

section \<open>Abort\<close>

definition abort_payload :: "ReasonRequest \<Rightarrow> json" where
  "abort_payload q = JObj (chat_payload q @ [(''reason'', JStr (rq_reason q))])"

definition confirm_payload :: "(string \<Rightarrow> string) \<Rightarrow> AbortConfirmRequest \<Rightarrow> json" where
  "confirm_payload sha256 q = JObj (chat_payload q @ [(''token_hash'', JStr (sha256 (rq_token q)))])"

text \<open>A token is shown once: a second request for it gets the rest of the first response.\<close>

definition without_token :: "json \<Rightarrow> (string \<times> json) list" where
  "without_token response = AList.update ''reissue_required'' (JBool True)
     (AList.update ''error_code'' (JStr ''token_unavailable'') (object_of response))"

definition abort_closed :: "string list" where
  "abort_closed = TERMINAL_RUN_STATES @ [''abort_requested'', ''aborting'']"

text \<open>\<open>confirm-abort\<close> stands for the Chinese command word.\<close>

definition confirmation_command :: "string \<Rightarrow> string \<Rightarrow> string" where
  "confirmation_command run_key token = ''confirm-abort '' @ run_key @ '' '' @ token"

definition abort_response :: "ab_row \<Rightarrow> HistoryItem list \<Rightarrow> string \<Rightarrow> (string \<times> json) list" where
  "abort_response row items token =
     [(''request_id'', JStr (ab_request_id row)), (''run_key'', JStr (ab_run_key row)),
      (''expires_at'', JInt (ab_expires_at row)), (''reason'', JStr (ab_reason row)),
      (''confirmation_token'', JStr token), (''confirmation_command'', JStr (confirmation_command (ab_run_key row) token)),
      (''impact'', JObj [(''active_cards'', JList (map (\<lambda>item. JStr (tk_id (hi_task item))) (filter is_active items))),
        (''mr_action'', JStr ''close-if-open''), (''branch_worktree'', JStr ''preserve'')])]"

definition persisted_response :: "(string \<times> json) list \<Rightarrow> (string \<times> json) list" where
  "persisted_response response =
     filter (\<lambda>(k, _). k \<notin> {''confirmation_token'', ''confirmation_command''}) response @
     [(''confirmation_required'', JBool True)]"

definition may_abort :: "'w flow_env \<Rightarrow> ReasonRequest \<Rightarrow> ('w shared, unit) op" where
  "may_abort env q =
     then_do (history (hist env) (ch_run_key q)) (\<lambda>(_, run).
     then_do (checked (authorised env run q
       ''only the run initiator or configured abort administrator may abort this run''
       ''abort must be requested in the original run chat/thread'')) (\<lambda>_.
     then_do (read_state (\<lambda>s. run_control (fst s) (ch_run_key q))) (\<lambda>control. case control of
       Some row \<Rightarrow> if rc_state row \<in> set abort_closed
         then checked (Inl (ValueError (''run is already '' @ rc_state row))) else give ()
     | None \<Rightarrow> give ())))"

text \<open>\<open>token\<close> is drawn by \<open>secrets.choice\<close>; only its hash is stored.\<close>

definition request_abort_now ::
  "'w flow_env \<Rightarrow> string \<Rightarrow> ReasonRequest \<Rightarrow> string \<Rightarrow> ('w flow, (string \<times> json) list) op" where
  "request_abort_now env token q key =
     then_do (on_shared (may_abort env q)) (\<lambda>_.
     then_do (on_shared (timed env (\<lambda>now. on_ctl (create_abort_request now key (ch_run_key q)
         (hv_sha256 (fl_history env) token) (ch_sender q) (ch_chat_id q) (ch_thread_id q) (rq_reason q)
         (now + cf_abort_confirmation_ttl_seconds (fl_config env)))))) (\<lambda>created.
     then_do (on_shared (history (hist env) (ch_run_key q))) (\<lambda>(items, _).
     then_do (answered env key (persisted_response (abort_response created items token))) (\<lambda>_.
     give (abort_response created items token)))))"

definition abort_request ::
  "'w flow_env \<Rightarrow> string \<Rightarrow> ReasonRequest \<Rightarrow> ('w flow, (string \<times> json) list) op" where
  "abort_request env token raw =
     then_do (checked (active_mode env)) (\<lambda>_. then_do (checked (make_reason raw)) (\<lambda>q.
       let key = ''abort-request:'' @ ch_message_id q in
       executing env key ''abort-request'' (abort_payload q) without_token (checked (Inl (in_progress key)))
         (try_do (request_abort_now env token q key) (abort_failed env key (Some (ch_run_key q))) give)))"

definition confirm_abort_now ::
  "'w flow_env \<Rightarrow> AbortConfirmRequest \<Rightarrow> string \<Rightarrow> ('w flow, (string \<times> json) list) op" where
  "confirm_abort_now env q key =
     then_do (on_shared (timed env (\<lambda>now. on_ctl (confirm_abort_request now (ch_run_key q)
         (hv_sha256 (fl_history env) (rq_token q)) (ch_sender q) (ch_chat_id q) (ch_thread_id q) (ch_message_id q)))))
       (\<lambda>control. let response = [(''run_key'', JStr (ch_run_key q)), (''state'', JStr (rc_state control)),
          (''reason'', opt_json (rc_abort_reason control)), (''continuation'', JStr ''pending-reconcile'')] in
        then_do (answered env key response) (\<lambda>_. give response))"

definition abort_confirm ::
  "'w flow_env \<Rightarrow> AbortConfirmRequest \<Rightarrow> ('w flow, (string \<times> json) list) op" where
  "abort_confirm env raw =
     then_do (checked (active_mode env)) (\<lambda>_. then_do (checked (make_confirm raw)) (\<lambda>q.
       let key = ''abort-confirm:'' @ ch_message_id q in
       executing env key ''abort-confirm'' (confirm_payload (hv_sha256 (fl_history env)) q) object_of
         (checked (Inl (in_progress key)))
         (try_do (confirm_abort_now env q key) (failed_with env key) give)))"

text \<open>A crash interrupted the request: its secret is gone, a committed confirmation stands.\<close>

definition aborted_response :: "string \<Rightarrow> rc_row \<Rightarrow> (string \<times> json) list" where
  "aborted_response run_key row = [(''run_key'', JStr run_key), (''state'', JStr (rc_state row)),
     (''reason'', opt_json (rc_abort_reason row)), (''continuation'',
       JStr (if rc_state row \<in> set TERMINAL_RUN_STATES then ''complete'' else ''pending-reconcile''))]"

definition reissue_response :: "string \<Rightarrow> (string \<times> json) list" where
  "reissue_response run_key = [(''run_key'', JStr run_key), (''error_code'', JStr ''token_unavailable''),
     (''reissue_required'', JBool True), (''message'', JStr (''the controller restarted before the secret-bearing abort ''
       @ ''request was durably completed; send a new Feishu message to request a new confirmation token''))]"

definition recover_sensitive_request :: "'w flow_env \<Rightarrow> request_row \<Rightarrow> ('w flow, unit) op" where
  "recover_sensitive_request env row =
     (let run_key = read_json env (object_of (rs_payload row)) ''run_key'' in
      then_do (read_state (\<lambda>s. run_control (cs_control s) run_key)) (\<lambda>control.
        answered env (rs_request_key row) (case control of
          Some c \<Rightarrow> if rs_kind row = ''abort-confirm'' \<and> rc_state c \<in> set abort_closed
            then aborted_response run_key c else reissue_response run_key
        | None \<Rightarrow> reissue_response run_key)))"

section \<open>Start\<close>

definition post :: "'w flow_env \<Rightarrow> string \<Rightarrow> string \<Rightarrow> string \<Rightarrow> json \<Rightarrow> ('w shared, unit) op" where
  "post env key run_key kind payload = timed env (\<lambda>now. on_queue (enqueue now key run_key kind payload))"

text \<open>\<open>_operation\<close> without a run: no version is checked.\<close>

definition plain_operation ::
  "'w flow_env \<Rightarrow> string \<Rightarrow> string \<Rightarrow> (string \<times> json) list \<Rightarrow> ('w shared, json) op \<Rightarrow> ('w flow, json) op" where
  "plain_operation env key kind payload action s =
     operation (fl_now env (shared_of s)) (fl_later env (shared_of s)) key kind (JObj payload) action None None None s"

definition returning :: "(string \<times> json) list \<Rightarrow> ('s, unit) op \<Rightarrow> ('s, json) op" where
  "returning result m = then_do m (\<lambda>_. give (JObj result))"

definition deep_preflight_passed :: "admin_db \<Rightarrow> bool" where
  "deep_preflight_passed db = (case deployment_preflight False db of None \<Rightarrow> False | Some (r, _) \<Rightarrow> dp_ok r \<and> dp_deep r)"

definition prepare_workspace :: "'w flow_env \<Rightarrow> 'w request_env \<Rightarrow> RunRecord \<Rightarrow> string \<Rightarrow> ('w flow, unit) op" where
  "prepare_workspace env rq run base_sha =
     (let k = rr_run_key run; w = rr_workspace run in
      then_do (plain_operation env (k @ '':remote-branch'') ''remote-branch''
         [(''run_key'', JStr k), (''branch'', JStr (wf_branch w)), (''base_sha'', JStr base_sha)] (rq_create_branch rq run)) (\<lambda>_.
      then_do (plain_operation env (k @ '':workspace'') ''workspace'' [(''run_key'', JStr k), (''base_sha'', JStr base_sha)]
         (returning [(''worktree'', JStr (wf_worktree w))] (rq_ensure_workspace rq run base_sha))) (\<lambda>_.
      then_do (read_state (\<lambda>s. deep_preflight_passed (si_admin (cs_world s)))) (\<lambda>passed.
      then_do (if passed then plain_operation env (k @ '':offline-caches'') ''offline-caches''
            [(''run_key'', JStr k), (''worktree'', JStr (wf_worktree w))] (rq_prepare_caches rq run)
          else give JNull) (\<lambda>_.
      then_do (plain_operation env (k @ '':board'') ''board''
         [(''board'', JStr (wf_board w)), (''name'', JStr (pf_project_display_name (rr_project run))),
          (''worktree'', JStr (wf_worktree w))]
         (returning [(''board'', JStr (wf_board w))] (ensure_board (kb env) (fl_config env) (wf_board w)
            (pf_project_display_name (rr_project run)) (wf_worktree w)))) (\<lambda>_. give ()))))))"

definition register_root :: "'w flow_env \<Rightarrow> RunRecord \<Rightarrow> ('w shared, TaskRecord) op" where
  "register_root env run =
     then_do (create_root (kb env) (fl_config env) (hv_json (hist env)) run) (\<lambda>root_task.
     then_do (checked (verify_root (hv_json (hist env)) root_task run)) (\<lambda>_.
     then_do (timed env (\<lambda>now. on_cards (add_managed_card now
        \<lparr>mc_board = wf_board (rr_workspace run), mc_card_id = tk_id root_task, mc_run_key = rr_run_key run,
         mc_stage = ''run-init'', mc_iteration = 0, mc_idempotency_key = rr_run_key run @ '':run-init'',
         mc_parent_card_id = None, mc_purpose = ''root'', mc_created_at = tk_created_at root_task\<rparr>
        (Some (tk_created_at root_task))))) (\<lambda>_. give root_task)))"

definition announce_start :: "'w flow_env \<Rightarrow> 'w request_env \<Rightarrow> RunRecord \<Rightarrow> TaskRecord \<Rightarrow> ('w shared, unit) op" where
  "announce_start env rq run first =
     then_do (if fl_level env = MINIMAL then give ()
        else post env (rr_run_key run @ '':progress:run-accepted'') (rr_run_key run) ''progress''
          (rq_notice rq run (RunAccepted first))) (\<lambda>_.
     enqueue_phase_started env run SPEC_PHASE first)"

definition started_response :: "RunRecord \<Rightarrow> TaskRecord \<Rightarrow> (string \<times> json) list" where
  "started_response run first = [(''run_key'', JStr (rr_run_key run)), (''source_key'', JStr (rr_source_key run)),
     (''run_generation'', JStr (rr_run_generation run)), (''project'', JStr (pf_project_path (rr_project run))),
     (''stage'', JStr (stage_value SPEC_WRITE)), (''active_card'', JStr (tk_id first)),
     (''board'', JStr (wf_board (rr_workspace run))), (''worktree'', JStr (wf_worktree (rr_workspace run)))]"

definition initialize_run ::
  "'w flow_env \<Rightarrow> 'w request_env \<Rightarrow> RunRecord \<Rightarrow> string \<Rightarrow> ('w flow, (string \<times> json) list) op" where
  "initialize_run env rq run base_sha =
     then_do (prepare_workspace env rq run base_sha) (\<lambda>_.
     then_do (on_shared (register_root env run)) (\<lambda>root_task.
     then_do (plain_operation env (rr_run_key run @ '':complete-root'') ''complete-root''
        [(''board'', JStr (wf_board (rr_workspace run))), (''card_id'', JStr (tk_id root_task))]
        (returning [(''card_id'', JStr (tk_id root_task))]
          (complete_root (kb env) (fl_config env) run (tk_id root_task)))) (\<lambda>_.
     then_do (create_card env run (SPEC_WRITE, NORMAL, None) (tk_id root_task) None None True) (\<lambda>first.
     then_do (on_shared (announce_start env rq run first)) (\<lambda>_.
     give (started_response run first))))))"

definition on_runs :: "(runs_db, 'a) op \<Rightarrow> ('w shared, 'a) op" where
  "on_runs m = on_cards (on_part cd_runs (\<lambda>r d. d\<lparr>cd_runs := r\<rparr>) m)"

definition stored_run :: "'w request_env \<Rightarrow> 'w flow \<Rightarrow> string \<Rightarrow> RunRecord option res" where
  "stored_run rq s run_key = run_record (rq_load_run rq) (cd_runs (si_cards (cs_world s))) run_key"

text \<open>The run of a request: the one bound to it by an earlier try, or GitLab's facts.\<close>

definition start_facts ::
  "'w flow_env \<Rightarrow> 'w request_env \<Rightarrow> StartRequest \<Rightarrow> string \<Rightarrow> ('w flow, RunRecord \<times> string) op" where
  "start_facts env rq q key =
     then_do (read_state (\<lambda>s. Option.bind (request (cs_journal s) key) rs_run_key)) (\<lambda>bound.
     then_do (\<lambda>s. (case or_text bound of None \<Rightarrow> Inr None | Some k \<Rightarrow> stored_run rq s k, s)) (\<lambda>persisted.
       case persisted of Some run \<Rightarrow> give (run, wf_repository_base_sha (rr_workspace run))
     | None \<Rightarrow> on_shared (rq_validate_start rq q)))"

definition register_run :: "'w flow_env \<Rightarrow> 'w request_env \<Rightarrow> string \<Rightarrow> RunRecord \<Rightarrow> ('w flow, unit) op" where
  "register_run env rq key run =
     then_do (on_shared (timed env (\<lambda>now. on_runs (save_run (rq_dump_run rq) (rq_load_run rq) now run)))) (\<lambda>_.
     then_do (on_shared (timed env (\<lambda>now. on_ctl (ensure_run_control now (rr_run_key run))))) (\<lambda>_.
     flow_timed env (\<lambda>now. on_journal (bind_request_run now key (rr_run_key run)))))"

definition start_run ::
  "'w flow_env \<Rightarrow> 'w request_env \<Rightarrow> string \<Rightarrow> RunRecord \<Rightarrow> string \<Rightarrow> ('w flow, (string \<times> json) list) op" where
  "start_run env rq key run base_sha =
     then_do (read_state (\<lambda>s. cards_for_run (si_cards (cs_world s)) (rr_run_key run))) (\<lambda>existing.
     then_do (if existing \<noteq> [] then rq_status_summary rq (rr_run_key run) else initialize_run env rq run base_sha) (\<lambda>response.
     then_do (answered env key response) (\<lambda>_. give response)))"

text \<open>The run's key takes part in the handling of an error from when it is known.\<close>

definition start_now ::
  "'w flow_env \<Rightarrow> 'w request_env \<Rightarrow> StartRequest \<Rightarrow> string \<Rightarrow> ('w flow, (string \<times> json) list) op" where
  "start_now env rq q key = try_do (start_facts env rq q key) (request_failed env key None) (\<lambda>(run, base_sha).
     let failed = request_failed env key (Some (rr_run_key run)) in
     try_do (register_run env rq key run) failed (\<lambda>_.
       claiming (rr_run_key run) key failed (start_run env rq key run base_sha)))"

definition pending_start :: "string \<Rightarrow> string \<Rightarrow> (string \<times> json) list" where
  "pending_start key status = [(''request_key'', JStr key), (''request_status'', JStr status), (''run_key'', JNull),
     (''phase'', JStr ''request-validation''), (''stage'', JStr ''run-initialization''), (''active_card'', JNull)]"

definition start_request_status ::
  "'w request_env \<Rightarrow> StartRequest \<Rightarrow> ('w flow, (string \<times> json) list) op" where
  "start_request_status rq q =
     (let key = ''start:'' @ sq_message_id q in
      then_do (read_state (\<lambda>s. request (cs_journal s) key)) (\<lambda>found. case found of
        None \<Rightarrow> give (pending_start key ''starting'')
      | Some row \<Rightarrow>
          if rs_status row = ''done'' \<and> (case rs_response row of None \<Rightarrow> False | Some r \<Rightarrow> truthy_json r)
          then give (case rs_response row of Some r \<Rightarrow> object_of r | None \<Rightarrow> [])
          else if rs_status row = ''failed''
          then checked (Inl (PyRuntimeError (case or_text (rs_error row) of Some e \<Rightarrow> e
            | None \<Rightarrow> ''request '' @ key @ '' failed'')))
          else then_do (\<lambda>s. (case or_text (rs_run_key row) of None \<Rightarrow> Inr None
              | Some k \<Rightarrow> map_sum id (map_option (\<lambda>_. k)) (stored_run rq s k), s)) (\<lambda>known. case known of
                None \<Rightarrow> give (pending_start key ''running'')
              | Some k \<Rightarrow> then_do (rq_status_summary rq k) (\<lambda>summary.
                  give (AList.update ''request_status'' (JStr ''running'') (AList.update ''request_key'' (JStr key) summary))))))"

definition start :: "'w flow_env \<Rightarrow> 'w request_env \<Rightarrow> StartRequest \<Rightarrow> ('w flow, (string \<times> json) list) op" where
  "start env rq raw =
     then_do (checked (active_mode env)) (\<lambda>_. then_do (checked (make_start raw)) (\<lambda>q.
       let key = ''start:'' @ sq_message_id q in
       executing env key ''start'' (start_payload q) object_of (start_request_status rq q) (start_now env rq q key)))"

section \<open>Resolving a human block\<close>

definition RESOLVABLE_HUMAN_BLOCK_STATUSES :: "string set" where
  "RESOLVABLE_HUMAN_BLOCK_STATUSES = {''blocked'', ''triage'', ''todo'', ''ready''}"

definition comment_bodies :: "TaskRecord \<Rightarrow> string list" where
  "comment_bodies t = map hc_body (tk_comments t)"

definition block_comment_of :: "TaskRecord \<Rightarrow> string \<Rightarrow> string option" where
  "block_comment_of t block_id = find (\<lambda>b. contains_str human_block_marker b \<and>
     contains_str (''block_id: '' @ block_id) b) (rev (comment_bodies t))"

text \<open>The card that an earlier try created for the same answer.\<close>

definition resumes :: "string \<Rightarrow> string \<Rightarrow> WorkMode \<Rightarrow> CardRecord \<Rightarrow> bool" where
  "resumes card_id answer mode c \<longleftrightarrow> cr_resumed_from_card_id c = Some card_id \<and> cr_resume_answer c = Some answer \<and>
     cr_mode c = mode"

fun resolved_retry ::
  "'w history_env \<Rightarrow> string \<Rightarrow> Stage \<Rightarrow> WorkMode \<Rightarrow> string \<Rightarrow> HistoryItem list \<Rightarrow> TaskRecord option res" where
  "resolved_retry env card_id stage mode answer [] = Inr None"
| "resolved_retry env card_id stage mode answer (item # items) =
     (if \<not> is_work item \<or> mc_stage (hi_managed item) \<noteq> stage_value stage \<or>
         mc_parent_card_id (hi_managed item) \<noteq> Some card_id
      then resolved_retry env card_id stage mode answer items
      else case item_body env item of
        Inl e \<Rightarrow> if is_value_error e then resolved_retry env card_id stage mode answer items else Inl e
      | Inr c \<Rightarrow> if resumes card_id answer mode c then Inr (Some (hi_task item))
          else resolved_retry env card_id stage mode answer items)"

definition cancelled_completion ::
  "RunRecord \<Rightarrow> managed_row \<Rightarrow> string \<Rightarrow> CardRecord \<Rightarrow> Stage \<Rightarrow> WorkMode \<Rightarrow> string list \<Rightarrow> CompletionMetadata" where
  "cancelled_completion run managed card_id c stage mode issues =
     \<lparr>cm_protocol_version = ''hollysys-controller/v4'', cm_run_key = rr_run_key run, cm_source_key = rr_source_key run,
      cm_run_generation = rr_run_generation run, cm_context_digest = cr_context_digest c, cm_stage = stage,
      cm_iteration = mc_iteration managed, cm_mode = mode, cm_outcome = CANCELLED,
      cm_project_id = pf_project_id (rr_project run), cm_project_path = pf_project_path (rr_project run),
      cm_checkout = wf_checkout (rr_workspace run), cm_worktree = wf_worktree (rr_workspace run),
      cm_branch = wf_branch (rr_workspace run), cm_target_branch = wf_target_branch (rr_workspace run),
      cm_prd_path = sf_prd_path (rr_source run), cm_prd_commit_sha = sf_prd_commit_sha (rr_source run),
      cm_prd_blob_sha = sf_prd_blob_sha (rr_source run), cm_prd_mr_url = sf_prd_mr_url (rr_source run),
      cm_kanban_card_id = card_id,
      cm_mr_iid = None, cm_mr_url = None, cm_head_before_sha = cr_expected_head_sha c, cm_head_sha = None,
      cm_artifact_commit_sha = None, cm_artifact_digest = None, cm_artifact_paths = [],
      cm_baseline_disposition = None, cm_forced_advance = None, cm_repository_evidence = None,
      cm_test_disposition = None, cm_skip_reason = None, cm_verification = [], cm_gitlab_urls = [],
      cm_key_decisions = [], cm_issues = issues, cm_residual_risk = [],
      cm_gate_phase = None, cm_gate_decision = None, cm_gate_reviewer = None, cm_gate_reviewed_at = None,
      cm_gate_reason = None, cm_gate_evidence_refs = [], cm_gate_artifact_paths = [],
      cm_gate_artifact_commit_sha = None, cm_gate_artifact_digest = None, cm_contract_refs = [],
      cm_requirement_ids = [], cm_deterministic_checks = []\<rparr>"

definition controller_completion ::
  "'w flow_env \<Rightarrow> RunRecord \<Rightarrow> managed_row \<Rightarrow> string \<Rightarrow> Stage \<Rightarrow> WorkMode \<Rightarrow> string list \<Rightarrow> ('w shared, CompletionMetadata) op" where
  "controller_completion env run managed card_id stage mode issues =
     then_do (history (hist env) (rr_run_key run)) (\<lambda>(items, _).
       case find (\<lambda>item. tk_id (hi_task item) = card_id) items of
         None \<Rightarrow> checked (Inl (ValueError (''unknown managed card '' @ card_id)))
       | Some item \<Rightarrow> then_do (checked (item_body (hist env) item)) (\<lambda>c.
           let md = cancelled_completion run managed card_id c stage mode issues in
           if \<not> completion_fields md then checked (Inl (ValueError ''validation error for CompletionMetadata''))
           else then_do (checked (validate_stage_contract md)) (\<lambda>_. give md)))"

definition resolve_args :: "string \<Rightarrow> int \<Rightarrow> transition_args" where
  "resolve_args block_id version =
     \<lparr>ta_expected_states = [''human_blocked''], ta_new_state = ''active'',
      ta_reason = ''human_resolve:'' @ block_id @ '':actor=hollysys-controller'', ta_expected_version = Some version,
      ta_next_retry_at = None, ta_compliance = None, ta_completion_source = None, ta_checked_head = None,
      ta_merge_commit_sha = None\<rparr>"

definition unblock_run :: "'w flow_env \<Rightarrow> string \<Rightarrow> string \<Rightarrow> ('w shared, unit) op" where
  "unblock_run env run_key block_id =
     then_do (read_state (\<lambda>s. run_state s run_key)) (\<lambda>state.
       if state \<noteq> ''human_blocked'' then give ()
       else then_do (\<lambda>s. (version_of s run_key, s)) (\<lambda>version.
         on_control_db (\<lambda>now. transition_run now run_key (resolve_args block_id version)) env))"

text \<open>The block as the request names it: the work card, its comment, its fields, its sender.\<close>

definition resolvable_block ::
  "'w flow_env \<Rightarrow> ResolveRequest \<Rightarrow> HistoryItem list \<Rightarrow> RunRecord \<Rightarrow> (HistoryItem \<times> Stage \<times> CardRecord) res" where
  "resolvable_block env q items run =
     (case find (\<lambda>item. tk_id (hi_task item) = rq_card_id q) items of
        None \<Rightarrow> Inl (ValueError ''card is not a managed Hollysys work card'')
      | Some item \<Rightarrow>
          if \<not> is_work item then Inl (ValueError ''card is not a managed Hollysys work card'')
          else if ch_sender q \<noteq> fo_initiator_open_id (rr_origin run) \<or> \<not> same_channel run q
          then Inl (PyPermissionError ''resolution must come from the original initiator and channel'')
          else case block_comment_of (hi_task item) (rq_block_id q) of
            None \<Rightarrow> Inl (ValueError ''matching [human-block:v1] comment was not found'')
          | Some comment \<Rightarrow> (case stage_of_item item of Inl e \<Rightarrow> Inl e | Inr stage \<Rightarrow>
              if \<not> valid_human_block (human_block_fields comment) (Some stage)
              then Inl (ValueError ''human block is not an allowed v4 technical/safety block'')
              else map_sum id (\<lambda>c. (item, stage, c)) (item_body (hist env) item)))"

definition resolution_text :: "ResolveRequest \<Rightarrow> string \<Rightarrow> string" where
  "resolution_text q new_card = ''[human-resolution:v1]'' @ new_line @ ''block_id: '' @ rq_block_id q @ new_line
     @ ''message_id: '' @ ch_message_id q @ new_line @ ''resolved_by: '' @ ch_sender q @ new_line
     @ ''answer: '' @ rq_answer q @ new_line @ ''new_card_id: '' @ new_card"

text \<open>The blocked card gets the resolution as a comment and is completed as cancelled.\<close>

definition close_block ::
  "'w flow_env \<Rightarrow> 'w request_env \<Rightarrow> ResolveRequest \<Rightarrow> RunRecord \<Rightarrow> HistoryItem \<Rightarrow> Stage \<Rightarrow> WorkMode \<Rightarrow> string \<Rightarrow>
   ('w shared, unit) op" where
  "close_block env rq q run item stage mode new_card =
     (let t = hi_task item; board = wf_board (rr_workspace run); kanban = kb env; config = fl_config env in
      then_do (if list_ex (contains_str (''message_id: '' @ ch_message_id q)) (comment_bodies t) then give ()
         else comment_task kanban config board (tk_id t) (resolution_text q new_card) ''hollysys-controller'') (\<lambda>_.
      then_do (if tk_status t \<in> {''triage'', ''todo''}
         then prepare_human_block_for_completion kanban config (rq_python rq) (rq_repr rq) board (tk_id t) else give ()) (\<lambda>_.
      if tk_status t \<in> RESOLVABLE_HUMAN_BLOCK_STATUSES
      then then_do (controller_completion env run (hi_managed item) (tk_id t) stage mode
           [''human block resolved; superseded by '' @ new_card]) (\<lambda>md.
         complete_task kanban config board (tk_id t) (''Human block '' @ rq_block_id q @ '' was resolved; retry is ''
           @ new_card @ ''.'') (rq_dump_completion rq md))
      else if tk_status t \<noteq> ''done'' then checked (Inl (ValueError ''card is no longer a resolvable human block''))
      else give ())))"

definition resolving_card ::
  "'w flow_env \<Rightarrow> ResolveRequest \<Rightarrow> HistoryItem list \<Rightarrow> RunRecord \<Rightarrow> TaskRecord \<Rightarrow> Stage \<Rightarrow> CardRecord \<Rightarrow>
   ('w flow, TaskRecord) op" where
  "resolving_card env q items run t stage c =
     then_do (checked (resolved_retry (hist env) (tk_id t) stage (cr_mode c) (rq_answer q) (rev items))) (\<lambda>retry. case retry of
       Some r \<Rightarrow> give r
     | None \<Rightarrow> if tk_status t \<notin> RESOLVABLE_HUMAN_BLOCK_STATUSES
         then checked (Inl (ValueError ''card is not currently a resolvable human block''))
         else create_card env run (stage, cr_mode c, cr_repair_context c) (tk_id t) (Some (rq_answer q)) (Some (tk_id t)) False)"

definition resolve_now ::
  "'w flow_env \<Rightarrow> 'w request_env \<Rightarrow> ResolveRequest \<Rightarrow> string \<Rightarrow> ('w flow, (string \<times> json) list) op" where
  "resolve_now env rq q key =
     then_do (on_shared (history (hist env) (ch_run_key q))) (\<lambda>(items, run).
     then_do (checked (resolvable_block env q items run)) (\<lambda>(item, stage, c).
     let t = hi_task item in
     then_do (on_shared (unblock_run env (rr_run_key run) (rq_block_id q))) (\<lambda>_.
     then_do (resolving_card env q items run t stage c) (\<lambda>retry.
     then_do (on_shared (close_block env rq q run item stage (cr_mode c) (tk_id retry))) (\<lambda>_.
     then_do (if tk_status retry \<in> ACTIVE_STATUSES then ensure_work_published env run retry else give retry) (\<lambda>retry.
     let response = [(''run_key'', JStr (rr_run_key run)), (''resolved_card'', JStr (tk_id t)),
       (''new_card'', JStr (tk_id retry)), (''stage'', JStr (stage_value stage))] in
     then_do (on_shared (post env (rr_run_key run @ '':resumed:'' @ rq_block_id q) (rr_run_key run) ''resumed''
       (rq_notice rq run (Resumed stage (tk_id t) (tk_id retry))))) (\<lambda>_.
     then_do (answered env key response) (\<lambda>_. give response))))))))"

definition resolve :: "'w flow_env \<Rightarrow> 'w request_env \<Rightarrow> ResolveRequest \<Rightarrow> ('w flow, (string \<times> json) list) op" where
  "resolve env rq raw =
     then_do (checked (active_mode env)) (\<lambda>_. then_do (checked (make_resolve raw)) (\<lambda>q.
       let key = ''resolve:'' @ rq_block_id q @ '':'' @ ch_message_id q in
       executing env key ''resolve'' (JObj (chat_payload q @ [(''card_id'', JStr (rq_card_id q)),
           (''block_id'', JStr (rq_block_id q)), (''answer'', JStr (rq_answer q))])) object_of (checked (Inl (in_progress key)))
         (claiming (ch_run_key q) key (request_failed env key (Some (ch_run_key q))) (resolve_now env rq q key))))"

section \<open>Recovering a run in exception\<close>

text \<open>A run that failed before its root was registered has a record but no history.\<close>

definition recovered_run ::
  "'w flow_env \<Rightarrow> 'w request_env \<Rightarrow> string \<Rightarrow> ('w flow, HistoryItem list \<times> RunRecord \<times> bool) op" where
  "recovered_run env rq run_key = try_do (on_shared (history (hist env) run_key))
     (\<lambda>e. if \<not> (is_value_error e \<and> error_message e = ''unknown run '' @ run_key) then checked (Inl e)
       else then_do (\<lambda>s. (stored_run rq s run_key, s)) (\<lambda>stored. case stored of
         None \<Rightarrow> checked (Inl e) | Some run \<Rightarrow> give ([], run, True)))
     (\<lambda>(items, run). give (items, run, False))"

definition stop_exception_card :: "'w flow_env \<Rightarrow> RunRecord \<Rightarrow> string \<Rightarrow> HistoryItem \<Rightarrow> ('w shared, unit) op" where
  "stop_exception_card env run reason item =
     (if mc_purpose (hi_managed item) \<noteq> ''exception'' \<or> \<not> is_active item then give ()
      else then_do (abort_managed_task env (wf_board (rr_workspace run)) (tk_id (hi_task item))
          (''exception recovery authorized: '' @ take 500 reason)) (\<lambda>stopped.
        if stopped then give () else checked (Inl (RunPolicyError ''worker_recovery_pending''))))"

definition recover_args :: "string \<Rightarrow> int \<Rightarrow> transition_args" where
  "recover_args reason version =
     \<lparr>ta_expected_states = [''exception''], ta_new_state = ''active'', ta_reason = ''human_exception_recovery:'' @ reason,
      ta_expected_version = Some version, ta_next_retry_at = None, ta_compliance = None, ta_completion_source = None,
      ta_checked_head = None, ta_merge_commit_sha = None\<rparr>"

definition leave_exception ::
  "'w flow_env \<Rightarrow> ReasonRequest \<Rightarrow> HistoryItem list \<Rightarrow> RunRecord \<Rightarrow> ('w shared, rc_row) op" where
  "leave_exception env q items run =
     then_do (checked (authorised env run q ''only the run initiator or configured administrator may recover this run''
       ''recovery must be requested in the original run chat/thread'')) (\<lambda>_.
     then_do (read_state (\<lambda>s. run_control (fst s) (ch_run_key q))) (\<lambda>control.
       if map_option rc_state control \<noteq> Some ''exception''
       then checked (Inl (ValueError ''run is not in recoverable exception state''))
       else then_do (for_each (stop_exception_card env run (rq_reason q)) items) (\<lambda>_.
         timed env (\<lambda>now. on_ctl (transition_run now (ch_run_key q)
           (recover_args (rq_reason q) (case control of Some c \<Rightarrow> rc_state_version c | None \<Rightarrow> 0)))))))"

text \<open>The run goes back into its exception when it cannot be continued.\<close>

definition back_to_exception :: "'w flow_env \<Rightarrow> string \<Rightarrow> ctl_error \<Rightarrow> ('w flow, 'a) op" where
  "back_to_exception env run_key e = on_shared
     (then_do (timed env (\<lambda>now. on_ctl (set_run_exception now run_key (error_message e)))) (\<lambda>_.
      then_do (timed env (\<lambda>now. on_service (enqueue_controller_failure (circ env) now run_key e))) (\<lambda>_.
      checked (Inl e))))"

text \<open>The card that has to be given out again: the last one, when none is active and it is not done.\<close>

definition unfinished_work :: "HistoryItem list \<Rightarrow> HistoryItem option" where
  "unfinished_work items = (case filter is_work items of [] \<Rightarrow> None
     | w # ws \<Rightarrow> let latest = last (w # ws) in
         if list_ex is_active (w # ws) \<or> tk_status (hi_task latest) = ''done'' then None else Some latest)"

definition reissue_work ::
  "'w flow_env \<Rightarrow> RunRecord \<Rightarrow> string \<Rightarrow> HistoryItem \<Rightarrow> ('w flow, Stage \<times> TaskRecord) op" where
  "reissue_work env run reason item =
     then_do (checked (item_body (hist env) item)) (\<lambda>c.
     then_do (checked (stage_of_item item)) (\<lambda>stage.
     then_do (create_card env run (stage, cr_mode c, cr_repair_context c) (tk_id (hi_task item)) (Some reason)
        (Some (tk_id (hi_task item))) True) (\<lambda>t. give (stage, t))))"

text \<open>How the run goes on, with the fields the response has for it.\<close>

definition continue_run ::
  "'w flow_env \<Rightarrow> 'w request_env \<Rightarrow> ReasonRequest \<Rightarrow> HistoryItem list \<Rightarrow> RunRecord \<Rightarrow> bool \<Rightarrow>
   ('w flow, (string \<times> json) list) op" where
  "continue_run env rq q items run pending =
     (if pending
      then try_do (initialize_run env rq run (wf_repository_base_sha (rr_workspace run)))
        (back_to_exception env (ch_run_key q)) (\<lambda>started. give [(''continuation'', JStr ''initialization-resumed''),
          (''stage'', get_json started ''stage''), (''active_card'', get_json started ''active_card'')])
      else case unfinished_work items of
        None \<Rightarrow> give [(''continuation'', JStr ''pending-reconcile'')]
      | Some item \<Rightarrow> try_do (reissue_work env run (rq_reason q) item) (back_to_exception env (ch_run_key q))
          (\<lambda>(stage, t). give [(''continuation'', JStr ''work-reissued''), (''stage'', JStr (stage_value stage)),
             (''active_card'', JStr (tk_id t))]))"

definition recover_now ::
  "'w flow_env \<Rightarrow> 'w request_env \<Rightarrow> ReasonRequest \<Rightarrow> string \<Rightarrow> ('w flow, (string \<times> json) list) op" where
  "recover_now env rq q key =
     then_do (recovered_run env rq (ch_run_key q)) (\<lambda>(items, run, pending).
     then_do (on_shared (leave_exception env q items run)) (\<lambda>recovered.
     then_do (continue_run env rq q items run pending) (\<lambda>continuation.
     then_do (on_shared (post env (ch_run_key q @ '':exception-recovered:'' @ int_str (rc_state_version recovered))
        (ch_run_key q) ''exception-recovered'' (rq_notice rq run (ExceptionRecovered (ch_sender q) (rq_reason q))))) (\<lambda>_.
     let response = [(''run_key'', JStr (ch_run_key q)), (''state'', JStr (rc_state recovered)),
       (''state_version'', JInt (rc_state_version recovered))] @ continuation in
     then_do (answered env key response) (\<lambda>_. give response)))))"

definition recover :: "'w flow_env \<Rightarrow> 'w request_env \<Rightarrow> ReasonRequest \<Rightarrow> ('w flow, (string \<times> json) list) op" where
  "recover env rq raw =
     then_do (checked (active_mode env)) (\<lambda>_. then_do (checked (make_reason raw)) (\<lambda>q.
       let key = ''recover:'' @ ch_message_id q in
       executing env key ''recover'' (abort_payload q) object_of (checked (Inl (in_progress key)))
         (claiming (ch_run_key q) key (request_failed env key (Some (ch_run_key q))) (recover_now env rq q key))))"

end
