(* ===== verification/Request_Properties.thy ===== *)
theory Request_Properties
  imports Requests Reconcile_Properties
begin

text \<open>
  What the handlers of human requests promise: an abort token leaves no trace but its hash,
  and only the people a run belongs to can command it.
\<close>

section \<open>The same effect, whatever the secret\<close>

text \<open>Two runs of an operation end in one state, with one error or both with a value.\<close>

definition alike :: "('s, 'a) op \<Rightarrow> ('s, 'a) op \<Rightarrow> bool" where
  "alike m n \<longleftrightarrow> (\<forall>s. (\<exists>e t. m s = (Inl e, t) \<and> n s = (Inl e, t)) \<or> (\<exists>v w t. m s = (Inr v, t) \<and> n s = (Inr w, t)))"

lemma alike_refl: "alike m m"
proof -
  have "\<exists>e v t. m s = (Inl e, t) \<or> m s = (Inr v, t)" for s by (metis prod.collapse sum.exhaust)
  then show ?thesis unfolding alike_def by metis
qed

lemma alike_then:
  assumes "\<And>v. alike (f v) (g v)"
  shows "alike (then_do m f) (then_do m g)"
  unfolding alike_def
proof
  fix s
  obtain r t where m: "m s = (r, t)" by fastforce
  show "(\<exists>e t. then_do m f s = (Inl e, t) \<and> then_do m g s = (Inl e, t)) \<or>
      (\<exists>v w t. then_do m f s = (Inr v, t) \<and> then_do m g s = (Inr w, t))"
    using m assms by (cases r) (auto simp: alike_def)
qed

lemma alike_give: "alike (give v) (give w)"
  by (simp add: alike_def give_def)

lemma alike_try:
  assumes "alike m n"
  shows "alike (try_do m handle give) (try_do n handle give)"
  unfolding alike_def
proof
  fix s
  have h: "(\<exists>e' t'. handle e t = (Inl e', t')) \<or> (\<exists>v t'. handle e t = (Inr v, t'))" for e t
    by (metis prod.collapse sum.exhaust)
  from assms consider (err) e t where "m s = (Inl e, t)" "n s = (Inl e, t)"
    | (val) v w t where "m s = (Inr v, t)" "n s = (Inr w, t)"
    unfolding alike_def by blast
  then show "(\<exists>e t. try_do m handle give s = (Inl e, t) \<and> try_do n handle give s = (Inl e, t)) \<or>
      (\<exists>v w t. try_do m handle give s = (Inr v, t) \<and> try_do n handle give s = (Inr w, t))"
  proof cases
    case err
    with h [of e t] show ?thesis by (auto simp: try_do_def)
  qed (simp add: try_do_def give_def)
qed

lemma alike_leaving:
  assumes "alike m n"
  shows "alike (leaving g m) (leaving g n)"
  unfolding alike_def
proof
  fix s
  from assms show "(\<exists>e t. leaving g m s = (Inl e, t) \<and> leaving g n s = (Inl e, t)) \<or>
      (\<exists>v w t. leaving g m s = (Inr v, t) \<and> leaving g n s = (Inr w, t))"
    unfolding alike_def leaving_def by (elim allE [of _ s]) auto
qed

lemma alike_executing:
  "alike m n \<Longrightarrow> alike (executing env key kind payload again busy m) (executing env key kind payload again busy n)"
  unfolding executing_def
  by (intro alike_then) (auto intro!: alike_refl alike_leaving alike_then split: option.split)

lemma persisted_alike: "persisted_response (abort_response row items token1) = persisted_response (abort_response row items token2)"
  by (simp add: persisted_response_def abort_response_def)

lemma alike_abort_now:
  assumes "hv_sha256 (fl_history env) token1 = hv_sha256 (fl_history env) token2"
  shows "alike (request_abort_now env token1 q key) (request_abort_now env token2 q key)"
  unfolding request_abort_now_def assms persisted_alike [of _ _ token1 token2]
  by (intro alike_then) (auto intro!: alike_then alike_give split: prod.split)

text \<open>
  C11. An abort token leaves no trace but its hash: two tokens with the same hash leave the
  same state behind, whatever the request meets, and fail with the same error. So neither
  the journal, nor the control database, nor a notice, nor an error has any more of the
  token; it is in the response alone. A request that was answered before gets no token.
\<close>

theorem abort_token_is_secret:
  assumes "hv_sha256 (fl_history env) token1 = hv_sha256 (fl_history env) token2"
  shows "snd (abort_request env token1 raw s) = snd (abort_request env token2 raw s) \<and>
    map_sum id (\<lambda>_. ()) (fst (abort_request env token1 raw s)) = map_sum id (\<lambda>_. ()) (fst (abort_request env token2 raw s)) \<and>
    map_of (persisted_response (abort_response row items token)) ''confirmation_token'' = None \<and>
    map_of (without_token (JObj (persisted_response (abort_response row items token)))) ''confirmation_token'' = None"
proof -
  have "alike (abort_request env token1 raw) (abort_request env token2 raw)"
    unfolding abort_request_def Let_def by (intro alike_then alike_executing alike_try alike_abort_now assms)
  then have "(\<exists>e t. abort_request env token1 raw s = (Inl e, t) \<and> abort_request env token2 raw s = (Inl e, t)) \<or>
      (\<exists>v w t. abort_request env token1 raw s = (Inr v, t) \<and> abort_request env token2 raw s = (Inr w, t))"
    by (simp add: alike_def)
  then show ?thesis by (auto simp: persisted_response_def abort_response_def without_token_def object_of_def)
qed

text \<open>A sample request, with a hash that looks at a prefix only.\<close>

definition sample_ask :: ReasonRequest where
  "sample_ask = \<lparr>ch_run_key = ''hollysys-1'', ch_message_id = ''om_9'', ch_sender = ''ou_9'', ch_chat_id = ''oc_1'',
     ch_thread_id = None, rq_reason = ''stop it''\<rparr>"

definition prefix_env :: "bool flow_env" where
  "prefix_env = noting_env\<lparr>fl_history := noting_history\<lparr>hv_sha256 := take 4\<rparr>\<rparr>"

theorem abort_token_is_secret_witness:
  "snd (abort_request prefix_env ''ABCDEFGH'' sample_ask noting_state) =
   snd (abort_request prefix_env ''ABCD2345'' sample_ask noting_state)"
  using abort_token_is_secret [of prefix_env "''ABCDEFGH''" "''ABCD2345''" sample_ask noting_state]
  by (simp add: prefix_env_def)

section \<open>Who may command a run\<close>

text \<open>The sender of a request may command the run, and writes in its channel.\<close>

definition commands :: "'w flow_env \<Rightarrow> RunRecord \<Rightarrow> 'a ChatRequest_scheme \<Rightarrow> bool" where
  "commands env run q \<longleftrightarrow> may_command env run (ch_sender q) \<and> same_channel run q"

text \<open>The request comes from nobody who may command the run, or from another channel.\<close>

definition stranger :: "'w flow_env \<Rightarrow> RunRecord \<Rightarrow> 'a ChatRequest_scheme \<Rightarrow> bool" where
  "stranger env run raw \<longleftrightarrow> \<not> commands env run (stripped raw)"

text \<open>No response is recorded for the key.\<close>

definition unanswered :: "'w flow \<Rightarrow> string \<Rightarrow> bool" where
  "unanswered s key \<longleftrightarrow> (case request (cs_journal s) key of None \<Rightarrow> True | Some row \<Rightarrow> rs_response row = None)"

lemma begun_unanswered:
  assumes "begun env key kind payload s = (Inr previous, t)" "unanswered s key"
  shows "previous = None"
  using assms by (auto simp: begun_def flow_timed_def on_journal_def on_part_def begin_request_def unanswered_def
      connect_def Let_def split: prod.splits option.splits if_splits)

lemma leaving_ok: "leaving g m s = (Inr v, t) \<Longrightarrow> \<exists>u. m s = (Inr v, u)"
  by (auto simp: leaving_def split: prod.splits)

lemma executing_ok:
  assumes "executing env key kind payload again (checked (Inl e)) body s = (Inr v, t)" "unanswered s key"
  shows "\<exists>u w. body u = (Inr v, w)"
proof -
  obtain b s1 where b: "on_shared (on_guards (begin_request_execution key)) s = (Inr b, s1)"
    and m: "(if \<not> b then checked (Inl e) else leaving (finish_request_execution key)
      (then_do (begun env key kind payload) (\<lambda>previous. case previous of Some r \<Rightarrow> give (again r) | None \<Rightarrow> body))) s1 = (Inr v, t)"
    using assms(1) unfolding executing_def then_do_ok by auto
  have "cs_journal s1 = cs_journal s"
    using b by (auto simp: on_shared_def on_guards_def on_part_def split: prod.splits)
  then have "unanswered s1 key" using assms(2) by (simp add: unanswered_def)
  moreover from m obtain u where "then_do (begun env key kind payload)
      (\<lambda>previous. case previous of Some r \<Rightarrow> give (again r) | None \<Rightarrow> body) s1 = (Inr v, u)"
    by (auto simp: guard_ok dest!: leaving_ok)
  ultimately obtain w where "body w = (Inr v, u)" by (auto simp: then_do_ok dest!: begun_unanswered)
  then show ?thesis by blast
qed

lemma failures_raise:
  "failed_with env key e s \<noteq> (Inr v, t)" "abort_failed env key rk e s \<noteq> (Inr v, t)" "request_failed env key rk e s \<noteq> (Inr v, t)"
proof -
  show a: "failed_with env key e s \<noteq> (Inr v, t)" for e s by (auto simp: failed_with_def ok_simps)
  show b: "abort_failed env key rk e s \<noteq> (Inr v, t)" for s
    using a by (auto simp: abort_failed_def ok_simps split: if_splits)
  show "request_failed env key rk e s \<noteq> (Inr v, t)"
    using b by (auto simp: request_failed_def ok_simps split: if_splits)
qed

lemma claiming_ok:
  assumes "claiming run_key key (request_failed env key rk) m s = (Inr v, t)"
  shows "\<exists>u w. m u = (Inr v, w)"
proof -
  obtain b s1 where "(if \<not> b then request_failed env key rk (in_progress key)
      else leaving (finish_reconcile_guard run_key) (try_do m (request_failed env key rk) give)) s1 = (Inr v, t)"
    using assms unfolding claiming_def then_do_ok by auto
  then obtain w where "m s1 = (Inr v, w)"
    by (cases b) (auto simp: failures_raise try_do_ok pure_ok dest!: leaving_ok)
  then show ?thesis by blast
qed

lemma shared_answer: "on_shared m s = (Inr v, t) \<Longrightarrow> \<exists>u. m (shared_of s) = (Inr v, u)"
  by (auto simp: on_shared_ok)

lemma authorised_commands: "authorised env run q e1 e2 = Inr () \<Longrightarrow> commands env run q"
  by (auto simp: authorised_def commands_def split: if_splits)

lemma commands_origin: "rr_origin run = rr_origin run0 \<Longrightarrow> commands env run q \<longleftrightarrow> commands env run0 q"
  by (simp add: commands_def may_command_def same_channel_def)

text \<open>A handler that answers has read a run that its sender commands.\<close>

lemma abort_reads:
  assumes "request_abort_now env token q key u = (Inr v, w)"
  shows "\<exists>x items run y. history (hist env) (ch_run_key q) x = (Inr (items, run), y) \<and> commands env run q"
proof -
  obtain t where "may_abort env q (shared_of u) = (Inr (), t)"
    using assms by (auto simp: request_abort_now_def then_do_ok dest!: shared_answer)
  then obtain items run y where "history (hist env) (ch_run_key q) (shared_of u) = (Inr (items, run), y)" "commands env run q"
    unfolding may_abort_def then_do_ok by (auto simp: ok_simps dest!: authorised_commands)
  then show ?thesis by blast
qed

lemma recover_reads:
  assumes "recover_now env rq q key u = (Inr v, w)"
  shows "\<exists>run. ((\<exists>x items y. history (hist env) (ch_run_key q) x = (Inr (items, run), y)) \<or>
    (\<exists>x. stored_run rq x (ch_run_key q) = Inr (Some run))) \<and> commands env run q"
proof -
  obtain items run pending t where r: "recovered_run env rq (ch_run_key q) u = (Inr (items, run, pending), t)"
    and l: "\<exists>c t'. leave_exception env q items run (shared_of t) = (Inr c, t')"
    using assms by (auto simp: recover_now_def then_do_ok dest!: shared_answer)
  have "commands env run q" using l by (auto simp: leave_exception_def then_do_ok pure_ok dest!: authorised_commands)
  moreover have "(\<exists>x items y. history (hist env) (ch_run_key q) x = (Inr (items, run), y)) \<or>
    (\<exists>x. stored_run rq x (ch_run_key q) = Inr (Some run))"
    using r unfolding recovered_run_def try_do_ok
    by (auto simp: ok_simps split: option.splits dest!: shared_answer) (metis prod.collapse)+
  ultimately show ?thesis by blast
qed

lemma resolve_reads:
  assumes "resolve_now env rq q key u = (Inr v, w)"
  shows "\<exists>x items run y. history (hist env) (ch_run_key q) x = (Inr (items, run), y) \<and> commands env run q"
proof -
  obtain items run t where h: "history (hist env) (ch_run_key q) (shared_of u) = (Inr (items, run), t)"
    and b: "\<exists>x. resolvable_block env q items run = Inr x"
    using assms by (auto simp: resolve_now_def then_do_ok pure_ok dest!: shared_answer)
  have "commands env run q"
    using b by (auto simp: resolvable_block_def commands_def may_command_def split: option.splits if_splits)
  with h show ?thesis by blast
qed

lemma abort_answers:
  assumes "abort_request env token raw s = (Inr v, t)" "unanswered s (''abort-request:'' @ strip (ch_message_id raw))"
  shows "\<exists>x items run y. history (hist env) (strip (ch_run_key raw)) x = (Inr (items, run), y) \<and> commands env run (stripped raw)"
proof -
  let ?q = "(stripped raw)\<lparr>rq_reason := strip (rq_reason raw)\<rparr>" and ?key = "''abort-request:'' @ strip (ch_message_id raw)"
  have q: "make_reason raw = Inr q \<Longrightarrow> q = ?q" for q by (simp add: make_reason_def Let_def split: if_splits)
  have "executing env ?key ''abort-request'' (abort_payload ?q) without_token (checked (Inl (in_progress ?key)))
      (try_do (request_abort_now env token ?q ?key) (abort_failed env ?key (Some (ch_run_key ?q))) give) s = (Inr v, t)"
    using assms(1) unfolding abort_request_def Let_def then_do_ok pure_ok by (auto dest!: q simp: stripped_def)
  from executing_ok [OF this assms(2)] obtain u w where "request_abort_now env token ?q ?key u = (Inr v, w)"
    by (auto simp: try_do_ok pure_ok failures_raise)
  from abort_reads [OF this] show ?thesis by (simp add: stripped_def commands_def same_channel_def)
qed

lemma recover_answers:
  assumes "recover env rq raw s = (Inr v, t)" "unanswered s (''recover:'' @ strip (ch_message_id raw))"
  shows "\<exists>run. ((\<exists>x items y. history (hist env) (strip (ch_run_key raw)) x = (Inr (items, run), y)) \<or>
    (\<exists>x. stored_run rq x (strip (ch_run_key raw)) = Inr (Some run))) \<and> commands env run (stripped raw)"
proof -
  let ?q = "(stripped raw)\<lparr>rq_reason := strip (rq_reason raw)\<rparr>" and ?key = "''recover:'' @ strip (ch_message_id raw)"
  have q: "make_reason raw = Inr q \<Longrightarrow> q = ?q" for q by (simp add: make_reason_def Let_def split: if_splits)
  have "executing env ?key ''recover'' (abort_payload ?q) object_of (checked (Inl (in_progress ?key)))
      (claiming (ch_run_key ?q) ?key (request_failed env ?key (Some (ch_run_key ?q))) (recover_now env rq ?q ?key)) s = (Inr v, t)"
    using assms(1) unfolding recover_def Let_def then_do_ok pure_ok by (auto dest!: q simp: stripped_def)
  from executing_ok [OF this assms(2)] obtain a b where c: "claiming (ch_run_key ?q) ?key
      (request_failed env ?key (Some (ch_run_key ?q))) (recover_now env rq ?q ?key) a = (Inr v, b)" by auto
  from claiming_ok [OF c] obtain u w where "recover_now env rq ?q ?key u = (Inr v, w)" by auto
  from recover_reads [OF this] show ?thesis by (simp add: stripped_def commands_def same_channel_def)
qed

lemma resolve_answers:
  assumes "resolve env rq raw s = (Inr v, t)"
    and "unanswered s (''resolve:'' @ strip (rq_block_id raw) @ '':'' @ strip (ch_message_id raw))"
  shows "\<exists>x items run y. history (hist env) (strip (ch_run_key raw)) x = (Inr (items, run), y) \<and> commands env run (stripped raw)"
proof -
  let ?q = "(stripped raw)\<lparr>rq_card_id := strip (rq_card_id raw), rq_block_id := strip (rq_block_id raw),
    rq_answer := strip (rq_answer raw)\<rparr>" and ?key = "''resolve:'' @ strip (rq_block_id raw) @ '':'' @ strip (ch_message_id raw)"
  have q: "make_resolve raw = Inr q \<Longrightarrow> q = ?q" for q by (simp add: make_resolve_def Let_def split: if_splits)
  obtain payload where "executing env ?key ''resolve'' payload object_of (checked (Inl (in_progress ?key)))
      (claiming (ch_run_key ?q) ?key (request_failed env ?key (Some (ch_run_key ?q))) (resolve_now env rq ?q ?key)) s = (Inr v, t)"
    using assms(1) unfolding resolve_def Let_def then_do_ok pure_ok by (auto dest!: q simp: stripped_def)
  from executing_ok [OF this assms(2)] obtain a b where c: "claiming (ch_run_key ?q) ?key
      (request_failed env ?key (Some (ch_run_key ?q))) (resolve_now env rq ?q ?key) a = (Inr v, b)" by auto
  from claiming_ok [OF c] obtain u w where "resolve_now env rq ?q ?key u = (Inr v, w)" by auto
  from resolve_reads [OF this] show ?thesis by (simp add: stripped_def commands_def same_channel_def)
qed

text \<open>
  C6. Strangers are refused. When every reading of a run's history, and of its record in the
  database, gives the run's origin, a request to abort, recover or resolve it
  is answered with an error, unless its sender started the run or is a configured
  administrator, and it comes from the run's chat and thread; a response recorded for the
  same message is the exception.
\<close>

theorem strangers_are_refused:
  assumes "\<And>u items run w. history (hist env) k u = (Inr (items, run), w) \<Longrightarrow> rr_origin run = rr_origin run0"
    and "\<And>u run. stored_run rq u k = Inr (Some run) \<Longrightarrow> rr_origin run = rr_origin run0"
    and "strip (ch_run_key raw) = k" "strip (ch_run_key raw') = k" "stranger env run0 raw" "stranger env run0 raw'"
    and "unanswered s (''abort-request:'' @ strip (ch_message_id raw))"
      "unanswered s (''recover:'' @ strip (ch_message_id raw))"
      "unanswered s (''resolve:'' @ strip (rq_block_id raw') @ '':'' @ strip (ch_message_id raw'))"
  shows "isl (fst (abort_request env token raw s)) \<and> isl (fst (recover env rq raw s)) \<and> isl (fst (resolve env rq raw' s))"
proof -
  have no: "\<not> commands env run (stripped raw)" "\<not> commands env run (stripped raw')" if "rr_origin run = rr_origin run0" for run
    using assms(5,6) by (simp_all add: stranger_def commands_origin [OF that])
  have a: "abort_request env token raw s \<noteq> (Inr v, t)" for v t
    using abort_answers [OF _ assms(7), of env token v t] assms(1,3) no(1) by metis
  have b: "recover env rq raw s \<noteq> (Inr v, t)" for v t
    using recover_answers [OF _ assms(8), of env rq v t] assms(1,2,3) no(1) by metis
  have c: "resolve env rq raw' s \<noteq> (Inr v, t)" for v t
    using resolve_answers [OF _ assms(9), of env rq v t] assms(1,4) no(2) by metis
  show ?thesis using a b c by (metis prod.collapse sum.collapse(2))
qed

text \<open>The sample run was started by \<open>ou_1\<close> in \<open>oc_1\<close>; \<open>ou_9\<close> asks for it.\<close>

definition sample_answer :: ResolveRequest where
  "sample_answer = \<lparr>ch_run_key = ''hollysys-1'', ch_message_id = ''om_9'', ch_sender = ''ou_9'', ch_chat_id = ''oc_1'',
     ch_thread_id = None, rq_card_id = ''t_1'', rq_block_id = ''b'', rq_answer = ''go on''\<rparr>"

definition sample_requests :: "bool request_env" where
  "sample_requests = \<lparr>rq_validate_start = (\<lambda>_. noting (Inr (sample_run, ''s''))), rq_create_branch = (\<lambda>_. noting (Inr JNull)),
     rq_ensure_workspace = (\<lambda>_ _. noting (Inr ())), rq_prepare_caches = (\<lambda>_. noting (Inr JNull)),
     rq_status_summary = (\<lambda>_. give []), rq_dump_run = (\<lambda>_. ''{}''), rq_load_run = (\<lambda>_. Some sample_run),
     rq_dump_completion = (\<lambda>_. JNull), rq_notice = (\<lambda>_ _. JNull), rq_python = ''python'', rq_repr = (\<lambda>s. s)\<rparr>"

lemma history_parsed:
  "history env k u = (Inr (items, run), w) \<Longrightarrow> \<exists>body. parse_run_body (hv_json env) body = Inr run"
  unfolding history_def then_do_ok by (auto simp: ok_simps split: option.splits if_splits)

lemma noting_reads: "history (hist noting_env) k u = (Inr (items, run), w) \<Longrightarrow> run = sample_run"
  by (auto dest!: history_parsed simp: hist_def noting_env_def noting_history_def parse_run_body_def sample_record_json_def
      split: sum.splits)

lemma sample_stored: "stored_run sample_requests u k = Inr (Some run) \<Longrightarrow> run = sample_run"
  by (auto simp: stored_run_def run_record_def load_record_def sample_requests_def split: option.splits)

lemma strip_sample: "strip ''hollysys-1'' = ''hollysys-1''" "strip ''ou_9'' = ''ou_9''" "strip ''om_9'' = ''om_9''" "strip ''b'' = ''b''"
  by code_simp+

theorem strangers_are_refused_witness:
  "isl (fst (abort_request noting_env ''ABCDEFGH'' sample_ask noting_state)) \<and>
   isl (fst (recover noting_env sample_requests sample_ask noting_state)) \<and>
   isl (fst (resolve noting_env sample_requests sample_answer noting_state))"
proof (rule strangers_are_refused [where k = "''hollysys-1''" and ?run0.0 = sample_run])
  show "stranger noting_env sample_run sample_ask" "stranger noting_env sample_run sample_answer"
    by (simp_all add: stranger_def commands_def may_command_def sample_ask_def sample_answer_def stripped_def strip_sample
        sample_run_def noting_env_def sample_config_def)
qed (auto dest!: noting_reads sample_stored
    simp: unanswered_def noting_state_def request_def sample_ask_def sample_answer_def strip_sample)

end
