(* ===== verification/Workers.thy ===== *)
theory Workers
  imports Reconcile_Properties Queue_Properties
begin

text \<open>
  A worker of the daemon (service.py, \<open>consume_reconcile_once\<close>): it leases the next run of
  the queue, reconciles it, and gives the lease back with what happened. Meanwhile other
  threads use the queue.
\<close>

section \<open>A round of a worker\<close>

text \<open>The handlers' state and the queue; \<open>wk_others\<close> is what other threads do to the
  queue during a reconciliation. The time of the last reconciliation is only reported, and not kept.\<close>

record 'w workplace =
  wp_flow :: "'w flow"
  wp_queue :: queue_db

record 'w worker_env =
  wk_flow :: "'w flow_env"
  wk_merge :: "'w shared merge_ops"
  wk_load :: "string \<Rightarrow> RunRecord option"
  wk_others :: "'w flow \<Rightarrow> rq_event list"

definition on_intents :: "(queue_db, 'a) op \<Rightarrow> ('w workplace, 'a) op" where
  "on_intents = on_part wp_queue (\<lambda>q s. s\<lparr>wp_queue := q\<rparr>)"

definition worker_time :: "'w worker_env \<Rightarrow> 'w workplace \<Rightarrow> int" where
  "worker_time env s = fl_now (wk_flow env) (shared_of (wp_flow s))"

definition lease_seconds :: "'w worker_env \<Rightarrow> int" where
  "lease_seconds env = max 60 (cf_command_timeout_seconds (fl_config (wk_flow env)) * 3)"

definition milliseconds :: "'w worker_env \<Rightarrow> 'w workplace \<Rightarrow> rat" where
  "milliseconds env s = fl_monotonic (wk_flow env) (shared_of (wp_flow s)) * 1000"

definition set_last_error :: "string option \<Rightarrow> ('w workplace, unit) op" where
  "set_last_error e s = (Inr (), s\<lparr>wp_flow := (wp_flow s)\<lparr>cs_world := (cs_world (wp_flow s))\<lparr>si_last_reconcile_error := e\<rparr>\<rparr>\<rparr>)"

definition reconciling :: "'w worker_env \<Rightarrow> string \<Rightarrow> ('w workplace, unit) op" where
  "reconciling env run_key s = (case reconcile_run_with_policy (wk_flow env) (wk_merge env) run_key (wp_flow s) of
     (r, f) \<Rightarrow> (r, s\<lparr>wp_flow := f, wp_queue := fold (rq_apply (wk_load env)) (wk_others env (wp_flow s)) (wp_queue s)\<rparr>))"

definition report_step :: "'w worker_env \<Rightarrow> string \<Rightarrow> string \<Rightarrow> string \<Rightarrow> int \<Rightarrow> ('w workplace, unit) op" where
  "report_step env intent_id owner step seconds s =
     on_intents (update_reconcile_step (worker_time env s) intent_id owner step seconds) s"

definition give_back :: "'w worker_env \<Rightarrow> string \<Rightarrow> string \<Rightarrow> string option \<Rightarrow> ('w workplace, unit) op" where
  "give_back env intent_id owner error s =
     on_intents (finish_reconcile (worker_time env s) intent_id owner error) s"

definition work_on :: "'w worker_env \<Rightarrow> string \<Rightarrow> intent_row \<Rightarrow> ('w workplace, bool) op" where
  "work_on env owner intent =
     then_do (read_state (milliseconds env)) (\<lambda>started.
     then_do (report_step env (ri_intent_id intent) owner ''recompute-kanban-gitlab'' (lease_seconds env)) (\<lambda>_.
     then_do (reconciling env (ri_run_key intent)) (\<lambda>_.
     then_do (read_state (milliseconds env)) (\<lambda>ended.
     then_do (report_step env (ri_intent_id intent) owner (''completed:'' @ int_str \<lfloor>ended - started\<rfloor> @ ''ms'') 60) (\<lambda>_.
     then_do (give_back env (ri_intent_id intent) owner None) (\<lambda>_.
     then_do (set_last_error None) (\<lambda>_. give True)))))))"

definition consume_reconcile_once :: "'w worker_env \<Rightarrow> string \<Rightarrow> ('w workplace, bool) op" where
  "consume_reconcile_once env owner =
     then_do (\<lambda>s. on_intents (claim_reconcile (worker_time env s) owner (lease_seconds env)) s) (\<lambda>claimed. case claimed of
       None \<Rightarrow> give False
     | Some intent \<Rightarrow> try_do (work_on env owner intent)
         (\<lambda>e. then_do (give_back env (ri_intent_id intent) owner (Some (error_message e))) (\<lambda>_.
            then_do (set_last_error (Some (error_message e))) (\<lambda>_. checked (Inl e)))) give)"

section \<open>What other threads can do to a lease\<close>

text \<open>Other threads do not use the worker's name, and their claims come before its lease ends.\<close>

fun foreign :: "string \<Rightarrow> int \<Rightarrow> rq_event \<Rightarrow> bool" where
  "foreign w u (RqEnqueue now i k reason ev) \<longleftrightarrow> True"
| "foreign w u (RqClaim now v secs) \<longleftrightarrow> now \<le> u"
| "foreign w u (RqStep now i v st secs) \<longleftrightarrow> v \<noteq> w"
| "foreign w u (RqFinish now i v e) \<longleftrightarrow> v \<noteq> w"

text \<open>One of the events enqueues the run.\<close>

fun wakes_now :: "(string \<Rightarrow> RunRecord option) \<Rightarrow> string \<Rightarrow> rq_event \<Rightarrow> queue_db \<Rightarrow> bool" where
  "wakes_now load k (RqEnqueue now i j reason ev) db \<longleftrightarrow> j = k \<and>
     (case fst (enqueue_reconcile load now i j reason ev db) of Inl _ \<Rightarrow> False | Inr _ \<Rightarrow> True)"
| "wakes_now load k _ db \<longleftrightarrow> False"

fun wakes :: "(string \<Rightarrow> RunRecord option) \<Rightarrow> string \<Rightarrow> rq_event list \<Rightarrow> queue_db \<Rightarrow> bool" where
  "wakes load k [] db = False"
| "wakes load k (e # es) db = (wakes_now load k e db \<or> wakes load k es (rq_apply load e db))"

lemma lease_kept_step:
  assumes ok: "queue_ok db" and leased: "abs_queue db k = Leased w u d" and "foreign w u e"
  shows "abs_queue (rq_apply load e db) k = Leased w u (wakes_now load k e db \<or> d)"
proof (cases e)
  case (RqEnqueue now i j reason ev)
  with enqueue_refines [OF ok, of load now i j reason ev] leased show ?thesis
    by (cases "fst (enqueue_reconcile load now i j reason ev db)") (auto simp: rq_refines_def Let_def)
next
  case (RqClaim now v secs)
  show ?thesis
  proof (cases rule: claim_spec [OF ok, of now v secs])
    case 1
    with leased show ?thesis by (simp add: RqClaim)
  next
    case (2 row)
    have "abs_queue (rq_apply load e db) = (abs_queue db)(ri_run_key row := Leased v (now + secs) False)"
      using abs_queue_one_row [OF ok 2(2) in_place_ops(2) 2(5)] by (simp add: abs_row_ops RqClaim)
    moreover have "available now (abs_queue db (ri_run_key row))"
      using 2(3) claimable_abs [OF row_ok [OF ok 2(2)]] abs_queue_row [OF ok 2(2)] by simp
    moreover have "now \<le> u" using assms(3) RqClaim by simp
    ultimately have "abs_queue (rq_apply load e db) k = abs_queue db k" using leased by auto
    then show ?thesis using leased by (simp add: RqClaim)
  qed
next
  case (RqStep now i v st secs)
  have v: "v \<noteq> w" using assms(3) RqStep by simp
  from step_refines [OF ok, of load now i v st secs]
  have "abs_queue (rq_apply load e db) = abs_queue db \<or> (\<exists>j. held_by v (abs_queue db j) \<and>
      abs_queue (rq_apply load e db) = (abs_queue db)(j := Reconcile_Queue.extend (now + secs) (abs_queue db j)))"
    unfolding rq_refines_def Let_def RqStep rq_event.case by (cases "fst (update_reconcile_step now i v st secs db)") auto
  then have "abs_queue (rq_apply load e db) k = abs_queue db k" using leased v by auto
  then show ?thesis using leased by (simp add: RqStep)
next
  case (RqFinish now i v err)
  have v: "v \<noteq> w" using assms(3) RqFinish by simp
  from finish_refines [OF ok, of load now i v err]
  have "abs_queue (rq_apply load e db) = abs_queue db \<or> (\<exists>j. held_by v (abs_queue db j) \<and>
      abs_queue (rq_apply load e db) = (abs_queue db)(j := release (truthy_str err) (abs_queue db j)))"
    unfolding rq_refines_def Let_def RqFinish rq_event.case by (cases "fst (finish_reconcile now i v err db)") auto
  then have "abs_queue (rq_apply load e db) k = abs_queue db k" using leased v by auto
  then show ?thesis using leased by (simp add: RqFinish)
qed

text \<open>An intent keeps its identifier and its run.\<close>

definition has_intent :: "queue_db \<Rightarrow> string \<Rightarrow> string \<Rightarrow> bool" where
  "has_intent db i k \<longleftrightarrow> (\<exists>r \<in> set (intents_tbl db). ri_intent_id r = i \<and> ri_run_key r = k)"

lemma has_intent_rewrite:
  assumes "has_intent db i k" "in_place sel f" "intents_tbl db' = update_where sel f (intents_tbl db)"
  shows "has_intent db' i k"
proof -
  obtain r where r: "r \<in> set (intents_tbl db)" "ri_intent_id r = i" "ri_run_key r = k"
    using assms(1) by (auto simp: has_intent_def)
  let ?r = "if sel r then f r else r"
  have "?r \<in> set (intents_tbl db')" unfolding assms(3) set_update_where using r(1) by blast
  moreover have "ri_intent_id ?r = i" "ri_run_key ?r = k" using r(2,3) assms(2) by (simp_all add: in_place_def)
  ultimately show ?thesis unfolding has_intent_def by blast
qed

lemma intent_stays:
  assumes ok: "queue_ok db" and here: "has_intent db i k"
  shows "has_intent (rq_apply load e db) i k"
proof (cases e)
  case (RqEnqueue now j l reason ev)
  show ?thesis
  proof (cases rule: enqueue_spec [OF ok, of load now j l reason ev])
    case 2
    with here show ?thesis by (auto simp: RqEnqueue has_intent_def)
  next
    case (3 row)
    show ?thesis using has_intent_rewrite [OF here in_place_ops(1) 3(3)] by (simp add: RqEnqueue)
  qed (use here in \<open>simp add: RqEnqueue\<close>)
next
  case (RqClaim now v secs)
  show ?thesis
  proof (cases rule: claim_spec [OF ok, of now v secs])
    case (2 row)
    show ?thesis using has_intent_rewrite [OF here in_place_ops(2) 2(5)] by (simp add: RqClaim)
  qed (use here in \<open>simp add: RqClaim\<close>)
next
  case (RqStep now j v st secs)
  show ?thesis
  proof (cases rule: step_spec [OF ok, of now j v st secs])
    case (2 row)
    show ?thesis using has_intent_rewrite [OF here in_place_ops(4) 2(5)] by (simp add: RqStep)
  qed (use here in \<open>simp add: RqStep\<close>)
next
  case (RqFinish now j v err)
  show ?thesis
  proof (cases rule: finish_spec [OF ok, of now j v err])
    case (2 row)
    show ?thesis using has_intent_rewrite [OF here in_place_ops(3) 2(5)] by (simp add: RqFinish)
  qed (use here in \<open>simp add: RqFinish\<close>)
qed

text \<open>The worker holds the run of its intent.\<close>

definition holding :: "queue_db \<Rightarrow> string \<Rightarrow> string \<Rightarrow> string \<Rightarrow> int \<Rightarrow> bool \<Rightarrow> bool" where
  "holding db w i k u d \<longleftrightarrow> queue_ok db \<and> has_intent db i k \<and> abs_queue db k = Leased w u d"

lemma holding_events:
  "holding db w i k u d \<Longrightarrow> list_all (foreign w u) es \<Longrightarrow>
   holding (fold (rq_apply load) es db) w i k u (wakes load k es db \<or> d)"
proof (induction es arbitrary: db d)
  case (Cons e es)
  then have db: "queue_ok db" "has_intent db i k" "abs_queue db k = Leased w u d" and e: "foreign w u e"
    by (simp_all add: holding_def)
  have "holding (rq_apply load e db) w i k u (wakes_now load k e db \<or> d)"
    unfolding holding_def using lease_kept_step [OF db(1,3) e] rq_apply_ok [OF db(1)] intent_stays [OF db(1,2)] by simp
  from Cons.IH [OF this] Cons.prems(2) show ?case by (simp add: disj_ac)
qed auto

section \<open>The worker's own operations\<close>

lemma claimed_holding:
  assumes ok: "queue_ok db" and "claim_reconcile now w secs db = (Inr (Some intent), db')"
  shows "holding db' w (ri_intent_id intent) (ri_run_key intent) (now + secs) False"
proof (cases rule: claim_spec [OF ok, of now w secs])
  case 1
  with assms(2) show ?thesis by simp
next
  case (2 row)
  with assms(2) have intent: "intent = lease_intent now w secs row" and db': "db' = snd (claim_reconcile now w secs db)"
    by simp_all
  have "has_intent db (ri_intent_id row) (ri_run_key row)" using 2(2) by (auto simp: has_intent_def)
  moreover have "abs_queue db' = (abs_queue db)(ri_run_key row := Leased w (now + secs) False)"
    unfolding db' using abs_queue_one_row [OF ok 2(2) in_place_ops(2) 2(5)] by (simp add: abs_row_ops)
  moreover have "queue_ok db'" unfolding db' using rq_apply_ok [OF ok, of undefined "RqClaim now w secs"] by simp
  ultimately show ?thesis using has_intent_rewrite [OF _ in_place_ops(2) 2(5)] db'
    by (simp add: holding_def intent lease_intent_def)
qed

lemma holding_row:
  assumes "holding db w i k u d"
  obtains row where "row \<in> set (intents_tbl db)" "ri_intent_id row = i" "ri_run_key row = k" "abs_row row = Leased w u d"
  using assms abs_queue_row unfolding holding_def has_intent_def by metis

lemma step_holding:
  assumes holding: "holding db w i k u d"
  shows "\<exists>db'. update_reconcile_step now i w st secs db = (Inr (), db') \<and> holding db' w i k (now + secs) d"
proof -
  have ok: "queue_ok db" using holding by (simp add: holding_def)
  obtain row where row: "row \<in> set (intents_tbl db)" "ri_intent_id row = i" "ri_run_key row = k" "abs_row row = Leased w u d"
    using holding_row [OF holding] .
  show ?thesis
  proof (cases rule: step_spec [OF ok, of now i w st secs])
    case 1
    with row show ?thesis by auto
  next
    case (2 r)
    have r: "r = row" using intent_unique [OF ok 2(1) row(1)] 2(2) row(2) by simp
    let ?db' = "snd (update_reconcile_step now i w st secs db)"
    have "abs_queue ?db' k = Leased w (now + secs) d"
      using abs_queue_one_row [OF ok 2(1) in_place_ops(4) 2(5)] abs_row_ops(3) [OF row(4)] r row(3,4) by simp
    moreover have "queue_ok ?db'" using rq_apply_ok [OF ok, of undefined "RqStep now i w st secs"] by simp
    moreover have "has_intent ?db' i k" using intent_stays [of db i k undefined "RqStep now i w st secs"] holding
      by (simp add: holding_def)
    ultimately show ?thesis using 2(4) unfolding holding_def by (metis prod.collapse)
  qed
qed

lemma finish_holding:
  assumes holding: "holding db w i k u d"
  shows "\<exists>db'. finish_reconcile now i w err db = (Inr (), db') \<and> abs_queue db' k = release (truthy_str err) (Leased w u d)"
proof -
  have ok: "queue_ok db" using holding by (simp add: holding_def)
  obtain row where row: "row \<in> set (intents_tbl db)" "ri_intent_id row = i" "ri_run_key row = k" "abs_row row = Leased w u d"
    using holding_row [OF holding] .
  show ?thesis
  proof (cases rule: finish_spec [OF ok, of now i w err])
    case 1
    with row show ?thesis by auto
  next
    case (2 r)
    have r: "r = row" using intent_unique [OF ok 2(1) row(1)] 2(2) row(2) by simp
    have "abs_queue (snd (finish_reconcile now i w err db)) k = release (truthy_str err) (Leased w u d)"
      using abs_queue_one_row [OF ok 2(1) in_place_ops(3) 2(5)] abs_row_ops(4) [OF row(4)] r row(3,4) by simp
    with 2(4) show ?thesis by (metis prod.collapse)
  qed
qed

section \<open>A round in full\<close>

lemma report_holding:
  assumes "holding (wp_queue s) w i k u d"
  shows "\<exists>q. report_step env i w st secs s = (Inr (), s\<lparr>wp_queue := q\<rparr>) \<and>
    holding q w i k (worker_time env s + secs) d"
  using step_holding [OF assms, of "worker_time env s" st secs]
  by (auto simp: report_step_def on_intents_def on_part_def)

lemma give_back_holding:
  assumes "holding (wp_queue s) w i k u d"
  shows "\<exists>q. give_back env i w err s = (Inr (), s\<lparr>wp_queue := q\<rparr>) \<and>
    abs_queue q k = (if d \<or> truthy_str err then Wanted else Idle)"
  using finish_holding [OF assms, of "worker_time env s" err]
  by (auto simp: give_back_def on_intents_def on_part_def)

text \<open>The worker at work on a run it holds: an error leaves the lease to the handler.\<close>

lemma work_on_holding:
  assumes "holding (wp_queue s) w (ri_intent_id intent) (ri_run_key intent) u False"
    and "report_step env (ri_intent_id intent) w ''recompute-kanban-gitlab'' (lease_seconds env) s = (Inr (), s\<lparr>wp_queue := q\<rparr>)"
    and "holding q w (ri_intent_id intent) (ri_run_key intent) v False"
    and "list_all (foreign w v) (wk_others env (wp_flow s))"
    and "reconcile_run_with_policy (wk_flow env) (wk_merge env) (ri_run_key intent) (wp_flow s) = (r, f)"
  defines "d \<equiv> wakes (wk_load env) (ri_run_key intent) (wk_others env (wp_flow s)) q"
  shows "case r of
      Inl e \<Rightarrow> (\<exists>q'. work_on env w intent s = (Inl e, s\<lparr>wp_flow := f, wp_queue := q'\<rparr>) \<and>
        holding q' w (ri_intent_id intent) (ri_run_key intent) v d)
    | Inr _ \<Rightarrow> (\<exists>t. work_on env w intent s = (Inr True, t) \<and>
        abs_queue (wp_queue t) (ri_run_key intent) = (if d then Wanted else Idle))"
proof -
  define s1 where "s1 = s\<lparr>wp_flow := f, wp_queue := fold (rq_apply (wk_load env)) (wk_others env (wp_flow s)) q\<rparr>"
  have rec: "reconciling env (ri_run_key intent) (s\<lparr>wp_queue := q\<rparr>) = (r, s1)"
    using assms(5) by (simp add: reconciling_def s1_def)
  have h: "holding (wp_queue s1) w (ri_intent_id intent) (ri_run_key intent) v d"
    using holding_events [OF assms(3,4), of "wk_load env"] by (simp add: s1_def d_def)
  show ?thesis
  proof (cases r)
    case (Inl e)
    have "work_on env w intent s = (Inl e, s1)" using rec Inl assms(2) by (simp add: work_on_def then_do_def read_state_def)
    with h Inl show ?thesis by (auto simp: s1_def)
  next
    case (Inr x)
    define st where "st = ''completed:'' @ int_str \<lfloor>milliseconds env s1 - milliseconds env s\<rfloor> @ ''ms''"
    obtain q2 where q2: "report_step env (ri_intent_id intent) w st 60 s1 = (Inr (), s1\<lparr>wp_queue := q2\<rparr>)"
      "holding q2 w (ri_intent_id intent) (ri_run_key intent) (worker_time env s1 + 60) d"
      using report_holding [OF h] by blast
    obtain q3 where q3: "give_back env (ri_intent_id intent) w None (s1\<lparr>wp_queue := q2\<rparr>) = (Inr (), s1\<lparr>wp_queue := q3\<rparr>)"
      "abs_queue q3 (ri_run_key intent) = (if d then Wanted else Idle)"
      using give_back_holding [of "s1\<lparr>wp_queue := q2\<rparr>" w "ri_intent_id intent" "ri_run_key intent" "worker_time env s1 + 60" d env None] q2(2)
      by (auto simp: truthy_str_def)
    have "work_on env w intent s = then_do (set_last_error None) (\<lambda>_. give True) (s1\<lparr>wp_queue := q3\<rparr>)"
      using rec Inr assms(2) q2(1) q3(1) by (simp add: work_on_def then_do_def read_state_def st_def)
    then show ?thesis using Inr q3(2) by (simp add: then_do_def set_last_error_def give_def)
  qed
qed


text \<open>A worker in the sample world, while another thread enqueues its run again.\<close>

definition sample_worker :: "bool worker_env" where
  "sample_worker = \<lparr>wk_flow = noting_env, wk_merge = noting_merge, wk_load = sample_load,
     wk_others = (\<lambda>_. [RqEnqueue 12 ''i2'' ''hollysys-1'' ''again'' None])\<rparr>"

definition sample_place :: "bool workplace" where
  "sample_place = \<lparr>wp_flow = noting_state,
     wp_queue = rq_apply sample_load (RqEnqueue 5 ''i1'' ''hollysys-1'' ''event'' (Some 4)) queue0\<rparr>"

lemma sample_place_queue: "wp_queue sample_place = queue0\<lparr>intents_tbl := [new_intent 5 ''i1'' ''hollysys-1'' ''event'' (Some 4)]\<rparr>"
  by (simp add: sample_place_def queue0_def enqueue_reconcile_def run_record_def load_record_def find_run_def
      sample_runs_def save_run_def insert_run_def connect_def empty_runs_def sample_run_def find_intent_def)

lemma sample_times: "worker_time sample_worker s = 9" "lease_seconds sample_worker = 360"
  by (simp_all add: worker_time_def lease_seconds_def sample_worker_def noting_env_def sample_config_def)


end
